(* ===== verification/Prelude.thy ===== *)
theory Prelude
  imports Main "HOL-Library.Sublist"
begin

text \<open>
  The generic part of the library: named collections of rewrite rules, the Go string
  helpers the sources call (\<open>strings.HasPrefix\<close>, \<open>TrimSpace\<close>, \<open>ToLower\<close>, \<open>Contains\<close>,
  \<open>Split\<close>, decimal printing and \<open>strconv.Atoi\<close>), lemmas on filtered and updated
  lists (the shape of every SQL statement), and the program type: a Go function that
  returns \<open>(T, error)\<close> and acts on a state is a function from the state to a sum and a
  new state.  \<open>call m h k\<close> is the Go idiom \<open>x, err := m; if err != nil { h }; k\<close>.
\<close>

named_theorems go_simps "evaluation of the program combinators"
named_theorems row_simps "facts about filtered and updated tables"

section \<open>Strings, as byte lists\<close>

definition has_prefix :: "string \<Rightarrow> string \<Rightarrow> bool" where
  "has_prefix s p \<longleftrightarrow> take (length p) s = p"

definition trim_prefix :: "string \<Rightarrow> string \<Rightarrow> string" where
  "trim_prefix s p = (if has_prefix s p then drop (length p) s else s)"

fun str_contains :: "string \<Rightarrow> string \<Rightarrow> bool" where
  "str_contains [] p = (p = [])"
| "str_contains (c # s) p = (has_prefix (c # s) p \<or> str_contains s p)"

definition is_space :: "char \<Rightarrow> bool" where
  "is_space c \<longleftrightarrow> c \<in> set [CHR 0x09, CHR 0x0A, CHR 0x0B, CHR 0x0C, CHR 0x0D, CHR '' '']"

definition trim_space :: "string \<Rightarrow> string" where
  "trim_space s = rev (dropWhile is_space (rev (dropWhile is_space s)))"

definition byte_of :: "char \<Rightarrow> nat" where
  "byte_of c = of_char c"

definition in_range :: "char \<Rightarrow> char \<Rightarrow> char \<Rightarrow> bool" where
  "in_range lo hi c \<longleftrightarrow> byte_of lo \<le> byte_of c \<and> byte_of c \<le> byte_of hi"

definition is_digit :: "char \<Rightarrow> bool" where
  "is_digit c \<longleftrightarrow> in_range CHR ''0'' CHR ''9'' c"

definition is_lower :: "char \<Rightarrow> bool" where
  "is_lower c \<longleftrightarrow> in_range CHR ''a'' CHR ''z'' c"

definition is_upper :: "char \<Rightarrow> bool" where
  "is_upper c \<longleftrightarrow> in_range CHR ''A'' CHR ''Z'' c"

definition lower_char :: "char \<Rightarrow> char" where
  "lower_char c = (if is_upper c then char_of (byte_of c + 32) else c)"

definition to_lower :: "string \<Rightarrow> string" where
  "to_lower s = map lower_char s"

fun split_on :: "char \<Rightarrow> string \<Rightarrow> string list" where
  "split_on sep [] = [[]]"
| "split_on sep (c # s) =
     (if c = sep then [] # split_on sep s
      else (case split_on sep s of [] \<Rightarrow> [[c]] | p # ps \<Rightarrow> (c # p) # ps))"

lemma has_prefix_append [simp]: "has_prefix (p @ s) p"
  by (simp add: has_prefix_def)

lemma has_prefix_iff: "has_prefix s p \<longleftrightarrow> (\<exists>t. s = p @ t)"
  by (metis append_take_drop_id has_prefix_append has_prefix_def)

text \<open>\<open>strings.Join\<close>.\<close>

fun join_with :: "string \<Rightarrow> string list \<Rightarrow> string" where
  "join_with sep [] = []"
| "join_with sep [x] = x"
| "join_with sep (x # y # xs) = x @ sep @ join_with sep (y # xs)"

text \<open>\<open>ORDER BY\<close> on strings: the order of the bytes, a proper prefix first.\<close>

fun str_le :: "string \<Rightarrow> string \<Rightarrow> bool" where
  "str_le [] t = True"
| "str_le (c # s) [] = False"
| "str_le (c # s) (e # t) = (byte_of c < byte_of e \<or> (c = e \<and> str_le s t))"

lemma byte_of_inject: "byte_of c = byte_of e \<longleftrightarrow> c = e"
  by (metis byte_of_def char_of_char)

lemma str_le_refl: "str_le s s"
  by (induction s) auto

lemma str_le_total: "str_le s t \<or> str_le t s"
proof (induction s t rule: str_le.induct)
  case (3 c s e t)
  have "byte_of c < byte_of e \<or> c = e \<or> byte_of e < byte_of c"
    using byte_of_inject [of c e] by linarith
  with 3 show ?case by auto
qed auto

lemma str_le_trans: "str_le s t \<Longrightarrow> str_le t u \<Longrightarrow> str_le s u"
proof (induction s t arbitrary: u rule: str_le.induct)
  case (3 c s e t)
  then show ?case by (cases u) auto
qed auto

lemma str_le_antisym: "str_le s t \<Longrightarrow> str_le t s \<Longrightarrow> s = t"
proof (induction s t rule: str_le.induct)
  case (1 t)
  then show ?case by (cases t) auto
qed auto

section \<open>Decimal numbers\<close>

definition digit_char :: "nat \<Rightarrow> char" where
  "digit_char d = char_of (48 + d)"

fun show_nat :: "nat \<Rightarrow> string" where
  "show_nat n = (if n < 10 then [digit_char n] else show_nat (n div 10) @ [digit_char (n mod 10)])"

declare show_nat.simps [simp del]

definition show_int :: "int \<Rightarrow> string" where
  "show_int i = (if i < 0 then CHR ''-'' # show_nat (nat (- i)) else show_nat (nat i))"

definition pad_left :: "nat \<Rightarrow> string \<Rightarrow> string" where
  "pad_left n s = replicate (n - length s) CHR ''0'' @ s"

definition digit_val :: "char \<Rightarrow> nat" where
  "digit_val c = byte_of c - 48"

fun digits_val :: "nat \<Rightarrow> string \<Rightarrow> nat" where
  "digits_val acc [] = acc"
| "digits_val acc (c # s) = digits_val (10 * acc + digit_val c) s"

text \<open>\<open>strconv.Atoi\<close> on an unsigned decimal: \<open>None\<close> is its syntax error.  The sign is
  accepted as the library accepts it.\<close>

definition parse_digits :: "string \<Rightarrow> nat option" where
  "parse_digits s = (if s \<noteq> [] \<and> list_all is_digit s then Some (digits_val 0 s) else None)"

definition atoi :: "string \<Rightarrow> int option" where
  "atoi s = (case s of
      [] \<Rightarrow> None
    | c # t \<Rightarrow>
        (let r = (if c = CHR ''-'' then map_option (\<lambda>n. - int n) (parse_digits t)
                  else if c = CHR ''+'' then map_option int (parse_digits t)
                  else map_option int (parse_digits s))
         in case r of
              None \<Rightarrow> None
            | Some n \<Rightarrow> if - (2 ^ 63) \<le> n \<and> n < 2 ^ 63 then Some n else None))"

lemma digit_char_props:
  assumes "d < 10"
  shows "is_digit (digit_char d)" and "digit_val (digit_char d) = d"
    and "byte_of (digit_char d) = 48 + d"
proof -
  have c: "byte_of (digit_char d) = 48 + d"
    using assms by (simp add: byte_of_def digit_char_def)
  then show "byte_of (digit_char d) = 48 + d" .
  have "byte_of CHR ''0'' = 48" "byte_of CHR ''9'' = 57" by (simp_all add: byte_of_def)
  with c assms show "is_digit (digit_char d)"
    by (simp add: is_digit_def in_range_def)
  from c show "digit_val (digit_char d) = d" by (simp add: digit_val_def)
qed

lemma digits_val_append: "digits_val a (s @ t) = digits_val (digits_val a s) t"
  by (induction s arbitrary: a) auto

lemma digits_val_zeros: "digits_val 0 (replicate n CHR ''0'' @ s) = digits_val 0 s"
proof -
  have "digit_val CHR ''0'' = 0" by (simp add: digit_val_def byte_of_def)
  then show ?thesis by (induction n) auto
qed

lemma show_nat_digits: "list_all is_digit (show_nat n)"
proof (induction n rule: show_nat.induct)
  case (1 n)
  then show ?case
    by (cases "n < 10") (auto simp: show_nat.simps [of n] digit_char_props)
qed

lemma show_nat_not_Nil [simp]: "show_nat n \<noteq> []"
  by (subst show_nat.simps) simp

lemma digits_val_show_nat: "digits_val 0 (show_nat n) = n"
proof (induction n rule: show_nat.induct)
  case (1 n)
  show ?case
  proof (cases "n < 10")
    case True
    then show ?thesis by (simp add: show_nat.simps [of n] digit_char_props)
  next
    case False
    with 1 have "digits_val 0 (show_nat (n div 10)) = n div 10" by simp
    with False show ?thesis
      by (simp add: show_nat.simps [of n] digits_val_append digit_char_props)
  qed
qed

lemma show_nat_inject: "show_nat m = show_nat n \<longleftrightarrow> m = n"
  by (metis digits_val_show_nat)

lemma pad_left_digits: "list_all is_digit s \<Longrightarrow> list_all is_digit (pad_left n s)"
proof -
  have "is_digit CHR ''0''" by (simp add: is_digit_def in_range_def byte_of_def)
  then show "list_all is_digit s \<Longrightarrow> list_all is_digit (pad_left n s)"
    by (auto simp: pad_left_def list_all_iff)
qed

lemma pad_left_val: "digits_val 0 (pad_left n s) = digits_val 0 s"
  by (simp add: pad_left_def digits_val_zeros)

lemma parse_digits_pad_show: "parse_digits (pad_left k (show_nat n)) = Some n"
  using show_nat_digits [of n] pad_left_digits [of "show_nat n" k] show_nat_not_Nil [of n]
  by (simp add: parse_digits_def pad_left_val digits_val_show_nat) (simp add: pad_left_def)

lemma digit_not_sign: "is_digit c \<Longrightarrow> c \<noteq> CHR ''-'' \<and> c \<noteq> CHR ''+''"
  by (auto simp: is_digit_def in_range_def byte_of_def)

lemma atoi_pad_show:
  assumes "n < 2 ^ 63"
  shows "atoi (pad_left k (show_nat n)) = Some (int n)"
proof -
  let ?s = "pad_left k (show_nat n)"
  have ne: "?s \<noteq> []" by (simp add: pad_left_def)
  then obtain c t where ct: "?s = c # t" by (cases ?s) auto
  have "list_all is_digit ?s" by (rule pad_left_digits) (rule show_nat_digits)
  with ct have "is_digit c" by simp
  then have "c \<noteq> CHR ''-''" "c \<noteq> CHR ''+''" by (simp_all add: digit_not_sign)
  moreover have "int n < 2 ^ 63" using assms by (simp flip: of_nat_power add: of_nat_less_iff)
  moreover have "- (2 ^ 63) \<le> int n" by (rule order_trans [of _ 0]) simp_all
  ultimately show ?thesis
    using parse_digits_pad_show [of k n] by (simp add: atoi_def ct)
qed

text \<open>Go's \<open>int\<close> and \<open>int32\<close> arithmetic and conversions wrap around.\<close>

definition wrap64 :: "int \<Rightarrow> int" where
  "wrap64 x = (x + 2 ^ 63) mod 2 ^ 64 - 2 ^ 63"

definition wrap32 :: "int \<Rightarrow> int" where
  "wrap32 x = (x + 2 ^ 31) mod 2 ^ 32 - 2 ^ 31"

lemma wrap32_id: "- (2 ^ 31) \<le> x \<Longrightarrow> x < 2 ^ 31 \<Longrightarrow> wrap32 x = x"
  by (simp add: wrap32_def)

section \<open>Rows: filtered and updated lists\<close>

text \<open>A table is a list of rows in insertion order.  \<open>upd\<close> is the SQL \<open>UPDATE\<close>,
  \<open>changed\<close> the number MySQL reports as affected (rows whose value changed).\<close>

definition upd :: "('r \<Rightarrow> bool) \<Rightarrow> ('r \<Rightarrow> 'r) \<Rightarrow> 'r list \<Rightarrow> 'r list" where
  "upd P f rs = map (\<lambda>r. if P r then f r else r) rs"

definition changed :: "('r \<Rightarrow> bool) \<Rightarrow> ('r \<Rightarrow> 'r) \<Rightarrow> 'r list \<Rightarrow> nat" where
  "changed P f rs = length (filter (\<lambda>r. P r \<and> f r \<noteq> r) rs)"

definition deleted :: "('r \<Rightarrow> bool) \<Rightarrow> 'r list \<Rightarrow> 'r list" where
  "deleted P rs = filter (\<lambda>r. \<not> P r) rs"

definition first_row :: "('r \<Rightarrow> bool) \<Rightarrow> 'r list \<Rightarrow> 'r option" where
  "first_row P rs = List.find P rs"

lemma upd_Nil [simp]: "upd P f [] = []"
  by (simp add: upd_def)

lemma upd_Cons [simp]: "upd P f (r # rs) = (if P r then f r else r) # upd P f rs"
  by (simp add: upd_def)

lemma set_upd: "set (upd P f rs) = f ` {r \<in> set rs. P r} \<union> {r \<in> set rs. \<not> P r}"
  by (auto simp: upd_def)

lemma length_upd [simp]: "length (upd P f rs) = length rs"
  by (simp add: upd_def)

lemma map_upd_frame:
  assumes "\<And>r. P r \<Longrightarrow> k (f r) = k r"
  shows "map k (upd P f rs) = map k rs"
  using assms by (auto simp: upd_def)

lemma set_deleted [simp]: "set (deleted P rs) = {r \<in> set rs. \<not> P r}"
  by (auto simp: deleted_def)

lemma first_row_Some: "first_row P rs = Some r \<Longrightarrow> r \<in> set rs \<and> P r"
  by (auto simp: first_row_def find_Some_iff in_set_conv_nth)

lemma first_row_None: "first_row P rs = None \<longleftrightarrow> (\<forall>r \<in> set rs. \<not> P r)"
  by (auto simp: first_row_def find_None_iff)

lemma first_row_Nil [simp]: "first_row P [] = None"
  by (simp add: first_row_def)

lemma first_row_Cons [simp]:
  "first_row P (r # rs) = (if P r then Some r else first_row P rs)"
  by (simp add: first_row_def)

lemma first_row_append:
  "first_row P (rs @ ts) =
     (case first_row P rs of Some r \<Rightarrow> Some r | None \<Rightarrow> first_row P ts)"
  by (induction rs) auto

lemma first_row_upd:
  assumes "\<And>r. P r \<Longrightarrow> Q (f r) = Q r"
  shows "first_row Q (upd P f rs) = map_option (\<lambda>r. if P r then f r else r) (first_row Q rs)"
  using assms by (induction rs) auto

lemma changed_Nil [simp]: "changed P f [] = 0"
  by (simp add: changed_def)

lemma changed_Cons [simp]:
  "changed P f (r # rs) = (if P r \<and> f r \<noteq> r then Suc (changed P f rs) else changed P f rs)"
  by (simp add: changed_def)

lemma changed_0: "changed P f rs = 0 \<longleftrightarrow> upd P f rs = rs"
  by (induction rs) auto

lemma changed_0_first:
  "(\<And>r. P r \<Longrightarrow> f r \<noteq> r) \<Longrightarrow> changed P f rs = 0 \<longleftrightarrow> first_row P rs = None"
  by (auto simp: changed_def first_row_None filter_empty_conv)

lemma upd_no_match: "first_row P rs = None \<Longrightarrow> upd P f rs = rs"
  by (induction rs) (auto split: if_splits)

lemma distinct_key_unique:
  "distinct (map k rs) \<Longrightarrow> r \<in> set rs \<Longrightarrow> r' \<in> set rs \<Longrightarrow> k r = k r' \<Longrightarrow> r = r'"
  by (metis distinct_map inj_onD)

lemma changed_one:
  assumes "distinct (map k rs)" "r \<in> set rs" "P r" "f r \<noteq> r" "\<And>x. x \<in> set rs \<Longrightarrow> P x \<Longrightarrow> k x = k r"
  shows "changed P f rs = 1"
proof -
  have "filter (\<lambda>x. P x \<and> f x \<noteq> x) rs = filter (\<lambda>x. x = r) rs"
    using assms by (intro filter_cong) (auto dest: distinct_key_unique)
  moreover have "filter (\<lambda>x. x = r) rs = [r]"
    using assms(1,2) by (induction rs) (auto simp: filter_empty_conv)
  ultimately show ?thesis by (simp add: changed_def)
qed

lemma first_row_key:
  assumes "distinct (map k rs)" "r \<in> set rs"
  shows "first_row (\<lambda>x. k x = k r) rs = Some r"
  using assms
proof (induction rs)
  case (Cons a rs)
  then show ?case
    by (cases "r = a") (auto dest: arg_cong [of _ _ k] imageI [of r "set rs" k])
qed simp

lemma list_all_upd: "list_all Q rs \<Longrightarrow> (\<And>r. r \<in> set rs \<Longrightarrow> P r \<Longrightarrow> Q r \<Longrightarrow> Q (f r)) \<Longrightarrow> list_all Q (upd P f rs)"
  by (auto simp: list_all_iff upd_def)

lemma list_all_deleted: "list_all Q rs \<Longrightarrow> list_all Q (deleted P rs)"
  by (auto simp: list_all_iff deleted_def)

lemma distinct_upd_key:
  assumes "distinct (map k rs)" "distinct (map g rs)" "\<And>r. r \<in> set rs \<Longrightarrow> k r \<noteq> i \<Longrightarrow> g r \<noteq> v" "\<And>r. g (f r) = v"
  shows "distinct (map g (upd (\<lambda>r. k r = i) f rs))"
  using assms(1-3)
proof (induction rs)
  case (Cons r rs)
  have "upd (\<lambda>r. k r = i) f rs = rs" if "k r = i"
    using that Cons.prems(1) by (intro upd_no_match) (auto simp: first_row_None image_iff)
  then show ?case using Cons assms(4) by (auto simp: set_upd image_iff)
qed simp

lemma distinct_deleted: "distinct (map k rs) \<Longrightarrow> distinct (map k (deleted P rs))"
  by (simp add: deleted_def distinct_map_filter)

section \<open>Programs: state, result, error\<close>

type_synonym ('s, 'e, 'a) prog = "'s \<Rightarrow> ('e + 'a) \<times> 's"

definition ret :: "'a \<Rightarrow> ('s, 'e, 'a) prog" where
  "ret x = (\<lambda>s. (Inr x, s))"

definition fail :: "'e \<Rightarrow> ('s, 'e, 'a) prog" where
  "fail e = (\<lambda>s. (Inl e, s))"

definition call ::
  "('s, 'e, 'a) prog \<Rightarrow> ('e \<Rightarrow> ('s, 'f, 'b) prog) \<Rightarrow> ('a \<Rightarrow> ('s, 'f, 'b) prog) \<Rightarrow> ('s, 'f, 'b) prog"
where
  "call m h k = (\<lambda>s. case m s of (Inl e, t) \<Rightarrow> h e t | (Inr x, t) \<Rightarrow> k x t)"

text \<open>\<open>if err != nil { return err }\<close>, and the sequencing of calls that cannot fail.\<close>

definition bind :: "('s, 'e, 'a) prog \<Rightarrow> ('a \<Rightarrow> ('s, 'e, 'b) prog) \<Rightarrow> ('s, 'e, 'b) prog" where
  "bind m k = call m fail k"

text \<open>A call whose error is dropped: \<open>_ = m()\<close> or a logged warning.\<close>

definition ignoring :: "('s, 'e, 'a) prog \<Rightarrow> ('s, 'f, 'b) prog \<Rightarrow> ('s, 'f, 'b) prog" where
  "ignoring m k = call m (\<lambda>_. k) (\<lambda>_. k)"

fun for_each :: "('a \<Rightarrow> ('s, 'e, 'u) prog) \<Rightarrow> 'a list \<Rightarrow> ('s, 'e, unit) prog" where
  "for_each f [] = ret ()"
| "for_each f (x # xs) = call (f x) fail (\<lambda>_. for_each f xs)"

lemma ret_run [go_simps]: "ret x s = (Inr x, s)"
  by (simp add: ret_def)

lemma fail_run [go_simps]: "fail e s = (Inl e, s)"
  by (simp add: fail_def)

lemma call_run [go_simps]:
  "call m h k s = (case m s of (Inl e, t) \<Rightarrow> h e t | (Inr x, t) \<Rightarrow> k x t)"
  by (simp add: call_def)

lemma bind_run [go_simps]:
  "bind m k s = (case m s of (Inl e, t) \<Rightarrow> (Inl e, t) | (Inr x, t) \<Rightarrow> k x t)"
  by (simp add: bind_def call_def fail_def split: sum.splits prod.splits)

lemma call_Inr: "m s = (Inr x, t) \<Longrightarrow> call m h k s = k x t"
  by (simp add: call_def)

lemma call_Inl: "m s = (Inl e, t) \<Longrightarrow> call m h k s = h e t"
  by (simp add: call_def)

lemma ignoring_run [go_simps]: "ignoring m k s = k (snd (m s))"
  by (cases "m s"; cases "fst (m s)") (auto simp: ignoring_def call_def)

subsection \<open>Frames: what a program may do to its state\<close>

text \<open>\<open>within R m\<close>: every run of \<open>m\<close> moves the state along \<open>R\<close>, whatever it returns.
  The locale carries the composition rules for any reflexive and transitive \<open>R\<close>.\<close>

definition within :: "('s \<Rightarrow> 's \<Rightarrow> bool) \<Rightarrow> ('s, 'e, 'a) prog \<Rightarrow> bool" where
  "within R m \<longleftrightarrow> (\<forall>s. R s (snd (m s)))"

lemma withinD: "within R m \<Longrightarrow> R s (snd (m s))"
  by (simp add: within_def)

lemma within_mono: "within R m \<Longrightarrow> (\<And>s t. R s t \<Longrightarrow> Q s t) \<Longrightarrow> within Q m"
  by (auto simp: within_def)

locale step_frame =
  fixes R :: "'s \<Rightarrow> 's \<Rightarrow> bool"
  assumes frame_refl: "R s s"
    and frame_trans: "R s t \<Longrightarrow> R t u \<Longrightarrow> R s u"
begin

lemma within_ret [intro]: "within R (ret x)"
  by (simp add: within_def ret_def frame_refl)

lemma within_fail [intro]: "within R (fail e)"
  by (simp add: within_def fail_def frame_refl)

lemma within_call [intro]:
  assumes "within R m" "\<And>e. within R (h e)" "\<And>x. within R (k x)"
  shows "within R (call m h k)"
  unfolding within_def
proof
  fix s
  obtain r t where rt: "m s = (r, t)" by (cases "m s")
  with assms(1) have st: "R s t" by (metis snd_conv withinD)
  show "R s (snd (call m h k s))"
  proof (cases r)
    case (Inl e)
    with rt have "call m h k s = h e t" by (simp add: call_def)
    with st assms(2) show ?thesis by (metis frame_trans withinD)
  next
    case (Inr x)
    with rt have "call m h k s = k x t" by (simp add: call_def)
    with st assms(3) show ?thesis by (metis frame_trans withinD)
  qed
qed

lemma within_bind [intro]:
  "within R m \<Longrightarrow> (\<And>x. within R (k x)) \<Longrightarrow> within R (bind m k)"
  unfolding bind_def by (rule within_call) (auto intro: within_fail)

lemma within_ignoring [intro]: "within R m \<Longrightarrow> within R k \<Longrightarrow> within R (ignoring m k)"
  unfolding ignoring_def by (rule within_call)

lemma within_if [intro]: "(b \<Longrightarrow> within R m) \<Longrightarrow> (\<not> b \<Longrightarrow> within R n) \<Longrightarrow> within R (if b then m else n)"
  by simp

lemma within_option [intro]:
  "(x = None \<Longrightarrow> within R m) \<Longrightarrow> (\<And>y. x = Some y \<Longrightarrow> within R (k y)) \<Longrightarrow>
   within R (case x of None \<Rightarrow> m | Some y \<Rightarrow> k y)"
  by (cases x) auto

lemma within_sum [intro]:
  "(\<And>e. within R (h e)) \<Longrightarrow> (\<And>y. within R (k y)) \<Longrightarrow>
   within R (case x of Inl e \<Rightarrow> h e | Inr y \<Rightarrow> k y)"
  by (cases x) auto

lemma within_for_each [intro]: "(\<And>x. x \<in> set xs \<Longrightarrow> within R (f x)) \<Longrightarrow> within R (for_each f xs)"
  by (induction xs) auto

lemmas within_rules = within_ret within_fail within_call within_bind within_ignoring
  within_if within_option within_sum within_for_each

end

text \<open>Any invariant is a frame: the relation "if it held before, it holds after".\<close>

interpretation inv_frame: step_frame "\<lambda>s t. I s \<longrightarrow> I t" for I :: "'s \<Rightarrow> bool"
  by unfold_locales auto

text \<open>Any part of the state that is left alone is a frame.\<close>

interpretation same_frame: step_frame "\<lambda>s t. f t = f s" for f :: "'s \<Rightarrow> 'b"
  by unfold_locales auto

text \<open>Pages of a list.\<close>

lemma concat_chunks: "concat (map (\<lambda>n. take l (drop (n * l) xs)) [0..<k]) = take (k * l) xs"
proof (induction k)
  case (Suc k)
  then show ?case by (simp add: take_add add.commute [of l])
qed simp

end
