(* ===== verification/Float64.thy ===== *)
theory Float64
  imports Prelude
begin

text \<open>
  The \<open>float64\<close> arithmetic the code uses, as exact integer arithmetic followed by one
  correct rounding (round to nearest, ties to even, 53 significant bits), which is what
  IEEE 754 and Go prescribe.  A finite double \<open>v\<close> is the integer \<open>v * 2 ^ 120\<close>: every double
  the program meets (ratios of lesson counts, hours, money, square roots of point totals)
  is either 0 or at least \<open>2 ^ -64\<close> in magnitude, so it is an integer at this scale and no
  subnormal, overflow or NaN arises.  The two facts every comparison rests on are
  \<open>rnd_pos_exact\<close> (a representable value is kept) and \<open>rnd_pos_mono\<close> (rounding is monotone).
\<close>

fun bitlen :: "int \<Rightarrow> nat" where
  "bitlen n = (if n \<le> 0 then 0 else Suc (bitlen (n div 2)))"

declare bitlen.simps [simp del]

text \<open>The integer nearest to \<open>a / c\<close>, ties to even.\<close>

definition rne :: "int \<Rightarrow> int \<Rightarrow> int" where
  "rne a c =
     (let q = a div c; r = a mod c
      in if 2 * r < c \<or> (2 * r = c \<and> even q) then q else q + 1)"

text \<open>\<open>a / b\<close> rounded to 53 significant bits.\<close>

definition rnd_pos :: "int \<Rightarrow> int \<Rightarrow> int" where
  "rnd_pos a b = (let k = bitlen (a div b) - 53 in rne a (b * 2 ^ k) * 2 ^ k)"

definition rnd :: "int \<Rightarrow> int \<Rightarrow> int" where
  "rnd a b = (if a < 0 then - rnd_pos (- a) b else rnd_pos a b)"

type_synonym dbl = int

definition dbl_one :: dbl where "dbl_one = 2 ^ 120"

definition dbl_of_int :: "int \<Rightarrow> dbl" where
  "dbl_of_int i = rnd (i * dbl_one) 1"

text \<open>A decimal constant \<open>n / d\<close> of the source, or a parsed decimal.\<close>

definition dbl_of_frac :: "int \<Rightarrow> int \<Rightarrow> dbl" where
  "dbl_of_frac n d = rnd (n * dbl_one) d"

definition dbl_add :: "dbl \<Rightarrow> dbl \<Rightarrow> dbl" where
  "dbl_add x y = rnd (x + y) 1"

definition dbl_sub :: "dbl \<Rightarrow> dbl \<Rightarrow> dbl" where
  "dbl_sub x y = rnd (x - y) 1"

definition dbl_mul :: "dbl \<Rightarrow> dbl \<Rightarrow> dbl" where
  "dbl_mul x y = rnd (x * y) dbl_one"

text \<open>Division by a positive double.\<close>

definition dbl_div :: "dbl \<Rightarrow> dbl \<Rightarrow> dbl" where
  "dbl_div x y = rnd (x * dbl_one) y"

text \<open>\<open>int(x)\<close>, towards zero.\<close>

definition dbl_trunc :: "dbl \<Rightarrow> int" where
  "dbl_trunc x = (if x < 0 then - ((- x) div dbl_one) else x div dbl_one)"

text \<open>\<open>fmt.Sprintf("%.2f", x)\<close>: the exact binary value rounded to cents, half to even.\<close>

definition fmt_2f :: "dbl \<Rightarrow> string" where
  "fmt_2f x =
     (let c = rne (\<bar>x\<bar> * 100) dbl_one
      in (if x < 0 then ''-'' else []) @ show_nat (nat (c div 100)) @ ''.''
           @ pad_left 2 (show_nat (nat (c mod 100))))"

text \<open>\<open>strconv.ParseFloat\<close> on an optional sign, digits and an optional fraction, the form
  of a \<open>DECIMAL\<close> column; \<open>None\<close> is its error.\<close>

definition parse_decimal :: "string \<Rightarrow> dbl option" where
  "parse_decimal s =
     (let neg = (s \<noteq> [] \<and> hd s = CHR ''-'');
          t = (if s \<noteq> [] \<and> (hd s = CHR ''-'' \<or> hd s = CHR ''+'') then tl s else s)
      in case split_on (CHR ''.'') t of
           [w] \<Rightarrow> map_option (\<lambda>n. dbl_of_frac (if neg then - int n else int n) 1) (parse_digits w)
         | [w, f] \<Rightarrow>
             (if list_all is_digit w \<and> list_all is_digit f \<and> w @ f \<noteq> [] then
                (let n = int (digits_val 0 (w @ f))
                 in Some (dbl_of_frac (if neg then - n else n) (10 ^ length f)))
              else None)
         | _ \<Rightarrow> None)"

definition dbl_repr :: "int \<Rightarrow> bool" where
  "dbl_repr x \<longleftrightarrow> (\<exists>m k. x = m * 2 ^ k \<and> \<bar>m\<bar> < 2 ^ 53)"

section \<open>Rounding to the nearest integer\<close>

lemma rne_exact: "0 < c \<Longrightarrow> rne (n * c) c = n"
  by (simp add: rne_def)

lemma rne_bounds: "0 < c \<Longrightarrow> a div c \<le> rne a c \<and> rne a c \<le> a div c + 1"
  by (simp add: rne_def Let_def)

lemma frac_le_div:
  fixes a c a' c' :: int
  assumes "0 < c" "0 < c'" "a * c' \<le> a' * c"
  shows "a div c \<le> a' div c'"
proof -
  have "(a div c) * c \<le> a" using assms(1) by (simp add: minus_mod_eq_div_mult [symmetric])
  then have "(a div c) * c * c' \<le> a * c'" using assms(2) by (simp add: mult_right_mono)
  with assms(3) have "((a div c) * c') * c \<le> a' * c" by (simp add: ac_simps)
  then have "(a div c) * c' \<le> a'" using assms(1) by (rule mult_right_le_imp_le)
  then have "(a div c) * c' div c' \<le> a' div c'" using assms(2) by (rule zdiv_mono1)
  then show ?thesis using assms(2) by simp
qed

lemma rne_mono:
  assumes "0 < c" "0 < c'" "a * c' \<le> a' * c"
  shows "rne a c \<le> rne a' c'"
proof (cases "a div c = a' div c'")
  case False
  with frac_le_div [OF assms] have "a div c + 1 \<le> a' div c'" by simp
  with rne_bounds [OF assms(1), of a] rne_bounds [OF assms(2), of a'] show ?thesis by linarith
next
  case True
  define q where "q = a div c"
  have a: "a = q * c + a mod c" and a': "a' = q * c' + a' mod c'"
    by (simp add: q_def) (simp only: q_def True div_mult_mod_eq)
  have "(q * c + a mod c) * c' \<le> (q * c' + a' mod c') * c" using assms(3) a a' by simp
  then have r: "(a mod c) * c' \<le> (a' mod c') * c" by (simp add: algebra_simps)
  have up: "c' \<le> 2 * (a' mod c')" if "c \<le> 2 * (a mod c)"
  proof -
    have "c * c' \<le> 2 * (a mod c) * c'" using that assms(2) by (simp add: mult_right_mono)
    also have "\<dots> \<le> 2 * (a' mod c') * c" using r by (simp add: ac_simps)
    finally show ?thesis using assms(1) by (simp add: mult.commute [of c])
  qed
  have tie: "2 * (a mod c) = c" if "c \<le> 2 * (a mod c)" "2 * (a' mod c') = c'"
  proof -
    have "2 * (a mod c) * c' \<le> c' * c" using r that(2) by (metis mult.assoc mult_le_cancel_left_pos zero_less_numeral)
    then have "2 * (a mod c) \<le> c" using assms(2) by (simp add: mult.commute)
    with that(1) show ?thesis by simp
  qed
  from up tie True show ?thesis by (auto simp: rne_def Let_def)
qed

lemma rne_le: "0 < c \<Longrightarrow> a \<le> n * c \<Longrightarrow> rne a c \<le> n"
  using rne_mono [of c c a "n * c"] by (simp add: rne_exact mult_right_mono)

lemma rne_ge: "0 < c \<Longrightarrow> n * c \<le> a \<Longrightarrow> n \<le> rne a c"
  using rne_mono [of c c "n * c" a] by (simp add: rne_exact mult_right_mono)

section \<open>Rounding to 53 bits\<close>

lemma bitlen_bounds: "0 < n \<Longrightarrow> 2 ^ (bitlen n - 1) \<le> n \<and> n < 2 ^ bitlen n"
proof (induction n rule: bitlen.induct)
  case (1 n)
  show ?case
  proof (cases "n div 2 = 0")
    case True
    with 1 have "n = 1" by simp
    then show ?thesis by (simp add: bitlen.simps)
  next
    case False
    with 1 have h: "0 < n div 2" by simp
    with 1 have ih: "2 ^ (bitlen (n div 2) - 1) \<le> n div 2" "n div 2 < 2 ^ bitlen (n div 2)"
      by auto
    have b: "bitlen n = Suc (bitlen (n div 2))" using 1 by (simp add: bitlen.simps [of n])
    from h have "bitlen (n div 2) = Suc (bitlen (n div 2) - 1)" by (simp add: bitlen.simps [of "n div 2"])
    then have "2 ^ bitlen (n div 2) = (2::int) * 2 ^ (bitlen (n div 2) - 1)"
      by (metis power_Suc)
    with ih have "2 * 2 ^ (bitlen (n div 2) - 1) \<le> n" "n < 2 * 2 ^ bitlen (n div 2)"
      by linarith+
    with \<open>bitlen (n div 2) = _\<close> show ?thesis by (metis b diff_Suc_1 power_Suc)
  qed
qed

lemma bitlen_0 [simp]: "n \<le> 0 \<Longrightarrow> bitlen n = 0"
  by (simp add: bitlen.simps)

lemma bitlen_le: "n < 2 ^ k \<Longrightarrow> bitlen n \<le> k"
proof (rule ccontr)
  assume n: "n < 2 ^ k" and "\<not> bitlen n \<le> k"
  then have "0 < n" by (metis bitlen_0 le0 not_le)
  with bitlen_bounds have "2 ^ (bitlen n - 1) \<le> n" by blast
  moreover have "(2::int) ^ k \<le> 2 ^ (bitlen n - 1)"
    using \<open>\<not> bitlen n \<le> k\<close> by (intro power_increasing) auto
  ultimately show False using n by linarith
qed

lemma bitlen_mono: "m \<le> n \<Longrightarrow> bitlen m \<le> bitlen n"
  by (cases "0 < n") (auto intro!: bitlen_le dest: bitlen_bounds)

lemma rnd_pos_exact:
  assumes "0 \<le> x" "0 < b" "dbl_repr x"
  shows "rnd_pos (x * b) b = x"
proof -
  define k where "k = bitlen x - 53"
  have "2 ^ k dvd x"
  proof (cases "k = 0")
    case False
    obtain m j where m: "x = m * 2 ^ j" "\<bar>m\<bar> < 2 ^ 53" using assms(3) by (auto simp: dbl_repr_def)
    then have "\<bar>x\<bar> < 2 ^ 53 * 2 ^ j" by (simp add: abs_mult)
    then have "x < 2 ^ (53 + j)" by (simp add: power_add)
    then have "k \<le> j" using bitlen_le unfolding k_def by fastforce
    with m show ?thesis by (simp add: le_imp_power_dvd dvd_mult)
  qed simp
  then obtain y where y: "x = y * 2 ^ k" by (metis dvd_div_mult_self)
  have "rnd_pos (x * b) b = rne (x * b) (b * 2 ^ k) * 2 ^ k"
    using assms(2) by (simp add: rnd_pos_def k_def Let_def)
  also have "rne (x * b) (b * 2 ^ k) = y"
    using rne_exact [of "b * 2 ^ k" y] assms(2) by (simp add: y mult.commute mult.left_commute)
  finally show ?thesis by (simp only: y [symmetric])
qed

lemma rnd_pos_lower:
  assumes "0 < b" "0 < bitlen (a div b) - 53"
  shows "2 ^ (bitlen (a div b) - 1) \<le> rnd_pos a b"
proof -
  define L where "L = bitlen (a div b)"
  have "0 < a div b" using assms(2) by (metis bitlen_0 diff_is_0_eq not_less zero_le less_irrefl)
  then have "2 ^ (L - 1) \<le> a div b" using bitlen_bounds L_def by blast
  moreover have "L - 1 = 52 + (L - 53)" using assms(2) by (simp add: L_def)
  ultimately have "2 ^ 52 * 2 ^ (L - 53) \<le> a div b" by (metis power_add)
  then have "2 ^ 52 * 2 ^ (L - 53) * b \<le> (a div b) * b" using assms(1) by (simp add: mult_right_mono)
  also have "\<dots> \<le> a" using assms(1) by (simp add: minus_mod_eq_div_mult [symmetric])
  finally have "2 ^ 52 * (b * 2 ^ (L - 53)) \<le> a" by (simp add: ac_simps)
  then have "2 ^ 52 \<le> rne a (b * 2 ^ (L - 53))" using assms(1) by (intro rne_ge) auto
  then have "2 ^ 52 * 2 ^ (L - 53) \<le> rnd_pos a b"
    by (simp add: rnd_pos_def L_def Let_def mult_right_mono)
  then show ?thesis using \<open>L - 1 = 52 + (L - 53)\<close> by (metis L_def power_add)
qed

lemma rnd_pos_upper:
  assumes "0 < b" "0 \<le> a"
  shows "rnd_pos a b \<le> 2 ^ (53 + (bitlen (a div b) - 53))"
proof -
  define k where "k = bitlen (a div b) - 53"
  have "a div b < 2 ^ (53 + k)"
  proof (cases "0 < a div b")
    case True
    then have "a div b < 2 ^ bitlen (a div b)" using bitlen_bounds by blast
    also have "\<dots> \<le> (2::int) ^ (53 + k)" by (intro power_increasing) (auto simp: k_def)
    finally show ?thesis .
  next
    case False
    then have "a div b \<le> 0" by simp
    also have "(0::int) < 2 ^ (53 + k)" by simp
    finally show ?thesis .
  qed
  then have "a < 2 ^ (53 + k) * b"
    using assms(1) by (metis div_pos_pos_trivial le_less_linear pos_imp_zdiv_pos_iff zdiv_mono1 nonzero_mult_div_cancel_right less_le_not_le order_less_irrefl)
  then have "a \<le> 2 ^ 53 * (b * 2 ^ k)"
    by (simp add: power_add ac_simps)
  then have "rne a (b * 2 ^ k) \<le> 2 ^ 53" using assms(1) by (intro rne_le) auto
  then show ?thesis by (simp add: rnd_pos_def k_def [symmetric] Let_def power_add mult_right_mono)
qed

lemma rnd_pos_mono:
  assumes "0 < b" "0 < b'" "0 \<le> a" "a * b' \<le> a' * b"
  shows "rnd_pos a b \<le> rnd_pos a' b'"
proof -
  define k where "k = bitlen (a div b) - 53"
  define k' where "k' = bitlen (a' div b') - 53"
  have "k \<le> k'"
    using frac_le_div [OF assms(1,2,4)] bitlen_mono unfolding k_def k'_def by (simp add: diff_le_mono)
  then consider "k = k'" | "k < k'" by linarith
  then show ?thesis
  proof cases
    case 1
    have "a * (b' * 2 ^ k) \<le> a' * (b * 2 ^ k)" using assms(4) by (simp add: mult.assoc [symmetric])
    then have "rne a (b * 2 ^ k) \<le> rne a' (b' * 2 ^ k)" using assms(1,2) by (intro rne_mono) auto
    then show ?thesis
      using 1 by (simp add: rnd_pos_def k_def [symmetric] k'_def [symmetric] Let_def mult_right_mono)
  next
    case 2
    have "rnd_pos a b \<le> 2 ^ (53 + k)" using rnd_pos_upper [OF assms(1,3)] by (simp add: k_def)
    also have "\<dots> \<le> (2::int) ^ (bitlen (a' div b') - 1)"
      using 2 by (intro power_increasing) (auto simp: k'_def)
    also have "\<dots> \<le> rnd_pos a' b'" using rnd_pos_lower [OF assms(2)] 2 by (simp add: k'_def)
    finally show ?thesis .
  qed
qed

text \<open>Comparison with a representable bound.\<close>

lemma rnd_pos_le:
  "0 < b \<Longrightarrow> 0 \<le> a \<Longrightarrow> 0 \<le> t \<Longrightarrow> dbl_repr t \<Longrightarrow> a \<le> t * b \<Longrightarrow> rnd_pos a b \<le> t"
  using rnd_pos_mono [of b 1 a t] rnd_pos_exact [of t 1] by simp

lemma rnd_pos_ge:
  "0 < b \<Longrightarrow> 0 \<le> t \<Longrightarrow> dbl_repr t \<Longrightarrow> t * b \<le> a \<Longrightarrow> t \<le> rnd_pos a b"
  using rnd_pos_mono [of 1 b t a] rnd_pos_exact [of t 1] by simp

lemma dbl_repr_shift: "\<bar>m\<bar> < 2 ^ 53 \<Longrightarrow> dbl_repr (m * 2 ^ k)"
  by (auto simp: dbl_repr_def)

lemma dbl_of_int_exact: "0 \<le> i \<Longrightarrow> i < 2 ^ 53 \<Longrightarrow> dbl_of_int i = i * dbl_one"
  using rnd_pos_exact [of "i * dbl_one" 1] dbl_repr_shift [of i 120]
  by (simp add: dbl_of_int_def rnd_def dbl_one_def)

end
