(* ===== verification/States.thy ===== *)
theory States
  imports Prelude
begin

text \<open>
  \<open>internal/auth/state.go\<close>: the one-shot store of OAuth states and SAML relay states, in its
  in-memory form.  The interface \<open>StateStore\<close> is the locale \<open>state_store\<close>: a value saved is
  handed out once, within its lifetime, and other keys do not matter.  \<open>one_shot\<close> follows for
  any sequence of operations; both halves of \<open>MemoryStateStore\<close> are instances.
\<close>

section \<open>Data\<close>

record OAuthState =
  oas_Provider :: string
  oas_RedirectAfter :: string
  oas_CodeVerifier :: string
  oas_Nonce :: string
  oas_Flow :: string
  oas_UserID :: string

record SAMLState =
  sas_Provider :: string
  sas_RedirectAfter :: string
  sas_RequestID :: string
  sas_Flow :: string
  sas_UserID :: string

record oauthMemoryEntry =
  ome_payload :: OAuthState
  ome_expireAt :: int

record samlMemoryEntry =
  sme_payload :: SAMLState
  sme_expireAt :: int

record MemoryStateStore =
  mss_oauth :: "string \<rightharpoonup> oauthMemoryEntry"
  mss_saml :: "string \<rightharpoonup> samlMemoryEntry"

definition OAuthStateTTL :: int where "OAuthStateTTL = 10 * 60 * 1000"
definition SAMLStateTTL :: int where "SAMLStateTTL = 10 * 60 * 1000"

definition NewMemoryStateStore :: MemoryStateStore where
  "NewMemoryStateStore = \<lparr> mss_oauth = Map.empty, mss_saml = Map.empty \<rparr>"

section \<open>Methods, run under the mutex; \<open>None\<close> is \<open>ErrStateNotFound\<close>\<close>

definition memory_SaveOAuth ::
  "string \<Rightarrow> OAuthState \<Rightarrow> int \<Rightarrow> int \<Rightarrow> MemoryStateStore \<Rightarrow> MemoryStateStore" where
  "memory_SaveOAuth state payload ttl now s =
     s\<lparr>mss_oauth := (mss_oauth s)(state \<mapsto> \<lparr> ome_payload = payload, ome_expireAt = now + ttl \<rparr>)\<rparr>"

definition memory_ConsumeOAuth ::
  "string \<Rightarrow> int \<Rightarrow> MemoryStateStore \<Rightarrow> OAuthState option \<times> MemoryStateStore" where
  "memory_ConsumeOAuth state now s =
     (case mss_oauth s state of
        None \<Rightarrow> (None, s)
      | Some e \<Rightarrow>
          (let s' = s\<lparr>mss_oauth := (mss_oauth s)(state := None)\<rparr>
           in if ome_expireAt e < now then (None, s') else (Some (ome_payload e), s')))"

definition memory_SaveSAML ::
  "string \<Rightarrow> SAMLState \<Rightarrow> int \<Rightarrow> int \<Rightarrow> MemoryStateStore \<Rightarrow> MemoryStateStore" where
  "memory_SaveSAML relay payload ttl now s =
     s\<lparr>mss_saml := (mss_saml s)(relay \<mapsto> \<lparr> sme_payload = payload, sme_expireAt = now + ttl \<rparr>)\<rparr>"

definition memory_ConsumeSAML ::
  "string \<Rightarrow> int \<Rightarrow> MemoryStateStore \<Rightarrow> SAMLState option \<times> MemoryStateStore" where
  "memory_ConsumeSAML relay now s =
     (case mss_saml s relay of
        None \<Rightarrow> (None, s)
      | Some e \<Rightarrow>
          (let s' = s\<lparr>mss_saml := (mss_saml s)(relay := None)\<rparr>
           in if sme_expireAt e < now then (None, s') else (Some (sme_payload e), s')))"

section \<open>The interface\<close>

text \<open>A sequence of calls, with the time of each, and what counts: how often \<open>k\<close> is saved, and how
  often consuming it succeeds.\<close>

datatype 'p store_op = Save string 'p int int | Consume string int

fun saves :: "string \<Rightarrow> 'p store_op list \<Rightarrow> nat" where
  "saves k [] = 0"
| "saves k (Save j p ttl t # ops) = (if j = k then 1 else 0) + saves k ops"
| "saves k (Consume j t # ops) = saves k ops"

fun wins ::
  "(string \<Rightarrow> 'p \<Rightarrow> int \<Rightarrow> int \<Rightarrow> 's \<Rightarrow> 's) \<Rightarrow> (string \<Rightarrow> int \<Rightarrow> 's \<Rightarrow> 'p option \<times> 's) \<Rightarrow>
   string \<Rightarrow> 'p store_op list \<Rightarrow> 's \<Rightarrow> nat" where
  "wins save consume k [] s = 0"
| "wins save consume k (Save j p ttl t # ops) s = wins save consume k ops (save j p ttl t s)"
| "wins save consume k (Consume j t # ops) s =
     (if j = k \<and> fst (consume j t s) \<noteq> None then 1 else 0) + wins save consume k ops (snd (consume j t s))"

locale state_store =
  fixes save :: "string \<Rightarrow> 'p \<Rightarrow> int \<Rightarrow> int \<Rightarrow> 's \<Rightarrow> 's"
    and consume :: "string \<Rightarrow> int \<Rightarrow> 's \<Rightarrow> 'p option \<times> 's"
  assumes consume_saved: "fst (consume k u (save k p ttl t s)) = (if t + ttl < u then None else Some p)"
    and consume_once: "fst (consume k u (snd (consume k t s))) = None"
    and consume_other: "j \<noteq> k \<Longrightarrow> fst (consume j u (snd (consume k t s))) = fst (consume j u s)"
    and save_other: "j \<noteq> k \<Longrightarrow> fst (consume j u (save k p ttl t s)) = fst (consume j u s)"
begin

text \<open>Between a save and the next, one success at most.\<close>

lemma wins_bound:
  "wins save consume k ops s \<le> saves k ops + (if \<exists>u. fst (consume k u s) \<noteq> None then 1 else 0)"
proof (induction ops arbitrary: s)
  case (Cons x ops)
  show ?case
  proof (cases x)
    case (Save j p ttl t)
    then show ?thesis
      using Cons [of "save j p ttl t s"] by (cases "j = k") (auto simp: save_other split: if_splits)
  next
    case (Consume j t)
    then show ?thesis
      using Cons [of "snd (consume j t s)"]
      by (cases "j = k") (auto simp: consume_once consume_other split: if_splits)
  qed
qed simp

lemma one_shot: "(\<And>u. fst (consume k u s) = None) \<Longrightarrow> wins save consume k ops s \<le> saves k ops"
  using wins_bound [of k ops s] by simp

end

lemmas memory_defs = memory_SaveOAuth_def memory_ConsumeOAuth_def memory_SaveSAML_def
  memory_ConsumeSAML_def Let_def

interpretation oauth_states: state_store memory_SaveOAuth memory_ConsumeOAuth
  by unfold_locales (auto simp: memory_defs split: option.split)

interpretation saml_states: state_store memory_SaveSAML memory_ConsumeSAML
  by unfold_locales (auto simp: memory_defs split: option.split)

text \<open>C15: in any sequence of calls on a new in-memory store, consuming a state succeeds at most as
  often as it was saved, for OAuth and SAML alike; a state just saved can be consumed until
  its lifetime is over, and one consumed is gone at once.\<close>

theorem state_used_once:
  "wins memory_SaveOAuth memory_ConsumeOAuth k ops NewMemoryStateStore \<le> saves k ops \<and>
   wins memory_SaveSAML memory_ConsumeSAML k sops NewMemoryStateStore \<le> saves k sops \<and>
   fst (memory_ConsumeOAuth k u (memory_SaveOAuth k p ttl t s)) = (if t + ttl < u then None else Some p) \<and>
   fst (memory_ConsumeSAML k u (memory_SaveSAML k q ttl t s)) = (if t + ttl < u then None else Some q) \<and>
   fst (memory_ConsumeOAuth k v (snd (memory_ConsumeOAuth k u s))) = None \<and>
   fst (memory_ConsumeSAML k v (snd (memory_ConsumeSAML k u s))) = None"
  by (intro conjI oauth_states.one_shot saml_states.one_shot oauth_states.consume_saved
      saml_states.consume_saved oauth_states.consume_once saml_states.consume_once)
    (simp_all add: NewMemoryStateStore_def memory_defs)

end
