(* ===== verification/Rows.thy ===== *)
theory Rows
  imports Prelude Float64 States
begin

text \<open>
  The rows of \<open>internal/repo/db/models.go\<close> and the tables of \<open>db/migrations/0001_init.sql\<close>.
  A row keeps the source's fields in their order, under a prefix for the struct
  (\<open>ord_Status\<close> is \<open>Order.Status\<close>).  \<open>sql.NullString\<close>, \<open>sql.NullTime\<close> and the other nullable
  columns are options, instants are milliseconds, \<open>int32\<close> columns integers (the arithmetic
  on them that can leave the range is written out where the code does it), JSON columns
  JSON values.  The enums the code branches on are datatypes with the source's
  constants; the others, which the code only stores or takes from a request, are strings.
\<close>

text \<open>A JSON value; numbers keep their literal.\<close>

datatype json = JNull | JBool bool | JNum string | JStr string | JArr "json list"
  | JObj "(string \<times> json) list"

datatype OrdersStatus = OrdersStatusPending | OrdersStatusPaid | OrdersStatusFailed | OrdersStatusExpired | OrdersStatusRefunded

fun ordersStatus_str :: "OrdersStatus \<Rightarrow> string" where
  "ordersStatus_str OrdersStatusPending = ''pending''"
| "ordersStatus_str OrdersStatusPaid = ''paid''"
| "ordersStatus_str OrdersStatusFailed = ''failed''"
| "ordersStatus_str OrdersStatusExpired = ''expired''"
| "ordersStatus_str OrdersStatusRefunded = ''refunded''"

datatype OrdersType = OrdersTypeCourse | OrdersTypeDegree

fun ordersType_str :: "OrdersType \<Rightarrow> string" where
  "ordersType_str OrdersTypeCourse = ''course''"
| "ordersType_str OrdersTypeDegree = ''degree''"

datatype CoursesCostType = CoursesCostTypeFree | CoursesCostTypePaid | CoursesCostTypeCharity

fun coursesCostType_str :: "CoursesCostType \<Rightarrow> string" where
  "coursesCostType_str CoursesCostTypeFree = ''free''"
| "coursesCostType_str CoursesCostTypePaid = ''paid''"
| "coursesCostType_str CoursesCostTypeCharity = ''charity''"

datatype NanoDegreesCostType = NanoDegreesCostTypeFree | NanoDegreesCostTypePaid | NanoDegreesCostTypeCharity

fun nanoDegreesCostType_str :: "NanoDegreesCostType \<Rightarrow> string" where
  "nanoDegreesCostType_str NanoDegreesCostTypeFree = ''free''"
| "nanoDegreesCostType_str NanoDegreesCostTypePaid = ''paid''"
| "nanoDegreesCostType_str NanoDegreesCostTypeCharity = ''charity''"

datatype ProgressRecordsStatus = ProgressRecordsStatusNotStarted | ProgressRecordsStatusInProgress | ProgressRecordsStatusCompleted

fun progressRecordsStatus_str :: "ProgressRecordsStatus \<Rightarrow> string" where
  "progressRecordsStatus_str ProgressRecordsStatusNotStarted = ''not_started''"
| "progressRecordsStatus_str ProgressRecordsStatusInProgress = ''in_progress''"
| "progressRecordsStatus_str ProgressRecordsStatusCompleted = ''completed''"

record User =
  usr_ID :: string
  usr_Email :: string
  usr_PasswordHash :: string
  usr_Name :: string
  usr_Role :: string
  usr_AvatarUrl :: "string option"
  usr_PasswordResetRequired :: bool
  usr_Points :: int
  usr_Level :: int
  usr_DeletedAt :: "int option"
  usr_CreatedAt :: int
  usr_UpdatedAt :: int
  usr_LastLoginAt :: "int option"

record Course =
  crs_ID :: string
  crs_Title :: string
  crs_Description :: string
  crs_LearningPoints :: string
  crs_Instructor :: string
  crs_Level :: string
  crs_Duration :: string
  crs_Thumbnail :: string
  crs_Tags :: string
  crs_CostType :: CoursesCostType
  crs_Price :: string
  crs_Status :: string
  crs_CourseType :: string
  crs_ExternalUrl :: "string option"
  crs_SourceVideoUrl :: "string option"
  crs_SourcePlatform :: "string option"
  crs_CreatedAt :: int
  crs_UpdatedAt :: int
  crs_IndustryID :: "string option"
  crs_CategoryID :: "string option"

record NanoDegree =
  deg_ID :: string
  deg_Title :: string
  deg_Description :: string
  deg_LearningPoints :: string
  deg_Price :: string
  deg_Icon :: string
  deg_CostType :: NanoDegreesCostType
  deg_Thumbnail :: "string option"
  deg_Status :: string
  deg_CreatedAt :: int
  deg_UpdatedAt :: int

record DegreeCourse =
  dgc_DegreeID :: string
  dgc_CourseID :: string
  dgc_OrderIndex :: int

record Chapter =
  chp_ID :: string
  chp_CourseID :: string
  chp_Title :: string
  chp_Description :: "string option"
  chp_OrderIndex :: int
  chp_CreatedAt :: int
  chp_DeletedAt :: "int option"

record Lesson =
  lsn_ID :: string
  lsn_ChapterID :: string
  lsn_Title :: string
  lsn_Description :: "string option"
  lsn_VideoUrl :: "string option"
  lsn_VideoDuration :: "int option"
  lsn_OrderIndex :: int
  lsn_IsPreview :: bool
  lsn_CreatedAt :: int
  lsn_DeletedAt :: "int option"

record Enrollment =
  enr_ID :: string
  enr_UserID :: string
  enr_CourseID :: "string option"
  enr_DegreeID :: "string option"
  enr_EnrolledAt :: int
  enr_ExpiresAt :: "int option"
  enr_Source :: string
  enr_DeletedAt :: "int option"

record Order =
  ord_ID :: string
  ord_UserID :: string
  ord_Type :: OrdersType
  ord_CourseID :: "string option"
  ord_DegreeID :: "string option"
  ord_Amount :: string
  ord_Currency :: string
  ord_Status :: OrdersStatus
  ord_PaymentMethod :: "string option"
  ord_TransactionID :: "string option"
  ord_PaidAt :: "int option"
  ord_DeletedAt :: "int option"
  ord_CreatedAt :: int
  ord_UpdatedAt :: int

record AuditLog =
  aud_ID :: string
  aud_UserID :: "string option"
  aud_Action :: string
  aud_Entity :: string
  aud_EntityID :: "string option"
  aud_Details :: "string option"
  aud_IpAddress :: "string option"
  aud_UserAgent :: "string option"
  aud_CreatedAt :: int

record ProgressRecord =
  prg_ID :: string
  prg_UserID :: string
  prg_CourseID :: string
  prg_LessonID :: string
  prg_Status :: ProgressRecordsStatus
  prg_CompletedAt :: "int option"
  prg_LastPosition :: "int option"
  prg_UpdatedAt :: int

record Certificate =
  crt_ID :: string
  crt_UserID :: string
  crt_Type :: string
  crt_RefID :: string
  crt_Title :: string
  crt_Description :: "string option"
  crt_SerialNumber :: string
  crt_IssuedAt :: int
  crt_CompletedAt :: int
  crt_ImageUrl :: "string option"
  crt_VerifyUrl :: "string option"
  crt_Metadata :: "json option"
  crt_RevokedAt :: "int option"
  crt_CreatedAt :: int
  crt_UpdatedAt :: int

record Badge =
  bdg_ID :: string
  bdg_Code :: string
  bdg_Name :: string
  bdg_Description :: string
  bdg_Icon :: string
  bdg_Category :: string
  bdg_CriteriaType :: string
  bdg_CriteriaValue :: int
  bdg_CriteriaJson :: "json option"
  bdg_Points :: int
  bdg_IsActive :: bool
  bdg_OrderIndex :: int
  bdg_CreatedAt :: int
  bdg_UpdatedAt :: int

record UserBadge =
  ubd_ID :: string
  ubd_UserID :: string
  ubd_BadgeID :: string
  ubd_UnlockedAt :: int

record PointTransaction =
  ptx_ID :: string
  ptx_UserID :: string
  ptx_Amount :: int
  ptx_Reason :: string
  ptx_RefType :: "string option"
  ptx_RefID :: "string option"
  ptx_DeletedAt :: "int option"
  ptx_CreatedAt :: int

record PracticeCompletion =
  pcm_ID :: string
  pcm_UserID :: string
  pcm_ProjectID :: string
  pcm_Status :: string
  pcm_StartedAt :: int
  pcm_CompletedAt :: "int option"
  pcm_SubmissionUrl :: "string option"
  pcm_Notes :: "string option"
  pcm_DeletedAt :: "int option"

record RefreshToken =
  rft_ID :: string
  rft_Token :: string
  rft_UserID :: string
  rft_ExpiresAt :: int
  rft_CreatedAt :: int

record PasswordResetToken =
  prt_ID :: string
  prt_UserID :: string
  prt_TokenHash :: string
  prt_ExpiresAt :: int
  prt_UsedAt :: "int option"
  prt_CreatedAt :: int

record UserProviderAccount =
  upa_ID :: string
  upa_UserID :: string
  upa_Provider :: string
  upa_ProviderUserID :: string
  upa_Email :: "string option"
  upa_DisplayName :: "string option"
  upa_IsPrimary :: bool
  upa_LinkedAt :: int
  upa_LastUsedAt :: int
  upa_DeletedAt :: "int option"
  upa_Profile :: "json option"
  upa_CreatedAt :: int
  upa_UpdatedAt :: int

record Notification =
  ntf_ID :: string
  ntf_UserID :: string
  ntf_Type :: string
  ntf_Title :: string
  ntf_Body :: string
  ntf_LinkUrl :: "string option"
  ntf_IsRead :: bool
  ntf_ReadAt :: "int option"
  ntf_DeletedAt :: "int option"
  ntf_CreatedAt :: int

record Hackathon =
  hck_ID :: string
  hck_Title :: string
  hck_Description :: string
  hck_BannerUrl :: "string option"
  hck_Status :: string
  hck_StartDate :: int
  hck_EndDate :: int
  hck_RegisterDeadline :: "int option"
  hck_SubmissionDeadline :: "int option"
  hck_MaxTeamSize :: int
  hck_MinTeamSize :: int
  hck_Location :: "string option"
  hck_Rules :: "string option"
  hck_SubmissionRequirements :: "string option"
  hck_Prizes :: "string option"
  hck_RegistrationUrl :: "string option"
  hck_RegistrationLabel :: "string option"
  hck_OrganizerID :: "string option"
  hck_CreatedAt :: int
  hck_UpdatedAt :: int

record HackathonRegistration =
  hrg_ID :: string
  hrg_HackathonID :: string
  hrg_UserID :: string
  hrg_Status :: string
  hrg_RegisteredAt :: int
  hrg_CheckedInAt :: "int option"
  hrg_DeletedAt :: "int option"

record Team =
  team_ID :: string
  team_HackathonID :: string
  team_Name :: string
  team_Slogan :: "string option"
  team_CaptainID :: string
  team_CreatedAt :: int

record TeamMember =
  tmm_ID :: string
  tmm_TeamID :: string
  tmm_UserID :: string
  tmm_Role :: string

record Submission =
  sub_ID :: string
  sub_HackathonID :: string
  sub_TeamID :: "string option"
  sub_UserID :: "string option"
  sub_Title :: string
  sub_Description :: string
  sub_DemoUrl :: "string option"
  sub_RepoUrl :: "string option"
  sub_VideoUrl :: "string option"
  sub_Status :: string
  sub_Score :: "string option"
  sub_Feedback :: "string option"
  sub_SubmittedAt :: "int option"
  sub_CreatedAt :: int
  sub_UpdatedAt :: int
  sub_DeletedAt :: "int option"

record PracticeProject =
  ppj_ID :: string
  ppj_CourseID :: string
  ppj_Title :: string
  ppj_Description :: string
  ppj_ProjectUrl :: string
  ppj_ThumbnailUrl :: "string option"
  ppj_Difficulty :: string
  ppj_EstimatedTime :: int
  ppj_Tags :: "string option"
  ppj_ProjectType :: string
  ppj_OrderIndex :: int
  ppj_Requirements :: "string option"
  ppj_Objectives :: "string option"
  ppj_IsActive :: bool
  ppj_CreatedAt :: int
  ppj_UpdatedAt :: int

record Review =
  rvw_ID :: string
  rvw_UserID :: string
  rvw_CourseID :: string
  rvw_Rating :: int
  rvw_Content :: string
  rvw_Helpful :: int
  rvw_DeletedAt :: "int option"
  rvw_CreatedAt :: int
  rvw_UpdatedAt :: int

record ReviewHelpfulVote =
  rhv_ReviewID :: string
  rhv_UserID :: string
  rhv_CreatedAt :: int

record Note =
  note_ID :: string
  note_UserID :: string
  note_LessonID :: string
  note_Content :: string
  note_PositionSec :: "int option"
  note_CreatedAt :: int
  note_UpdatedAt :: int

record Resource =
  res_ID :: string
  res_LessonID :: string
  res_Title :: string
  res_Url :: string
  res_Type :: string
  res_IsLocked :: bool
  res_CreatedAt :: int
  res_DeletedAt :: "int option"

record LearningEvent =
  lev_ID :: string
  lev_UserID :: string
  lev_LessonID :: "string option"
  lev_EventType :: string
  lev_PositionSec :: "int option"
  lev_DurationMs :: "int option"
  lev_Metadata :: "json option"
  lev_CreatedAt :: int

record Judge =
  jdg_ID :: string
  jdg_HackathonID :: string
  jdg_UserID :: "string option"
  jdg_Name :: string
  jdg_Title :: "string option"
  jdg_AvatarUrl :: "string option"
  jdg_Bio :: "string option"
  jdg_OrderIndex :: int
  jdg_Role :: string

record Sponsor =
  spn_ID :: string
  spn_HackathonID :: string
  spn_Name :: string
  spn_LogoUrl :: "string option"
  spn_WebsiteUrl :: "string option"
  spn_Tier :: string
  spn_OrderIndex :: int
  spn_CreatedAt :: int
  spn_UpdatedAt :: int

record Announcement =
  ann_ID :: string
  ann_HackathonID :: string
  ann_Title :: string
  ann_Content :: string
  ann_IsPinned :: bool
  ann_CreatedAt :: int

record Instructor =
  ins_ID :: string
  ins_Slug :: string
  ins_Name :: string
  ins_NameEn :: "string option"
  ins_Title :: "string option"
  ins_TitleEn :: "string option"
  ins_Headline :: "string option"
  ins_HeadlineEn :: "string option"
  ins_Bio :: "string option"
  ins_BioEn :: "string option"
  ins_AvatarUrl :: "string option"
  ins_Company :: "string option"
  ins_YearsOfExperience :: "int option"
  ins_LinkedinUrl :: "string option"
  ins_GithubUrl :: "string option"
  ins_TwitterUrl :: "string option"
  ins_WebsiteUrl :: "string option"
  ins_ContactEmail :: "string option"
  ins_Notes :: "string option"
  ins_OrderIndex :: int
  ins_PublishedAt :: "int option"
  ins_CreatedAt :: int
  ins_UpdatedAt :: int

record CourseInstructorLink =
  cil_ID :: string
  cil_CourseID :: string
  cil_InstructorID :: string
  cil_Role :: string
  cil_IsPrimary :: bool
  cil_OrderIndex :: int
  cil_CreatedAt :: int

record InstructorExpertise =
  iex_ID :: string
  iex_Key :: string
  iex_Label :: string
  iex_LabelEn :: "string option"
  iex_IsActive :: bool
  iex_OrderIndex :: int
  iex_CreatedAt :: int
  iex_UpdatedAt :: int

record InstructorExpertiseLink =
  iel_InstructorID :: string
  iel_ExpertiseID :: string
  iel_OrderIndex :: int

record EnterpriseInquiry =
  enq_ID :: string
  enq_Name :: string
  enq_Email :: string
  enq_Company :: string
  enq_TeamSize :: string
  enq_Phone :: "string option"
  enq_Topic :: string
  enq_Description :: "string option"
  enq_Status :: string
  enq_DeletedAt :: "int option"
  enq_CreatedAt :: int
  enq_UpdatedAt :: int

record UrlImport =
  uim_ID :: string
  uim_Url :: string
  uim_Platform :: string
  uim_Status :: string
  uim_RequestedBy :: "string option"
  uim_ResultCourseID :: "string option"
  uim_ErrorMessage :: "string option"
  uim_Title :: "string option"
  uim_Author :: "string option"
  uim_ThumbnailUrl :: "string option"
  uim_DurationSeconds :: "int option"
  uim_ExtractedJson :: "string option"
  uim_FetchedAt :: "int option"
  uim_CreatedAt :: int
  uim_UpdatedAt :: int

record ChatSession =
  chs_ID :: string
  chs_UserID :: string
  chs_LessonID :: "string option"
  chs_Title :: "string option"
  chs_CreatedAt :: int
  chs_UpdatedAt :: int

record ChatMessage =
  chm_ID :: string
  chm_SessionID :: string
  chm_Role :: string
  chm_Content :: string
  chm_Tokens :: int
  chm_CreatedAt :: int

record Industry =
  ind_ID :: string
  ind_Key :: string
  ind_Label :: string
  ind_Description :: "string option"
  ind_Icon :: "string option"
  ind_Methodology :: "json option"
  ind_IsActive :: bool
  ind_OrderIndex :: int
  ind_CreatedAt :: int
  ind_UpdatedAt :: int

record CourseCategory =
  ccg_ID :: string
  ccg_Key :: string
  ccg_Label :: string
  ccg_IsActive :: bool
  ccg_OrderIndex :: int

text \<open>The state shared by all requests: the rows of each table in insertion order, and the
  in-memory state store.\<close>

record database =
  t_users :: "User list"
  t_courses :: "Course list"
  t_nano_degrees :: "NanoDegree list"
  t_degree_courses :: "DegreeCourse list"
  t_chapters :: "Chapter list"
  t_lessons :: "Lesson list"
  t_enrollments :: "Enrollment list"
  t_orders :: "Order list"
  t_audit_logs :: "AuditLog list"
  t_progress_records :: "ProgressRecord list"
  t_certificates :: "Certificate list"
  t_badges :: "Badge list"
  t_user_badges :: "UserBadge list"
  t_point_transactions :: "PointTransaction list"
  t_practice_completions :: "PracticeCompletion list"
  t_refresh_tokens :: "RefreshToken list"
  t_password_reset_tokens :: "PasswordResetToken list"
  t_user_provider_accounts :: "UserProviderAccount list"
  t_notifications :: "Notification list"
  t_hackathons :: "Hackathon list"
  t_hackathon_registrations :: "HackathonRegistration list"
  t_teams :: "Team list"
  t_team_members :: "TeamMember list"
  t_submissions :: "Submission list"
  t_practice_projects :: "PracticeProject list"
  t_reviews :: "Review list"
  t_review_helpful_votes :: "ReviewHelpfulVote list"
  t_notes :: "Note list"
  t_resources :: "Resource list"
  t_learning_events :: "LearningEvent list"
  t_judges :: "Judge list"
  t_sponsors :: "Sponsor list"
  t_announcements :: "Announcement list"
  t_instructors :: "Instructor list"
  t_course_instructor_links :: "CourseInstructorLink list"
  t_instructor_expertises :: "InstructorExpertise list"
  t_instructor_expertise_links :: "InstructorExpertiseLink list"
  t_enterprise_inquiries :: "EnterpriseInquiry list"
  t_url_imports :: "UrlImport list"
  t_chat_sessions :: "ChatSession list"
  t_chat_messages :: "ChatMessage list"
  t_industries :: "Industry list"
  t_course_categories :: "CourseCategory list"
  t_states :: MemoryStateStore

definition empty_database :: database where
  "empty_database = \<lparr>
     t_users = [],
     t_courses = [],
     t_nano_degrees = [],
     t_degree_courses = [],
     t_chapters = [],
     t_lessons = [],
     t_enrollments = [],
     t_orders = [],
     t_audit_logs = [],
     t_progress_records = [],
     t_certificates = [],
     t_badges = [],
     t_user_badges = [],
     t_point_transactions = [],
     t_practice_completions = [],
     t_refresh_tokens = [],
     t_password_reset_tokens = [],
     t_user_provider_accounts = [],
     t_notifications = [],
     t_hackathons = [],
     t_hackathon_registrations = [],
     t_teams = [],
     t_team_members = [],
     t_submissions = [],
     t_practice_projects = [],
     t_reviews = [],
     t_review_helpful_votes = [],
     t_notes = [],
     t_resources = [],
     t_learning_events = [],
     t_judges = [],
     t_sponsors = [],
     t_announcements = [],
     t_instructors = [],
     t_course_instructor_links = [],
     t_instructor_expertises = [],
     t_instructor_expertise_links = [],
     t_enterprise_inquiries = [],
     t_url_imports = [],
     t_chat_sessions = [],
     t_chat_messages = [],
     t_industries = [],
     t_course_categories = [],
     t_states = NewMemoryStateStore \<rparr>"

end
