(* ===== verification/TimeFmt.thy ===== *)
theory TimeFmt
  imports Prelude
begin

text \<open>
  Calendar time.  A Go \<open>time.Time\<close> in UTC is the number of milliseconds since 1970-01-01
  (the DDL's \<open>DATETIME(3)\<close> keeps milliseconds and every connection uses UTC).  The theory
  models the two layouts the code formats with, \<open>2006-01-02T15:04:05.000Z\<close> and
  \<open>2006-01-02\<close>, RFC 3339 seconds, and \<open>time.Parse("2006-01-02", s)\<close>, and proves that
  formatting a day and parsing it gives the day back.
\<close>

definition leap :: "int \<Rightarrow> bool" where
  "leap y \<longleftrightarrow> (y mod 4 = 0 \<and> y mod 100 \<noteq> 0) \<or> y mod 400 = 0"

definition days_before_year :: "int \<Rightarrow> int" where
  "days_before_year y =
     365 * (y - 1) + (y - 1) div 4 - (y - 1) div 100 + (y - 1) div 400"

text \<open>Days before the first of month \<open>m\<close> in a year.\<close>

definition month_offsets :: "int list" where
  "month_offsets = [0, 31, 59, 90, 120, 151, 181, 212, 243, 273, 304, 334]"

definition days_before_month :: "bool \<Rightarrow> int \<Rightarrow> int" where
  "days_before_month l m =
     month_offsets ! nat (m - 1) + (if l \<and> 2 < m then 1 else 0)"

definition days_in_month :: "bool \<Rightarrow> int \<Rightarrow> int" where
  "days_in_month l m =
     (if m = 2 then (if l then 29 else 28)
      else if m \<in> {4, 6, 9, 11} then 30 else 31)"

text \<open>Day 0 of the epoch is day 719162 of the proleptic Gregorian calendar counted from
  0001-01-01.\<close>

definition epoch_day :: int where
  "epoch_day = 719162"

definition days_of_civil :: "int \<Rightarrow> int \<Rightarrow> int \<Rightarrow> int" where
  "days_of_civil y m d = days_before_year y + days_before_month (leap y) m + (d - 1) - epoch_day"

definition month_of :: "bool \<Rightarrow> int \<Rightarrow> int" where
  "month_of l doy =
     (case List.find (\<lambda>m. days_before_month l m \<le> doy) [12, 11, 10, 9, 8, 7, 6, 5, 4, 3, 2]
      of Some m \<Rightarrow> m | None \<Rightarrow> 1)"

definition year_parts :: "int \<Rightarrow> int \<times> int" where
  "year_parts z =
     (let n = z + epoch_day;
          a = n div 146097; r = n mod 146097;
          b = min 3 (r div 36524); r2 = r - 36524 * b;
          c = r2 div 1461; r3 = r2 mod 1461;
          e = min 3 (r3 div 365)
      in (400 * a + 100 * b + 4 * c + e + 1, r3 - 365 * e))"

definition civil_of_days :: "int \<Rightarrow> int \<times> int \<times> int" where
  "civil_of_days z =
     (let (y, doy) = year_parts z; m = month_of (leap y) doy
      in (y, m, doy - days_before_month (leap y) m + 1))"

lemma div_parts:
  fixes k q r :: int
  shows "0 \<le> r \<Longrightarrow> r < k \<Longrightarrow> (k * q + r) div k = q"
  by simp

lemma year_parts_ok:
  assumes "year_parts z = (y, doy)"
  shows "z = days_before_year y + doy - epoch_day"
    and "0 \<le> doy" and "doy < 365 \<or> (doy = 365 \<and> leap y)"
proof -
  define n where "n = z + epoch_day"
  define a where "a = n div 146097"
  define r where "r = n mod 146097"
  define b where "b = min 3 (r div 36524)"
  define r2 where "r2 = r - 36524 * b"
  define c where "c = r2 div 1461"
  define r3 where "r3 = r2 mod 1461"
  define e where "e = min 3 (r3 div 365)"
  note defs = n_def a_def r_def b_def r2_def c_def r3_def e_def
  have y: "y = 400 * a + 100 * b + 4 * c + e + 1" and doy: "doy = r3 - 365 * e"
    using assms [unfolded year_parts_def Let_def, folded n_def, folded a_def r_def,
        folded b_def, folded r2_def, folded c_def r3_def, folded e_def]
    by (simp_all only: prod.inject)
  have r: "0 \<le> r" "r < 146097" "n = 146097 * a + r" by (simp_all add: defs)
  have b: "0 \<le> b" "b \<le> 3" and r2: "0 \<le> r2" "r2 < 36525" "b < 3 \<Longrightarrow> r2 < 36524"
    using r by (auto simp: r2_def b_def min_def)
  have c: "0 \<le> c" "c \<le> 24" and r3: "0 \<le> r3" "r3 < 1461" "r2 = 1461 * c + r3"
    and c24: "c = 24 \<Longrightarrow> b < 3 \<Longrightarrow> r3 < 1460"
    using r2 by (auto simp: c_def r3_def minus_mult_div_eq_mod [symmetric])
  have e: "0 \<le> e" "e \<le> 3" and d: "0 \<le> doy" "doy < 366" "e < 3 \<Longrightarrow> doy < 365"
    using r3 by (auto simp: doy e_def min_def)
  have q: "(y - 1) div 4 = 100 * a + 25 * b + c" "(y - 1) div 100 = 4 * a + b"
    "(y - 1) div 400 = a"
    using div_parts [of e 4 "100 * a + 25 * b + c"] div_parts [of "4 * c + e" 100 "4 * a + b"]
      div_parts [of "100 * b + 4 * c + e" 400 a] b c e
    by (simp_all add: y algebra_simps)
  show "z = days_before_year y + doy - epoch_day"
    unfolding days_before_year_def q using r r3 doy
    by (simp add: y n_def r2_def)
  show "0 \<le> doy" by (rule d)
  show "doy < 365 \<or> (doy = 365 \<and> leap y)"
  proof (cases "doy < 365")
    case False
    with d have "doy = 365" and "\<not> e < 3" by auto
    then have "e = 3" using e by linarith
    then have "r3 = 1460" using doy \<open>doy = 365\<close> by simp
    with c24 have "c < 24 \<or> b = 3" using b c by fastforce
    then have "leap y"
    proof
      assume "c < 24"
      have "y = 4 * (100 * a + 25 * b + c + 1)" and "y = 100 * (4 * a + b) + (4 * c + 4)"
        by (simp_all add: y \<open>e = 3\<close>)
      then have "y mod 4 = 0" and "y mod 100 = (4 * c + 4) mod 100" by (metis mod_mult_self1_is_0, metis mod_mult_self4)
      with \<open>c < 24\<close> c show ?thesis by (simp add: leap_def)
    next
      assume "b = 3"
      show ?thesis
      proof (cases "c = 24")
        case True
        then have "y = 400 * (a + 1)" by (simp add: y \<open>e = 3\<close> \<open>b = 3\<close>)
        then have "y mod 400 = 0" by (metis mod_mult_self1_is_0)
        then show ?thesis by (simp add: leap_def)
      next
        case False
        have "y = 4 * (100 * a + 25 * b + c + 1)" and "y = 100 * (4 * a + b) + (4 * c + 4)"
          by (simp_all add: y \<open>e = 3\<close>)
        then have "y mod 4 = 0" and "y mod 100 = (4 * c + 4) mod 100" by (metis mod_mult_self1_is_0, metis mod_mult_self4)
        with False c show ?thesis by (simp add: leap_def)
      qed
    qed
    with \<open>doy = 365\<close> show ?thesis by simp
  qed simp
qed

lemma days_before_month_table:
  "days_before_month l 1 = 0" "days_before_month l 2 = 31"
  "days_before_month l 3 = (if l then 60 else 59)" "days_before_month l 4 = (if l then 91 else 90)"
  "days_before_month l 5 = (if l then 121 else 120)" "days_before_month l 6 = (if l then 152 else 151)"
  "days_before_month l 7 = (if l then 182 else 181)" "days_before_month l 8 = (if l then 213 else 212)"
  "days_before_month l 9 = (if l then 244 else 243)" "days_before_month l 10 = (if l then 274 else 273)"
  "days_before_month l 11 = (if l then 305 else 304)" "days_before_month l 12 = (if l then 335 else 334)"
  by (simp_all add: days_before_month_def month_offsets_def)

lemma month_of_bounds:
  assumes "0 \<le> doy" "doy < 365 \<or> (doy = 365 \<and> l)"
  shows "1 \<le> month_of l doy" and "month_of l doy \<le> 12"
    and "days_before_month l (month_of l doy) \<le> doy"
    and "doy < days_before_month l (month_of l doy) + days_in_month l (month_of l doy)"
proof -
  show "1 \<le> month_of l doy" and "month_of l doy \<le> 12"
    by (simp_all add: month_of_def)
  show "days_before_month l (month_of l doy) \<le> doy"
    using assms(1) by (simp add: month_of_def days_before_month_table)
  show "doy < days_before_month l (month_of l doy) + days_in_month l (month_of l doy)"
    using assms by (cases l) (auto simp: month_of_def days_before_month_table days_in_month_def)
qed

theorem days_of_civil_of_days:
  "civil_of_days z = (y, m, d) \<Longrightarrow> days_of_civil y m d = z"
  using year_parts_ok
  by (auto simp: civil_of_days_def days_of_civil_def Let_def split: prod.splits)

lemma civil_of_days_valid:
  assumes "civil_of_days z = (y, m, d)"
  shows "1 \<le> m" "m \<le> 12" "1 \<le> d" "d \<le> days_in_month (leap y) m"
proof -
  obtain doy where p: "year_parts z = (y, doy)" "m = month_of (leap y) doy"
    "d = doy - days_before_month (leap y) m + 1"
    using assms by (auto simp: civil_of_days_def Let_def split: prod.splits)
  from year_parts_ok(2,3) [OF p(1)] month_of_bounds [of doy "leap y"] p(2,3)
  show "1 \<le> m" "m \<le> 12" "1 \<le> d" "d \<le> days_in_month (leap y) m" by auto
qed

section \<open>Layouts\<close>

definition pad_int :: "nat \<Rightarrow> int \<Rightarrow> string" where
  "pad_int n i = pad_left n (show_nat (nat i))"

definition ms_per_day :: int where
  "ms_per_day = 86400000"

text \<open>The zero \<open>time.Time\<close>: midnight of 0001-01-01.\<close>

definition zero_time :: int where
  "zero_time = - 62135596800000"

definition fmt_day :: "int \<Rightarrow> string" where
  "fmt_day z = (case civil_of_days z of
     (y, m, d) \<Rightarrow> pad_int 4 y @ ''-'' @ pad_int 2 m @ ''-'' @ pad_int 2 d)"

text \<open>\<open>t.Format("2006-01-02")\<close>.\<close>

definition fmt_date :: "int \<Rightarrow> string" where
  "fmt_date t = fmt_day (t div ms_per_day)"

definition fmt_clock :: "int \<Rightarrow> string" where
  "fmt_clock t =
     (let s = (t mod ms_per_day) div 1000
      in pad_int 2 (s div 3600) @ '':'' @ pad_int 2 (s div 60 mod 60) @ '':'' @ pad_int 2 (s mod 60))"

text \<open>\<open>t.UTC().Format("2006-01-02T15:04:05.000Z")\<close>.\<close>

definition fmt_iso :: "int \<Rightarrow> string" where
  "fmt_iso t = fmt_date t @ ''T'' @ fmt_clock t @ ''.'' @ pad_int 3 (t mod 1000) @ ''Z''"

text \<open>\<open>t.UTC().Format(time.RFC3339)\<close>.\<close>

definition fmt_rfc3339 :: "int \<Rightarrow> string" where
  "fmt_rfc3339 t = fmt_date t @ ''T'' @ fmt_clock t @ ''Z''"

definition year_of :: "int \<Rightarrow> int" where
  "year_of t = fst (civil_of_days (t div ms_per_day))"

text \<open>\<open>time.Parse("2006-01-02", s)\<close>: four digits, two, two, and a day that exists; the
  result is the instant of midnight.\<close>

definition parse_date :: "string \<Rightarrow> int option" where
  "parse_date s =
     (if length s = 10 \<and> s ! 4 = CHR ''-'' \<and> s ! 7 = CHR ''-'' then
        (case (parse_digits (take 4 s), parse_digits (take 2 (drop 5 s)), parse_digits (drop 8 s)) of
           (Some y, Some m, Some d) \<Rightarrow>
             (let y = int y; m = int m; d = int d in
              if 1 \<le> m \<and> m \<le> 12 \<and> 1 \<le> d \<and> d \<le> days_in_month (leap y) m
              then Some (days_of_civil y m d * ms_per_day) else None)
         | _ \<Rightarrow> None)
      else None)"

lemma show_nat_length:
  "n < 10 ^ Suc k \<Longrightarrow> length (show_nat n) \<le> Suc k"
proof (induction k arbitrary: n)
  case 0
  then show ?case by (subst show_nat.simps) simp
next
  case (Suc k)
  have "n div 10 < 10 ^ Suc k" using Suc.prems by (simp add: less_mult_imp_div_less mult.commute)
  with Suc.IH have "length (show_nat (n div 10)) \<le> Suc k" by blast
  then show ?case by (subst show_nat.simps) simp
qed

lemma pad_int_length:
  assumes "0 \<le> i" "i < 10 ^ Suc k"
  shows "length (pad_int (Suc k) i) = Suc k"
proof -
  have "nat i < 10 ^ Suc k" using assms by (simp add: nat_less_iff)
  then have "length (show_nat (nat i)) \<le> Suc k" by (rule show_nat_length)
  then show ?thesis by (simp add: pad_int_def pad_left_def)
qed

lemma pad_int_parse: "0 \<le> i \<Longrightarrow> parse_digits (pad_int k i) = Some (nat i)"
  by (simp add: pad_int_def parse_digits_pad_show)

definition representable_day :: "int \<Rightarrow> bool" where
  "representable_day z \<longleftrightarrow> 0 \<le> fst (civil_of_days z) \<and> fst (civil_of_days z) \<le> 9999"

theorem parse_fmt_day:
  assumes "representable_day z"
  shows "parse_date (fmt_day z) = Some (z * ms_per_day)"
proof -
  obtain y m d where c: "civil_of_days z = (y, m, d)" by (cases "civil_of_days z") auto
  note v = civil_of_days_valid [OF c]
  have y: "0 \<le> y" "y < 10 ^ Suc 3" using assms c by (auto simp: representable_day_def)
  have d31: "days_in_month (leap y) m \<le> 31" by (simp add: days_in_month_def)
  have ly: "length (pad_int 4 y) = 4" using pad_int_length [of y 3] y by (simp add: numeral_eq_Suc)
  have lm: "length (pad_int 2 m) = 2" using pad_int_length [of m 1] v by (simp add: numeral_2_eq_2)
  have ld: "length (pad_int 2 d) = 2"
    using pad_int_length [of d 1] v d31 by (simp add: numeral_2_eq_2)
  have f: "fmt_day z = pad_int 4 y @ ''-'' @ pad_int 2 m @ ''-'' @ pad_int 2 d"
    by (simp add: fmt_day_def c)
  have "length (fmt_day z) = 10" "fmt_day z ! 4 = CHR ''-''" "fmt_day z ! 7 = CHR ''-''"
    "take 4 (fmt_day z) = pad_int 4 y" "take 2 (drop 5 (fmt_day z)) = pad_int 2 m"
    "drop 8 (fmt_day z) = pad_int 2 d"
    unfolding f using ly lm ld by (simp_all add: nth_append)
  then show ?thesis
    using v y by (simp add: parse_date_def pad_int_parse days_of_civil_of_days [OF c])
qed

end
