(* ===== verification/Errs.thy ===== *)
theory Errs
  imports TimeFmt
begin

text \<open>
  \<open>internal/errs\<close>: the Go error values the code builds and the global error contract.
  \<open>Sentinel\<close> is a package variable made by \<open>errors.New\<close>, compared by identity (its name
  identifies it); \<open>Plain\<close> an error without a wrapped cause; \<open>Wrap\<close> is \<open>fmt.Errorf\<close> with
  \<open>%w\<close> last, \<open>Annot\<close> the form with \<open>%w\<close> first and a detail behind it; \<open>AppError\<close> and \<open>FiberError\<close> are the two types the handler looks for.  The nil error
  is the other side of the result sum, so it is not a value here.
\<close>

datatype go_error =
    Sentinel string
  | Plain string
  | Wrap string go_error
  | Annot go_error string
  | AppError int string string "go_error option"
  | FiberError int string

section \<open>Constructors\<close>

definition NotFound :: "string \<Rightarrow> go_error" where
  "NotFound msg = AppError 404 ''NOT_FOUND'' msg None"

definition BadRequest :: "string \<Rightarrow> go_error" where
  "BadRequest msg = AppError 400 ''BAD_REQUEST'' msg None"

definition Unauthorized :: "string \<Rightarrow> go_error" where
  "Unauthorized msg = AppError 401 ''UNAUTHORIZED'' msg None"

definition Forbidden :: "string \<Rightarrow> go_error" where
  "Forbidden msg = AppError 403 ''FORBIDDEN'' msg None"

definition Conflict :: "string \<Rightarrow> go_error" where
  "Conflict msg = AppError 409 ''CONFLICT'' msg None"

definition ServiceUnavailable :: "string \<Rightarrow> go_error" where
  "ServiceUnavailable msg = AppError 503 ''SERVICE_UNAVAILABLE'' msg None"

definition Internal :: "string \<Rightarrow> go_error \<Rightarrow> go_error" where
  "Internal msg cause = AppError 500 ''INTERNAL'' msg (Some cause)"

lemmas app_error_defs = NotFound_def BadRequest_def Unauthorized_def Forbidden_def
  Conflict_def ServiceUnavailable_def Internal_def

section \<open>Chains\<close>

text \<open>\<open>Unwrap\<close>, \<open>errors.Is\<close> against a sentinel and \<open>errors.As\<close> for the two types.\<close>

fun error_chain :: "go_error \<Rightarrow> go_error list" where
  "error_chain (Wrap s e) = Wrap s e # error_chain e"
| "error_chain (Annot e s) = Annot e s # error_chain e"
| "error_chain (AppError st c m (Some e)) = AppError st c m (Some e) # error_chain e"
| "error_chain e = [e]"

definition errors_is :: "go_error \<Rightarrow> go_error \<Rightarrow> bool" where
  "errors_is e target \<longleftrightarrow> target \<in> set (error_chain e)"

fun is_app :: "go_error \<Rightarrow> bool" where
  "is_app (AppError _ _ _ _) = True"
| "is_app _ = False"

fun is_fiber :: "go_error \<Rightarrow> bool" where
  "is_fiber (FiberError _ _) = True"
| "is_fiber _ = False"

fun error_text :: "go_error \<Rightarrow> string" where
  "error_text (Sentinel s) = s"
| "error_text (Plain s) = s"
| "error_text (Wrap s e) = s @ '': '' @ error_text e"
| "error_text (Annot e s) = error_text e @ '': '' @ s"
| "error_text (AppError st c m (Some e)) = c @ '': '' @ m @ '': '' @ error_text e"
| "error_text (AppError st c m None) = c @ '': '' @ m"
| "error_text (FiberError c m) = m"

section \<open>The handler\<close>

record Envelope =
  env_StatusCode :: int
  env_Message :: string
  env_Error :: string
  env_Timestamp :: string
  env_Path :: string
  env_RequestID :: string

definition httpCodeName :: "int \<Rightarrow> string" where
  "httpCodeName c =
     (if c = 400 then ''BAD_REQUEST''
      else if c = 401 then ''UNAUTHORIZED''
      else if c = 403 then ''FORBIDDEN''
      else if c = 404 then ''NOT_FOUND''
      else if c = 409 then ''CONFLICT''
      else if c = 422 then ''UNPROCESSABLE_ENTITY''
      else if c = 429 then ''RATE_LIMITED''
      else ''ERROR'')"

text \<open>\<open>(status, code, message)\<close> of an error: the type switch of \<open>Handler\<close>.\<close>

definition classify :: "go_error \<Rightarrow> int \<times> string \<times> string" where
  "classify err =
     (case List.find is_app (error_chain err) of
        Some (AppError st c m _) \<Rightarrow> (st, c, m)
      | _ \<Rightarrow>
        (case List.find is_fiber (error_chain err) of
           Some (FiberError c m) \<Rightarrow> (c, httpCodeName c, m)
         | _ \<Rightarrow> (500, ''INTERNAL'', ''Internal server error'')))"

text \<open>The envelope; \<open>requestid\<close> is the request-scoped local, whose type assertion panics
  (\<open>None\<close>) when the middleware has not set it.\<close>

definition Handler :: "int \<Rightarrow> string \<Rightarrow> string option \<Rightarrow> go_error \<Rightarrow> Envelope option" where
  "Handler now path requestid err =
     (case requestid of
        None \<Rightarrow> None
      | Some rid \<Rightarrow>
          (case classify err of (status, code, message) \<Rightarrow>
             Some \<lparr> env_StatusCode = status, env_Message = message, env_Error = code,
                    env_Timestamp = fmt_rfc3339 now, env_Path = path, env_RequestID = rid \<rparr>))"

definition status_of :: "go_error \<Rightarrow> int" where
  "status_of e = fst (classify e)"

lemma classify_app [simp]: "classify (AppError st c m k) = (st, c, m)"
  by (cases k) (simp_all add: classify_def)

lemma status_of_simps [simp]:
  "status_of (NotFound m) = 404" "status_of (BadRequest m) = 400"
  "status_of (Unauthorized m) = 401" "status_of (Forbidden m) = 403"
  "status_of (Conflict m) = 409" "status_of (ServiceUnavailable m) = 503"
  "status_of (Internal m e) = 500"
  by (simp_all add: status_of_def app_error_defs)

lemma error_chain_hd: "hd (error_chain e) = e \<and> error_chain e \<noteq> []"
  by (cases e rule: error_chain.cases) auto

lemma errors_is_refl [simp]: "errors_is e e"
  using error_chain_hd [of e] hd_in_set [of "error_chain e"] by (simp add: errors_is_def)

lemma errors_is_simps [simp]:
  "errors_is (Sentinel s) t = (t = Sentinel s)"
  "errors_is (Plain s) t = (t = Plain s)"
  "errors_is (Wrap s e) (Sentinel x) = errors_is e (Sentinel x)"
  "errors_is (Annot e s) (Sentinel x) = errors_is e (Sentinel x)"
  "errors_is (AppError a b c None) (Sentinel x) = False"
  "errors_is (AppError a b c (Some e)) (Sentinel x) = errors_is e (Sentinel x)"
  by (auto simp: errors_is_def)

lemma wrap_not_sentinel [simp]: "Wrap s e \<noteq> Sentinel x"
  by simp

lemma classify_sentinel:
  "classify (Sentinel s) = (500, ''INTERNAL'', ''Internal server error'')"
  by (simp add: classify_def)

text \<open>An error with neither type in its chain is hidden behind the generic message.\<close>

lemma classify_unknown:
  assumes "\<forall>e \<in> set (error_chain err). \<not> is_app e \<and> \<not> is_fiber e"
  shows "classify err = (500, ''INTERNAL'', ''Internal server error'')"
proof -
  have "List.find is_app (error_chain err) = None" "List.find is_fiber (error_chain err) = None"
    using assms by (auto simp: find_None_iff)
  then show ?thesis by (simp add: classify_def)
qed

end
