(* ===== verification/Store.thy ===== *)
theory Store
  imports Rows Errs
begin

text \<open>
  The world a request runs in: the database, the clock, the two sources of randomness and
  the goroutines it has started.  One SQL statement is atomic: it either fails without
  effect or yields a value and a new database (\<open>exec\<close>).  Around each statement the model
  lets everything happen that the real system lets happen: \<open>script\<close> says, statement by
  statement, whether the connection works (\<open>Fine\<close>), breaks before the statement takes
  effect (\<open>Lost\<close>) or after it (\<open>Unacked\<close>: the effect stands, the caller sees an error), and
  which changes other requests commit just before it (any function on the database).
  An empty script is an undisturbed run.  Safety properties are proved for every script
  whose interference itself respects the property (\<open>db_step\<close>); functional ones for an
  undisturbed run.
\<close>

datatype event = Fine | Lost | Unacked

text \<open>Goroutines started with \<open>go\<close>; they run after the handler that started them.\<close>

datatype task = BadgeCheckTask string | LessonAwardTask string | PracticeAwardTask string

record world =
  db :: database
  clock :: int
  ticks :: "nat list"
  script :: "(event \<times> (database \<Rightarrow> database)) list"
  uuid_src :: "nat \<Rightarrow> string"
  uuid_ix :: nat
  rnd_src :: "nat \<Rightarrow> nat \<Rightarrow> string option"
  rnd_ix :: nat
  spawned :: "task list"

type_synonym 'a io = "(world, go_error, 'a) prog"

text \<open>A statement fails without effect or yields a value and the new database.\<close>

type_synonym 'a stmt = "database \<Rightarrow> go_error + 'a \<times> database"

abbreviation ErrNoRows :: go_error where
  "ErrNoRows \<equiv> Sentinel ''sql: no rows in result set''"

abbreviation ErrConn :: go_error where
  "ErrConn \<equiv> Plain ''driver: bad connection''"

abbreviation ErrDuplicate :: go_error where
  "ErrDuplicate \<equiv> Plain ''Error 1062: Duplicate entry''"

abbreviation ErrForeignKey :: go_error where
  "ErrForeignKey \<equiv> Plain ''Error 1452: a foreign key constraint fails''"

abbreviation ErrTruncated :: go_error where
  "ErrTruncated \<equiv> Plain ''Error 1265: Data truncated for column''"

abbreviation ErrTooLong :: go_error where
  "ErrTooLong \<equiv> Plain ''Error 1406: Data too long for column''"

definition commit :: "'a stmt \<Rightarrow> 'a io" where
  "commit f = (\<lambda>w. case f (db w) of
     Inl e \<Rightarrow> (Inl e, w) | Inr (x, d) \<Rightarrow> (Inr x, w\<lparr>db := d\<rparr>))"

definition exec :: "'a stmt \<Rightarrow> 'a io" where
  "exec f = (\<lambda>w. case script w of
     [] \<Rightarrow> commit f w
   | (Fine, g) # s \<Rightarrow> commit f (w\<lparr>script := s, db := g (db w)\<rparr>)
   | (Lost, g) # s \<Rightarrow> (Inl ErrConn, w\<lparr>script := s, db := g (db w)\<rparr>)
   | (Unacked, g) # s \<Rightarrow> (Inl ErrConn, snd (commit f (w\<lparr>script := s, db := g (db w)\<rparr>))))"

text \<open>Reading statements: all rows, one row (\<open>sql.ErrNoRows\<close> when there is none).\<close>

definition query :: "(database \<Rightarrow> 'a) \<Rightarrow> 'a io" where
  "query f = exec (\<lambda>d. Inr (f d, d))"

definition query_one :: "(database \<Rightarrow> 'a option) \<Rightarrow> 'a io" where
  "query_one f = exec (\<lambda>d. case f d of None \<Rightarrow> Inl ErrNoRows | Some r \<Rightarrow> Inr (r, d))"

text \<open>\<open>BeginTx\<close> ... \<open>Commit\<close> with the rollback deferred: the statements of \<open>m\<close> take effect together
  or not at all, and no other request's commit falls between them (the code locks the rows it
  reads).  The connection may break anywhere before the commit or, unacknowledged, after it.\<close>

definition transaction :: "'a io \<Rightarrow> 'a io" where
  "transaction m = (\<lambda>w.
     let w0 = (case script w of [] \<Rightarrow> w | x # s \<Rightarrow> w\<lparr>script := [], db := snd x (db w)\<rparr>);
         (r, v) = m w0;
         v' = v\<lparr>script := tl (script w)\<rparr>
     in case r of
          Inl e \<Rightarrow> (Inl e, v'\<lparr>db := db w0\<rparr>)
        | Inr x \<Rightarrow>
            (case script w of
               (Lost, _) # _ \<Rightarrow> (Inl ErrConn, v'\<lparr>db := db w0\<rparr>)
             | (Unacked, _) # _ \<Rightarrow> (Inl ErrConn, v')
             | _ \<Rightarrow> (Inr x, v')))"

text \<open>A critical section on shared memory: other requests may run before it, and it cannot fail.\<close>

definition locked :: "(database \<Rightarrow> 'a \<times> database) \<Rightarrow> (world, 'e, 'a) prog" where
  "locked f = (\<lambda>w.
     let w0 = (case script w of [] \<Rightarrow> w | x # s \<Rightarrow> w\<lparr>script := s, db := snd x (db w)\<rparr>);
         (r, d) = f (db w0)
     in (Inr r, w0\<lparr>db := d\<rparr>))"

text \<open>\<open>time.Now()\<close>: the clock never runs backwards.\<close>

definition go_now :: "(world, 'e, int) prog" where
  "go_now = (\<lambda>w. (Inr (clock w),
     case ticks w of [] \<Rightarrow> w | t # ts \<Rightarrow> w\<lparr>clock := clock w + int t, ticks := ts\<rparr>))"

definition new_uuid :: "(world, 'e, string) prog" where
  "new_uuid = (\<lambda>w. (Inr (uuid_src w (uuid_ix w)), w\<lparr>uuid_ix := Suc (uuid_ix w)\<rparr>))"

text \<open>\<open>rand.Read\<close> of \<open>n\<close> bytes; \<open>None\<close> is its error.\<close>

definition rand_read :: "nat \<Rightarrow> (world, 'e, string option) prog" where
  "rand_read n = (\<lambda>w. (Inr (rnd_src w (rnd_ix w) n), w\<lparr>rnd_ix := Suc (rnd_ix w)\<rparr>))"

definition go_spawn :: "task \<Rightarrow> (world, 'e, unit) prog" where
  "go_spawn t = (\<lambda>w. (Inr (), w\<lparr>spawned := spawned w @ [t]\<rparr>))"

definition hex_digit :: "nat \<Rightarrow> char" where
  "hex_digit n = (if n < 10 then char_of (48 + n) else char_of (87 + n))"

text \<open>\<open>hex.EncodeToString\<close>.\<close>

definition hex_encode :: "string \<Rightarrow> string" where
  "hex_encode s = concat (map (\<lambda>c. [hex_digit (byte_of c div 16), hex_digit (byte_of c mod 16)]) s)"

text \<open>\<open>ORDER BY k DESC\<close> and \<open>ASC\<close> (rows with equal keys keep their insertion order; MySQL
  leaves that order open) and \<open>LIMIT\<close> is \<open>take\<close>.\<close>

definition sort_desc :: "('r \<Rightarrow> int) \<Rightarrow> 'r list \<Rightarrow> 'r list" where
  "sort_desc k rs = sort_key (\<lambda>r. - k r) rs"

text \<open>\<open>ORDER BY\<close> several columns: a stable sort along the order of the rows.\<close>

fun insert_by :: "('r \<Rightarrow> 'r \<Rightarrow> bool) \<Rightarrow> 'r \<Rightarrow> 'r list \<Rightarrow> 'r list" where
  "insert_by le r [] = [r]"
| "insert_by le r (x # xs) = (if le r x then r # x # xs else x # insert_by le r xs)"

definition sort_by :: "('r \<Rightarrow> 'r \<Rightarrow> bool) \<Rightarrow> 'r list \<Rightarrow> 'r list" where
  "sort_by le rs = foldr (insert_by le) rs []"

definition count_rows :: "('r \<Rightarrow> bool) \<Rightarrow> 'r list \<Rightarrow> int" where
  "count_rows P rs = int (length (filter P rs))"

lemma set_insert_by [simp]: "set (insert_by le r rs) = insert r (set rs)"
  by (induction rs) auto

lemma set_sort_by [simp]: "set (sort_by le rs) = set rs"
  by (induction rs) (simp_all add: sort_by_def)

lemma distinct_insert_by:
  "distinct (map k (insert_by le r rs)) \<longleftrightarrow> k r \<notin> k ` set rs \<and> distinct (map k rs)"
  by (induction rs) auto

lemma distinct_sort_by: "distinct (map k (sort_by le rs)) \<longleftrightarrow> distinct (map k rs)"
proof (induction rs)
  case (Cons r rs)
  have "sort_by le (r # rs) = insert_by le r (sort_by le rs)" by (simp add: sort_by_def)
  with Cons show ?case by (simp add: distinct_insert_by)
qed (simp add: sort_by_def)

section \<open>Running\<close>

lemma commit_run [go_simps]:
  "commit f w = (case f (db w) of
     Inl e \<Rightarrow> (Inl e, w) | Inr (x, d) \<Rightarrow> (Inr x, w\<lparr>db := d\<rparr>))"
  by (simp add: commit_def)

lemma exec_quiet [go_simps]: "script w = [] \<Longrightarrow> exec f w = commit f w"
  by (simp add: exec_def)

lemma query_quiet [go_simps]: "script w = [] \<Longrightarrow> query f w = (Inr (f (db w)), w)"
  by (simp add: query_def exec_def commit_def)

lemma query_one_quiet [go_simps]:
  "script w = [] \<Longrightarrow>
   query_one f w = (case f (db w) of None \<Rightarrow> (Inl ErrNoRows, w) | Some r \<Rightarrow> (Inr r, w))"
  by (simp add: query_one_def exec_def commit_def split: option.splits)

lemma transaction_quiet [go_simps]:
  "script w = [] \<Longrightarrow> transaction m w =
     (case m w of (Inl e, v) \<Rightarrow> (Inl e, v\<lparr>script := [], db := db w\<rparr>) | (Inr x, v) \<Rightarrow> (Inr x, v\<lparr>script := []\<rparr>))"
  by (simp add: transaction_def Let_def split: sum.split prod.split)

lemma locked_quiet [go_simps]:
  "script w = [] \<Longrightarrow> locked f w = (Inr (fst (f (db w))), w\<lparr>db := snd (f (db w))\<rparr>)"
  by (simp add: locked_def case_prod_unfold Let_def)

lemma new_uuid_run [go_simps]:
  "new_uuid w = (Inr (uuid_src w (uuid_ix w)), w\<lparr>uuid_ix := Suc (uuid_ix w)\<rparr>)"
  by (simp add: new_uuid_def)

lemma rand_read_run [go_simps]:
  "rand_read n w = (Inr (rnd_src w (rnd_ix w) n), w\<lparr>rnd_ix := Suc (rnd_ix w)\<rparr>)"
  by (simp add: rand_read_def)

lemma go_spawn_run [go_simps]: "go_spawn t w = (Inr (), w\<lparr>spawned := spawned w @ [t]\<rparr>)"
  by (simp add: go_spawn_def)

text \<open>The world after one reading of the clock.\<close>

definition tick :: "world \<Rightarrow> world" where
  "tick w = snd ((go_now :: int io) w)"

lemma go_now_run [go_simps]: "go_now w = (Inr (clock w), tick w)"
  by (simp add: tick_def go_now_def)

lemma tick_eq: "tick w = w\<lparr>clock := clock w + (if ticks w = [] then 0 else int (hd (ticks w))),
    ticks := tl (ticks w)\<rparr>"
  by (cases "ticks w") (simp_all add: tick_def go_now_def)

lemma tick_simps [simp]:
  "db (tick w) = db w" "script (tick w) = script w" "uuid_src (tick w) = uuid_src w"
  "uuid_ix (tick w) = uuid_ix w" "rnd_src (tick w) = rnd_src w" "rnd_ix (tick w) = rnd_ix w"
  "spawned (tick w) = spawned w" "clock w \<le> clock (tick w)"
  by (simp_all add: tick_eq)

section \<open>Frames over the database\<close>

text \<open>\<open>db_step R\<close>: the database moves along \<open>R\<close>, if the interference of other requests
  does.\<close>

definition db_step :: "(database \<Rightarrow> database \<Rightarrow> bool) \<Rightarrow> world \<Rightarrow> world \<Rightarrow> bool" where
  "db_step R w v \<longleftrightarrow> set (script v) \<subseteq> set (script w) \<and>
     ((\<forall>x \<in> set (script w). \<forall>d. R d (snd x d)) \<longrightarrow> R (db w) (db v))"

text \<open>A statement that moves the database along \<open>R\<close> whenever it takes effect.\<close>

definition stmt_ok :: "(database \<Rightarrow> database \<Rightarrow> bool) \<Rightarrow> 'a stmt \<Rightarrow> bool" where
  "stmt_ok R f \<longleftrightarrow> (\<forall>d x d'. f d = Inr (x, d') \<longrightarrow> R d d')"

locale db_frame =
  fixes R :: "database \<Rightarrow> database \<Rightarrow> bool"
  assumes db_refl: "R d d"
    and db_trans: "R d d' \<Longrightarrow> R d' d'' \<Longrightarrow> R d d''"
begin

lemma db_step_frame: "step_frame (db_step R)"
proof
  show "db_step R s s" for s by (simp add: db_step_def db_refl)
  show "db_step R s u" if "db_step R s t" "db_step R t u" for s t u
    using that unfolding db_step_def by (meson db_trans subset_eq)
qed

lemma commit_step: "stmt_ok R f \<Longrightarrow> script (snd (commit f w)) = script w \<and> R (db w) (db (snd (commit f w)))"
  by (auto simp: commit_def stmt_ok_def db_refl split: sum.splits)

lemma within_exec: 
  assumes "stmt_ok R f"
  shows "within (db_step R) (exec f)"
  unfolding within_def
proof
  fix w
  show "db_step R w (snd (exec f w))"
  proof (cases "script w")
    case Nil
    with commit_step [OF assms, of w] show ?thesis by (simp add: exec_def db_step_def)
  next
    case (Cons x s)
    obtain e g where x: "x = (e, g)" by (cases x)
    let ?v = "w\<lparr>script := s, db := g (db w)\<rparr>"
    from commit_step [OF assms, of ?v]
    have "script (snd (commit f ?v)) = s" "R (g (db w)) (db (snd (commit f ?v)))" by simp_all
    then show ?thesis using Cons x db_trans
      by (cases e) (auto simp: exec_def db_step_def)
  qed
qed

lemma within_query: "within (db_step R) (query f)"
  unfolding query_def by (rule within_exec) (auto simp: stmt_ok_def db_refl)

lemma within_query_one: "within (db_step R) (query_one f)"
  unfolding query_one_def by (rule within_exec) (auto simp: stmt_ok_def db_refl split: option.splits)

lemma within_pure:
  "within (db_step R) go_now" "within (db_step R) new_uuid"
  "within (db_step R) (rand_read n)" "within (db_step R) (go_spawn t)"
  by (simp_all add: within_def db_step_def db_refl go_simps)

lemma within_transaction:
  assumes "within (db_step R) m"
  shows "within (db_step R) (transaction m)"
  unfolding within_def
proof
  fix w :: world
  define w0 where "w0 = (case script w of [] \<Rightarrow> w | x # s \<Rightarrow> w\<lparr>script := [], db := snd x (db w)\<rparr>)"
  obtain r v where rv: "m w0 = (r, v)" by (cases "m w0")
  have quiet: "script w0 = []" by (simp add: w0_def split: list.split)
  have m: "db_step R w0 v" using assms rv by (metis snd_conv withinD)
  have env: "(\<forall>x \<in> set (script w). \<forall>d. R d (snd x d)) \<longrightarrow> R (db w) (db w0)"
    by (auto simp: w0_def db_refl split: list.split)
  moreover have body: "R (db w0) (db v)" using m by (simp add: db_step_def quiet)
  ultimately have to_v: "(\<forall>x \<in> set (script w). \<forall>d. R d (snd x d)) \<longrightarrow> R (db w) (db v)"
    using db_trans by blast
  have "set (tl (script w)) \<subseteq> set (script w)" by (cases "script w") auto
  then show "db_step R w (snd (transaction m w))"
    using env to_v
    by (auto simp: transaction_def w0_def [symmetric] rv db_step_def Let_def
        split: sum.split list.split event.split)
qed

lemma within_locked:
  assumes "\<And>d. R d (snd (f d))"
  shows "within (db_step R) (locked f)"
  unfolding within_def
proof
  fix w :: world
  show "db_step R w (snd (locked f w))"
  proof (cases "script w")
    case Nil
    then show ?thesis using assms [of "db w"] by (auto simp: locked_def db_step_def split: prod.split)
  next
    case (Cons x s)
    then show ?thesis using assms [of "snd x (db w)"] db_trans
      by (fastforce simp: locked_def db_step_def split: prod.split)
  qed
qed

lemmas within_prims = within_exec within_query within_query_one within_pure within_transaction within_locked

end

sublocale db_frame \<subseteq> steps: step_frame "db_step R"
  by (rule db_step_frame)

text \<open>An undisturbed run stays undisturbed.\<close>

lemma quiet_step:
  "within (db_step R) m \<Longrightarrow> script w = [] \<Longrightarrow> db_frame R \<Longrightarrow>
   R (db w) (db (snd (m w))) \<and> script (snd (m w)) = []"
  unfolding within_def db_step_def by (metis empty_iff list.set(1) set_empty subset_empty)

lemma quiet_script:
  "within (db_step R) m \<Longrightarrow> script w = [] \<Longrightarrow> script (snd (m w)) = []"
  by (metis db_step_def list.set(1) set_empty subset_empty within_def)

section \<open>Specifications under interference\<close>

text \<open>\<open>rg R P m Q\<close>: started in a database satisfying \<open>P\<close>, and with other requests moving
  along \<open>R\<close> only, \<open>m\<close> moves along \<open>R\<close> and ends with its result and database in \<open>Q\<close>.\<close>

definition rely_ok :: "(database \<Rightarrow> database \<Rightarrow> bool) \<Rightarrow> world \<Rightarrow> bool" where
  "rely_ok R w \<longleftrightarrow> (\<forall>x \<in> set (script w). \<forall>d. R d (snd x d))"

definition rg :: "(database \<Rightarrow> database \<Rightarrow> bool) \<Rightarrow> (database \<Rightarrow> bool) \<Rightarrow> 'a io \<Rightarrow>
    (go_error + 'a \<Rightarrow> database \<Rightarrow> bool) \<Rightarrow> bool" where
  "rg R P m Q \<longleftrightarrow>
     (\<forall>w. rely_ok R w \<longrightarrow> P (db w) \<longrightarrow>
        db_step R w (snd (m w)) \<and> Q (fst (m w)) (db (snd (m w))))"

definition stable :: "(database \<Rightarrow> database \<Rightarrow> bool) \<Rightarrow> (database \<Rightarrow> bool) \<Rightarrow> bool" where
  "stable R P \<longleftrightarrow> (\<forall>d d'. P d \<longrightarrow> R d d' \<longrightarrow> P d')"

lemma db_step_rely: "db_step R w v \<Longrightarrow> rely_ok R w \<Longrightarrow> rely_ok R v \<and> R (db w) (db v)"
  by (auto simp: db_step_def rely_ok_def)

lemma within_rely: "within (db_step R) m \<Longrightarrow> rely_ok R w \<Longrightarrow> R (db w) (db (snd (m w)))"
  using db_step_rely by (auto simp: within_def)

lemma rg_conseq:
  "rg R P m Q \<Longrightarrow> (\<And>d. P' d \<Longrightarrow> P d) \<Longrightarrow> (\<And>x d. Q x d \<Longrightarrow> Q' x d) \<Longrightarrow> rg R P' m Q'"
  by (simp add: rg_def)

lemma rg_False: "(\<And>d. \<not> P d) \<Longrightarrow> rg R P m Q"
  by (simp add: rg_def)

context db_frame
begin

lemmas within_intros = steps.within_rules within_prims

lemma rg_of_within:
  assumes "within (db_step R) m" "stable R P"
  shows "rg R P m (\<lambda>_. P)"
  using assms db_step_rely by (fastforce simp: rg_def within_def stable_def)

lemma rg_ret: "(\<And>d. P d \<Longrightarrow> Q (Inr x) d) \<Longrightarrow> rg R P (ret x) Q"
  by (simp add: rg_def ret_def db_step_def db_refl)

lemma rg_fail: "(\<And>d. P d \<Longrightarrow> Q (Inl e) d) \<Longrightarrow> rg R P (fail e) Q"
  by (simp add: rg_def fail_def db_step_def db_refl)

lemma rg_call:
  assumes m: "rg R P m M" and h: "\<And>e. rg R (M (Inl e)) (h e) Q"
    and k: "\<And>x. rg R (M (Inr x)) (k x) Q"
  shows "rg R P (call m h k) Q"
  unfolding rg_def
proof (intro allI impI)
  fix w assume w: "rely_ok R w" "P (db w)"
  obtain r v where rv: "m w = (r, v)" by (cases "m w")
  with m w have step: "db_step R w v" and M: "M r (db v)" by (auto simp: rg_def)
  with w db_step_rely have v: "rely_ok R v" by blast
  obtain n where n: "call m h k w = n v" "rg R (M r) n Q"
    using rv h k by (cases r) (auto simp: call_def)
  with v M have "db_step R v (snd (n v))" "Q (fst (n v)) (db (snd (n v)))" by (auto simp: rg_def)
  with n step show "db_step R w (snd (call m h k w)) \<and>
      Q (fst (call m h k w)) (db (snd (call m h k w)))"
    by (metis steps.frame_trans)
qed

lemma rg_exec:
  assumes "stable R P"
    and "\<And>d x d'. P d \<Longrightarrow> f d = Inr (x, d') \<Longrightarrow> R d d' \<and> Q (Inr x) d'"
    and "\<And>e d. P d \<Longrightarrow> Q (Inl e) d"
  shows "rg R P (exec f) Q"
  unfolding rg_def
proof (intro allI impI)
  fix w assume w: "rely_ok R w" "P (db w)"
  have commit: "R (db v) (db (snd (commit f v))) \<and> script (snd (commit f v)) = script v \<and>
      Q (fst (commit f v)) (db (snd (commit f v))) \<and> P (db (snd (commit f v)))" if "P (db v)" for v
    using assms that by (auto simp: commit_def stable_def db_refl split: sum.splits)
  show "db_step R w (snd (exec f w)) \<and> Q (fst (exec f w)) (db (snd (exec f w)))"
  proof (cases "script w")
    case Nil
    with commit [of w] w show ?thesis by (simp add: exec_def db_step_def)
  next
    case (Cons x s)
    obtain e g where x: "x = (e, g)" by (cases x)
    let ?v = "w\<lparr>script := s, db := g (db w)\<rparr>"
    have env: "R (db w) (g (db w))" using w Cons x by (simp add: rely_ok_def)
    then have "P (db ?v)" using w assms(1) by (auto simp: stable_def)
    with commit [of ?v] env Cons x assms(3) show ?thesis
      by (cases e) (auto simp: exec_def db_step_def intro: db_trans)
  qed
qed

lemma rg_transaction:
  assumes m: "within (db_step R) m" and P: "stable R P" and fails: "\<And>e d. Q (Inl e) d"
    and ok: "\<And>w x v. script w = [] \<Longrightarrow> P (db w) \<Longrightarrow> m w = (Inr x, v) \<Longrightarrow> Q (Inr x) (db v)"
  shows "rg R P (transaction m) Q"
  unfolding rg_def
proof (intro allI impI conjI)
  fix w assume w: "rely_ok R w" "P (db w)"
  show "db_step R w (snd (transaction m w))" using within_transaction [OF m] by (simp add: within_def)
  define w0 where "w0 = (case script w of [] \<Rightarrow> w | x # s \<Rightarrow> w\<lparr>script := [], db := snd x (db w)\<rparr>)"
  have w0: "script w0 = []" "P (db w0)"
    using w P by (auto simp: w0_def rely_ok_def stable_def split: list.split)
  obtain r v where rv: "m w0 = (r, v)" by (cases "m w0")
  show "Q (fst (transaction m w)) (db (snd (transaction m w)))"
    using ok [OF w0] rv fails
    by (auto simp: transaction_def w0_def [symmetric] Let_def split: sum.split list.split event.split)
qed

lemma rg_ignoring: "rg R P m M \<Longrightarrow> (\<And>x. rg R (M x) k Q) \<Longrightarrow> rg R P (ignoring m k) Q"
  unfolding ignoring_def by (rule rg_call)

lemma rg_if:
  "(b \<Longrightarrow> rg R P m Q) \<Longrightarrow> (\<not> b \<Longrightarrow> rg R P n Q) \<Longrightarrow> rg R P (if b then m else n) Q"
  by simp

end

end
