(* ===== verification/Tables.thy ===== *)
theory Tables
  imports Store
begin

text \<open>
  The constraints of \<open>db/migrations/0001_init.sql\<close> that the modelled statements can hit:
  an \<open>INSERT\<close> fails without effect on a duplicate primary or unique key, on a missing
  parent row and on a value outside an \<open>ENUM\<close> column.  A NULL never collides in a unique
  key.  String keys are compared byte by byte.
\<close>

section \<open>Parent rows\<close>

definition user_exists :: "database \<Rightarrow> string \<Rightarrow> bool" where
  "user_exists d u \<longleftrightarrow> list_ex (\<lambda>r. usr_ID r = u) (t_users d)"

definition course_exists :: "database \<Rightarrow> string \<Rightarrow> bool" where
  "course_exists d c \<longleftrightarrow> list_ex (\<lambda>r. crs_ID r = c) (t_courses d)"

definition degree_exists :: "database \<Rightarrow> string \<Rightarrow> bool" where
  "degree_exists d g \<longleftrightarrow> list_ex (\<lambda>r. deg_ID r = g) (t_nano_degrees d)"

definition lesson_exists :: "database \<Rightarrow> string \<Rightarrow> bool" where
  "lesson_exists d l \<longleftrightarrow> list_ex (\<lambda>r. lsn_ID r = l) (t_lessons d)"

definition badge_exists :: "database \<Rightarrow> string \<Rightarrow> bool" where
  "badge_exists d b \<longleftrightarrow> list_ex (\<lambda>r. bdg_ID r = b) (t_badges d)"

section \<open>Unique keys\<close>

text \<open>Two rows cannot both be stored.\<close>

definition enr_conflict :: "Enrollment \<Rightarrow> Enrollment \<Rightarrow> bool" where
  "enr_conflict r x \<longleftrightarrow>
     enr_ID r = enr_ID x \<or>
     (enr_UserID r = enr_UserID x \<and>
       ((enr_CourseID r \<noteq> None \<and> enr_CourseID r = enr_CourseID x) \<or>
        (enr_DegreeID r \<noteq> None \<and> enr_DegreeID r = enr_DegreeID x)))"

definition ord_conflict :: "Order \<Rightarrow> Order \<Rightarrow> bool" where
  "ord_conflict r x \<longleftrightarrow> ord_ID r = ord_ID x"

definition prg_conflict :: "ProgressRecord \<Rightarrow> ProgressRecord \<Rightarrow> bool" where
  "prg_conflict r x \<longleftrightarrow>
     prg_ID r = prg_ID x \<or> (prg_UserID r = prg_UserID x \<and> prg_LessonID r = prg_LessonID x)"

definition crt_conflict :: "Certificate \<Rightarrow> Certificate \<Rightarrow> bool" where
  "crt_conflict r x \<longleftrightarrow> crt_ID r = crt_ID x \<or> crt_SerialNumber r = crt_SerialNumber x"

definition bdg_conflict :: "Badge \<Rightarrow> Badge \<Rightarrow> bool" where
  "bdg_conflict r x \<longleftrightarrow> bdg_ID r = bdg_ID x \<or> bdg_Code r = bdg_Code x"

definition ubd_conflict :: "UserBadge \<Rightarrow> UserBadge \<Rightarrow> bool" where
  "ubd_conflict r x \<longleftrightarrow>
     ubd_ID r = ubd_ID x \<or> (ubd_UserID r = ubd_UserID x \<and> ubd_BadgeID r = ubd_BadgeID x)"

definition ntf_conflict :: "Notification \<Rightarrow> Notification \<Rightarrow> bool" where
  "ntf_conflict r x \<longleftrightarrow> ntf_ID r = ntf_ID x"

definition usr_conflict :: "User \<Rightarrow> User \<Rightarrow> bool" where
  "usr_conflict r x \<longleftrightarrow> usr_ID r = usr_ID x \<or> usr_Email r = usr_Email x"

definition rft_conflict :: "RefreshToken \<Rightarrow> RefreshToken \<Rightarrow> bool" where
  "rft_conflict r x \<longleftrightarrow> rft_ID r = rft_ID x \<or> rft_Token r = rft_Token x"

definition prt_conflict :: "PasswordResetToken \<Rightarrow> PasswordResetToken \<Rightarrow> bool" where
  "prt_conflict r x \<longleftrightarrow> prt_ID r = prt_ID x \<or> prt_TokenHash r = prt_TokenHash x"

definition upa_conflict :: "UserProviderAccount \<Rightarrow> UserProviderAccount \<Rightarrow> bool" where
  "upa_conflict r x \<longleftrightarrow> upa_ID r = upa_ID x \<or>
     (upa_Provider r = upa_Provider x \<and> upa_ProviderUserID r = upa_ProviderUserID x)"

lemma conflict_sym:
  "enr_conflict r x = enr_conflict x r" "ord_conflict q y = ord_conflict y q"
  "prg_conflict p z = prg_conflict z p" "crt_conflict c k = crt_conflict k c"
  "bdg_conflict b e = bdg_conflict e b" "ubd_conflict u v = ubd_conflict v u"
  "ntf_conflict m n = ntf_conflict n m"
  by (metis enr_conflict_def) (metis ord_conflict_def prg_conflict_def crt_conflict_def
        bdg_conflict_def ubd_conflict_def ntf_conflict_def)+

text \<open>A table whose rows are pairwise free of conflicts, and what its statements must do
  to stay so.\<close>

definition no_conflicts :: "('r \<Rightarrow> 'r \<Rightarrow> bool) \<Rightarrow> 'r list \<Rightarrow> bool" where
  "no_conflicts C rs \<longleftrightarrow> sorted_wrt (\<lambda>r x. \<not> C r x) rs"

lemma no_conflicts_Nil [simp]: "no_conflicts C []"
  by (simp add: no_conflicts_def)

lemma no_conflicts_append:
  "no_conflicts C rs \<Longrightarrow> (\<And>x. C x r = C r x) \<Longrightarrow> \<not> list_ex (C r) rs \<Longrightarrow> no_conflicts C (rs @ [r])"
  by (auto simp: no_conflicts_def sorted_wrt_append list_ex_iff)

lemma no_conflicts_upd:
  assumes "\<And>r x. C (if P r then f r else r) (if P x then f x else x) = C r x"
  shows "no_conflicts C (upd P f rs) = no_conflicts C rs"
  by (simp add: no_conflicts_def upd_def sorted_wrt_map assms)

lemma no_conflicts_deleted: "no_conflicts C rs \<Longrightarrow> no_conflicts C (deleted P rs)"
  unfolding no_conflicts_def deleted_def by (rule sorted_wrt_filter)

lemma no_conflicts_unique:
  assumes "no_conflicts C rs" "\<And>x y. C x y = C y x" "r \<in> set rs" "x \<in> set rs" "C r x" "r \<noteq> x"
  shows False
  using assms
proof (induction rs)
  case (Cons a rs)
  then have rs: "no_conflicts C rs" and a: "\<forall>y \<in> set rs. \<not> C a y"
    by (simp_all add: no_conflicts_def)
  from Cons.prems(3-6) consider "r = a" "x \<in> set rs" | "x = a" "r \<in> set rs" | "r \<in> set rs" "x \<in> set rs"
    by auto
  then show ?case
  proof cases
    case 3
    with Cons.IH rs Cons.prems(2,5,6) show ?thesis by blast
  qed (use a Cons.prems(2,5) in blast)+
qed simp

lemma no_conflicts_distinct:
  "no_conflicts C rs \<Longrightarrow> (\<And>r x. k r = k x \<Longrightarrow> C r x) \<Longrightarrow> distinct (map k rs)"
  by (induction rs) (auto simp: no_conflicts_def)

section \<open>The life of a table\<close>

text \<open>\<open>evolve N rs ss\<close>: every row of \<open>rs\<close> is still there, at its place, moved along \<open>N\<close>;
  \<open>ss\<close> may hold new rows behind them.\<close>

definition evolve :: "('r \<Rightarrow> 'r \<Rightarrow> bool) \<Rightarrow> 'r list \<Rightarrow> 'r list \<Rightarrow> bool" where
  "evolve N rs ss \<longleftrightarrow> length rs \<le> length ss \<and> (\<forall>i < length rs. N (rs ! i) (ss ! i))"

locale row_life =
  fixes N :: "'r \<Rightarrow> 'r \<Rightarrow> bool"
  assumes next_refl: "N r r"
    and next_trans: "N r s \<Longrightarrow> N s t \<Longrightarrow> N r t"
begin

lemma evolve_refl: "evolve N rs rs"
  by (simp add: evolve_def next_refl)

lemma evolve_trans: "evolve N rs ss \<Longrightarrow> evolve N ss ts \<Longrightarrow> evolve N rs ts"
  unfolding evolve_def by (meson le_less_trans less_le_trans next_trans order_trans)

lemma evolve_append: "evolve N rs (rs @ ts)"
  by (simp add: evolve_def nth_append next_refl)

lemma evolve_upd:
  assumes "\<And>r. r \<in> set rs \<Longrightarrow> P r \<Longrightarrow> N r (f r)"
  shows "evolve N rs (upd P f rs)"
  using assms by (auto simp: evolve_def upd_def next_refl)

lemma evolve_row:
  assumes "evolve N rs ss" "r \<in> set rs"
  shows "\<exists>s \<in> set ss. N r s"
proof -
  from assms(2) obtain i where "i < length rs" "r = rs ! i" by (auto simp: in_set_conv_nth)
  with assms(1) show ?thesis unfolding evolve_def by (meson less_le_trans nth_mem)
qed

end

section \<open>Inserts\<close>

definition insert_enrollment :: "Enrollment \<Rightarrow> unit stmt" where
  "insert_enrollment r = (\<lambda>d.
     if list_ex (enr_conflict r) (t_enrollments d) then Inl ErrDuplicate
     else if \<not> (user_exists d (enr_UserID r) \<and>
                (\<forall>c \<in> set_option (enr_CourseID r). course_exists d c) \<and>
                (\<forall>g \<in> set_option (enr_DegreeID r). degree_exists d g)) then Inl ErrForeignKey
     else Inr ((), d\<lparr>t_enrollments := t_enrollments d @ [r]\<rparr>))"

definition insert_order :: "Order \<Rightarrow> unit stmt" where
  "insert_order r = (\<lambda>d.
     if \<not> (\<forall>m \<in> set_option (ord_PaymentMethod r). m \<in> set [''wechat'', ''alipay'', ''stripe''])
     then Inl ErrTruncated
     else if list_ex (ord_conflict r) (t_orders d) then Inl ErrDuplicate
     else if \<not> (user_exists d (ord_UserID r) \<and>
                (\<forall>c \<in> set_option (ord_CourseID r). course_exists d c) \<and>
                (\<forall>g \<in> set_option (ord_DegreeID r). degree_exists d g)) then Inl ErrForeignKey
     else Inr ((), d\<lparr>t_orders := t_orders d @ [r]\<rparr>))"

definition insert_audit_log :: "AuditLog \<Rightarrow> unit stmt" where
  "insert_audit_log r = (\<lambda>d.
     if list_ex (\<lambda>x. aud_ID x = aud_ID r) (t_audit_logs d) then Inl ErrDuplicate
     else if \<not> (\<forall>u \<in> set_option (aud_UserID r). user_exists d u) then Inl ErrForeignKey
     else Inr ((), d\<lparr>t_audit_logs := t_audit_logs d @ [r]\<rparr>))"

definition insert_certificate :: "Certificate \<Rightarrow> unit stmt" where
  "insert_certificate r = (\<lambda>d.
     if crt_Type r \<notin> set [''course'', ''degree'', ''hackathon''] then Inl ErrTruncated
     else if list_ex (crt_conflict r) (t_certificates d) then Inl ErrDuplicate
     else if \<not> user_exists d (crt_UserID r) then Inl ErrForeignKey
     else Inr ((), d\<lparr>t_certificates := t_certificates d @ [r]\<rparr>))"

definition criteria_types :: "string list" where
  "criteria_types = [''course_completed'', ''lessons_completed'', ''streak_days'',
     ''first_enrollment'', ''practice_completed'', ''points_reached'', ''course_specific'']"

definition insert_badge :: "Badge \<Rightarrow> unit stmt" where
  "insert_badge r = (\<lambda>d.
     if bdg_CriteriaType r \<notin> set criteria_types then Inl ErrTruncated
     else if list_ex (bdg_conflict r) (t_badges d) then Inl ErrDuplicate
     else Inr ((), d\<lparr>t_badges := t_badges d @ [r]\<rparr>))"

definition insert_user_badge :: "UserBadge \<Rightarrow> unit stmt" where
  "insert_user_badge r = (\<lambda>d.
     if list_ex (ubd_conflict r) (t_user_badges d) then Inl ErrDuplicate
     else if \<not> (user_exists d (ubd_UserID r) \<and> badge_exists d (ubd_BadgeID r)) then Inl ErrForeignKey
     else Inr ((), d\<lparr>t_user_badges := t_user_badges d @ [r]\<rparr>))"

definition insert_notification :: "Notification \<Rightarrow> unit stmt" where
  "insert_notification r = (\<lambda>d.
     if ntf_Type r \<notin> set [''announcement'', ''comment'', ''hackathon'', ''order''] then Inl ErrTruncated
     else if list_ex (ntf_conflict r) (t_notifications d) then Inl ErrDuplicate
     else if \<not> user_exists d (ntf_UserID r) then Inl ErrForeignKey
     else Inr ((), d\<lparr>t_notifications := t_notifications d @ [r]\<rparr>))"

definition insert_user :: "User \<Rightarrow> unit stmt" where
  "insert_user r = (\<lambda>d.
     if usr_Role r \<notin> set [''admin'', ''student'', ''instructor''] then Inl ErrTruncated
     else if list_ex (usr_conflict r) (t_users d) then Inl ErrDuplicate
     else Inr ((), d\<lparr>t_users := t_users d @ [r]\<rparr>))"

definition insert_refresh_token :: "RefreshToken \<Rightarrow> unit stmt" where
  "insert_refresh_token r = (\<lambda>d.
     if list_ex (rft_conflict r) (t_refresh_tokens d) then Inl ErrDuplicate
     else if \<not> user_exists d (rft_UserID r) then Inl ErrForeignKey
     else Inr ((), d\<lparr>t_refresh_tokens := t_refresh_tokens d @ [r]\<rparr>))"

definition insert_reset_token :: "PasswordResetToken \<Rightarrow> unit stmt" where
  "insert_reset_token r = (\<lambda>d.
     if list_ex (prt_conflict r) (t_password_reset_tokens d) then Inl ErrDuplicate
     else if \<not> user_exists d (prt_UserID r) then Inl ErrForeignKey
     else Inr ((), d\<lparr>t_password_reset_tokens := t_password_reset_tokens d @ [r]\<rparr>))"

definition insert_provider_account :: "UserProviderAccount \<Rightarrow> unit stmt" where
  "insert_provider_account r = (\<lambda>d.
     if list_ex (upa_conflict r) (t_user_provider_accounts d) then Inl ErrDuplicate
     else if \<not> user_exists d (upa_UserID r) then Inl ErrForeignKey
     else Inr ((), d\<lparr>t_user_provider_accounts := t_user_provider_accounts d @ [r]\<rparr>))"

text \<open>\<open>INSERT ... ON DUPLICATE KEY UPDATE\<close>: the row with the primary key, else the one with the
  unique key, takes the new values of the mutable columns.\<close>

definition upsert_progress :: "ProgressRecord \<Rightarrow> unit stmt" where
  "upsert_progress r = (\<lambda>d.
     let change = (\<lambda>x. x\<lparr>prg_Status := prg_Status r, prg_CompletedAt := prg_CompletedAt r,
                     prg_LastPosition := prg_LastPosition r, prg_UpdatedAt := prg_UpdatedAt r\<rparr>);
         key = (if list_ex (\<lambda>x. prg_ID x = prg_ID r) (t_progress_records d)
                then (\<lambda>x. prg_ID x = prg_ID r)
                else (\<lambda>x. prg_UserID x = prg_UserID r \<and> prg_LessonID x = prg_LessonID r))
     in if list_ex key (t_progress_records d)
        then Inr ((), d\<lparr>t_progress_records := upd key change (t_progress_records d)\<rparr>)
        else if \<not> (user_exists d (prg_UserID r) \<and> course_exists d (prg_CourseID r) \<and>
                   lesson_exists d (prg_LessonID r)) then Inl ErrForeignKey
        else Inr ((), d\<lparr>t_progress_records := t_progress_records d @ [r]\<rparr>))"

lemmas insert_defs = insert_enrollment_def insert_order_def insert_audit_log_def
  insert_certificate_def insert_badge_def insert_user_badge_def
  insert_notification_def insert_user_def insert_refresh_token_def insert_reset_token_def
  insert_provider_account_def

section \<open>Effects of statements\<close>

text \<open>An audit row is written or not; nothing else changes.\<close>

lemma audit_effect: "\<exists>as. snd (commit (insert_audit_log a) w) = w\<lparr>db := (db w)\<lparr>t_audit_logs := as\<rparr>\<rparr>"
proof (cases "insert_audit_log a (db w)")
  case (Inl e)
  then have "snd (commit (insert_audit_log a) w) = w\<lparr>db := (db w)\<lparr>t_audit_logs := t_audit_logs (db w)\<rparr>\<rparr>"
    by (simp add: commit_def)
  then show ?thesis ..
next
  case (Inr x)
  then show ?thesis by (auto simp: commit_def insert_audit_log_def split: if_splits)
qed

lemma stmt_okI: "(\<And>d x d'. f d = Inr (x, d') \<Longrightarrow> R d d') \<Longrightarrow> stmt_ok R f"
  by (simp add: stmt_ok_def)

lemma stmt_okD: "stmt_ok R f \<Longrightarrow> f d = Inr (x, d') \<Longrightarrow> R d d'"
  by (simp add: stmt_ok_def)

text \<open>A database invariant as a frame.\<close>

definition preserves :: "(database \<Rightarrow> bool) \<Rightarrow> database \<Rightarrow> database \<Rightarrow> bool" where
  "preserves I d d' \<longleftrightarrow> (I d \<longrightarrow> I d')"

interpretation inv_db: db_frame "preserves I" for I
  by unfold_locales (auto simp: preserves_def)

lemma keeps_run:
  "within (db_step (preserves I)) m \<Longrightarrow> rely_ok (preserves I) w \<Longrightarrow> I (db w) \<Longrightarrow> I (db (snd (m w)))"
  using within_rely by (fastforce simp: preserves_def)

text \<open>A part of the database that is left alone.\<close>

definition untouched :: "(database \<Rightarrow> 'b) \<Rightarrow> database \<Rightarrow> database \<Rightarrow> bool" where
  "untouched T d d' \<longleftrightarrow> T d' = T d"

interpretation same_db: db_frame "untouched T" for T
  by unfold_locales (auto simp: untouched_def)

text \<open>A table that only grows at its end.\<close>

definition appends :: "(database \<Rightarrow> 'r list) \<Rightarrow> database \<Rightarrow> database \<Rightarrow> bool" where
  "appends T d d' \<longleftrightarrow> prefix (T d) (T d')"

interpretation grow_db: db_frame "appends T" for T
  by unfold_locales (auto simp: appends_def)

lemma insert_keeps_keys:
  "stmt_ok (preserves (\<lambda>d. no_conflicts enr_conflict (t_enrollments d))) (insert_enrollment r)"
  "stmt_ok (preserves (\<lambda>d. no_conflicts ord_conflict (t_orders d))) (insert_order q)"
  "stmt_ok (preserves (\<lambda>d. no_conflicts crt_conflict (t_certificates d))) (insert_certificate c)"
  "stmt_ok (preserves (\<lambda>d. no_conflicts bdg_conflict (t_badges d))) (insert_badge b)"
  "stmt_ok (preserves (\<lambda>d. no_conflicts ubd_conflict (t_user_badges d))) (insert_user_badge u)"
  by (simp_all add: stmt_ok_def preserves_def insert_defs
        no_conflicts_append [OF _ conflict_sym(1)] no_conflicts_append [OF _ conflict_sym(2)]
        no_conflicts_append [OF _ conflict_sym(4)] no_conflicts_append [OF _ conflict_sym(5)]
        no_conflicts_append [OF _ conflict_sym(6)])

end
