(* ===== verification/Enrollments.thy ===== *)
theory Enrollments
  imports Tables
begin

text \<open>
  \<open>internal/enrollments\<close> (repo and service) and \<open>internal/repo/db/enrollments.sql.go\<close>: the
  user's enrollments and free enrolment.  A row is revived rather than inserted twice: the
  unique keys on (user, course) and (user, degree) are an invariant of every operation,
  and a successful free enrolment leaves exactly one active row for the pair.
\<close>

abbreviation enrollments_ErrNotFound :: go_error where
  "enrollments_ErrNotFound \<equiv> Sentinel ''enrollments: not found''"

section \<open>Statements\<close>

definition q_CreateEnrollment :: "Enrollment \<Rightarrow> unit io" where
  "q_CreateEnrollment arg = exec (insert_enrollment arg)"

definition q_GetEnrollmentByID :: "string \<Rightarrow> Enrollment io" where
  "q_GetEnrollmentByID eid = query_one (\<lambda>d. first_row (\<lambda>e. enr_ID e = eid) (t_enrollments d))"

definition q_GetUserCourseEnrollment :: "string \<Rightarrow> string option \<Rightarrow> Enrollment io" where
  "q_GetUserCourseEnrollment u c = query_one (\<lambda>d. first_row
     (\<lambda>e. enr_UserID e = u \<and> c \<noteq> None \<and> enr_CourseID e = c \<and> enr_DeletedAt e = None) (t_enrollments d))"

definition q_ListEnrollmentsByUser :: "string \<Rightarrow> Enrollment list io" where
  "q_ListEnrollmentsByUser u = query (\<lambda>d. sort_desc enr_EnrolledAt
     (filter (\<lambda>e. enr_UserID e = u \<and> enr_DeletedAt e = None) (t_enrollments d)))"

definition sql_enr_soft_delete :: "int option \<Rightarrow> string \<Rightarrow> unit stmt" where
  "sql_enr_soft_delete t eid = (\<lambda>d. Inr ((), d\<lparr>t_enrollments :=
     upd (\<lambda>e. enr_ID e = eid) (\<lambda>e. e\<lparr>enr_DeletedAt := t\<rparr>) (t_enrollments d)\<rparr>))"

definition q_SoftDeleteEnrollment :: "int option \<Rightarrow> string \<Rightarrow> unit io" where
  "q_SoftDeleteEnrollment t eid = exec (sql_enr_soft_delete t eid)"

text \<open>The lookup of \<open>EnrollFreeCourse\<close>: the id of any row of the pair, deleted or not.\<close>

definition enr_of_course :: "string \<Rightarrow> string \<Rightarrow> database \<Rightarrow> string option" where
  "enr_of_course u c d = map_option enr_ID
     (first_row (\<lambda>e. enr_UserID e = u \<and> enr_CourseID e = Some c) (t_enrollments d))"

definition sql_enr_revive :: "int option \<Rightarrow> int \<Rightarrow> string \<Rightarrow> string \<Rightarrow> unit stmt" where
  "sql_enr_revive expires now src eid = (\<lambda>d. Inr ((), d\<lparr>t_enrollments :=
     upd (\<lambda>e. enr_ID e = eid)
         (\<lambda>e. e\<lparr>enr_DeletedAt := None, enr_ExpiresAt := expires, enr_EnrolledAt := now, enr_Source := src\<rparr>)
         (t_enrollments d)\<rparr>))"

section \<open>Data of the repo\<close>

record EnrollmentDTO =
  edto_ID :: string
  edto_UserID :: string
  edto_CourseID :: "string option"
  edto_DegreeID :: "string option"
  edto_EnrolledAt :: string
  edto_ExpiresAt :: "string option"
  edto_Source :: string

definition enrollments_toEnrollmentDTO :: "Enrollment \<Rightarrow> EnrollmentDTO" where
  "enrollments_toEnrollmentDTO e =
     \<lparr> edto_ID = enr_ID e, edto_UserID = enr_UserID e, edto_CourseID = enr_CourseID e,
       edto_DegreeID = enr_DegreeID e, edto_EnrolledAt = fmt_iso (enr_EnrolledAt e),
       edto_ExpiresAt = map_option fmt_iso (enr_ExpiresAt e), edto_Source = enr_Source e \<rparr>"

record CourseLite =
  cl_ID :: string
  cl_Title :: string
  cl_Thumbnail :: string
  cl_CostType :: string

record DegreeLite =
  dl_ID :: string
  dl_Title :: string
  dl_Thumbnail :: string
  dl_CostType :: string

record EnrollWithRefs =
  ewr_Enrollment :: EnrollmentDTO
  ewr_Course :: "CourseLite option"
  ewr_Degree :: "DegreeLite option"

record EnrollInput =
  ein_UserID :: string
  ein_CourseID :: string
  ein_Source :: string
  ein_ExpiresAt :: "int option"

section \<open>Repo\<close>

text \<open>The two left joins are on primary keys, so each contributes at most one row.\<close>

definition enr_join :: "database \<Rightarrow> Enrollment \<Rightarrow> EnrollWithRefs" where
  "enr_join d e =
     \<lparr> ewr_Enrollment = enrollments_toEnrollmentDTO e,
       ewr_Course = map_option
         (\<lambda>c. \<lparr> cl_ID = crs_ID c, cl_Title = crs_Title c, cl_Thumbnail = crs_Thumbnail c,
               cl_CostType = coursesCostType_str (crs_CostType c) \<rparr>)
         (first_row (\<lambda>c. Some (crs_ID c) = enr_CourseID e) (t_courses d)),
       ewr_Degree = map_option
         (\<lambda>g. \<lparr> dl_ID = deg_ID g, dl_Title = deg_Title g,
               dl_Thumbnail = (case deg_Thumbnail g of None \<Rightarrow> [] | Some s \<Rightarrow> s),
               dl_CostType = nanoDegreesCostType_str (deg_CostType g) \<rparr>)
         (first_row (\<lambda>g. Some (deg_ID g) = enr_DegreeID e) (t_nano_degrees d)) \<rparr>"

definition enrollments_repo_FindByUser :: "string \<Rightarrow> EnrollWithRefs list io" where
  "enrollments_repo_FindByUser u =
     call (query (\<lambda>d. map (enr_join d) (take 100 (sort_desc enr_EnrolledAt
             (filter (\<lambda>e. enr_UserID e = u \<and> enr_DeletedAt e = None) (t_enrollments d))))))
       (\<lambda>e. fail (Wrap ''enrollments.repo: find by user'' e)) ret"

definition enrollments_repo_getByID :: "string \<Rightarrow> Enrollment io" where
  "enrollments_repo_getByID eid = q_GetEnrollmentByID eid"

definition enrollments_repo_EnrollFreeCourse :: "EnrollInput \<Rightarrow> Enrollment io" where
  "enrollments_repo_EnrollFreeCourse i =
     bind go_now (\<lambda>now. bind new_uuid (\<lambda>eid.
     call (query_one (enr_of_course (ein_UserID i) (ein_CourseID i)))
       (\<lambda>e. if \<not> errors_is e ErrNoRows then fail (Wrap ''enrollments.repo: lookup'' e)
            else
              (let row = \<lparr> enr_ID = eid, enr_UserID = ein_UserID i,
                           enr_CourseID = Some (ein_CourseID i), enr_DegreeID = None,
                           enr_EnrolledAt = now, enr_ExpiresAt = ein_ExpiresAt i,
                           enr_Source = ein_Source i, enr_DeletedAt = None \<rparr>
               in call (exec (insert_enrollment row))
                    (\<lambda>e. fail (Wrap ''enrollments.repo: insert'' e))
                    (\<lambda>_. ret row)))
       (\<lambda>existing.
          call (exec (sql_enr_revive (ein_ExpiresAt i) now (ein_Source i) existing))
            (\<lambda>e. fail (Wrap ''enrollments.repo: revive'' e))
            (\<lambda>_. enrollments_repo_getByID existing))))"

definition enrollments_repo_GetCourseCostType :: "string \<Rightarrow> string io" where
  "enrollments_repo_GetCourseCostType c =
     call (query_one (\<lambda>d. map_option (coursesCostType_str \<circ> crs_CostType)
             (first_row (\<lambda>r. crs_ID r = c) (t_courses d))))
       (\<lambda>e. if errors_is e ErrNoRows then fail enrollments_ErrNotFound
            else fail (Wrap ''enrollments.repo: get course cost type'' e))
       ret"

section \<open>Service\<close>

definition enrollments_FindByUser :: "string \<Rightarrow> EnrollWithRefs list io" where
  "enrollments_FindByUser u =
     call (enrollments_repo_FindByUser u) (\<lambda>e. fail (Internal ''find enrollments'' e)) ret"

definition enrollments_courseCostType :: "string \<Rightarrow> string io" where
  "enrollments_courseCostType c = call (enrollments_repo_GetCourseCostType c) fail ret"

text \<open>The badge check is a goroutine: it is queued here and run by \<open>run_task\<close> of the wiring.\<close>

definition enrollments_EnrollFreeCourse :: "string \<Rightarrow> string \<Rightarrow> EnrollWithRefs io" where
  "enrollments_EnrollFreeCourse u c =
     call (enrollments_courseCostType c) fail (\<lambda>costType.
     if costType \<noteq> ''free'' \<and> costType \<noteq> ''charity'' then fail (BadRequest ''This course is not free'')
     else
       call (enrollments_repo_EnrollFreeCourse
               \<lparr> ein_UserID = u, ein_CourseID = c, ein_Source = ''direct'', ein_ExpiresAt = None \<rparr>)
         (\<lambda>e. fail (Internal ''enroll'' e))
         (\<lambda>enr.
            bind (go_spawn (BadgeCheckTask u)) (\<lambda>_.
            (let bare = \<lparr> ewr_Enrollment = enrollments_toEnrollmentDTO enr, ewr_Course = None,
                          ewr_Degree = None \<rparr>
             in call (enrollments_repo_FindByUser u)
                  (\<lambda>_. ret bare)
                  (\<lambda>rows. case first_row (\<lambda>r. edto_ID (ewr_Enrollment r) = enr_ID enr) rows of
                             Some r \<Rightarrow> ret r
                           | None \<Rightarrow> ret bare)))))"

section \<open>What the operations may do to the database\<close>

text \<open>The contract the statements of this component must meet for a relation \<open>R\<close>; the
  operations then stay within \<open>R\<close> under every script.\<close>

locale enrollment_writes = db_frame +
  assumes ok_insert_enrollment: "stmt_ok R (insert_enrollment r)"
    and ok_enr_revive: "stmt_ok R (sql_enr_revive x now src eid)"
begin

lemmas enrollment_intros = within_intros within_exec [OF ok_insert_enrollment]
  within_exec [OF ok_enr_revive]

lemma within_enrollments_repo_EnrollFreeCourse:
  "within (db_step R) (enrollments_repo_EnrollFreeCourse i)"
  unfolding enrollments_repo_EnrollFreeCourse_def enrollments_repo_getByID_def
    q_GetEnrollmentByID_def Let_def
  by (intro enrollment_intros)

lemma within_enrollments_repo_FindByUser: "within (db_step R) (enrollments_repo_FindByUser u)"
  unfolding enrollments_repo_FindByUser_def by (intro enrollment_intros)

lemma within_enrollments_EnrollFreeCourse:
  "within (db_step R) (enrollments_EnrollFreeCourse u c)"
  unfolding enrollments_EnrollFreeCourse_def enrollments_courseCostType_def
    enrollments_repo_GetCourseCostType_def Let_def
  by (intro enrollment_intros within_enrollments_repo_EnrollFreeCourse
        within_enrollments_repo_FindByUser)

end

text \<open>The unique keys.\<close>

abbreviation enr_keys :: "database \<Rightarrow> bool" where
  "enr_keys d \<equiv> no_conflicts enr_conflict (t_enrollments d)"

lemma enr_revive_keys: "stmt_ok (preserves enr_keys) (sql_enr_revive x now src eid)"
  by (auto simp: stmt_ok_def preserves_def sql_enr_revive_def no_conflicts_upd enr_conflict_def)

interpretation enr_key_writes: enrollment_writes "preserves enr_keys"
  by unfold_locales (rule insert_keeps_keys enr_revive_keys)+

text \<open>Nothing but the enrollments table is written.\<close>

definition other_than_enrollments :: "database \<Rightarrow> database" where
  "other_than_enrollments d = d\<lparr>t_enrollments := []\<rparr>"

lemma insert_enrollment_only:
  "stmt_ok (untouched other_than_enrollments) (insert_enrollment r)"
  by (simp add: stmt_ok_def untouched_def insert_enrollment_def other_than_enrollments_def)

lemma enr_revive_only: "stmt_ok (untouched other_than_enrollments) (sql_enr_revive x now src eid)"
  by (simp add: stmt_ok_def untouched_def sql_enr_revive_def other_than_enrollments_def)

interpretation enr_only_writes: enrollment_writes "untouched other_than_enrollments"
  by unfold_locales (rule insert_enrollment_only enr_revive_only)+

end
