(* ===== verification/Orders.thy ===== *)
theory Orders
  imports Enrollments
begin

text \<open>
  \<open>internal/orders\<close> (repo and service) and \<open>internal/repo/db/orders.sql.go\<close>: creating an
  order for a course or a degree, the mock payment, cancelling, and the order views.  The
  refund flow is the theory \<open>Refund\<close>.  The certificate and notification hooks, package
  variables of the source, are the record \<open>order_hooks\<close>.
\<close>

abbreviation orders_ErrNotFound :: go_error where
  "orders_ErrNotFound \<equiv> Sentinel ''orders: not found''"

section \<open>Statements\<close>

definition order_by_id :: "string \<Rightarrow> database \<Rightarrow> Order option" where
  "order_by_id oid d = first_row (\<lambda>r. ord_ID r = oid) (t_orders d)"

definition q_GetOrderByID :: "string \<Rightarrow> Order io" where
  "q_GetOrderByID oid = query_one (order_by_id oid)"

definition q_ListOrdersByUser :: "string \<Rightarrow> Order list io" where
  "q_ListOrdersByUser u = query (\<lambda>d. take 100 (sort_desc ord_CreatedAt
     (filter (\<lambda>r. ord_UserID r = u) (t_orders d))))"

definition q_CreateOrder :: "Order \<Rightarrow> unit io" where
  "q_CreateOrder arg = exec (insert_order arg)"

text \<open>The row with its id, title, cost type and price: \<open>GetCourseForOrderRow\<close>.\<close>

record GetCourseForOrderRow =
  cfo_ID :: string
  cfo_Title :: string
  cfo_CostType :: CoursesCostType
  cfo_Price :: string

record GetDegreeForOrderRow =
  dfo_ID :: string
  dfo_Title :: string
  dfo_CostType :: NanoDegreesCostType
  dfo_Price :: string

definition q_GetCourseForOrder :: "string \<Rightarrow> GetCourseForOrderRow io" where
  "q_GetCourseForOrder c = query_one (\<lambda>d. map_option
     (\<lambda>r. \<lparr> cfo_ID = crs_ID r, cfo_Title = crs_Title r, cfo_CostType = crs_CostType r,
           cfo_Price = crs_Price r \<rparr>)
     (first_row (\<lambda>r. crs_ID r = c) (t_courses d)))"

definition q_GetDegreeForOrder :: "string \<Rightarrow> GetDegreeForOrderRow io" where
  "q_GetDegreeForOrder g = query_one (\<lambda>d. map_option
     (\<lambda>r. \<lparr> dfo_ID = deg_ID r, dfo_Title = deg_Title r, dfo_CostType = deg_CostType r,
           dfo_Price = deg_Price r \<rparr>)
     (first_row (\<lambda>r. deg_ID r = g) (t_nano_degrees d)))"

definition q_GetDegreeCourses :: "string \<Rightarrow> string list io" where
  "q_GetDegreeCourses g = query (\<lambda>d. map dgc_CourseID (sort_key dgc_OrderIndex
     (filter (\<lambda>r. dgc_DegreeID r = g) (t_degree_courses d))))"

definition q_GetActiveEnrollmentByCourse :: "string \<Rightarrow> string option \<Rightarrow> Enrollment io" where
  "q_GetActiveEnrollmentByCourse u c = query_one (\<lambda>d. first_row
     (\<lambda>e. enr_UserID e = u \<and> c \<noteq> None \<and> enr_CourseID e = c \<and> enr_DeletedAt e = None) (t_enrollments d))"

definition q_GetActiveEnrollmentByDegree :: "string \<Rightarrow> string option \<Rightarrow> Enrollment io" where
  "q_GetActiveEnrollmentByDegree u g = query_one (\<lambda>d. first_row
     (\<lambda>e. enr_UserID e = u \<and> g \<noteq> None \<and> enr_DegreeID e = g \<and> enr_DeletedAt e = None) (t_enrollments d))"

text \<open>\<open>UPDATE orders SET ... WHERE id = ? AND status = 'pending'\<close>; the result is the number
  of rows affected.\<close>

definition payable :: "string \<Rightarrow> Order \<Rightarrow> bool" where
  "payable oid r \<longleftrightarrow> ord_ID r = oid \<and> ord_Status r = OrdersStatusPending"

definition paid_row :: "int \<Rightarrow> string \<Rightarrow> string \<Rightarrow> Order \<Rightarrow> Order" where
  "paid_row now txn pm r = r\<lparr>ord_Status := OrdersStatusPaid, ord_PaidAt := Some now,
     ord_PaymentMethod := Some pm, ord_TransactionID := Some txn, ord_UpdatedAt := now\<rparr>"

definition sql_mark_paid :: "string \<Rightarrow> string \<Rightarrow> string \<Rightarrow> int \<Rightarrow> nat stmt" where
  "sql_mark_paid oid txn pm now = (\<lambda>d. Inr
     (changed (payable oid) (paid_row now txn pm) (t_orders d),
      d\<lparr>t_orders := upd (payable oid) (paid_row now txn pm) (t_orders d)\<rparr>))"

definition sql_cancel_order :: "string \<Rightarrow> int \<Rightarrow> nat stmt" where
  "sql_cancel_order oid now =
     (let f = (\<lambda>r. r\<lparr>ord_Status := OrdersStatusExpired, ord_UpdatedAt := now\<rparr>)
      in (\<lambda>d. Inr (changed (payable oid) f (t_orders d),
                   d\<lparr>t_orders := upd (payable oid) f (t_orders d)\<rparr>)))"

definition sql_mark_refunded :: "string \<Rightarrow> int \<Rightarrow> unit stmt" where
  "sql_mark_refunded oid now = (\<lambda>d. Inr ((), d\<lparr>t_orders :=
     upd (\<lambda>r. ord_ID r = oid)
         (\<lambda>r. r\<lparr>ord_Status := OrdersStatusRefunded, ord_UpdatedAt := now\<rparr>) (t_orders d)\<rparr>))"

definition enr_of_degree :: "string \<Rightarrow> string \<Rightarrow> database \<Rightarrow> string option" where
  "enr_of_degree u g d = map_option enr_ID
     (first_row (\<lambda>e. enr_UserID e = u \<and> enr_DegreeID e = Some g) (t_enrollments d))"

text \<open>The audit row of \<open>writeAudit\<close>: the server fills in \<open>UUID()\<close> and \<open>NOW(3)\<close>.\<close>

definition json_char :: "char \<Rightarrow> string" where
  "json_char c = (if c = CHR 0x22 \<or> c = CHR 0x5C then [CHR 0x5C, c] else [c])"

definition json_user :: "string \<Rightarrow> string" where
  "json_user u = [CHR 0x7B, CHR 0x22] @ ''userId'' @ [CHR 0x22, CHR 0x3A, CHR 0x20, CHR 0x22]
     @ concat (map json_char u) @ [CHR 0x22, CHR 0x7D]"

definition order_audit_row :: "string \<Rightarrow> string \<Rightarrow> string \<Rightarrow> string \<Rightarrow> int \<Rightarrow> AuditLog" where
  "order_audit_row aid action entityID userID now =
     \<lparr> aud_ID = aid, aud_UserID = None, aud_Action = action, aud_Entity = ''order'',
       aud_EntityID = Some entityID, aud_Details = Some (json_user userID),
       aud_IpAddress = None, aud_UserAgent = None, aud_CreatedAt = now \<rparr>"

section \<open>Repo\<close>

definition orders_repo_ListByUser :: "string \<Rightarrow> Order list io" where
  "orders_repo_ListByUser u =
     call (q_ListOrdersByUser u) (\<lambda>e. fail (Wrap ''orders.repo: list'' e)) ret"

definition orders_repo_GetByID :: "string \<Rightarrow> Order io" where
  "orders_repo_GetByID oid =
     call (q_GetOrderByID oid)
       (\<lambda>e. if errors_is e ErrNoRows then fail orders_ErrNotFound
            else fail (Wrap ''orders.repo: get'' e))
       ret"

record orders_CreateInput =
  oci_UserID :: string
  oci_Type :: OrdersType
  oci_CourseID :: "string option"
  oci_DegreeID :: "string option"
  oci_Amount :: string
  oci_Currency :: string
  oci_PaymentMethod :: string

definition new_order :: "string \<Rightarrow> orders_CreateInput \<Rightarrow> int \<Rightarrow> Order" where
  "new_order oid i now =
     \<lparr> ord_ID = oid, ord_UserID = oci_UserID i, ord_Type = oci_Type i,
       ord_CourseID = oci_CourseID i, ord_DegreeID = oci_DegreeID i, ord_Amount = oci_Amount i,
       ord_Currency = oci_Currency i, ord_Status = OrdersStatusPending,
       ord_PaymentMethod = Some (oci_PaymentMethod i), ord_TransactionID = None,
       ord_PaidAt = None, ord_DeletedAt = None, ord_CreatedAt = now, ord_UpdatedAt = now \<rparr>"

definition orders_repo_Create :: "orders_CreateInput \<Rightarrow> Order io" where
  "orders_repo_Create i =
     bind go_now (\<lambda>now. bind new_uuid (\<lambda>oid.
     call (q_CreateOrder (new_order oid i now))
       (\<lambda>e. fail (Wrap ''orders.repo: create'' e))
       (\<lambda>_. ret (new_order oid i now))))"

definition orders_repo_MarkPaid :: "string \<Rightarrow> string \<Rightarrow> string \<Rightarrow> nat io" where
  "orders_repo_MarkPaid oid txn pm =
     bind go_now (\<lambda>now.
     call (exec (sql_mark_paid oid txn pm now))
       (\<lambda>e. fail (Wrap ''orders.repo: mark paid'' e)) ret)"

definition orders_repo_Cancel :: "string \<Rightarrow> nat io" where
  "orders_repo_Cancel oid =
     bind go_now (\<lambda>now.
     call (exec (sql_cancel_order oid now))
       (\<lambda>e. fail (Wrap ''orders.repo: cancel'' e)) ret)"

definition orders_repo_GetCourseForOrder :: "string \<Rightarrow> GetCourseForOrderRow io" where
  "orders_repo_GetCourseForOrder c =
     call (q_GetCourseForOrder c)
       (\<lambda>e. if errors_is e ErrNoRows then fail orders_ErrNotFound
            else fail (Wrap ''orders.repo: get course'' e))
       ret"

definition orders_repo_GetDegreeForOrder :: "string \<Rightarrow> GetDegreeForOrderRow io" where
  "orders_repo_GetDegreeForOrder g =
     call (q_GetDegreeForOrder g)
       (\<lambda>e. if errors_is e ErrNoRows then fail orders_ErrNotFound
            else fail (Wrap ''orders.repo: get degree'' e))
       ret"

definition orders_repo_HasActiveEnrollment :: "string \<Rightarrow> string \<Rightarrow> string \<Rightarrow> bool io" where
  "orders_repo_HasActiveEnrollment u c g =
     (if c \<noteq> [] then
        call (q_GetActiveEnrollmentByCourse u (Some c))
          (\<lambda>e. if \<not> errors_is e ErrNoRows then fail e else ret False)
          (\<lambda>_. ret True)
      else if g \<noteq> [] then
        call (q_GetActiveEnrollmentByDegree u (Some g))
          (\<lambda>e. if \<not> errors_is e ErrNoRows then fail e else ret False)
          (\<lambda>_. ret True)
      else ret False)"

definition upserted_row :: "string \<Rightarrow> string \<Rightarrow> string \<Rightarrow> string \<Rightarrow> int \<Rightarrow> string \<Rightarrow> Enrollment" where
  "upserted_row eid u c g now src =
     \<lparr> enr_ID = eid, enr_UserID = u,
       enr_CourseID = (if c \<noteq> [] then Some c else None),
       enr_DegreeID = (if c \<noteq> [] then None else Some g),
       enr_EnrolledAt = now, enr_ExpiresAt = None, enr_Source = src, enr_DeletedAt = None \<rparr>"

definition orders_repo_UpsertEnrollment :: "string \<Rightarrow> string \<Rightarrow> string \<Rightarrow> string \<Rightarrow> unit io" where
  "orders_repo_UpsertEnrollment u c g src =
     bind go_now (\<lambda>now.
     call (query_one (if c \<noteq> [] then enr_of_course u c else enr_of_degree u g))
       (\<lambda>e. if \<not> errors_is e ErrNoRows then fail (Wrap ''orders.repo: upsert enrollment lookup'' e)
            else
              bind new_uuid (\<lambda>eid.
              call (exec (insert_enrollment (upserted_row eid u c g now src)))
                (\<lambda>e. fail (Wrap ''orders.repo: upsert enrollment insert'' e)) ret))
       (\<lambda>existing.
          call (exec (sql_enr_revive None now src existing))
            (\<lambda>e. fail (Wrap ''orders.repo: upsert enrollment update'' e)) ret))"

definition orders_repo_GetDegreeCourses :: "string \<Rightarrow> string list io" where
  "orders_repo_GetDegreeCourses g =
     call (q_GetDegreeCourses g) (\<lambda>e. fail (Wrap ''orders.repo: get degree courses'' e)) ret"

definition orders_repo_MarkRefunded :: "string \<Rightarrow> unit io" where
  "orders_repo_MarkRefunded oid =
     bind go_now (\<lambda>now.
     call (exec (sql_mark_refunded oid now)) (\<lambda>e. fail (Wrap ''orders.repo: mark refunded'' e)) ret)"

section \<open>Service: data\<close>

record APIInput =
  api_Type :: string
  api_CourseID :: string
  api_DegreeID :: string
  api_PaymentMethod :: string

record OrderDTO =
  odto_ID :: string
  odto_UserID :: string
  odto_Type :: string
  odto_CourseID :: "string option"
  odto_DegreeID :: "string option"
  odto_Amount :: string
  odto_Currency :: string
  odto_Status :: string
  odto_PaymentMethod :: "string option"
  odto_TransactionID :: "string option"
  odto_PaidAt :: "string option"
  odto_CreatedAt :: string
  odto_UpdatedAt :: string

definition toOrderDTO :: "Order \<Rightarrow> OrderDTO" where
  "toOrderDTO r =
     \<lparr> odto_ID = ord_ID r, odto_UserID = ord_UserID r, odto_Type = ordersType_str (ord_Type r),
       odto_CourseID = ord_CourseID r, odto_DegreeID = ord_DegreeID r, odto_Amount = ord_Amount r,
       odto_Currency = ord_Currency r, odto_Status = ordersStatus_str (ord_Status r),
       odto_PaymentMethod = ord_PaymentMethod r, odto_TransactionID = ord_TransactionID r,
       odto_PaidAt = map_option fmt_iso (ord_PaidAt r), odto_CreatedAt = fmt_iso (ord_CreatedAt r),
       odto_UpdatedAt = fmt_iso (ord_UpdatedAt r) \<rparr>"

record CourseSummary =
  csum_ID :: string
  csum_Title :: string
  csum_Thumbnail :: string
  csum_Level :: string
  csum_CostType :: string
  csum_Price :: string

record DegreeSummary =
  dsum_ID :: string
  dsum_Title :: string
  dsum_Thumbnail :: string
  dsum_CostType :: string
  dsum_Price :: string

record OrderWithRefs =
  owr_Order :: OrderDTO
  owr_Course :: "CourseSummary option"
  owr_Degree :: "DegreeSummary option"

record CreateResult =
  crr_Enrolled :: bool
  crr_Enrollment :: "EnrollmentDTO option"
  crr_Order :: "OrderDTO option"

text \<open>The service's own \<open>EnrollmentDTO\<close> has the fields of the enrollments package's, and its
  \<open>toEnrollmentDTO\<close> the same body.\<close>

definition orders_toEnrollmentDTO :: "Enrollment \<Rightarrow> EnrollmentDTO" where
  "orders_toEnrollmentDTO e =
     \<lparr> edto_ID = enr_ID e, edto_UserID = enr_UserID e, edto_CourseID = enr_CourseID e,
       edto_DegreeID = enr_DegreeID e, edto_EnrolledAt = fmt_iso (enr_EnrolledAt e),
       edto_ExpiresAt = map_option fmt_iso (enr_ExpiresAt e), edto_Source = enr_Source e \<rparr>"

record RefundEligibility =
  rel_Allowed :: bool
  rel_Reason :: string
  rel_FeeRate :: dbl

text \<open>The package variables other modules override at boot.  They cannot fail; what they do
  to the world is theirs.\<close>

record order_hooks =
  IssueCertificateOnPaid :: "string \<Rightarrow> string \<Rightarrow> string \<Rightarrow> unit io"
  NotifyOrderCreated :: "string \<Rightarrow> string \<Rightarrow> string \<Rightarrow> unit io"
  refundNotifier :: "string \<Rightarrow> string \<Rightarrow> string \<Rightarrow> unit io"

text \<open>Their defaults do nothing.\<close>

definition default_hooks :: order_hooks where
  "default_hooks = \<lparr> IssueCertificateOnPaid = (\<lambda>_ _ _. ret ()),
     NotifyOrderCreated = (\<lambda>_ _ _. ret ()), refundNotifier = (\<lambda>_ _ _. ret ()) \<rparr>"

section \<open>Service: operations\<close>

definition randomHex :: "nat \<Rightarrow> string io" where
  "randomHex n = bind (rand_read n) (\<lambda>b. case b of
     None \<Rightarrow> ret ''fallback'' | Some bs \<Rightarrow> ret (hex_encode bs))"

text \<open>Best effort: the error is logged and dropped.\<close>

definition orders_writeAudit :: "string \<Rightarrow> string \<Rightarrow> string \<Rightarrow> unit io" where
  "orders_writeAudit action entityID userID =
     bind new_uuid (\<lambda>aid. bind go_now (\<lambda>now.
     ignoring (exec (insert_audit_log (order_audit_row aid action entityID userID now))) (ret ())))"

definition toOrderWithRefs :: "Order \<Rightarrow> OrderWithRefs io" where
  "toOrderWithRefs r =
     bind (case ord_CourseID r of
             None \<Rightarrow> ret None
           | Some c \<Rightarrow> call (orders_repo_GetCourseForOrder c) (\<lambda>_. ret None)
               (\<lambda>x. ret (Some \<lparr> csum_ID = cfo_ID x, csum_Title = cfo_Title x, csum_Thumbnail = [],
                                csum_Level = [], csum_CostType = coursesCostType_str (cfo_CostType x),
                                csum_Price = cfo_Price x \<rparr>)))
       (\<lambda>course.
     bind (case ord_DegreeID r of
             None \<Rightarrow> ret None
           | Some g \<Rightarrow> call (orders_repo_GetDegreeForOrder g) (\<lambda>_. ret None)
               (\<lambda>x. ret (Some \<lparr> dsum_ID = dfo_ID x, dsum_Title = dfo_Title x, dsum_Thumbnail = [],
                                dsum_CostType = nanoDegreesCostType_str (dfo_CostType x),
                                dsum_Price = dfo_Price x \<rparr>)))
       (\<lambda>degree. ret \<lparr> owr_Order = toOrderDTO r, owr_Course = course, owr_Degree = degree \<rparr>))"

fun hydrate_all :: "Order list \<Rightarrow> OrderWithRefs list io" where
  "hydrate_all [] = ret []"
| "hydrate_all (r # rs) = bind (toOrderWithRefs r) (\<lambda>x. bind (hydrate_all rs) (\<lambda>xs. ret (x # xs)))"

definition orders_ListByUser :: "string \<Rightarrow> OrderWithRefs list io" where
  "orders_ListByUser u =
     call (orders_repo_ListByUser u) (\<lambda>e. fail (Internal ''list orders'' e)) hydrate_all"

definition orders_GetByID :: "string \<Rightarrow> string \<Rightarrow> OrderWithRefs io" where
  "orders_GetByID userID oid =
     call (orders_repo_GetByID oid)
       (\<lambda>e. if e = orders_ErrNotFound then fail (NotFound ''Order not found'')
            else fail (Internal ''get order'' e))
       (\<lambda>r. if ord_UserID r \<noteq> userID then fail (NotFound ''Order not found'')
            else toOrderWithRefs r)"

text \<open>The payment method of a new order: anything but the two wallets stays empty.\<close>

definition create_method :: "string \<Rightarrow> string" where
  "create_method pm =
     (if pm = ''wechat'' then ''wechat'' else if pm = ''alipay'' then ''alipay'' else [])"

definition enroll_courses :: "string \<Rightarrow> string list \<Rightarrow> unit io" where
  "enroll_courses userID cs =
     for_each (\<lambda>c. orders_repo_UpsertEnrollment userID c [] ''degree'') cs"

definition enrollAllDegreeCourses :: "string \<Rightarrow> string \<Rightarrow> unit io" where
  "enrollAllDegreeCourses userID degreeID =
     call (orders_repo_GetDegreeCourses degreeID) fail (enroll_courses userID)"

definition createCourseOrder :: "order_hooks \<Rightarrow> string \<Rightarrow> APIInput \<Rightarrow> CreateResult io" where
  "createCourseOrder h userID i =
     (if api_CourseID i = [] then fail (BadRequest ''courseId required'')
      else
        call (orders_repo_GetCourseForOrder (api_CourseID i))
          (\<lambda>e. if e = orders_ErrNotFound then fail (NotFound ''Course not found'')
               else fail (Internal ''get course'' e))
          (\<lambda>c.
        call (orders_repo_HasActiveEnrollment userID (api_CourseID i) [])
          (\<lambda>e. fail (Internal ''check enrollment'' e))
          (\<lambda>already.
        if already then fail (Conflict ''Already enrolled'')
        else if cfo_CostType c = CoursesCostTypeFree then
          call (orders_repo_UpsertEnrollment userID (api_CourseID i) [] ''direct'')
            (\<lambda>e. fail (Internal ''enroll free'' e))
            (\<lambda>_.
          call (q_GetActiveEnrollmentByCourse userID (Some (api_CourseID i)))
            (\<lambda>e. fail (Internal ''reload enrollment'' e))
            (\<lambda>row.
          bind (orders_writeAudit ''order.create.free_enroll'' (enr_ID row) userID) (\<lambda>_.
          ignoring (IssueCertificateOnPaid h userID ''course'' (api_CourseID i))
            (ret \<lparr> crr_Enrolled = True, crr_Enrollment = Some (orders_toEnrollmentDTO row),
                   crr_Order = None \<rparr>))))
        else
          call (orders_repo_Create
                  \<lparr> oci_UserID = userID, oci_Type = OrdersTypeCourse,
                    oci_CourseID = Some (api_CourseID i), oci_DegreeID = None,
                    oci_Amount = cfo_Price c, oci_Currency = ''CNY'',
                    oci_PaymentMethod = create_method (api_PaymentMethod i) \<rparr>)
            (\<lambda>e. fail (Internal ''create order'' e))
            (\<lambda>r.
          bind (orders_writeAudit ''order.create'' (ord_ID r) userID) (\<lambda>_.
          ignoring (NotifyOrderCreated h userID (ord_ID r) (cfo_Price c))
            (ret \<lparr> crr_Enrolled = False, crr_Enrollment = None, crr_Order = Some (toOrderDTO r) \<rparr>))))))"

definition createDegreeOrder :: "order_hooks \<Rightarrow> string \<Rightarrow> APIInput \<Rightarrow> CreateResult io" where
  "createDegreeOrder h userID i =
     (if api_DegreeID i = [] then fail (BadRequest ''degreeId required'')
      else
        call (orders_repo_GetDegreeForOrder (api_DegreeID i))
          (\<lambda>e. if e = orders_ErrNotFound then fail (NotFound ''Degree not found'')
               else fail (Internal ''get degree'' e))
          (\<lambda>g.
        call (orders_repo_HasActiveEnrollment userID [] (api_DegreeID i))
          (\<lambda>e. fail (Internal ''check enrollment'' e))
          (\<lambda>already.
        if already then fail (Conflict ''Already enrolled'')
        else if dfo_CostType g = NanoDegreesCostTypeFree then
          call (orders_repo_UpsertEnrollment userID [] (api_DegreeID i) ''direct'')
            (\<lambda>e. fail (Internal ''enroll free degree'' e))
            (\<lambda>_.
          ignoring (enrollAllDegreeCourses userID (api_DegreeID i))
          (call (q_GetActiveEnrollmentByDegree userID (Some (api_DegreeID i)))
            (\<lambda>e. fail (Internal ''reload enrollment'' e))
            (\<lambda>row.
          bind (orders_writeAudit ''order.create.free_enroll'' (enr_ID row) userID) (\<lambda>_.
          ignoring (IssueCertificateOnPaid h userID ''degree'' (api_DegreeID i))
            (ret \<lparr> crr_Enrolled = True, crr_Enrollment = Some (orders_toEnrollmentDTO row),
                   crr_Order = None \<rparr>)))))
        else
          call (orders_repo_Create
                  \<lparr> oci_UserID = userID, oci_Type = OrdersTypeDegree,
                    oci_CourseID = None, oci_DegreeID = Some (api_DegreeID i),
                    oci_Amount = dfo_Price g, oci_Currency = ''CNY'',
                    oci_PaymentMethod = create_method (api_PaymentMethod i) \<rparr>)
            (\<lambda>e. fail (Internal ''create order'' e))
            (\<lambda>r.
          bind (orders_writeAudit ''order.create'' (ord_ID r) userID) (\<lambda>_.
          ignoring (NotifyOrderCreated h userID (ord_ID r) (dfo_Price g))
            (ret \<lparr> crr_Enrolled = False, crr_Enrollment = None, crr_Order = Some (toOrderDTO r) \<rparr>))))))"

definition orders_Create :: "order_hooks \<Rightarrow> string \<Rightarrow> APIInput \<Rightarrow> CreateResult io" where
  "orders_Create h userID i =
     (if api_Type i = ''course'' then createCourseOrder h userID i
      else if api_Type i = ''degree'' then createDegreeOrder h userID i
      else fail (BadRequest ''type must be course or degree''))"

text \<open>The method \<open>MockPay\<close> records: the empty, the Stripe and every other choice is Alipay.\<close>

definition pay_method :: "string \<Rightarrow> string" where
  "pay_method pm = (if pm = ''wechat'' then ''wechat'' else ''alipay'')"

text \<open>The steps of \<open>MockPay\<close> after the order has been flipped to paid.\<close>

definition finish_payment :: "order_hooks \<Rightarrow> string \<Rightarrow> string \<Rightarrow> Order \<Rightarrow> OrderWithRefs io" where
  "finish_payment h userID orderID r =
    (let courseID = (case ord_CourseID r of Some c \<Rightarrow> c | None \<Rightarrow> []);
       degreeID = (case ord_CourseID r of
                     Some _ \<Rightarrow> []
                   | None \<Rightarrow> (case ord_DegreeID r of Some g \<Rightarrow> g | None \<Rightarrow> []));
       src = (if ord_CourseID r \<noteq> None \<or> ord_DegreeID r \<noteq> None then ''order'' else [])
   in call (if courseID \<noteq> [] \<or> degreeID \<noteq> [] then
              call (orders_repo_UpsertEnrollment userID courseID degreeID src)
                (\<lambda>e. fail (Internal ''enrollment'' e))
                (\<lambda>_. if degreeID \<noteq> []
                     then ignoring (enrollAllDegreeCourses userID degreeID) (ret ())
                     else ret ())
            else ret ())
        fail
        (\<lambda>_.
      bind (orders_writeAudit ''order.pay'' orderID userID) (\<lambda>_.
      bind (if degreeID \<noteq> []
            then ignoring (IssueCertificateOnPaid h userID ''degree'' degreeID) (ret ())
            else ret ())
        (\<lambda>_.
      call (orders_repo_GetByID orderID) (\<lambda>e. fail (Internal ''reload order'' e))
        toOrderWithRefs))))"

definition orders_MockPay :: "order_hooks \<Rightarrow> string \<Rightarrow> string \<Rightarrow> string \<Rightarrow> OrderWithRefs io" where
  "orders_MockPay h userID orderID paymentMethod =
     call (orders_repo_GetByID orderID)
       (\<lambda>e. if e = orders_ErrNotFound then fail (NotFound ''Order not found'')
            else fail (Internal ''get order'' e))
       (\<lambda>r.
     if ord_UserID r \<noteq> userID then fail (BadRequest ''Not your order'')
     else if ord_Status r = OrdersStatusPaid then fail (Conflict ''Order already paid'')
     else if ord_Status r = OrdersStatusExpired \<or> ord_Status r = OrdersStatusRefunded
       then fail (BadRequest ''Order is no longer payable'')
     else
       bind (randomHex 8) (\<lambda>hx.
       call (orders_repo_MarkPaid orderID (''mock_'' @ hx) (pay_method paymentMethod))
         (\<lambda>e. fail (Internal ''mark paid'' e))
         (\<lambda>n.
       if n = 0 then fail (Conflict ''Order already processed'')
       else finish_payment h userID orderID r)))"

definition orders_Cancel :: "string \<Rightarrow> string \<Rightarrow> unit io" where
  "orders_Cancel userID orderID =
     call (orders_repo_GetByID orderID)
       (\<lambda>e. if e = orders_ErrNotFound then fail (NotFound ''Order not found'')
            else fail (Internal ''get order'' e))
       (\<lambda>r.
     if ord_UserID r \<noteq> userID then fail (BadRequest ''Not your order'')
     else if ord_Status r \<noteq> OrdersStatusPending
       then fail (BadRequest ''Only pending orders can be cancelled'')
     else
       call (orders_repo_Cancel orderID) (\<lambda>e. fail (Internal ''cancel'' e))
         (\<lambda>n. if n = 0 then fail (BadRequest ''Order is no longer pending'')
              else orders_writeAudit ''order.cancel'' orderID userID))"

section \<open>What the operations may do to the database\<close>

text \<open>The contract on the statements and on the hooks; the operations stay within it.\<close>

locale order_writes = enrollment_writes +
  fixes h :: order_hooks
  assumes ok_insert_order: "stmt_ok R (insert_order r)"
    and ok_mark_paid: "stmt_ok R (sql_mark_paid oid txn pm now)"
    and ok_cancel_order: "stmt_ok R (sql_cancel_order oid now)"
    and ok_insert_audit: "stmt_ok R (insert_audit_log a)"
    and ok_issue: "within (db_step R) (IssueCertificateOnPaid h u t ref)"
    and ok_notify: "within (db_step R) (NotifyOrderCreated h u q amount)"
begin

lemmas order_intros = enrollment_intros within_exec [OF ok_insert_order]
  within_exec [OF ok_mark_paid] within_exec [OF ok_cancel_order]
  within_exec [OF ok_insert_audit] ok_issue ok_notify

lemma within_orders_reads:
  "within (db_step R) (orders_repo_GetByID oid)"
  "within (db_step R) (orders_repo_ListByUser u)"
  "within (db_step R) (orders_repo_GetCourseForOrder c)"
  "within (db_step R) (orders_repo_GetDegreeForOrder g)"
  "within (db_step R) (orders_repo_HasActiveEnrollment u c g)"
  "within (db_step R) (q_GetActiveEnrollmentByCourse u oc)"
  "within (db_step R) (q_GetActiveEnrollmentByDegree u og)"
  "within (db_step R) (orders_repo_GetDegreeCourses g)"
  unfolding orders_repo_GetByID_def orders_repo_ListByUser_def orders_repo_GetCourseForOrder_def
    orders_repo_GetDegreeForOrder_def orders_repo_HasActiveEnrollment_def
    orders_repo_GetDegreeCourses_def q_GetOrderByID_def q_ListOrdersByUser_def
    q_GetCourseForOrder_def q_GetDegreeForOrder_def q_GetActiveEnrollmentByCourse_def
    q_GetActiveEnrollmentByDegree_def q_GetDegreeCourses_def
  by (intro order_intros)+

lemma within_orders_writes:
  "within (db_step R) (orders_repo_Create i)"
  "within (db_step R) (orders_repo_MarkPaid oid txn pm)"
  "within (db_step R) (orders_repo_Cancel oid)"
  "within (db_step R) (orders_repo_UpsertEnrollment u c g src)"
  "within (db_step R) (orders_writeAudit action q u)"
  "within (db_step R) (randomHex n)"
  unfolding orders_repo_Create_def orders_repo_MarkPaid_def orders_repo_Cancel_def
    orders_repo_UpsertEnrollment_def orders_writeAudit_def randomHex_def q_CreateOrder_def
  by (intro order_intros)+

lemma within_enrollAllDegreeCourses: "within (db_step R) (enrollAllDegreeCourses u g)"
  unfolding enrollAllDegreeCourses_def enroll_courses_def
  by (intro order_intros within_orders_reads within_orders_writes)

lemma within_toOrderWithRefs: "within (db_step R) (toOrderWithRefs r)"
  unfolding toOrderWithRefs_def by (intro order_intros within_orders_reads)

lemmas orders_intros = order_intros within_orders_reads within_orders_writes
  within_enrollAllDegreeCourses within_toOrderWithRefs

lemma within_orders_Create: "within (db_step R) (orders_Create h u i)"
  unfolding orders_Create_def createCourseOrder_def createDegreeOrder_def
  by (intro orders_intros)

lemma within_finish_payment: "within (db_step R) (finish_payment h u oid r)"
  unfolding finish_payment_def Let_def by (intro orders_intros)

lemma within_orders_MockPay: "within (db_step R) (orders_MockPay h u oid pm)"
  unfolding orders_MockPay_def by (intro orders_intros within_finish_payment)

lemma within_orders_Cancel: "within (db_step R) (orders_Cancel u oid)"
  unfolding orders_Cancel_def by (intro orders_intros)

end

end
