(* ===== verification/Messages.thy ===== *)
theory Messages
  imports Prelude
begin

text \<open>
  The Chinese texts of the sources as the UTF-8 bytes the Go compiler puts in the binary, one
  definition per literal.
\<close>

definition msg_refund_no_course :: string where
  "msg_refund_no_course =
     [CHR 0xE8, CHR 0xAE, CHR 0xA2, CHR 0xE5, CHR 0x8D, CHR 0x95, CHR 0xE7, CHR 0xBC, CHR 0xBA,
     CHR 0xE5, CHR 0xB0, CHR 0x91, CHR 0xE8, CHR 0xAF, CHR 0xBE, CHR 0xE7, CHR 0xA8, CHR 0x8B]
     @ '' ID''"

definition msg_refund_no_degree :: string where
  "msg_refund_no_degree =
     [CHR 0xE8, CHR 0xAE, CHR 0xA2, CHR 0xE5, CHR 0x8D, CHR 0x95, CHR 0xE7, CHR 0xBC, CHR 0xBA,
     CHR 0xE5, CHR 0xB0, CHR 0x91, CHR 0xE5, CHR 0xAD, CHR 0xA6, CHR 0xE4, CHR 0xBD, CHR 0x8D]
     @ '' ID''"

definition msg_refund_window :: string where
  "msg_refund_window =
     [CHR 0xE5, CHR 0xB7, CHR 0xB2, CHR 0xE8, CHR 0xB6, CHR 0x85, CHR 0xE8, CHR 0xBF, CHR 0x87]
     @ '' 7 '' @ [CHR 0xE5, CHR 0xA4, CHR 0xA9, CHR 0xE9, CHR 0x80, CHR 0x80, CHR 0xE6, CHR
     0xAC, CHR 0xBE, CHR 0xE7, CHR 0xAA, CHR 0x97, CHR 0xE5, CHR 0x8F, CHR 0xA3] @ '','' @ [CHR
     0xE6, CHR 0x97, CHR 0xA0, CHR 0xE6, CHR 0xB3, CHR 0x95, CHR 0xE9, CHR 0x80, CHR 0x80, CHR
     0xE6, CHR 0xAC, CHR 0xBE]"

definition msg_refund_progress_pre :: string where
  "msg_refund_progress_pre =
     [CHR 0xE5, CHR 0xAD, CHR 0xA6, CHR 0xE4, CHR 0xB9, CHR 0xA0, CHR 0xE8, CHR 0xBF, CHR 0x9B,
     CHR 0xE5, CHR 0xBA, CHR 0xA6] @ '' ''"

definition msg_refund_progress_post :: string where
  "msg_refund_progress_post =
     ''% '' @ [CHR 0xE2, CHR 0x89, CHR 0xA5] @ '' 20%,'' @ [CHR 0xE6, CHR 0x97, CHR 0xA0, CHR
     0xE6, CHR 0xB3, CHR 0x95, CHR 0xE9, CHR 0x80, CHR 0x80, CHR 0xE6, CHR 0xAC, CHR 0xBE]"

definition msg_refund_degree_started :: string where
  "msg_refund_degree_started =
     [CHR 0xE5, CHR 0xAD, CHR 0xA6, CHR 0xE4, CHR 0xBD, CHR 0x8D, CHR 0xE5, CHR 0x85, CHR 0xB3,
     CHR 0xE8, CHR 0x81, CHR 0x94, CHR 0xE8, CHR 0xAF, CHR 0xBE, CHR 0xE7, CHR 0xA8, CHR 0x8B,
     CHR 0xE4, CHR 0xB8, CHR 0xAD, CHR 0xE5, CHR 0xB7, CHR 0xB2, CHR 0xE6, CHR 0x9C, CHR 0x89,
     CHR 0xE5, CHR 0xAD, CHR 0xA6, CHR 0xE4, CHR 0xB9, CHR 0xA0, CHR 0xE8, CHR 0xAE, CHR 0xB0,
     CHR 0xE5, CHR 0xBD, CHR 0x95] @ '','' @ [CHR 0xE5, CHR 0xAD, CHR 0xA6, CHR 0xE4, CHR 0xBD,
     CHR 0x8D, CHR 0xE4, CHR 0xB8, CHR 0x8D, CHR 0xE6, CHR 0x94, CHR 0xAF, CHR 0xE6, CHR 0x8C,
     CHR 0x81, CHR 0xE9, CHR 0x80, CHR 0x80, CHR 0xE6, CHR 0xAC, CHR 0xBE]"

definition msg_refund_bad_type :: string where
  "msg_refund_bad_type =
     [CHR 0xE4, CHR 0xB8, CHR 0x8D, CHR 0xE6, CHR 0x94, CHR 0xAF, CHR 0xE6, CHR 0x8C, CHR 0x81,
     CHR 0xE7, CHR 0x9A, CHR 0x84, CHR 0xE8, CHR 0xAE, CHR 0xA2, CHR 0xE5, CHR 0x8D, CHR 0x95,
     CHR 0xE7, CHR 0xB1, CHR 0xBB, CHR 0xE5, CHR 0x9E, CHR 0x8B]"

definition msg_cert_title :: string where
  "msg_cert_title =
     [CHR 0xE5, CHR 0xAE, CHR 0x8C, CHR 0xE6, CHR 0x88, CHR 0x90, CHR 0xE8, CHR 0xAF, CHR 0x81,
     CHR 0xE4, CHR 0xB9, CHR 0xA6]"

definition msg_cert_title_course :: string where
  "msg_cert_title_course =
     [CHR 0xE8, CHR 0xAF, CHR 0xBE, CHR 0xE7, CHR 0xA8, CHR 0x8B, CHR 0xE5, CHR 0xAE, CHR 0x8C,
     CHR 0xE6, CHR 0x88, CHR 0x90, CHR 0xE8, CHR 0xAF, CHR 0x81, CHR 0xE4, CHR 0xB9, CHR 0xA6]"

definition msg_cert_title_degree :: string where
  "msg_cert_title_degree =
     [CHR 0xE5, CHR 0xAD, CHR 0xA6, CHR 0xE4, CHR 0xBD, CHR 0x8D, CHR 0xE8, CHR 0xAF, CHR 0x81,
     CHR 0xE4, CHR 0xB9, CHR 0xA6]"

definition msg_cert_description :: string where
  "msg_cert_description =
     [CHR 0xE6, CHR 0x82, CHR 0xA8, CHR 0xE5, CHR 0xB7, CHR 0xB2, CHR 0xE6, CHR 0x88, CHR 0x90,
     CHR 0xE5, CHR 0x8A, CHR 0x9F, CHR 0xE5, CHR 0xAE, CHR 0x8C, CHR 0xE6, CHR 0x88, CHR 0x90,
     CHR 0xE6, CHR 0x9C, CHR 0xAC, CHR 0xE8, CHR 0xAF, CHR 0xBE, CHR 0xE7, CHR 0xA8, CHR 0x8B,
     CHR 0xEF, CHR 0xBC, CHR 0x8C, CHR 0xE6, CHR 0x81, CHR 0xAD, CHR 0xE5, CHR 0x96, CHR 0x9C,
     CHR 0xEF, CHR 0xBC, CHR 0x81]"

definition msg_anonymous_user :: string where
  "msg_anonymous_user =
     [CHR 0xE5, CHR 0x8C, CHR 0xBF, CHR 0xE5, CHR 0x90, CHR 0x8D, CHR 0xE7, CHR 0x94, CHR 0xA8,
     CHR 0xE6, CHR 0x88, CHR 0xB7]"

definition msg_order_created :: string where
  "msg_order_created =
     [CHR 0xE8, CHR 0xAE, CHR 0xA2, CHR 0xE5, CHR 0x8D, CHR 0x95, CHR 0xE5, CHR 0xB7, CHR 0xB2,
     CHR 0xE5, CHR 0x88, CHR 0x9B, CHR 0xE5, CHR 0xBB, CHR 0xBA]"

definition msg_order_created_pre :: string where
  "msg_order_created_pre =
     [CHR 0xE6, CHR 0x82, CHR 0xA8, CHR 0xE7, CHR 0x9A, CHR 0x84, CHR 0xE8, CHR 0xAE, CHR 0xA2,
     CHR 0xE5, CHR 0x8D, CHR 0x95, CHR 0xE5, CHR 0xB7, CHR 0xB2, CHR 0xE5, CHR 0x88, CHR 0x9B,
     CHR 0xE5, CHR 0xBB, CHR 0xBA, CHR 0xEF, CHR 0xBC, CHR 0x8C, CHR 0xE9, CHR 0x87, CHR 0x91,
     CHR 0xE9, CHR 0xA2, CHR 0x9D] @ '' '' @ [CHR 0xC2, CHR 0xA5]"

definition msg_order_created_post :: string where
  "msg_order_created_post =
     [CHR 0xEF, CHR 0xBC, CHR 0x8C, CHR 0xE8, CHR 0xAF, CHR 0xB7, CHR 0xE5, CHR 0xB0, CHR 0xBD,
     CHR 0xE5, CHR 0xBF, CHR 0xAB, CHR 0xE5, CHR 0xAE, CHR 0x8C, CHR 0xE6, CHR 0x88, CHR 0x90,
     CHR 0xE6, CHR 0x94, CHR 0xAF, CHR 0xE4, CHR 0xBB, CHR 0x98, CHR 0xE3, CHR 0x80, CHR 0x82]"

definition msg_refund_done :: string where
  "msg_refund_done =
     [CHR 0xE9, CHR 0x80, CHR 0x80, CHR 0xE6, CHR 0xAC, CHR 0xBE, CHR 0xE7, CHR 0x94, CHR 0xB3,
     CHR 0xE8, CHR 0xAF, CHR 0xB7, CHR 0xE5, CHR 0xB7, CHR 0xB2, CHR 0xE5, CHR 0xAE, CHR 0x8C,
     CHR 0xE6, CHR 0x88, CHR 0x90]"

definition msg_refund_done_pre :: string where
  "msg_refund_done_pre =
     [CHR 0xE8, CHR 0xAE, CHR 0xA2, CHR 0xE5, CHR 0x8D, CHR 0x95, CHR 0xE9, CHR 0x80, CHR 0x80,
     CHR 0xE6, CHR 0xAC, CHR 0xBE, CHR 0xE5, CHR 0xB7, CHR 0xB2, CHR 0xE5, CHR 0xA4, CHR 0x84,
     CHR 0xE7, CHR 0x90, CHR 0x86, CHR 0xEF, CHR 0xBC, CHR 0x8C, CHR 0xE9, CHR 0x80, CHR 0x80,
     CHR 0xE6, CHR 0xAC, CHR 0xBE, CHR 0xE9, CHR 0x87, CHR 0x91, CHR 0xE9, CHR 0xA2, CHR 0x9D]
     @ '' '' @ [CHR 0xC2, CHR 0xA5]"

definition msg_refund_done_post :: string where
  "msg_refund_done_post =
     [CHR 0xE3, CHR 0x80, CHR 0x82]"

definition msg_reset_unconfigured :: string where
  "msg_reset_unconfigured =
     [CHR 0xE8, CHR 0x87, CHR 0xAA, CHR 0xE5, CHR 0x8A, CHR 0xA9, CHR 0xE9, CHR 0x82, CHR 0xAE,
     CHR 0xE4, CHR 0xBB, CHR 0xB6, CHR 0xE9, CHR 0x87, CHR 0x8D, CHR 0xE7, CHR 0xBD, CHR 0xAE,
     CHR 0xE5, CHR 0xB0, CHR 0x9A, CHR 0xE6, CHR 0x9C, CHR 0xAA, CHR 0xE9, CHR 0x85, CHR 0x8D,
     CHR 0xE7, CHR 0xBD, CHR 0xAE, CHR 0xEF, CHR 0xBC, CHR 0x8C, CHR 0xE8, CHR 0xAF, CHR 0xB7,
     CHR 0xE8, CHR 0x81, CHR 0x94, CHR 0xE7, CHR 0xB3, CHR 0xBB, CHR 0xE5, CHR 0xB9, CHR 0xB3,
     CHR 0xE5, CHR 0x8F, CHR 0xB0, CHR 0xE7, CHR 0xAE, CHR 0xA1, CHR 0xE7, CHR 0x90, CHR 0x86,
     CHR 0xE5, CHR 0x91, CHR 0x98]"

definition msg_reset_invalid :: string where
  "msg_reset_invalid =
     [CHR 0xE9, CHR 0x87, CHR 0x8D, CHR 0xE7, CHR 0xBD, CHR 0xAE, CHR 0xE9, CHR 0x93, CHR 0xBE,
     CHR 0xE6, CHR 0x8E, CHR 0xA5, CHR 0xE6, CHR 0x97, CHR 0xA0, CHR 0xE6, CHR 0x95, CHR 0x88,
     CHR 0xE6, CHR 0x88, CHR 0x96, CHR 0xE5, CHR 0xB7, CHR 0xB2, CHR 0xE8, CHR 0xBF, CHR 0x87,
     CHR 0xE6, CHR 0x9C, CHR 0x9F]"

definition msg_own_account_only :: string where
  "msg_own_account_only =
     [CHR 0xE5, CHR 0x8F, CHR 0xAA, CHR 0xE8, CHR 0x83, CHR 0xBD, CHR 0xE4, CHR 0xBF, CHR 0xAE,
     CHR 0xE6, CHR 0x94, CHR 0xB9, CHR 0xE8, CHR 0x87, CHR 0xAA, CHR 0xE5, CHR 0xB7, CHR 0xB1,
     CHR 0xE7, CHR 0x9A, CHR 0x84, CHR 0xE8, CHR 0xB4, CHR 0xA6, CHR 0xE5, CHR 0x8F, CHR 0xB7]"

definition msg_role_admin_only :: string where
  "msg_role_admin_only =
     [CHR 0xE5, CHR 0x8F, CHR 0xAA, CHR 0xE6, CHR 0x9C, CHR 0x89, CHR 0xE7, CHR 0xAE, CHR 0xA1,
     CHR 0xE7, CHR 0x90, CHR 0x86, CHR 0xE5, CHR 0x91, CHR 0x98, CHR 0xE5, CHR 0x8F, CHR 0xAF,
     CHR 0xE4, CHR 0xBB, CHR 0xA5, CHR 0xE4, CHR 0xBF, CHR 0xAE, CHR 0xE6, CHR 0x94, CHR 0xB9,
     CHR 0xE8, CHR 0xA7, CHR 0x92, CHR 0xE8, CHR 0x89, CHR 0xB2]"

definition msg_wrong_password :: string where
  "msg_wrong_password =
     [CHR 0xE5, CHR 0xBD, CHR 0x93, CHR 0xE5, CHR 0x89, CHR 0x8D, CHR 0xE5, CHR 0xAF, CHR 0x86,
     CHR 0xE7, CHR 0xA0, CHR 0x81, CHR 0xE4, CHR 0xB8, CHR 0x8D, CHR 0xE6, CHR 0xAD, CHR 0xA3,
     CHR 0xE7, CHR 0xA1, CHR 0xAE]"

definition msg_same_password :: string where
  "msg_same_password =
     [CHR 0xE6, CHR 0x96, CHR 0xB0, CHR 0xE5, CHR 0xAF, CHR 0x86, CHR 0xE7, CHR 0xA0, CHR 0x81,
     CHR 0xE4, CHR 0xB8, CHR 0x8D, CHR 0xE8, CHR 0x83, CHR 0xBD, CHR 0xE4, CHR 0xB8, CHR 0x8E,
     CHR 0xE5, CHR 0xBD, CHR 0x93, CHR 0xE5, CHR 0x89, CHR 0x8D, CHR 0xE5, CHR 0xAF, CHR 0x86,
     CHR 0xE7, CHR 0xA0, CHR 0x81, CHR 0xE7, CHR 0x9B, CHR 0xB8, CHR 0xE5, CHR 0x90, CHR 0x8C]"

definition msg_disable_self :: string where
  "msg_disable_self =
     [CHR 0xE4, CHR 0xB8, CHR 0x8D, CHR 0xE8, CHR 0x83, CHR 0xBD, CHR 0xE5, CHR 0x81, CHR 0x9C,
     CHR 0xE7, CHR 0x94, CHR 0xA8, CHR 0xE5, CHR 0xBD, CHR 0x93, CHR 0xE5, CHR 0x89, CHR 0x8D,
     CHR 0xE7, CHR 0x99, CHR 0xBB, CHR 0xE5, CHR 0xBD, CHR 0x95, CHR 0xE8, CHR 0xB4, CHR 0xA6,
     CHR 0xE5, CHR 0x8F, CHR 0xB7]"

definition msg_last_admin :: string where
  "msg_last_admin =
     [CHR 0xE4, CHR 0xB8, CHR 0x8D, CHR 0xE8, CHR 0x83, CHR 0xBD, CHR 0xE5, CHR 0x81, CHR 0x9C,
     CHR 0xE7, CHR 0x94, CHR 0xA8, CHR 0xE6, CHR 0x9C, CHR 0x80, CHR 0xE5, CHR 0x90, CHR 0x8E,
     CHR 0xE4, CHR 0xB8, CHR 0x80, CHR 0xE4, CHR 0xB8, CHR 0xAA, CHR 0xE7, CHR 0xAE, CHR 0xA1,
     CHR 0xE7, CHR 0x90, CHR 0x86, CHR 0xE5, CHR 0x91, CHR 0x98, CHR 0xE8, CHR 0xB4, CHR 0xA6,
     CHR 0xE5, CHR 0x8F, CHR 0xB7]"

definition msg_pwd_short :: string where
  "msg_pwd_short =
     [CHR 0xE5, CHR 0xAF, CHR 0x86, CHR 0xE7, CHR 0xA0, CHR 0x81, CHR 0xE8, CHR 0x87, CHR 0xB3,
     CHR 0xE5, CHR 0xB0, CHR 0x91] @ '' 12 '' @ [CHR 0xE4, CHR 0xBD, CHR 0x8D]"

definition msg_pwd_lower :: string where
  "msg_pwd_lower =
     [CHR 0xE5, CHR 0xAF, CHR 0x86, CHR 0xE7, CHR 0xA0, CHR 0x81, CHR 0xE5, CHR 0xBF, CHR 0x85,
     CHR 0xE9, CHR 0xA1, CHR 0xBB, CHR 0xE5, CHR 0x8C, CHR 0x85, CHR 0xE5, CHR 0x90, CHR 0xAB,
     CHR 0xE5, CHR 0xB0, CHR 0x8F, CHR 0xE5, CHR 0x86, CHR 0x99, CHR 0xE5, CHR 0xAD, CHR 0x97,
     CHR 0xE6, CHR 0xAF, CHR 0x8D]"

definition msg_pwd_upper :: string where
  "msg_pwd_upper =
     [CHR 0xE5, CHR 0xAF, CHR 0x86, CHR 0xE7, CHR 0xA0, CHR 0x81, CHR 0xE5, CHR 0xBF, CHR 0x85,
     CHR 0xE9, CHR 0xA1, CHR 0xBB, CHR 0xE5, CHR 0x8C, CHR 0x85, CHR 0xE5, CHR 0x90, CHR 0xAB,
     CHR 0xE5, CHR 0xA4, CHR 0xA7, CHR 0xE5, CHR 0x86, CHR 0x99, CHR 0xE5, CHR 0xAD, CHR 0x97,
     CHR 0xE6, CHR 0xAF, CHR 0x8D]"

definition msg_slug_taken :: string where
  "msg_slug_taken =
     '' '' @ [CHR 0xE5, CHR 0xB7, CHR 0xB2, CHR 0xE8, CHR 0xA2, CHR 0xAB, CHR 0xE5, CHR 0x8D,
     CHR 0xA0, CHR 0xE7, CHR 0x94, CHR 0xA8]"

definition msg_ins_missing :: string where
  "msg_ins_missing =
     [CHR 0xE9, CHR 0x83, CHR 0xA8, CHR 0xE5, CHR 0x88, CHR 0x86, CHR 0xE8, CHR 0xAE, CHR 0xB2,
     CHR 0xE5, CHR 0xB8, CHR 0x88] @ '' ID '' @ [CHR 0xE4, CHR 0xB8, CHR 0x8D, CHR 0xE5, CHR
     0xAD, CHR 0x98, CHR 0xE5, CHR 0x9C, CHR 0xA8] @ '': ''"

definition msg_ins_one_primary :: string where
  "msg_ins_one_primary =
     [CHR 0xE5, CHR 0x90, CHR 0x8C] @ '' role=instructor '' @ [CHR 0xE5, CHR 0x8F, CHR 0xAA,
     CHR 0xE8, CHR 0x83, CHR 0xBD, CHR 0xE6, CHR 0x9C, CHR 0x89] @ '' 1 '' @ [CHR 0xE4, CHR
     0xB8, CHR 0xAA, CHR 0xE4, CHR 0xB8, CHR 0xBB, CHR 0xE8, CHR 0xAE, CHR 0xB2, CHR 0xE5, CHR
     0xB8, CHR 0x88]"

definition msg_iex_key :: string where
  "msg_iex_key =
     [CHR 0xE4, CHR 0xB8, CHR 0x93, CHR 0xE9, CHR 0x95, CHR 0xBF] @ '' key ''"

definition msg_iex_taken :: string where
  "msg_iex_taken =
     '' '' @ [CHR 0xE5, CHR 0xB7, CHR 0xB2, CHR 0xE5, CHR 0xAD, CHR 0x98, CHR 0xE5, CHR 0x9C,
     CHR 0xA8]"

definition msg_enq_team :: string where
  "msg_enq_team =
     [CHR 0xE2, CHR 0x80, CHR 0x94] @ '' AI Academy team''"

definition msg_pay_closed :: string where
  "msg_pay_closed =
     [CHR 0xE6, CHR 0x94, CHR 0xAF, CHR 0xE4, CHR 0xBB, CHR 0x98, CHR 0xE9, CHR 0x80, CHR 0x9A,
     CHR 0xE9, CHR 0x81, CHR 0x93, CHR 0xE5, CHR 0xB0, CHR 0x9A, CHR 0xE6, CHR 0x9C, CHR 0xAA,
     CHR 0xE5, CHR 0xBC, CHR 0x80, CHR 0xE6, CHR 0x94, CHR 0xBE, CHR 0xEF, CHR 0xBC, CHR 0x8C,
     CHR 0xE8, CHR 0xAF, CHR 0xB7, CHR 0xE8, CHR 0x81, CHR 0x94, CHR 0xE7, CHR 0xB3, CHR 0xBB,
     CHR 0xE5, CHR 0xB9, CHR 0xB3, CHR 0xE5, CHR 0x8F, CHR 0xB0, CHR 0xE7, CHR 0xAE, CHR 0xA1,
     CHR 0xE7, CHR 0x90, CHR 0x86, CHR 0xE5, CHR 0x91, CHR 0x98]"

definition msg_pwd_digit :: string where
  "msg_pwd_digit =
     [CHR 0xE5, CHR 0xAF, CHR 0x86, CHR 0xE7, CHR 0xA0, CHR 0x81, CHR 0xE5, CHR 0xBF, CHR 0x85,
     CHR 0xE9, CHR 0xA1, CHR 0xBB, CHR 0xE5, CHR 0x8C, CHR 0x85, CHR 0xE5, CHR 0x90, CHR 0xAB,
     CHR 0xE6, CHR 0x95, CHR 0xB0, CHR 0xE5, CHR 0xAD, CHR 0x97]"

definition msg_pwd_symbol :: string where
  "msg_pwd_symbol =
     [CHR 0xE5, CHR 0xAF, CHR 0x86, CHR 0xE7, CHR 0xA0, CHR 0x81, CHR 0xE5, CHR 0xBF, CHR 0x85,
     CHR 0xE9, CHR 0xA1, CHR 0xBB, CHR 0xE5, CHR 0x8C, CHR 0x85, CHR 0xE5, CHR 0x90, CHR 0xAB,
     CHR 0xE7, CHR 0xAC, CHR 0xA6, CHR 0xE5, CHR 0x8F, CHR 0xB7]"

definition msg_hack_cancelled :: string where
  "msg_hack_cancelled =
     [CHR 0xE8, CHR 0xAF, CHR 0xA5, CHR 0xE9, CHR 0xBB, CHR 0x91, CHR 0xE5, CHR 0xAE, CHR 0xA2,
     CHR 0xE6, CHR 0x9D, CHR 0xBE, CHR 0xE5, CHR 0xB7, CHR 0xB2, CHR 0xE5, CHR 0x8F, CHR 0x96,
     CHR 0xE6, CHR 0xB6, CHR 0x88]"

definition msg_hack_closed :: string where
  "msg_hack_closed =
     [CHR 0xE6, CHR 0x8A, CHR 0xA5, CHR 0xE5, CHR 0x90, CHR 0x8D, CHR 0xE5, CHR 0xB7, CHR 0xB2,
     CHR 0xE6, CHR 0x88, CHR 0xAA, CHR 0xE6, CHR 0xAD, CHR 0xA2]"

definition msg_hack_not_registered :: string where
  "msg_hack_not_registered =
     [CHR 0xE5, CHR 0xB0, CHR 0x9A, CHR 0xE6, CHR 0x9C, CHR 0xAA, CHR 0xE6, CHR 0x8A, CHR 0xA5,
     CHR 0xE5, CHR 0x90, CHR 0x8D, CHR 0xE8, CHR 0xAF, CHR 0xA5, CHR 0xE9, CHR 0xBB, CHR 0x91,
     CHR 0xE5, CHR 0xAE, CHR 0xA2, CHR 0xE6, CHR 0x9D, CHR 0xBE]"

definition msg_team_name_taken :: string where
  "msg_team_name_taken =
     [CHR 0xE8, CHR 0xAF, CHR 0xA5, CHR 0xE9, CHR 0xBB, CHR 0x91, CHR 0xE5, CHR 0xAE, CHR 0xA2,
     CHR 0xE6, CHR 0x9D, CHR 0xBE, CHR 0xE4, CHR 0xB8, CHR 0x8B, CHR 0xE5, CHR 0xB7, CHR 0xB2,
     CHR 0xE5, CHR 0xAD, CHR 0x98, CHR 0xE5, CHR 0x9C, CHR 0xA8, CHR 0xE5, CHR 0x90, CHR 0x8C,
     CHR 0xE5, CHR 0x90, CHR 0x8D, CHR 0xE9, CHR 0x98, CHR 0x9F, CHR 0xE4, CHR 0xBC, CHR 0x8D]"

definition msg_team_already :: string where
  "msg_team_already =
     [CHR 0xE4, CHR 0xBD, CHR 0xA0, CHR 0xE5, CHR 0xB7, CHR 0xB2, CHR 0xE7, CHR 0xBB, CHR 0x8F,
     CHR 0xE5, CHR 0x8A, CHR 0xA0, CHR 0xE5, CHR 0x85, CHR 0xA5, CHR 0xE4, CHR 0xBA, CHR 0x86,
     CHR 0xE4, CHR 0xB8, CHR 0x80, CHR 0xE4, CHR 0xB8, CHR 0xAA, CHR 0xE9, CHR 0x98, CHR 0x9F,
     CHR 0xE4, CHR 0xBC, CHR 0x8D]"

definition msg_team_full :: string where
  "msg_team_full =
     [CHR 0xE9, CHR 0x98, CHR 0x9F, CHR 0xE4, CHR 0xBC, CHR 0x8D, CHR 0xE5, CHR 0xB7, CHR 0xB2,
     CHR 0xE6, CHR 0xBB, CHR 0xA1]"

definition msg_team_not_member :: string where
  "msg_team_not_member =
     [CHR 0xE4, CHR 0xBD, CHR 0xA0, CHR 0xE4, CHR 0xB8, CHR 0x8D, CHR 0xE6, CHR 0x98, CHR 0xAF,
     CHR 0xE8, CHR 0xAF, CHR 0xA5, CHR 0xE9, CHR 0x98, CHR 0x9F, CHR 0xE4, CHR 0xBC, CHR 0x8D,
     CHR 0xE6, CHR 0x88, CHR 0x90, CHR 0xE5, CHR 0x91, CHR 0x98]"

definition msg_hack_register_first :: string where
  "msg_hack_register_first =
     [CHR 0xE8, CHR 0xAF, CHR 0xB7, CHR 0xE5, CHR 0x85, CHR 0x88, CHR 0xE6, CHR 0x8A, CHR 0xA5,
     CHR 0xE5, CHR 0x90, CHR 0x8D, CHR 0xE8, CHR 0xAF, CHR 0xA5, CHR 0xE9, CHR 0xBB, CHR 0x91,
     CHR 0xE5, CHR 0xAE, CHR 0xA2, CHR 0xE6, CHR 0x9D, CHR 0xBE]"

definition msg_video_duration :: string where
  "msg_video_duration =
     ''videoDuration must be '' @ [CHR 0xE2, CHR 0x89, CHR 0xA5] @ '' 0''"

definition msg_up_role :: string where
  "msg_up_role =
     '' '' @ [CHR 0xE4, CHR 0xB8, CHR 0x8D, CHR 0xE5, CHR 0x85, CHR 0x81, CHR 0xE8, CHR 0xAE,
     CHR 0xB8, CHR 0xE4, CHR 0xB8, CHR 0x8A, CHR 0xE4, CHR 0xBC, CHR 0xA0] @ '' ''"

definition msg_up_need :: string where
  "msg_up_need =
     '' ('' @ [CHR 0xE9, CHR 0x9C, CHR 0x80, CHR 0xE8, CHR 0xA6, CHR 0x81] @ '': ''"

definition msg_up_role_done :: string where
  "msg_up_role_done =
     '' '' @ [CHR 0xE4, CHR 0xB8, CHR 0x8D, CHR 0xE5, CHR 0x85, CHR 0x81, CHR 0xE8, CHR 0xAE,
     CHR 0xB8] @ '' ''"

definition msg_up_mime :: string where
  "msg_up_mime =
     '' '' @ [CHR 0xE4, CHR 0xB8, CHR 0x8D, CHR 0xE6, CHR 0x8E, CHR 0xA5, CHR 0xE5, CHR 0x8F,
     CHR 0x97] @ '' ''"

definition msg_up_mime_allowed :: string where
  "msg_up_mime_allowed =
     '' ('' @ [CHR 0xE5, CHR 0x85, CHR 0x81, CHR 0xE8, CHR 0xAE, CHR 0xB8] @ '': ''"

definition msg_up_file :: string where
  "msg_up_file =
     '' '' @ [CHR 0xE6, CHR 0x96, CHR 0x87, CHR 0xE4, CHR 0xBB, CHR 0xB6] @ '' ''"

definition msg_up_over :: string where
  "msg_up_over =
     '' '' @ [CHR 0xE5, CHR 0xAD, CHR 0x97, CHR 0xE8, CHR 0x8A, CHR 0x82, CHR 0xE8, CHR 0xB6,
     CHR 0x85, CHR 0xE8, CHR 0xBF, CHR 0x87, CHR 0xE4, CHR 0xB8, CHR 0x8A, CHR 0xE9, CHR 0x99,
     CHR 0x90] @ '' ''"

definition msg_up_actual :: string where
  "msg_up_actual =
     '' '' @ [CHR 0xE5, CHR 0xAE, CHR 0x9E, CHR 0xE9, CHR 0x99, CHR 0x85, CHR 0xE6, CHR 0x96,
     CHR 0x87, CHR 0xE4, CHR 0xBB, CHR 0xB6] @ '' ''"

definition msg_up_not_own :: string where
  "msg_up_not_own =
     [CHR 0xE8, CHR 0xAF, CHR 0xA5, CHR 0xE4, CHR 0xB8, CHR 0x8A, CHR 0xE4, CHR 0xBC, CHR 0xA0]
     @ '' key '' @ [CHR 0xE4, CHR 0xB8, CHR 0x8D, CHR 0xE5, CHR 0xB1, CHR 0x9E, CHR 0xE4, CHR
     0xBA, CHR 0x8E, CHR 0xE5, CHR 0xBD, CHR 0x93, CHR 0xE5, CHR 0x89, CHR 0x8D, CHR 0xE7, CHR
     0x94, CHR 0xA8, CHR 0xE6, CHR 0x88, CHR 0xB7]"

definition msg_up_no_object :: string where
  "msg_up_no_object =
     [CHR 0xE4, CHR 0xB8, CHR 0x8A, CHR 0xE4, CHR 0xBC, CHR 0xA0] @ '' object '' @ [CHR 0xE4,
     CHR 0xB8, CHR 0x8D, CHR 0xE5, CHR 0xAD, CHR 0x98, CHR 0xE5, CHR 0x9C, CHR 0xA8] @ '': ''"

definition msg_up_no_put :: string where
  "msg_up_no_put =
     '' ('' @ [CHR 0xE5, CHR 0x89, CHR 0x8D, CHR 0xE7, CHR 0xAB, CHR 0xAF, CHR 0xE5, CHR 0x8F,
     CHR 0xAF, CHR 0xE8, CHR 0x83, CHR 0xBD, CHR 0xE6, CHR 0x9C, CHR 0xAA, CHR 0xE5, CHR 0xAE,
     CHR 0x8C, CHR 0xE6, CHR 0x88, CHR 0x90] @ '' PUT)''"

definition msg_up_empty :: string where
  "msg_up_empty =
     [CHR 0xE4, CHR 0xB8, CHR 0x8A, CHR 0xE4, CHR 0xBC, CHR 0xA0, CHR 0xE6, CHR 0x96, CHR 0x87,
     CHR 0xE4, CHR 0xBB, CHR 0xB6, CHR 0xE4, CHR 0xB8, CHR 0xBA, CHR 0xE7, CHR 0xA9, CHR 0xBA]"

definition msg_up_actual_type :: string where
  "msg_up_actual_type =
     '' '' @ [CHR 0xE5, CHR 0xAE, CHR 0x9E, CHR 0xE9, CHR 0x99, CHR 0x85, CHR 0xE6, CHR 0x96,
     CHR 0x87, CHR 0xE4, CHR 0xBB, CHR 0xB6, CHR 0xE7, CHR 0xB1, CHR 0xBB, CHR 0xE5, CHR 0x9E,
     CHR 0x8B] @ '' ''"

definition msg_up_type_refused :: string where
  "msg_up_type_refused =
     '' '' @ [CHR 0xE4, CHR 0xB8, CHR 0x8D, CHR 0xE8, CHR 0xA2, CHR 0xAB, CHR 0xE5, CHR 0x85,
     CHR 0x81, CHR 0xE8, CHR 0xAE, CHR 0xB8]"

definition msg_up_target :: string where
  "msg_up_target =
     '' '' @ [CHR 0xE7, CHR 0x9B, CHR 0xAE, CHR 0xE6, CHR 0xA0, CHR 0x87] @ '' refId=''"

definition msg_up_target_missing :: string where
  "msg_up_target_missing =
     '' '' @ [CHR 0xE4, CHR 0xB8, CHR 0x8D, CHR 0xE5, CHR 0xAD, CHR 0x98, CHR 0xE5, CHR 0x9C,
     CHR 0xA8, CHR 0xE6, CHR 0x88, CHR 0x96, CHR 0xE6, CHR 0x97, CHR 0xA0, CHR 0xE6, CHR 0x9D,
     CHR 0x83, CHR 0xE4, CHR 0xBF, CHR 0xAE, CHR 0xE6, CHR 0x94, CHR 0xB9]"

definition msg_up_missing :: string where
  "msg_up_missing =
     '' '' @ [CHR 0xE4, CHR 0xB8, CHR 0x8D, CHR 0xE5, CHR 0xAD, CHR 0x98, CHR 0xE5, CHR 0x9C,
     CHR 0xA8]"

definition msg_up_admin :: string where
  "msg_up_admin =
     [CHR 0xE4, CHR 0xBB, CHR 0x85] @ '' admin '' @ [CHR 0xE5, CHR 0x8F, CHR 0xAF, CHR 0xE4,
     CHR 0xB8, CHR 0x8A, CHR 0xE4, CHR 0xBC, CHR 0xA0] @ '' ''"

definition msg_up_lesson :: string where
  "msg_up_lesson =
     ''lesson '' @ [CHR 0xE8, CHR 0xA7, CHR 0x86, CHR 0xE9, CHR 0xA2, CHR 0x91]"

definition msg_up_course :: string where
  "msg_up_course =
     ''course '' @ [CHR 0xE5, CHR 0xB0, CHR 0x81, CHR 0xE9, CHR 0x9D, CHR 0xA2]"

definition msg_up_degree :: string where
  "msg_up_degree =
     ''degree '' @ [CHR 0xE5, CHR 0xB0, CHR 0x81, CHR 0xE9, CHR 0x9D, CHR 0xA2]"

definition msg_up_own_avatar :: string where
  "msg_up_own_avatar =
     [CHR 0xE5, CHR 0x8F, CHR 0xAA, CHR 0xE8, CHR 0x83, CHR 0xBD, CHR 0xE6, CHR 0x94, CHR 0xB9,
     CHR 0xE8, CHR 0x87, CHR 0xAA, CHR 0xE5, CHR 0xB7, CHR 0xB1, CHR 0xE7, CHR 0x9A, CHR 0x84,
     CHR 0xE5, CHR 0xA4, CHR 0xB4, CHR 0xE5, CHR 0x83, CHR 0x8F]"

definition msg_scope_lesson_video :: string where
  "msg_scope_lesson_video =
     [CHR 0xE8, CHR 0xAF, CHR 0xBE, CHR 0xE6, CHR 0x97, CHR 0xB6, CHR 0xE8, CHR 0xA7, CHR 0x86,
     CHR 0xE9, CHR 0xA2, CHR 0x91] @ '' (mp4/webm/mov/mkv, max 500MB)''"

definition msg_scope_resource :: string where
  "msg_scope_resource =
     [CHR 0xE8, CHR 0xAF, CHR 0xBE, CHR 0xE6, CHR 0x97, CHR 0xB6, CHR 0xE8, CHR 0xB5, CHR 0x84,
     CHR 0xE6, CHR 0xBA, CHR 0x90] @ '' (pdf/zip/'' @ [CHR 0xE8, CHR 0xA7, CHR 0x86, CHR 0xE9,
     CHR 0xA2, CHR 0x91] @ ''/'' @ [CHR 0xE9, CHR 0x9F, CHR 0xB3, CHR 0xE9, CHR 0xA2, CHR 0x91]
     @ '', max 100MB)''"

definition msg_scope_course :: string where
  "msg_scope_course =
     [CHR 0xE8, CHR 0xAF, CHR 0xBE, CHR 0xE7, CHR 0xA8, CHR 0x8B, CHR 0xE5, CHR 0xB0, CHR 0x81,
     CHR 0xE9, CHR 0x9D, CHR 0xA2] @ '' (jpg/png/webp, max 5MB)''"

definition msg_scope_degree :: string where
  "msg_scope_degree =
     [CHR 0xE5, CHR 0xAD, CHR 0xA6, CHR 0xE4, CHR 0xBD, CHR 0x8D, CHR 0xE5, CHR 0xB0, CHR 0x81,
     CHR 0xE9, CHR 0x9D, CHR 0xA2] @ '' (jpg/png/webp, max 5MB)''"

definition msg_scope_banner :: string where
  "msg_scope_banner =
     [CHR 0xE9, CHR 0xBB, CHR 0x91, CHR 0xE5, CHR 0xAE, CHR 0xA2, CHR 0xE6, CHR 0x9D, CHR 0xBE]
     @ '' banner (jpg/png/webp, max 8MB)''"

definition msg_scope_judge :: string where
  "msg_scope_judge =
     [CHR 0xE8, CHR 0xAF, CHR 0x84, CHR 0xE5, CHR 0xA7, CHR 0x94, CHR 0xE5, CHR 0xA4, CHR 0xB4,
     CHR 0xE5, CHR 0x83, CHR 0x8F] @ '' (jpg/png/webp, max 3MB)''"

definition msg_scope_sponsor :: string where
  "msg_scope_sponsor =
     [CHR 0xE8, CHR 0xB5, CHR 0x9E, CHR 0xE5, CHR 0x8A, CHR 0xA9, CHR 0xE5, CHR 0x95, CHR 0x86]
     @ '' logo (jpg/png/webp, max 3MB)''"

definition msg_scope_submission :: string where
  "msg_scope_submission =
     [CHR 0xE9, CHR 0xBB, CHR 0x91, CHR 0xE5, CHR 0xAE, CHR 0xA2, CHR 0xE6, CHR 0x9D, CHR 0xBE,
     CHR 0xE4, CHR 0xBD, CHR 0x9C, CHR 0xE5, CHR 0x93, CHR 0x81] @ '' demo '' @ [CHR 0xE8, CHR
     0xA7, CHR 0x86, CHR 0xE9, CHR 0xA2, CHR 0x91] @ '' (team member '' @ [CHR 0xE5, CHR 0x8F,
     CHR 0xAF, CHR 0xE4, CHR 0xBC, CHR 0xA0] @ '', max 200MB)''"

definition msg_scope_avatar :: string where
  "msg_scope_avatar =
     [CHR 0xE7, CHR 0x94, CHR 0xA8, CHR 0xE6, CHR 0x88, CHR 0xB7, CHR 0xE5, CHR 0xA4, CHR 0xB4,
     CHR 0xE5, CHR 0x83, CHR 0x8F] @ '' (jpg/png/webp, max 2MB)''"

end
