(* ===== verification/Refund.thy ===== *)
theory Refund
  imports Orders Messages
begin

text \<open>
  \<open>internal/orders/refund.go\<close> and the refund statements of \<open>internal/repo/db/orders.sql.go\<close>.
  The eligibility rules compute with \<open>float64\<close>; \<open>ratio_below_fifth\<close> and \<open>within_week\<close> show
  that these computations decide exactly the intended integer conditions, and
  \<open>checkRefund_quiet\<close> that the check returns the verdict of the rules.
\<close>

section \<open>Statements\<close>

definition q_RefundCountCompletedLessonsForCourse :: "string \<Rightarrow> string \<Rightarrow> int io" where
  "q_RefundCountCompletedLessonsForCourse u c = query (\<lambda>d. count_rows
     (\<lambda>p. prg_UserID p = u \<and> prg_CourseID p = c \<and> prg_Status p = ProgressRecordsStatusCompleted)
     (t_progress_records d))"

text \<open>The lessons of a course: live lessons of its live chapters.\<close>

definition lesson_of_course :: "database \<Rightarrow> string \<Rightarrow> Lesson \<Rightarrow> bool" where
  "lesson_of_course d c l \<longleftrightarrow> lsn_DeletedAt l = None \<and>
     list_ex (\<lambda>ch. chp_ID ch = lsn_ChapterID l \<and> chp_CourseID ch = c \<and> chp_DeletedAt ch = None)
       (t_chapters d)"

definition q_RefundCountTotalLessonsForCourse :: "string \<Rightarrow> int io" where
  "q_RefundCountTotalLessonsForCourse c =
     query (\<lambda>d. count_rows (lesson_of_course d c) (t_lessons d))"

definition q_RefundCountDegreeCourses :: "string \<Rightarrow> int io" where
  "q_RefundCountDegreeCourses g =
     query (\<lambda>d. count_rows (\<lambda>r. dgc_DegreeID r = g) (t_degree_courses d))"

definition course_of_degree :: "database \<Rightarrow> string \<Rightarrow> string \<Rightarrow> bool" where
  "course_of_degree d g c \<longleftrightarrow>
     list_ex (\<lambda>r. dgc_DegreeID r = g \<and> dgc_CourseID r = c) (t_degree_courses d)"

text \<open>The join with \<open>degree_courses\<close>, whose primary key makes it one row per progress record.\<close>

definition q_RefundCountStartedDegreeCourses :: "string \<Rightarrow> string \<Rightarrow> int io" where
  "q_RefundCountStartedDegreeCourses u g = query (\<lambda>d. count_rows
     (\<lambda>p. prg_UserID p = u \<and> course_of_degree d g (prg_CourseID p) \<and>
          prg_Status p \<in> {ProgressRecordsStatusInProgress, ProgressRecordsStatusCompleted})
     (t_progress_records d))"

definition revoked_row :: "int option \<Rightarrow> Enrollment \<Rightarrow> Enrollment" where
  "revoked_row t e = e\<lparr>enr_DeletedAt := t, enr_ExpiresAt := None\<rparr>"

definition revoke_where :: "(database \<Rightarrow> Enrollment \<Rightarrow> bool) \<Rightarrow> int option \<Rightarrow> nat stmt" where
  "revoke_where P t = (\<lambda>d. Inr (changed (P d) (revoked_row t) (t_enrollments d),
     d\<lparr>t_enrollments := upd (P d) (revoked_row t) (t_enrollments d)\<rparr>))"

definition sql_revoke_course :: "int option \<Rightarrow> string \<Rightarrow> string option \<Rightarrow> nat stmt" where
  "sql_revoke_course t u c = revoke_where
     (\<lambda>_ e. enr_UserID e = u \<and> c \<noteq> None \<and> enr_CourseID e = c \<and> enr_Source e = ''order'' \<and>
            enr_DeletedAt e = None) t"

definition sql_revoke_degree :: "int option \<Rightarrow> string \<Rightarrow> string option \<Rightarrow> nat stmt" where
  "sql_revoke_degree t u g = revoke_where
     (\<lambda>_ e. enr_UserID e = u \<and> g \<noteq> None \<and> enr_DegreeID e = g \<and> enr_Source e = ''order'' \<and>
            enr_DeletedAt e = None) t"

definition sql_revoke_degree_courses :: "int option \<Rightarrow> string \<Rightarrow> string \<Rightarrow> nat stmt" where
  "sql_revoke_degree_courses t u g = revoke_where
     (\<lambda>d e. enr_UserID e = u \<and> (\<exists>c \<in> set_option (enr_CourseID e). course_of_degree d g c) \<and>
            enr_Source e = ''degree'' \<and> enr_DeletedAt e = None) t"

section \<open>The eligibility check\<close>

text \<open>\<open>d.Hours()\<close> of a duration in milliseconds: whole hours plus the rest in nanoseconds
  over \<open>3.6e12\<close>, towards zero for a negative duration.\<close>

definition hours_of :: "int \<Rightarrow> dbl" where
  "hours_of d =
     (let s = \<bar>d\<bar>;
          v = dbl_add (dbl_of_int (s div 3600000))
                (dbl_div (dbl_of_int ((s mod 3600000) * 1000000)) (dbl_of_int 3600000000000))
      in if d < 0 then - v else v)"

definition days_of_duration :: "int \<Rightarrow> dbl" where
  "days_of_duration d = dbl_div (hours_of d) (dbl_of_int 24)"

definition fee_rate :: dbl where
  "fee_rate = dbl_of_frac 5 100"

text \<open>Rules 1 to 3 for a course, from the two counts and the age of the payment.\<close>

definition course_verdict :: "int \<Rightarrow> int \<Rightarrow> dbl \<Rightarrow> bool \<times> dbl \<times> string" where
  "course_verdict completed lessons daysSincePaid =
     (if completed = 0 then (True, 0, [])
      else
        (let progress = (if 0 < lessons then dbl_div (dbl_of_int completed) (dbl_of_int lessons) else 0)
         in if daysSincePaid < dbl_of_int 7 \<and> progress < dbl_of_frac 2 10
            then (True, fee_rate, [])
            else if dbl_of_int 7 \<le> daysSincePaid then (False, 0, msg_refund_window)
            else (False, 0, msg_refund_progress_pre
                   @ show_int (dbl_trunc (dbl_mul progress (dbl_of_int 100)))
                   @ msg_refund_progress_post)))"

definition checkRefund :: "Order \<Rightarrow> (bool \<times> dbl \<times> string) io" where
  "checkRefund r =
     bind go_now (\<lambda>now0.
     bind go_now (\<lambda>now.
     (let paid = (case ord_PaidAt r of None \<Rightarrow> now0 | Some t \<Rightarrow> t);
          daysSincePaid = days_of_duration (now - paid)
      in case ord_Type r of
        OrdersTypeCourse \<Rightarrow>
          (case ord_CourseID r of
             None \<Rightarrow> ret (False, 0, msg_refund_no_course)
           | Some c \<Rightarrow>
               call (q_RefundCountCompletedLessonsForCourse (ord_UserID r) c)
                 (\<lambda>e. fail (Wrap ''count completed'' e)) (\<lambda>completed.
               call (q_RefundCountTotalLessonsForCourse c)
                 (\<lambda>e. fail (Wrap ''count total'' e)) (\<lambda>lessons.
               ret (course_verdict completed lessons daysSincePaid))))
      | OrdersTypeDegree \<Rightarrow>
          (case ord_DegreeID r of
             None \<Rightarrow> ret (False, 0, msg_refund_no_degree)
           | Some g \<Rightarrow>
               call (q_RefundCountStartedDegreeCourses (ord_UserID r) g)
                 (\<lambda>e. fail (Wrap ''count started degree courses'' e)) (\<lambda>started.
               if started = 0 then ret (True, 0, [])
               else ret (False, 0, msg_refund_degree_started))))))"

definition refund_amount :: "string \<Rightarrow> dbl \<Rightarrow> dbl" where
  "refund_amount amount feeRate =
     (let fullAmount = (case parse_decimal amount of None \<Rightarrow> 0 | Some x \<Rightarrow> x)
      in if 0 < feeRate then dbl_mul fullAmount (dbl_sub (dbl_of_int 1) feeRate) else fullAmount)"

section \<open>The refund\<close>

record RefundResult =
  rfr_OrderID :: string
  rfr_Status :: string
  rfr_RefundAmount :: string
  rfr_FeeRate :: dbl

text \<open>The revocations: a failure is logged and dropped.\<close>

definition revoke_enrollments :: "Order \<Rightarrow> string \<Rightarrow> int \<Rightarrow> unit io" where
  "revoke_enrollments r userID revokedAt =
     (case ord_Type r of
        OrdersTypeCourse \<Rightarrow>
          (case ord_CourseID r of
             None \<Rightarrow> ret ()
           | Some c \<Rightarrow> ignoring (exec (sql_revoke_course (Some revokedAt) userID (Some c))) (ret ()))
      | OrdersTypeDegree \<Rightarrow>
          (case ord_DegreeID r of
             None \<Rightarrow> ret ()
           | Some g \<Rightarrow>
               ignoring (exec (sql_revoke_degree (Some revokedAt) userID (Some g)))
               (ignoring (exec (sql_revoke_degree_courses (Some revokedAt) userID g)) (ret ()))))"

text \<open>The steps of \<open>RefundOrder\<close> once the check has approved it.\<close>

definition settle_refund :: "order_hooks \<Rightarrow> string \<Rightarrow> string \<Rightarrow> Order \<Rightarrow> dbl \<Rightarrow> RefundResult io" where
  "settle_refund h userID orderID r feeRate =
     (let amount = fmt_2f (refund_amount (ord_Amount r) feeRate)
      in bind go_now (\<lambda>revokedAt.
         call (orders_repo_MarkRefunded orderID) (\<lambda>e. fail (Internal ''mark refunded'' e)) (\<lambda>_.
         bind (revoke_enrollments r userID revokedAt) (\<lambda>_.
         bind (orders_writeAudit ''order.refund'' orderID userID) (\<lambda>_.
         ignoring (refundNotifier h userID orderID amount)
           (ret \<lparr> rfr_OrderID = orderID, rfr_Status = ordersStatus_str OrdersStatusRefunded,
                  rfr_RefundAmount = amount, rfr_FeeRate = feeRate \<rparr>))))))"

definition RefundOrder :: "order_hooks \<Rightarrow> string \<Rightarrow> string \<Rightarrow> RefundResult io" where
  "RefundOrder h userID orderID =
     call (orders_repo_GetByID orderID)
       (\<lambda>e. if e = orders_ErrNotFound then fail (NotFound ''Order not found'')
            else fail (Internal ''get order'' e))
       (\<lambda>r.
     if ord_UserID r \<noteq> userID then fail (NotFound ''Order not found'')
     else if ord_Status r \<noteq> OrdersStatusPaid then fail (BadRequest ''Only paid orders can be refunded'')
     else
       call (checkRefund r) (\<lambda>e. fail (Internal ''refund check'' e)) (\<lambda>(allowed, feeRate, reason).
       if \<not> allowed then fail (BadRequest reason)
       else settle_refund h userID orderID r feeRate))"

definition stubCheckRefund :: "string \<Rightarrow> string \<Rightarrow> RefundEligibility" where
  "stubCheckRefund _ _ = \<lparr> rel_Allowed = False,
     rel_Reason = ''refund check moved to Service.RefundOrder (T15-final)'', rel_FeeRate = 0 \<rparr>"

section \<open>The float comparisons decide the integer rules\<close>

lemma rnd_pos_nonneg: "0 < b \<Longrightarrow> 0 \<le> a \<Longrightarrow> 0 \<le> rnd_pos a b"
  using rnd_pos_ge [of b 0 a] by (simp add: dbl_repr_def)

lemma dbl_div_pos: "0 \<le> x \<Longrightarrow> dbl_div x y = rnd_pos (x * dbl_one) y"
  by (simp add: dbl_div_def rnd_def dbl_one_def mult_less_0_iff)

lemma ratio_below_fifth:
  assumes c: "0 \<le> c" "c < 2 ^ 53" and t: "0 < t" "t < 2 ^ 31"
  shows "dbl_div (dbl_of_int c) (dbl_of_int t) < dbl_of_frac 2 10 \<longleftrightarrow> 5 * c < t"
proof -
  let ?P = "7205759403792792 * 2 ^ 65 :: int"
  have x: "dbl_of_int c = c * dbl_one" "dbl_of_int t = t * dbl_one"
    using c t by (simp_all add: dbl_of_int_exact)
  have F: "dbl_of_frac 2 10 = rnd_pos (2 * dbl_one) 10"
    by (simp add: dbl_of_frac_def rnd_def dbl_one_def)
  have q: "dbl_div (dbl_of_int c) (dbl_of_int t) = rnd_pos (c * dbl_one * dbl_one) (t * dbl_one)"
    using c x by (simp add: dbl_div_pos dbl_one_def)
  have one: "0 < dbl_one" by (simp add: dbl_one_def)
  show ?thesis
  proof
    assume lt: "5 * c < t"
    have "c * dbl_one \<le> ?P * t"
    proof -
      have "5 * (c * dbl_one) \<le> (t - 1) * dbl_one" using lt one by (simp add: mult_right_mono flip: mult.assoc)
      also have "\<dots> = t * dbl_one - dbl_one" by (simp add: algebra_simps)
      also have "\<dots> \<le> 5 * (?P * t)" using t by (simp add: dbl_one_def)
      finally have "c * dbl_one \<le> ?P * t" by (simp only: mult_le_cancel_left_pos zero_less_numeral)
      then show ?thesis .
    qed
    then have "c * dbl_one * dbl_one \<le> ?P * (t * dbl_one)"
      using one mult_right_mono [of "c * dbl_one" "?P * t" dbl_one] by (simp add: mult.assoc)
    then have "rnd_pos (c * dbl_one * dbl_one) (t * dbl_one) \<le> ?P"
      using c t one by (intro rnd_pos_le dbl_repr_shift) simp_all
    moreover have "7205759403792793 * 2 ^ 65 \<le> rnd_pos (2 * dbl_one) 10"
      by (intro rnd_pos_ge dbl_repr_shift) (simp_all add: dbl_one_def)
    ultimately show "dbl_div (dbl_of_int c) (dbl_of_int t) < dbl_of_frac 2 10"
      unfolding q F by simp
  next
    assume "dbl_div (dbl_of_int c) (dbl_of_int t) < dbl_of_frac 2 10"
    show "5 * c < t"
    proof (rule ccontr)
      assume "\<not> 5 * c < t"
      then have "2 * dbl_one * (t * dbl_one) \<le> c * dbl_one * dbl_one * 10"
        using one mult_right_mono [of t "5 * c" "2 * dbl_one * dbl_one"] by (simp add: ac_simps)
      then have "rnd_pos (2 * dbl_one) 10 \<le> rnd_pos (c * dbl_one * dbl_one) (t * dbl_one)"
        using t one by (intro rnd_pos_mono) simp_all
      with \<open>dbl_div _ _ < _\<close> show False unfolding q F by simp
    qed
  qed
qed

definition week_ms :: int where
  "week_ms = 7 * ms_per_day"

lemma hours_of_pos:
  assumes "0 \<le> d" "d < 2 ^ 60"
  shows "0 \<le> hours_of d"
    and "168 * 3600000 \<le> d \<Longrightarrow> 168 * dbl_one \<le> hours_of d"
    and "d < 168 * 3600000 \<Longrightarrow> hours_of d \<le> 168 * dbl_one - 2 ^ 98"
proof -
  define H where "H = d div 3600000"
  define n where "n = (d mod 3600000) * 1000000"
  define f where "f = rnd_pos (n * dbl_one * dbl_one) (3600000000000 * dbl_one)"
  have H: "0 \<le> H" "H < 2 ^ 53" using assms by (auto simp: H_def)
  have n: "0 \<le> n" "n \<le> 3599999000000" by (auto simp: n_def)
  have one: "0 < dbl_one" by (simp add: dbl_one_def)
  have f0: "0 \<le> f" unfolding f_def using n one by (intro rnd_pos_nonneg) auto
  have "n * dbl_one \<le> (dbl_one - 2 ^ 98) * 3600000000000"
    using n by (simp add: dbl_one_def)
  then have "n * dbl_one * dbl_one \<le> (dbl_one - 2 ^ 98) * (3600000000000 * dbl_one)"
    using one mult_right_mono [of "n * dbl_one" _ dbl_one] by (simp add: mult.assoc)
  moreover have "dbl_repr (dbl_one - 2 ^ 98)"
    using dbl_repr_shift [of "2 ^ 22 - 1" 98] by (simp add: dbl_one_def)
  ultimately have f1: "f \<le> dbl_one - 2 ^ 98"
    unfolding f_def using n one by (intro rnd_pos_le) (simp_all add: dbl_one_def)
  have hv: "hours_of d = rnd_pos (H * dbl_one + f) 1"
  proof -
    have "dbl_div (dbl_of_int n) (dbl_of_int 3600000000000) = f"
      using n one by (simp add: dbl_of_int_exact dbl_div_pos f_def)
    moreover have "dbl_of_int H = H * dbl_one" using H by (rule dbl_of_int_exact)
    moreover have "0 \<le> H * dbl_one + f" using H one f0 by simp
    ultimately show ?thesis
      using assms by (simp add: hours_of_def Let_def H_def [symmetric] n_def [symmetric]
          dbl_add_def rnd_def)
  qed
  have "0 \<le> H * dbl_one" using H one by simp
  then show "0 \<le> hours_of d" unfolding hv using f0 by (intro rnd_pos_nonneg) auto
  show "168 * dbl_one \<le> hours_of d" if "168 * 3600000 \<le> d"
  proof -
    have "168 \<le> H" using that by (simp add: H_def)
    then have "168 * dbl_one \<le> H * dbl_one" using one by (simp add: mult_right_mono)
    with f0 show ?thesis
      unfolding hv using dbl_repr_shift [of 168 120] by (intro rnd_pos_ge) (auto simp: dbl_one_def)
  qed
  show "hours_of d \<le> 168 * dbl_one - 2 ^ 98" if "d < 168 * 3600000"
  proof -
    have "H \<le> 167" using that by (simp add: H_def)
    then have "H * dbl_one \<le> 167 * dbl_one" using one by (simp add: mult_right_mono)
    with f1 have "H * dbl_one + f \<le> 168 * dbl_one - 2 ^ 98" by simp
    moreover have "dbl_repr (168 * dbl_one - 2 ^ 98)"
      using dbl_repr_shift [of "168 * 2 ^ 22 - 1" 98] by (simp add: dbl_one_def)
    ultimately show ?thesis
      unfolding hv using \<open>0 \<le> H * dbl_one\<close> f0 by (intro rnd_pos_le) (simp_all add: dbl_one_def)
  qed
qed

lemma within_week:
  assumes "- (2 ^ 60) < d" "d < 2 ^ 60"
  shows "days_of_duration d < dbl_of_int 7 \<longleftrightarrow> d < week_ms"
proof (cases "d < 0")
  case True
  then have "hours_of d = - hours_of (- d)" by (simp add: hours_of_def Let_def)
  moreover have "0 \<le> hours_of (- d)" using True assms by (intro hours_of_pos) auto
  ultimately have v: "hours_of d \<le> 0" by simp
  have c: "dbl_of_int 7 = 7 * dbl_one" "dbl_of_int 24 = 24 * dbl_one"
    by (simp_all add: dbl_of_int_exact)
  have "0 \<le> rnd_pos (\<bar>hours_of d\<bar> * dbl_one) (24 * dbl_one)"
    by (intro rnd_pos_nonneg) (simp_all add: dbl_one_def)
  moreover have "rnd_pos 0 (24 * dbl_one) = 0"
    using rnd_pos_exact [of 0 "24 * dbl_one"] by (simp add: dbl_one_def dbl_repr_def)
  ultimately have "days_of_duration d \<le> 0"
    using v by (cases "hours_of d = 0")
      (simp_all add: days_of_duration_def dbl_div_def rnd_def c dbl_one_def)
  with True c show ?thesis by (simp add: week_ms_def ms_per_day_def dbl_one_def)
next
  case False
  have one: "0 < dbl_one" by (simp add: dbl_one_def)
  have c: "dbl_of_int 7 = 7 * dbl_one" "dbl_of_int 24 = 24 * dbl_one"
    by (simp_all add: dbl_of_int_exact)
  note h = hours_of_pos [OF _ assms(2)]
  have q: "days_of_duration d = rnd_pos (hours_of d * dbl_one) (24 * dbl_one)"
    using False h(1) c by (simp add: days_of_duration_def dbl_div_pos)
  show ?thesis
  proof (cases "d < week_ms")
    case True
    with False h(3) have "hours_of d \<le> 168 * dbl_one - 2 ^ 98" by (simp add: week_ms_def ms_per_day_def)
    then have "hours_of d \<le> (7 * dbl_one - 2 ^ 93) * 24" by (simp add: dbl_one_def)
    then have "hours_of d * dbl_one \<le> (7 * dbl_one - 2 ^ 93) * (24 * dbl_one)"
      using one mult_right_mono [of "hours_of d" _ dbl_one] by (simp add: mult.assoc)
    moreover have "dbl_repr (7 * dbl_one - 2 ^ 93)"
      using dbl_repr_shift [of "7 * 2 ^ 27 - 1" 93] by (simp add: dbl_one_def)
    ultimately have "days_of_duration d \<le> 7 * dbl_one - 2 ^ 93"
      unfolding q using False h(1) one by (intro rnd_pos_le) (simp_all add: dbl_one_def)
    with True c show ?thesis by simp
  next
    case gt: False
    with h(2) False have "168 * dbl_one \<le> hours_of d" by (simp add: week_ms_def ms_per_day_def)
    then have "7 * dbl_one * (24 * dbl_one) \<le> hours_of d * dbl_one"
      using one mult_right_mono [of "168 * dbl_one" "hours_of d" dbl_one] by (simp add: ac_simps)
    then have "7 * dbl_one \<le> days_of_duration d"
      unfolding q using one dbl_repr_shift [of 7 120] by (intro rnd_pos_ge) (auto simp: dbl_one_def)
    with gt c show ?thesis by simp
  qed
qed

section \<open>The rules, over the integers\<close>

datatype refund_decision = RefundFull | RefundWithFee | RefundDenied

definition completed_in_course :: "database \<Rightarrow> string \<Rightarrow> string \<Rightarrow> int" where
  "completed_in_course d u c = count_rows
     (\<lambda>p. prg_UserID p = u \<and> prg_CourseID p = c \<and> prg_Status p = ProgressRecordsStatusCompleted)
     (t_progress_records d)"

definition lessons_in_course :: "database \<Rightarrow> string \<Rightarrow> int" where
  "lessons_in_course d c = count_rows (lesson_of_course d c) (t_lessons d)"

definition started_in_degree :: "database \<Rightarrow> string \<Rightarrow> string \<Rightarrow> int" where
  "started_in_degree d u g = count_rows
     (\<lambda>p. prg_UserID p = u \<and> course_of_degree d g (prg_CourseID p) \<and>
          prg_Status p \<in> {ProgressRecordsStatusInProgress, ProgressRecordsStatusCompleted})
     (t_progress_records d)"

text \<open>Less than a fifth of the lessons, counted without division.\<close>

definition course_rule :: "int \<Rightarrow> int \<Rightarrow> int \<Rightarrow> refund_decision" where
  "course_rule completed lessons elapsed =
     (if completed = 0 then RefundFull
      else if elapsed < week_ms \<and> (lessons = 0 \<or> 5 * completed < lessons) then RefundWithFee
      else RefundDenied)"

definition refund_rule :: "database \<Rightarrow> Order \<Rightarrow> int \<Rightarrow> refund_decision" where
  "refund_rule d r elapsed =
     (case ord_Type r of
        OrdersTypeCourse \<Rightarrow>
          (case ord_CourseID r of
             None \<Rightarrow> RefundDenied
           | Some c \<Rightarrow>
               course_rule (completed_in_course d (ord_UserID r) c) (lessons_in_course d c) elapsed)
      | OrdersTypeDegree \<Rightarrow>
          (case ord_DegreeID r of
             None \<Rightarrow> RefundDenied
           | Some g \<Rightarrow> if started_in_degree d (ord_UserID r) g = 0 then RefundFull else RefundDenied))"

definition fee_of :: "refund_decision \<Rightarrow> dbl" where
  "fee_of k = (if k = RefundWithFee then fee_rate else 0)"

text \<open>The age of the payment at the second of the two clock readings of the check.\<close>

definition refund_elapsed :: "Order \<Rightarrow> world \<Rightarrow> int" where
  "refund_elapsed r w =
     clock (tick w) - (case ord_PaidAt r of None \<Rightarrow> clock w | Some t \<Rightarrow> t)"

lemma count_rows_nonneg [simp]: "0 \<le> count_rows P rs"
  by (simp add: count_rows_def)

lemma progress_below_fifth:
  assumes "0 \<le> n" "n < 2 ^ 53" "0 \<le> m" "m < 2 ^ 31"
  shows "(if 0 < m then dbl_div (dbl_of_int n) (dbl_of_int m) else 0) < dbl_of_frac 2 10
    \<longleftrightarrow> m = 0 \<or> 5 * n < m"
proof (cases "0 < m")
  case True
  then show ?thesis using ratio_below_fifth [of n m] assms by simp
next
  case False
  have "7205759403792793 * 2 ^ 65 \<le> rnd_pos (2 * dbl_one) 10"
    by (intro rnd_pos_ge dbl_repr_shift) (simp_all add: dbl_one_def)
  then have "0 < dbl_of_frac 2 10" by (simp add: dbl_of_frac_def rnd_def dbl_one_def)
  with False assms show ?thesis by simp
qed

lemma course_verdict_rule:
  assumes "0 \<le> n" "n < 2 ^ 53" "0 \<le> m" "m < 2 ^ 31"
    and "days < dbl_of_int 7 \<longleftrightarrow> elapsed < week_ms"
  shows "\<exists>reason. course_verdict n m days =
    (course_rule n m elapsed \<noteq> RefundDenied, fee_of (course_rule n m elapsed), reason)"
  using progress_below_fifth [OF assms(1-4)] assms(5)
  by (auto simp: course_verdict_def course_rule_def fee_of_def Let_def)

lemma checkRefund_quiet:
  assumes quiet: "script w = []"
    and sane: "- (2 ^ 60) < refund_elapsed r w" "refund_elapsed r w < 2 ^ 60"
      "\<And>c. lessons_in_course (db w) c < 2 ^ 31" "\<And>u c. completed_in_course (db w) u c < 2 ^ 53"
  shows "\<exists>reason. checkRefund r w =
    (Inr (refund_rule (db w) r (refund_elapsed r w) \<noteq> RefundDenied,
          fee_of (refund_rule (db w) r (refund_elapsed r w)), reason), tick (tick w))"
proof -
  have wk: "days_of_duration (refund_elapsed r w) < dbl_of_int 7 \<longleftrightarrow> refund_elapsed r w < week_ms"
    by (rule within_week [OF sane(1,2)])
  show ?thesis
  proof (cases "ord_Type r")
    case OrdersTypeCourse
    show ?thesis
    proof (cases "ord_CourseID r")
      case None
      with OrdersTypeCourse show ?thesis
        by (simp add: checkRefund_def refund_rule_def go_simps fee_of_def)
    next
      case (Some c)
      define n where "n = completed_in_course (db w) (ord_UserID r) c"
      define m where "m = lessons_in_course (db w) c"
      have "checkRefund r w =
          (Inr (course_verdict n m (days_of_duration (refund_elapsed r w))), tick (tick w))"
        using OrdersTypeCourse Some quiet
        by (simp add: checkRefund_def go_simps n_def m_def completed_in_course_def
            lessons_in_course_def refund_elapsed_def Let_def
            q_RefundCountCompletedLessonsForCourse_def q_RefundCountTotalLessonsForCourse_def)
      moreover have "refund_rule (db w) r (refund_elapsed r w) = course_rule n m (refund_elapsed r w)"
        using OrdersTypeCourse Some by (simp add: refund_rule_def n_def m_def)
      moreover have "0 \<le> n" "0 \<le> m" "n < 2 ^ 53" "m < 2 ^ 31"
        using sane(3,4) by (simp_all add: n_def m_def completed_in_course_def lessons_in_course_def)
      ultimately show ?thesis using course_verdict_rule [OF _ _ _ _ wk] by auto
    qed
  next
    case OrdersTypeDegree
    then show ?thesis using quiet
      by (cases "ord_DegreeID r") (simp_all add: checkRefund_def refund_rule_def go_simps fee_of_def
          q_RefundCountStartedDegreeCourses_def started_in_degree_def)
  qed
qed

section \<open>What the refund may do to the database\<close>

text \<open>All its writes but the status flip, which is unguarded, meet the contract by
  themselves; \<open>within_RefundOrder\<close> is for the relations the flip meets too.\<close>

locale refund_writes = order_writes +
  assumes ok_revoke: "stmt_ok R (revoke_where P t)"
    and ok_refund_notify: "within (db_step R) (refundNotifier h u q amount)"
begin

lemma within_checkRefund: "within (db_step R) (checkRefund r)"
  unfolding checkRefund_def Let_def q_RefundCountCompletedLessonsForCourse_def
    q_RefundCountTotalLessonsForCourse_def q_RefundCountStartedDegreeCourses_def
  by (cases "ord_Type r") (simp_all, (intro orders_intros)+)

lemma within_revoke_enrollments: "within (db_step R) (revoke_enrollments r u t)"
  unfolding revoke_enrollments_def sql_revoke_course_def sql_revoke_degree_def
    sql_revoke_degree_courses_def
  by (cases "ord_Type r") (simp_all, (intro orders_intros within_exec [OF ok_revoke])+)

lemma within_RefundOrder:
  assumes "\<And>now. stmt_ok R (sql_mark_refunded oid now)"
  shows "within (db_step R) (RefundOrder h u oid)"
proof -
  have "within (db_step R) (orders_repo_MarkRefunded oid)"
    unfolding orders_repo_MarkRefunded_def by (intro orders_intros within_exec [OF assms])
  then show ?thesis
    unfolding RefundOrder_def settle_refund_def Let_def
    by (intro orders_intros within_checkRefund)
      (auto simp: split_beta intro!: orders_intros within_revoke_enrollments ok_refund_notify)
qed

end

end
