(* ===== verification/OrderLife.thy ===== *)
theory OrderLife
  imports Refund
begin

text \<open>
  The life of an order.  \<open>ord_next\<close> is the abstract state machine: a pending order may be
  paid or expire, a paid one may be refunded, and nothing else happens; who ordered what for
  which price never changes, and the payment data never change once the order is paid.
  Every operation of the orders service refines it, statement by statement, while other
  requests interfere and the connection fails, as long as the interference obeys the same
  machine.  For the refund, whose \<open>UPDATE\<close> has no guard on the status, this needs the
  stability of "already paid": the proof is in the logic \<open>rg\<close>.
\<close>

section \<open>The machine\<close>

fun status_next :: "OrdersStatus \<Rightarrow> OrdersStatus \<Rightarrow> bool" where
  "status_next OrdersStatusPending t = (t \<noteq> OrdersStatusFailed)"
| "status_next OrdersStatusPaid t = (t = OrdersStatusPaid \<or> t = OrdersStatusRefunded)"
| "status_next s t = (t = s)"

definition was_paid :: "OrdersStatus \<Rightarrow> bool" where
  "was_paid s \<longleftrightarrow> s = OrdersStatusPaid \<or> s = OrdersStatusRefunded"

definition ord_next :: "Order \<Rightarrow> Order \<Rightarrow> bool" where
  "ord_next r r' \<longleftrightarrow>
     (ord_ID r', ord_UserID r', ord_Type r', ord_CourseID r', ord_DegreeID r', ord_Amount r',
      ord_Currency r', ord_CreatedAt r')
     = (ord_ID r, ord_UserID r, ord_Type r, ord_CourseID r, ord_DegreeID r, ord_Amount r,
        ord_Currency r, ord_CreatedAt r) \<and>
     status_next (ord_Status r) (ord_Status r') \<and>
     (was_paid (ord_Status r) \<longrightarrow>
        (ord_PaidAt r', ord_TransactionID r', ord_PaymentMethod r')
        = (ord_PaidAt r, ord_TransactionID r, ord_PaymentMethod r)) \<and>
     (\<not> was_paid (ord_Status r) \<and> was_paid (ord_Status r') \<longrightarrow>
        ord_PaidAt r' \<noteq> None \<and> ord_TransactionID r' \<noteq> None)"

abbreviation evolves :: "Order list \<Rightarrow> Order list \<Rightarrow> bool" where
  "evolves \<equiv> evolve ord_next"

abbreviation ord_keys :: "database \<Rightarrow> bool" where
  "ord_keys d \<equiv> no_conflicts ord_conflict (t_orders d)"

definition order_life :: "database \<Rightarrow> database \<Rightarrow> bool" where
  "order_life d d' \<longleftrightarrow> (ord_keys d \<longrightarrow> ord_keys d' \<and> evolves (t_orders d) (t_orders d'))"

lemma status_next_refl: "status_next s s"
  by (cases s) auto

lemma status_next_trans: "status_next s t \<Longrightarrow> status_next t u \<Longrightarrow> status_next s u"
  by (cases s; cases t) auto

lemma was_paid_mono: "was_paid s \<Longrightarrow> status_next s t \<Longrightarrow> was_paid t"
  by (cases s) (auto simp: was_paid_def)

lemma ord_next_refl: "ord_next r r"
  by (simp add: ord_next_def status_next_refl)

lemma ord_next_trans: "ord_next r s \<Longrightarrow> ord_next s t \<Longrightarrow> ord_next r t"
  unfolding ord_next_def by (auto intro: status_next_trans dest: was_paid_mono)

interpretation order_rows: row_life ord_next
  by unfold_locales (rule ord_next_refl, rule ord_next_trans)

interpretation life: db_frame order_life
  by unfold_locales (auto simp: order_life_def order_rows.evolve_refl intro: order_rows.evolve_trans)

section \<open>The statements refine it\<close>

lemma ord_keys_upd:
  assumes "\<And>r. ord_ID (f r) = ord_ID r"
  shows "no_conflicts ord_conflict (upd P f rs) = no_conflicts ord_conflict rs"
  by (rule no_conflicts_upd) (simp add: ord_conflict_def assms)

lemma life_other_table:
  "(\<And>d x d'. f d = Inr (x, d') \<Longrightarrow> t_orders d' = t_orders d) \<Longrightarrow> stmt_ok order_life f"
  by (simp add: stmt_ok_def order_life_def order_rows.evolve_refl)

lemma life_statements:
  "stmt_ok order_life (insert_order r)"
  "stmt_ok order_life (sql_mark_paid oid txn pm now)"
  "stmt_ok order_life (sql_cancel_order oid now)"
  "stmt_ok order_life (insert_enrollment en)"
  "stmt_ok order_life (sql_enr_revive x now src eid)"
  "stmt_ok order_life (insert_audit_log a)"
  "stmt_ok order_life (revoke_where P t)"
proof -
  show "stmt_ok order_life (insert_order r)"
    by (simp add: stmt_ok_def order_life_def insert_order_def order_rows.evolve_append
        no_conflicts_append [OF _ conflict_sym(2)])
  show "stmt_ok order_life (sql_mark_paid oid txn pm now)"
    by (auto simp: stmt_ok_def order_life_def sql_mark_paid_def paid_row_def ord_keys_upd
        payable_def ord_next_def was_paid_def intro!: order_rows.evolve_upd)
  show "stmt_ok order_life (sql_cancel_order oid now)"
    by (auto simp: stmt_ok_def order_life_def sql_cancel_order_def ord_keys_upd payable_def
        ord_next_def was_paid_def Let_def intro!: order_rows.evolve_upd)
qed (rule life_other_table,
     auto simp: insert_enrollment_def sql_enr_revive_def insert_audit_log_def revoke_where_def
       split: if_splits)+

text \<open>Hooks that leave the orders to their machine: the default ones do, and the wiring
  proves it for the real ones.\<close>

definition hooks_ok :: "(database \<Rightarrow> database \<Rightarrow> bool) \<Rightarrow> order_hooks \<Rightarrow> bool" where
  "hooks_ok R h \<longleftrightarrow>
     (\<forall>u t x. within (db_step R) (IssueCertificateOnPaid h u t x)) \<and>
     (\<forall>u q a. within (db_step R) (NotifyOrderCreated h u q a)) \<and>
     (\<forall>u q a. within (db_step R) (refundNotifier h u q a))"

lemma default_hooks_ok: "db_frame R \<Longrightarrow> hooks_ok R default_hooks"
  by (simp add: hooks_ok_def default_hooks_def within_def ret_def db_step_def db_frame.db_refl)

lemma order_writes_life: "hooks_ok order_life h \<Longrightarrow> refund_writes order_life h"
  by unfold_locales (auto simp: hooks_ok_def intro: life_statements)

interpretation default_life: refund_writes order_life default_hooks
  by (rule order_writes_life) (rule default_hooks_ok, rule life.db_frame_axioms)

section \<open>The refund\<close>

text \<open>Once an order is paid it stays paid or refunded, whoever interferes.\<close>

definition paid_order :: "string \<Rightarrow> database \<Rightarrow> bool" where
  "paid_order oid d \<longleftrightarrow> ord_keys d \<and> (\<exists>r \<in> set (t_orders d). ord_ID r = oid \<and> was_paid (ord_Status r))"

lemma stable_keys: "stable order_life ord_keys"
  by (simp add: stable_def order_life_def)

lemma stable_paid: "stable order_life (paid_order oid)"
proof -
  have "paid_order oid d'" if p: "paid_order oid d" and l: "order_life d d'" for d d'
  proof -
    from p obtain r where r: "r \<in> set (t_orders d)" "ord_ID r = oid" "was_paid (ord_Status r)"
      and k: "ord_keys d" by (auto simp: paid_order_def)
    with l have "ord_keys d'" "evolves (t_orders d) (t_orders d')" by (auto simp: order_life_def)
    with order_rows.evolve_row [OF _ r(1)] obtain r' where "r' \<in> set (t_orders d')" "ord_next r r'" by blast
    with r \<open>ord_keys d'\<close> show ?thesis
      unfolding paid_order_def ord_next_def by (metis prod.inject was_paid_mono)
  qed
  then show ?thesis by (auto simp: stable_def)
qed

lemma paid_order_all:
  assumes "paid_order oid d" "r \<in> set (t_orders d)" "ord_ID r = oid"
  shows "was_paid (ord_Status r)"
proof -
  from assms(1) obtain x where x: "x \<in> set (t_orders d)" "ord_ID x = oid" "was_paid (ord_Status x)"
    and k: "ord_keys d" by (auto simp: paid_order_def)
  have "r = x"
    using no_conflicts_unique [OF k conflict_sym(2) assms(2) x(1)] assms(3) x(2)
    by (auto simp: ord_conflict_def)
  with x show ?thesis by simp
qed

lemma refunded_next:
  "was_paid (ord_Status r) \<Longrightarrow>
   ord_next r (r\<lparr>ord_Status := OrdersStatusRefunded, ord_UpdatedAt := now\<rparr>)"
  by (auto simp: ord_next_def was_paid_def)

lemma rg_mark_refunded:
  "rg order_life (paid_order oid) (exec (sql_mark_refunded oid now)) (\<lambda>_. paid_order oid)"
proof (rule life.rg_exec)
  show "stable order_life (paid_order oid)" by (rule stable_paid)
  show "paid_order oid d" if "paid_order oid d" for d by (rule that)
  fix d x d'
  assume p: "paid_order oid d" and d': "sql_mark_refunded oid now d = Inr (x, d')"
  have "evolves (t_orders d) (t_orders d')"
    using d' paid_order_all [OF p]
    by (auto simp: sql_mark_refunded_def intro!: order_rows.evolve_upd refunded_next)
  moreover have "ord_keys d'"
    using d' p by (auto simp: sql_mark_refunded_def ord_keys_upd paid_order_def)
  ultimately have "order_life d d'" by (simp add: order_life_def)
  with p stable_paid show "order_life d d' \<and> paid_order oid d'" by (auto simp: stable_def)
qed

lemma rg_get_order:
  "rg order_life ord_keys (orders_repo_GetByID oid)
     (\<lambda>x d. ord_keys d \<and> (\<forall>r. x = Inr r \<and> ord_Status r = OrdersStatusPaid \<longrightarrow> paid_order oid d))"
proof -
  have "rg order_life ord_keys (q_GetOrderByID oid)
     (\<lambda>x d. ord_keys d \<and> (\<forall>r. x = Inr r \<longrightarrow> ord_Status r = OrdersStatusPaid \<longrightarrow> paid_order oid d))"
    unfolding q_GetOrderByID_def query_one_def
    by (rule life.rg_exec [OF stable_keys])
      (auto simp: life.db_refl order_by_id_def paid_order_def was_paid_def dest: first_row_Some
        split: option.splits)
  then show ?thesis
    unfolding orders_repo_GetByID_def
    by (rule life.rg_call) (auto intro!: life.rg_ret life.rg_fail)
qed

lemma rg_pre: "rg R P m Q \<Longrightarrow> (\<And>d. P' d \<Longrightarrow> P d) \<Longrightarrow> rg R P' m Q"
  by (rule rg_conseq)

lemma rg_refund:
  assumes hooks: "hooks_ok order_life h"
  shows "rg order_life ord_keys (RefundOrder h u oid) (\<lambda>_ _. True)"
proof -
  note rw = order_writes_life [OF hooks]
  have ow: "order_writes order_life h" using rw by (simp add: refund_writes_def)
  have keep: "rg order_life (paid_order oid) m (\<lambda>_. paid_order oid)"
    if "within (db_step order_life) m" for m :: "'x io"
    using life.rg_of_within [OF that stable_paid] .
  have flip: "rg order_life (paid_order oid) (orders_repo_MarkRefunded oid) (\<lambda>_. paid_order oid)"
    unfolding orders_repo_MarkRefunded_def bind_def
    by (intro life.rg_call [OF keep [OF life.within_pure(1)]] life.rg_call [OF rg_mark_refunded])
      (auto intro!: life.rg_ret life.rg_fail)
  have settle: "rg order_life (paid_order oid) (settle_refund h u oid r fee) (\<lambda>_ _. True)" for r fee
    unfolding settle_refund_def Let_def bind_def ignoring_def
    by (intro life.rg_call [OF keep [OF life.within_pure(1)]] life.rg_call [OF flip]
          life.rg_call [OF keep [OF refund_writes.within_revoke_enrollments [OF rw]]]
          life.rg_call [OF keep [OF order_writes.within_orders_writes(5) [OF ow]]]
          life.rg_call [OF keep [OF refund_writes.ok_refund_notify [OF rw]]] life.rg_ret life.rg_fail TrueI)
  have approved: "rg order_life (paid_order oid)
      (call (checkRefund r) (\<lambda>e. fail (Internal ''refund check'' e)) (\<lambda>(allowed, fee, reason).
         if \<not> allowed then fail (BadRequest reason) else settle_refund h u oid r fee)) (\<lambda>_ _. True)" for r
    by (rule life.rg_call [OF keep [OF refund_writes.within_checkRefund [OF rw]]])
      (auto intro!: life.rg_fail settle split: prod.splits)
  show ?thesis
    unfolding RefundOrder_def
  proof (rule life.rg_call [OF rg_get_order], goal_cases)
    case (1 e)
    show ?case by (auto intro!: life.rg_fail)
  next
    case (2 r)
    show ?case
      by (intro life.rg_if life.rg_fail TrueI rg_pre [OF approved]) auto
  qed
qed

end
