(* ===== verification/Demo.thy ===== *)
theory Demo
  imports Store
begin

text \<open>
  A small concrete school for the closed instances of the theorems: two users, a free and a
  paid course with a chapter of lessons each, a degree, and the worlds that run on it.
\<close>

definition demo_user :: "string \<Rightarrow> User" where
  "demo_user u = \<lparr> usr_ID = u, usr_Email = u @ ''@x.io'', usr_PasswordHash = ''h'', usr_Name = u,
     usr_Role = ''student'', usr_AvatarUrl = None, usr_PasswordResetRequired = False,
     usr_Points = 0, usr_Level = 1, usr_DeletedAt = None, usr_CreatedAt = 0, usr_UpdatedAt = 0,
     usr_LastLoginAt = None \<rparr>"

definition demo_course :: "string \<Rightarrow> CoursesCostType \<Rightarrow> Course" where
  "demo_course c k = \<lparr> crs_ID = c, crs_Title = c, crs_Description = [], crs_LearningPoints = [],
     crs_Instructor = [], crs_Level = ''Beginner'', crs_Duration = [], crs_Thumbnail = [],
     crs_Tags = [], crs_CostType = k, crs_Price = ''99.00'', crs_Status = ''published'',
     crs_CourseType = ''own'', crs_ExternalUrl = None, crs_SourceVideoUrl = None,
     crs_SourcePlatform = None, crs_CreatedAt = 0, crs_UpdatedAt = 0, crs_IndustryID = None,
     crs_CategoryID = None \<rparr>"

definition demo_degree :: "string \<Rightarrow> NanoDegree" where
  "demo_degree g = \<lparr> deg_ID = g, deg_Title = g, deg_Description = [], deg_LearningPoints = [],
     deg_Price = ''499.00'', deg_Icon = ''sparkles'', deg_CostType = NanoDegreesCostTypePaid,
     deg_Thumbnail = None, deg_Status = ''published'', deg_CreatedAt = 0, deg_UpdatedAt = 0 \<rparr>"

definition demo_chapter :: "string \<Rightarrow> string \<Rightarrow> Chapter" where
  "demo_chapter ch c = \<lparr> chp_ID = ch, chp_CourseID = c, chp_Title = [], chp_Description = None,
     chp_OrderIndex = 0, chp_CreatedAt = 0, chp_DeletedAt = None \<rparr>"

definition demo_lesson :: "string \<Rightarrow> string \<Rightarrow> Lesson" where
  "demo_lesson l ch = \<lparr> lsn_ID = l, lsn_ChapterID = ch, lsn_Title = [], lsn_Description = None,
     lsn_VideoUrl = None, lsn_VideoDuration = None, lsn_OrderIndex = 0, lsn_IsPreview = False,
     lsn_CreatedAt = 0, lsn_DeletedAt = None \<rparr>"

definition demo_order :: "string \<Rightarrow> OrdersStatus \<Rightarrow> Order" where
  "demo_order oid st = \<lparr> ord_ID = oid, ord_UserID = ''u1'', ord_Type = OrdersTypeCourse,
     ord_CourseID = Some ''paid'', ord_DegreeID = None, ord_Amount = ''99.00'',
     ord_Currency = ''CNY'', ord_Status = st, ord_PaymentMethod = Some ''alipay'',
     ord_TransactionID = (if st = OrdersStatusPaid then Some ''mock_0'' else None),
     ord_PaidAt = (if st = OrdersStatusPaid then Some 0 else None),
     ord_DeletedAt = None, ord_CreatedAt = 0, ord_UpdatedAt = 0 \<rparr>"

definition demo_enrollment :: "string \<Rightarrow> string \<Rightarrow> string \<Rightarrow> Enrollment" where
  "demo_enrollment eid c src = \<lparr> enr_ID = eid, enr_UserID = ''u1'', enr_CourseID = Some c,
     enr_DegreeID = None, enr_EnrolledAt = 0, enr_ExpiresAt = None, enr_Source = src,
     enr_DeletedAt = None \<rparr>"

definition demo_database :: "Order list \<Rightarrow> Enrollment list \<Rightarrow> database" where
  "demo_database os es = empty_database\<lparr>
     t_users := [demo_user ''u1'', demo_user ''u2''],
     t_courses := [demo_course ''free'' CoursesCostTypeFree, demo_course ''paid'' CoursesCostTypePaid],
     t_nano_degrees := [demo_degree ''deg''],
     t_chapters := [demo_chapter ''ch'' ''paid''],
     t_lessons := [demo_lesson ''l1'' ''ch'', demo_lesson ''l2'' ''ch''],
     t_orders := os, t_enrollments := es\<rparr>"

definition demo_uuid :: "nat \<Rightarrow> string" where
  "demo_uuid n = ''id'' @ show_nat n"

definition demo_world :: "database \<Rightarrow> world" where
  "demo_world d = \<lparr> db = d, clock = 1000, ticks = [1, 1, 1], script = [], uuid_src = demo_uuid,
     uuid_ix = 0, rnd_src = (\<lambda>_ n. Some (replicate n CHR 0x2A)), rnd_ix = 0, spawned = [] \<rparr>"

lemmas demo_defs = demo_user_def demo_course_def demo_degree_def demo_chapter_def demo_lesson_def
  demo_order_def demo_enrollment_def demo_database_def demo_uuid_def demo_world_def
  empty_database_def

lemma demo_order_simps [simp]:
  "ord_ID (demo_order oid st) = oid" "ord_UserID (demo_order oid st) = ''u1''"
  "ord_Type (demo_order oid st) = OrdersTypeCourse" "ord_CourseID (demo_order oid st) = Some ''paid''"
  "ord_Status (demo_order oid st) = st" "ord_Amount (demo_order oid st) = ''99.00''"
  by (simp_all add: demo_order_def)

lemma demo_uuid_inject [simp]: "demo_uuid m = demo_uuid n \<longleftrightarrow> m = n"
  by (simp add: demo_uuid_def show_nat_inject)

end
