(* ===== verification/OrderResults.thy ===== *)
theory OrderResults
  imports OrderLife Demo
begin

text \<open>
  What the orders service achieves: the machine of \<open>OrderLife\<close> for all its operations, a
  payment that succeeds at most once, and, in an undisturbed run, the exact outcome of
  free enrolment, order creation, payment and refund.
\<close>

section \<open>Undisturbed runs\<close>

definition active :: "database \<Rightarrow> string \<Rightarrow> string \<Rightarrow> Enrollment \<Rightarrow> bool" where
  "active d u c e \<longleftrightarrow> e \<in> set (t_enrollments d) \<and> enr_UserID e = u \<and> enr_CourseID e = Some c \<and>
     enr_DeletedAt e = None"

definition fresh_ids :: "world \<Rightarrow> bool" where
  "fresh_ids w \<longleftrightarrow>
     (\<forall>i j. uuid_src w i = uuid_src w j \<longrightarrow> i = j) \<and>
     (\<forall>i \<ge> uuid_ix w.
        uuid_src w i \<notin> enr_ID ` set (t_enrollments (db w)) \<and>
        uuid_src w i \<notin> ord_ID ` set (t_orders (db w)) \<and>
        uuid_src w i \<notin> aud_ID ` set (t_audit_logs (db w)) \<and>
        uuid_src w i \<notin> crt_ID ` set (t_certificates (db w)))"

text \<open>Upserting a course enrollment leaves an active row for the pair.\<close>

lemma upsert_course_quiet:
  assumes "script w = []" "c \<noteq> []" "user_exists (db w) u" "course_exists (db w) c" "fresh_ids w"
  shows "\<exists>e es. fst (orders_repo_UpsertEnrollment u c [] src w) = Inr () \<and>
     db (snd (orders_repo_UpsertEnrollment u c [] src w)) = (db w)\<lparr>t_enrollments := es\<rparr> \<and>
     active ((db w)\<lparr>t_enrollments := es\<rparr>) u c e \<and> enr_Source e = src"
proof (cases "first_row (\<lambda>e. enr_UserID e = u \<and> enr_CourseID e = Some c) (t_enrollments (db w))")
  case None
  let ?row = "upserted_row (uuid_src w (uuid_ix w)) u c [] (clock w) src"
  have free: "\<not> list_ex (enr_conflict ?row) (t_enrollments (db w))"
    using assms(2,5) None
    by (auto simp: first_row_None list_ex_iff enr_conflict_def fresh_ids_def upserted_row_def)
  have "orders_repo_UpsertEnrollment u c [] src w =
      (Inr (), (tick w)\<lparr>uuid_ix := Suc (uuid_ix w),
         db := (db w)\<lparr>t_enrollments := t_enrollments (db w) @ [?row]\<rparr>\<rparr>)"
    using assms(1-4) None free
    by (simp add: orders_repo_UpsertEnrollment_def go_simps enr_of_course_def insert_enrollment_def)
      (simp add: upserted_row_def)
  moreover have "enr_UserID ?row = u" "enr_CourseID ?row = Some c" "enr_DeletedAt ?row = None"
    "enr_Source ?row = src" using assms(2) by (simp_all add: upserted_row_def)
  ultimately show ?thesis
    by (intro exI [of _ ?row] exI [of _ "t_enrollments (db w) @ [?row]"]) (simp add: active_def)
next
  case (Some e)
  define e' where "e' = e\<lparr>enr_DeletedAt := None, enr_ExpiresAt := None, enr_EnrolledAt := clock w,
      enr_Source := src\<rparr>"
  from first_row_Some [OF Some] have "e \<in> set (t_enrollments (db w))"
    "enr_UserID e' = u" "enr_CourseID e' = Some c" "enr_DeletedAt e' = None" "enr_Source e' = src"
    by (simp_all add: e'_def)
  moreover from this(1) have
    "e' \<in> set (upd (\<lambda>x. enr_ID x = enr_ID e) (\<lambda>e. e\<lparr>enr_DeletedAt := None, enr_ExpiresAt := None,
        enr_EnrolledAt := clock w, enr_Source := src\<rparr>) (t_enrollments (db w)))"
    by (auto simp: set_upd e'_def)
  ultimately show ?thesis
    using assms(1,2) Some
    by (intro exI [of _ e'] exI) (auto simp: orders_repo_UpsertEnrollment_def go_simps
        enr_of_course_def sql_enr_revive_def active_def)
qed

text \<open>Every relation, even the full one, is a frame: the script only ever shrinks.\<close>

interpretation anything: refund_writes "\<lambda>_ _. True" default_hooks
  by unfold_locales (auto simp: stmt_ok_def default_hooks_def within_def db_step_def ret_def)

lemma writeAudit_quiet:
  assumes "script w = []"
  shows "\<exists>as. fst (orders_writeAudit action q u w) = Inr () \<and>
    db (snd (orders_writeAudit action q u w)) = (db w)\<lparr>t_audit_logs := as\<rparr> \<and>
    script (snd (orders_writeAudit action q u w)) = []"
  using assms
  by (auto simp: orders_writeAudit_def go_simps insert_audit_log_def order_audit_row_def)
    (rule exI [of _ "t_audit_logs (db w)"], simp)

lemma toOrderWithRefs_quiet:
  assumes "script w = []"
  shows "\<exists>x. toOrderWithRefs r w = (Inr x, w) \<and> owr_Order x = toOrderDTO r"
  using assms
  by (auto simp: toOrderWithRefs_def go_simps orders_repo_GetCourseForOrder_def
      orders_repo_GetDegreeForOrder_def q_GetCourseForOrder_def q_GetDegreeForOrder_def
      split: option.splits)

lemma GetByID_quiet:
  assumes "script w = []"
  shows "orders_repo_GetByID oid w =
    (case order_by_id oid (db w) of None \<Rightarrow> (Inl orders_ErrNotFound, w) | Some r \<Rightarrow> (Inr r, w))"
  using assms by (simp add: orders_repo_GetByID_def q_GetOrderByID_def go_simps split: option.splits)

lemma MarkPaid_quiet:
  assumes "script w = []"
  shows "orders_repo_MarkPaid oid txn pm w =
    (Inr (changed (payable oid) (paid_row (clock w) txn pm) (t_orders (db w))),
     (tick w)\<lparr>db := (db w)\<lparr>t_orders :=
        upd (payable oid) (paid_row (clock w) txn pm) (t_orders (db w))\<rparr>\<rparr>)"
  using assms by (simp add: orders_repo_MarkPaid_def go_simps sql_mark_paid_def)

lemma randomHex_quiet:
  "\<exists>hx. randomHex n w = (Inr hx, w\<lparr>rnd_ix := Suc (rnd_ix w)\<rparr>)"
  by (cases "rnd_src w (rnd_ix w) n") (simp_all add: randomHex_def go_simps)

lemma order_by_id_upd:
  assumes "\<And>r. ord_ID (f r) = ord_ID r" "order_by_id oid d = Some r"
  shows "order_by_id oid (d\<lparr>t_orders := upd P f (t_orders d)\<rparr>) = Some (if P r then f r else r)"
  using first_row_upd [of P "\<lambda>r. ord_ID r = oid" f "t_orders d"] assms by (simp add: order_by_id_def)

lemma order_by_id_frame [simp]:
  "order_by_id oid (d\<lparr>t_enrollments := es\<rparr>) = order_by_id oid d"
  "order_by_id oid (d\<lparr>t_audit_logs := as\<rparr>) = order_by_id oid d"
  by (simp_all add: order_by_id_def)

lemma active_frame [simp]:
  "active (d\<lparr>t_orders := os\<rparr>) u c e = active d u c e"
  "active (d\<lparr>t_audit_logs := as\<rparr>) u c e = active d u c e"
  by (simp_all add: active_def)

section \<open>Payment\<close>

lemma mockpay_quiet:
  assumes "script w = []" "fresh_ids w" "order_by_id oid (db w) = Some r" "ord_UserID r = u"
    "ord_Status r = OrdersStatusPending" "ord_CourseID r = Some c" "c \<noteq> []"
    "user_exists (db w) u" "course_exists (db w) c"
  shows "\<exists>x w' r' e. orders_MockPay h u oid pm w = (Inr x, w') \<and> odto_Status (owr_Order x) = ''paid'' \<and>
    order_by_id oid (db w') = Some r' \<and> ord_Status r' = OrdersStatusPaid \<and>
    ord_PaidAt r' = Some (clock w) \<and> ord_PaymentMethod r' = Some (pay_method pm) \<and>
    active (db w') u c e \<and> enr_Source e = ''order''"
proof -
  obtain hx where hx: "randomHex 8 w = (Inr hx, w\<lparr>rnd_ix := Suc (rnd_ix w)\<rparr>)"
    using randomHex_quiet by blast
  define f where "f = paid_row (clock w) (''mock_'' @ hx) (pay_method pm)"
  define w1 where "w1 = (tick (w\<lparr>rnd_ix := Suc (rnd_ix w)\<rparr>))\<lparr>db := (db w)\<lparr>t_orders :=
      upd (payable oid) f (t_orders (db w))\<rparr>\<rparr>"
  have r: "r \<in> set (t_orders (db w))" "ord_ID r = oid"
    using first_row_Some assms(3) by (fastforce simp: order_by_id_def)+
  have n: "changed (payable oid) f (t_orders (db w)) \<noteq> 0"
  proof
    assume "changed (payable oid) f (t_orders (db w)) = 0"
    then have "\<not> (payable oid r \<and> f r \<noteq> r)"
      using r by (auto simp: changed_def filter_empty_conv)
    moreover have "ord_Status (f r) = OrdersStatusPaid" by (simp add: f_def paid_row_def)
    then have "f r \<noteq> r" using assms(5) by auto
    ultimately show False using r assms(5) by (simp add: payable_def)
  qed
  have mp: "orders_repo_MarkPaid oid (''mock_'' @ hx) (pay_method pm) (w\<lparr>rnd_ix := Suc (rnd_ix w)\<rparr>) =
      (Inr (changed (payable oid) f (t_orders (db w))), w1)"
    using assms(1) by (subst MarkPaid_quiet) (simp_all add: f_def w1_def)
  have q1: "script w1 = []" using assms(1) by (simp add: w1_def)
  have "\<exists>e es. fst (orders_repo_UpsertEnrollment u c [] ''order'' w1) = Inr () \<and>
     db (snd (orders_repo_UpsertEnrollment u c [] ''order'' w1)) = (db w1)\<lparr>t_enrollments := es\<rparr> \<and>
     active ((db w1)\<lparr>t_enrollments := es\<rparr>) u c e \<and> enr_Source e = ''order''"
    using assms(2,7-9) q1 
    by (intro upsert_course_quiet) (auto simp: w1_def user_exists_def course_exists_def fresh_ids_def set_upd f_def paid_row_def image_Un image_image)
  then obtain w2 e es where w2: "orders_repo_UpsertEnrollment u c [] ''order'' w1 = (Inr (), w2)"
    "db w2 = (db w1)\<lparr>t_enrollments := es\<rparr>" "active (db w2) u c e" "enr_Source e = ''order''"
    by (metis prod.collapse)
  have q2: "script w2 = []" using quiet_script [OF anything.within_orders_writes(4) q1] w2(1) by (metis snd_conv)
  obtain w3 as where w3: "orders_writeAudit ''order.pay'' oid u w2 = (Inr (), w3)"
    "db w3 = (db w2)\<lparr>t_audit_logs := as\<rparr>" "script w3 = []"
    using writeAudit_quiet [OF q2] by (metis prod.collapse)
  have o3: "order_by_id oid (db w3) = Some (f r)"
    using order_by_id_upd [of f oid "db w" r "payable oid"] assms(3,5) r
    by (simp add: w3 w2 w1_def payable_def f_def paid_row_def)
  obtain x where x: "toOrderWithRefs (f r) w3 = (Inr x, w3)" "owr_Order x = toOrderDTO (f r)"
    using toOrderWithRefs_quiet [OF w3(3)] by blast
  have "orders_MockPay h u oid pm w = (Inr x, w3)"
    unfolding orders_MockPay_def finish_payment_def
    using assms(1,3-7) hx n mp w2(1) w3(1,3) o3 x(1)
    by (simp add: go_simps GetByID_quiet Let_def)
  moreover have "odto_Status (owr_Order x) = ''paid''" "ord_Status (f r) = OrdersStatusPaid"
    "ord_PaidAt (f r) = Some (clock w)" "ord_PaymentMethod (f r) = Some (pay_method pm)"
    by (simp_all add: x(2) toOrderDTO_def f_def paid_row_def)
  moreover have "active (db w3) u c e" using w2(3) by (simp add: w3)
  ultimately show ?thesis using o3 w2(4) by blast
qed

text \<open>Paying the caller's own pending course order in an undisturbed run succeeds, returns
  the order as paid, records the payment on the row and leaves the caller with an active
  enrollment of the course whose source is the order.\<close>

theorem mockpay_enrolls:
  assumes "script w = []" "fresh_ids w" "order_by_id oid (db w) = Some r" "ord_UserID r = u"
    "ord_Status r = OrdersStatusPending" "ord_CourseID r = Some c" "c \<noteq> []"
    "user_exists (db w) u" "course_exists (db w) c"
  shows "\<exists>x w' r' e. orders_MockPay h u oid pm w = (Inr x, w') \<and> odto_Status (owr_Order x) = ''paid'' \<and>
    order_by_id oid (db w') = Some r' \<and> ord_Status r' = OrdersStatusPaid \<and>
    ord_PaidAt r' = Some (clock w) \<and> ord_PaymentMethod r' = Some (pay_method pm) \<and>
    active (db w') u c e \<and> enr_Source e = ''order''"
  using assms by (rule mockpay_quiet)

definition pending_world :: world where
  "pending_world = demo_world (demo_database [demo_order ''o1'' OrdersStatusPending] [])"

lemma pending_world_facts:
  "script pending_world = []" "fresh_ids pending_world" "clock pending_world = 1000"
  "order_by_id ''o1'' (db pending_world) = Some (demo_order ''o1'' OrdersStatusPending)"
  "user_exists (db pending_world) ''u1''" "course_exists (db pending_world) ''paid''"
  "ord_keys (db pending_world)"
  by (simp_all add: pending_world_def demo_database_def demo_world_def fresh_ids_def order_by_id_def
      user_exists_def course_exists_def demo_user_def demo_course_def demo_order_def
      empty_database_def no_conflicts_def) (simp_all add: demo_uuid_def)

theorem mockpay_enrolls_witness:
  "\<exists>x w'. orders_MockPay default_hooks ''u1'' ''o1'' ''stripe'' pending_world = (Inr x, w') \<and>
     odto_Status (owr_Order x) = ''paid''"
  using mockpay_enrolls [OF pending_world_facts(1,2,4) _ _ _ _ pending_world_facts(5,6),
      where h = default_hooks and pm = "''stripe''"]
  by auto

section \<open>The machine, for every operation\<close>

text \<open>C1: whatever other requests do to the orders within their state machine and wherever the
  connection fails, creating, paying, cancelling and refunding an order move every stored
  order along the machine (pending to paid or expired, paid to refunded, contents and
  payment data fixed) and keep the order ids unique.\<close>

theorem orders_follow_machine:
  assumes "hooks_ok order_life h" "rely_ok order_life w" "ord_keys (db w)"
  shows "(ord_keys (db (snd (orders_Create h u i w))) \<and>
      evolves (t_orders (db w)) (t_orders (db (snd (orders_Create h u i w))))) \<and>
    (ord_keys (db (snd (orders_MockPay h u oid pm w))) \<and>
      evolves (t_orders (db w)) (t_orders (db (snd (orders_MockPay h u oid pm w))))) \<and>
    (ord_keys (db (snd (orders_Cancel u oid w))) \<and>
      evolves (t_orders (db w)) (t_orders (db (snd (orders_Cancel u oid w))))) \<and>
    (ord_keys (db (snd (RefundOrder h u oid w))) \<and>
      evolves (t_orders (db w)) (t_orders (db (snd (RefundOrder h u oid w)))))"
proof -
  have step: "order_life (db w) (db (snd (m w)))" if "within (db_step order_life) m" for m :: "'x io"
    using that assms(2) db_step_rely by (auto simp: within_def)
  note ow = order_writes_life [OF assms(1), unfolded refund_writes_def, THEN conjunct1]
  have "order_life (db w) (db (snd (RefundOrder h u oid w)))"
    using rg_refund [OF assms(1)] assms(2,3) db_step_rely unfolding rg_def by blast
  moreover note step [OF order_writes.within_orders_Create [OF ow]]
    step [OF order_writes.within_orders_MockPay [OF ow]]
    step [OF order_writes.within_orders_Cancel [OF ow]]
  ultimately show ?thesis using assms(3) by (simp add: order_life_def)
qed

text \<open>A refund whose connection drops after the status flip, while another request cancels
  the caller's pending order.\<close>

definition racing_world :: world where
  "racing_world = (demo_world (demo_database
      [demo_order ''o1'' OrdersStatusPending, demo_order ''o2'' OrdersStatusPaid]
      [demo_enrollment ''e1'' ''paid'' ''order'']))
    \<lparr>script := [(Fine, \<lambda>d. d),
       (Unacked, \<lambda>d. d\<lparr>t_orders := upd (payable ''o1'')
          (\<lambda>r. r\<lparr>ord_Status := OrdersStatusExpired, ord_UpdatedAt := 7\<rparr>) (t_orders d)\<rparr>)]\<rparr>"

lemma racing_rely: "rely_ok order_life racing_world"
  using life_statements(3) [of "''o1''" 7]
  by (simp add: rely_ok_def racing_world_def life.db_refl stmt_ok_def sql_cancel_order_def Let_def)

lemma racing_keys: "ord_keys (db racing_world)"
  by (simp add: racing_world_def demo_defs no_conflicts_def ord_conflict_def)

theorem orders_follow_machine_witness:
  "evolves (t_orders (db racing_world))
     (t_orders (db (snd (RefundOrder default_hooks ''u1'' ''o2'' racing_world))))"
  using orders_follow_machine [OF default_hooks_ok [OF life.db_frame_axioms] racing_rely racing_keys]
  by blast

section \<open>An order is paid at most once\<close>

lemma rg_paid_reject:
  "rg order_life (paid_order oid) (orders_MockPay h u oid pm) (\<lambda>x _. \<exists>e. x = Inl e)"
proof -
  have get: "rg order_life (paid_order oid) (orders_repo_GetByID oid)
      (\<lambda>x d. \<forall>r. x = Inr r \<longrightarrow> was_paid (ord_Status r))"
    unfolding orders_repo_GetByID_def q_GetOrderByID_def query_one_def
    by (rule life.rg_call, rule life.rg_exec [OF stable_paid,
          where Q = "\<lambda>x d. \<forall>r. x = Inr r \<longrightarrow> was_paid (ord_Status r)"])
      (auto simp: life.db_refl order_by_id_def intro!: life.rg_ret life.rg_fail
        dest: first_row_Some paid_order_all split: option.splits)
  show ?thesis
    unfolding orders_MockPay_def
  proof (rule life.rg_call [OF get], goal_cases)
    case (1 e)
    show ?case by (auto intro!: life.rg_fail)
  next
    case (2 r)
    show ?case
    proof (cases "was_paid (ord_Status r)")
      case True
      then show ?thesis by (auto simp: was_paid_def intro!: life.rg_fail)
    next
      case False
      then show ?thesis by (intro rg_False) simp
    qed
  qed
qed

lemma rg_mark_paid:
  "rg order_life ord_keys (orders_repo_MarkPaid oid txn pm)
    (\<lambda>x d. \<forall>n. x = Inr n \<and> n \<noteq> 0 \<longrightarrow> paid_order oid d)"
proof -
  have ex: "rg order_life ord_keys (exec (sql_mark_paid oid txn pm now))
      (\<lambda>x d. \<forall>n. x = Inr n \<and> n \<noteq> 0 \<longrightarrow> paid_order oid d)" for now
  proof (rule life.rg_exec [OF stable_keys])
    fix d n d'
    assume k: "ord_keys d" and d': "sql_mark_paid oid txn pm now d = Inr (n, d')"
    have l: "order_life d d'" using life_statements(2) d' by (rule stmt_okD)
    have "paid_order oid d'" if "n \<noteq> 0"
    proof -
      from that d' obtain r where r: "r \<in> set (t_orders d)" "payable oid r"
        by (auto simp: sql_mark_paid_def changed_def filter_empty_conv)
      then have "paid_row now txn pm r \<in> set (t_orders d')" "ord_ID (paid_row now txn pm r) = oid"
        "was_paid (ord_Status (paid_row now txn pm r))"
        using d' by (auto simp: sql_mark_paid_def set_upd paid_row_def payable_def was_paid_def)
      moreover have "ord_keys d'" using l k by (simp add: order_life_def)
      ultimately show ?thesis unfolding paid_order_def by blast
    qed
    with l show "order_life d d' \<and> (\<forall>m. Inr n = (Inr m :: go_error + nat) \<and> m \<noteq> 0 \<longrightarrow> paid_order oid d')"
      by simp
  qed simp
  show ?thesis
    unfolding orders_repo_MarkPaid_def bind_def
    by (intro life.rg_call [OF life.rg_of_within [OF life.within_pure(1) stable_keys]]
        life.rg_call [OF ex] life.rg_fail life.rg_ret) simp_all
qed

lemma rg_payment:
  assumes hooks: "hooks_ok order_life h"
  shows "rg order_life ord_keys (orders_MockPay h u oid pm)
    (\<lambda>x d. \<forall>y. x = Inr y \<longrightarrow> paid_order oid d)"
proof -
  note ow = order_writes_life [OF assms(1), unfolded refund_writes_def, THEN conjunct1]
  note ins = order_writes.orders_intros [OF ow]
  have keep: "rg order_life ord_keys m (\<lambda>_. ord_keys)" if "within (db_step order_life) m" for m :: "'x io"
    using that stable_keys by (rule life.rg_of_within)
  have rest: "rg order_life (paid_order oid) m (\<lambda>x d. \<forall>y. x = Inr y \<longrightarrow> paid_order oid d)"
    if "within (db_step order_life) m" for m :: "'x io"
    by (rule rg_conseq [OF life.rg_of_within [OF that stable_paid]]) auto
  have failI: "rg order_life P (fail e) (\<lambda>x d. \<forall>y. x = Inr y \<longrightarrow> paid_order oid d)"
    for P :: "database \<Rightarrow> bool" and e and y :: "'x"
    by (rule life.rg_fail) simp
  show ?thesis
    unfolding orders_MockPay_def bind_def
  proof (intro life.rg_call [OF keep [OF order_writes.within_orders_reads(1) [OF ow]]]
      life.rg_call [OF keep [OF order_writes.within_orders_writes(6) [OF ow]]]
      life.rg_call [OF rg_mark_paid] life.rg_if failI, goal_cases)
    case (1 r hx n)
    show ?case
      by (rule rg_pre [OF rest [OF order_writes.within_finish_payment [OF ow]]]) (use 1 in simp)
  qed
qed

text \<open>C2: once a payment of an order has returned successfully, no later payment of the same
  order succeeds, by whomever, in any database other requests reach from there within the
  machine, with connections failing anywhere.\<close>

theorem pay_at_most_once:
  assumes "hooks_ok order_life h" "rely_ok order_life w" "ord_keys (db w)"
    and "orders_MockPay h u oid pm w = (Inr x, w')"
    and "order_life (db w') (db v)" "rely_ok order_life v"
  shows "\<exists>e. fst (orders_MockPay h2 u2 oid pm2 v) = Inl e"
proof -
  have "paid_order oid (db w')"
    using rg_payment [OF assms(1), of u oid pm] assms(2-4) unfolding rg_def
    by (metis fst_conv snd_conv)
  then have "paid_order oid (db v)" using stable_paid assms(5) by (auto simp: stable_def)
  with rg_paid_reject assms(6) show ?thesis by (auto simp: rg_def)
qed

theorem pay_at_most_once_witness:
  "\<exists>e. fst (orders_MockPay default_hooks ''u1'' ''o1'' ''wechat''
     (snd (orders_MockPay default_hooks ''u1'' ''o1'' ''stripe'' pending_world))) = Inl e"
proof -
  obtain x w' where r: "orders_MockPay default_hooks ''u1'' ''o1'' ''stripe'' pending_world = (Inr x, w')"
    using mockpay_quiet [OF pending_world_facts(1,2,4) _ _ _ _ pending_world_facts(5,6),
        where h = default_hooks and pm = "''stripe''"]
    by auto
  have quiet: "rely_ok order_life pending_world" by (simp add: rely_ok_def pending_world_facts)
  have "script w' = []"
    using quiet_script [OF anything.within_orders_MockPay pending_world_facts(1)] r by (metis snd_conv)
  then have "rely_ok order_life w'" by (simp add: rely_ok_def)
  with pay_at_most_once [OF default_hooks_ok [OF life.db_frame_axioms] quiet pending_world_facts(7) r
      life.db_refl] show ?thesis
    by (simp add: r)
qed

section \<open>Refunds\<close>

text \<open>C5: in an undisturbed run the eligibility check, whose comparisons are in floating point,
  answers exactly as the rules over integers: full refund when nothing has been completed,
  the five percent fee within seven days and below a fifth of the lessons, denied otherwise;
  a degree only when none of its courses has been started.\<close>

theorem refund_check_is_rule:
  assumes "script w = []"
    and "- (2 ^ 60) < refund_elapsed r w" "refund_elapsed r w < 2 ^ 60"
    and "\<And>c. lessons_in_course (db w) c < 2 ^ 31" "\<And>u c. completed_in_course (db w) u c < 2 ^ 53"
  shows "\<exists>reason. checkRefund r w =
    (Inr (refund_rule (db w) r (refund_elapsed r w) \<noteq> RefundDenied,
          fee_of (refund_rule (db w) r (refund_elapsed r w)), reason), tick (tick w))"
  using assms by (rule checkRefund_quiet)

definition paid_world :: world where
  "paid_world = demo_world (demo_database [demo_order ''o2'' OrdersStatusPaid]
     [demo_enrollment ''e1'' ''paid'' ''order''])"

lemma paid_world_facts:
  "script paid_world = []" "order_by_id ''o2'' (db paid_world) = Some (demo_order ''o2'' OrdersStatusPaid)"
  "refund_elapsed (demo_order ''o2'' OrdersStatusPaid) paid_world = 1001"
  "lessons_in_course (db paid_world) c < 2 ^ 31" "completed_in_course (db paid_world) u c < 2 ^ 53"
  by (simp_all add: paid_world_def demo_defs order_by_id_def refund_elapsed_def tick_def go_now_def
      lessons_in_course_def completed_in_course_def count_rows_def)

theorem refund_check_is_rule_witness:
  "\<exists>reason. fst (checkRefund (demo_order ''o2'' OrdersStatusPaid) paid_world) = Inr (True, 0, reason)"
proof -
  have "refund_rule (db paid_world) (demo_order ''o2'' OrdersStatusPaid) 1001 = RefundFull"
    by (simp add: refund_rule_def paid_world_def demo_defs course_rule_def completed_in_course_def
        count_rows_def)
  with refund_check_is_rule [OF paid_world_facts(1) _ _ paid_world_facts(4,5),
      of "demo_order ''o2'' OrdersStatusPaid"]
  show ?thesis by (auto simp: paid_world_facts(3) fee_of_def)
qed

lemma MarkRefunded_quiet:
  assumes "script w = []"
  shows "orders_repo_MarkRefunded oid w =
    (Inr (), (tick w)\<lparr>db := (db w)\<lparr>t_orders := upd (\<lambda>r. ord_ID r = oid)
       (\<lambda>r. r\<lparr>ord_Status := OrdersStatusRefunded, ord_UpdatedAt := clock w\<rparr>) (t_orders (db w))\<rparr>\<rparr>)"
  using assms by (simp add: orders_repo_MarkRefunded_def go_simps sql_mark_refunded_def)

text \<open>No enrollment of the user in the course that the order paid for is active.\<close>

definition revoked :: "database \<Rightarrow> string \<Rightarrow> string \<Rightarrow> bool" where
  "revoked d u c \<longleftrightarrow> (\<forall>e \<in> set (t_enrollments d).
     enr_UserID e = u \<and> enr_CourseID e = Some c \<and> enr_Source e = ''order'' \<longrightarrow> enr_DeletedAt e \<noteq> None)"

lemma revoke_course_revokes:
  assumes "sql_revoke_course (Some t) u (Some c) d = Inr (n, d')"
  shows "revoked d' u c" and "t_orders d' = t_orders d"
proof -
  let ?P = "\<lambda>e. enr_UserID e = u \<and> enr_CourseID e = Some c \<and> enr_Source e = ''order'' \<and>
    enr_DeletedAt e = None"
  have d': "t_enrollments d' = upd ?P (revoked_row (Some t)) (t_enrollments d)" "t_orders d' = t_orders d"
    using assms by (auto simp: sql_revoke_course_def revoke_where_def)
  show "revoked d' u c"
    unfolding revoked_def d'
  proof
    fix e assume "e \<in> set (upd ?P (revoked_row (Some t)) (t_enrollments d))"
    then obtain e0 where "e = (if ?P e0 then revoked_row (Some t) e0 else e0)"
      unfolding upd_def set_map by blast
    then show "enr_UserID e = u \<and> enr_CourseID e = Some c \<and> enr_Source e = ''order'' \<longrightarrow>
        enr_DeletedAt e \<noteq> None"
      by (cases "?P e0") (simp_all add: revoked_row_def)
  qed
  show "t_orders d' = t_orders d" by (rule d')
qed

lemma settle_quiet:
  assumes "script w = []" "order_by_id oid (db w) = Some r" "ord_Type r = OrdersTypeCourse"
    "ord_CourseID r = Some c" "hooks_ok (untouched (\<lambda>d. (t_orders d, t_enrollments d))) h"
  shows "\<exists>x w' r'. settle_refund h u oid r fee w = (Inr x, w') \<and> rfr_FeeRate x = fee \<and>
    order_by_id oid (db w') = Some r' \<and> ord_Status r' = OrdersStatusRefunded \<and> revoked (db w') u c"
proof -
  let ?f = "\<lambda>r. r\<lparr>ord_Status := OrdersStatusRefunded, ord_UpdatedAt := clock (tick w)\<rparr>"
  have q: "script (tick w) = []" using assms(1) by simp
  obtain w1 where w1: "orders_repo_MarkRefunded oid (tick w) = (Inr (), w1)" "script w1 = []"
    "db w1 = (db w)\<lparr>t_orders := upd (\<lambda>r. ord_ID r = oid) ?f (t_orders (db w))\<rparr>"
    using MarkRefunded_quiet [OF q, of oid] assms(1) by simp
  obtain w2 where w2: "revoke_enrollments r u (clock w) w1 = (Inr (), w2)" "script w2 = []"
    "t_orders (db w2) = t_orders (db w1)" "revoked (db w2) u c"
  proof -
    obtain n d where d: "sql_revoke_course (Some (clock w)) u (Some c) (db w1) = Inr (n, d)"
      by (simp add: sql_revoke_course_def revoke_where_def)
    then have "revoke_enrollments r u (clock w) w1 = (Inr (), w1\<lparr>db := d\<rparr>)"
      using assms(3,4) w1(2) by (simp add: revoke_enrollments_def go_simps)
    with revoke_course_revokes [OF d] w1(2) that [of "w1\<lparr>db := d\<rparr>"] show ?thesis by simp
  qed
  obtain w3 as where w3: "orders_writeAudit ''order.refund'' oid u w2 = (Inr (), w3)"
    "db w3 = (db w2)\<lparr>t_audit_logs := as\<rparr>" "script w3 = []"
    using writeAudit_quiet [OF w2(2)] by (metis prod.collapse)
  define amount where "amount = fmt_2f (refund_amount (ord_Amount r) fee)"
  define w4 where "w4 = snd (refundNotifier h u oid amount w3)"
  have "untouched (\<lambda>d. (t_orders d, t_enrollments d)) (db w3) (db w4)"
    using assms(5) w3(3) same_db.db_frame_axioms unfolding hooks_ok_def w4_def
    by (blast dest: quiet_step)
  then have w4: "t_orders (db w4) = t_orders (db w1)" "t_enrollments (db w4) = t_enrollments (db w2)"
    by (simp_all add: untouched_def w3 w2)
  have "order_by_id oid (db w4) = order_by_id oid (db w1)" by (simp add: order_by_id_def w4)
  moreover have "order_by_id oid (db w1) = Some (?f r)"
    using order_by_id_upd [of ?f oid "db w" r "\<lambda>r. ord_ID r = oid"] assms(2) first_row_Some
    by (fastforce simp: w1 order_by_id_def)
  moreover have "revoked (db w4) u c" using w2(4) by (simp add: revoked_def w4)
  moreover have "settle_refund h u oid r fee w = (Inr \<lparr> rfr_OrderID = oid,
      rfr_Status = ordersStatus_str OrdersStatusRefunded, rfr_RefundAmount = amount,
      rfr_FeeRate = fee \<rparr>, w4)"
    using w1 w2 w3 by (simp add: settle_refund_def go_simps Let_def amount_def [symmetric] w4_def)
  ultimately show ?thesis by auto
qed

text \<open>C4: refunding the caller's own paid course order in an undisturbed run follows the rules:
  when they deny it, the call fails with a 400 and the database is untouched; otherwise it
  succeeds with the rule's fee, the order is refunded and the enrollment it paid for is
  no longer active.\<close>

theorem refund_follows_rule:
  assumes "script w = []" "order_by_id oid (db w) = Some r" "ord_UserID r = u"
    "ord_Status r = OrdersStatusPaid" "ord_Type r = OrdersTypeCourse" "ord_CourseID r = Some c"
    and "hooks_ok (untouched (\<lambda>d. (t_orders d, t_enrollments d))) h"
    and "- (2 ^ 60) < refund_elapsed r w" "refund_elapsed r w < 2 ^ 60"
    and "\<And>c. lessons_in_course (db w) c < 2 ^ 31" "\<And>u c. completed_in_course (db w) u c < 2 ^ 53"
  shows "(refund_rule (db w) r (refund_elapsed r w) = RefundDenied \<longrightarrow>
      (\<exists>reason. fst (RefundOrder h u oid w) = Inl (BadRequest reason)) \<and>
      db (snd (RefundOrder h u oid w)) = db w) \<and>
    (refund_rule (db w) r (refund_elapsed r w) \<noteq> RefundDenied \<longrightarrow>
      (\<exists>x w' r'. RefundOrder h u oid w = (Inr x, w') \<and>
         rfr_FeeRate x = fee_of (refund_rule (db w) r (refund_elapsed r w)) \<and>
         order_by_id oid (db w') = Some r' \<and> ord_Status r' = OrdersStatusRefunded \<and>
         revoked (db w') u c))"
proof -
  obtain reason where c: "checkRefund r w =
      (Inr (refund_rule (db w) r (refund_elapsed r w) \<noteq> RefundDenied,
            fee_of (refund_rule (db w) r (refund_elapsed r w)), reason), tick (tick w))"
    using checkRefund_quiet [OF assms(1,8-11)] by blast
  have "RefundOrder h u oid w =
      (if refund_rule (db w) r (refund_elapsed r w) = RefundDenied
       then (Inl (BadRequest reason), tick (tick w))
       else settle_refund h u oid r (fee_of (refund_rule (db w) r (refund_elapsed r w))) (tick (tick w)))"
    using assms(1-4) c by (simp add: RefundOrder_def go_simps GetByID_quiet)
  with settle_quiet [of "tick (tick w)" oid r c h u] assms(1,2,5-7) show ?thesis by auto
qed

theorem refund_follows_rule_witness:
  "\<exists>x w'. RefundOrder default_hooks ''u1'' ''o2'' paid_world = (Inr x, w') \<and> revoked (db w') ''u1'' ''paid''"
proof -
  have "refund_rule (db paid_world) (demo_order ''o2'' OrdersStatusPaid) 1001 = RefundFull"
    by (simp add: refund_rule_def paid_world_def demo_defs course_rule_def completed_in_course_def
        count_rows_def)
  with refund_follows_rule [OF paid_world_facts(1,2) _ _ _ _ default_hooks_ok [OF same_db.db_frame_axioms]
      _ _ paid_world_facts(4,5), of "''u1''" "''paid''"]
  show ?thesis by (auto simp: paid_world_facts(3))
qed

end
