(* ===== verification/Certificates.thy ===== *)
theory Certificates
  imports Tables
begin

text \<open>
  \<open>internal/certificates\<close> (repo and service) and \<open>internal/repo/db/certificates.sql.go\<close>: issuing
  a certificate with a generated serial number, listing, public verification and
  revocation.  The generator takes the greatest serial of the year and type as MySQL
  orders strings and adds one; the lemmas relate that order to the order of the numbers.
\<close>

abbreviation certificates_ErrNotFound :: go_error where
  "certificates_ErrNotFound \<equiv> Sentinel ''certificates: not found''"

section \<open>Strings\<close>

fun str_max :: "string list \<Rightarrow> string option" where
  "str_max [] = None"
| "str_max (s # ss) =
     (case str_max ss of None \<Rightarrow> Some s | Some t \<Rightarrow> Some (if str_le t s then s else t))"

definition upper_char :: "char \<Rightarrow> char" where
  "upper_char c = (if is_lower c then char_of (byte_of c - 32) else c)"

definition upper :: "string \<Rightarrow> string" where
  "upper s = map upper_char s"

text \<open>\<open>%04d\<close>: the width counts the sign.\<close>

definition fmt_04d :: "int \<Rightarrow> string" where
  "fmt_04d i = (if i < 0 then ''-'' @ pad_left 3 (show_nat (nat (- i))) else pad_left 4 (show_nat (nat i)))"

definition validCertType :: "string \<Rightarrow> bool" where
  "validCertType s \<longleftrightarrow> s \<in> set [''course'', ''degree'', ''hackathon'']"

section \<open>Statements\<close>

text \<open>\<open>IFNULL(metadata, JSON_OBJECT())\<close> in every reading query.\<close>

definition with_metadata :: "Certificate \<Rightarrow> Certificate" where
  "with_metadata c = (case crt_Metadata c of
     None \<Rightarrow> c\<lparr>crt_Metadata := Some (JObj [])\<rparr> | Some _ \<Rightarrow> c)"

definition q_GetCertificateByID :: "string \<Rightarrow> Certificate io" where
  "q_GetCertificateByID cid = query_one (\<lambda>d. map_option with_metadata
     (first_row (\<lambda>c. crt_ID c = cid) (t_certificates d)))"

definition q_GetCertificateBySerial :: "string \<Rightarrow> Certificate io" where
  "q_GetCertificateBySerial serial = query_one (\<lambda>d. map_option with_metadata
     (first_row (\<lambda>c. crt_SerialNumber c = serial) (t_certificates d)))"

definition cert_of :: "string \<Rightarrow> string \<Rightarrow> string \<Rightarrow> Certificate \<Rightarrow> bool" where
  "cert_of u typ ref c \<longleftrightarrow> crt_UserID c = u \<and> crt_Type c = typ \<and> crt_RefID c = ref"

definition q_GetCertificateByUserTypeRef :: "string \<Rightarrow> string \<Rightarrow> string \<Rightarrow> Certificate io" where
  "q_GetCertificateByUserTypeRef u typ ref = query_one (\<lambda>d. map_option with_metadata
     (first_row (cert_of u typ ref) (t_certificates d)))"

definition q_ListMyCertificates :: "string \<Rightarrow> string \<Rightarrow> Certificate list io" where
  "q_ListMyCertificates u typ = query (\<lambda>d. map with_metadata (sort_desc crt_IssuedAt
     (filter (\<lambda>c. crt_UserID c = u \<and> crt_RevokedAt c = None \<and> (typ = [] \<or> crt_Type c = typ))
       (t_certificates d))))"

definition q_CountSerialByPrefix :: "string \<Rightarrow> int io" where
  "q_CountSerialByPrefix p = query (\<lambda>d. count_rows (\<lambda>c. has_prefix (crt_SerialNumber c) p) (t_certificates d))"

text \<open>\<open>created_at\<close> is the column's default, the server's clock.\<close>

definition q_CreateCertificate :: "Certificate \<Rightarrow> unit io" where
  "q_CreateCertificate c =
     bind go_now (\<lambda>now. exec (insert_certificate (c\<lparr>crt_RevokedAt := None, crt_CreatedAt := now\<rparr>)))"

definition sql_revoke_certificate :: "string \<Rightarrow> int \<Rightarrow> nat stmt" where
  "sql_revoke_certificate cid now =
     (let P = (\<lambda>c. crt_ID c = cid \<and> crt_RevokedAt c = None);
          f = (\<lambda>c. c\<lparr>crt_RevokedAt := Some now, crt_UpdatedAt := now\<rparr>)
      in (\<lambda>d. Inr (changed P f (t_certificates d), d\<lparr>t_certificates := upd P f (t_certificates d)\<rparr>)))"

text \<open>\<open>serial_number LIKE prefix% ORDER BY serial_number DESC LIMIT 1\<close>; the prefixes of the
  code hold no wildcard.\<close>

definition last_serial :: "string \<Rightarrow> database \<Rightarrow> string option" where
  "last_serial p d = str_max (filter (\<lambda>s. has_prefix s p) (map crt_SerialNumber (t_certificates d)))"

definition cert_audit_row :: "string \<Rightarrow> string \<Rightarrow> string \<Rightarrow> string \<Rightarrow> string \<Rightarrow> string \<Rightarrow> int \<Rightarrow> AuditLog" where
  "cert_audit_row aid userID action entity entityID details now =
     \<lparr> aud_ID = aid, aud_UserID = Some userID, aud_Action = action, aud_Entity = entity,
       aud_EntityID = Some entityID, aud_Details = Some details, aud_IpAddress = None,
       aud_UserAgent = None, aud_CreatedAt = now \<rparr>"

section \<open>Repo\<close>

definition cert_repo_lookup :: "string \<Rightarrow> Certificate io \<Rightarrow> Certificate io" where
  "cert_repo_lookup ctx q =
     call q (\<lambda>e. if errors_is e ErrNoRows then fail certificates_ErrNotFound else fail (Wrap ctx e)) ret"

definition certificates_repo_ListByUser :: "string \<Rightarrow> string \<Rightarrow> Certificate list io" where
  "certificates_repo_ListByUser u typ =
     call (q_ListMyCertificates u typ) (\<lambda>e. fail (Wrap ''certificates.repo: list'' e)) ret"

definition certificates_repo_GetByID :: "string \<Rightarrow> Certificate io" where
  "certificates_repo_GetByID cid = cert_repo_lookup ''certificates.repo: get'' (q_GetCertificateByID cid)"

definition certificates_repo_GetBySerial :: "string \<Rightarrow> Certificate io" where
  "certificates_repo_GetBySerial serial =
     cert_repo_lookup ''certificates.repo: get by serial'' (q_GetCertificateBySerial serial)"

definition certificates_repo_FindByUserTypeRef :: "string \<Rightarrow> string \<Rightarrow> string \<Rightarrow> Certificate io" where
  "certificates_repo_FindByUserTypeRef u typ ref =
     cert_repo_lookup ''certificates.repo: find'' (q_GetCertificateByUserTypeRef u typ ref)"

definition certificates_repo_Create :: "Certificate \<Rightarrow> unit io" where
  "certificates_repo_Create c = q_CreateCertificate c"

definition certificates_repo_Revoke :: "string \<Rightarrow> nat io" where
  "certificates_repo_Revoke cid =
     bind go_now (\<lambda>now.
     call (exec (sql_revoke_certificate cid now)) (\<lambda>e. fail (Wrap ''certificates.repo: revoke'' e))
       (\<lambda>n. if n = 0 then
              call (certificates_repo_GetByID cid)
                (\<lambda>e. if e = certificates_ErrNotFound then fail certificates_ErrNotFound
                     else fail (Plain ''certificate already revoked''))
                (\<lambda>_. fail (Plain ''certificate already revoked''))
            else ret n))"

definition certificates_repo_CountSerialByPrefix :: "string \<Rightarrow> int io" where
  "certificates_repo_CountSerialByPrefix p = q_CountSerialByPrefix p"

definition certificates_repo_GetUserName :: "string \<Rightarrow> string io" where
  "certificates_repo_GetUserName u =
     call (query_one (\<lambda>d. map_option usr_Name (first_row (\<lambda>r. usr_ID r = u) (t_users d))))
       (\<lambda>e. if errors_is e ErrNoRows then ret []
            else fail (Wrap ''certificates.repo: get user name'' e))
       ret"

definition certificates_repo_WriteAudit :: "string \<Rightarrow> string \<Rightarrow> string \<Rightarrow> string \<Rightarrow> string \<Rightarrow> unit io" where
  "certificates_repo_WriteAudit userID action entity entityID details =
     bind go_now (\<lambda>now. bind new_uuid (\<lambda>aid.
     call (exec (insert_audit_log (cert_audit_row aid userID action entity entityID details now)))
       (\<lambda>e. fail (Wrap ''certificates.repo: write audit'' e)) ret))"

section \<open>Service\<close>

record CertDTO =
  cdto_ID :: string
  cdto_UserID :: string
  cdto_Type :: string
  cdto_RefID :: string
  cdto_Title :: string
  cdto_Description :: "string option"
  cdto_SerialNumber :: string
  cdto_IssuedAt :: string
  cdto_CompletedAt :: string
  cdto_ImageURL :: "string option"
  cdto_VerifyURL :: "string option"
  cdto_Metadata :: "json option"
  cdto_RevokedAt :: "string option"
  cdto_HolderName :: "string option"
  cdto_Valid :: "bool option"
  cdto_CreatedAt :: string
  cdto_UpdatedAt :: string

definition toCertDTO :: "Certificate \<Rightarrow> string option \<Rightarrow> bool option \<Rightarrow> CertDTO" where
  "toCertDTO c holderName valid =
     \<lparr> cdto_ID = crt_ID c, cdto_UserID = crt_UserID c, cdto_Type = crt_Type c,
       cdto_RefID = crt_RefID c, cdto_Title = crt_Title c, cdto_Description = crt_Description c,
       cdto_SerialNumber = crt_SerialNumber c, cdto_IssuedAt = fmt_iso (crt_IssuedAt c),
       cdto_CompletedAt = fmt_iso (crt_CompletedAt c), cdto_ImageURL = crt_ImageUrl c,
       cdto_VerifyURL = crt_VerifyUrl c, cdto_Metadata = crt_Metadata c,
       cdto_RevokedAt = map_option fmt_iso (crt_RevokedAt c), cdto_HolderName = holderName,
       cdto_Valid = valid, cdto_CreatedAt = fmt_iso (crt_CreatedAt c),
       cdto_UpdatedAt = fmt_iso (crt_UpdatedAt c) \<rparr>"

definition bulkGetHolderNames :: "string \<Rightarrow> (string \<times> string) list io" where
  "bulkGetHolderNames u = call (certificates_repo_GetUserName u) fail (\<lambda>name. ret [(u, name)])"

definition FindMyCertificates :: "string \<Rightarrow> string \<Rightarrow> CertDTO list io" where
  "FindMyCertificates u typ =
     call (certificates_repo_ListByUser u typ) (\<lambda>e. fail (Internal ''list certificates'' e)) (\<lambda>rows.
     call (bulkGetHolderNames u) (\<lambda>e. fail (Internal ''get holder names'' e)) (\<lambda>names.
     ret (map (\<lambda>c. let name = (case map_of names (crt_UserID c) of None \<Rightarrow> [] | Some n \<Rightarrow> n)
                   in toCertDTO c (if name \<noteq> [] then Some name else None) None) rows)))"

definition FindCertificateByID :: "string \<Rightarrow> CertDTO io" where
  "FindCertificateByID cid =
     call (certificates_repo_GetByID cid)
       (\<lambda>e. if e = certificates_ErrNotFound then fail (NotFound ''Certificate not found'')
            else fail (Internal ''get certificate'' e)) (\<lambda>c.
     call (certificates_repo_GetUserName (crt_UserID c)) (\<lambda>e. fail (Internal ''get holder'' e)) (\<lambda>holder.
     ret (toCertDTO c (Some holder) (Some (crt_RevokedAt c = None)))))"

record VerifyResult =
  vfy_Valid :: bool
  vfy_Reason :: string
  vfy_Certificate :: "CertDTO option"

text \<open>The partial certificate of a revoked serial: only the serial and the instant are set.\<close>

definition revoked_partial :: "string \<Rightarrow> string option \<Rightarrow> CertDTO" where
  "revoked_partial serial revokedAt =
     \<lparr> cdto_ID = [], cdto_UserID = [], cdto_Type = [], cdto_RefID = [], cdto_Title = [],
       cdto_Description = None, cdto_SerialNumber = serial, cdto_IssuedAt = [],
       cdto_CompletedAt = [], cdto_ImageURL = None, cdto_VerifyURL = None, cdto_Metadata = None,
       cdto_RevokedAt = revokedAt, cdto_HolderName = None, cdto_Valid = None,
       cdto_CreatedAt = [], cdto_UpdatedAt = [] \<rparr>"

definition VerifyCertificate :: "string \<Rightarrow> VerifyResult io" where
  "VerifyCertificate serial =
     call (certificates_repo_GetBySerial serial)
       (\<lambda>e. if e = certificates_ErrNotFound
            then ret \<lparr> vfy_Valid = False, vfy_Reason = ''not_found'', vfy_Certificate = None \<rparr>
            else fail (Internal ''get by serial'' e)) (\<lambda>c.
     case crt_RevokedAt c of
       Some t \<Rightarrow>
         ret \<lparr> vfy_Valid = False, vfy_Reason = ''revoked'',
               vfy_Certificate = Some (revoked_partial (crt_SerialNumber c) (Some (fmt_iso t))) \<rparr>
     | None \<Rightarrow>
         call (call (certificates_repo_GetUserName (crt_UserID c)) (\<lambda>_. ret []) ret) fail (\<lambda>holder.
         let h = (if holder = [] then ''Anonymous'' else holder)
         in ret \<lparr> vfy_Valid = True, vfy_Reason = [],
                  vfy_Certificate = Some (toCertDTO c (Some h) None) \<rparr>))"

record IssueInput =
  iss_UserID :: string
  iss_Type :: string
  iss_RefID :: string
  iss_Title :: string
  iss_Description :: string
  iss_CompletedAt :: "int option"
  iss_Metadata :: "json option"

definition serial_prefix :: "int \<Rightarrow> string \<Rightarrow> string" where
  "serial_prefix year typ = ''OCSG-'' @ show_int year @ ''-'' @ upper typ @ ''-''"

text \<open>The number after the last serial: a suffix that is no number counts as none.\<close>

definition next_number :: "string \<Rightarrow> string option \<Rightarrow> int" where
  "next_number p prev =
     (case prev of
        None \<Rightarrow> 1
      | Some s \<Rightarrow>
          (if length p < length s then
             (case atoi (drop (length p) s) of None \<Rightarrow> 1 | Some n \<Rightarrow> wrap64 (n + 1))
           else 1))"

definition generateSerialNumber :: "string \<Rightarrow> string io" where
  "generateSerialNumber typ =
     bind go_now (\<lambda>now.
     (let p = serial_prefix (year_of now) typ
      in call (query (last_serial p)) fail (\<lambda>prev. ret (p @ fmt_04d (next_number p prev)))))"

definition quoted :: "string \<Rightarrow> string" where
  "quoted s = [CHR 0x22] @ s @ [CHR 0x22]"

definition issue_details :: "string \<Rightarrow> string \<Rightarrow> string \<Rightarrow> string" where
  "issue_details typ ref serial =
     [CHR 0x7B] @ quoted ''type'' @ '':'' @ quoted typ @ '','' @ quoted ''refId'' @ '':'' @ quoted ref
     @ '','' @ quoted ''serialNumber'' @ '':'' @ quoted serial @ [CHR 0x7D]"

definition new_certificate :: "IssueInput \<Rightarrow> string \<Rightarrow> string \<Rightarrow> int \<Rightarrow> int \<Rightarrow> int \<Rightarrow> Certificate" where
  "new_certificate i cid serial completedAt issuedAt updatedAt =
     \<lparr> crt_ID = cid, crt_UserID = iss_UserID i, crt_Type = iss_Type i, crt_RefID = iss_RefID i,
       crt_Title = iss_Title i,
       crt_Description = (if iss_Description i \<noteq> [] then Some (iss_Description i) else None),
       crt_SerialNumber = serial, crt_IssuedAt = issuedAt, crt_CompletedAt = completedAt,
       crt_ImageUrl = None, crt_VerifyUrl = Some (''/verify/'' @ serial),
       crt_Metadata = iss_Metadata i, crt_RevokedAt = None, crt_CreatedAt = zero_time,
       crt_UpdatedAt = updatedAt \<rparr>"

definition IssueCertificate :: "IssueInput \<Rightarrow> CertDTO io" where
  "IssueCertificate i =
     (if iss_UserID i = [] \<or> iss_Type i = [] \<or> iss_RefID i = []
      then fail (BadRequest ''userId, type, refId required'')
      else if \<not> validCertType (iss_Type i)
      then fail (BadRequest ''type must be course, degree, or hackathon'')
      else
        call (certificates_repo_FindByUserTypeRef (iss_UserID i) (iss_Type i) (iss_RefID i))
          (\<lambda>e. if e \<noteq> certificates_ErrNotFound then fail (Internal ''check existing cert'' e)
               else
                 call (generateSerialNumber (iss_Type i)) (\<lambda>e. fail (Internal ''generate serial'' e)) (\<lambda>serial.
                 bind go_now (\<lambda>now.
                 bind new_uuid (\<lambda>cid.
                 bind go_now (\<lambda>issuedAt.
                 bind go_now (\<lambda>updatedAt.
                 (let completedAt = (case iss_CompletedAt i of None \<Rightarrow> now | Some t \<Rightarrow> t);
                      c = new_certificate i cid serial completedAt issuedAt updatedAt
                  in call (certificates_repo_Create c) (\<lambda>e. fail (Internal ''create certificate'' e)) (\<lambda>_.
                     ignoring (certificates_repo_WriteAudit (iss_UserID i) ''certificate.issue'' ''Certificate''
                                 cid (issue_details (iss_Type i) (iss_RefID i) serial))
                       (ret (toCertDTO c None None))))))))))
          (\<lambda>existing. ret (toCertDTO existing None None)))"

definition RevokeCertificate :: "string \<Rightarrow> string \<Rightarrow> CertDTO io" where
  "RevokeCertificate cid adminUserID =
     call (certificates_repo_GetByID cid)
       (\<lambda>e. if e = certificates_ErrNotFound then fail (NotFound ''Certificate not found'')
            else fail (Internal ''get certificate'' e)) (\<lambda>c.
     if crt_RevokedAt c \<noteq> None then fail (Conflict ''Certificate already revoked'')
     else
       call (certificates_repo_Revoke cid)
         (\<lambda>e. if e = certificates_ErrNotFound then fail (NotFound ''Certificate not found'')
              else fail (Internal ''revoke'' e)) (\<lambda>_.
       call (certificates_repo_GetByID cid) (\<lambda>e. fail (Internal ''reload'' e)) (\<lambda>updated.
       ignoring (certificates_repo_WriteAudit adminUserID ''certificate.revoke'' ''Certificate'' cid
                   ([CHR 0x7B] @ quoted ''serialNumber'' @ '':'' @ quoted (crt_SerialNumber updated)
                     @ [CHR 0x7D]))
         (ret (toCertDTO updated None None)))))"

section \<open>What the operations may do to the database\<close>

locale certificate_writes = db_frame +
  assumes ok_insert_certificate: "stmt_ok R (insert_certificate c)"
    and ok_revoke_certificate: "stmt_ok R (sql_revoke_certificate cid now)"
    and ok_cert_audit: "stmt_ok R (insert_audit_log a)"
begin

lemmas certificate_intros = within_intros within_exec [OF ok_insert_certificate]
  within_exec [OF ok_revoke_certificate] within_exec [OF ok_cert_audit]

lemma within_certificate_repo:
  "within (db_step R) (certificates_repo_GetByID cid)"
  "within (db_step R) (certificates_repo_GetBySerial serial)"
  "within (db_step R) (certificates_repo_FindByUserTypeRef u typ ref)"
  "within (db_step R) (certificates_repo_ListByUser u typ)"
  "within (db_step R) (certificates_repo_GetUserName u)"
  "within (db_step R) (certificates_repo_Create c)"
  "within (db_step R) (certificates_repo_WriteAudit u action entity eid details)"
  unfolding certificates_repo_GetByID_def certificates_repo_GetBySerial_def
    certificates_repo_FindByUserTypeRef_def certificates_repo_ListByUser_def
    certificates_repo_GetUserName_def certificates_repo_Create_def certificates_repo_WriteAudit_def
    cert_repo_lookup_def q_GetCertificateByID_def q_GetCertificateBySerial_def
    q_GetCertificateByUserTypeRef_def q_ListMyCertificates_def q_CreateCertificate_def
  by (intro certificate_intros)+

lemma within_certificate_Revoke: "within (db_step R) (certificates_repo_Revoke cid)"
  unfolding certificates_repo_Revoke_def by (intro certificate_intros within_certificate_repo)

lemma within_generateSerialNumber: "within (db_step R) (generateSerialNumber typ)"
  unfolding generateSerialNumber_def Let_def by (intro certificate_intros)

lemma within_IssueCertificate: "within (db_step R) (IssueCertificate i)"
  unfolding IssueCertificate_def Let_def
  by (intro certificate_intros within_certificate_repo within_generateSerialNumber)

lemma within_RevokeCertificate: "within (db_step R) (RevokeCertificate cid adm)"
  unfolding RevokeCertificate_def
  by (intro certificate_intros within_certificate_repo within_certificate_Revoke)

lemma within_certificate_views:
  "within (db_step R) (FindMyCertificates u typ)"
  "within (db_step R) (FindCertificateByID cid)"
  "within (db_step R) (VerifyCertificate serial)"
  unfolding FindMyCertificates_def FindCertificateByID_def VerifyCertificate_def
    bulkGetHolderNames_def Let_def
  by (intro certificate_intros within_certificate_repo)+

end

end
