(* ===== verification/CertFacts.thy ===== *)
theory CertFacts
  imports Certificates Demo
begin

text \<open>
  What the certificates service guarantees: stored certificates change only by being revoked
  once, serial numbers are unique and new up to 9999 a year and type, an issued certificate
  verifies, a revoked one does not; and where the generator gets stuck.
\<close>

section \<open>The life of a certificate\<close>

definition crt_next :: "Certificate \<Rightarrow> Certificate \<Rightarrow> bool" where
  "crt_next c c' \<longleftrightarrow>
     c' = c \<or> (crt_RevokedAt c = None \<and>
       (\<exists>t. c' = c\<lparr>crt_RevokedAt := Some t, crt_UpdatedAt := t\<rparr>))"

interpretation cert_rows: row_life crt_next
  by unfold_locales (auto simp: crt_next_def)

abbreviation crt_keys :: "database \<Rightarrow> bool" where
  "crt_keys d \<equiv> no_conflicts crt_conflict (t_certificates d)"

definition cert_life :: "database \<Rightarrow> database \<Rightarrow> bool" where
  "cert_life d d' \<longleftrightarrow> (crt_keys d \<longrightarrow> crt_keys d') \<and>
     evolve crt_next (t_certificates d) (t_certificates d')"

interpretation cert_life: db_frame cert_life
  by unfold_locales (auto simp: cert_life_def cert_rows.evolve_refl intro: cert_rows.evolve_trans)

lemma cert_statements:
  "stmt_ok cert_life (insert_certificate c)"
  "stmt_ok cert_life (sql_revoke_certificate cid now)"
  "stmt_ok cert_life (insert_audit_log a)"
proof -
  show "stmt_ok cert_life (insert_certificate c)"
    by (simp add: stmt_ok_def cert_life_def insert_certificate_def cert_rows.evolve_append
        no_conflicts_append [OF _ conflict_sym(4)])
  have "no_conflicts crt_conflict (upd P (\<lambda>c. c\<lparr>crt_RevokedAt := Some now, crt_UpdatedAt := now\<rparr>) cs)
      = no_conflicts crt_conflict cs" for P cs
    by (rule no_conflicts_upd) (simp add: crt_conflict_def)
  then show "stmt_ok cert_life (sql_revoke_certificate cid now)"
    by (auto simp: stmt_ok_def cert_life_def sql_revoke_certificate_def Let_def crt_next_def
        intro!: cert_rows.evolve_upd)
  show "stmt_ok cert_life (insert_audit_log a)"
    by (simp add: stmt_ok_def cert_life_def insert_audit_log_def cert_rows.evolve_refl)
qed

interpretation cert_life_writes: certificate_writes cert_life
  by unfold_locales (rule cert_statements)+

text \<open>C6: under connection failures and interference that does the same, issuing and revoking
  keep ids and serial numbers unique, never remove a certificate and change an existing
  one only by revoking it once.\<close>

theorem certificates_only_revoked:
  assumes "rely_ok cert_life w" "crt_keys (db w)"
  shows "(crt_keys (db (snd (IssueCertificate i w))) \<and>
      evolve crt_next (t_certificates (db w)) (t_certificates (db (snd (IssueCertificate i w))))) \<and>
    (crt_keys (db (snd (RevokeCertificate cid adm w))) \<and>
      evolve crt_next (t_certificates (db w)) (t_certificates (db (snd (RevokeCertificate cid adm w)))))"
proof -
  have "cert_life (db w) (db (snd (m w)))" if "within (db_step cert_life) m" for m :: "'x io"
    using that assms(1) db_step_rely by (auto simp: within_def)
  note this [OF cert_life_writes.within_IssueCertificate] this [OF cert_life_writes.within_RevokeCertificate]
  then show ?thesis using assms(2) by (auto simp: cert_life_def)
qed

section \<open>The order of serial numbers\<close>

lemma str_max_exists:
  "ss \<noteq> [] \<Longrightarrow> \<exists>x. str_max ss = Some x \<and> x \<in> set ss \<and> (\<forall>s \<in> set ss. str_le s x)"
proof (induction ss)
  case (Cons s ss)
  show ?case
  proof (cases "ss = []")
    case False
    with Cons.IH obtain x where x: "str_max ss = Some x" "x \<in> set ss" "\<forall>s \<in> set ss. str_le s x"
      by blast
    then show ?thesis using str_le_total [of s x] str_le_trans by (auto simp: str_le_refl)
  qed (simp add: str_le_refl)
qed simp

lemma str_max_None: "str_max ss = None \<longleftrightarrow> ss = []"
  using str_max_exists [of ss] by (cases ss) auto

lemma str_max_Some: "str_max ss = Some m \<Longrightarrow> m \<in> set ss \<and> (\<forall>s \<in> set ss. str_le s m)"
  using str_max_exists [of ss] by (cases ss) auto

lemma str_max_eq:
  assumes "m \<in> set ss" "\<And>s. s \<in> set ss \<Longrightarrow> str_le s m"
  shows "str_max ss = Some m"
proof -
  obtain x where "str_max ss = Some x" "x \<in> set ss" "\<forall>s \<in> set ss. str_le s x"
    using assms(1) str_max_exists by (metis empty_iff list.set(1))
  with assms str_le_antisym show ?thesis by metis
qed

lemma str_le_append: "str_le (p @ s) (p @ t) = str_le s t"
  by (induction p) auto

lemma digits_val_acc: "digits_val a s = a * 10 ^ length s + digits_val 0 s"
proof (induction s arbitrary: a)
  case (Cons c s)
  show ?case
    unfolding digits_val.simps Cons [of "10 * a + digit_val c"] Cons [of "10 * 0 + digit_val c"]
    by (simp add: algebra_simps)
qed simp

lemma digit_less: "is_digit c \<Longrightarrow> digit_val c < 10 \<and> byte_of c = 48 + digit_val c"
  by (auto simp: is_digit_def in_range_def digit_val_def byte_of_def)

lemma digits_val_bound: "list_all is_digit s \<Longrightarrow> digits_val 0 s < 10 ^ length s"
proof (induction s)
  case (Cons c s)
  then have "digit_val c * 10 ^ length s \<le> 9 * 10 ^ length s" using digit_less [of c] by (intro mult_le_mono1) simp
  moreover have "digits_val 0 s < 10 ^ length s" using Cons by simp
  ultimately have "digit_val c * 10 ^ length s + digits_val 0 s < 10 * 10 ^ length s" by linarith
  then show ?case by (simp add: digits_val_acc [of "digit_val c"])
qed simp

text \<open>On digit strings of one length the string order is the numeric order.\<close>

lemma str_le_digits:
  "length s = length t \<Longrightarrow> list_all is_digit s \<Longrightarrow> list_all is_digit t \<Longrightarrow>
   str_le s t \<longleftrightarrow> digits_val 0 s \<le> digits_val 0 t"
proof (induction s t rule: str_le.induct)
  case (3 c s e t)
  let ?k = "10 ^ length s :: nat"
  have b: "digits_val 0 s < ?k" "digits_val 0 t < ?k"
    using 3 digits_val_bound [of s] digits_val_bound [of t] by simp_all
  have ce: "c = e \<longleftrightarrow> digit_val c = digit_val e" "byte_of c < byte_of e \<longleftrightarrow> digit_val c < digit_val e"
    using 3 digit_less [of c] digit_less [of e] byte_of_inject [of c e] by auto
  have v: "digits_val 0 (c # s) = digit_val c * ?k + digits_val 0 s"
    "digits_val 0 (e # t) = digit_val e * ?k + digits_val 0 t"
    using 3 by (simp_all add: digits_val_acc [of "digit_val c"] digits_val_acc [of "digit_val e"])
  consider "digit_val c < digit_val e" | "digit_val c = digit_val e" | "digit_val e < digit_val c"
    by linarith
  then show ?case
  proof cases
    case 1
    then have "Suc (digit_val c) * ?k \<le> digit_val e * ?k" by (intro mult_le_mono1) simp
    with 1 ce b v show ?thesis by simp
  next
    case 2
    with 3 ce v show ?thesis by simp
  next
    case 3
    then have "Suc (digit_val e) * ?k \<le> digit_val c * ?k" by (intro mult_le_mono1) simp
    with \<open>digit_val e < digit_val c\<close> ce b v show ?thesis by simp
  qed
qed auto

section \<open>Serial numbers\<close>

definition serial_no :: "string \<Rightarrow> nat \<Rightarrow> string" where
  "serial_no p n = p @ pad_left 4 (show_nat n)"

text \<open>Every stored serial with the prefix carries a number up to \<open>m\<close>.\<close>

definition numbered :: "string \<Rightarrow> nat \<Rightarrow> database \<Rightarrow> bool" where
  "numbered p m d \<longleftrightarrow> (\<forall>s \<in> crt_SerialNumber ` set (t_certificates d).
     has_prefix s p \<longrightarrow> (\<exists>n \<le> m. s = serial_no p n))"

lemma pad4_digits: "list_all is_digit (pad_left 4 (show_nat n))"
  by (simp add: pad_left_digits show_nat_digits)

lemma pad4_val: "digits_val 0 (pad_left 4 (show_nat n)) = n"
  by (simp add: pad_left_val digits_val_show_nat)

lemma pad4_length: "n \<le> 9999 \<Longrightarrow> length (pad_left 4 (show_nat n)) = 4"
  using show_nat_length [of n 3] by (simp add: pad_left_def)

lemma serial_no_inject [simp]: "serial_no p m = serial_no p n \<longleftrightarrow> m = n"
  unfolding serial_no_def by (metis pad4_val same_append_eq)

lemma serial_le: "m \<le> 9999 \<Longrightarrow> n \<le> 9999 \<Longrightarrow> str_le (serial_no p m) (serial_no p n) \<longleftrightarrow> m \<le> n"
  by (simp add: serial_no_def str_le_append str_le_digits pad4_length pad4_digits pad4_val)

lemma next_number_serial:
  assumes "n < 2 ^ 62"
  shows "next_number p (Some (serial_no p n)) = int n + 1"
proof -
  have "pad_left 4 (show_nat n) \<noteq> []" by (simp add: pad_left_def)
  moreover have "atoi (pad_left 4 (show_nat n)) = Some (int n)"
    using assms by (intro atoi_pad_show) simp
  moreover have "int n < 2 ^ 62" using assms by (simp flip: of_nat_less_iff)
  ultimately show ?thesis by (simp add: next_number_def serial_no_def wrap64_def)
qed

lemma fmt_04d_nat: "fmt_04d (int n) = pad_left 4 (show_nat n)"
  by (simp add: fmt_04d_def)

lemma generate_quiet:
  assumes "script w = []" "p = serial_prefix (year_of (clock w)) typ"
  shows "generateSerialNumber typ w = (Inr (p @ fmt_04d (next_number p (last_serial p (db w)))), tick w)"
  using assms by (simp add: generateSerialNumber_def go_simps Let_def)

text \<open>Up to 9998 serials of the year and type, the generated one is the next number and new.\<close>

lemma generate_new:
  assumes "script w = []" "p = serial_prefix (year_of (clock w)) typ" "numbered p 9998 (db w)"
  shows "\<exists>n \<le> 9999. 0 < n \<and> generateSerialNumber typ w = (Inr (serial_no p n), tick w) \<and>
    serial_no p n \<notin> crt_SerialNumber ` set (t_certificates (db w)) \<and>
    (\<forall>k. serial_no p k \<in> crt_SerialNumber ` set (t_certificates (db w)) \<longrightarrow> k < n)"
proof (cases "last_serial p (db w)")
  case None
  then have none: "filter (\<lambda>s. has_prefix s p) (map crt_SerialNumber (t_certificates (db w))) = []"
    by (simp add: last_serial_def str_max_None)
  have no: "serial_no p k \<notin> crt_SerialNumber ` set (t_certificates (db w))" for k
  proof
    assume "serial_no p k \<in> crt_SerialNumber ` set (t_certificates (db w))"
    then have "serial_no p k \<in> set (filter (\<lambda>s. has_prefix s p) (map crt_SerialNumber (t_certificates (db w))))"
      by (simp add: serial_no_def)
    then show False by (simp add: none)
  qed
  have "generateSerialNumber typ w = (Inr (serial_no p 1), tick w)"
    using generate_quiet [OF assms(1,2)] None fmt_04d_nat [of 1] by (simp add: serial_no_def next_number_def)
  with no show ?thesis by (intro exI [of _ 1]) simp
next
  case (Some m)
  from str_max_Some [OF Some [unfolded last_serial_def]]
  have m: "m \<in> crt_SerialNumber ` set (t_certificates (db w))" "has_prefix m p"
    and top: "\<And>s. s \<in> crt_SerialNumber ` set (t_certificates (db w)) \<Longrightarrow> has_prefix s p \<Longrightarrow> str_le s m"
    by auto
  obtain k where k: "k \<le> 9998" "m = serial_no p k" using assms(3) m unfolding numbered_def by blast
  have below: "j \<le> k" if "serial_no p j \<in> crt_SerialNumber ` set (t_certificates (db w))" for j
  proof -
    have pre: "has_prefix (serial_no p j) p" by (simp add: serial_no_def)
    then have "j \<le> 9998" using assms(3) that unfolding numbered_def by (metis serial_no_inject)
    with top [OF that pre] k show ?thesis by (simp add: serial_le)
  qed
  have "fmt_04d (int k + 1) = pad_left 4 (show_nat (Suc k))" using fmt_04d_nat [of "Suc k"] by (simp add: add.commute)
  then have "generateSerialNumber typ w = (Inr (serial_no p (Suc k)), tick w)"
    using generate_quiet [OF assms(1,2)] Some k next_number_serial [of k p] by (simp add: serial_no_def)
  moreover have "serial_no p (Suc k) \<notin> crt_SerialNumber ` set (t_certificates (db w))"
    using below [of "Suc k"] by auto
  moreover have "j < Suc k" if "serial_no p j \<in> crt_SerialNumber ` set (t_certificates (db w))" for j
    using below [OF that] by simp
  ultimately show ?thesis using k(1) by (intro exI [of _ "Suc k"]) simp
qed

section \<open>Issuing\<close>

definition valid_input :: "IssueInput \<Rightarrow> bool" where
  "valid_input i \<longleftrightarrow> iss_UserID i \<noteq> [] \<and> iss_RefID i \<noteq> [] \<and> validCertType (iss_Type i)"

definition held :: "IssueInput \<Rightarrow> database \<Rightarrow> Certificate option" where
  "held i d = first_row (cert_of (iss_UserID i) (iss_Type i) (iss_RefID i)) (t_certificates d)"

lemma valid_type_not_Nil: "validCertType t \<Longrightarrow> t \<noteq> [] \<and> t \<in> set [''course'', ''degree'', ''hackathon'']"
  by (auto simp: validCertType_def)

text \<open>The row of an undisturbed issue: four readings of the clock after the serial's.\<close>

definition issued_row :: "IssueInput \<Rightarrow> string \<Rightarrow> world \<Rightarrow> Certificate" where
  "issued_row i serial w =
     (let now = clock (tick w); t2 = tick (tick w); t3 = tick t2; t4 = tick t3
      in (new_certificate i (uuid_src w (uuid_ix w)) serial
            (case iss_CompletedAt i of None \<Rightarrow> now | Some t \<Rightarrow> t) (clock t2) (clock t3))
          \<lparr>crt_RevokedAt := None, crt_CreatedAt := clock t4\<rparr>)"

lemma tick_uuid: "tick (w\<lparr>uuid_ix := n\<rparr>) = (tick w)\<lparr>uuid_ix := n\<rparr>"
  by (simp add: tick_eq)

lemma find_quiet:
  assumes "script w = []"
  shows "certificates_repo_FindByUserTypeRef u typ ref w =
    (case first_row (cert_of u typ ref) (t_certificates (db w)) of
       None \<Rightarrow> (Inl certificates_ErrNotFound, w) | Some c \<Rightarrow> (Inr (with_metadata c), w))"
  using assms
  by (simp add: certificates_repo_FindByUserTypeRef_def cert_repo_lookup_def
      q_GetCertificateByUserTypeRef_def go_simps split: option.splits)

lemma cert_audit_quiet:
  assumes "script w = []"
  shows "\<exists>as. db (snd (certificates_repo_WriteAudit u action entity eid details w)) =
    (db w)\<lparr>t_audit_logs := as\<rparr>"
proof -
  have same: "\<exists>as. d = d\<lparr>t_audit_logs := as\<rparr>" for d :: database
    by (rule exI [of _ "t_audit_logs d"]) simp
  show ?thesis
    using assms same [of "db w"]
    by (auto simp: certificates_repo_WriteAudit_def go_simps insert_audit_log_def)
qed

lemma issue_quiet:
  assumes "script w = []" "valid_input i" "held i (db w) = None"
    "generateSerialNumber (iss_Type i) w = (Inr serial, tick w)"
  shows "case insert_certificate (issued_row i serial w) (db w) of
      Inl e \<Rightarrow> fst (IssueCertificate i w) = Inl (Internal ''create certificate'' e) \<and>
        db (snd (IssueCertificate i w)) = db w
    | Inr (_, d) \<Rightarrow> (\<exists>x as. fst (IssueCertificate i w) = Inr x \<and> cdto_SerialNumber x = serial \<and>
        db (snd (IssueCertificate i w)) = d\<lparr>t_audit_logs := as\<rparr>)"
proof -
  define w4 where "w4 = tick (tick (tick (tick (tick w))))\<lparr>uuid_ix := Suc (uuid_ix w)\<rparr>"
  define cid where "cid = uuid_src w (uuid_ix w)"
  define c0 where "c0 = new_certificate i cid serial
      (case iss_CompletedAt i of None \<Rightarrow> clock (tick w) | Some t \<Rightarrow> t)
      (clock (tick (tick w))) (clock (tick (tick (tick w))))"
  define audit where "audit = certificates_repo_WriteAudit (iss_UserID i) ''certificate.issue''
      ''Certificate'' cid (issue_details (iss_Type i) (iss_RefID i) serial)"
  have q4: "script w4 = []" "db w4 = db w" using assms(1) by (simp_all add: w4_def)
  have run: "IssueCertificate i w =
      (case insert_certificate (issued_row i serial w) (db w) of
         Inl e \<Rightarrow> (Inl (Internal ''create certificate'' e), w4)
       | Inr (_, d) \<Rightarrow> (Inr (toCertDTO c0 None None), snd ((audit :: unit io) (w4\<lparr>db := d\<rparr>))))"
    using assms valid_type_not_Nil
    by (auto simp: IssueCertificate_def valid_input_def held_def find_quiet go_simps Let_def
        certificates_repo_Create_def q_CreateCertificate_def tick_uuid issued_row_def w4_def c0_def
        audit_def cid_def split: sum.splits)
  have dto: "cdto_SerialNumber (toCertDTO c0 None None) = serial"
    by (simp add: toCertDTO_def c0_def new_certificate_def)
  have aud: "\<exists>as. db (snd (audit (w4\<lparr>db := d\<rparr>))) = d\<lparr>t_audit_logs := as\<rparr>" for d
    using cert_audit_quiet [of "w4\<lparr>db := d\<rparr>"] q4(1) by (simp add: audit_def)
  show ?thesis
    by (cases "insert_certificate (issued_row i serial w) (db w)") (auto simp: run q4(2) dto aud)
qed

text \<open>With fewer than 9999 serials of the year and type, the generated serial is the next
  number: it is new and above every number in use.\<close>

theorem serial_is_new:
  assumes "script w = []" "p = serial_prefix (year_of (clock w)) typ" "numbered p 9998 (db w)"
  shows "\<exists>n \<le> 9999. 0 < n \<and> fst (generateSerialNumber typ w) = Inr (serial_no p n) \<and>
    serial_no p n \<notin> crt_SerialNumber ` set (t_certificates (db w)) \<and>
    (\<forall>k. serial_no p k \<in> crt_SerialNumber ` set (t_certificates (db w)) \<longrightarrow> k < n)"
  using generate_new [OF assms] by (metis fst_conv)

definition demo_prefix :: string where
  "demo_prefix = serial_prefix (year_of 1000) ''course''"

definition demo_certificate :: "string \<Rightarrow> nat \<Rightarrow> int option \<Rightarrow> Certificate" where
  "demo_certificate cid n revokedAt =
     \<lparr> crt_ID = cid, crt_UserID = ''u2'', crt_Type = ''course'', crt_RefID = ''ref'' @ show_nat n,
       crt_Title = [], crt_Description = None,
       crt_SerialNumber = serial_no demo_prefix n, crt_IssuedAt = 0,
       crt_CompletedAt = 0, crt_ImageUrl = None, crt_VerifyUrl = None, crt_Metadata = None,
       crt_RevokedAt = revokedAt, crt_CreatedAt = 0, crt_UpdatedAt = 0 \<rparr>"

definition cert_world :: "Certificate list \<Rightarrow> world" where
  "cert_world cs = demo_world ((demo_database [] [])\<lparr>t_certificates := cs\<rparr>)"

definition demo_issue :: IssueInput where
  "demo_issue = \<lparr> iss_UserID = ''u1'', iss_Type = ''course'', iss_RefID = ''paid'', iss_Title = [],
     iss_Description = [], iss_CompletedAt = None, iss_Metadata = None \<rparr>"

lemma cert_world_facts [simp]:
  "script (cert_world cs) = []" "t_certificates (db (cert_world cs)) = cs"
  "clock (cert_world cs) = 1000" "user_exists (db (cert_world cs)) ''u1''"
  "uuid_ix (cert_world cs) = 0" "uuid_src (cert_world cs) = demo_uuid"
  by (simp_all add: cert_world_def demo_defs user_exists_def)

theorem serial_is_new_witness:
  "\<exists>n. 7 < n \<and> fst (generateSerialNumber ''course'' (cert_world [demo_certificate ''c'' 7 None])) =
     Inr (serial_no demo_prefix n)"
proof -
  have "numbered demo_prefix 9998 (db (cert_world [demo_certificate ''c'' 7 None]))"
    by (auto simp: numbered_def demo_certificate_def intro: exI [of _ 7])
  from serial_is_new [OF _ _ this, of "''course''"] obtain n where
    "fst (generateSerialNumber ''course'' (cert_world [demo_certificate ''c'' 7 None])) =
       Inr (serial_no demo_prefix n)"
    "\<forall>k. serial_no demo_prefix k \<in> {serial_no demo_prefix 7} \<longrightarrow> k < n"
    by (auto simp: demo_certificate_def demo_prefix_def)
  then show ?thesis by (intro exI [of _ n]) simp
qed

text \<open>When 9999 and 10000 are both stored, the greatest string is still 9999.\<close>

lemma serial_top:
  assumes "numbered p 10000 d" "serial_no p 9999 \<in> crt_SerialNumber ` set (t_certificates d)"
  shows "last_serial p d = Some (serial_no p 9999)"
  unfolding last_serial_def
proof (rule str_max_eq)
  show "serial_no p 9999 \<in> set (filter (\<lambda>s. has_prefix s p) (map crt_SerialNumber (t_certificates d)))"
    using assms(2) by (simp add: serial_no_def)
next
  fix s assume "s \<in> set (filter (\<lambda>s. has_prefix s p) (map crt_SerialNumber (t_certificates d)))"
  then obtain n where n: "n \<le> 10000" "s = serial_no p n"
    using assms(1) by (force simp: numbered_def)
  have "str_le (pad_left 4 (show_nat 10000)) (pad_left 4 (show_nat 9999))"
    by (simp add: show_nat.simps pad_left_def byte_of_def digit_char_def)
  with n show "str_le s (serial_no p 9999)"
    by (cases "n = 10000") (simp_all add: serial_le, simp add: serial_no_def str_le_append)
qed

lemma insert_certificate_dup:
  "validCertType (crt_Type r) \<Longrightarrow> c \<in> set (t_certificates d) \<Longrightarrow>
   crt_SerialNumber r = crt_SerialNumber c \<Longrightarrow> insert_certificate r d = Inl ErrDuplicate"
  using bexI [of "crt_conflict r" c "set (t_certificates d)"]
  by (simp add: insert_certificate_def validCertType_def crt_conflict_def list_ex_iff)

lemma issue_stuck:
  assumes "script w = []" "valid_input i" "held i (db w) = None"
    and "p = serial_prefix (year_of (clock w)) (iss_Type i)" "numbered p 10000 (db w)"
    and "{serial_no p 9999, serial_no p 10000} \<subseteq> crt_SerialNumber ` set (t_certificates (db w))"
  shows "fst (IssueCertificate i w) = Inl (Internal ''create certificate'' ErrDuplicate) \<and>
    db (snd (IssueCertificate i w)) = db w"
proof -
  have "last_serial p (db w) = Some (serial_no p 9999)" using serial_top assms(5,6) by simp
  then have gen: "generateSerialNumber (iss_Type i) w = (Inr (serial_no p 10000), tick w)"
    using generate_quiet [OF assms(1,4)] next_number_serial [of 9999 p] fmt_04d_nat [of 10000]
    by (simp add: serial_no_def)
  have "crt_SerialNumber (issued_row i (serial_no p 10000) w) = serial_no p 10000"
    "crt_Type (issued_row i (serial_no p 10000) w) = iss_Type i"
    by (simp_all add: issued_row_def new_certificate_def Let_def)
  moreover obtain c where "c \<in> set (t_certificates (db w))" "crt_SerialNumber c = serial_no p 10000"
    using assms(6) by auto
  ultimately have "insert_certificate (issued_row i (serial_no p 10000) w) (db w) = Inl ErrDuplicate"
    using assms(2) by (intro insert_certificate_dup [of _ c]) (auto simp: valid_input_def)
  with issue_quiet [OF assms(1-3) gen] show ?thesis by simp
qed

text \<open>C8: once numbers 9999 and 10000 of a year and type are stored, every further issue of the
  type in that year fails with an internal error and leaves the database as it was: the
  generator compares the numbers as strings and proposes 10000 again.\<close>

theorem serials_run_out:
  assumes "script w = []" "valid_input i" "held i (db w) = None"
    and "p = serial_prefix (year_of (clock w)) (iss_Type i)" "numbered p 10000 (db w)"
    and "{serial_no p 9999, serial_no p 10000} \<subseteq> crt_SerialNumber ` set (t_certificates (db w))"
  shows "fst (IssueCertificate i w) = Inl (Internal ''create certificate'' ErrDuplicate) \<and>
    db (snd (IssueCertificate i w)) = db w"
  using assms by (rule issue_stuck)

definition full_certs :: "Certificate list" where
  "full_certs = [demo_certificate ''c1'' 9999 None, demo_certificate ''c2'' 10000 None]"

theorem serials_run_out_witness:
  "fst (IssueCertificate demo_issue (cert_world full_certs)) =
     Inl (Internal ''create certificate'' ErrDuplicate)"
proof -
  have "valid_input demo_issue" "iss_Type demo_issue = ''course''"
    "held demo_issue (db (cert_world full_certs)) = None"
    by (simp_all add: valid_input_def demo_issue_def validCertType_def held_def full_certs_def
        cert_of_def demo_certificate_def)
  moreover have "numbered demo_prefix 10000 (db (cert_world full_certs))"
    by (auto simp: numbered_def full_certs_def demo_certificate_def)
  moreover have "{serial_no demo_prefix 9999, serial_no demo_prefix 10000} \<subseteq>
      crt_SerialNumber ` set (t_certificates (db (cert_world full_certs)))"
    by (simp add: full_certs_def demo_certificate_def)
  ultimately show ?thesis
    using serials_run_out [of "cert_world full_certs" demo_issue demo_prefix] by (simp add: demo_prefix_def)
qed

text \<open>Issuing again for the same user, type and reference returns the stored certificate and
  changes nothing, revoked or not: a revoked certificate is never replaced.\<close>

theorem reissue_returns_existing:
  assumes "script w = []" "valid_input i" "held i (db w) = Some c"
  shows "IssueCertificate i w = (Inr (toCertDTO (with_metadata c) None None), w)"
  using assms valid_type_not_Nil
  by (auto simp: IssueCertificate_def valid_input_def held_def find_quiet go_simps)

theorem reissue_returns_existing_witness:
  "\<exists>x. IssueCertificate (demo_issue\<lparr>iss_UserID := ''u2'', iss_RefID := ''ref7''\<rparr>)
        (cert_world [demo_certificate ''c'' 7 (Some 5)]) =
      (Inr x, cert_world [demo_certificate ''c'' 7 (Some 5)]) \<and> cdto_RevokedAt x \<noteq> None"
proof -
  let ?i = "demo_issue\<lparr>iss_UserID := ''u2'', iss_RefID := ''ref7''\<rparr>"
  have "show_nat 7 = ''7''" by code_simp
  then have "held ?i (db (cert_world [demo_certificate ''c'' 7 (Some 5)])) =
      Some (demo_certificate ''c'' 7 (Some 5))"
    by (simp add: held_def cert_of_def demo_certificate_def demo_issue_def)
  moreover have "valid_input ?i" by (simp add: valid_input_def demo_issue_def validCertType_def)
  ultimately show ?thesis using reissue_returns_existing [of "cert_world [demo_certificate ''c'' 7 (Some 5)]" ?i]
    by (simp add: toCertDTO_def with_metadata_def demo_certificate_def)
qed

section \<open>Verification\<close>

lemma GetUserName_quiet:
  assumes "script w = []"
  shows "certificates_repo_GetUserName u w =
    (Inr (case first_row (\<lambda>r. usr_ID r = u) (t_users (db w)) of None \<Rightarrow> [] | Some r \<Rightarrow> usr_Name r), w)"
  using assms by (simp add: certificates_repo_GetUserName_def go_simps split: option.splits)

lemma with_metadata_simps [simp]:
  "crt_ID (with_metadata c) = crt_ID c" "crt_UserID (with_metadata c) = crt_UserID c"
  "crt_Type (with_metadata c) = crt_Type c" "crt_RefID (with_metadata c) = crt_RefID c"
  "crt_SerialNumber (with_metadata c) = crt_SerialNumber c"
  "crt_RevokedAt (with_metadata c) = crt_RevokedAt c"
  by (simp_all add: with_metadata_def split: option.splits)

text \<open>What verification answers, from the row the serial finds.\<close>

lemma verify_quiet:
  assumes "script w = []"
  shows "\<exists>holder. VerifyCertificate serial w =
    (Inr (case first_row (\<lambda>c. crt_SerialNumber c = serial) (t_certificates (db w)) of
       None \<Rightarrow> \<lparr> vfy_Valid = False, vfy_Reason = ''not_found'', vfy_Certificate = None \<rparr>
     | Some c \<Rightarrow>
         (case crt_RevokedAt c of
            Some t \<Rightarrow> \<lparr> vfy_Valid = False, vfy_Reason = ''revoked'',
               vfy_Certificate = Some (revoked_partial serial (Some (fmt_iso t))) \<rparr>
          | None \<Rightarrow> \<lparr> vfy_Valid = True, vfy_Reason = [],
               vfy_Certificate = Some (toCertDTO (with_metadata c) (Some holder) None) \<rparr>)), w)"
proof (cases "first_row (\<lambda>c. crt_SerialNumber c = serial) (t_certificates (db w))")
  case None
  then show ?thesis
    using assms by (simp add: VerifyCertificate_def certificates_repo_GetBySerial_def cert_repo_lookup_def
        q_GetCertificateBySerial_def go_simps)
next
  case (Some c)
  then have "crt_SerialNumber c = serial" using first_row_Some by fast
  with Some assms show ?thesis
    by (cases "crt_RevokedAt c") (auto simp: VerifyCertificate_def certificates_repo_GetBySerial_def
        cert_repo_lookup_def q_GetCertificateBySerial_def go_simps GetUserName_quiet Let_def)
qed

lemma first_row_snoc: "first_row P rs = None \<Longrightarrow> P r \<Longrightarrow> first_row P (rs @ [r]) = Some r"
  by (simp add: first_row_append)

lemma issue_new_quiet:
  assumes "script w = []" "valid_input i" "held i (db w) = None"
    and "p = serial_prefix (year_of (clock w)) (iss_Type i)" "numbered p 9998 (db w)"
    and "user_exists (db w) (iss_UserID i)"
    and "uuid_src w (uuid_ix w) \<notin> crt_ID ` set (t_certificates (db w))"
  shows "\<exists>x w' c. IssueCertificate i w = (Inr x, w') \<and> script w' = [] \<and>
    first_row (\<lambda>c. crt_SerialNumber c = cdto_SerialNumber x) (t_certificates (db w')) = Some c \<and>
    cert_of (iss_UserID i) (iss_Type i) (iss_RefID i) c \<and> crt_RevokedAt c = None"
proof -
  obtain n where n: "generateSerialNumber (iss_Type i) w = (Inr (serial_no p n), tick w)"
    "serial_no p n \<notin> crt_SerialNumber ` set (t_certificates (db w))"
    using generate_new [OF assms(1,4,5)] by blast
  define c where "c = issued_row i (serial_no p n) w"
  have c: "crt_SerialNumber c = serial_no p n" "crt_Type c = iss_Type i" "crt_UserID c = iss_UserID i"
    "crt_RefID c = iss_RefID i" "crt_ID c = uuid_src w (uuid_ix w)" "crt_RevokedAt c = None"
    by (simp_all add: c_def issued_row_def new_certificate_def Let_def)
  have "\<not> list_ex (crt_conflict c) (t_certificates (db w))"
    using n(2) assms(7) by (auto simp: list_ex_iff crt_conflict_def c)
  then have ins: "insert_certificate c (db w) =
      Inr ((), (db w)\<lparr>t_certificates := t_certificates (db w) @ [c]\<rparr>)"
    using assms(2,6) valid_type_not_Nil [of "iss_Type i"]
    by (simp add: insert_certificate_def c valid_input_def)
  obtain x as where x: "fst (IssueCertificate i w) = Inr x" "cdto_SerialNumber x = serial_no p n"
    "db (snd (IssueCertificate i w)) =
       (db w)\<lparr>t_certificates := t_certificates (db w) @ [c], t_audit_logs := as\<rparr>"
    using issue_quiet [OF assms(1-3) n(1), folded c_def] ins by auto
  have "first_row (\<lambda>r. crt_SerialNumber r = serial_no p n) (t_certificates (db w) @ [c]) = Some c"
    using n(2) by (intro first_row_snoc) (auto simp: first_row_None c image_iff)
  moreover have "script (snd (IssueCertificate i w)) = []"
    using quiet_script [OF cert_life_writes.within_IssueCertificate assms(1)] .
  moreover have "cert_of (iss_UserID i) (iss_Type i) (iss_RefID i) c" by (simp add: cert_of_def c)
  ultimately show ?thesis
    using x c(6) by (intro exI [of _ x] exI [of _ "snd (IssueCertificate i w)"] exI [of _ c])
      (simp add: prod_eq_iff)
qed

text \<open>C7: a certificate issued in an undisturbed run verifies at once under the serial it was
  returned with, for the user, type and reference it was issued for.\<close>

theorem issued_verifies:
  assumes "script w = []" "valid_input i" "held i (db w) = None"
    and "p = serial_prefix (year_of (clock w)) (iss_Type i)" "numbered p 9998 (db w)"
    and "user_exists (db w) (iss_UserID i)"
    and "uuid_src w (uuid_ix w) \<notin> crt_ID ` set (t_certificates (db w))"
  shows "\<exists>x w' v y. IssueCertificate i w = (Inr x, w') \<and>
    VerifyCertificate (cdto_SerialNumber x) w' = (Inr v, w') \<and> vfy_Valid v \<and>
    vfy_Certificate v = Some y \<and> cdto_UserID y = iss_UserID i \<and> cdto_Type y = iss_Type i \<and>
    cdto_RefID y = iss_RefID i"
proof -
  obtain x w' c where x: "IssueCertificate i w = (Inr x, w')" "script w' = []"
    "first_row (\<lambda>c. crt_SerialNumber c = cdto_SerialNumber x) (t_certificates (db w')) = Some c"
    "cert_of (iss_UserID i) (iss_Type i) (iss_RefID i) c" "crt_RevokedAt c = None"
    using issue_new_quiet [OF assms] by blast
  with verify_quiet [OF x(2), of "cdto_SerialNumber x"] show ?thesis
    by (auto simp: toCertDTO_def cert_of_def)
qed

theorem issued_verifies_witness:
  "\<exists>x w' v. IssueCertificate demo_issue (cert_world []) = (Inr x, w') \<and>
     VerifyCertificate (cdto_SerialNumber x) w' = (Inr v, w') \<and> vfy_Valid v"
proof -
  have "valid_input demo_issue" "held demo_issue (db (cert_world [])) = None"
    "user_exists (db (cert_world [])) (iss_UserID demo_issue)"
    by (simp_all add: valid_input_def demo_issue_def validCertType_def held_def)
  then show ?thesis
    using issued_verifies [of "cert_world []" demo_issue] by (fastforce simp: numbered_def)
qed

section \<open>Revocation\<close>

lemma GetCert_quiet:
  assumes "script w = []"
  shows "certificates_repo_GetByID cid w =
    (case first_row (\<lambda>c. crt_ID c = cid) (t_certificates (db w)) of
       None \<Rightarrow> (Inl certificates_ErrNotFound, w) | Some c \<Rightarrow> (Inr (with_metadata c), w))"
  using assms
  by (simp add: certificates_repo_GetByID_def cert_repo_lookup_def q_GetCertificateByID_def go_simps
      split: option.splits)

lemma revoke_quiet:
  assumes "script w = []" "first_row (\<lambda>c. crt_ID c = cid) (t_certificates (db w)) = Some c"
    "crt_RevokedAt c = None"
  shows "\<exists>x w' as. RevokeCertificate cid adm w = (Inr x, w') \<and> script w' = [] \<and>
    db w' = (db w)\<lparr>t_certificates := upd (\<lambda>c. crt_ID c = cid \<and> crt_RevokedAt c = None)
       (\<lambda>c. c\<lparr>crt_RevokedAt := Some (clock w), crt_UpdatedAt := clock w\<rparr>) (t_certificates (db w)),
       t_audit_logs := as\<rparr>"
proof -
  let ?P = "\<lambda>c. crt_ID c = cid \<and> crt_RevokedAt c = None"
  let ?f = "\<lambda>c. c\<lparr>crt_RevokedAt := Some (clock w), crt_UpdatedAt := clock w\<rparr>"
  define w1 where "w1 = (tick w)\<lparr>db := (db w)\<lparr>t_certificates := upd ?P ?f (t_certificates (db w))\<rparr>\<rparr>"
  from first_row_Some [OF assms(2)] have c: "c \<in> set (t_certificates (db w))" "crt_ID c = cid" by auto
  have "?f c \<noteq> c" using assms(3) by (metis Certificate.select_convs(13) Certificate.surjective
        Certificate.update_convs(13) option.distinct(1) Certificate.update_convs(15))
  then have "changed ?P ?f (t_certificates (db w)) \<noteq> 0"
    using c assms(3) by (auto simp: changed_def filter_empty_conv)
  then have rev: "\<exists>n. certificates_repo_Revoke cid w = (Inr n, w1)"
    using assms(1) by (simp add: certificates_repo_Revoke_def go_simps sql_revoke_certificate_def Let_def w1_def)
  have "first_row (\<lambda>c. crt_ID c = cid) (t_certificates (db w1)) \<noteq> None"
    using first_row_upd [of ?P "\<lambda>c. crt_ID c = cid" ?f "t_certificates (db w)"] assms(2)
    by (simp add: w1_def)
  then obtain c' where c': "certificates_repo_GetByID cid w1 = (Inr c', w1)"
    using GetCert_quiet [of w1 cid] assms(1) by (auto simp: w1_def)
  define w2 where "w2 = snd (certificates_repo_WriteAudit adm ''certificate.revoke'' ''Certificate'' cid
      ([CHR 0x7B] @ quoted ''serialNumber'' @ '':'' @ quoted (crt_SerialNumber c') @ [CHR 0x7D]) w1)"
  have q1: "script w1 = []" using assms(1) by (simp add: w1_def)
  obtain as where "db w2 = (db w1)\<lparr>t_audit_logs := as\<rparr>"
    unfolding w2_def using cert_audit_quiet [of w1] assms(1) by (metis q1)
  moreover have run: "RevokeCertificate cid adm w = (Inr (toCertDTO c' None None), w2)"
    using assms c' rev GetCert_quiet [OF assms(1), of cid]
    by (auto simp: RevokeCertificate_def go_simps w2_def)
  moreover have "script w2 = []"
    using quiet_script [OF cert_life_writes.within_RevokeCertificate assms(1), of cid adm] run by simp
  ultimately show ?thesis by (auto simp: w1_def)
qed

text \<open>Revoking a stored certificate that is not revoked yet succeeds; after it the serial
  verifies as revoked, showing nothing of the certificate but serial and time, and a second
  revocation is refused with a conflict.\<close>

theorem revoked_is_final:
  assumes "script w = []" "crt_keys (db w)" "c \<in> set (t_certificates (db w))" "crt_ID c = cid"
    "crt_RevokedAt c = None"
  shows "\<exists>x w' v t. RevokeCertificate cid adm w = (Inr x, w') \<and>
    VerifyCertificate (crt_SerialNumber c) w' = (Inr v, w') \<and> \<not> vfy_Valid v \<and>
    vfy_Reason v = ''revoked'' \<and>
    vfy_Certificate v = Some (revoked_partial (crt_SerialNumber c) (Some (fmt_iso t))) \<and>
    fst (RevokeCertificate cid adm' w') = Inl (Conflict ''Certificate already revoked'')"
proof -
  let ?f = "\<lambda>c. c\<lparr>crt_RevokedAt := Some (clock w), crt_UpdatedAt := clock w\<rparr>"
  have one: "first_row P (t_certificates (db w)) = Some c"
    if "P c" "\<And>x. P x \<Longrightarrow> crt_conflict x c" for P
  proof -
    have "first_row P (t_certificates (db w)) \<noteq> None"
      using assms(3) that(1) first_row_None [of P "t_certificates (db w)"] by blast
    then obtain r where "first_row P (t_certificates (db w)) = Some r" by blast
    moreover from first_row_Some [OF this] that(2) have "r = c"
      using no_conflicts_unique [OF assms(2) conflict_sym(4) _ assms(3), of r] by blast
    ultimately show ?thesis by simp
  qed
  have byid: "first_row (\<lambda>x. crt_ID x = cid) (t_certificates (db w)) = Some c"
    and bysn: "first_row (\<lambda>x. crt_SerialNumber x = crt_SerialNumber c) (t_certificates (db w)) = Some c"
    using assms(4) by (auto intro!: one simp: crt_conflict_def)
  obtain x w' as where x: "RevokeCertificate cid adm w = (Inr x, w')" "script w' = []"
    "t_certificates (db w') = upd (\<lambda>c. crt_ID c = cid \<and> crt_RevokedAt c = None) ?f (t_certificates (db w))"
    using revoke_quiet [OF assms(1) byid assms(5)] by fastforce
  have id': "first_row (\<lambda>x. crt_ID x = cid) (t_certificates (db w')) = Some (?f c)"
    and sn': "first_row (\<lambda>x. crt_SerialNumber x = crt_SerialNumber c) (t_certificates (db w')) = Some (?f c)"
    unfolding x(3) using byid bysn assms(4,5) by (subst first_row_upd; simp)+
  have "fst (RevokeCertificate cid adm' w') = Inl (Conflict ''Certificate already revoked'')"
    using GetCert_quiet [OF x(2), of cid] id' by (simp add: RevokeCertificate_def go_simps)
  moreover have "VerifyCertificate (crt_SerialNumber c) w' = (Inr \<lparr> vfy_Valid = False,
      vfy_Reason = ''revoked'', vfy_Certificate =
        Some (revoked_partial (crt_SerialNumber c) (Some (fmt_iso (clock w)))) \<rparr>, w')"
    using verify_quiet [OF x(2), of "crt_SerialNumber c"] sn' by simp
  ultimately show ?thesis
    using x(1) by (intro exI [of _ x] exI [of _ w'] exI [of _ "\<lparr> vfy_Valid = False,
      vfy_Reason = ''revoked'', vfy_Certificate =
        Some (revoked_partial (crt_SerialNumber c) (Some (fmt_iso (clock w)))) \<rparr>"]
      exI [of _ "clock w"]) simp
qed

theorem revoked_is_final_witness:
  "\<exists>x w'. RevokeCertificate ''c'' ''adm'' (cert_world [demo_certificate ''c'' 7 None]) = (Inr x, w') \<and>
     fst (RevokeCertificate ''c'' ''adm'' w') = Inl (Conflict ''Certificate already revoked'')"
  using revoked_is_final [of "cert_world [demo_certificate ''c'' 7 None]" "demo_certificate ''c'' 7 None"
      "''c''" "''adm''" "''adm''"]
  by (auto simp: no_conflicts_def demo_certificate_def)

theorem certificates_only_revoked_witness:
  "crt_keys (db (snd (RevokeCertificate ''c1'' ''adm'' (cert_world full_certs))))"
proof -
  have "rely_ok cert_life (cert_world full_certs)" by (simp add: rely_ok_def)
  moreover have "crt_keys (db (cert_world full_certs))"
    by (simp add: full_certs_def no_conflicts_def crt_conflict_def demo_certificate_def)
  ultimately show ?thesis using certificates_only_revoked by blast
qed

end
