(* ===== verification/Notifications.thy ===== *)
theory Notifications
  imports Demo Tables
begin

text \<open>
  \<open>internal/notifications\<close> and \<open>internal/repo/db/notifications.sql.go\<close>: the user's inbox.  A
  notification's contents never change; reading and deleting act on the caller's rows only
  and are never undone; after "mark all read" nothing is unread.
\<close>

section \<open>Statements\<close>

definition q_ListNotificationsByUser :: "string \<Rightarrow> nat \<Rightarrow> Notification list io" where
  "q_ListNotificationsByUser u limit = query (\<lambda>d. take limit (sort_desc ntf_CreatedAt
     (filter (\<lambda>n. ntf_UserID n = u \<and> ntf_DeletedAt n = None) (t_notifications d))))"

definition unread_of :: "string \<Rightarrow> Notification \<Rightarrow> bool" where
  "unread_of u n \<longleftrightarrow> ntf_UserID n = u \<and> \<not> ntf_IsRead n \<and> ntf_DeletedAt n = None"

definition q_CountUnreadNotifications :: "string \<Rightarrow> int io" where
  "q_CountUnreadNotifications u = query (\<lambda>d. count_rows (unread_of u) (t_notifications d))"

definition update_notifications ::
  "(Notification \<Rightarrow> bool) \<Rightarrow> (Notification \<Rightarrow> Notification) \<Rightarrow> unit stmt" where
  "update_notifications P f = (\<lambda>d. Inr ((), d\<lparr>t_notifications := upd P f (t_notifications d)\<rparr>))"

definition sql_mark_read :: "int \<Rightarrow> string \<Rightarrow> string \<Rightarrow> unit stmt" where
  "sql_mark_read now nid u = update_notifications (\<lambda>n. ntf_ID n = nid \<and> ntf_UserID n = u)
     (\<lambda>n. n\<lparr>ntf_IsRead := True, ntf_ReadAt := Some now\<rparr>)"

definition sql_mark_all_read :: "int \<Rightarrow> string \<Rightarrow> unit stmt" where
  "sql_mark_all_read now u = update_notifications (unread_of u)
     (\<lambda>n. n\<lparr>ntf_IsRead := True, ntf_ReadAt := Some now\<rparr>)"

definition sql_soft_delete_notification :: "int \<Rightarrow> string \<Rightarrow> string \<Rightarrow> unit stmt" where
  "sql_soft_delete_notification now nid u =
     update_notifications (\<lambda>n. ntf_ID n = nid \<and> ntf_UserID n = u) (\<lambda>n. n\<lparr>ntf_DeletedAt := Some now\<rparr>)"

definition sql_clear_read :: "int \<Rightarrow> string \<Rightarrow> unit stmt" where
  "sql_clear_read now u =
     update_notifications (\<lambda>n. ntf_UserID n = u \<and> ntf_IsRead n \<and> ntf_DeletedAt n = None)
       (\<lambda>n. n\<lparr>ntf_DeletedAt := Some now\<rparr>)"

definition q_CreateNotification :: "Notification \<Rightarrow> unit io" where
  "q_CreateNotification n =
     exec (insert_notification (n\<lparr>ntf_IsRead := False, ntf_ReadAt := None, ntf_DeletedAt := None\<rparr>))"

section \<open>Repo\<close>

definition notifications_repo_ListByUser :: "string \<Rightarrow> nat \<Rightarrow> Notification list io" where
  "notifications_repo_ListByUser u limit =
     call (q_ListNotificationsByUser u limit) (\<lambda>e. fail (Wrap ''notifications.repo: list'' e)) ret"

definition notifications_repo_CountUnread :: "string \<Rightarrow> int io" where
  "notifications_repo_CountUnread u = q_CountUnreadNotifications u"

definition notifications_repo_MarkRead :: "string \<Rightarrow> string \<Rightarrow> unit io" where
  "notifications_repo_MarkRead u nid = bind go_now (\<lambda>now. exec (sql_mark_read now nid u))"

definition notifications_repo_MarkAllRead :: "string \<Rightarrow> unit io" where
  "notifications_repo_MarkAllRead u = bind go_now (\<lambda>now. exec (sql_mark_all_read now u))"

definition notifications_repo_SoftDelete :: "string \<Rightarrow> string \<Rightarrow> unit io" where
  "notifications_repo_SoftDelete u nid =
     bind go_now (\<lambda>now. exec (sql_soft_delete_notification now nid u))"

definition notifications_repo_ClearRead :: "string \<Rightarrow> unit io" where
  "notifications_repo_ClearRead u = bind go_now (\<lambda>now. exec (sql_clear_read now u))"

definition notifications_repo_Create :: "Notification \<Rightarrow> unit io" where
  "notifications_repo_Create n = q_CreateNotification n"

section \<open>Service\<close>

record NotificationDTO =
  ndto_ID :: string
  ndto_UserID :: string
  ndto_Type :: string
  ndto_Title :: string
  ndto_Body :: string
  ndto_LinkURL :: "string option"
  ndto_IsRead :: bool
  ndto_ReadAt :: "string option"
  ndto_CreatedAt :: string

definition toNotificationDTO :: "Notification \<Rightarrow> NotificationDTO" where
  "toNotificationDTO n =
     \<lparr> ndto_ID = ntf_ID n, ndto_UserID = ntf_UserID n, ndto_Type = ntf_Type n,
       ndto_Title = ntf_Title n, ndto_Body = ntf_Body n, ndto_LinkURL = ntf_LinkUrl n,
       ndto_IsRead = ntf_IsRead n, ndto_ReadAt = map_option fmt_iso (ntf_ReadAt n),
       ndto_CreatedAt = fmt_iso (ntf_CreatedAt n) \<rparr>"

record NotificationList =
  nls_Items :: "NotificationDTO list"
  nls_UnreadCount :: int

definition notifications_List :: "string \<Rightarrow> NotificationList io" where
  "notifications_List u =
     call (notifications_repo_ListByUser u 100) (\<lambda>e. fail (Internal ''list notifications'' e)) (\<lambda>rows.
     call (notifications_repo_CountUnread u) (\<lambda>e. fail (Internal ''count unread'' e)) (\<lambda>unread.
     ret \<lparr> nls_Items = map toNotificationDTO rows, nls_UnreadCount = unread \<rparr>))"

definition notifications_UnreadCount :: "string \<Rightarrow> int io" where
  "notifications_UnreadCount u = notifications_repo_CountUnread u"

definition notifications_MarkRead :: "string \<Rightarrow> string \<Rightarrow> unit io" where
  "notifications_MarkRead u nid =
     call (notifications_repo_MarkRead u nid) (\<lambda>e. fail (Internal ''mark read'' e)) ret"

definition notifications_MarkAllRead :: "string \<Rightarrow> unit io" where
  "notifications_MarkAllRead u =
     call (notifications_repo_MarkAllRead u) (\<lambda>e. fail (Internal ''mark all read'' e)) ret"

definition notifications_Delete :: "string \<Rightarrow> string \<Rightarrow> unit io" where
  "notifications_Delete u nid =
     call (notifications_repo_SoftDelete u nid) (\<lambda>e. fail (Internal ''delete'' e)) ret"

definition notifications_ClearRead :: "string \<Rightarrow> unit io" where
  "notifications_ClearRead u =
     call (notifications_repo_ClearRead u) (\<lambda>e. fail (Internal ''clear read'' e)) ret"

record CreateNotificationInput =
  cni_UserID :: string
  cni_Type :: string
  cni_Title :: string
  cni_Body :: string
  cni_LinkURL :: string

definition validNotificationType :: "string \<Rightarrow> bool" where
  "validNotificationType s \<longleftrightarrow> s \<in> set [''announcement'', ''comment'', ''hackathon'', ''order'']"

definition CreateNotification :: "CreateNotificationInput \<Rightarrow> unit io" where
  "CreateNotification i =
     (if cni_UserID i = [] \<or> cni_Type i = [] then fail (BadRequest ''userId + type required'')
      else if \<not> validNotificationType (cni_Type i) then fail (BadRequest ''invalid type'')
      else
        bind new_uuid (\<lambda>nid. bind go_now (\<lambda>now.
        (let n = \<lparr> ntf_ID = nid, ntf_UserID = cni_UserID i, ntf_Type = cni_Type i,
                   ntf_Title = cni_Title i, ntf_Body = cni_Body i,
                   ntf_LinkUrl = (if cni_LinkURL i \<noteq> [] then Some (cni_LinkURL i) else None),
                   ntf_IsRead = False, ntf_ReadAt = None, ntf_DeletedAt = None,
                   ntf_CreatedAt = now \<rparr>
         in call (notifications_repo_Create n) (\<lambda>e. fail (Internal ''create notification'' e)) ret))))"

section \<open>What the operations may do to the database\<close>

locale notification_writes = db_frame +
  assumes ok_insert_notification: "stmt_ok R (insert_notification n)"
begin

lemma within_CreateNotification: "within (db_step R) (CreateNotification i)"
  unfolding CreateNotification_def notifications_repo_Create_def q_CreateNotification_def Let_def
  by (intro within_intros within_exec [OF ok_insert_notification])

end

text \<open>The operations of one user's inbox.\<close>

locale inbox_writes = db_frame +
  fixes u :: string
  assumes ok_mark_read: "stmt_ok R (sql_mark_read now nid u)"
    and ok_mark_all_read: "stmt_ok R (sql_mark_all_read now u)"
    and ok_soft_delete: "stmt_ok R (sql_soft_delete_notification now nid u)"
    and ok_clear_read: "stmt_ok R (sql_clear_read now u)"
begin

lemmas inbox_intros = within_intros within_exec [OF ok_mark_read] within_exec [OF ok_mark_all_read]
  within_exec [OF ok_soft_delete] within_exec [OF ok_clear_read]

lemma within_inbox:
  "within (db_step R) (notifications_MarkRead u nid)"
  "within (db_step R) (notifications_MarkAllRead u)"
  "within (db_step R) (notifications_Delete u nid)"
  "within (db_step R) (notifications_ClearRead u)"
  unfolding notifications_MarkRead_def notifications_MarkAllRead_def notifications_Delete_def
    notifications_ClearRead_def notifications_repo_MarkRead_def notifications_repo_MarkAllRead_def
    notifications_repo_SoftDelete_def notifications_repo_ClearRead_def
  by (intro inbox_intros)+

end

text \<open>A row that belongs to somebody else stays; the caller's rows keep their contents, and
  being read or deleted is never undone.\<close>

definition ntf_next :: "string \<Rightarrow> Notification \<Rightarrow> Notification \<Rightarrow> bool" where
  "ntf_next u n n' \<longleftrightarrow>
     n' = n \<or>
     (ntf_UserID n = u \<and>
      (ntf_ID n', ntf_UserID n', ntf_Type n', ntf_Title n', ntf_Body n', ntf_LinkUrl n', ntf_CreatedAt n')
      = (ntf_ID n, ntf_UserID n, ntf_Type n, ntf_Title n, ntf_Body n, ntf_LinkUrl n, ntf_CreatedAt n) \<and>
      (ntf_IsRead n \<longrightarrow> ntf_IsRead n') \<and> (ntf_DeletedAt n \<noteq> None \<longrightarrow> ntf_DeletedAt n' \<noteq> None))"

interpretation inbox_rows: row_life "ntf_next u" for u
  by unfold_locales (auto simp: ntf_next_def)

definition inbox_step :: "string \<Rightarrow> database \<Rightarrow> database \<Rightarrow> bool" where
  "inbox_step u d d' \<longleftrightarrow>
     evolve (ntf_next u) (t_notifications d) (t_notifications d') \<and>
     length (t_notifications d') = length (t_notifications d) \<and>
     d\<lparr>t_notifications := []\<rparr> = d'\<lparr>t_notifications := []\<rparr>"

lemma update_inbox:
  "(\<And>n. P n \<Longrightarrow> ntf_next u n (f n)) \<Longrightarrow> stmt_ok (inbox_step u) (update_notifications P f)"
  by (auto simp: stmt_ok_def update_notifications_def inbox_step_def intro!: inbox_rows.evolve_upd)

interpretation inbox: inbox_writes "inbox_step u" u for u
proof
  show "inbox_step u d d" for d by (simp add: inbox_step_def inbox_rows.evolve_refl)
  show "inbox_step u d d' \<Longrightarrow> inbox_step u d' d'' \<Longrightarrow> inbox_step u d d''" for d d' d''
    by (auto simp: inbox_step_def intro: inbox_rows.evolve_trans)
qed (auto simp: sql_mark_read_def sql_mark_all_read_def sql_soft_delete_notification_def
    sql_clear_read_def ntf_next_def unread_of_def intro!: update_inbox)

section \<open>The inbox\<close>

text \<open>The four inbox operations of a user touch no other table and no other user's
  notifications, keep the contents of the user's own, and never undo that one was read or
  deleted, wherever the connection fails and whatever else the user does meanwhile.\<close>

theorem inbox_owner_only:
  assumes "rely_ok (inbox_step u) w"
  shows "inbox_step u (db w) (db (snd (notifications_MarkRead u nid w))) \<and>
    inbox_step u (db w) (db (snd (notifications_MarkAllRead u w))) \<and>
    inbox_step u (db w) (db (snd (notifications_Delete u nid w))) \<and>
    inbox_step u (db w) (db (snd (notifications_ClearRead u w)))"
  using assms by (intro conjI within_rely [where R = "inbox_step u"] inbox.within_inbox)

definition demo_notification :: "string \<Rightarrow> string \<Rightarrow> bool \<Rightarrow> Notification" where
  "demo_notification nid u isRead = \<lparr> ntf_ID = nid, ntf_UserID = u, ntf_Type = ''order'',
     ntf_Title = [], ntf_Body = [], ntf_LinkUrl = None, ntf_IsRead = isRead, ntf_ReadAt = None,
     ntf_DeletedAt = None, ntf_CreatedAt = 0 \<rparr>"

definition inbox_world :: world where
  "inbox_world = demo_world ((demo_database [] [])\<lparr>t_notifications :=
     [demo_notification ''n1'' ''u1'' False, demo_notification ''n2'' ''u2'' False,
      demo_notification ''n3'' ''u1'' True]\<rparr>)"

theorem inbox_owner_only_witness:
  "inbox_step ''u1'' (db (inbox_world\<lparr>script := [(Unacked, \<lambda>d. d)]\<rparr>))
     (db (snd (notifications_MarkAllRead ''u1'' (inbox_world\<lparr>script := [(Unacked, \<lambda>d. d)]\<rparr>))))"
  using inbox_owner_only [of "''u1''" "inbox_world\<lparr>script := [(Unacked, \<lambda>d. d)]\<rparr>"]
  by (simp add: rely_ok_def inbox.db_refl)

text \<open>In an undisturbed run marking all as read leaves nothing unread for the user and every
  other user's unread count as it was.\<close>

theorem mark_all_read_clears:
  assumes "script w = []"
  shows "\<exists>w'. notifications_MarkAllRead u w = (Inr (), w') \<and>
    notifications_UnreadCount u w' = (Inr 0, w') \<and>
    (\<forall>v. v \<noteq> u \<longrightarrow> fst (notifications_UnreadCount v w') = fst (notifications_UnreadCount v w))"
proof -
  let ?f = "\<lambda>n. n\<lparr>ntf_IsRead := True, ntf_ReadAt := Some (clock w)\<rparr>"
  define w' where "w' = (tick w)\<lparr>db := (db w)\<lparr>t_notifications :=
      upd (unread_of u) ?f (t_notifications (db w))\<rparr>\<rparr>"
  have "notifications_MarkAllRead u w = (Inr (), w')"
    using assms by (simp add: notifications_MarkAllRead_def notifications_repo_MarkAllRead_def
        go_simps sql_mark_all_read_def update_notifications_def w'_def)
  moreover have count: "notifications_UnreadCount v w' =
      (Inr (count_rows (unread_of v) (upd (unread_of u) ?f (t_notifications (db w)))), w')" for v
    using assms by (simp add: notifications_UnreadCount_def notifications_repo_CountUnread_def
        q_CountUnreadNotifications_def go_simps w'_def)
  have "count_rows (unread_of u) (upd (unread_of u) ?f ns) = 0" for ns
    by (induction ns) (simp_all add: count_rows_def unread_of_def)
  moreover have "count_rows (unread_of v) (upd (unread_of u) ?f ns) = count_rows (unread_of v) ns"
    if "v \<noteq> u" for v ns
    using that by (induction ns) (auto simp: count_rows_def unread_of_def)
  moreover have "notifications_UnreadCount v w = (Inr (count_rows (unread_of v) (t_notifications (db w))), w)"
    for v using assms by (simp add: notifications_UnreadCount_def notifications_repo_CountUnread_def
        q_CountUnreadNotifications_def go_simps)
  ultimately show ?thesis using count by (intro exI [of _ w']) simp
qed

theorem mark_all_read_clears_witness:
  "\<exists>w'. notifications_MarkAllRead ''u1'' inbox_world = (Inr (), w') \<and>
     notifications_UnreadCount ''u1'' w' = (Inr 0, w')"
proof -
  have "script inbox_world = []" by (simp add: inbox_world_def demo_world_def)
  from mark_all_read_clears [OF this, of "''u1''"] show ?thesis by blast
qed

end
