(* ===== verification/Badges.thy ===== *)
theory Badges
  imports Tables Messages
begin

text \<open>
  \<open>internal/badges\<close> (repo and service) and \<open>internal/repo/db/badges.sql.go\<close>: the badge
  catalogue, the user's badge wall and the automatic award.  Every user badge refers to a
  stored badge, a user holds a badge at most once, and the award run unlocks exactly the
  active badges whose criterion is met.
\<close>

abbreviation badges_ErrNotFound :: go_error where
  "badges_ErrNotFound \<equiv> Sentinel ''badges: not found''"

section \<open>Statements\<close>

text \<open>\<open>IFNULL(criteria_json, JSON_OBJECT())\<close> in every reading query.\<close>

definition with_criteria :: "Badge \<Rightarrow> Badge" where
  "with_criteria b = (case bdg_CriteriaJson b of
     None \<Rightarrow> b\<lparr>bdg_CriteriaJson := Some (JObj [])\<rparr> | Some _ \<Rightarrow> b)"

text \<open>\<open>ORDER BY category ASC, order_index ASC, created_at ASC\<close>.\<close>

definition badge_le :: "Badge \<Rightarrow> Badge \<Rightarrow> bool" where
  "badge_le a b \<longleftrightarrow>
     (if bdg_Category a \<noteq> bdg_Category b then str_le (bdg_Category a) (bdg_Category b)
      else if bdg_OrderIndex a \<noteq> bdg_OrderIndex b then bdg_OrderIndex a < bdg_OrderIndex b
      else bdg_CreatedAt a \<le> bdg_CreatedAt b)"

definition active_badges :: "database \<Rightarrow> Badge list" where
  "active_badges d = map with_criteria (sort_by badge_le (filter bdg_IsActive (t_badges d)))"

definition q_ListActiveBadges :: "Badge list io" where
  "q_ListActiveBadges = query active_badges"

definition q_ListAllBadges :: "Badge list io" where
  "q_ListAllBadges = query (\<lambda>d. map with_criteria (sort_by badge_le (t_badges d)))"

definition q_GetBadgeByID :: "string \<Rightarrow> Badge io" where
  "q_GetBadgeByID bid = query_one (\<lambda>d. map_option with_criteria
     (first_row (\<lambda>b. bdg_ID b = bid) (t_badges d)))"

definition q_GetBadgeByCode :: "string \<Rightarrow> Badge io" where
  "q_GetBadgeByCode c = query_one (\<lambda>d. map_option with_criteria
     (first_row (\<lambda>b. bdg_Code b = c) (t_badges d)))"

definition q_CreateBadge :: "Badge \<Rightarrow> unit io" where
  "q_CreateBadge b = bind go_now (\<lambda>now. exec (insert_badge (b\<lparr>bdg_CreatedAt := now\<rparr>)))"

definition sql_update_badge :: "Badge \<Rightarrow> unit stmt" where
  "sql_update_badge b = (\<lambda>d.
     if \<not> list_ex (\<lambda>x. bdg_ID x = bdg_ID b) (t_badges d) then Inr ((), d)
     else if bdg_CriteriaType b \<notin> set criteria_types then Inl ErrTruncated
     else if list_ex (\<lambda>x. bdg_ID x \<noteq> bdg_ID b \<and> bdg_Code x = bdg_Code b) (t_badges d)
     then Inl ErrDuplicate
     else Inr ((), d\<lparr>t_badges := upd (\<lambda>x. bdg_ID x = bdg_ID b)
            (\<lambda>x. b\<lparr>bdg_CreatedAt := bdg_CreatedAt x\<rparr>) (t_badges d)\<rparr>))"

text \<open>\<open>ON DELETE CASCADE\<close> takes the user badges along.\<close>

definition sql_delete_badge :: "string \<Rightarrow> unit stmt" where
  "sql_delete_badge bid = (\<lambda>d. Inr ((), d\<lparr>t_badges := deleted (\<lambda>b. bdg_ID b = bid) (t_badges d),
     t_user_badges := deleted (\<lambda>ub. ubd_BadgeID ub = bid) (t_user_badges d)\<rparr>))"

definition q_ListUserBadges :: "string \<Rightarrow> UserBadge list io" where
  "q_ListUserBadges u = query (\<lambda>d. filter (\<lambda>ub. ubd_UserID ub = u) (t_user_badges d))"

definition holds :: "string \<Rightarrow> string \<Rightarrow> UserBadge \<Rightarrow> bool" where
  "holds u bid ub \<longleftrightarrow> ubd_UserID ub = u \<and> ubd_BadgeID ub = bid"

definition q_GetUserBadge :: "string \<Rightarrow> string \<Rightarrow> UserBadge io" where
  "q_GetUserBadge u bid = query_one (\<lambda>d. first_row (holds u bid) (t_user_badges d))"

definition q_CreateUserBadge :: "UserBadge \<Rightarrow> unit io" where
  "q_CreateUserBadge ub = exec (insert_user_badge ub)"

definition q_CountUserBadges :: "int io" where
  "q_CountUserBadges = query (\<lambda>d. count_rows (\<lambda>_. True) (t_user_badges d))"

text \<open>\<open>GROUP BY badge_id ORDER BY cnt DESC\<close>.\<close>

definition q_CountBadgeDistribution :: "(string \<times> int) list io" where
  "q_CountBadgeDistribution = query (\<lambda>d. sort_desc snd
     (map (\<lambda>b. (b, count_rows (\<lambda>ub. ubd_BadgeID ub = b) (t_user_badges d)))
       (remdups (map ubd_BadgeID (t_user_badges d)))))"

section \<open>Repo\<close>

definition badges_repo_ListActive :: "Badge list io" where
  "badges_repo_ListActive =
     call q_ListActiveBadges (\<lambda>e. fail (Wrap ''badges.repo: list active'' e)) ret"

definition badges_repo_ListAll :: "Badge list io" where
  "badges_repo_ListAll = call q_ListAllBadges (\<lambda>e. fail (Wrap ''badges.repo: list all'' e)) ret"

definition badges_repo_GetByID :: "string \<Rightarrow> Badge io" where
  "badges_repo_GetByID bid =
     call (q_GetBadgeByID bid)
       (\<lambda>e. if errors_is e ErrNoRows then fail badges_ErrNotFound else fail (Wrap ''badges.repo: get'' e))
       ret"

definition badges_repo_GetByCode :: "string \<Rightarrow> Badge io" where
  "badges_repo_GetByCode c =
     call (q_GetBadgeByCode c)
       (\<lambda>e. if errors_is e ErrNoRows then fail badges_ErrNotFound
            else fail (Wrap ''badges.repo: get by code'' e))
       ret"

definition badges_repo_Create :: "Badge \<Rightarrow> unit io" where
  "badges_repo_Create b = q_CreateBadge b"

definition badges_repo_Update :: "Badge \<Rightarrow> unit io" where
  "badges_repo_Update b = exec (sql_update_badge b)"

definition badges_repo_Delete :: "string \<Rightarrow> unit io" where
  "badges_repo_Delete bid = exec (sql_delete_badge bid)"

definition badges_repo_ListUserBadges :: "string \<Rightarrow> UserBadge list io" where
  "badges_repo_ListUserBadges u =
     call (q_ListUserBadges u) (\<lambda>e. fail (Wrap ''badges.repo: list user badges'' e)) ret"

definition badges_repo_HasUserBadge :: "string \<Rightarrow> string \<Rightarrow> bool io" where
  "badges_repo_HasUserBadge u bid =
     call (q_GetUserBadge u bid)
       (\<lambda>e. if errors_is e ErrNoRows then ret False else fail (Wrap ''badges.repo: get user badge'' e))
       (\<lambda>_. ret True)"

definition badges_repo_AwardBadge :: "string \<Rightarrow> string \<Rightarrow> unit io" where
  "badges_repo_AwardBadge u bid =
     bind new_uuid (\<lambda>ubid. bind go_now (\<lambda>now.
     q_CreateUserBadge \<lparr> ubd_ID = ubid, ubd_UserID = u, ubd_BadgeID = bid, ubd_UnlockedAt = now \<rparr>))"

definition badges_repo_CountUserBadges :: "int io" where
  "badges_repo_CountUserBadges = q_CountUserBadges"

definition badges_repo_CountBadgeDistribution :: "(string \<times> int) list io" where
  "badges_repo_CountBadgeDistribution = q_CountBadgeDistribution"

definition active_enrollments :: "string \<Rightarrow> database \<Rightarrow> int" where
  "active_enrollments u d = count_rows (\<lambda>e. enr_UserID e = u \<and> enr_DeletedAt e = None) (t_enrollments d)"

definition badges_repo_CountActiveEnrollments :: "string \<Rightarrow> int io" where
  "badges_repo_CountActiveEnrollments u =
     call (query (active_enrollments u)) (\<lambda>e. fail (Wrap ''badges.repo: count enrollments'' e)) ret"

definition points_of :: "string \<Rightarrow> database \<Rightarrow> int option" where
  "points_of u d = map_option usr_Points (first_row (\<lambda>r. usr_ID r = u) (t_users d))"

definition badges_repo_GetUserPoints :: "string \<Rightarrow> int io" where
  "badges_repo_GetUserPoints u =
     call (query_one (points_of u))
       (\<lambda>e. if errors_is e ErrNoRows then ret 0 else fail (Wrap ''badges.repo: get user points'' e))
       ret"

definition badges_repo_CountUsers :: "int io" where
  "badges_repo_CountUsers =
     call (query (\<lambda>d. count_rows (\<lambda>r. usr_DeletedAt r = None) (t_users d)))
       (\<lambda>e. fail (Wrap ''badges.repo: count users'' e)) ret"

record TopUserRow =
  top_ID :: string
  top_Name :: string
  top_Points :: int
  top_Level :: int

definition badges_repo_TopUsersByPoints :: "nat \<Rightarrow> TopUserRow list io" where
  "badges_repo_TopUsersByPoints limit =
     call (query (\<lambda>d. map (\<lambda>r. \<lparr> top_ID = usr_ID r, top_Name = usr_Name r,
              top_Points = usr_Points r, top_Level = usr_Level r \<rparr>)
             (take limit (sort_desc usr_Points (filter (\<lambda>r. usr_DeletedAt r = None) (t_users d))))))
       (\<lambda>e. fail (Wrap ''badges.repo: top users'' e)) ret"

section \<open>Service\<close>

record BadgeDTO =
  bdto_ID :: string
  bdto_Code :: string
  bdto_Name :: string
  bdto_Description :: string
  bdto_Icon :: string
  bdto_Category :: string
  bdto_CriteriaType :: string
  bdto_CriteriaValue :: int
  bdto_CriteriaJson :: "json option"
  bdto_Points :: int
  bdto_IsActive :: bool
  bdto_OrderIndex :: int
  bdto_CreatedAt :: string
  bdto_UpdatedAt :: string

text \<open>The JSON value null is the nil interface, which \<open>omitempty\<close> drops.\<close>

definition toBadgeDTO :: "Badge \<Rightarrow> BadgeDTO" where
  "toBadgeDTO b =
     \<lparr> bdto_ID = bdg_ID b, bdto_Code = bdg_Code b, bdto_Name = bdg_Name b,
       bdto_Description = bdg_Description b, bdto_Icon = bdg_Icon b, bdto_Category = bdg_Category b,
       bdto_CriteriaType = bdg_CriteriaType b, bdto_CriteriaValue = bdg_CriteriaValue b,
       bdto_CriteriaJson = (if bdg_CriteriaJson b = Some JNull then None else bdg_CriteriaJson b),
       bdto_Points = bdg_Points b, bdto_IsActive = bdg_IsActive b, bdto_OrderIndex = bdg_OrderIndex b,
       bdto_CreatedAt = fmt_iso (bdg_CreatedAt b), bdto_UpdatedAt = fmt_iso (bdg_UpdatedAt b) \<rparr>"

record BadgeInput =
  bin_Code :: string
  bin_Name :: string
  bin_Description :: string
  bin_Icon :: string
  bin_Category :: string
  bin_CriteriaType :: string
  bin_CriteriaValue :: int
  bin_CriteriaJson :: "json option"
  bin_Points :: int
  bin_IsActive :: "bool option"
  bin_OrderIndex :: int

definition orDefault :: "string \<Rightarrow> string \<Rightarrow> string" where
  "orDefault s df = (if s = [] then df else s)"

definition defaultInt32 :: "int \<Rightarrow> int \<Rightarrow> int" where
  "defaultInt32 v df = (if v = 0 then df else v)"

definition validCriteriaType :: "string \<Rightarrow> bool" where
  "validCriteriaType s \<longleftrightarrow> s \<in> set [''course_completed'', ''lessons_completed'', ''streak_days'',
     ''first_enrollment'', ''practice_completed'', ''points_reached'', ''course_specific'']"

definition badges_ListActive :: "BadgeDTO list io" where
  "badges_ListActive =
     call badges_repo_ListActive (\<lambda>e. fail (Internal ''list active badges'' e)) (\<lambda>rows.
     ret (map toBadgeDTO rows))"

definition badges_get :: "string \<Rightarrow> Badge io" where
  "badges_get bid =
     call (badges_repo_GetByID bid)
       (\<lambda>e. if e = badges_ErrNotFound then fail (NotFound ''Badge not found'')
            else fail (Internal ''get badge'' e))
       ret"

definition badges_GetByID :: "string \<Rightarrow> BadgeDTO io" where
  "badges_GetByID bid = bind (badges_get bid) (\<lambda>b. ret (toBadgeDTO b))"

definition new_badge :: "BadgeInput \<Rightarrow> string \<Rightarrow> int \<Rightarrow> Badge" where
  "new_badge i bid now =
     \<lparr> bdg_ID = bid, bdg_Code = bin_Code i, bdg_Name = bin_Name i, bdg_Description = bin_Description i,
       bdg_Icon = orDefault (bin_Icon i) ''award'', bdg_Category = orDefault (bin_Category i) ''general'',
       bdg_CriteriaType = bin_CriteriaType i, bdg_CriteriaValue = defaultInt32 (bin_CriteriaValue i) 1,
       bdg_CriteriaJson = bin_CriteriaJson i, bdg_Points = bin_Points i,
       bdg_IsActive = (case bin_IsActive i of None \<Rightarrow> True | Some a \<Rightarrow> a),
       bdg_OrderIndex = bin_OrderIndex i, bdg_CreatedAt = zero_time, bdg_UpdatedAt = now \<rparr>"

definition badges_Create :: "BadgeInput \<Rightarrow> BadgeDTO io" where
  "badges_Create i =
     (if bin_Code i = [] \<or> bin_Name i = [] then fail (BadRequest ''code and name required'')
      else if bin_CriteriaType i = [] then fail (BadRequest ''criteriaType required'')
      else if \<not> validCriteriaType (bin_CriteriaType i) then fail (BadRequest ''invalid criteriaType'')
      else
        call (badges_repo_GetByCode (bin_Code i))
          (\<lambda>e. if \<not> errors_is e badges_ErrNotFound then fail (Internal ''check code'' e)
               else
                 bind go_now (\<lambda>now. bind new_uuid (\<lambda>bid.
                 call (badges_repo_Create (new_badge i bid now)) (\<lambda>e. fail (Internal ''create badge'' e)) (\<lambda>_.
                 call (badges_repo_GetByID bid) (\<lambda>e. fail (Internal ''reload badge'' e)) (\<lambda>reloaded.
                 ret (toBadgeDTO reloaded))))))
          (\<lambda>_. fail (Conflict ''Badge code already exists'')))"

text \<open>The fields of the input that are set replace those of the row.\<close>

definition fill_badge :: "BadgeInput \<Rightarrow> int \<Rightarrow> Badge \<Rightarrow> Badge" where
  "fill_badge i now b =
     b\<lparr> bdg_Code := orDefault (bin_Code i) (bdg_Code b),
        bdg_Name := orDefault (bin_Name i) (bdg_Name b),
        bdg_Description := orDefault (bin_Description i) (bdg_Description b),
        bdg_Icon := orDefault (bin_Icon i) (bdg_Icon b),
        bdg_Category := orDefault (bin_Category i) (bdg_Category b),
        bdg_CriteriaType := orDefault (bin_CriteriaType i) (bdg_CriteriaType b),
        bdg_CriteriaValue := defaultInt32 (bin_CriteriaValue i) (bdg_CriteriaValue b),
        bdg_CriteriaJson := (case bin_CriteriaJson i of None \<Rightarrow> bdg_CriteriaJson b | Some j \<Rightarrow> Some j),
        bdg_Points := defaultInt32 (bin_Points i) (bdg_Points b),
        bdg_IsActive := (case bin_IsActive i of None \<Rightarrow> bdg_IsActive b | Some a \<Rightarrow> a),
        bdg_OrderIndex := defaultInt32 (bin_OrderIndex i) (bdg_OrderIndex b),
        bdg_UpdatedAt := now \<rparr>"

definition badges_Update :: "string \<Rightarrow> BadgeInput \<Rightarrow> BadgeDTO io" where
  "badges_Update bid i =
     bind (badges_get bid) (\<lambda>cur.
     if bin_CriteriaType i \<noteq> [] \<and> \<not> validCriteriaType (bin_CriteriaType i)
     then fail (BadRequest ''invalid criteriaType'')
     else
       bind go_now (\<lambda>now.
       call (badges_repo_Update (fill_badge i now cur)) (\<lambda>e. fail (Internal ''update badge'' e)) (\<lambda>_.
       call (badges_repo_GetByID bid) (\<lambda>e. fail (Internal ''reload badge'' e)) (\<lambda>b.
       ret (toBadgeDTO b)))))"

definition badges_Delete :: "string \<Rightarrow> unit io" where
  "badges_Delete bid =
     bind (badges_get bid) (\<lambda>_.
     call (badges_repo_Delete bid) (\<lambda>e. fail (Internal ''delete badge'' e)) ret)"

text \<open>\<open>(current, target)\<close>; a failing query counts as zero.\<close>

definition computeProgress :: "string \<Rightarrow> Badge \<Rightarrow> (int \<times> int) io" where
  "computeProgress u b =
     (if bdg_CriteriaType b = ''first_enrollment'' then
        bind (call (badges_repo_CountActiveEnrollments u) (\<lambda>_. ret 0) ret) (\<lambda>n.
        ret (wrap32 n, if bdg_CriteriaValue b < 1 then 1 else bdg_CriteriaValue b))
      else if bdg_CriteriaType b = ''points_reached'' then
        bind (call (badges_repo_GetUserPoints u) (\<lambda>_. ret 0) ret) (\<lambda>pts.
        ret (pts, bdg_CriteriaValue b))
      else ret (0, bdg_CriteriaValue b))"

record UserBadgeWithStatus =
  ubs_Badge :: BadgeDTO
  ubs_Unlocked :: bool
  ubs_UnlockedAt :: "string option"
  ubs_Progress :: int
  ubs_Target :: int

text \<open>The later of two rows wins in the Go map.\<close>

definition unlocked_at :: "UserBadge list \<Rightarrow> string \<Rightarrow> int option" where
  "unlocked_at ubs bid = map_of (rev (map (\<lambda>ub. (ubd_BadgeID ub, ubd_UnlockedAt ub)) ubs)) bid"

fun badge_wall :: "string \<Rightarrow> UserBadge list \<Rightarrow> Badge list \<Rightarrow> UserBadgeWithStatus list io" where
  "badge_wall u ubs [] = ret []"
| "badge_wall u ubs (b # bs) =
     bind (computeProgress u b) (\<lambda>(progress, target).
     bind (badge_wall u ubs bs) (\<lambda>rest.
     ret (\<lparr> ubs_Badge = toBadgeDTO b, ubs_Unlocked = (unlocked_at ubs (bdg_ID b) \<noteq> None),
            ubs_UnlockedAt = map_option fmt_iso (unlocked_at ubs (bdg_ID b)),
            ubs_Progress = progress, ubs_Target = target \<rparr> # rest)))"

definition GetMyBadges :: "string \<Rightarrow> UserBadgeWithStatus list io" where
  "GetMyBadges u =
     call badges_repo_ListActive (\<lambda>e. fail (Internal ''list badges'' e)) (\<lambda>badges.
     call (badges_repo_ListUserBadges u) (\<lambda>e. fail (Internal ''list user badges'' e)) (\<lambda>ubs.
     badge_wall u ubs badges))"

fun award_all :: "string \<Rightarrow> string list \<Rightarrow> Badge list \<Rightarrow> string list io" where
  "award_all u unlocked [] = ret unlocked"
| "award_all u unlocked (b # bs) =
     call (badges_repo_HasUserBadge u (bdg_ID b)) (\<lambda>e. fail (Internal ''has user badge'' e)) (\<lambda>has.
     if has then award_all u unlocked bs
     else
       bind (computeProgress u b) (\<lambda>(progress, target).
       if target \<le> progress \<and> 0 < target then
         call (badges_repo_AwardBadge u (bdg_ID b))
           (\<lambda>_. award_all u unlocked bs)
           (\<lambda>_. award_all u (unlocked @ [bdg_ID b]) bs)
       else award_all u unlocked bs))"

definition CheckAndAward :: "string \<Rightarrow> string list io" where
  "CheckAndAward u =
     call badges_repo_ListActive (\<lambda>e. fail (Internal ''list badges'' e)) (award_all u [])"

record BadgeDistribution =
  bdi_BadgeID :: string
  bdi_Name :: string
  bdi_Icon :: string
  bdi_Count :: int

record LeaderboardEntry =
  lbe_UserID :: string
  lbe_Name :: string
  lbe_Points :: int
  lbe_Level :: int

record AdminStats =
  ast_TotalUsers :: int
  ast_TotalBadgesUnlocked :: int
  ast_BadgeDistribution :: "BadgeDistribution list"
  ast_Leaderboard :: "LeaderboardEntry list"

definition distribution_entry :: "Badge list \<Rightarrow> string \<times> int \<Rightarrow> BadgeDistribution" where
  "distribution_entry badges row =
     (case first_row (\<lambda>b. bdg_ID b = fst row) (rev badges) of
        None \<Rightarrow> \<lparr> bdi_BadgeID = fst row, bdi_Name = fst row, bdi_Icon = ''award'', bdi_Count = snd row \<rparr>
      | Some b \<Rightarrow> \<lparr> bdi_BadgeID = fst row, bdi_Name = bdg_Name b, bdi_Icon = bdg_Icon b,
                    bdi_Count = snd row \<rparr>)"

definition GetAdminStats :: "AdminStats io" where
  "GetAdminStats =
     call badges_repo_CountUsers (\<lambda>e. fail (Internal ''count users'' e)) (\<lambda>totalUsers.
     call badges_repo_CountUserBadges (\<lambda>e. fail (Internal ''count user badges'' e)) (\<lambda>totalBadges.
     call badges_repo_CountBadgeDistribution (\<lambda>e. fail (Internal ''badge distribution'' e)) (\<lambda>dist.
     bind (call badges_repo_ListAll (\<lambda>_. ret []) ret) (\<lambda>allBadges.
     call (badges_repo_TopUsersByPoints 10) (\<lambda>e. fail (Internal ''top users'' e)) (\<lambda>top.
     ret \<lparr> ast_TotalUsers = totalUsers, ast_TotalBadgesUnlocked = totalBadges,
           ast_BadgeDistribution = map (distribution_entry allBadges) dist,
           ast_Leaderboard = map (\<lambda>r. \<lparr> lbe_UserID = top_ID r,
               lbe_Name = orDefault (top_Name r) msg_anonymous_user,
               lbe_Points = top_Points r, lbe_Level = top_Level r \<rparr>) top \<rparr>)))))"

section \<open>What the operations may do to the database\<close>

locale badge_writes = db_frame +
  assumes ok_insert_badge: "stmt_ok R (insert_badge b)"
    and ok_update_badge: "stmt_ok R (sql_update_badge b)"
    and ok_delete_badge: "stmt_ok R (sql_delete_badge bid)"
    and ok_insert_user_badge: "stmt_ok R (insert_user_badge ub)"
begin

lemmas badge_intros = within_intros within_exec [OF ok_insert_badge] within_exec [OF ok_update_badge]
  within_exec [OF ok_delete_badge] within_exec [OF ok_insert_user_badge]

lemma within_badge_repo:
  "within (db_step R) (badges_repo_GetByID bid)"
  "within (db_step R) (badges_repo_GetByCode c)"
  "within (db_step R) badges_repo_ListActive"
  "within (db_step R) (badges_repo_Create b)"
  "within (db_step R) (badges_repo_HasUserBadge u bid)"
  "within (db_step R) (badges_repo_AwardBadge u bid)"
  unfolding badges_repo_GetByID_def badges_repo_GetByCode_def badges_repo_ListActive_def
    badges_repo_Create_def badges_repo_HasUserBadge_def badges_repo_AwardBadge_def
    q_GetBadgeByID_def q_GetBadgeByCode_def q_ListActiveBadges_def q_CreateBadge_def
    q_GetUserBadge_def q_CreateUserBadge_def
  by (intro badge_intros)+

lemma within_computeProgress: "within (db_step R) (computeProgress u b)"
  unfolding computeProgress_def badges_repo_CountActiveEnrollments_def badges_repo_GetUserPoints_def
  by (intro badge_intros)

lemma within_badges_get: "within (db_step R) (badges_get bid)"
  unfolding badges_get_def by (intro badge_intros within_badge_repo)

lemma within_award_all: "within (db_step R) (award_all u unlocked bs)"
proof (induction bs arbitrary: unlocked)
  case (Cons b bs)
  show ?case
    unfolding award_all.simps case_prod_unfold
    by (intro badge_intros within_badge_repo within_computeProgress Cons.IH)
qed (simp add: steps.within_ret)

lemma within_badges:
  "within (db_step R) (badges_Create i)"
  "within (db_step R) (badges_Update bid i)"
  "within (db_step R) (badges_Delete bid)"
  "within (db_step R) (CheckAndAward u)"
  unfolding badges_Create_def badges_Update_def badges_Delete_def CheckAndAward_def
    badges_repo_Update_def badges_repo_Delete_def
  by (intro badge_intros within_badge_repo within_badges_get within_award_all)+

end

text \<open>The keys of both tables, and the reference from one to the other.\<close>

definition badge_tables :: "database \<Rightarrow> bool" where
  "badge_tables d \<longleftrightarrow>
     no_conflicts bdg_conflict (t_badges d) \<and> no_conflicts ubd_conflict (t_user_badges d) \<and>
     (\<forall>ub \<in> set (t_user_badges d). badge_exists d (ubd_BadgeID ub))"

end
