(* ===== verification/BadgeFacts.thy ===== *)
theory BadgeFacts
  imports Badges Demo
begin

text \<open>
  What the badges service guarantees: the keys of both tables and the reference between them
  hold under every operation; an award run unlocks exactly the active badges not yet held
  whose criterion is met, and a second run right after it unlocks nothing.
\<close>

section \<open>Integrity\<close>

lemma update_badge_keys:
  assumes "no_conflicts bdg_conflict bs" "\<forall>x \<in> set bs. bdg_ID x \<noteq> bdg_ID b \<longrightarrow> bdg_Code x \<noteq> bdg_Code b"
  shows "no_conflicts bdg_conflict
    (upd (\<lambda>x. bdg_ID x = bdg_ID b) (\<lambda>x. b\<lparr>bdg_CreatedAt := bdg_CreatedAt x\<rparr>) bs)"
  using assms unfolding no_conflicts_def upd_def sorted_wrt_map
  by (elim sorted_wrt_mono_rel [rotated]) (auto simp: bdg_conflict_def)

lemma badge_exists_iff: "badge_exists d x \<longleftrightarrow> x \<in> set (map bdg_ID (t_badges d))"
  by (auto simp: badge_exists_def list_ex_iff)

lemma badge_statements:
  "stmt_ok (preserves badge_tables) (insert_badge b)"
  "stmt_ok (preserves badge_tables) (sql_update_badge b)"
  "stmt_ok (preserves badge_tables) (sql_delete_badge bid)"
  "stmt_ok (preserves badge_tables) (insert_user_badge ub)"
proof -
  show "stmt_ok (preserves badge_tables) (insert_badge b)"
    by (auto simp: stmt_ok_def preserves_def insert_badge_def badge_tables_def badge_exists_def
        intro!: no_conflicts_append conflict_sym(5))
  have "map bdg_ID (upd (\<lambda>x. bdg_ID x = bdg_ID b) (\<lambda>x. b\<lparr>bdg_CreatedAt := bdg_CreatedAt x\<rparr>) bs) =
      map bdg_ID bs" for bs by (rule map_upd_frame) simp
  then show "stmt_ok (preserves badge_tables) (sql_update_badge b)"
    by (auto simp: stmt_ok_def preserves_def sql_update_badge_def badge_tables_def badge_exists_iff
        list_ex_iff simp del: set_map intro!: update_badge_keys split: if_splits)
  show "stmt_ok (preserves badge_tables) (sql_delete_badge bid)"
    by (auto simp: stmt_ok_def preserves_def sql_delete_badge_def badge_tables_def badge_exists_def
        list_ex_iff intro!: no_conflicts_deleted) metis
  show "stmt_ok (preserves badge_tables) (insert_user_badge ub)"
    by (auto simp: stmt_ok_def preserves_def insert_user_badge_def badge_tables_def badge_exists_def
        intro!: no_conflicts_append conflict_sym(6))
qed

interpretation badge_key_writes: badge_writes "preserves badge_tables"
  by unfold_locales (rule badge_statements)+

text \<open>Creating, changing and deleting badges and awarding them keep badge ids and codes
  unique, a badge held at most once by a user, and every user badge on a stored badge, under
  connection failures and the interference of requests that keep the same.\<close>

theorem badge_tables_kept:
  assumes "rely_ok (preserves badge_tables) w" "badge_tables (db w)"
  shows "badge_tables (db (snd (badges_Create i w))) \<and>
    badge_tables (db (snd (badges_Update bid i w))) \<and>
    badge_tables (db (snd (badges_Delete bid w))) \<and>
    badge_tables (db (snd (CheckAndAward u w)))"
proof -
  have "badge_tables (db (snd (m w)))" if "within (db_step (preserves badge_tables)) m" for m :: "'x io"
    using within_rely [OF that assms(1)] assms(2) by (simp add: preserves_def)
  from this [OF badge_key_writes.within_badges(1)] this [OF badge_key_writes.within_badges(2)]
    this [OF badge_key_writes.within_badges(3)] this [OF badge_key_writes.within_badges(4)]
  show ?thesis by simp
qed

definition demo_badge :: "string \<Rightarrow> string \<Rightarrow> int \<Rightarrow> Badge" where
  "demo_badge bid criterion n = \<lparr> bdg_ID = bid, bdg_Code = bid, bdg_Name = bid, bdg_Description = [],
     bdg_Icon = ''award'', bdg_Category = ''general'', bdg_CriteriaType = criterion,
     bdg_CriteriaValue = n, bdg_CriteriaJson = None, bdg_Points = 0, bdg_IsActive = True,
     bdg_OrderIndex = 0, bdg_CreatedAt = 0, bdg_UpdatedAt = 0 \<rparr>"

definition badge_world :: world where
  "badge_world = demo_world ((demo_database [] [demo_enrollment ''e1'' ''free'' ''direct''])
     \<lparr>t_badges := [demo_badge ''b1'' ''first_enrollment'' 1, demo_badge ''b2'' ''points_reached'' 50]\<rparr>)"

lemma badge_world_facts:
  "script badge_world = []" "user_exists (db badge_world) ''u1''" "badge_tables (db badge_world)"
  by (simp_all add: badge_world_def demo_defs user_exists_def badge_tables_def no_conflicts_def
      bdg_conflict_def demo_badge_def)

theorem badge_tables_kept_witness:
  "badge_tables (db (snd (badges_Delete ''b1'' badge_world)))"
  using badge_tables_kept [OF _ badge_world_facts(3)] by (simp add: rely_ok_def badge_world_facts(1))

section \<open>The award run\<close>

definition progress_of :: "string \<Rightarrow> database \<Rightarrow> Badge \<Rightarrow> int \<times> int" where
  "progress_of u d b =
     (if bdg_CriteriaType b = ''first_enrollment''
      then (wrap32 (active_enrollments u d), if bdg_CriteriaValue b < 1 then 1 else bdg_CriteriaValue b)
      else if bdg_CriteriaType b = ''points_reached''
      then ((case points_of u d of None \<Rightarrow> 0 | Some p \<Rightarrow> p), bdg_CriteriaValue b)
      else (0, bdg_CriteriaValue b))"

definition has_badge :: "string \<Rightarrow> database \<Rightarrow> string \<Rightarrow> bool" where
  "has_badge u d bid \<longleftrightarrow> list_ex (holds u bid) (t_user_badges d)"

definition awardable :: "string \<Rightarrow> database \<Rightarrow> Badge \<Rightarrow> bool" where
  "awardable u d b \<longleftrightarrow> \<not> has_badge u d (bdg_ID b) \<and>
     (case progress_of u d b of (progress, target) \<Rightarrow> target \<le> progress \<and> 0 < target)"

lemma computeProgress_quiet:
  "script w = [] \<Longrightarrow> computeProgress u b w = (Inr (progress_of u (db w) b), w)"
  by (auto simp: computeProgress_def progress_of_def badges_repo_CountActiveEnrollments_def
      badges_repo_GetUserPoints_def go_simps split: option.splits)

lemma HasUserBadge_quiet:
  "script w = [] \<Longrightarrow> badges_repo_HasUserBadge u bid w = (Inr (has_badge u (db w) bid), w)"
  by (auto simp: badges_repo_HasUserBadge_def q_GetUserBadge_def go_simps has_badge_def list_ex_iff
      first_row_None dest: first_row_Some split: option.splits)

text \<open>Ids the source still has to give are not stored as user badges.\<close>

definition fresh_awards :: "world \<Rightarrow> bool" where
  "fresh_awards w \<longleftrightarrow> inj (uuid_src w) \<and>
     (\<forall>k \<ge> uuid_ix w. uuid_src w k \<notin> ubd_ID ` set (t_user_badges (db w)))"

definition award_row :: "string \<Rightarrow> string \<Rightarrow> world \<Rightarrow> UserBadge" where
  "award_row u bid w = \<lparr> ubd_ID = uuid_src w (uuid_ix w), ubd_UserID = u, ubd_BadgeID = bid,
     ubd_UnlockedAt = clock w \<rparr>"

definition awarded :: "string \<Rightarrow> string \<Rightarrow> world \<Rightarrow> world" where
  "awarded u bid w = (tick w)\<lparr>uuid_ix := Suc (uuid_ix w),
     db := (db w)\<lparr>t_user_badges := t_user_badges (db w) @ [award_row u bid w]\<rparr>\<rparr>"

lemma award_quiet:
  assumes "script w = []" "fresh_awards w" "user_exists (db w) u" "badge_exists (db w) bid"
    "\<not> has_badge u (db w) bid"
  shows "badges_repo_AwardBadge u bid w = (Inr (), awarded u bid w)"
proof -
  have "\<not> list_ex (ubd_conflict (award_row u bid w)) (t_user_badges (db w))"
    using assms(2,5) by (auto simp: list_ex_iff ubd_conflict_def award_row_def fresh_awards_def
        has_badge_def holds_def)
  moreover have "tick (w\<lparr>uuid_ix := n\<rparr>) = (tick w)\<lparr>uuid_ix := n\<rparr>" for n by (simp add: tick_eq)
  ultimately show ?thesis
    using assms(1,3,4) by (simp add: badges_repo_AwardBadge_def q_CreateUserBadge_def go_simps
        insert_user_badge_def awarded_def award_row_def)
qed

lemma awarded_simps [simp]:
  "script (awarded u bid w) = script w"
  "user_exists (db (awarded u bid w)) v = user_exists (db w) v"
  "badge_exists (db (awarded u bid w)) x = badge_exists (db w) x"
  "active_badges (db (awarded u bid w)) = active_badges (db w)"
  "progress_of v (db (awarded u bid w)) b = progress_of v (db w) b"
  "has_badge v (db (awarded u bid w)) x = (has_badge v (db w) x \<or> (v = u \<and> x = bid))"
  by (auto simp: awarded_def user_exists_def badge_exists_def active_badges_def progress_of_def
      active_enrollments_def points_of_def has_badge_def holds_def award_row_def)

lemma awarded_fresh: "fresh_awards w \<Longrightarrow> fresh_awards (awarded u bid w)"
  by (auto simp: fresh_awards_def awarded_def award_row_def inj_eq)

lemma award_all_quiet:
  assumes "script w = []" "fresh_awards w" "user_exists (db w) u"
    "distinct (map bdg_ID bs)" "\<forall>b \<in> set bs. badge_exists (db w) (bdg_ID b)"
  shows "\<exists>w'. award_all u unlocked bs w =
      (Inr (unlocked @ map bdg_ID (filter (awardable u (db w)) bs)), w') \<and>
    script w' = [] \<and> active_badges (db w') = active_badges (db w) \<and>
    (\<forall>b. progress_of u (db w') b = progress_of u (db w) b) \<and>
    (\<forall>x. has_badge u (db w') x \<longleftrightarrow>
       has_badge u (db w) x \<or> x \<in> set (map bdg_ID (filter (awardable u (db w)) bs)))"
  using assms
proof (induction bs arbitrary: w unlocked)
  case Nil
  then show ?case by (simp add: go_simps)
next
  case (Cons b bs)
  show ?case
  proof (cases "awardable u (db w) b")
    case False
    then have "award_all u unlocked (b # bs) w = award_all u unlocked bs w"
      using Cons.prems(1) by (auto simp: go_simps HasUserBadge_quiet computeProgress_quiet awardable_def
          split: prod.splits)
    with Cons.IH [OF Cons.prems(1-3), of unlocked] Cons.prems(4,5) False show ?thesis by simp
  next
    case True
    let ?v = "awarded u (bdg_ID b) w"
    have no: "\<not> has_badge u (db w) (bdg_ID b)" using True by (simp add: awardable_def)
    have "badges_repo_AwardBadge u (bdg_ID b) w = (Inr (), ?v)"
      using Cons.prems no by (intro award_quiet) auto
    then have run: "award_all u unlocked (b # bs) w = award_all u (unlocked @ [bdg_ID b]) bs ?v"
      using Cons.prems(1) True by (auto simp: go_simps HasUserBadge_quiet computeProgress_quiet awardable_def
          split: prod.splits)
    have "bdg_ID x \<noteq> bdg_ID b" if "x \<in> set bs" for x
      using Cons.prems(4) that by (auto simp: image_iff)
    then have same: "filter (awardable u (db ?v)) bs = filter (awardable u (db w)) bs"
      by (auto simp: awardable_def intro!: filter_cong)
    obtain w' where "award_all u (unlocked @ [bdg_ID b]) bs ?v =
        (Inr ((unlocked @ [bdg_ID b]) @ map bdg_ID (filter (awardable u (db ?v)) bs)), w')"
      "script w' = []" "active_badges (db w') = active_badges (db ?v)"
      "\<forall>b. progress_of u (db w') b = progress_of u (db ?v) b"
      "\<forall>x. has_badge u (db w') x \<longleftrightarrow>
         has_badge u (db ?v) x \<or> x \<in> set (map bdg_ID (filter (awardable u (db ?v)) bs))"
      using Cons.IH [of ?v "unlocked @ [bdg_ID b]"] Cons.prems awarded_fresh by auto
    with run True show ?thesis unfolding same by (intro exI [of _ w']) auto
  qed
qed

lemma with_criteria_simps [simp]: "bdg_ID (with_criteria b) = bdg_ID b"
  by (simp add: with_criteria_def split: option.splits)

lemma active_badges_ok:
  assumes "badge_tables d"
  shows "distinct (map bdg_ID (active_badges d)) \<and> (\<forall>b \<in> set (active_badges d). badge_exists d (bdg_ID b))"
proof -
  have "distinct (map bdg_ID (t_badges d))"
    using assms unfolding badge_tables_def no_conflicts_def distinct_map distinct_conv_nth
    by (auto simp: sorted_wrt_iff_nth_less bdg_conflict_def in_set_conv_nth inj_on_def)
      (metis linorder_neqE_nat)+
  then have "distinct (map bdg_ID (sort_by badge_le (filter bdg_IsActive (t_badges d))))"
    by (simp add: distinct_sort_by distinct_map_filter)
  then show ?thesis
    by (auto simp: active_badges_def comp_def badge_exists_def list_ex_iff)
qed

lemma check_quiet:
  assumes "script w = []" "fresh_awards w" "user_exists (db w) u" "badge_tables (db w)"
  shows "\<exists>w'. CheckAndAward u w =
      (Inr (map bdg_ID (filter (awardable u (db w)) (active_badges (db w)))), w') \<and>
    (\<forall>x. has_badge u (db w') x \<longleftrightarrow> has_badge u (db w) x \<or>
       x \<in> set (map bdg_ID (filter (awardable u (db w)) (active_badges (db w))))) \<and>
    fst (CheckAndAward u w') = Inr []"
proof -
  obtain w' where w': "award_all u [] (active_badges (db w)) w =
      (Inr (map bdg_ID (filter (awardable u (db w)) (active_badges (db w)))), w')"
    "script w' = []" "active_badges (db w') = active_badges (db w)"
    "\<forall>b. progress_of u (db w') b = progress_of u (db w) b"
    "\<forall>x. has_badge u (db w') x \<longleftrightarrow> has_badge u (db w) x \<or>
       x \<in> set (map bdg_ID (filter (awardable u (db w)) (active_badges (db w))))"
    using award_all_quiet [OF assms(1-3), of "active_badges (db w)" "[]"] active_badges_ok [OF assms(4)]
    by auto
  have none: "\<not> awardable u (db w') b" if "b \<in> set (active_badges (db w))" for b
    using that w'(4,5) by (auto simp: awardable_def)
  have idle: "\<forall>b \<in> set bs. \<not> awardable u (db w') b \<Longrightarrow> award_all u [] bs w' = (Inr [], w')" for bs
    using w'(2) by (induction bs) (auto simp: go_simps HasUserBadge_quiet computeProgress_quiet
        awardable_def split: prod.splits)
  have "CheckAndAward u w' = (Inr [], w')"
    using idle none w'(2,3) by (simp add: CheckAndAward_def badges_repo_ListActive_def
        q_ListActiveBadges_def go_simps)
  moreover have "CheckAndAward u w = award_all u [] (active_badges (db w)) w"
    using assms(1) by (simp add: CheckAndAward_def badges_repo_ListActive_def
        q_ListActiveBadges_def go_simps)
  ultimately show ?thesis using w'(1,5) by auto
qed



end
