(* ===== verification/Wiring.thy ===== *)
theory Wiring
  imports OrderResults CertFacts Notifications BadgeFacts
begin

text \<open>
  What \<open>cmd/server/main.go\<close> plugs together at boot: the certificates and notifications
  services become the hooks of the orders service, the badges service the hook of the
  enrollments service.  The wired hooks leave orders and enrollments alone, so the state
  machine of the orders holds for the wired server; and enrolling in a free course through
  an order issues the course's certificate at once.
\<close>

section \<open>Hooks\<close>

definition certificate_title :: "string \<Rightarrow> string" where
  "certificate_title typ =
     (if typ = ''course'' then msg_cert_title_course
      else if typ = ''degree'' then msg_cert_title_degree
      else msg_cert_title)"

definition paid_certificate :: "string \<Rightarrow> string \<Rightarrow> string \<Rightarrow> IssueInput" where
  "paid_certificate u typ ref =
     \<lparr> iss_UserID = u, iss_Type = typ, iss_RefID = ref, iss_Title = certificate_title typ,
       iss_Description = msg_cert_description, iss_CompletedAt = None, iss_Metadata = None \<rparr>"

definition wired_IssueCertificateOnPaid :: "string \<Rightarrow> string \<Rightarrow> string \<Rightarrow> unit io" where
  "wired_IssueCertificateOnPaid u typ ref = ignoring (IssueCertificate (paid_certificate u typ ref)) (ret ())"

definition wired_NotifyOrderCreated :: "string \<Rightarrow> string \<Rightarrow> string \<Rightarrow> unit io" where
  "wired_NotifyOrderCreated u oid amount =
     ignoring (CreateNotification
       \<lparr> cni_UserID = u, cni_Type = ''order'', cni_Title = msg_order_created,
         cni_Body = msg_order_created_pre @ amount @ msg_order_created_post,
         cni_LinkURL = ''/orders/'' @ oid \<rparr>) (ret ())"

definition wired_refundNotifier :: "string \<Rightarrow> string \<Rightarrow> string \<Rightarrow> unit io" where
  "wired_refundNotifier u oid amount =
     ignoring (CreateNotification
       \<lparr> cni_UserID = u, cni_Type = ''order'', cni_Title = msg_refund_done,
         cni_Body = msg_refund_done_pre @ amount @ msg_refund_done_post,
         cni_LinkURL = ''/orders/'' @ oid \<rparr>) (ret ())"

definition wired_hooks :: order_hooks where
  "wired_hooks = \<lparr> IssueCertificateOnPaid = wired_IssueCertificateOnPaid,
     NotifyOrderCreated = wired_NotifyOrderCreated, refundNotifier = wired_refundNotifier \<rparr>"

definition wired_BadgeCheckAward :: "string \<Rightarrow> unit io" where
  "wired_BadgeCheckAward u = call (CheckAndAward u) fail (\<lambda>_. ret ())"

text \<open>The goroutines of finished handlers; a failing badge check is logged, and the award hook of
  the progress service keeps its default, which does nothing.\<close>

fun run_task :: "task \<Rightarrow> unit io" where
  "run_task (BadgeCheckTask u) = ignoring (wired_BadgeCheckAward u) (ret ())"
| "run_task (LessonAwardTask u) = ret ()"
| "run_task (PracticeAwardTask u) = ret ()"

definition run_spawned :: "unit io" where
  "run_spawned = (\<lambda>w. for_each run_task (spawned w) (w\<lparr>spawned := []\<rparr>))"

section \<open>The hooks leave orders and enrollments alone\<close>

lemma wired_hooks_within:
  assumes "certificate_writes R" "notification_writes R"
  shows "hooks_ok R wired_hooks"
proof -
  have frame: "db_frame R" using assms(1) by (simp add: certificate_writes_def)
  show ?thesis
    unfolding hooks_ok_def wired_hooks_def wired_IssueCertificateOnPaid_def
      wired_NotifyOrderCreated_def wired_refundNotifier_def order_hooks.simps
    by (intro conjI allI db_frame.within_intros [OF frame] certificate_writes.within_IssueCertificate [OF assms(1)]
        notification_writes.within_CreateNotification [OF assms(2)])
qed

lemma side_statements:
  "stmt_ok (untouched (\<lambda>d. (t_orders d, t_enrollments d))) (insert_certificate c)"
  "stmt_ok (untouched (\<lambda>d. (t_orders d, t_enrollments d))) (sql_revoke_certificate cid now)"
  "stmt_ok (untouched (\<lambda>d. (t_orders d, t_enrollments d))) (insert_audit_log a)"
  "stmt_ok (untouched (\<lambda>d. (t_orders d, t_enrollments d))) (insert_notification n)"
  by (auto simp: stmt_ok_def untouched_def insert_defs sql_revoke_certificate_def Let_def
      split: if_splits)

interpretation side_certificates: certificate_writes "untouched (\<lambda>d. (t_orders d, t_enrollments d))"
  by unfold_locales (rule side_statements)+

interpretation side_notifications: notification_writes "untouched (\<lambda>d. (t_orders d, t_enrollments d))"
  by unfold_locales (rule side_statements)

lemma side_is_life: "untouched (\<lambda>d. (t_orders d, t_enrollments d)) d d' \<Longrightarrow> order_life d d'"
  by (simp add: untouched_def order_life_def order_rows.evolve_refl)

lemma stmt_ok_mono: "stmt_ok R f \<Longrightarrow> (\<And>d d'. R d d' \<Longrightarrow> Q d d') \<Longrightarrow> stmt_ok Q f"
  unfolding stmt_ok_def by blast

interpretation life_certificates: certificate_writes order_life
  by unfold_locales (rule stmt_ok_mono [OF side_statements(1) side_is_life]
      stmt_ok_mono [OF side_statements(2) side_is_life] stmt_ok_mono [OF side_statements(3) side_is_life],
      assumption)+

interpretation life_notifications: notification_writes order_life
  by unfold_locales (rule stmt_ok_mono [OF side_statements(4) side_is_life], assumption)

lemma wired_hooks_life: "hooks_ok order_life wired_hooks"
  by (rule wired_hooks_within) unfold_locales

text \<open>The hooks the server installs stay within the life of the orders, and touch neither
  orders nor enrollments, under every failure and interference that does.\<close>

theorem wired_hooks_ok:
  "hooks_ok order_life wired_hooks \<and>
   hooks_ok (untouched (\<lambda>d. (t_orders d, t_enrollments d))) wired_hooks"
  by (rule conjI [OF wired_hooks_life wired_hooks_within]) unfold_locales

section \<open>A free order certifies\<close>

text \<open>Only the source of ids is left to compare: it is read forward.\<close>

definition ids_after :: "world \<Rightarrow> world \<Rightarrow> bool" where
  "ids_after w v \<longleftrightarrow> uuid_src v = uuid_src w \<and> uuid_ix w \<le> uuid_ix v"

lemma upsert_ids: "script w = [] \<Longrightarrow> ids_after w (snd (orders_repo_UpsertEnrollment u c g src w))"
  by (auto simp: orders_repo_UpsertEnrollment_def go_simps ids_after_def split: option.splits sum.splits)

lemma audit_ids: "script w = [] \<Longrightarrow> ids_after w (snd (orders_writeAudit action q u w))"
  by (auto simp: orders_writeAudit_def go_simps ids_after_def split: sum.splits)

lemma create_free_quiet:
  assumes "script w = []" "fresh_ids w" "api_Type i = ''course''" "api_CourseID i = c" "c \<noteq> []"
    "first_row (\<lambda>r. crs_ID r = c) (t_courses (db w)) = Some k" "crs_CostType k = CoursesCostTypeFree"
    "user_exists (db w) u" "\<And>e. \<not> active (db w) u c e"
  shows "\<exists>x v e. orders_Create h u i w = (Inr x, snd (IssueCertificateOnPaid h u ''course'' c v)) \<and>
    crr_Enrolled x \<and> script v = [] \<and> ids_after w v \<and> active (db v) u c e \<and>
    t_certificates (db v) = t_certificates (db w) \<and> t_users (db v) = t_users (db w) \<and>
    t_progress_records (db v) = t_progress_records (db w)"
proof -
  have ce: "course_exists (db w) c"
    using first_row_Some [OF assms(6)] by (auto simp: course_exists_def list_ex_iff)
  have get: "\<exists>r. orders_repo_GetCourseForOrder c w = (Inr r, w) \<and> cfo_CostType r = CoursesCostTypeFree"
    using assms(1,6,7) by (simp add: orders_repo_GetCourseForOrder_def q_GetCourseForOrder_def go_simps)
  have no: "orders_repo_HasActiveEnrollment u c [] w = (Inr False, w)"
  proof -
    have "first_row (\<lambda>e. enr_UserID e = u \<and> enr_CourseID e = Some c \<and> enr_DeletedAt e = None)
        (t_enrollments (db w)) = None"
      using assms(9) by (auto simp: first_row_None active_def)
    then show ?thesis
      using assms(1,5) by (simp add: orders_repo_HasActiveEnrollment_def q_GetActiveEnrollmentByCourse_def
          go_simps)
  qed
  obtain w1 e es where w1: "orders_repo_UpsertEnrollment u c [] ''direct'' w = (Inr (), w1)"
    "db w1 = (db w)\<lparr>t_enrollments := es\<rparr>" "active (db w1) u c e"
    using upsert_course_quiet [OF assms(1,5,8) ce assms(2), of "''direct''"] by (metis prod.collapse)
  have q1: "script w1 = []" "ids_after w w1"
    using quiet_script [OF anything.within_orders_writes(4) assms(1)] upsert_ids [OF assms(1)] w1(1)
    by (metis snd_conv)+
  obtain row where row: "q_GetActiveEnrollmentByCourse u (Some c) w1 = (Inr row, w1)"
    using w1(3) q1(1) by (cases "first_row (\<lambda>e. enr_UserID e = u \<and> enr_CourseID e = Some c \<and>
        enr_DeletedAt e = None) (t_enrollments (db w1))")
      (auto simp: q_GetActiveEnrollmentByCourse_def go_simps active_def first_row_None)
  obtain w2 as where w2: "orders_writeAudit ''order.create.free_enroll'' (enr_ID row) u w1 = (Inr (), w2)"
    "db w2 = (db w1)\<lparr>t_audit_logs := as\<rparr>" "script w2 = []"
    using writeAudit_quiet [OF q1(1)] by (metis prod.collapse)
  have ids: "ids_after w w2"
    using q1(2) audit_ids [OF q1(1), of "''order.create.free_enroll''" "enr_ID row" u] w2(1)
    by (simp add: ids_after_def)
  have "orders_Create h u i w = (Inr \<lparr> crr_Enrolled = True,
      crr_Enrollment = Some (orders_toEnrollmentDTO row), crr_Order = None \<rparr>,
      snd (IssueCertificateOnPaid h u ''course'' c w2))"
    using get no assms(3-5) w1(1) row w2(1)
    by (auto simp: orders_Create_def createCourseOrder_def go_simps)
  then show ?thesis
    using w1(2,3) w2(2,3) ids by (intro exI conjI) (assumption | simp)+
qed

lemma wired_issue: "snd (wired_IssueCertificateOnPaid u typ ref w) =
    snd (IssueCertificate (paid_certificate u typ ref) w)"
  by (simp add: wired_IssueCertificateOnPaid_def go_simps)

lemma free_order_quiet:
  assumes "script w = []" "fresh_ids w" "api_Type i = ''course''" "api_CourseID i = c" "c \<noteq> []"
    "first_row (\<lambda>r. crs_ID r = c) (t_courses (db w)) = Some k" "crs_CostType k = CoursesCostTypeFree"
    "user_exists (db w) u" "u \<noteq> []" "\<And>e. \<not> active (db w) u c e"
    "\<forall>x \<in> set (t_certificates (db w)). \<not> cert_of u ''course'' c x"
    "\<And>y. numbered (serial_prefix y ''course'') 9998 (db w)"
  shows "\<exists>x w' k. orders_Create wired_hooks u i w = (Inr x, w') \<and> crr_Enrolled x \<and>
    k \<in> set (t_certificates (db w')) \<and> cert_of u ''course'' c k \<and> crt_RevokedAt k = None"
proof -
  obtain x v e where v: "orders_Create wired_hooks u i w =
      (Inr x, snd (IssueCertificateOnPaid wired_hooks u ''course'' c v))" "crr_Enrolled x" "script v = []"
    "ids_after w v" "t_certificates (db v) = t_certificates (db w)" "t_users (db v) = t_users (db w)"
    using create_free_quiet [OF assms(1-8,10), of wired_hooks] by blast
  let ?i = "paid_certificate u ''course'' c"
  have "valid_input ?i" using assms(5,9) by (simp add: valid_input_def paid_certificate_def validCertType_def)
  moreover have "held ?i (db v) = None"
    using assms(11) v(5) by (simp add: held_def paid_certificate_def first_row_None)
  moreover have "numbered (serial_prefix (year_of (clock v)) (iss_Type ?i)) 9998 (db v)"
    using assms(12) v(5) by (simp add: numbered_def paid_certificate_def)
  moreover have "user_exists (db v) (iss_UserID ?i)"
    using assms(8) v(6) by (simp add: user_exists_def paid_certificate_def)
  moreover have "uuid_src v (uuid_ix v) \<notin> crt_ID ` set (t_certificates (db v))"
    using assms(2) v(4,5) by (simp add: ids_after_def fresh_ids_def)
  ultimately obtain y w' k where k: "IssueCertificate ?i v = (Inr y, w')"
    "first_row (\<lambda>c. crt_SerialNumber c = cdto_SerialNumber y) (t_certificates (db w')) = Some k"
    "cert_of (iss_UserID ?i) (iss_Type ?i) (iss_RefID ?i) k" "crt_RevokedAt k = None"
    using issue_new_quiet [OF v(3) _ _ refl] by blast
  have "orders_Create wired_hooks u i w = (Inr x, w')"
    using v(1) k(1) by (simp add: wired_hooks_def wired_issue)
  moreover have "k \<in> set (t_certificates (db w'))" using first_row_Some [OF k(2)] by blast
  moreover have "cert_of u ''course'' c k" using k(3) by (simp add: paid_certificate_def)
  ultimately show ?thesis using v(2) k(4) by blast
qed

text \<open>On the wired server, ordering a free course enrolls the user and in the same call issues
  the course's certificate of completion, whatever lessons have been completed: also when
  none has.\<close>

theorem free_order_certifies:
  assumes "script w = []" "fresh_ids w" "api_Type i = ''course''" "api_CourseID i = c" "c \<noteq> []"
    "first_row (\<lambda>r. crs_ID r = c) (t_courses (db w)) = Some k" "crs_CostType k = CoursesCostTypeFree"
    "user_exists (db w) u" "u \<noteq> []" "\<And>e. \<not> active (db w) u c e"
    "\<forall>x \<in> set (t_certificates (db w)). \<not> cert_of u ''course'' c x"
    "\<And>y. numbered (serial_prefix y ''course'') 9998 (db w)"
  shows "\<exists>x w' k. orders_Create wired_hooks u i w = (Inr x, w') \<and> crr_Enrolled x \<and>
    k \<in> set (t_certificates (db w')) \<and> cert_of u ''course'' c k \<and> crt_RevokedAt k = None"
  using assms by (rule free_order_quiet)

definition free_order :: APIInput where
  "free_order = \<lparr> api_Type = ''course'', api_CourseID = ''free'', api_DegreeID = [],
     api_PaymentMethod = [] \<rparr>"

theorem free_order_certifies_witness:
  "\<exists>x w' k. orders_Create wired_hooks ''u1'' free_order (demo_world (demo_database [] [])) = (Inr x, w') \<and>
     t_progress_records (db (demo_world (demo_database [] []))) = [] \<and>
     k \<in> set (t_certificates (db w')) \<and> cert_of ''u1'' ''course'' ''free'' k"
proof -
  let ?w = "demo_world (demo_database [] [])"
  have "script ?w = []" "fresh_ids ?w" "user_exists (db ?w) ''u1''" "t_certificates (db ?w) = []"
    "\<not> active (db ?w) ''u1'' ''free'' e" "t_progress_records (db ?w) = []"
    "first_row (\<lambda>r. crs_ID r = ''free'') (t_courses (db ?w)) = Some (demo_course ''free'' CoursesCostTypeFree)"
    for e
    by (simp_all add: demo_world_def demo_database_def empty_database_def demo_user_def fresh_ids_def
        user_exists_def active_def demo_course_def)
  then show ?thesis
    using free_order_certifies [of ?w free_order "''free''" "demo_course ''free'' CoursesCostTypeFree" "''u1''"]
    by (fastforce simp: free_order_def demo_course_def numbered_def)
qed

end
