(* ===== verification/Progress.thy ===== *)
theory Progress
  imports Tables
begin

text \<open>
  \<open>internal/progress\<close> (repo and service) and \<open>internal/repo/db/progress.sql.go\<close>: completing a
  lesson, the list of completed courses and the streak of days.  Days are compared as the
  code compares them, as formatted and parsed dates.
\<close>

abbreviation progress_ErrNotFound :: go_error where
  "progress_ErrNotFound \<equiv> Sentinel ''progress: not found''"

section \<open>Statements\<close>

definition completed_by :: "string \<Rightarrow> ProgressRecord \<Rightarrow> bool" where
  "completed_by u p \<longleftrightarrow> prg_UserID p = u \<and> prg_Status p = ProgressRecordsStatusCompleted"

definition q_CountCompletedLessonsByUser :: "string \<Rightarrow> int io" where
  "q_CountCompletedLessonsByUser u = query (\<lambda>d. count_rows (completed_by u) (t_progress_records d))"

definition q_GetProgressByUser :: "string \<Rightarrow> ProgressRecord list io" where
  "q_GetProgressByUser u = query (\<lambda>d. take 500 (sort_desc prg_UpdatedAt
     (filter (\<lambda>p. prg_UserID p = u) (t_progress_records d))))"

definition q_GetProgressByUserCourse :: "string \<Rightarrow> string \<Rightarrow> ProgressRecord list io" where
  "q_GetProgressByUserCourse u c = query (\<lambda>d. sort_desc prg_UpdatedAt
     (filter (\<lambda>p. prg_UserID p = u \<and> prg_CourseID p = c) (t_progress_records d)))"

definition of_lesson :: "string \<Rightarrow> string \<Rightarrow> ProgressRecord \<Rightarrow> bool" where
  "of_lesson u l p \<longleftrightarrow> prg_UserID p = u \<and> prg_LessonID p = l"

definition q_GetProgressByUserLesson :: "string \<Rightarrow> string \<Rightarrow> ProgressRecord io" where
  "q_GetProgressByUserLesson u l = query_one (\<lambda>d. first_row (of_lesson u l) (t_progress_records d))"

text \<open>The lessons of a course that are alive: neither they nor their chapter is deleted.\<close>

definition live_lessons :: "database \<Rightarrow> string \<Rightarrow> string list" where
  "live_lessons d c = concat (map (\<lambda>l. map (\<lambda>_. lsn_ID l)
       (filter (\<lambda>ch. chp_ID ch = lsn_ChapterID l \<and> chp_CourseID ch = c \<and> chp_DeletedAt ch = None)
         (t_chapters d)))
     (filter (\<lambda>l. lsn_DeletedAt l = None) (t_lessons d)))"

definition completed_lessons :: "database \<Rightarrow> string \<Rightarrow> string \<Rightarrow> string list" where
  "completed_lessons d u c = remdups (map prg_LessonID
     (filter (\<lambda>p. completed_by u p \<and> prg_CourseID p = c) (t_progress_records d)))"

definition completed_courses :: "string \<Rightarrow> database \<Rightarrow> string list" where
  "completed_courses u d = filter
     (\<lambda>c. length (completed_lessons d u c) = length (live_lessons d c))
     (remdups (map prg_CourseID (filter (completed_by u) (t_progress_records d))))"

definition q_ListCompletedCourseIDs :: "string \<Rightarrow> string list io" where
  "q_ListCompletedCourseIDs u = query (completed_courses u)"

text \<open>\<open>SELECT DISTINCT DATE(completed_at) ... ORDER BY d DESC LIMIT 365\<close>; a date is the number
  of the day.\<close>

definition completed_days :: "string \<Rightarrow> database \<Rightarrow> int list" where
  "completed_days u d = take 365 (sort_desc (\<lambda>z. z) (remdups
     (List.map_filter (\<lambda>p. map_option (\<lambda>t. t div ms_per_day) (prg_CompletedAt p))
       (filter (completed_by u) (t_progress_records d)))))"

definition q_ListCompletedDatesByUser :: "string \<Rightarrow> int list io" where
  "q_ListCompletedDatesByUser u = query (completed_days u)"

definition q_UpsertProgress :: "ProgressRecord \<Rightarrow> unit io" where
  "q_UpsertProgress p = exec (upsert_progress p)"

section \<open>Repo\<close>

definition progress_repo_ListByUser :: "string \<Rightarrow> ProgressRecord list io" where
  "progress_repo_ListByUser u =
     call (q_GetProgressByUser u) (\<lambda>e. fail (Wrap ''progress.repo: list'' e)) ret"

definition progress_repo_ListByUserCourse :: "string \<Rightarrow> string \<Rightarrow> ProgressRecord list io" where
  "progress_repo_ListByUserCourse u c =
     call (q_GetProgressByUserCourse u c) (\<lambda>e. fail (Wrap ''progress.repo: list by course'' e)) ret"

definition progress_repo_GetByUserLesson :: "string \<Rightarrow> string \<Rightarrow> ProgressRecord io" where
  "progress_repo_GetByUserLesson u l =
     call (q_GetProgressByUserLesson u l)
       (\<lambda>e. if errors_is e ErrNoRows then fail progress_ErrNotFound
            else fail (Wrap ''progress.repo: get'' e))
       ret"

definition course_of_lesson :: "string \<Rightarrow> database \<Rightarrow> string option" where
  "course_of_lesson l d =
     (case first_row (\<lambda>r. lsn_ID r = l) (t_lessons d) of
        None \<Rightarrow> None
      | Some r \<Rightarrow> map_option chp_CourseID
          (first_row (\<lambda>ch. chp_ID ch = lsn_ChapterID r) (t_chapters d)))"

definition progress_repo_GetCourseForLesson :: "string \<Rightarrow> string io" where
  "progress_repo_GetCourseForLesson l =
     call (query_one (course_of_lesson l))
       (\<lambda>e. if errors_is e ErrNoRows then fail progress_ErrNotFound
            else fail (Wrap ''progress.repo: get course for lesson'' e))
       ret"

record UpsertResult =
  upr_Record :: ProgressRecord
  upr_IsNew :: bool
  upr_WasCompleted :: bool

text \<open>The upsert itself, once the existing record (or none) is known.\<close>

definition upsert_record ::
  "string \<Rightarrow> string \<Rightarrow> string \<Rightarrow> ProgressRecordsStatus \<Rightarrow> int option \<Rightarrow> int option \<Rightarrow> int \<Rightarrow>
   ProgressRecord option \<Rightarrow> UpsertResult io" where
  "upsert_record u c l status completedAt lastPosition now existing =
     bind (case existing of Some cur \<Rightarrow> ret (prg_ID cur) | None \<Rightarrow> new_uuid) (\<lambda>pid.
     call (q_UpsertProgress \<lparr> prg_ID = pid, prg_UserID = u, prg_CourseID = c, prg_LessonID = l,
             prg_Status = status, prg_CompletedAt = completedAt, prg_LastPosition = lastPosition,
             prg_UpdatedAt = now \<rparr>)
       (\<lambda>e. fail (Wrap ''progress.repo: upsert'' e)) (\<lambda>_.
     call (progress_repo_GetByUserLesson u l) (\<lambda>e. fail (Wrap ''progress.repo: reload'' e)) (\<lambda>rec.
     ret \<lparr> upr_Record = rec, upr_IsNew = (existing = None),
           upr_WasCompleted = (case existing of None \<Rightarrow> False
             | Some cur \<Rightarrow> prg_Status cur = ProgressRecordsStatusCompleted) \<rparr>)))"

definition progress_repo_Upsert ::
  "string \<Rightarrow> string \<Rightarrow> ProgressRecordsStatus \<Rightarrow> int option \<Rightarrow> int option \<Rightarrow> UpsertResult io" where
  "progress_repo_Upsert u l status completedAt lastPosition =
     call (progress_repo_GetCourseForLesson l) fail (\<lambda>c.
     bind go_now (\<lambda>now.
     call (progress_repo_GetByUserLesson u l)
       (\<lambda>e. if \<not> errors_is e progress_ErrNotFound
            then fail (Wrap ''progress.repo: check existing'' e)
            else upsert_record u c l status completedAt lastPosition now None)
       (\<lambda>cur. upsert_record u c l status completedAt lastPosition now (Some cur))))"

definition progress_repo_CountCompletedLessons :: "string \<Rightarrow> int io" where
  "progress_repo_CountCompletedLessons u = q_CountCompletedLessonsByUser u"

definition progress_repo_ListCompletedCourseIDs :: "string \<Rightarrow> string list io" where
  "progress_repo_ListCompletedCourseIDs u = q_ListCompletedCourseIDs u"

definition progress_repo_ListCompletedDates :: "string \<Rightarrow> string list io" where
  "progress_repo_ListCompletedDates u =
     call (q_ListCompletedDatesByUser u) (\<lambda>e. fail (Wrap ''progress.repo: list dates'' e)) (\<lambda>rows.
     ret (map fmt_day rows))"

definition progress_repo_GetLessonCourseID :: "string \<Rightarrow> string io" where
  "progress_repo_GetLessonCourseID l = progress_repo_GetCourseForLesson l"

section \<open>Service\<close>

record ProgressDTO =
  pdto_ID :: string
  pdto_UserID :: string
  pdto_CourseID :: string
  pdto_LessonID :: string
  pdto_Status :: string
  pdto_CompletedAt :: "string option"
  pdto_LastPosition :: "int option"
  pdto_UpdatedAt :: string

definition toProgressDTO :: "ProgressRecord \<Rightarrow> ProgressDTO" where
  "toProgressDTO p =
     \<lparr> pdto_ID = prg_ID p, pdto_UserID = prg_UserID p, pdto_CourseID = prg_CourseID p,
       pdto_LessonID = prg_LessonID p, pdto_Status = progressRecordsStatus_str (prg_Status p),
       pdto_CompletedAt = map_option fmt_iso (prg_CompletedAt p),
       pdto_LastPosition = prg_LastPosition p, pdto_UpdatedAt = fmt_iso (prg_UpdatedAt p) \<rparr>"

definition GetMyProgress :: "string \<Rightarrow> ProgressDTO list io" where
  "GetMyProgress u =
     call (progress_repo_ListByUser u) (\<lambda>e. fail (Internal ''list progress'' e)) (\<lambda>rows.
     ret (map toProgressDTO rows))"

definition GetCourseProgress :: "string \<Rightarrow> string \<Rightarrow> ProgressDTO list io" where
  "GetCourseProgress u c =
     call (progress_repo_ListByUserCourse u c) (\<lambda>e. fail (Internal ''list course progress'' e)) (\<lambda>rows.
     ret (map toProgressDTO rows))"

definition CompleteLesson :: "string \<Rightarrow> string \<Rightarrow> ProgressDTO io" where
  "CompleteLesson u l =
     bind go_now (\<lambda>now.
     call (progress_repo_Upsert u l ProgressRecordsStatusCompleted (Some now) None)
       (\<lambda>e. if e = progress_ErrNotFound then fail (NotFound ''Lesson not found'')
            else fail (Internal ''complete lesson'' e))
       (\<lambda>res.
     bind (if upr_WasCompleted res then ret () else go_spawn (LessonAwardTask u)) (\<lambda>_.
     ret (toProgressDTO (upr_Record res)))))"

record LearningStats =
  lst_TotalLessonsCompleted :: int
  lst_CompletedCourseIDs :: "string list"
  lst_StreakDays :: int
  lst_EnrollmentsCount :: int
  lst_CompletedPractices :: int
  lst_Points :: int

text \<open>The loop of \<open>computeStreak\<close>: \<open>prev\<close> is \<open>dates[i-1]\<close>.  Two midnights differ by whole
  hours, so the quotient is exact.\<close>

fun streak_from :: "int \<Rightarrow> string \<Rightarrow> string list \<Rightarrow> int" where
  "streak_from streak prev [] = streak"
| "streak_from streak prev (day # dates) =
     (case (parse_date prev, parse_date day) of
        (Some p, Some c) \<Rightarrow>
          (if p - c = ms_per_day then streak_from (wrap32 (streak + 1)) day dates else streak)
      | _ \<Rightarrow> streak)"

definition computeStreak :: "string \<Rightarrow> int io" where
  "computeStreak u =
     call (progress_repo_ListCompletedDates u) fail (\<lambda>dates.
     case dates of
       [] \<Rightarrow> ret 0
     | d # ds \<Rightarrow>
         bind go_now (\<lambda>now1.
         bind go_now (\<lambda>now2.
         if d \<noteq> fmt_date now1 \<and> d \<noteq> fmt_date (now2 - ms_per_day) then ret 0
         else ret (streak_from 1 d ds))))"

text \<open>A failing count is zero.\<close>

definition count_or_0 :: "(database \<Rightarrow> int) \<Rightarrow> int io" where
  "count_or_0 f = call (query f) (\<lambda>_. ret 0) ret"

definition GetLearningStats :: "string \<Rightarrow> LearningStats io" where
  "GetLearningStats u =
     call (progress_repo_CountCompletedLessons u) (\<lambda>e. fail (Internal ''count completed'' e)) (\<lambda>completed.
     call (progress_repo_ListCompletedCourseIDs u)
       (\<lambda>e. fail (Internal ''list completed courses'' e)) (\<lambda>courses.
     bind (call (computeStreak u) (\<lambda>_. ret 0) ret) (\<lambda>streak.
     bind (count_or_0 (\<lambda>d. count_rows (\<lambda>e. enr_UserID e = u \<and> enr_DeletedAt e = None)
             (t_enrollments d))) (\<lambda>enrollCount.
     bind (count_or_0 (\<lambda>d. count_rows (\<lambda>p. pcm_UserID p = u \<and> pcm_Status p = ''completed'')
             (t_practice_completions d))) (\<lambda>practiceCount.
     bind (count_or_0 (\<lambda>d. case first_row (\<lambda>r. usr_ID r = u) (t_users d) of
             None \<Rightarrow> 0 | Some r \<Rightarrow> usr_Points r)) (\<lambda>points.
     ret \<lparr> lst_TotalLessonsCompleted = completed, lst_CompletedCourseIDs = courses,
           lst_StreakDays = streak, lst_EnrollmentsCount = enrollCount,
           lst_CompletedPractices = practiceCount, lst_Points = points \<rparr>))))))"

section \<open>What the operations may do to the database\<close>

text \<open>The service upserts completed records only.\<close>

locale progress_writes = db_frame +
  assumes ok_upsert_progress:
    "prg_Status p = ProgressRecordsStatusCompleted \<Longrightarrow> stmt_ok R (upsert_progress p)"
begin

lemma within_progress_repo:
  "within (db_step R) (progress_repo_GetByUserLesson u l)"
  "within (db_step R) (progress_repo_GetCourseForLesson l)"
  unfolding progress_repo_GetByUserLesson_def progress_repo_GetCourseForLesson_def
    q_GetProgressByUserLesson_def
  by (intro within_intros)+

lemma within_upsert_record:
  "within (db_step R) (upsert_record u c l ProgressRecordsStatusCompleted ca lp now existing)"
  unfolding upsert_record_def q_UpsertProgress_def
  by (intro within_intros within_progress_repo within_exec [OF ok_upsert_progress]) simp

lemma within_CompleteLesson: "within (db_step R) (CompleteLesson u l)"
  unfolding CompleteLesson_def progress_repo_Upsert_def
  by (intro within_intros within_progress_repo within_upsert_record)

end

end
