(* ===== verification/ProgressFacts.thy ===== *)
theory ProgressFacts
  imports Progress Demo
begin

text \<open>
  What the progress service guarantees: one record per user and lesson, whose identity never
  changes and which stays completed; completing stamps the record with the present instant,
  also when it was completed before; the streak is the length of the run of days that ends
  today or yesterday; and when the list of completed courses is right.
\<close>

section \<open>The life of a record\<close>

definition prg_next :: "ProgressRecord \<Rightarrow> ProgressRecord \<Rightarrow> bool" where
  "prg_next p p' \<longleftrightarrow>
     (prg_ID p', prg_UserID p', prg_CourseID p', prg_LessonID p')
     = (prg_ID p, prg_UserID p, prg_CourseID p, prg_LessonID p) \<and>
     (prg_Status p = ProgressRecordsStatusCompleted \<longrightarrow> prg_Status p' = ProgressRecordsStatusCompleted)"

interpretation progress_rows: row_life prg_next
  by unfold_locales (auto simp: prg_next_def)

abbreviation prg_keys :: "database \<Rightarrow> bool" where
  "prg_keys d \<equiv> no_conflicts prg_conflict (t_progress_records d)"

definition progress_life :: "database \<Rightarrow> database \<Rightarrow> bool" where
  "progress_life d d' \<longleftrightarrow> (prg_keys d \<longrightarrow> prg_keys d') \<and>
     evolve prg_next (t_progress_records d) (t_progress_records d')"

interpretation progress_life: db_frame progress_life
  by unfold_locales (auto simp: progress_life_def progress_rows.evolve_refl
      intro: progress_rows.evolve_trans)

lemma upsert_completed_life:
  assumes "prg_Status p = ProgressRecordsStatusCompleted"
  shows "stmt_ok progress_life (upsert_progress p)"
proof (rule stmt_okI)
  fix d x d' assume d': "upsert_progress p d = Inr (x, d')"
  let ?ps = "t_progress_records d"
  define change where "change = (\<lambda>x :: ProgressRecord. x\<lparr>prg_Status := prg_Status p,
      prg_CompletedAt := prg_CompletedAt p, prg_LastPosition := prg_LastPosition p,
      prg_UpdatedAt := prg_UpdatedAt p\<rparr>)"
  have keep: "no_conflicts prg_conflict (upd P change rs) = no_conflicts prg_conflict rs" for P rs
    by (rule no_conflicts_upd) (simp add: change_def prg_conflict_def)
  have step: "prg_next r (change r)" for r by (simp add: prg_next_def change_def assms)
  consider (update) key where "t_progress_records d' = upd key change ?ps"
    | (new) r where "t_progress_records d' = ?ps @ [r]" "\<forall>x \<in> set ?ps. \<not> prg_conflict x r"
  proof (cases "list_ex (\<lambda>x. prg_ID x = prg_ID p) ?ps")
    case True
    with d' that(1) [of "\<lambda>x. prg_ID x = prg_ID p"] show ?thesis
      by (auto simp: upsert_progress_def Let_def change_def)
  next
    case False
    with d' that(1) [of "\<lambda>x. prg_UserID x = prg_UserID p \<and> prg_LessonID x = prg_LessonID p"]
      that(2) [of p]
    show ?thesis
      by (auto simp: upsert_progress_def Let_def change_def list_ex_iff
          prg_conflict_def split: if_splits)
  qed
  then show "progress_life d d'"
  proof cases
    case update
    then show ?thesis by (auto simp: progress_life_def keep intro: progress_rows.evolve_upd step)
  next
    case new
    then show ?thesis
      by (auto simp: progress_life_def list_ex_iff conflict_sym(3) [of r]
          intro!: no_conflicts_append [OF _ conflict_sym(3)] intro: progress_rows.evolve_append)
  qed
qed

interpretation progress_life_writes: progress_writes progress_life
  by unfold_locales (rule upsert_completed_life)

text \<open>Under connection failures and interference that does the same, completing a lesson keeps
  one record per user and lesson, removes none, never changes whose record it is, and what
  is completed stays completed.\<close>

theorem progress_never_lost:
  assumes "rely_ok progress_life w" "prg_keys (db w)"
  shows "prg_keys (db (snd (CompleteLesson u l w))) \<and>
    evolve prg_next (t_progress_records (db w)) (t_progress_records (db (snd (CompleteLesson u l w))))"
  using within_rely [OF progress_life_writes.within_CompleteLesson assms(1)] assms(2)
  by (simp add: progress_life_def)

section \<open>Completing a lesson\<close>

lemma first_row_upsert:
  "first_row (of_lesson u l) (upd (\<lambda>x. prg_ID x = i) change ps) =
     map_option (\<lambda>x. if prg_ID x = i then change x else x) (first_row (of_lesson u l) ps)"
  if "\<And>x. of_lesson u l (change x) = of_lesson u l x"
  by (rule first_row_upd) (simp add: that)

lemma complete_quiet:
  assumes "script w = []" "course_of_lesson l (db w) = Some c"
    "user_exists (db w) u" "course_exists (db w) c" "lesson_exists (db w) l"
    "uuid_src w (uuid_ix w) \<notin> prg_ID ` set (t_progress_records (db w))"
  shows "\<exists>x w' p. CompleteLesson u l w = (Inr x, w') \<and> x = toProgressDTO p \<and>
    first_row (of_lesson u l) (t_progress_records (db w')) = Some p \<and>
    prg_Status p = ProgressRecordsStatusCompleted \<and> prg_CompletedAt p = Some (clock w)"
proof -
  have get: "progress_repo_GetCourseForLesson l v = (Inr c, v)" if "script v = []" "db v = db w" for v
    using assms(2) that by (simp add: progress_repo_GetCourseForLesson_def go_simps)
  define P where "P d = first_row (of_lesson u l) (t_progress_records d)" for d :: database
  have look: "progress_repo_GetByUserLesson u l v =
      (case P (db v) of None \<Rightarrow> (Inl progress_ErrNotFound, v) | Some p \<Rightarrow> (Inr p, v))"
    if "script v = []" for v
    using that by (simp add: progress_repo_GetByUserLesson_def q_GetProgressByUserLesson_def go_simps
        P_def split: option.splits)
  show ?thesis
  proof (cases "P (db w)")
    case None
    let ?p = "\<lparr> prg_ID = uuid_src w (uuid_ix w), prg_UserID = u, prg_CourseID = c, prg_LessonID = l,
      prg_Status = ProgressRecordsStatusCompleted, prg_CompletedAt = Some (clock w),
      prg_LastPosition = None, prg_UpdatedAt = clock (tick w) \<rparr>"
    let ?d = "(db w)\<lparr>t_progress_records := t_progress_records (db w) @ [?p]\<rparr>"
    have "prg_ID x \<noteq> uuid_src w (uuid_ix w)" if "x \<in> set (t_progress_records (db w))" for x
      using assms(6) that by (metis imageI)
    then have "upsert_progress ?p (db w) = Inr ((), ?d)"
      using assms(3-5) None by (auto simp: upsert_progress_def Let_def list_ex_iff P_def first_row_None
          of_lesson_def)
    moreover have "P ?d = Some ?p" using None by (simp add: P_def first_row_append of_lesson_def)
    ultimately show ?thesis
      using assms(1) None
      by (auto simp: CompleteLesson_def progress_repo_Upsert_def upsert_record_def q_UpsertProgress_def
          get look go_simps P_def [symmetric] split: option.splits)
  next
    case (Some q)
    then have q: "q \<in> set (t_progress_records (db w))" "of_lesson u l q"
      using first_row_Some by (fastforce simp: P_def)+
    define change where "change = (\<lambda>x :: ProgressRecord. x\<lparr>prg_Status := ProgressRecordsStatusCompleted,
        prg_CompletedAt := Some (clock w), prg_LastPosition := None, prg_UpdatedAt := clock (tick w)\<rparr>)"
    let ?p = "\<lparr> prg_ID = prg_ID q, prg_UserID = u, prg_CourseID = c, prg_LessonID = l,
      prg_Status = ProgressRecordsStatusCompleted, prg_CompletedAt = Some (clock w),
      prg_LastPosition = None, prg_UpdatedAt = clock (tick w) \<rparr>"
    let ?d = "(db w)\<lparr>t_progress_records := upd (\<lambda>x. prg_ID x = prg_ID q) change (t_progress_records (db w))\<rparr>"
    have "upsert_progress ?p (db w) = Inr ((), ?d)"
      using q(1) by (auto simp: upsert_progress_def Let_def list_ex_iff change_def)
    moreover have "P ?d = Some (change q)"
      using Some first_row_upsert [of u l change "prg_ID q" "t_progress_records (db w)"]
      by (simp add: P_def change_def of_lesson_def)
    moreover have "prg_Status (change q) = ProgressRecordsStatusCompleted"
      "prg_CompletedAt (change q) = Some (clock w)" by (simp_all add: change_def)
    ultimately show ?thesis
      using assms(1) Some
      by (auto simp: CompleteLesson_def progress_repo_Upsert_def upsert_record_def q_UpsertProgress_def
          get look go_simps P_def [symmetric] split: option.splits)
  qed
qed

text \<open>In an undisturbed run completing an existing lesson succeeds for any existing user,
  enrolled or not, and leaves the record completed at the present instant: completing a
  lesson again moves its completion date.\<close>

theorem completion_stamps_now:
  assumes "script w = []" "course_of_lesson l (db w) = Some c"
    "user_exists (db w) u" "course_exists (db w) c" "lesson_exists (db w) l"
    "uuid_src w (uuid_ix w) \<notin> prg_ID ` set (t_progress_records (db w))"
  shows "\<exists>x w' p. CompleteLesson u l w = (Inr x, w') \<and> x = toProgressDTO p \<and>
    first_row (of_lesson u l) (t_progress_records (db w')) = Some p \<and>
    prg_Status p = ProgressRecordsStatusCompleted \<and> prg_CompletedAt p = Some (clock w)"
  using assms by (rule complete_quiet)

definition lesson_world :: world where
  "lesson_world = demo_world ((demo_database [] [])\<lparr>t_progress_records :=
     [\<lparr> prg_ID = ''p1'', prg_UserID = ''u1'', prg_CourseID = ''paid'', prg_LessonID = ''l1'',
        prg_Status = ProgressRecordsStatusCompleted, prg_CompletedAt = Some 5,
        prg_LastPosition = None, prg_UpdatedAt = 5 \<rparr>]\<rparr>)"

lemma lesson_world_facts:
  "script lesson_world = []" "prg_keys (db lesson_world)" "clock lesson_world = 1000"
  "course_of_lesson ''l1'' (db lesson_world) = Some ''paid''" "user_exists (db lesson_world) ''u1''"
  "course_exists (db lesson_world) ''paid''" "lesson_exists (db lesson_world) ''l1''"
  "uuid_src lesson_world (uuid_ix lesson_world) \<notin> prg_ID ` set (t_progress_records (db lesson_world))"
  by (simp_all add: lesson_world_def demo_defs no_conflicts_def course_of_lesson_def user_exists_def
      course_exists_def lesson_exists_def)

theorem progress_never_lost_witness:
  "prg_keys (db (snd (CompleteLesson ''u1'' ''l1'' lesson_world)))"
  using progress_never_lost [OF _ lesson_world_facts(2)] by (simp add: rely_ok_def lesson_world_facts(1))

theorem completion_stamps_now_witness:
  "\<exists>x w' p. CompleteLesson ''u1'' ''l1'' lesson_world = (Inr x, w') \<and>
     first_row (of_lesson ''u1'' ''l1'') (t_progress_records (db w')) = Some p \<and>
     prg_CompletedAt p = Some 1000"
  using completion_stamps_now [OF lesson_world_facts(1,4-8)] lesson_world_facts(3) by force

section \<open>The streak\<close>

fun run :: "int \<Rightarrow> int list \<Rightarrow> nat" where
  "run z [] = 0"
| "run z (y # ys) = (if y = z - 1 then Suc (run y ys) else 0)"

lemma run_take: "run z (take n zs) = min n (run z zs)"
proof (induction z zs arbitrary: n rule: run.induct)
  case (2 z y ys)
  then show ?case by (cases n) auto
qed simp

lemma run_in: "k \<le> run z zs \<Longrightarrow> z - int k \<in> set (z # zs)"
proof (induction z zs arbitrary: k rule: run.induct)
  case (2 z y ys)
  show ?case
  proof (cases k)
    case (Suc j)
    with 2(2) have "y = z - 1" "j \<le> run y ys" by (auto split: if_splits)
    then have "y - int j \<in> set (y # ys)" using 2(1) by blast
    moreover have "z - int k = y - int j" using \<open>y = z - 1\<close> Suc by simp
    ultimately show ?thesis by auto
  qed simp
qed simp

lemma run_stops: "sorted_wrt (>) (z # zs) \<Longrightarrow> z - int (run z zs) - 1 \<notin> set (z # zs)"
proof (induction z zs rule: run.induct)
  case (2 z y ys)
  show ?case
  proof (cases "y = z - 1")
    case True
    with 2 show ?thesis by (simp add: algebra_simps) fastforce
  qed (use 2 in fastforce)
qed simp

lemma run_length: "run z zs \<le> length zs"
  by (induction z zs rule: run.induct) auto

lemma streak_from_run:
  "representable_day z \<Longrightarrow> \<forall>y \<in> set zs. representable_day y \<Longrightarrow> 0 \<le> n \<Longrightarrow>
   n + int (length zs) < 2 ^ 31 \<Longrightarrow>
   streak_from n (fmt_day z) (map fmt_day zs) = n + int (run z zs)"
proof (induction z zs arbitrary: n rule: run.induct)
  case (2 z y ys)
  have "z * ms_per_day - y * ms_per_day = ms_per_day \<longleftrightarrow> y = z - 1"
    by (auto simp: ms_per_day_def)
  moreover have "wrap32 (n + 1) = n + 1" using 2(4,5) by (intro wrap32_id) auto
  ultimately show ?case using 2 by (simp add: parse_fmt_day)
qed simp

lemma fmt_day_inject:
  assumes "representable_day y" "representable_day z"
  shows "fmt_day y = fmt_day z \<longleftrightarrow> y = z"
proof
  assume "fmt_day y = fmt_day z"
  then have "Some (y * ms_per_day) = Some (z * ms_per_day)"
    using parse_fmt_day [OF assms(1)] parse_fmt_day [OF assms(2)] by metis
  then show "y = z" by (simp add: ms_per_day_def)
qed simp

lemma day_before: "(t - ms_per_day) div ms_per_day = t div ms_per_day - 1"
  using div_mult_self1 [of ms_per_day t "- 1"] by (simp add: ms_per_day_def)

definition days_of :: "string \<Rightarrow> database \<Rightarrow> int set" where
  "days_of u d = {t div ms_per_day |p t. p \<in> set (t_progress_records d) \<and> completed_by u p \<and>
     prg_CompletedAt p = Some t}"

lemma days_of_list: "days_of u d = set (List.map_filter
    (\<lambda>p. map_option (\<lambda>t. t div ms_per_day) (prg_CompletedAt p))
    (filter (completed_by u) (t_progress_records d)))"
  by (force simp: days_of_def map_filter_def)

lemma completed_days_sorted:
  obtains L where "completed_days u d = take 365 L" "sorted_wrt (>) L" "set L = days_of u d"
proof
  define xs where "xs = List.map_filter (\<lambda>p. map_option (\<lambda>t. t div ms_per_day) (prg_CompletedAt p))
       (filter (completed_by u) (t_progress_records d))"
  let ?L = "sort_desc (\<lambda>z. z) (remdups xs)"
  show "completed_days u d = take 365 ?L" unfolding completed_days_def xs_def ..
  have "sorted (map uminus ?L)" "distinct (map uminus ?L)"
    by (simp_all add: sort_desc_def distinct_map)
  then have "sorted_wrt (<) (map uminus ?L)" by (simp add: strict_sorted_iff)
  then show "sorted_wrt (>) ?L" by (simp add: sorted_wrt_map)
  show "set ?L = days_of u d"
    by (simp add: sort_desc_def xs_def days_of_list)
qed

lemma streak_quiet:
  assumes "script w = []" "today = clock w div ms_per_day" "clock (tick w) div ms_per_day = today"
    and "representable_day today" "representable_day (today - 1)"
    and "\<forall>z \<in> days_of u (db w). representable_day z"
  shows "\<exists>s. fst (computeStreak u w) = Inr s \<and>
    (if \<exists>D \<in> days_of u (db w). D \<in> {today, today - 1} \<and> (\<forall>z \<in> days_of u (db w). z \<le> D)
     then 1 \<le> s \<and> s \<le> 365 \<and>
       (\<exists>D \<in> {today, today - 1}. (\<forall>z \<in> days_of u (db w). z \<le> D) \<and>
          (\<forall>k. 0 \<le> k \<and> k < s \<longrightarrow> D - k \<in> days_of u (db w)) \<and>
          (s < 365 \<longrightarrow> D - s \<notin> days_of u (db w)))
     else s = 0)"
proof -
  obtain L where L: "completed_days u (db w) = take 365 L" "sorted_wrt (>) L" "set L = days_of u (db w)"
    by (rule completed_days_sorted)
  have dates: "progress_repo_ListCompletedDates u w = (Inr (map fmt_day (take 365 L)), w)"
    using assms(1) by (simp add: progress_repo_ListCompletedDates_def q_ListCompletedDatesByUser_def
        go_simps L(1))
  have yes: "fmt_date (clock w) = fmt_day today" "fmt_date (clock (tick w) - ms_per_day) = fmt_day (today - 1)"
    using assms(2,3) by (simp_all add: fmt_date_def day_before)
  show ?thesis
  proof (cases L)
    case Nil
    with L(3) have "days_of u (db w) = {}" by simp
    with Nil dates show ?thesis by (simp add: computeStreak_def go_simps)
  next
    case (Cons z zs)
    have zs: "sorted_wrt (>) (z # zs)" "set (z # zs) = days_of u (db w)" using L Cons by simp_all
    have top: "\<forall>y \<in> days_of u (db w). y \<le> z" using zs by (fastforce simp flip: zs(2))
    have rep: "representable_day z" "\<forall>y \<in> set zs. representable_day y" using assms(6) zs(2) by auto
    define s where "s = 1 + int (run z (take 364 zs))"
    have step: "take 365 L = z # take 364 zs" using Cons by (simp add: take_Cons')
    have "streak_from 1 (fmt_day z) (map fmt_day (take 364 zs)) = s"
      unfolding s_def
    proof (rule streak_from_run)
      show "\<forall>y \<in> set (take 364 zs). representable_day y" using rep(2) set_take_subset [of 364 zs] by blast
      have "int (length (take 364 zs)) \<le> 364" by simp
      then show "1 + int (length (take 364 zs)) < 2 ^ 31" by simp
    qed (use rep in simp_all)
    then have run: "fst (computeStreak u w) = Inr (if z = today \<or> z = today - 1 then s else 0)"
      using dates assms(1) rep assms(4,5)
      by (auto simp: computeStreak_def go_simps step yes fmt_day_inject)
    have D: "(\<exists>D \<in> days_of u (db w). D \<in> {today, today - 1} \<and> (\<forall>y \<in> days_of u (db w). y \<le> D)) \<longleftrightarrow>
        z = today \<or> z = today - 1"
      using top zs(2) by (metis antisym insert_iff list.set_intros(1) singletonD)
    have "1 \<le> s" "s \<le> 365" by (simp_all add: s_def run_take)
    moreover have "z - k \<in> days_of u (db w)" if "0 \<le> k" "k < s" for k
    proof -
      have "nat k \<le> run z zs" using that by (simp add: s_def run_take)
      from run_in [OF this] that(1) have "z - k \<in> set (z # zs)" by simp
      then show ?thesis by (simp only: zs(2))
    qed
    moreover have "z - s \<notin> days_of u (db w)" if "s < 365"
    proof -
      have s: "s = 1 + int (run z zs)" using that by (auto simp: s_def run_take)
      show ?thesis using run_stops [OF zs(1)] unfolding zs(2) s by (simp add: algebra_simps)
    qed
    ultimately show ?thesis using run D top by (intro exI [of _ "if z = today \<or> z = today - 1 then s else 0"]) auto
  qed
qed

text \<open>C10: in an undisturbed run within one day the streak is the number of consecutive days with a
  completed lesson, counted back from the latest one, up to 365, when that is today or
  yesterday, and zero otherwise.\<close>

theorem streak_is_run:
  assumes "script w = []" "today = clock w div ms_per_day" "clock (tick w) div ms_per_day = today"
    and "representable_day today" "representable_day (today - 1)"
    and "\<forall>z \<in> days_of u (db w). representable_day z"
  shows "\<exists>s. fst (computeStreak u w) = Inr s \<and>
    (if \<exists>D \<in> days_of u (db w). D \<in> {today, today - 1} \<and> (\<forall>z \<in> days_of u (db w). z \<le> D)
     then 1 \<le> s \<and> s \<le> 365 \<and>
       (\<exists>D \<in> {today, today - 1}. (\<forall>z \<in> days_of u (db w). z \<le> D) \<and>
          (\<forall>k. 0 \<le> k \<and> k < s \<longrightarrow> D - k \<in> days_of u (db w)) \<and>
          (s < 365 \<longrightarrow> D - s \<notin> days_of u (db w)))
     else s = 0)"
  using assms by (rule streak_quiet)

text \<open>Lessons completed yesterday and today, on 1970-01-02.\<close>

definition streak_world :: world where
  "streak_world = lesson_world\<lparr>clock := ms_per_day + 1000, db := (db lesson_world)\<lparr>t_progress_records :=
     t_progress_records (db lesson_world) @
     [\<lparr> prg_ID = ''p2'', prg_UserID = ''u1'', prg_CourseID = ''paid'', prg_LessonID = ''l2'',
        prg_Status = ProgressRecordsStatusCompleted, prg_CompletedAt = Some (ms_per_day + 5),
        prg_LastPosition = None, prg_UpdatedAt = ms_per_day + 5 \<rparr>]\<rparr>\<rparr>"

lemma year_of_day: "fst (civil_of_days z) = fst (year_parts z)"
  by (simp add: civil_of_days_def case_prod_unfold Let_def)

lemma day_representable: "representable_day 0" "representable_day 1"
proof -
  have "(0 + epoch_day) div 146097 = 4" "(0 + epoch_day) mod 146097 = 134774"
    "(1 + epoch_day) div 146097 = 4" "(1 + epoch_day) mod 146097 = 134775"
    by (simp_all add: epoch_day_def)
  then have "fst (year_parts 0) = 1970" "fst (year_parts 1) = 1970"
    unfolding year_parts_def Let_def by simp_all
  then show "representable_day 0" "representable_day 1"
    by (simp_all add: representable_day_def year_of_day)
qed

theorem streak_is_run_witness:
  "\<exists>s. fst (computeStreak ''u1'' streak_world) = Inr s \<and> s \<noteq> 0"
proof -
  have days: "days_of ''u1'' (db streak_world) = {0, 1}"
    by (simp add: days_of_list streak_world_def lesson_world_def demo_defs completed_by_def
        ms_per_day_def map_filter_simps)
  have "script streak_world = []" "1 = clock streak_world div ms_per_day"
    "clock (tick streak_world) div ms_per_day = 1"
    by (simp_all add: streak_world_def lesson_world_def demo_world_def tick_eq ms_per_day_def)
  from streak_is_run [OF this, of "''u1''"] day_representable obtain s where
    s: "fst (computeStreak ''u1'' streak_world) = Inr s"
      "if \<exists>D \<in> {0, 1 :: int}. D \<in> {1, 1 - 1} \<and> (\<forall>z \<in> {0, 1}. z \<le> D) then 1 \<le> s else s = 0"
    unfolding days by (auto split: if_splits)
  then have "1 \<le> s" by simp
  with s(1) show ?thesis by (intro exI [of _ s]) simp
qed

section \<open>Completed courses\<close>

text \<open>The query compares two counts.  They decide "every live lesson is completed" as long as the
  completed records refer to live lessons.\<close>

lemma completed_course_counts:
  assumes "distinct (live_lessons d c)" "set (completed_lessons d u c) \<subseteq> set (live_lessons d c)"
  shows "length (completed_lessons d u c) = length (live_lessons d c) \<longleftrightarrow>
    set (live_lessons d c) \<subseteq> set (completed_lessons d u c)"
proof -
  have "distinct (completed_lessons d u c)" by (simp add: completed_lessons_def)
  then have "length (completed_lessons d u c) = card (set (completed_lessons d u c))"
    "length (live_lessons d c) = card (set (live_lessons d c))"
    using assms(1) by (simp_all add: distinct_card)
  then show ?thesis using assms(2) by (metis List.finite_set card_seteq dual_order.refl subset_antisym)
qed

text \<open>In an undisturbed run a course is listed as completed exactly when the user has completed
  a lesson of it and every live one, provided the completed records of the course refer to
  its live lessons.\<close>

theorem completed_courses_exact:
  assumes "script w = []" "distinct (live_lessons (db w) c)"
    "set (completed_lessons (db w) u c) \<subseteq> set (live_lessons (db w) c)"
  shows "\<exists>cs. fst (progress_repo_ListCompletedCourseIDs u w) = Inr cs \<and>
    (c \<in> set cs \<longleftrightarrow> completed_lessons (db w) u c \<noteq> [] \<and>
       (\<forall>l \<in> set (live_lessons (db w) c). l \<in> set (completed_lessons (db w) u c)))"
proof -
  have "c \<in> prg_CourseID ` {p \<in> set (t_progress_records (db w)). completed_by u p} \<longleftrightarrow>
      completed_lessons (db w) u c \<noteq> []"
    by (auto simp: completed_lessons_def filter_empty_conv)
  then show ?thesis
    using assms(1) completed_course_counts [OF assms(2,3)]
    by (auto simp: progress_repo_ListCompletedCourseIDs_def q_ListCompletedCourseIDs_def go_simps
        completed_courses_def)
qed

lemma lesson_world_lessons:
  "live_lessons (db lesson_world) ''paid'' = [''l1'', ''l2'']"
  "completed_lessons (db lesson_world) ''u1'' ''paid'' = [''l1'']"
  by (simp_all add: lesson_world_def demo_defs live_lessons_def completed_lessons_def completed_by_def)

theorem completed_courses_exact_witness:
  "\<exists>cs. fst (progress_repo_ListCompletedCourseIDs ''u1'' lesson_world) = Inr cs \<and> ''paid'' \<notin> set cs"
  using completed_courses_exact [OF lesson_world_facts(1), of "''paid''" "''u1''"]
  by (auto simp: lesson_world_lessons)

text \<open>The provision matters: with the completed lesson deleted, the course counts as completed
  although its one live lesson is not.\<close>

definition deleted_lesson_world :: world where
  "deleted_lesson_world = lesson_world\<lparr>db := (db lesson_world)\<lparr>t_lessons :=
     upd (\<lambda>l. lsn_ID l = ''l1'') (\<lambda>l. l\<lparr>lsn_DeletedAt := Some 7\<rparr>) (t_lessons (db lesson_world))\<rparr>\<rparr>"

text \<open>A completed lesson that has been deleted since stands in for a live one: the course is
  listed as completed while its only live lesson is not.\<close>

theorem deleted_lesson_completes:
  "fst (progress_repo_ListCompletedCourseIDs ''u1'' deleted_lesson_world) = Inr [''paid''] \<and>
   live_lessons (db deleted_lesson_world) ''paid'' = [''l2''] \<and>
   ''l2'' \<notin> set (completed_lessons (db deleted_lesson_world) ''u1'' ''paid'')"
  by (simp add: deleted_lesson_world_def lesson_world_def demo_defs live_lessons_def
      completed_lessons_def completed_by_def progress_repo_ListCompletedCourseIDs_def
      q_ListCompletedCourseIDs_def go_simps completed_courses_def)

end
