(* ===== verification/Points.thy ===== *)
theory Points
  imports Demo Float64
begin

text \<open>
  \<open>internal/points\<close> and \<open>internal/repo/db/points.sql.go\<close>: points, level and thresholds.  The
  level is computed with a floating-point square root; it is proved to be the integer one
  for every \<open>int32\<close>, and the thresholds to bracket the points up to level 4634.  Where the
  product of the last level exceeds \<open>int32\<close> the conversion is the platform's: the argument
  \<open>out_of_range\<close> stands for it.
\<close>

section \<open>Integer square root\<close>

function isqrt :: "int \<Rightarrow> int" where
  "isqrt n = (if n \<le> 0 then 0
     else (let r = 2 * isqrt (n div 4) in if (r + 1) * (r + 1) \<le> n then r + 1 else r))"
  by pat_completeness auto
termination
  by (relation "measure nat") (auto simp: nat_less_iff)

declare isqrt.simps [simp del]

lemma isqrt_nonneg: "0 \<le> isqrt n"
proof (induction n rule: isqrt.induct)
  case (1 n)
  then show ?case by (subst isqrt.simps) (auto simp: Let_def)
qed

lemma isqrt_bounds: "0 \<le> n \<Longrightarrow> isqrt n * isqrt n \<le> n \<and> n < (isqrt n + 1) * (isqrt n + 1)"
proof (induction n rule: isqrt.induct)
  case (1 n)
  show ?case
  proof (cases "n \<le> 0")
    case True
    with 1(2) have "n = 0" by simp
    then show ?thesis by (simp add: isqrt.simps [of 0])
  next
    case False
    define q where "q = isqrt (n div 4)"
    have q: "q * q \<le> n div 4" "n div 4 < (q + 1) * (q + 1)" using 1 False by (simp_all add: q_def)
    have n: "4 * (n div 4) \<le> n" "n < 4 * (n div 4) + 4" by presburger+
    have lo: "(2 * q) * (2 * q) \<le> n" using q(1) n(1) by linarith
    have "n div 4 + 1 \<le> (q + 1) * (q + 1)" using q(2) by simp
    then have "4 * (n div 4) + 4 \<le> (2 * q + 2) * (2 * q + 2)" by (simp add: algebra_simps)
    with n(2) have hi: "n < (2 * q + 1 + 1) * (2 * q + 1 + 1)" by (simp add: algebra_simps)
    show ?thesis
      using False lo hi by (simp add: isqrt.simps [of n] Let_def q_def [symmetric])
  qed
qed

lemma isqrt_ge: "0 \<le> r \<Longrightarrow> r * r \<le> n \<Longrightarrow> r \<le> isqrt n"
proof (rule ccontr)
  assume r: "0 \<le> r" "r * r \<le> n" "\<not> r \<le> isqrt n"
  then have "(isqrt n + 1) * (isqrt n + 1) \<le> r * r" using isqrt_nonneg [of n] by (intro mult_mono) auto
  moreover have "0 \<le> n" using r by (meson order_trans zero_le_square)
  ultimately show False using isqrt_bounds [of n] r(2) by simp
qed

lemma isqrt_less: "0 \<le> n \<Longrightarrow> 0 \<le> r \<Longrightarrow> n < r * r \<Longrightarrow> isqrt n < r"
proof (rule ccontr)
  assume r: "0 \<le> n" "0 \<le> r" "n < r * r" "\<not> isqrt n < r"
  then have "r * r \<le> isqrt n * isqrt n" by (intro mult_mono) auto
  with r(1,3) isqrt_bounds [of n] show False by simp
qed

section \<open>Floating point\<close>

text \<open>\<open>math.Sqrt\<close> is correctly rounded: the integer root of the scaled value, with a half added
  when it is not exact, lies on the same side of every rounding boundary as the root.\<close>

definition dbl_sqrt :: "dbl \<Rightarrow> dbl" where
  "dbl_sqrt x = (let s = isqrt (x * dbl_one)
     in rnd (2 * s + (if s * s = x * dbl_one then 0 else 1)) 2)"

definition dbl_floor :: "dbl \<Rightarrow> dbl" where
  "dbl_floor x = x div dbl_one * dbl_one"

definition to_int32 :: "(dbl \<Rightarrow> int) \<Rightarrow> dbl \<Rightarrow> int" where
  "to_int32 out_of_range x =
     (if - (2 ^ 31) \<le> dbl_trunc x \<and> dbl_trunc x < 2 ^ 31 then dbl_trunc x else out_of_range x)"

section \<open>Statements and repo\<close>

abbreviation points_ErrNotFound :: go_error where
  "points_ErrNotFound \<equiv> Sentinel ''points: not found''"

record GetUserPointsRow =
  gup_Points :: int
  gup_Level :: int

definition q_GetUserPoints :: "string \<Rightarrow> GetUserPointsRow io" where
  "q_GetUserPoints u = query_one (\<lambda>d. map_option
     (\<lambda>r. \<lparr> gup_Points = usr_Points r, gup_Level = usr_Level r \<rparr>)
     (first_row (\<lambda>r. usr_ID r = u \<and> usr_DeletedAt r = None) (t_users d)))"

definition q_ListRecentPointTransactions :: "string \<Rightarrow> nat \<Rightarrow> PointTransaction list io" where
  "q_ListRecentPointTransactions u limit = query (\<lambda>d. take limit (sort_desc ptx_CreatedAt
     (filter (\<lambda>t. ptx_UserID t = u \<and> ptx_DeletedAt t = None) (t_point_transactions d))))"

definition points_repo_GetUserPoints :: "string \<Rightarrow> GetUserPointsRow io" where
  "points_repo_GetUserPoints u =
     call (q_GetUserPoints u)
       (\<lambda>e. if errors_is e ErrNoRows then fail points_ErrNotFound
            else fail (Wrap ''points.repo: get user points'' e))
       ret"

definition points_repo_ListRecent :: "string \<Rightarrow> nat \<Rightarrow> PointTransaction list io" where
  "points_repo_ListRecent u limit =
     call (q_ListRecentPointTransactions u limit) (\<lambda>e. fail (Wrap ''points.repo: list recent'' e)) ret"

section \<open>Service\<close>

record PointTransactionDTO =
  ptdto_ID :: string
  ptdto_UserID :: string
  ptdto_Amount :: int
  ptdto_Reason :: string
  ptdto_RefType :: "string option"
  ptdto_RefID :: "string option"
  ptdto_CreatedAt :: string

definition toPointTransactionDTO :: "PointTransaction \<Rightarrow> PointTransactionDTO" where
  "toPointTransactionDTO t =
     \<lparr> ptdto_ID = ptx_ID t, ptdto_UserID = ptx_UserID t, ptdto_Amount = ptx_Amount t,
       ptdto_Reason = ptx_Reason t, ptdto_RefType = ptx_RefType t, ptdto_RefID = ptx_RefID t,
       ptdto_CreatedAt = fmt_iso (ptx_CreatedAt t) \<rparr>"

record PointsDTO =
  pts_Points :: int
  pts_Level :: int
  pts_CurrentLevelPoints :: int
  pts_NextLevelPoints :: int
  pts_PointsToNextLevel :: int
  pts_RecentTransactions :: "PointTransactionDTO list"

definition emptyPointsDTO :: PointsDTO where
  "emptyPointsDTO = \<lparr> pts_Points = 0, pts_Level = 1, pts_CurrentLevelPoints = 0,
     pts_NextLevelPoints = 100, pts_PointsToNextLevel = 100, pts_RecentTransactions = [] \<rparr>"

definition calculateLevel :: "(dbl \<Rightarrow> int) \<Rightarrow> int \<Rightarrow> int" where
  "calculateLevel out_of_range points =
     (if points \<le> 0 then 1
      else wrap32 (to_int32 out_of_range
             (dbl_floor (dbl_sqrt (dbl_div (dbl_of_int points) (dbl_of_int 100)))) + 1))"

definition levelThreshold :: "(dbl \<Rightarrow> int) \<Rightarrow> int \<Rightarrow> int" where
  "levelThreshold out_of_range level =
     (if level \<le> 1 then 0
      else (let d = dbl_of_int (wrap32 (level - 1))
            in to_int32 out_of_range (dbl_mul (dbl_mul d d) (dbl_of_int 100))))"

definition points_GetUserPoints :: "(dbl \<Rightarrow> int) \<Rightarrow> string \<Rightarrow> PointsDTO io" where
  "points_GetUserPoints out_of_range u =
     call (points_repo_GetUserPoints u)
       (\<lambda>e. if errors_is e points_ErrNotFound then ret emptyPointsDTO
            else fail (Internal ''get user points'' e))
       (\<lambda>up.
     call (points_repo_ListRecent u 10) (\<lambda>e. fail (Internal ''list recent transactions'' e)) (\<lambda>txs.
     let level = calculateLevel out_of_range (gup_Points up);
         current = levelThreshold out_of_range level;
         upper = levelThreshold out_of_range (wrap32 (level + 1))
     in ret \<lparr> pts_Points = gup_Points up, pts_Level = level, pts_CurrentLevelPoints = current,
              pts_NextLevelPoints = upper,
              pts_PointsToNextLevel =
                to_int32 out_of_range (max 0 (dbl_of_int (wrap32 (upper - gup_Points up)))),
              pts_RecentTransactions = map toPointTransactionDTO txs \<rparr>))"

section \<open>The level is the integer one\<close>

lemma dbl_one_pos: "0 < dbl_one"
  by (simp add: dbl_one_def)

lemma dbl_repr_one: "\<bar>i\<bar> < 2 ^ 53 \<Longrightarrow> dbl_repr (i * dbl_one)"
  unfolding dbl_one_def by (rule dbl_repr_shift)

lemma rnd_nonneg: "0 \<le> a \<Longrightarrow> rnd a b = rnd_pos a b"
  by (simp add: rnd_def)

lemma trunc_int: "dbl_trunc (i * dbl_one) = i" if "0 \<le> i"
  using that dbl_one_pos by (simp add: dbl_trunc_def) (meson not_less mult_nonneg_nonneg less_le_not_le)

lemma quotient_bounds:
  assumes p: "0 < p" "p < 2 ^ 31" and n: "n * n * 100 \<le> p" "p < m * m * 100" "0 \<le> n" "0 < m" "m < 2 ^ 16"
  shows "n * n * dbl_one \<le> dbl_div (dbl_of_int p) (dbl_of_int 100)"
    and "dbl_div (dbl_of_int p) (dbl_of_int 100) \<le> (m * m * 2 ^ 20 - 1) * 2 ^ 100"
proof -
  have y: "dbl_div (dbl_of_int p) (dbl_of_int 100) = rnd_pos (p * dbl_one * dbl_one) (100 * dbl_one)"
    using p dbl_one_pos dbl_of_int_exact [of p] dbl_of_int_exact [of 100]
    by (simp add: dbl_div_def rnd_nonneg)
  have nn: "n * n < 2 ^ 53" using n(1) p(2) by simp
  have "n * n * 100 * (dbl_one * dbl_one) \<le> p * (dbl_one * dbl_one)"
    using n(1) dbl_one_pos by (intro mult_right_mono) auto
  then have lo: "n * n * dbl_one * (100 * dbl_one) \<le> p * dbl_one * dbl_one"
    by (simp add: ac_simps)
  show "n * n * dbl_one \<le> dbl_div (dbl_of_int p) (dbl_of_int 100)"
    unfolding y using nn n(3) dbl_one_pos lo by (intro rnd_pos_ge dbl_repr_one) auto
  have mm: "m * m < 2 ^ 32" using mult_strict_mono [of m "2 ^ 16" m "2 ^ 16"] n(4,5) by simp
  have "p * 2 ^ 20 \<le> (m * m * 100 - 1) * 2 ^ 20" using n(2) by (intro mult_right_mono) auto
  then have "p * 2 ^ 20 \<le> (m * m * 2 ^ 20 - 1) * 100" by (simp add: algebra_simps)
  then have "p * 2 ^ 20 * (2 ^ 100 * dbl_one) \<le> (m * m * 2 ^ 20 - 1) * 100 * (2 ^ 100 * dbl_one)"
    using dbl_one_pos by (intro mult_right_mono) auto
  then have hi: "p * dbl_one * dbl_one \<le> (m * m * 2 ^ 20 - 1) * 2 ^ 100 * (100 * dbl_one)"
    by (simp add: dbl_one_def ac_simps)
  have "1 \<le> m * m" using n(4) by (metis int_one_le_iff_zero_less mult_pos_pos)
  then have "0 \<le> (m * m * 2 ^ 20 - 1) * 2 ^ 100" "\<bar>m * m * 2 ^ 20 - 1\<bar> < 2 ^ 53"
    using mm by simp_all
  then show "dbl_div (dbl_of_int p) (dbl_of_int 100) \<le> (m * m * 2 ^ 20 - 1) * 2 ^ 100"
    unfolding y using hi p(1) dbl_one_pos
    by (intro rnd_pos_le dbl_repr_shift) auto
qed

lemma sqrt_bounds:
  assumes y: "n * n * dbl_one \<le> y" "y \<le> (m * m * 2 ^ 20 - 1) * 2 ^ 100"
    and n: "0 \<le> n" "n < 2 ^ 16" "0 < m" "m < 2 ^ 13"
  shows "n * dbl_one \<le> dbl_sqrt y" and "dbl_sqrt y < m * dbl_one"
proof -
  define s where "s = isqrt (y * dbl_one)"
  define t where "t = (if s * s = y * dbl_one then 0 else 1 :: int)"
  have s0: "0 \<le> s" by (simp add: s_def isqrt_nonneg)
  have t: "0 \<le> t" "t \<le> 1" by (simp_all add: t_def)
  have y0: "0 \<le> y" using y(1) n(1) dbl_one_pos by (meson mult_nonneg_nonneg less_imp_le order_trans)
  have sq: "dbl_sqrt y = rnd_pos (2 * s + t) 2"
    using s0 t by (simp add: dbl_sqrt_def s_def t_def Let_def rnd_def)
  have "(n * dbl_one) * (n * dbl_one) \<le> y * dbl_one"
    using mult_right_mono [OF y(1), of dbl_one] dbl_one_pos by (simp add: ac_simps)
  then have "n * dbl_one \<le> s" unfolding s_def using n(1) dbl_one_pos by (intro isqrt_ge) auto
  then have "n * dbl_one * 2 \<le> 2 * s + t" using t(1) by simp
  then show "n * dbl_one \<le> dbl_sqrt y"
    unfolding sq using n dbl_one_pos by (intro rnd_pos_ge dbl_repr_one) auto
  define U where "U = (m * 2 ^ 40 - 1) * 2 ^ 80"
  have U0: "0 \<le> U" using n(3) by (simp add: U_def)
  have "m * 2 ^ 41 < 2 ^ 60" using n(4) by simp
  then have "m * m * 2 ^ 80 - 2 ^ 60 < (m * 2 ^ 40 - 1) * (m * 2 ^ 40 - 1)" by (simp add: algebra_simps)
  then have "(m * m * 2 ^ 80 - 2 ^ 60) * 2 ^ 160 < (m * 2 ^ 40 - 1) * (m * 2 ^ 40 - 1) * 2 ^ 160"
    by (intro mult_strict_right_mono) auto
  moreover have "y * dbl_one \<le> (m * m * 2 ^ 20 - 1) * 2 ^ 100 * dbl_one"
    using y(2) dbl_one_pos by (intro mult_right_mono) auto
  ultimately have "y * dbl_one < U * U" by (simp add: U_def dbl_one_def algebra_simps)
  then have "s < U" unfolding s_def using y0 U0 dbl_one_pos by (intro isqrt_less) auto
  then have "2 * s + t \<le> U * 2" using t(2) by simp
  moreover have "\<bar>m * 2 ^ 40 - 1\<bar> < 2 ^ 53" using n(3,4) by simp
  ultimately have "dbl_sqrt y \<le> U"
    unfolding sq using s0 t(1) U0 unfolding U_def by (intro rnd_pos_le dbl_repr_shift) auto
  also have "U < m * dbl_one" by (simp add: U_def dbl_one_def algebra_simps)
  finally show "dbl_sqrt y < m * dbl_one" .
qed

lemma isqrt_100:
  assumes "0 < p"
  shows "isqrt (p div 100) * isqrt (p div 100) * 100 \<le> p"
    and "p < (isqrt (p div 100) + 1) * (isqrt (p div 100) + 1) * 100"
proof -
  have b: "isqrt (p div 100) * isqrt (p div 100) \<le> p div 100"
    "p div 100 + 1 \<le> (isqrt (p div 100) + 1) * (isqrt (p div 100) + 1)"
    using isqrt_bounds [of "p div 100"] assms by (auto simp: pos_imp_zdiv_nonneg_iff)
  have p: "p div 100 * 100 \<le> p" "p < (p div 100 + 1) * 100" by presburger+
  show "isqrt (p div 100) * isqrt (p div 100) * 100 \<le> p"
    using mult_right_mono [OF b(1), of 100] p(1) by linarith
  show "p < (isqrt (p div 100) + 1) * (isqrt (p div 100) + 1) * 100"
    using mult_right_mono [OF b(2), of 100] p(2) by linarith
qed

lemma isqrt_level: "p < 2 ^ 31 \<Longrightarrow> 0 < p \<Longrightarrow> isqrt (p div 100) < 4635"
  by (rule isqrt_less) (auto simp: pos_imp_zdiv_nonneg_iff)

lemma trunc_between: "0 \<le> n \<Longrightarrow> n * dbl_one \<le> z \<Longrightarrow> z < (n + 1) * dbl_one \<Longrightarrow> z div dbl_one = n"
  by (rule int_div_pos_eq [of _ _ _ "z - n * dbl_one"]) (simp_all add: algebra_simps)

lemma calculateLevel_eq:
  assumes p: "0 < p" "p < 2 ^ 31"
  shows "calculateLevel oor p = isqrt (p div 100) + 1"
proof -
  define n where "n = isqrt (p div 100)"
  note q = isqrt_100 [OF p(1), folded n_def] isqrt_nonneg [of "p div 100", folded n_def]
    isqrt_level [OF p(2,1), folded n_def]
  let ?y = "dbl_div (dbl_of_int p) (dbl_of_int 100)"
  have y: "n * n * dbl_one \<le> ?y" "?y \<le> ((n + 1) * (n + 1) * 2 ^ 20 - 1) * 2 ^ 100"
    using quotient_bounds [of p n "n + 1"] p q by simp_all
  have "n * dbl_one \<le> dbl_sqrt ?y" "dbl_sqrt ?y < (n + 1) * dbl_one"
    using sqrt_bounds [OF y] q by simp_all
  then have "dbl_sqrt ?y div dbl_one = n" by (intro trunc_between q(3))
  then show ?thesis
    using q trunc_int [of n]
    using p by (simp add: calculateLevel_def dbl_floor_def to_int32_def wrap32_id n_def [symmetric])
qed

section \<open>The thresholds are exact up to level 4635\<close>

lemma dbl_mul_exact:
  assumes "0 \<le> i" "0 \<le> j" "i * j < 2 ^ 53"
  shows "dbl_mul (i * dbl_one) (j * dbl_one) = i * j * dbl_one"
proof -
  have "0 \<le> i * j" using assms(1,2) by simp
  have nn: "0 \<le> i * j * dbl_one" using dbl_one_pos by (intro mult_nonneg_nonneg [OF \<open>0 \<le> i * j\<close>]) auto
  have "dbl_mul (i * dbl_one) (j * dbl_one) = rnd (i * j * dbl_one * dbl_one) dbl_one"
    by (simp add: dbl_mul_def ac_simps)
  also have "\<dots> = rnd_pos (i * j * dbl_one * dbl_one) dbl_one"
    using mult_nonneg_nonneg [OF nn, of dbl_one] dbl_one_pos by (intro rnd_nonneg) simp
  also have "\<dots> = i * j * dbl_one"
    using nn dbl_one_pos assms(3) \<open>0 \<le> i * j\<close> by (intro rnd_pos_exact dbl_repr_one) auto
  finally show ?thesis .
qed

lemma levelThreshold_eq:
  assumes "1 \<le> level" "level \<le> 4635"
  shows "levelThreshold oor level = 100 * (level - 1) * (level - 1)"
proof (cases "level = 1")
  case False
  define n where "n = level - 1"
  define q where "q = n * n"
  have n: "0 < n" "n \<le> 4634" using assms False by (simp_all add: n_def)
  have q: "0 \<le> q" "q \<le> 4634 * 4634" using n mult_mono [of n 4634 n 4634] by (simp_all add: q_def)
  have d: "dbl_of_int n = n * dbl_one" "dbl_of_int 100 = 100 * dbl_one"
    using n by (simp_all add: dbl_of_int_exact)
  have "dbl_mul (n * dbl_one) (n * dbl_one) = q * dbl_one"
    using n q dbl_mul_exact [of n n] by (simp add: q_def)
  then have "dbl_mul (dbl_mul (dbl_of_int n) (dbl_of_int n)) (dbl_of_int 100) = q * 100 * dbl_one"
    using q dbl_mul_exact [of q 100] by (simp add: d)
  then have "levelThreshold oor level = q * 100"
    using assms False q n trunc_int [of "q * 100"] wrap32_id [of n]
    by (simp add: levelThreshold_def n_def [symmetric] Let_def to_int32_def)
  then show ?thesis by (simp add: q_def n_def)
qed (simp add: levelThreshold_def)

lemma level_bracket:
  assumes "0 \<le> p" "p < 2147395600"
    and level: "level = calculateLevel oor p"
  shows "1 \<le> level \<and> level \<le> 4634 \<and> levelThreshold oor level \<le> p \<and> p < levelThreshold oor (level + 1)"
proof (cases "p = 0")
  case True
  then show ?thesis by (simp add: level calculateLevel_def levelThreshold_eq)
next
  case False
  then have p: "0 < p" using assms(1) by simp
  have l: "level = isqrt (p div 100) + 1" unfolding level using p assms(2) by (intro calculateLevel_eq) auto
  have "isqrt (p div 100) < 4634" using p assms(2) by (intro isqrt_less) (auto simp: pos_imp_zdiv_nonneg_iff)
  then show ?thesis
    using isqrt_100 [OF p] isqrt_nonneg [of "p div 100"] by (simp add: l levelThreshold_eq algebra_simps)
qed

section \<open>The points page\<close>

lemma GetUserPoints_quiet:
  assumes w: "script w = []"
    and u: "first_row (\<lambda>r. usr_ID r = u \<and> usr_DeletedAt r = None) (t_users (db w)) = Some r"
    and p: "0 \<le> usr_Points r" "usr_Points r < 2147395600"
  shows "\<exists>d. points_GetUserPoints oor u w = (Inr d, w) \<and> pts_Points d = usr_Points r \<and>
    pts_CurrentLevelPoints d \<le> usr_Points r \<and> usr_Points r < pts_NextLevelPoints d \<and>
    pts_PointsToNextLevel d = pts_NextLevelPoints d - usr_Points r \<and> 1 \<le> pts_Level d \<and>
    pts_CurrentLevelPoints d = 100 * (pts_Level d - 1)\<^sup>2 \<and> pts_NextLevelPoints d = 100 * (pts_Level d)\<^sup>2"
proof -
  define l where "l = calculateLevel oor (usr_Points r)"
  have l: "1 \<le> l" "l \<le> 4634" "levelThreshold oor l \<le> usr_Points r" "usr_Points r < levelThreshold oor (l + 1)"
    using level_bracket [OF p l_def] by simp_all
  have t: "levelThreshold oor l = 100 * (l - 1) * (l - 1)" "levelThreshold oor (l + 1) = 100 * l * l"
    using l levelThreshold_eq [of l] levelThreshold_eq [of "l + 1"] by simp_all
  have "l * l \<le> 4634 * 4634" using l mult_mono [of l 4634 l 4634] by simp
  then have up: "levelThreshold oor (l + 1) < 2 ^ 31" by (simp add: t)
  define k where "k = 100 * l * l - usr_Points r"
  have k: "0 < k" "k < 2 ^ 31" using l p up by (simp_all add: k_def t)
  have d: "to_int32 oor (max 0 (dbl_of_int (wrap32 k))) = k"
    using k trunc_int [of k] mult_pos_pos [OF k(1) dbl_one_pos]
    by (simp add: wrap32_id dbl_of_int_exact to_int32_def max_def)
  have l1: "wrap32 (l + 1) = l + 1" using l by (simp add: wrap32_id)
  show ?thesis
    using w u l k d t
    by (simp add: points_GetUserPoints_def points_repo_GetUserPoints_def points_repo_ListRecent_def
        q_GetUserPoints_def q_ListRecentPointTransactions_def go_simps l1 Let_def power2_eq_square
        flip: l_def k_def)
qed

text \<open>C11: in an undisturbed run the points page of a live user with at most 2147395599 points shows
  the user's points between the thresholds of the level it shows, which are 100 times
  the squares of the level before and of the level, and the points missing to the next: the floating-point root and the
  conversions lose nothing.\<close>

theorem level_brackets_points:
  assumes "script w = []"
    and "first_row (\<lambda>r. usr_ID r = u \<and> usr_DeletedAt r = None) (t_users (db w)) = Some r"
    and "0 \<le> usr_Points r" "usr_Points r < 2147395600"
  shows "\<exists>d. points_GetUserPoints oor u w = (Inr d, w) \<and> pts_Points d = usr_Points r \<and>
    pts_CurrentLevelPoints d \<le> usr_Points r \<and> usr_Points r < pts_NextLevelPoints d \<and>
    pts_PointsToNextLevel d = pts_NextLevelPoints d - usr_Points r \<and> 1 \<le> pts_Level d \<and>
    pts_CurrentLevelPoints d = 100 * (pts_Level d - 1)\<^sup>2 \<and> pts_NextLevelPoints d = 100 * (pts_Level d)\<^sup>2"
  using assms by (rule GetUserPoints_quiet)

definition points_world :: world where
  "points_world = demo_world ((demo_database [] [])\<lparr>t_users := [(demo_user ''u1'')\<lparr>usr_Points := 250\<rparr>]\<rparr>)"

lemma points_world_facts:
  "script points_world = []"
  "first_row (\<lambda>r. usr_ID r = ''u1'' \<and> usr_DeletedAt r = None) (t_users (db points_world)) =
     Some ((demo_user ''u1'')\<lparr>usr_Points := 250\<rparr>)"
  by (simp_all add: points_world_def demo_defs)

theorem level_brackets_points_witness:
  "\<exists>d. points_GetUserPoints (\<lambda>_. 0) ''u1'' points_world = (Inr d, points_world) \<and> pts_Points d = 250 \<and>
    250 < pts_NextLevelPoints d"
  using level_brackets_points [OF points_world_facts, of "\<lambda>_. 0"] by auto

end
