(* ===== verification/Digest.thy ===== *)
theory Digest
  imports Store "HOL-Library.Word"
begin

text \<open>
  The standard-library encodings the tokens go through: \<open>crypto/sha256\<close> on bytes with
  32-bit wrap-around words, and \<open>base64.RawURLEncoding\<close> (six bits a character, no padding).
\<close>

unbundle bit_operations_syntax

section \<open>SHA-256\<close>

text \<open>The constants are the first 32 bits behind the point of the cube and the square roots of the
  first primes: \<open>root_bits\<close> finds the integer root of \<open>n\<close> bit by bit.\<close>

fun root_bits :: "nat \<Rightarrow> int \<Rightarrow> nat \<Rightarrow> int \<Rightarrow> int" where
  "root_bits k n 0 r = r"
| "root_bits k n (Suc b) r = root_bits k n b (if (r + 2 ^ b) ^ k \<le> n then r + 2 ^ b else r)"

definition small_primes :: "int list" where
  "small_primes = filter (\<lambda>p. list_all (\<lambda>d. p mod d \<noteq> 0) [2..p - 1]) [2..311]"

definition root_frac :: "nat \<Rightarrow> int \<Rightarrow> 32 word" where
  "root_frac k p = of_int (root_bits k (p * 2 ^ (32 * k)) 40 0)"

definition sha_k :: "32 word list" where
  "sha_k = map (root_frac 3) small_primes"

definition sha_init :: "32 word list" where
  "sha_init = map (root_frac 2) (take 8 small_primes)"

definition rotr :: "nat \<Rightarrow> 32 word \<Rightarrow> 32 word" where
  "rotr n w = drop_bit n w OR push_bit (32 - n) w"

fun be_word :: "nat list \<Rightarrow> 32 word" where
  "be_word bs = foldl (\<lambda>a b. 256 * a + of_nat b) 0 bs"

fun chunks :: "nat \<Rightarrow> 'a list \<Rightarrow> 'a list list" where
  "chunks n xs = (if n = 0 \<or> xs = [] then [] else take n xs # chunks n (drop n xs))"

declare chunks.simps [simp del]

definition be_bytes :: "nat \<Rightarrow> int \<Rightarrow> nat list" where
  "be_bytes n x = map (\<lambda>i. nat (x div 256 ^ (n - 1 - i) mod 256)) [0..<n]"

definition sha_pad :: "nat list \<Rightarrow> nat list" where
  "sha_pad m = m @ 0x80 # replicate ((119 - length m mod 64) mod 64) 0 @ be_bytes 8 (8 * int (length m))"

text \<open>The schedule, latest word first.\<close>

fun sha_schedule :: "nat \<Rightarrow> 32 word list \<Rightarrow> 32 word list" where
  "sha_schedule 0 ws = ws"
| "sha_schedule (Suc k) ws =
     (let a = ws ! 14; b = ws ! 1
      in sha_schedule k ((ws ! 15 + (rotr 7 a XOR rotr 18 a XOR drop_bit 3 a) + ws ! 6 +
           (rotr 17 b XOR rotr 19 b XOR drop_bit 10 b)) # ws))"

fun sha_round :: "32 word list \<Rightarrow> 32 word \<times> 32 word \<Rightarrow> 32 word list" where
  "sha_round [a, b, c, d, e, f, g, h] (k, w) =
     (let t1 = h + (rotr 6 e XOR rotr 11 e XOR rotr 25 e) + ((e AND f) XOR (NOT e AND g)) + k + w;
          t2 = (rotr 2 a XOR rotr 13 a XOR rotr 22 a) + ((a AND b) XOR (a AND c) XOR (b AND c))
      in [t1 + t2, a, b, c, d + t1, e, f, g])"
| "sha_round s kw = s"

definition sha_block :: "32 word list \<Rightarrow> nat list \<Rightarrow> 32 word list" where
  "sha_block h block = map2 (+) h
     (foldl sha_round h (zip sha_k (rev (sha_schedule 48 (rev (map be_word (chunks 4 block)))))))"

definition sha256 :: "string \<Rightarrow> string" where
  "sha256 s = concat (map (\<lambda>w. map char_of (be_bytes 4 (uint w)))
     (foldl sha_block sha_init (chunks 64 (sha_pad (map byte_of s)))))"

section \<open>Base64, URL alphabet, no padding\<close>

definition b64_char :: "nat \<Rightarrow> char" where
  "b64_char n = (if n < 26 then char_of (65 + n) else if n < 52 then char_of (71 + n)
     else if n < 62 then char_of (n - 4) else if n = 62 then CHR ''-'' else CHR ''_'')"

fun base64_raw_url :: "string \<Rightarrow> string" where
  "base64_raw_url [] = []"
| "base64_raw_url [x] = (let a = byte_of x in [b64_char (a div 4), b64_char (a mod 4 * 16)])"
| "base64_raw_url [x, y] = (let a = byte_of x; b = byte_of y
     in [b64_char (a div 4), b64_char (a mod 4 * 16 + b div 16), b64_char (b mod 16 * 4)])"
| "base64_raw_url (x # y # z # s) = (let a = byte_of x; b = byte_of y; c = byte_of z
     in [b64_char (a div 4), b64_char (a mod 4 * 16 + b div 16),
         b64_char (b mod 16 * 4 + c div 64), b64_char (c mod 64)] @ base64_raw_url s)"

text \<open>Thirty-two random bytes become a token of 43 characters.\<close>

lemma length_base64: "length (base64_raw_url s) = (4 * length s + 2) div 3"
proof (induction s rule: base64_raw_url.induct)
  case (4 x y z s)
  have "(4 * (3 + length s) + 2) div 3 = 4 + (4 * length s + 2) div 3" by presburger
  with 4 show ?case by (simp add: Let_def)
qed (simp_all add: Let_def)

text \<open>The characters of the alphabet.\<close>

definition b64_bytes :: "nat set" where
  "b64_bytes = {45, 95} \<union> {48..57} \<union> {65..90} \<union> {97..122}"

lemma b64_char_byte: "n < 64 \<Longrightarrow> byte_of (b64_char n) \<in> b64_bytes"
  by (auto simp: b64_char_def byte_of_def b64_bytes_def)

lemma byte_of_less: "byte_of c < 256"
  by (simp add: byte_of_def)

lemma b64_indices:
  "byte_of x div 4 < 64" "byte_of x mod 4 * 16 < 64" "byte_of x mod 4 * 16 + byte_of y div 16 < 64"
  "byte_of y mod 16 * 4 < 64" "byte_of y mod 16 * 4 + byte_of z div 64 < 64" "byte_of z mod 64 < 64"
proof -
  note b = byte_of_less [of x] byte_of_less [of y] byte_of_less [of z]
  have q: "byte_of y div 16 < 16" "byte_of z div 64 < 4" using b by (simp_all add: less_mult_imp_div_less)
  have m: "byte_of x mod 4 < 4" "byte_of y mod 16 < 16" "byte_of z mod 64 < 64" by simp_all
  show "byte_of x div 4 < 64" using b by (simp add: less_mult_imp_div_less)
  show "byte_of x mod 4 * 16 < 64" "byte_of x mod 4 * 16 + byte_of y div 16 < 64"
    "byte_of y mod 16 * 4 < 64" "byte_of y mod 16 * 4 + byte_of z div 64 < 64" "byte_of z mod 64 < 64"
    using q m by linarith+
qed

lemma base64_bytes: "c \<in> set (base64_raw_url s) \<Longrightarrow> byte_of c \<in> b64_bytes"
  by (induction s rule: base64_raw_url.induct) (auto simp: Let_def intro!: b64_char_byte b64_indices)

lemma newline_not_base64: "CHR 0x0A \<notin> set (base64_raw_url s)"
  using base64_bytes [of "CHR 0x0A" s] by (auto simp: byte_of_def b64_bytes_def)

end
