(* ===== verification/AuthStore.thy ===== *)
theory AuthStore
  imports Tables Digest
begin

text \<open>
  The data layer of \<open>internal/auth\<close>: the statements of \<open>internal/repo/db/auth.sql.go\<close> and the
  four of \<open>users.sql.go\<close> it uses, and \<open>AuthRepo\<close> (\<open>internal/auth/repo.go\<close>).  Refresh tokens
  and reset tokens are stored under their hash only.
\<close>

abbreviation auth_ErrNotFound :: go_error where
  "auth_ErrNotFound \<equiv> Sentinel ''auth: not found''"

section \<open>Statements on users\<close>

definition live_email :: "string \<Rightarrow> User \<Rightarrow> bool" where
  "live_email email r \<longleftrightarrow> usr_Email r = email \<and> usr_DeletedAt r = None"

definition q_GetUserByEmail :: "string \<Rightarrow> User io" where
  "q_GetUserByEmail email = query_one (\<lambda>d. first_row (live_email email) (t_users d))"

definition q_GetUserByID :: "string \<Rightarrow> User io" where
  "q_GetUserByID u = query_one (\<lambda>d. first_row (\<lambda>r. usr_ID r = u) (t_users d))"

definition q_CreateUser :: "User \<Rightarrow> unit io" where
  "q_CreateUser r = exec (insert_user (r\<lparr>usr_DeletedAt := None, usr_LastLoginAt := None\<rparr>))"

definition sql_last_login :: "int option \<Rightarrow> int \<Rightarrow> string \<Rightarrow> unit stmt" where
  "sql_last_login t now u = (\<lambda>d. Inr ((), d\<lparr>t_users := upd (\<lambda>r. usr_ID r = u)
     (\<lambda>r. r\<lparr>usr_LastLoginAt := t, usr_UpdatedAt := now\<rparr>) (t_users d)\<rparr>))"

definition q_UpdateUserLastLogin :: "int option \<Rightarrow> int \<Rightarrow> string \<Rightarrow> unit io" where
  "q_UpdateUserLastLogin t now u = exec (sql_last_login t now u)"

section \<open>Statements on refresh tokens\<close>

definition q_CreateRefreshToken :: "RefreshToken \<Rightarrow> unit io" where
  "q_CreateRefreshToken r = exec (insert_refresh_token r)"

definition q_GetRefreshToken :: "string \<Rightarrow> RefreshToken io" where
  "q_GetRefreshToken h = query_one (\<lambda>d. first_row (\<lambda>r. rft_Token r = h) (t_refresh_tokens d))"

definition q_DeleteRefreshToken :: "string \<Rightarrow> unit io" where
  "q_DeleteRefreshToken i = exec (\<lambda>d. Inr ((), d\<lparr>t_refresh_tokens :=
     deleted (\<lambda>r. rft_ID r = i) (t_refresh_tokens d)\<rparr>))"

definition q_DeleteExpiredRefreshTokens :: "int \<Rightarrow> unit io" where
  "q_DeleteExpiredRefreshTokens now = exec (\<lambda>d. Inr ((), d\<lparr>t_refresh_tokens :=
     deleted (\<lambda>r. rft_ExpiresAt r < now) (t_refresh_tokens d)\<rparr>))"

definition live_token :: "string \<Rightarrow> int \<Rightarrow> RefreshToken \<Rightarrow> bool" where
  "live_token h now r \<longleftrightarrow> rft_Token r = h \<and> now \<le> rft_ExpiresAt r"

definition sql_consume_token :: "string \<Rightarrow> int \<Rightarrow> int stmt" where
  "sql_consume_token h now = (\<lambda>d. Inr (count_rows (live_token h now) (t_refresh_tokens d),
     d\<lparr>t_refresh_tokens := deleted (live_token h now) (t_refresh_tokens d)\<rparr>))"

definition q_DeleteRefreshTokenByToken :: "string \<Rightarrow> int \<Rightarrow> int io" where
  "q_DeleteRefreshTokenByToken h now = exec (sql_consume_token h now)"

definition sql_revoke_all :: "string \<Rightarrow> unit stmt" where
  "sql_revoke_all u = (\<lambda>d. Inr ((), d\<lparr>t_refresh_tokens :=
     deleted (\<lambda>r. rft_UserID r = u) (t_refresh_tokens d)\<rparr>))"

definition q_RevokeAllRefreshTokensForUser :: "string \<Rightarrow> unit io" where
  "q_RevokeAllRefreshTokensForUser u = exec (sql_revoke_all u)"

definition q_CountActiveRefreshTokensForUser :: "string \<Rightarrow> int \<Rightarrow> int io" where
  "q_CountActiveRefreshTokensForUser u now = query (\<lambda>d. count_rows
     (\<lambda>r. rft_UserID r = u \<and> now \<le> rft_ExpiresAt r) (t_refresh_tokens d))"

section \<open>Statements on provider accounts\<close>

definition q_CreateProviderAccount :: "UserProviderAccount \<Rightarrow> unit io" where
  "q_CreateProviderAccount r = exec (insert_provider_account r)"

definition bound_to :: "string \<Rightarrow> string \<Rightarrow> UserProviderAccount \<Rightarrow> bool" where
  "bound_to provider pid r \<longleftrightarrow>
     upa_Provider r = provider \<and> upa_ProviderUserID r = pid \<and> upa_DeletedAt r = None"

definition q_GetProviderAccountByProvider :: "string \<Rightarrow> string \<Rightarrow> UserProviderAccount io" where
  "q_GetProviderAccountByProvider provider pid =
     query_one (\<lambda>d. first_row (bound_to provider pid) (t_user_provider_accounts d))"

definition q_GetProviderAccountByID :: "string \<Rightarrow> UserProviderAccount io" where
  "q_GetProviderAccountByID i =
     query_one (\<lambda>d. first_row (\<lambda>r. upa_ID r = i) (t_user_provider_accounts d))"

text \<open>\<open>ORDER BY is_primary DESC, linked_at ASC\<close>.\<close>

definition identity_le :: "UserProviderAccount \<Rightarrow> UserProviderAccount \<Rightarrow> bool" where
  "identity_le r x \<longleftrightarrow> (upa_IsPrimary r \<and> \<not> upa_IsPrimary x) \<or>
     (upa_IsPrimary r = upa_IsPrimary x \<and> upa_LinkedAt r \<le> upa_LinkedAt x)"

definition q_ListProviderAccountsByUser :: "string \<Rightarrow> UserProviderAccount list io" where
  "q_ListProviderAccountsByUser u = query (\<lambda>d. sort_by identity_le
     (filter (\<lambda>r. upa_UserID r = u \<and> upa_DeletedAt r = None) (t_user_provider_accounts d)))"

definition q_CountUserProviderAccounts :: "string \<Rightarrow> int io" where
  "q_CountUserProviderAccounts u = query (\<lambda>d. count_rows
     (\<lambda>r. upa_UserID r = u \<and> upa_DeletedAt r = None) (t_user_provider_accounts d))"

definition q_CountActivePrimaryProviders :: "string \<Rightarrow> int io" where
  "q_CountActivePrimaryProviders u = query (\<lambda>d. count_rows
     (\<lambda>r. upa_UserID r = u \<and> upa_IsPrimary r \<and> upa_DeletedAt r = None) (t_user_provider_accounts d))"

definition q_SoftDeleteProviderAccount :: "int option \<Rightarrow> int \<Rightarrow> string \<Rightarrow> unit io" where
  "q_SoftDeleteProviderAccount t now i = exec (\<lambda>d. Inr ((), d\<lparr>t_user_provider_accounts :=
     upd (\<lambda>r. upa_ID r = i \<and> upa_DeletedAt r = None)
         (\<lambda>r. r\<lparr>upa_DeletedAt := t, upa_UpdatedAt := now\<rparr>) (t_user_provider_accounts d)\<rparr>))"

definition sql_unlink :: "int option \<Rightarrow> string \<Rightarrow> string \<Rightarrow> nat stmt" where
  "sql_unlink t i u =
     (let P = (\<lambda>r. upa_ID r = i \<and> upa_UserID r = u \<and> upa_DeletedAt r = None);
          f = (\<lambda>r. r\<lparr>upa_DeletedAt := t\<rparr>)
      in (\<lambda>d. Inr (changed P f (t_user_provider_accounts d),
            d\<lparr>t_user_provider_accounts := upd P f (t_user_provider_accounts d)\<rparr>)))"

definition q_UnlinkProviderAccount :: "int option \<Rightarrow> string \<Rightarrow> string \<Rightarrow> nat io" where
  "q_UnlinkProviderAccount t i u = exec (sql_unlink t i u)"

section \<open>Hashes of tokens\<close>

definition HashRefreshToken :: "string \<Rightarrow> string" where
  "HashRefreshToken plaintext = hex_encode (sha256 plaintext)"

section \<open>AuthRepo\<close>

definition auth_repo_GetUserByEmail :: "string \<Rightarrow> User io" where
  "auth_repo_GetUserByEmail email =
     call (q_GetUserByEmail email)
       (\<lambda>e. if errors_is e ErrNoRows then fail auth_ErrNotFound
            else fail (Wrap ''auth.repo: get user by email'' e))
       ret"

definition auth_repo_GetUserByID :: "string \<Rightarrow> User io" where
  "auth_repo_GetUserByID u =
     call (q_GetUserByID u)
       (\<lambda>e. if errors_is e ErrNoRows then fail auth_ErrNotFound
            else fail (Wrap ''auth.repo: get user by id'' e))
       ret"

definition new_user :: "string \<Rightarrow> string \<Rightarrow> string \<Rightarrow> string \<Rightarrow> int \<Rightarrow> User" where
  "new_user i email passwordHash name now =
     \<lparr> usr_ID = i, usr_Email = email, usr_PasswordHash = passwordHash, usr_Name = name,
       usr_Role = ''student'', usr_AvatarUrl = None, usr_PasswordResetRequired = False,
       usr_Points = 0, usr_Level = 0, usr_DeletedAt = None, usr_CreatedAt = now,
       usr_UpdatedAt = now, usr_LastLoginAt = None \<rparr>"

definition auth_repo_CreateUser :: "string \<Rightarrow> string \<Rightarrow> string \<Rightarrow> User io" where
  "auth_repo_CreateUser email passwordHash name =
     bind go_now (\<lambda>now. bind new_uuid (\<lambda>i.
     call (q_CreateUser (new_user i email passwordHash name now))
       (\<lambda>e. fail (Wrap ''auth.repo: create user'' e))
       (\<lambda>_. ret (new_user i email passwordHash name now))))"

text \<open>\<open>sql.NullString\<close> with \<open>Valid: s != ""\<close>.\<close>

definition non_empty :: "string \<Rightarrow> string option" where
  "non_empty s = (if s = [] then None else Some s)"

definition new_provider_account ::
  "string \<Rightarrow> string \<Rightarrow> string \<Rightarrow> string \<Rightarrow> string \<Rightarrow> string \<Rightarrow> bool \<Rightarrow> int \<Rightarrow> UserProviderAccount" where
  "new_provider_account i u provider pid email name isPrimary now =
     \<lparr> upa_ID = i, upa_UserID = u, upa_Provider = provider, upa_ProviderUserID = pid,
       upa_Email = non_empty email, upa_DisplayName = non_empty name, upa_IsPrimary = isPrimary,
       upa_LinkedAt = now, upa_LastUsedAt = now, upa_DeletedAt = None,
       upa_Profile = Some (JObj []), upa_CreatedAt = now, upa_UpdatedAt = now \<rparr>"

text \<open>The account returned carries an id of its own, not the stored one.\<close>

definition auth_repo_CreateProviderAccount ::
  "string \<Rightarrow> string \<Rightarrow> string \<Rightarrow> string \<Rightarrow> string \<Rightarrow> bool \<Rightarrow> UserProviderAccount io" where
  "auth_repo_CreateProviderAccount u provider pid email name isPrimary =
     bind go_now (\<lambda>now. bind new_uuid (\<lambda>i.
     call (q_CreateProviderAccount (new_provider_account i u provider pid email name isPrimary now))
       (\<lambda>e. fail (Wrap ''auth.repo: create provider account'' e))
       (\<lambda>_. bind new_uuid (\<lambda>j.
         ret (new_provider_account j u provider pid email name isPrimary now)))))"

definition auth_repo_GetProviderAccountByProvider :: "string \<Rightarrow> string \<Rightarrow> UserProviderAccount io" where
  "auth_repo_GetProviderAccountByProvider provider pid =
     call (q_GetProviderAccountByProvider provider pid)
       (\<lambda>e. if errors_is e ErrNoRows then fail auth_ErrNotFound
            else fail (Wrap ''auth.repo: get provider account'' e))
       ret"

definition auth_repo_CreateRefreshToken :: "string \<Rightarrow> string \<Rightarrow> int \<Rightarrow> unit io" where
  "auth_repo_CreateRefreshToken u token expiresAt =
     bind new_uuid (\<lambda>i. bind go_now (\<lambda>now.
     call (q_CreateRefreshToken \<lparr> rft_ID = i, rft_Token = token, rft_UserID = u,
             rft_ExpiresAt = expiresAt, rft_CreatedAt = now \<rparr>)
       (\<lambda>e. fail (Wrap ''auth.repo: create refresh token'' e)) ret))"

definition auth_repo_GetRefreshToken :: "string \<Rightarrow> RefreshToken io" where
  "auth_repo_GetRefreshToken h =
     call (q_GetRefreshToken h)
       (\<lambda>e. if errors_is e ErrNoRows then fail auth_ErrNotFound
            else fail (Wrap ''auth.repo: get refresh token'' e))
       ret"

definition auth_repo_DeleteRefreshToken :: "string \<Rightarrow> unit io" where
  "auth_repo_DeleteRefreshToken i =
     call (q_DeleteRefreshToken i) (\<lambda>e. fail (Wrap ''auth.repo: delete refresh token'' e)) ret"

definition auth_repo_DeleteRefreshTokenByToken :: "string \<Rightarrow> int io" where
  "auth_repo_DeleteRefreshTokenByToken h =
     bind go_now (\<lambda>now.
     call (q_DeleteRefreshTokenByToken h now)
       (\<lambda>e. fail (Wrap ''auth.repo: delete refresh token by token'' e)) ret)"

definition auth_repo_RevokeAllRefreshTokensForUser :: "string \<Rightarrow> unit io" where
  "auth_repo_RevokeAllRefreshTokensForUser u =
     call (q_RevokeAllRefreshTokensForUser u)
       (\<lambda>e. fail (Wrap ''auth.repo: revoke all refresh tokens'' e)) ret"

definition DropUserFromToken :: "string \<Rightarrow> unit io" where
  "DropUserFromToken plaintext =
     (if plaintext = [] then ret ()
      else bind go_now (\<lambda>now.
        call (q_DeleteRefreshTokenByToken (HashRefreshToken plaintext) now)
          (\<lambda>e. fail (Wrap ''auth.repo: drop user from token'' e)) (\<lambda>_. ret ())))"

definition auth_repo_UpdateUserLastLogin :: "string \<Rightarrow> unit io" where
  "auth_repo_UpdateUserLastLogin u =
     bind go_now (\<lambda>now.
     call (q_UpdateUserLastLogin (Some now) now u)
       (\<lambda>e. fail (Wrap ''auth.repo: update last login'' e)) ret)"

record Identity =
  idt_ID :: string
  idt_Provider :: string
  idt_ProviderUserID :: string
  idt_Email :: string
  idt_DisplayName :: string
  idt_LinkedAt :: string
  idt_LastUsedAt :: string
  idt_IsPrimary :: bool

definition or_empty :: "string option \<Rightarrow> string" where
  "or_empty s = (case s of None \<Rightarrow> [] | Some t \<Rightarrow> t)"

definition rowToIdentity :: "UserProviderAccount \<Rightarrow> Identity" where
  "rowToIdentity r =
     \<lparr> idt_ID = upa_ID r, idt_Provider = upa_Provider r, idt_ProviderUserID = upa_ProviderUserID r,
       idt_Email = or_empty (upa_Email r), idt_DisplayName = or_empty (upa_DisplayName r),
       idt_LinkedAt = fmt_iso (upa_LinkedAt r), idt_LastUsedAt = fmt_iso (upa_LastUsedAt r),
       idt_IsPrimary = upa_IsPrimary r \<rparr>"

definition auth_repo_ListProviderAccountsByUser :: "string \<Rightarrow> Identity list io" where
  "auth_repo_ListProviderAccountsByUser u =
     call (q_ListProviderAccountsByUser u)
       (\<lambda>e. fail (Wrap ''auth.repo: list provider accounts'' e)) (\<lambda>rows. ret (map rowToIdentity rows))"

definition auth_repo_UnlinkProviderAccount :: "string \<Rightarrow> string \<Rightarrow> unit io" where
  "auth_repo_UnlinkProviderAccount u i =
     bind go_now (\<lambda>now.
     call (q_UnlinkProviderAccount (Some now) i u)
       (\<lambda>e. fail (Wrap ''auth.repo: unlink'' e))
       (\<lambda>n. if n = 0 then fail auth_ErrNotFound else ret ()))"

definition auth_repo_CountPrimaryProviders :: "string \<Rightarrow> int io" where
  "auth_repo_CountPrimaryProviders u = q_CountUserProviderAccounts u"

record AuthProfile =
  prf_Email :: string
  prf_EmailVerified :: bool
  prf_Name :: string
  prf_AvatarURL :: string

definition auth_repo_LinkProviderAccount :: "string \<Rightarrow> string \<Rightarrow> string \<Rightarrow> AuthProfile \<Rightarrow> unit io" where
  "auth_repo_LinkProviderAccount u provider pid profile =
     bind go_now (\<lambda>now. bind new_uuid (\<lambda>i.
     call (q_CreateProviderAccount (new_provider_account i u provider pid (prf_Email profile)
             (prf_Name profile) False now))
       (\<lambda>e. fail (Wrap ''auth.repo: link provider'' e)) ret))"

end
