(* ===== verification/Tokens.thy ===== *)
theory Tokens
  imports AuthStore
begin

text \<open>
  \<open>internal/auth/token.go\<close> and the session endpoints that stand on it (\<open>internal/middleware/auth.go\<close>):
  issuing, verifying, rotating and revoking token pairs.  The JWT library is a parameter, a
  record of the two calls the code makes; the token store is \<open>AuthRepo\<close>, as the server wires it.
\<close>

abbreviation ErrInvalidToken :: go_error where
  "ErrInvalidToken \<equiv> Sentinel ''auth: invalid or expired token''"

abbreviation ErrTokenReuse :: go_error where
  "ErrTokenReuse \<equiv> Sentinel ''auth: refresh token reuse detected''"

definition ClockSkewLeeway :: int where "ClockSkewLeeway = 5 * 1000"
definition TokenTTL :: int where "TokenTTL = 15 * 60 * 1000"
definition RefreshTokenTTL :: int where "RefreshTokenTTL = 7 * 24 * 60 * 60 * 1000"

record Claims =
  clm_UserID :: string
  clm_Email :: string
  clm_Role :: string
  clm_Issuer :: string
  clm_Subject :: string
  clm_IssuedAt :: int
  clm_ExpiresAt :: int

record TokenPair =
  tp_AccessToken :: string
  tp_RefreshToken :: string
  tp_ExpiresAt :: int

record RefreshTokenSecret =
  rts_Plaintext :: string
  rts_Hash :: string
  rts_ExpiresAt :: int

text \<open>\<open>SignedString\<close> under HS256 and \<open>ParseWithClaims\<close>: valid methods, issuer, leeway, the key
  function (of the flag "the method is an HMAC"), the time and the token.\<close>

record jwt_lib =
  jwt_sign :: "string \<Rightarrow> Claims \<Rightarrow> go_error + string"
  jwt_parse :: "string list \<Rightarrow> string \<Rightarrow> int \<Rightarrow> (bool \<Rightarrow> string option) \<Rightarrow> int \<Rightarrow> string \<Rightarrow> Claims option"

record JWTTokenIssuer =
  jti_secret :: string
  jti_issuer :: string
  jti_accessTTL :: int
  jti_refreshTTL :: int

definition NewJWTTokenIssuer :: "string \<Rightarrow> int \<Rightarrow> int \<Rightarrow> JWTTokenIssuer" where
  "NewJWTTokenIssuer secret accessTTL refreshTTL =
     \<lparr> jti_secret = secret, jti_issuer = ''ai-academy-api-go'', jti_accessTTL = accessTTL,
       jti_refreshTTL = refreshTTL \<rparr>"

definition generateRefreshToken :: "int \<Rightarrow> RefreshTokenSecret io" where
  "generateRefreshToken refreshTTL =
     bind (rand_read 32) (\<lambda>raw. case raw of
       None \<Rightarrow> fail (Wrap ''auth: generate refresh token'' (Plain ''rand''))
     | Some bytes \<Rightarrow>
         (let plaintext = base64_raw_url bytes
          in bind go_now (\<lambda>now. ret \<lparr> rts_Plaintext = plaintext,
               rts_Hash = hex_encode (sha256 plaintext), rts_ExpiresAt = now + refreshTTL \<rparr>)))"

definition issued_claims :: "JWTTokenIssuer \<Rightarrow> string \<Rightarrow> string \<Rightarrow> string \<Rightarrow> int \<Rightarrow> Claims" where
  "issued_claims iss userID email role now =
     \<lparr> clm_UserID = userID, clm_Email = email, clm_Role = role, clm_Issuer = jti_issuer iss,
       clm_Subject = userID, clm_IssuedAt = now, clm_ExpiresAt = now + jti_accessTTL iss \<rparr>"

definition Issue :: "jwt_lib \<Rightarrow> JWTTokenIssuer \<Rightarrow> string \<Rightarrow> string \<Rightarrow> string \<Rightarrow> TokenPair io" where
  "Issue lib iss userID email role =
     bind go_now (\<lambda>now.
     case jwt_sign lib (jti_secret iss) (issued_claims iss userID email role now) of
       Inl e \<Rightarrow> fail (Wrap ''auth: sign access token'' e)
     | Inr accessToken \<Rightarrow>
         bind (generateRefreshToken (jti_refreshTTL iss)) (\<lambda>rt.
         call (auth_repo_CreateRefreshToken userID (rts_Hash rt) (rts_ExpiresAt rt))
           (\<lambda>e. fail (Wrap ''auth: persist refresh token'' e))
           (\<lambda>_. ret \<lparr> tp_AccessToken = accessToken, tp_RefreshToken = rts_Plaintext rt,
                      tp_ExpiresAt = now + jti_accessTTL iss \<rparr>)))"

definition Verify :: "jwt_lib \<Rightarrow> JWTTokenIssuer \<Rightarrow> string \<Rightarrow> Claims io" where
  "Verify lib iss accessToken =
     (if accessToken = [] then fail ErrInvalidToken
      else bind go_now (\<lambda>now.
        case jwt_parse lib [''HS256''] (jti_issuer iss) ClockSkewLeeway
               (\<lambda>hmac. if hmac then Some (jti_secret iss) else None) now accessToken of
          None \<Rightarrow> fail ErrInvalidToken
        | Some claims \<Rightarrow> ret claims))"

definition RotateRefreshToken :: "jwt_lib \<Rightarrow> JWTTokenIssuer \<Rightarrow> string \<Rightarrow> TokenPair io" where
  "RotateRefreshToken lib iss oldPlaintext =
     (if oldPlaintext = [] then fail ErrInvalidToken
      else let oldHash = HashRefreshToken oldPlaintext in
      call (auth_repo_GetRefreshToken oldHash)
        (\<lambda>e. if errors_is e ErrNoRows \<or> errors_is e auth_ErrNotFound then fail ErrInvalidToken
             else fail (Wrap ''auth: lookup refresh token'' e))
        (\<lambda>stored. bind go_now (\<lambda>now.
      if rft_ExpiresAt stored < now
      then ignoring (auth_repo_RevokeAllRefreshTokensForUser (rft_UserID stored)) (fail ErrInvalidToken)
      else
      call (auth_repo_DeleteRefreshTokenByToken oldHash)
        (\<lambda>e. fail (Wrap ''auth: consume refresh token'' e))
        (\<lambda>n.
      if n = 0
      then ignoring (auth_repo_RevokeAllRefreshTokensForUser (rft_UserID stored)) (fail ErrTokenReuse)
      else
      call (auth_repo_GetUserByID (rft_UserID stored))
        (\<lambda>e. fail (Wrap ''auth: load user for rotation'' e))
        (\<lambda>user. Issue lib iss (usr_ID user) (usr_Email user) (usr_Role user))))))"

definition RevokeRefreshToken :: "string \<Rightarrow> unit io" where
  "RevokeRefreshToken plaintext =
     (if plaintext = [] then ret ()
      else call (auth_repo_DeleteRefreshTokenByToken (HashRefreshToken plaintext)) fail (\<lambda>_. ret ()))"

section \<open>Guards of the routes\<close>

text \<open>\<open>RequireAuth\<close> and \<open>OptionalAuth\<close> yield the claims stored for the handlers behind them.\<close>

definition RequireAuth :: "jwt_lib \<Rightarrow> JWTTokenIssuer \<Rightarrow> string \<Rightarrow> Claims io" where
  "RequireAuth lib iss authz =
     (if \<not> has_prefix authz ''Bearer '' then fail (Unauthorized ''missing or invalid Authorization header'')
      else call (Verify lib iss (trim_prefix authz ''Bearer ''))
        (\<lambda>_. fail (Unauthorized ''invalid or expired access token'')) ret)"

definition RequireRole :: "string list \<Rightarrow> Claims option \<Rightarrow> unit io" where
  "RequireRole allowed claims =
     (case claims of
        None \<Rightarrow> fail (Unauthorized ''missing auth claims'')
      | Some c \<Rightarrow> if clm_Role c \<in> set allowed then ret () else fail (Forbidden ''insufficient role''))"

definition OptionalAuth :: "jwt_lib \<Rightarrow> JWTTokenIssuer \<Rightarrow> string \<Rightarrow> Claims option io" where
  "OptionalAuth lib iss authz =
     (if authz = [] then ret None
      else if \<not> has_prefix authz ''Bearer '' then ret None
      else call (Verify lib iss (trim_prefix authz ''Bearer '')) (\<lambda>_. ret None) (\<lambda>c. ret (Some c)))"

section \<open>Frame\<close>

text \<open>What issuing and rotating do to the database, for any relation the three statements obey.\<close>

locale token_writes = db_frame +
  assumes ok_insert_token: "stmt_ok R (insert_refresh_token r)"
    and ok_consume: "stmt_ok R (sql_consume_token h now)"
    and ok_revoke_all: "stmt_ok R (sql_revoke_all u)"
begin

lemma within_token_repo:
  "within (db_step R) (auth_repo_GetRefreshToken h)"
  "within (db_step R) (auth_repo_GetUserByID u)"
  "within (db_step R) (auth_repo_CreateRefreshToken u h t)"
  "within (db_step R) (auth_repo_DeleteRefreshTokenByToken h)"
  "within (db_step R) (auth_repo_RevokeAllRefreshTokensForUser u)"
  unfolding auth_repo_GetRefreshToken_def q_GetRefreshToken_def auth_repo_GetUserByID_def
    q_GetUserByID_def auth_repo_CreateRefreshToken_def q_CreateRefreshToken_def
    auth_repo_DeleteRefreshTokenByToken_def q_DeleteRefreshTokenByToken_def
    auth_repo_RevokeAllRefreshTokensForUser_def q_RevokeAllRefreshTokensForUser_def
  by (intro within_intros ok_insert_token ok_consume ok_revoke_all)+

lemma within_generate: "within (db_step R) (generateRefreshToken t)"
  unfolding generateRefreshToken_def Let_def by (intro within_intros)

lemma within_Issue: "within (db_step R) (Issue lib iss u email role)"
  unfolding Issue_def by (intro within_intros within_generate within_token_repo)

lemma within_Rotate: "within (db_step R) (RotateRefreshToken lib iss p)"
  unfolding RotateRefreshToken_def Let_def
  by (intro within_intros within_token_repo within_Issue)

lemma within_Revoke: "within (db_step R) (RevokeRefreshToken p)"
  unfolding RevokeRefreshToken_def by (intro within_intros within_token_repo)

end

end
