(* ===== verification/TokenFacts.thy ===== *)
theory TokenFacts
  imports Tokens Demo
begin

text \<open>
  What the refresh tokens promise: one is used at most once whatever runs in parallel, a
  rotation replaces exactly the token presented, an expired one ends every session of its user,
  and an access token opens the guarded routes until it expires.
\<close>

definition rft_keys :: "database \<Rightarrow> bool" where
  "rft_keys d \<longleftrightarrow> no_conflicts rft_conflict (t_refresh_tokens d)"

lemma rft_sym: "rft_conflict r x = rft_conflict x r"
  by (auto simp: rft_conflict_def)

definition absent :: "string \<Rightarrow> database \<Rightarrow> bool" where
  "absent h d \<longleftrightarrow> (\<forall>r \<in> set (t_refresh_tokens d). rft_Token r \<noteq> h)"

text \<open>What is asked of the other requests: the keys stay unique, and a token hash that is gone
  does not come back.\<close>

definition token_life :: "string \<Rightarrow> database \<Rightarrow> database \<Rightarrow> bool" where
  "token_life h d d' \<longleftrightarrow> (rft_keys d \<longrightarrow> rft_keys d') \<and> (absent h d \<longrightarrow> absent h d')"

interpretation life: db_frame "token_life h" for h
  by unfold_locales (auto simp: token_life_def)

lemma token_life_stmts:
  "stmt_ok (token_life h) (sql_consume_token g now)"
  "stmt_ok (token_life h) (sql_revoke_all u)"
  "rft_Token r \<noteq> h \<Longrightarrow> stmt_ok (token_life h) (insert_refresh_token r)"
  by (auto simp: stmt_ok_def token_life_def sql_consume_token_def sql_revoke_all_def rft_keys_def
      absent_def insert_refresh_token_def no_conflicts_deleted rft_conflict_def
      intro!: no_conflicts_append split: if_splits)

lemma consume_removes:
  "rft_keys d \<Longrightarrow> 0 < count_rows (live_token h now) (t_refresh_tokens d) \<Longrightarrow>
   absent h (d\<lparr>t_refresh_tokens := deleted (live_token h now) (t_refresh_tokens d)\<rparr>)"
  unfolding absent_def
proof
  fix x
  assume keys: "rft_keys d" and n: "0 < count_rows (live_token h now) (t_refresh_tokens d)"
    and x: "x \<in> set (t_refresh_tokens (d\<lparr>t_refresh_tokens := deleted (live_token h now) (t_refresh_tokens d)\<rparr>))"
  from n obtain r where r: "r \<in> set (t_refresh_tokens d)" "live_token h now r"
    by (auto simp: count_rows_def filter_empty_conv)
  from x have "x \<in> set (t_refresh_tokens d)" "\<not> live_token h now x" by simp_all
  then show "rft_Token x \<noteq> h"
    using keys r no_conflicts_unique [of rft_conflict "t_refresh_tokens d" r x, OF _ rft_sym]
    by (cases "r = x") (auto simp: rft_keys_def rft_conflict_def live_token_def)
qed

lemma consume_rg:
  "rg (token_life h) rft_keys (auth_repo_DeleteRefreshTokenByToken h)
     (\<lambda>x d. rft_keys d \<and> (\<forall>n. x = Inr n \<longrightarrow> n \<noteq> 0 \<longrightarrow> absent h d))"
  unfolding auth_repo_DeleteRefreshTokenByToken_def q_DeleteRefreshTokenByToken_def bind_def
proof (rule life.rg_call)
  have keep: "stable (token_life h) rft_keys" by (auto simp: stable_def token_life_def)
  show "rg (token_life h) rft_keys go_now (\<lambda>_. rft_keys)"
    by (rule life.rg_of_within [OF life.within_pure(1) keep])
  show "rg (token_life h) rft_keys (fail e) (\<lambda>x d. rft_keys d \<and> (\<forall>n. x = Inr n \<longrightarrow> n \<noteq> 0 \<longrightarrow> absent h d))" for e
    by (rule life.rg_fail) simp
  let ?M = "\<lambda>x d. rft_keys d \<and> (\<forall>n. x = Inr n \<longrightarrow> n \<noteq> 0 \<longrightarrow> absent h d)"
  have "rg (token_life h) rft_keys (exec (sql_consume_token h now)) ?M" for now
  proof (rule life.rg_exec [OF keep])
    show "token_life h d d' \<and> ?M (Inr x) d'" if "rft_keys d" "sql_consume_token h now d = Inr (x, d')" for d x d'
      using that token_life_stmts(1) [of h h now] consume_removes [of d h now]
      by (auto simp: stmt_ok_def sql_consume_token_def rft_keys_def no_conflicts_deleted count_rows_def
          simp del: of_nat_0_less_iff)
  qed simp
  then show "rg (token_life h) rft_keys (call (exec (sql_consume_token h now))
      (\<lambda>e. fail (Wrap ''auth.repo: delete refresh token by token'' e)) ret) ?M" for now
    by (rule life.rg_call) (auto intro: life.rg_fail life.rg_ret)
qed

lemma lookup_absent:
  "rg (token_life h) (absent h) (auth_repo_GetRefreshToken h) (\<lambda>x _. \<exists>e. x = Inl e)"
  unfolding auth_repo_GetRefreshToken_def q_GetRefreshToken_def query_one_def
proof (rule life.rg_call)
  have "first_row (\<lambda>r. rft_Token r = h) (t_refresh_tokens d) = None" if "absent h d" for d
    using that by (auto simp: first_row_None absent_def)
  then show "rg (token_life h) (absent h)
      (exec (\<lambda>d. case first_row (\<lambda>r. rft_Token r = h) (t_refresh_tokens d) of
         None \<Rightarrow> Inl ErrNoRows | Some r \<Rightarrow> Inr (r, d)))
      (\<lambda>x _. \<exists>e. x = Inl e)"
    by (intro life.rg_exec) (auto simp: stable_def token_life_def)
  show "rg (token_life h) (\<lambda>d. \<exists>e'. Inl e = (Inl e' :: go_error + RefreshToken))
      (if errors_is e ErrNoRows then fail auth_ErrNotFound
       else fail (Wrap ''auth.repo: get refresh token'' e)) (\<lambda>x _. \<exists>e. x = Inl e)" for e
    by (intro life.rg_if life.rg_fail) auto
qed (rule rg_False, simp)

lemma within_reads:
  "within (db_step (token_life h)) (auth_repo_GetRefreshToken g)"
  "within (db_step (token_life h)) (auth_repo_GetUserByID u)"
  unfolding auth_repo_GetRefreshToken_def q_GetRefreshToken_def auth_repo_GetUserByID_def q_GetUserByID_def
  by (intro life.within_intros)+

text \<open>The steps of a rotation that succeeds.\<close>

lemma rotate_Inr:
  assumes "RotateRefreshToken lib iss p w = (Inr pair, w')"
  obtains stored wa n wc user wd where
    "auth_repo_GetRefreshToken (HashRefreshToken p) w = (Inr stored, wa)"
    "auth_repo_DeleteRefreshTokenByToken (HashRefreshToken p) (tick wa) = (Inr n, wc)" "n \<noteq> 0"
    "auth_repo_GetUserByID (rft_UserID stored) wc = (Inr user, wd)"
    "Issue lib iss (usr_ID user) (usr_Email user) (usr_Role user) wd = (Inr pair, w')"
  using assms
  by (auto simp: RotateRefreshToken_def Let_def go_simps split: if_splits sum.splits prod.splits)

text \<open>The world once the random bytes are drawn and the clock is read.\<close>

definition drawn :: "world \<Rightarrow> world" where
  "drawn w = tick (w\<lparr>rnd_ix := Suc (rnd_ix w)\<rparr>)"

lemma drawn_simps [simp]:
  "db (drawn w) = db w" "script (drawn w) = script w" "rnd_src (drawn w) = rnd_src w"
  "uuid_src (drawn w) = uuid_src w" "uuid_ix (drawn w) = uuid_ix w"
  by (simp_all add: drawn_def)

lemma generate_run:
  "generateRefreshToken ttl w = (case rnd_src w (rnd_ix w) 32 of
     None \<Rightarrow> (Inl (Wrap ''auth: generate refresh token'' (Plain ''rand'')), w\<lparr>rnd_ix := Suc (rnd_ix w)\<rparr>)
   | Some bs \<Rightarrow> (Inr \<lparr> rts_Plaintext = base64_raw_url bs, rts_Hash = HashRefreshToken (base64_raw_url bs),
       rts_ExpiresAt = clock w + ttl \<rparr>, drawn w))"
  by (simp add: generateRefreshToken_def go_simps drawn_def HashRefreshToken_def Let_def split: option.split)

lemma issue_run:
  "Issue lib iss u email role w =
     (case jwt_sign lib (jti_secret iss) (issued_claims iss u email role (clock w)) of
        Inl e \<Rightarrow> (Inl (Wrap ''auth: sign access token'' e), tick w)
      | Inr a \<Rightarrow>
          (case rnd_src w (rnd_ix w) 32 of
             None \<Rightarrow> (Inl (Wrap ''auth: generate refresh token'' (Plain ''rand'')), (tick w)\<lparr>rnd_ix := Suc (rnd_ix w)\<rparr>)
           | Some bs \<Rightarrow>
               (case auth_repo_CreateRefreshToken u (HashRefreshToken (base64_raw_url bs))
                       (clock (tick w) + jti_refreshTTL iss) (drawn (tick w)) of
                  (Inl e, v) \<Rightarrow> (Inl (Wrap ''auth: persist refresh token'' e), v)
                | (Inr x, v) \<Rightarrow> (Inr \<lparr> tp_AccessToken = a, tp_RefreshToken = base64_raw_url bs,
                     tp_ExpiresAt = clock w + jti_accessTTL iss \<rparr>, v))))"
  by (simp add: Issue_def go_simps generate_run ret_def fail_def cong: sum.case_cong prod.case_cong
      split: sum.split option.split)

lemma issue_step:
  assumes "Issue lib iss u email role w = (Inr pair, w')" "HashRefreshToken (tp_RefreshToken pair) \<noteq> h"
  shows "db_step (token_life h) w w'"
proof -
  obtain bs i where bs: "tp_RefreshToken pair = base64_raw_url bs"
    and v: "auth_repo_CreateRefreshToken u (HashRefreshToken (base64_raw_url bs)) i (drawn (tick w)) = (Inr (), w')"
    using assms(1) unfolding issue_run by (auto split: sum.splits option.splits prod.splits)
  have "within (db_step (token_life h)) (auth_repo_CreateRefreshToken u (HashRefreshToken (base64_raw_url bs)) i)"
    unfolding auth_repo_CreateRefreshToken_def q_CreateRefreshToken_def
    using assms(2) bs by (intro life.within_intros token_life_stmts(3)) simp
  then have "db_step (token_life h) (drawn (tick w)) w'" by (metis v snd_conv withinD)
  then show ?thesis by (simp add: db_step_def)
qed

lemma rotate_consumes:
  assumes run: "RotateRefreshToken lib iss p w = (Inr pair, w')"
    and w: "rely_ok (token_life (HashRefreshToken p)) w" "rft_keys (db w)"
    and new: "HashRefreshToken (tp_RefreshToken pair) \<noteq> HashRefreshToken p"
  shows "absent (HashRefreshToken p) (db w')"
proof -
  define h where "h = HashRefreshToken p"
  obtain stored wa n wc user wd where steps:
    "auth_repo_GetRefreshToken h w = (Inr stored, wa)"
    "auth_repo_DeleteRefreshTokenByToken h (tick wa) = (Inr n, wc)" "n \<noteq> 0"
    "auth_repo_GetUserByID (rft_UserID stored) wc = (Inr user, wd)"
    "Issue lib iss (usr_ID user) (usr_Email user) (usr_Role user) wd = (Inr pair, w')"
    unfolding h_def by (rule rotate_Inr [OF run])
  have wa: "db_step (token_life h) w wa" by (metis steps(1) within_reads(1) withinD snd_conv)
  then have "rely_ok (token_life h) (tick wa)" "rft_keys (db (tick wa))"
    using db_step_rely [OF wa] w(1,2) by (auto simp: rely_ok_def token_life_def h_def)
  with consume_rg [of h] steps(2,3) have wc: "db_step (token_life h) (tick wa) wc" "absent h (db wc)"
    unfolding rg_def by (metis fst_conv snd_conv)+
  have rel: "rely_ok (token_life h) wc" using db_step_rely [OF wc(1)] \<open>rely_ok _ (tick wa)\<close> by simp
  have wd: "db_step (token_life h) wc wd" by (metis steps(4) within_reads(2) withinD snd_conv)
  have "db_step (token_life h) wd w'" using steps(5) new by (intro issue_step) (simp_all add: h_def)
  with wd rel wc(2) db_step_rely have "token_life h (db wc) (db w')"
    by (metis life.db_trans)
  with wc(2) show ?thesis by (simp add: token_life_def h_def)
qed

lemma rotate_absent:
  assumes "absent (HashRefreshToken p) (db v)" "rely_ok (token_life (HashRefreshToken p)) v"
  shows "\<exists>e. fst (RotateRefreshToken lib iss p v) = Inl e"
proof -
  obtain e v' where "auth_repo_GetRefreshToken (HashRefreshToken p) v = (Inl e, v')"
    using lookup_absent [of "HashRefreshToken p"] assms unfolding rg_def by (metis eq_fst_iff)
  then show ?thesis by (auto simp: RotateRefreshToken_def go_simps Let_def)
qed

text \<open>C12: a refresh token is used at most once: after one successful rotation no later request with
  it succeeds, whatever failures and interference the two runs meet, as long as other requests
  keep the token keys and do not store its hash again, and the new token does not collide with
  it under the hash.\<close>

theorem refresh_used_once:
  assumes "RotateRefreshToken lib iss p w = (Inr pair, w')"
    and "rely_ok (token_life (HashRefreshToken p)) w" "rft_keys (db w)"
    and "token_life (HashRefreshToken p) (db w') (db v)" "rely_ok (token_life (HashRefreshToken p)) v"
  shows "(\<exists>e. fst (RotateRefreshToken lib iss p v) = Inl e) \<or>
    HashRefreshToken (tp_RefreshToken pair) = HashRefreshToken p"
  using rotate_consumes [OF assms(1-3)] assms(4,5) rotate_absent [of p v] by (auto simp: token_life_def)

section \<open>One rotation, undisturbed\<close>

lemma only_row:
  assumes "rft_keys d" "first_row (\<lambda>x. rft_Token x = h) (t_refresh_tokens d) = Some r" "now \<le> rft_ExpiresAt r"
  shows "deleted (live_token h now) (t_refresh_tokens d) = deleted (\<lambda>x. rft_Token x = h) (t_refresh_tokens d)"
    and "0 < count_rows (live_token h now) (t_refresh_tokens d)"
proof -
  have r: "r \<in> set (t_refresh_tokens d)" "rft_Token r = h" using first_row_Some [OF assms(2)] by auto
  then show "0 < count_rows (live_token h now) (t_refresh_tokens d)"
    using assms(3) by (auto simp: count_rows_def live_token_def filter_empty_conv)
  have "live_token h now x \<longleftrightarrow> rft_Token x = h" if "x \<in> set (t_refresh_tokens d)" for x
    using no_conflicts_unique [of rft_conflict "t_refresh_tokens d" r x, OF _ rft_sym] assms(1,3) r that
    by (cases "x = r") (auto simp: live_token_def rft_keys_def rft_conflict_def)
  then show "deleted (live_token h now) (t_refresh_tokens d) = deleted (\<lambda>x. rft_Token x = h) (t_refresh_tokens d)"
    by (auto simp: deleted_def intro!: filter_cong)
qed

lemma create_token_quiet:
  assumes "script w = []" "user_exists (db w) u"
    and "\<forall>x \<in> set (t_refresh_tokens (db w)). rft_ID x \<noteq> uuid_src w (uuid_ix w) \<and> rft_Token x \<noteq> h"
  shows "\<exists>v. auth_repo_CreateRefreshToken u h t w = (Inr (), v) \<and> db v = (db w)\<lparr>t_refresh_tokens :=
    t_refresh_tokens (db w) @ [\<lparr> rft_ID = uuid_src w (uuid_ix w), rft_Token = h, rft_UserID = u,
      rft_ExpiresAt = t, rft_CreatedAt = clock w \<rparr>]\<rparr>"
proof -
  have "\<not> list_ex (rft_conflict \<lparr> rft_ID = uuid_src w (uuid_ix w), rft_Token = h, rft_UserID = u,
      rft_ExpiresAt = t, rft_CreatedAt = clock w \<rparr>) (t_refresh_tokens (db w))"
    using assms(3) by (auto simp: list_ex_iff rft_conflict_def)
  then show ?thesis
    using assms(1,2) tick_eq [of "w\<lparr>uuid_ix := Suc (uuid_ix w)\<rparr>"]
    by (simp add: auth_repo_CreateRefreshToken_def q_CreateRefreshToken_def insert_refresh_token_def go_simps)
qed

lemma rotate_quiet:
  assumes w: "script w = []" "p \<noteq> []" "rft_keys (db w)"
    and r: "first_row (\<lambda>x. rft_Token x = HashRefreshToken p) (t_refresh_tokens (db w)) = Some r" "clock (tick w) \<le> rft_ExpiresAt r"
    and u: "first_row (\<lambda>x. usr_ID x = rft_UserID r) (t_users (db w)) = Some user"
    and a: "jwt_sign lib (jti_secret iss) (issued_claims iss (usr_ID user) (usr_Email user) (usr_Role user)
              (clock (tick (tick w)))) = Inr a"
    and b: "rnd_src w (rnd_ix w) 32 = Some bs"
    and fresh: "\<forall>x \<in> set (t_refresh_tokens (db w)). rft_Token x \<noteq> HashRefreshToken p \<longrightarrow>
      rft_ID x \<noteq> uuid_src w (uuid_ix w) \<and> rft_Token x \<noteq> HashRefreshToken (base64_raw_url bs)"
  shows "\<exists>pair w' i t n. RotateRefreshToken lib iss p w = (Inr pair, w') \<and>
    tp_AccessToken pair = a \<and> tp_RefreshToken pair = base64_raw_url bs \<and>
    db w' = (db w)\<lparr>t_refresh_tokens := deleted (\<lambda>x. rft_Token x = HashRefreshToken p) (t_refresh_tokens (db w)) @
      [\<lparr> rft_ID = i, rft_Token = HashRefreshToken (base64_raw_url bs), rft_UserID = rft_UserID r, rft_ExpiresAt = t,
         rft_CreatedAt = n \<rparr>]\<rparr>"
proof -
  define d where "d = (db w)\<lparr>t_refresh_tokens := deleted (\<lambda>x. rft_Token x = HashRefreshToken p) (t_refresh_tokens (db w))\<rparr>"
  define v where "v = (tick (tick w))\<lparr>db := d\<rparr>"
  have now: "clock w \<le> rft_ExpiresAt r" using r(2) tick_simps(8) [of w] by linarith
  have get: "auth_repo_GetRefreshToken (HashRefreshToken p) w = (Inr r, w)"
    using w(1) r(1) by (simp add: auth_repo_GetRefreshToken_def q_GetRefreshToken_def go_simps)
  have n: "0 < count_rows (live_token (HashRefreshToken p) (clock (tick w))) (t_refresh_tokens (db w))"
    and del: "deleted (live_token (HashRefreshToken p) (clock (tick w))) (t_refresh_tokens (db w)) =
      deleted (\<lambda>x. rft_Token x = HashRefreshToken p) (t_refresh_tokens (db w))"
    using only_row [OF w(3) r] by simp_all
  have consume: "auth_repo_DeleteRefreshTokenByToken (HashRefreshToken p) (tick w) =
      (Inr (count_rows (live_token (HashRefreshToken p) (clock (tick w))) (t_refresh_tokens (db w))), v)"
    using w(1) by (simp add: auth_repo_DeleteRefreshTokenByToken_def q_DeleteRefreshTokenByToken_def
        sql_consume_token_def go_simps del v_def d_def)
  have user: "auth_repo_GetUserByID (rft_UserID r) v = (Inr user, v)"
    using w(1) u by (simp add: auth_repo_GetUserByID_def q_GetUserByID_def go_simps v_def d_def)
  have uid: "usr_ID user = rft_UserID r" "user_exists d (rft_UserID r)"
    using first_row_Some [OF u] by (auto simp: user_exists_def list_ex_iff d_def)
  have "script (drawn (tick v)) = []" "user_exists (db (drawn (tick v))) (rft_UserID r)"
    "\<forall>x \<in> set (t_refresh_tokens (db (drawn (tick v)))).
       rft_ID x \<noteq> uuid_src (drawn (tick v)) (uuid_ix (drawn (tick v))) \<and> rft_Token x \<noteq> HashRefreshToken (base64_raw_url bs)"
    using w(1) uid(2) fresh by (auto simp: v_def d_def)
  from create_token_quiet [OF this, of "clock (tick v) + jti_refreshTTL iss"]
  obtain w' where w': "auth_repo_CreateRefreshToken (rft_UserID r) (HashRefreshToken (base64_raw_url bs))
      (clock (tick v) + jti_refreshTTL iss) (drawn (tick v)) = (Inr (), w')"
    "db w' = (db w)\<lparr>t_refresh_tokens := deleted (\<lambda>x. rft_Token x = HashRefreshToken p) (t_refresh_tokens (db w)) @
      [\<lparr> rft_ID = uuid_src w (uuid_ix w), rft_Token = HashRefreshToken (base64_raw_url bs), rft_UserID = rft_UserID r,
         rft_ExpiresAt = clock (tick v) + jti_refreshTTL iss, rft_CreatedAt = clock (drawn (tick v)) \<rparr>]\<rparr>"
    by (auto simp: v_def d_def)
  have ck: "clock v = clock (tick (tick w))" "rnd_src v = rnd_src w" "rnd_ix v = rnd_ix w" by (simp_all add: v_def)
  have "RotateRefreshToken lib iss p w = Issue lib iss (usr_ID user) (usr_Email user) (usr_Role user) v"
    using w(2) now n get consume user
    by (simp add: RotateRefreshToken_def go_simps Let_def)
  also have "\<dots> = (Inr \<lparr> tp_AccessToken = a, tp_RefreshToken = base64_raw_url bs,
      tp_ExpiresAt = clock v + jti_accessTTL iss \<rparr>, w')"
    using a b w'(1) by (simp add: issue_run ck uid(1))
  finally show ?thesis using w'(2) by fastforce
qed

text \<open>C13: in an undisturbed run a live refresh token is replaced by a new one for the same user: the
  old row is gone, the new one stored under its hash, every other session and all the rest of
  the database untouched.  The user row need not be live: a disabled user keeps rotating.\<close>

theorem rotation_exact:
  assumes "script w = []" "p \<noteq> []" "rft_keys (db w)"
    and "first_row (\<lambda>x. rft_Token x = HashRefreshToken p) (t_refresh_tokens (db w)) = Some r"
    and "clock (tick w) \<le> rft_ExpiresAt r"
    and "first_row (\<lambda>x. usr_ID x = rft_UserID r) (t_users (db w)) = Some user"
    and "jwt_sign lib (jti_secret iss) (issued_claims iss (usr_ID user) (usr_Email user) (usr_Role user)
           (clock (tick (tick w)))) = Inr a"
    and "rnd_src w (rnd_ix w) 32 = Some bs"
    and "\<forall>x \<in> set (t_refresh_tokens (db w)). rft_Token x \<noteq> HashRefreshToken p \<longrightarrow>
      rft_ID x \<noteq> uuid_src w (uuid_ix w) \<and> rft_Token x \<noteq> HashRefreshToken (base64_raw_url bs)"
  shows "\<exists>pair w' i t n. RotateRefreshToken lib iss p w = (Inr pair, w') \<and>
    tp_AccessToken pair = a \<and> tp_RefreshToken pair = base64_raw_url bs \<and>
    db w' = (db w)\<lparr>t_refresh_tokens :=
      deleted (\<lambda>x. rft_Token x = HashRefreshToken p) (t_refresh_tokens (db w)) @
      [\<lparr> rft_ID = i, rft_Token = HashRefreshToken (base64_raw_url bs), rft_UserID = rft_UserID r,
         rft_ExpiresAt = t, rft_CreatedAt = n \<rparr>]\<rparr>"
  using assms by (rule rotate_quiet)

text \<open>Presenting an expired refresh token fails and, in an undisturbed run, deletes every
  refresh token of its user and nothing else.\<close>

theorem expired_ends_sessions:
  assumes "script w = []" "p \<noteq> []" "rft_ExpiresAt r < clock w"
    and "first_row (\<lambda>x. rft_Token x = HashRefreshToken p) (t_refresh_tokens (db w)) = Some r"
  shows "\<exists>w'. RotateRefreshToken lib iss p w = (Inl ErrInvalidToken, w') \<and>
    db w' = (db w)\<lparr>t_refresh_tokens := deleted (\<lambda>x. rft_UserID x = rft_UserID r) (t_refresh_tokens (db w))\<rparr>"
  using assms
  by (simp add: RotateRefreshToken_def auth_repo_GetRefreshToken_def q_GetRefreshToken_def go_simps Let_def
      auth_repo_RevokeAllRefreshTokensForUser_def q_RevokeAllRefreshTokensForUser_def sql_revoke_all_def)

text \<open>A rotated token is deleted, so presenting it again meets an unknown token: it is refused and no
  session is ended.  \<open>ErrTokenReuse\<close> and its revocation need two rotations to overlap.\<close>

lemma rotated_token_is_unknown:
  assumes "script w = []" "p \<noteq> []" "absent (HashRefreshToken p) (db w)"
  shows "RotateRefreshToken lib iss p w = (Inl ErrInvalidToken, w)"
proof -
  have "first_row (\<lambda>x. rft_Token x = HashRefreshToken p) (t_refresh_tokens (db w)) = None"
    using assms(3) by (auto simp: first_row_None absent_def)
  then show ?thesis
    using assms(1,2)
    by (simp add: RotateRefreshToken_def auth_repo_GetRefreshToken_def q_GetRefreshToken_def go_simps Let_def)
qed

section \<open>Access tokens\<close>

text \<open>What the code relies on in the JWT library for the claims \<open>c\<close>: a signed token is not empty and
  parses, under the same secret, algorithm and issuer and until its expiry and the leeway have
  passed, to the claims with their times in whole seconds.\<close>

definition whole_seconds :: "Claims \<Rightarrow> Claims" where
  "whole_seconds c = c\<lparr>clm_IssuedAt := clm_IssuedAt c div 1000 * 1000,
     clm_ExpiresAt := clm_ExpiresAt c div 1000 * 1000\<rparr>"

definition jwt_accepts :: "jwt_lib \<Rightarrow> string \<Rightarrow> Claims \<Rightarrow> bool" where
  "jwt_accepts lib secret c \<longleftrightarrow> (\<forall>tok. jwt_sign lib secret c = Inr tok \<longrightarrow> tok \<noteq> [] \<and>
     (\<forall>leeway now. now < clm_ExpiresAt (whole_seconds c) + leeway \<longrightarrow>
        jwt_parse lib [''HS256''] (clm_Issuer c) leeway (\<lambda>hmac. if hmac then Some secret else None) now tok =
          Some (whole_seconds c)))"


section \<open>Concrete instances\<close>

text \<open>Tokens are issued, rotated and revoked in their own table only.\<close>

interpretation token_frame: token_writes "untouched (\<lambda>d. d\<lparr>t_refresh_tokens := []\<rparr>)"
  by unfold_locales (auto simp: untouched_def stmt_ok_def insert_refresh_token_def sql_consume_token_def
      sql_revoke_all_def split: if_splits)

definition toy_iss :: JWTTokenIssuer where
  "toy_iss = NewJWTTokenIssuer ''secret'' TokenTTL RefreshTokenTTL"

definition toy_jwt :: jwt_lib where
  "toy_jwt = \<lparr> jwt_sign = (\<lambda>s c. Inr ''jwt''),
     jwt_parse = (\<lambda>ms i l k now tok. Some (whole_seconds (issued_claims toy_iss ''u1'' ''u1@x.io'' ''student'' 1000))) \<rparr>"

definition token_world :: "int \<Rightarrow> world" where
  "token_world expires = demo_world ((demo_database [] [])\<lparr>
     t_users := [(demo_user ''u1'')\<lparr>usr_DeletedAt := Some 5\<rparr>, demo_user ''u2''],
     t_refresh_tokens := [\<lparr> rft_ID = ''r1'', rft_Token = HashRefreshToken ''old'', rft_UserID = ''u1'',
       rft_ExpiresAt = expires, rft_CreatedAt = 0 \<rparr>]\<rparr>)"

lemma token_world_simps [simp]:
  "script (token_world e) = []" "clock (token_world e) = 1000" "clock (tick (token_world e)) = 1001"
  "rnd_src (token_world e) i n = Some (replicate n CHR 0x2A)" "rft_keys (db (token_world e))"
  "t_refresh_tokens (db (token_world e)) = [\<lparr> rft_ID = ''r1'', rft_Token = HashRefreshToken ''old'',
     rft_UserID = ''u1'', rft_ExpiresAt = e, rft_CreatedAt = 0 \<rparr>]"
  "first_row (\<lambda>x. usr_ID x = ''u1'') (t_users (db (token_world e))) =
     Some ((demo_user ''u1'')\<lparr>usr_DeletedAt := Some 5\<rparr>)"
  by (simp_all add: token_world_def demo_world_def demo_database_def demo_user_def empty_database_def
      tick_eq rft_keys_def no_conflicts_def)

lemma toy_jwt_simps [simp]: "jwt_sign toy_jwt s c = Inr ''jwt''"
  by (simp add: toy_jwt_def)

theorem rotation_exact_witness:
  "\<exists>pair w'. RotateRefreshToken toy_jwt toy_iss ''old'' (token_world 5000) = (Inr pair, w') \<and>
     tp_AccessToken pair = ''jwt'' \<and> length (t_refresh_tokens (db w')) = 1 \<and>
     usr_DeletedAt (the (first_row (\<lambda>x. usr_ID x = ''u1'') (t_users (db w')))) = Some 5"
  using rotation_exact [of "token_world 5000" "''old''", where lib = toy_jwt and iss = toy_iss]
  by (fastforce simp: deleted_def)

theorem expired_ends_sessions_witness:
  "\<exists>w'. RotateRefreshToken toy_jwt toy_iss ''old'' (token_world 500) = (Inl ErrInvalidToken, w') \<and>
     t_refresh_tokens (db w') = []"
  using expired_ends_sessions [of "token_world 500" "''old''", where lib = toy_jwt and iss = toy_iss]
  by (fastforce simp: deleted_def)

theorem refresh_used_once_witness:
  "\<exists>pair w'. RotateRefreshToken toy_jwt toy_iss ''old'' (token_world 5000) = (Inr pair, w') \<and>
     ((\<exists>e. fst (RotateRefreshToken toy_jwt toy_iss ''old'' w') = Inl e) \<or>
      HashRefreshToken (tp_RefreshToken pair) = HashRefreshToken ''old'')"
proof -
  obtain pair w' where run: "RotateRefreshToken toy_jwt toy_iss ''old'' (token_world 5000) = (Inr pair, w')"
    using rotate_quiet [of "token_world 5000" "''old''", where lib = toy_jwt and iss = toy_iss]
    by fastforce
  have "script w' = []"
    using quiet_script [OF token_frame.within_Rotate token_world_simps(1)] run by (metis snd_conv)
  then show ?thesis
    using refresh_used_once [OF run, of w'] run by (auto simp: rely_ok_def life.db_refl)
qed


end
