(* ===== verification/Credentials.thy ===== *)
theory Credentials
  imports Tables Digest
begin

text \<open>
  The checks on e-mail addresses and passwords of \<open>internal/auth/email_password.go\<close> and the
  bcrypt library they lead to, as a parameter.  Go's \<open>\s\<close> is space, tab, newline, form feed and
  carriage return; \<open>strings.ToLower\<close> and \<open>TrimSpace\<close> act on ASCII.
\<close>

definition re_space :: "char \<Rightarrow> bool" where
  "re_space c \<longleftrightarrow> c \<in> set [CHR 0x09, CHR 0x0A, CHR 0x0C, CHR 0x0D, CHR '' '']"

text \<open>\<open>^[^@\s]+@[^@\s]+\.[^@\s]+$\<close>: one at-sign, and a dot inside the domain.\<close>

definition validateEmail :: "string \<Rightarrow> bool" where
  "validateEmail email \<longleftrightarrow> \<not> list_ex re_space email \<and>
     (case split_on CHR ''@'' email of
        [local, domain] \<Rightarrow> local \<noteq> [] \<and> domain \<noteq> [] \<and> CHR ''.'' \<in> set (butlast (tl domain))
      | _ \<Rightarrow> False)"

definition is_alnum :: "char \<Rightarrow> bool" where
  "is_alnum c \<longleftrightarrow> is_upper c \<or> is_lower c \<or> is_digit c"

definition validatePasswordInput :: "string \<Rightarrow> bool" where
  "validatePasswordInput password \<longleftrightarrow>
     12 \<le> length password \<and> length password \<le> 128 \<and>
     list_ex is_lower password \<and> list_ex is_upper password \<and> list_ex is_digit password \<and>
     list_ex (\<lambda>c. \<not> is_alnum c) password"

definition ValidateEmailPublic :: "string \<Rightarrow> bool" where
  "ValidateEmailPublic email = validateEmail email"

definition ValidatePasswordPublic :: "string \<Rightarrow> bool" where
  "ValidatePasswordPublic password = validatePasswordInput password"

definition isDuplicateKeyError :: "go_error \<Rightarrow> bool" where
  "isDuplicateKeyError e \<longleftrightarrow>
     str_contains (error_text e) ''Error 1062'' \<or> str_contains (error_text e) ''1062 (23000)''"

text \<open>\<open>bcrypt.GenerateFromPassword\<close>, with the salt it draws, and \<open>CompareHashAndPassword\<close>.\<close>

record bcrypt_lib =
  bc_generate :: "string option \<Rightarrow> string \<Rightarrow> int \<Rightarrow> go_error + string"
  bc_compare :: "string \<Rightarrow> string \<Rightarrow> bool"

definition bcrypt_hash :: "bcrypt_lib \<Rightarrow> string \<Rightarrow> int \<Rightarrow> string io" where
  "bcrypt_hash bc password cost =
     bind (rand_read 16) (\<lambda>salt.
       case bc_generate bc salt password cost of Inl e \<Rightarrow> fail e | Inr h \<Rightarrow> ret h)"

definition bcryptCost :: "int \<Rightarrow> int" where
  "bcryptCost cost = (if cost < 4 \<or> 31 < cost then 12 else cost)"

end
