(* ===== verification/PasswordReset.thy ===== *)
theory PasswordReset
  imports AuthStore Credentials Messages
begin

text \<open>
  \<open>internal/auth/password_reset.go\<close>: requesting a reset link, confirming it, and the three
  statements of the repo behind them.  The mail service is the notifier the server installs, a
  parameter; the two repo transactions take effect as a whole.
\<close>

abbreviation ErrInvalidPasswordResetToken :: go_error where
  "ErrInvalidPasswordResetToken \<equiv> Sentinel ''auth: password reset token invalid or expired''"

definition passwordResetTTL :: int where "passwordResetTTL = 30 * 60 * 1000"

record PasswordResetNotifier =
  pn_Enabled :: bool
  pn_SendPasswordReset :: "string \<Rightarrow> string \<Rightarrow> string \<Rightarrow> unit io"

definition disabledPasswordResetNotifier :: PasswordResetNotifier where
  "disabledPasswordResetNotifier = \<lparr> pn_Enabled = False,
     pn_SendPasswordReset = (\<lambda>_ _ _. fail (Plain ''password reset notifier is disabled'')) \<rparr>"

section \<open>Tokens\<close>

definition generatePasswordResetToken :: "string io" where
  "generatePasswordResetToken =
     bind (rand_read 32) (\<lambda>raw. case raw of
       None \<Rightarrow> fail (Plain ''rand'')
     | Some bytes \<Rightarrow> ret (base64_raw_url bytes))"

definition hashPasswordResetToken :: "string \<Rightarrow> string" where
  "hashPasswordResetToken token = hex_encode (sha256 token)"

section \<open>Repo\<close>

definition sql_drop_resets :: "(PasswordResetToken \<Rightarrow> bool) \<Rightarrow> unit stmt" where
  "sql_drop_resets P = (\<lambda>d. Inr ((), d\<lparr>t_password_reset_tokens :=
     deleted P (t_password_reset_tokens d)\<rparr>))"

definition ReplacePasswordResetToken :: "string \<Rightarrow> string \<Rightarrow> int \<Rightarrow> string io" where
  "ReplacePasswordResetToken userID tokenHash expiresAt = transaction (
     call (query_one (\<lambda>d. map_option usr_ID (first_row (\<lambda>r. usr_ID r = userID) (t_users d)))) fail (\<lambda>_.
     call (exec (sql_drop_resets (\<lambda>r. prt_UserID r = userID))) fail (\<lambda>_.
     bind new_uuid (\<lambda>i. bind go_now (\<lambda>now.
     call (exec (insert_reset_token \<lparr> prt_ID = i, prt_UserID = userID, prt_TokenHash = tokenHash,
             prt_ExpiresAt = expiresAt, prt_UsedAt = None, prt_CreatedAt = now \<rparr>)) fail
       (\<lambda>_. ret i))))))"

text \<open>The join with the owner.\<close>

definition reset_with_owner :: "string \<Rightarrow> database \<Rightarrow> (PasswordResetToken \<times> User) option" where
  "reset_with_owner tokenHash d =
     Option.bind (first_row (\<lambda>r. prt_TokenHash r = tokenHash) (t_password_reset_tokens d))
       (\<lambda>r. map_option (\<lambda>u. (r, u)) (first_row (\<lambda>u. usr_ID u = prt_UserID r) (t_users d)))"

definition reset_usable :: "int \<Rightarrow> PasswordResetToken \<times> User \<Rightarrow> bool" where
  "reset_usable now = (\<lambda>(r, u). prt_UsedAt r = None \<and> now < prt_ExpiresAt r \<and> usr_DeletedAt u = None)"

definition ValidatePasswordResetToken :: "string \<Rightarrow> int \<Rightarrow> unit io" where
  "ValidatePasswordResetToken tokenHash now =
     call (query_one (\<lambda>d. case reset_with_owner tokenHash d of
             None \<Rightarrow> None
           | Some x \<Rightarrow> if reset_usable now x then Some (prt_ID (fst x)) else None))
       (\<lambda>e. if errors_is e ErrNoRows then fail ErrInvalidPasswordResetToken else fail e)
       (\<lambda>_. ret ())"

definition DeletePasswordResetToken :: "string \<Rightarrow> unit io" where
  "DeletePasswordResetToken i = exec (sql_drop_resets (\<lambda>r. prt_ID r = i))"

definition sql_use_reset :: "string \<Rightarrow> int \<Rightarrow> nat stmt" where
  "sql_use_reset i now =
     (let P = (\<lambda>r. prt_ID r = i \<and> prt_UsedAt r = None \<and> now < prt_ExpiresAt r);
          f = (\<lambda>r. r\<lparr>prt_UsedAt := Some now\<rparr>)
      in (\<lambda>d. Inr (changed P f (t_password_reset_tokens d),
            d\<lparr>t_password_reset_tokens := upd P f (t_password_reset_tokens d)\<rparr>)))"

definition sql_set_password :: "string \<Rightarrow> int \<Rightarrow> string \<Rightarrow> nat stmt" where
  "sql_set_password passwordHash now u =
     (let P = (\<lambda>r. usr_ID r = u \<and> usr_DeletedAt r = None);
          f = (\<lambda>r. r\<lparr>usr_PasswordHash := passwordHash, usr_PasswordResetRequired := False,
                   usr_UpdatedAt := now\<rparr>)
      in (\<lambda>d. Inr (changed P f (t_users d), d\<lparr>t_users := upd P f (t_users d)\<rparr>)))"

definition ConsumePasswordReset :: "string \<Rightarrow> string \<Rightarrow> int \<Rightarrow> string io" where
  "ConsumePasswordReset tokenHash passwordHash now = transaction (
     call (query_one (reset_with_owner tokenHash))
       (\<lambda>e. if errors_is e ErrNoRows then fail ErrInvalidPasswordResetToken else fail e)
       (\<lambda>(r, u).
     if \<not> reset_usable now (r, u) then fail ErrInvalidPasswordResetToken
     else
     call (exec (sql_use_reset (prt_ID r) now)) fail (\<lambda>affected.
     if affected \<noteq> 1 then fail ErrInvalidPasswordResetToken
     else
     call (exec (sql_set_password passwordHash now (prt_UserID r))) fail (\<lambda>affected.
     if affected \<noteq> 1 then fail ErrInvalidPasswordResetToken
     else
     call (exec (sql_revoke_all (prt_UserID r))) fail (\<lambda>_.
     call (exec (sql_drop_resets (\<lambda>x. prt_UserID x = prt_UserID r \<and> prt_ID x \<noteq> prt_ID r))) fail (\<lambda>_.
     ret (prt_UserID r)))))))"

definition reset_audit_row :: "string \<Rightarrow> string \<Rightarrow> string \<Rightarrow> int \<Rightarrow> AuditLog" where
  "reset_audit_row i userID action now =
     \<lparr> aud_ID = i, aud_UserID = Some userID, aud_Action = action, aud_Entity = ''user'',
       aud_EntityID = Some userID, aud_Details = None, aud_IpAddress = None, aud_UserAgent = None,
       aud_CreatedAt = now \<rparr>"

definition WritePasswordResetAudit :: "string \<Rightarrow> string \<Rightarrow> unit io" where
  "WritePasswordResetAudit userID action =
     bind new_uuid (\<lambda>i. bind go_now (\<lambda>now.
     ignoring (exec (insert_audit_log (reset_audit_row i userID action now))) (ret ())))"

section \<open>Service\<close>

definition Capability :: "PasswordResetNotifier \<Rightarrow> bool" where
  "Capability n = pn_Enabled n"

definition RequestReset :: "PasswordResetNotifier \<Rightarrow> string \<Rightarrow> unit io" where
  "RequestReset n emailInput =
     (if \<not> pn_Enabled n then fail (ServiceUnavailable msg_reset_unconfigured)
      else
      call (auth_repo_GetUserByEmail (to_lower (trim_space emailInput)))
        (\<lambda>e. if errors_is e auth_ErrNotFound then ret ()
             else fail (Internal ''lookup password reset user'' e))
        (\<lambda>user.
      if usr_PasswordHash user = [] then ret ()
      else
      call generatePasswordResetToken (\<lambda>e. fail (Internal ''generate password reset token'' e)) (\<lambda>token.
      bind go_now (\<lambda>now.
      call (ReplacePasswordResetToken (usr_ID user) (hashPasswordResetToken token) (now + passwordResetTTL))
        (\<lambda>e. fail (Internal ''create password reset token'' e))
        (\<lambda>recordID.
      call (pn_SendPasswordReset n (usr_Email user) token recordID)
        (\<lambda>_. ignoring (DeletePasswordResetToken recordID) (ret ()))
        (\<lambda>_. ignoring (WritePasswordResetAudit (usr_ID user) ''USER_PASSWORD_RESET_REQUEST'') (ret ())))))))"

definition msg_password_rule :: string where
  "msg_password_rule =
     ''Password must be 12-128 characters and include uppercase, lowercase, number and symbol''"

definition ConfirmReset :: "bcrypt_lib \<Rightarrow> int \<Rightarrow> string \<Rightarrow> string \<Rightarrow> unit io" where
  "ConfirmReset bc cost token newPassword =
     (if length token < 32 \<or> 256 < length token then fail (Unauthorized msg_reset_invalid)
      else if \<not> ValidatePasswordPublic newPassword then fail (BadRequest msg_password_rule)
      else
      bind go_now (\<lambda>now.
      let tokenHash = hashPasswordResetToken token in
      call (ValidatePasswordResetToken tokenHash now)
        (\<lambda>e. if errors_is e ErrInvalidPasswordResetToken then fail (Unauthorized msg_reset_invalid)
             else fail (Internal ''validate password reset token'' e))
        (\<lambda>_.
      call (bcrypt_hash bc newPassword cost) (\<lambda>e. fail (Internal ''hash new password'' e)) (\<lambda>passwordHash.
      call (ConsumePasswordReset tokenHash passwordHash now)
        (\<lambda>e. if errors_is e ErrInvalidPasswordResetToken then fail (Unauthorized msg_reset_invalid)
             else fail (Internal ''confirm password reset'' e))
        (\<lambda>userID. ignoring (WritePasswordResetAudit userID ''USER_PASSWORD_RESET_CONFIRM'') (ret ()))))))"

section \<open>Frame\<close>

locale reset_confirms = db_frame +
  assumes ok_drop_resets: "stmt_ok R (sql_drop_resets P)"
    and ok_use_reset: "stmt_ok R (sql_use_reset i now)"
    and ok_set_password: "stmt_ok R (sql_set_password p now u)"
    and ok_revoke_tokens: "stmt_ok R (sql_revoke_all u)"
    and ok_audit: "stmt_ok R (insert_audit_log a)"
begin

lemma within_reset_repo:
  "within (db_step R) (ValidatePasswordResetToken h now)"
  "within (db_step R) (DeletePasswordResetToken i)"
  "within (db_step R) (WritePasswordResetAudit u a)"
  "within (db_step R) (bcrypt_hash bc p c)"
  unfolding ValidatePasswordResetToken_def DeletePasswordResetToken_def
    WritePasswordResetAudit_def bcrypt_hash_def
  by (intro within_intros ok_drop_resets ok_audit; simp)+

lemma within_consume_body:
  "within (db_step R)
     (call (query_one (reset_with_owner h)) f
        (\<lambda>(r, u). if \<not> reset_usable now (r, u) then fail ErrInvalidPasswordResetToken
           else call (exec (sql_use_reset (prt_ID r) now)) fail (\<lambda>a. if a \<noteq> 1 then fail ErrInvalidPasswordResetToken
           else call (exec (sql_set_password p now (prt_UserID r))) fail (\<lambda>b. if b \<noteq> 1 then fail ErrInvalidPasswordResetToken
           else call (exec (sql_revoke_all (prt_UserID r))) fail (\<lambda>_.
             call (exec (sql_drop_resets (Q r))) fail (\<lambda>_. ret (prt_UserID r)))))))"
  if "\<And>e. within (db_step R) (f e)"
  using that
  by (intro within_intros) (auto intro!: within_intros ok_use_reset ok_set_password ok_revoke_tokens
      ok_drop_resets split: prod.split)

lemma within_ConsumePasswordReset: "within (db_step R) (ConsumePasswordReset h p now)"
  unfolding ConsumePasswordReset_def
  by (intro within_intros within_consume_body)

lemma within_ConfirmReset: "within (db_step R) (ConfirmReset bc cost token p)"
  unfolding ConfirmReset_def Let_def
  by (intro within_intros within_reset_repo within_ConsumePasswordReset)

end

locale reset_writes = reset_confirms +
  assumes ok_insert_reset: "stmt_ok R (insert_reset_token r)"
begin

lemma within_ReplacePasswordResetToken: "within (db_step R) (ReplacePasswordResetToken u h t)"
  unfolding ReplacePasswordResetToken_def by (intro within_intros ok_insert_reset ok_drop_resets)

text \<open>A request stays in the frame if the mail service does.\<close>

lemma within_RequestReset:
  assumes "\<And>a t k. within (db_step R) (pn_SendPasswordReset n a t k)"
  shows "within (db_step R) (RequestReset n email)"
  unfolding RequestReset_def generatePasswordResetToken_def auth_repo_GetUserByEmail_def q_GetUserByEmail_def
  by (intro within_intros within_ReplacePasswordResetToken within_reset_repo assms)

end

end
