(* ===== verification/ResetFacts.thy ===== *)
theory ResetFacts
  imports PasswordReset Demo
begin

text \<open>
  What password reset promises: a link works at most once, confirming it changes exactly the
  owner's password and ends the owner's sessions, the link mailed is the link accepted, and a
  request answers alike for every address.
\<close>

definition prt_keys :: "database \<Rightarrow> bool" where
  "prt_keys d \<longleftrightarrow> no_conflicts prt_conflict (t_password_reset_tokens d)"

definition spent :: "string \<Rightarrow> database \<Rightarrow> bool" where
  "spent h d \<longleftrightarrow> (\<forall>r \<in> set (t_password_reset_tokens d). prt_TokenHash r = h \<longrightarrow> prt_UsedAt r \<noteq> None)"

text \<open>What is asked of the other requests: the keys stay unique, and a spent token is neither
  stored again nor made unused.\<close>

definition reset_life :: "string \<Rightarrow> database \<Rightarrow> database \<Rightarrow> bool" where
  "reset_life h d d' \<longleftrightarrow> (prt_keys d \<longrightarrow> prt_keys d') \<and> (spent h d \<longrightarrow> spent h d')"

lemma prt_sym: "prt_conflict r x = prt_conflict x r"
  by (auto simp: prt_conflict_def)

interpretation reset_once: db_frame "reset_life h" for h
  by unfold_locales (auto simp: reset_life_def)

lemma reset_keys_upd:
  "no_conflicts prt_conflict (upd P (\<lambda>r. r\<lparr>prt_UsedAt := t\<rparr>) rs) = no_conflicts prt_conflict rs"
  by (rule no_conflicts_upd) (simp add: prt_conflict_def)

interpretation reset_once: reset_confirms "reset_life h" for h
  by unfold_locales
    (auto simp: reset_life_def prt_keys_def spent_def stmt_ok_def sql_drop_resets_def sql_use_reset_def
      sql_set_password_def sql_revoke_all_def insert_audit_log_def no_conflicts_deleted reset_keys_upd
      set_upd Let_def split: if_splits)

lemma use_reset_spends:
  assumes "prt_keys d" "first_row (\<lambda>r. prt_TokenHash r = h) (t_password_reset_tokens d) = Some r"
    and "prt_UsedAt r = None" "now < prt_ExpiresAt r" "sql_use_reset (prt_ID r) now d = Inr (n, d')"
  shows "spent h d'"
  unfolding spent_def
proof (intro ballI impI)
  fix x
  have r: "r \<in> set (t_password_reset_tokens d)" "prt_TokenHash r = h" using first_row_Some [OF assms(2)] by auto
  have uniq: "y = r" if "y \<in> set (t_password_reset_tokens d)" "prt_TokenHash y = h" for y
  proof (rule ccontr)
    assume ne: "y \<noteq> r"
    have c: "prt_conflict y r" using r that by (simp add: prt_conflict_def)
    have "no_conflicts prt_conflict (t_password_reset_tokens d)" using assms(1) by (simp add: prt_keys_def)
    from no_conflicts_unique [OF this prt_sym that(1) r(1) c ne] show False .
  qed
  assume x: "x \<in> set (t_password_reset_tokens d')" "prt_TokenHash x = h"
  then obtain y where y: "y \<in> set (t_password_reset_tokens d)" "prt_TokenHash y = h"
    "x = (if prt_ID y = prt_ID r \<and> prt_UsedAt y = None \<and> now < prt_ExpiresAt y
          then y\<lparr>prt_UsedAt := Some now\<rparr> else y)"
    using assms(5) by (auto simp: sql_use_reset_def Let_def set_upd)
  have "y = r" by (rule uniq [OF y(1,2)])
  then show "prt_UsedAt x \<noteq> None" using assms(3,4) y(3) by simp
qed

lemma consume_spends:
  "rg (reset_life h) prt_keys (ConsumePasswordReset h p now)
     (\<lambda>x d. \<forall>u. x = Inr u \<longrightarrow> spent h d)"
  unfolding ConsumePasswordReset_def
proof (rule reset_once.rg_transaction)
  show "stable (reset_life h) prt_keys" by (auto simp: stable_def reset_life_def)
  let ?tail = "\<lambda>r a. if a \<noteq> (1::nat) then fail ErrInvalidPasswordResetToken
     else call (exec (sql_set_password p now (prt_UserID r))) fail (\<lambda>b. if b \<noteq> 1 then fail ErrInvalidPasswordResetToken
     else call (exec (sql_revoke_all (prt_UserID r))) fail (\<lambda>_.
       call (exec (sql_drop_resets (\<lambda>x. prt_UserID x = prt_UserID r \<and> prt_ID x \<noteq> prt_ID r))) fail
         (\<lambda>_. ret (prt_UserID r))))"
  have tail: "within (db_step (reset_life h)) (?tail r a)" for r a
    by (intro reset_once.within_intros reset_once.ok_set_password reset_once.ok_revoke_tokens
        reset_once.ok_drop_resets)
  fix w :: world and x v
  assume w: "script w = []" "prt_keys (db w)"
    and run: "call (query_one (reset_with_owner h))
      (\<lambda>e. if errors_is e ErrNoRows then fail ErrInvalidPasswordResetToken else fail e)
      (\<lambda>(r, u). if \<not> reset_usable now (r, u) then fail ErrInvalidPasswordResetToken
         else call (exec (sql_use_reset (prt_ID r) now)) fail (?tail r)) w = (Inr x, v)"
  obtain r u where ru: "reset_with_owner h (db w) = Some (r, u)" "reset_usable now (r, u)"
    "call (exec (sql_use_reset (prt_ID r) now)) fail (?tail r) w = (Inr x, v)"
    using run w(1) by (auto simp: call_run [of "query_one q" for q] query_one_quiet fail_run split: option.splits if_splits)
  obtain n d' where use: "sql_use_reset (prt_ID r) now (db w) = Inr (n, d')"
    by (auto simp: sql_use_reset_def Let_def)
  have "first_row (\<lambda>r. prt_TokenHash r = h) (t_password_reset_tokens (db w)) = Some r"
    using ru(1) by (auto simp: reset_with_owner_def split: bind_splits)
  then have "spent h d'" using use_reset_spends [OF w(2) _ _ _ use] ru(2) by (auto simp: reset_usable_def)
  have rest: "?tail r n (w\<lparr>db := d'\<rparr>) = (Inr x, v)"
    using ru(3) w(1) use by (simp add: call_run [of "exec q" for q] exec_quiet commit_run)
  have "within (db_step (reset_life h)) (?tail r n)" by (rule tail)
  from quiet_step [OF this, of "w\<lparr>db := d'\<rparr>"] rest have "reset_life h d' (db v)"
    using w(1) reset_once.db_frame_axioms by simp
  with \<open>spent h d'\<close> show "\<forall>u. Inr x = Inr u \<longrightarrow> spent h (db v)" by (simp add: reset_life_def)
qed (auto intro!: reset_once.within_consume_body reset_once.within_intros)

text \<open>Before the token is consumed a confirmation only reads.\<close>

lemma within_early:
  "within (db_step (reset_life h)) (ValidatePasswordResetToken g now)"
  "within (db_step (reset_life h)) (bcrypt_hash bc p c)"
  "within (db_step (reset_life h)) (go_now :: int io)"
  by (rule reset_once.within_reset_repo reset_once.within_pure)+

lemma confirm_spends:
  "rg (reset_life (hashPasswordResetToken token)) prt_keys (ConfirmReset bc cost token p)
     (\<lambda>x d. \<forall>u. x = Inr u \<longrightarrow> spent (hashPasswordResetToken token) d)"
proof -
  let ?R = "reset_life (hashPasswordResetToken token)"
  let ?h = "hashPasswordResetToken token"
  have keep: "stable ?R prt_keys" "stable ?R (spent ?h)" by (auto simp: stable_def reset_life_def)
  have audit: "rg ?R (spent ?h) (ignoring (WritePasswordResetAudit u a) (ret ())) (\<lambda>x d. \<forall>u. x = Inr u \<longrightarrow> spent ?h d)"
    for u a
    by (rule reset_once.rg_ignoring [OF reset_once.rg_of_within [OF reset_once.within_reset_repo(3) keep(2)]])
      (auto intro: reset_once.rg_ret)
  show ?thesis
    unfolding ConfirmReset_def Let_def bind_def
    by (intro reset_once.rg_if reset_once.rg_call [OF reset_once.rg_of_within [OF within_early(3) keep(1)]]
        reset_once.rg_call [OF reset_once.rg_of_within [OF within_early(1) keep(1)]]
        reset_once.rg_call [OF reset_once.rg_of_within [OF within_early(2) keep(1)]]
        reset_once.rg_call [OF consume_spends])
      (auto intro!: reset_once.rg_fail reset_once.rg_if rg_conseq [OF audit])
qed

lemma validate_spent:
  "rg (reset_life h) (spent h) (ValidatePasswordResetToken h now) (\<lambda>x _. \<exists>e. x = Inl e)"
  unfolding ValidatePasswordResetToken_def query_one_def
proof (rule reset_once.rg_call)
  let ?q = "\<lambda>d. case reset_with_owner h d of None \<Rightarrow> None
     | Some x \<Rightarrow> if reset_usable now x then Some (prt_ID (fst x)) else None"
  have "?q d = None" if "spent h d" for d
    using that by (auto simp: spent_def reset_with_owner_def reset_usable_def dest!: first_row_Some
        split: option.split bind_splits)
  then show "rg (reset_life h) (spent h)
      (exec (\<lambda>d. case ?q d of None \<Rightarrow> Inl ErrNoRows | Some r \<Rightarrow> Inr (r, d))) (\<lambda>x _. \<exists>e. x = Inl e)"
    by (intro reset_once.rg_exec) (auto simp: stable_def reset_life_def)
  show "rg (reset_life h) (\<lambda>d. \<exists>e'. Inl e = (Inl e' :: go_error + string))
      (if errors_is e ErrNoRows then fail ErrInvalidPasswordResetToken else fail e) (\<lambda>x _. \<exists>e. x = Inl e)" for e
    by (intro reset_once.rg_if reset_once.rg_fail) auto
qed (rule rg_False, simp)

lemma confirm_spent:
  "rg (reset_life (hashPasswordResetToken token)) (spent (hashPasswordResetToken token))
     (ConfirmReset bc cost token p) (\<lambda>x _. \<exists>e. x = Inl e)"
proof -
  let ?R = "reset_life (hashPasswordResetToken token)"
  have keep: "stable ?R (spent (hashPasswordResetToken token))" by (auto simp: stable_def reset_life_def)
  show ?thesis
    unfolding ConfirmReset_def Let_def bind_def
    by (intro reset_once.rg_if reset_once.rg_call [OF reset_once.rg_of_within [OF within_early(3) keep]]
        reset_once.rg_call [OF validate_spent] reset_once.rg_fail)
      (auto intro: rg_False)
qed

text \<open>C16: a reset link works at most once: after one successful confirmation no later confirmation
  with it succeeds, whatever failures and interference the two runs meet, as long as other
  requests keep the token keys and neither store the token again nor make it unused.\<close>

theorem reset_token_once:
  assumes "ConfirmReset bc cost token p w = (Inr (), w')"
    and "rely_ok (reset_life (hashPasswordResetToken token)) w" "prt_keys (db w)"
    and "reset_life (hashPasswordResetToken token) (db w') (db v)"
    and "rely_ok (reset_life (hashPasswordResetToken token)) v"
  shows "\<exists>e. fst (ConfirmReset bc' cost' token q v) = Inl e"
proof -
  have "spent (hashPasswordResetToken token) (db w')"
    using confirm_spends [of token bc cost p] assms(1-3) unfolding rg_def by (metis fst_conv snd_conv)
  then have "spent (hashPasswordResetToken token) (db v)" using assms(4) by (simp add: reset_life_def)
  then show ?thesis using confirm_spent [of token bc' cost' q] assms(5) unfolding rg_def by blast
qed

section \<open>One confirmation, undisturbed\<close>

definition usr_keys :: "database \<Rightarrow> bool" where
  "usr_keys d \<longleftrightarrow> distinct (map usr_ID (t_users d))"

lemma prt_ids: "prt_keys d \<Longrightarrow> distinct (map prt_ID (t_password_reset_tokens d))"
  unfolding prt_keys_def by (erule no_conflicts_distinct) (simp add: prt_conflict_def)

lemma reset_with_owner_Some:
  "reset_with_owner h d = Some (r, u) \<longleftrightarrow>
   first_row (\<lambda>r. prt_TokenHash r = h) (t_password_reset_tokens d) = Some r \<and>
   first_row (\<lambda>u. usr_ID u = prt_UserID r) (t_users d) = Some u"
  by (auto simp: reset_with_owner_def split: bind_splits)

lemma consume_quiet:
  assumes w: "script w = []" "prt_keys (db w)" "usr_keys (db w)"
    and ru: "reset_with_owner h (db w) = Some (r, u)" "reset_usable now (r, u)"
    and ph: "ph \<noteq> usr_PasswordHash u"
  shows "ConsumePasswordReset h ph now w = (Inr (usr_ID u), w\<lparr>db := (db w)\<lparr>
    t_password_reset_tokens := deleted (\<lambda>x. prt_UserID x = prt_UserID r \<and> prt_ID x \<noteq> prt_ID r)
      (upd (\<lambda>x. prt_ID x = prt_ID r \<and> prt_UsedAt x = None \<and> now < prt_ExpiresAt x)
        (\<lambda>x. x\<lparr>prt_UsedAt := Some now\<rparr>) (t_password_reset_tokens (db w))),
    t_users := upd (\<lambda>x. usr_ID x = usr_ID u \<and> usr_DeletedAt x = None)
      (\<lambda>x. x\<lparr>usr_PasswordHash := ph, usr_PasswordResetRequired := False, usr_UpdatedAt := now\<rparr>) (t_users (db w)),
    t_refresh_tokens := deleted (\<lambda>x. rft_UserID x = usr_ID u) (t_refresh_tokens (db w))\<rparr>\<rparr>)"
proof -
  have r: "r \<in> set (t_password_reset_tokens (db w))" and u: "u \<in> set (t_users (db w))" "usr_ID u = prt_UserID r"
    using ru(1) by (auto simp: reset_with_owner_Some dest: first_row_Some)
  have use: "changed (\<lambda>x. prt_ID x = prt_ID r \<and> prt_UsedAt x = None \<and> now < prt_ExpiresAt x)
      (\<lambda>x. x\<lparr>prt_UsedAt := Some now\<rparr>) (t_password_reset_tokens (db w)) = 1"
  proof (rule changed_one [OF prt_ids [OF w(2)] r])
    show "r\<lparr>prt_UsedAt := Some now\<rparr> \<noteq> r"
      using ru(2) by (auto simp: reset_usable_def dest: arg_cong [of _ _ prt_UsedAt])
  qed (use ru(2) in \<open>auto simp: reset_usable_def\<close>)
  have set: "changed (\<lambda>x. usr_ID x = usr_ID u \<and> usr_DeletedAt x = None)
      (\<lambda>x. x\<lparr>usr_PasswordHash := ph, usr_PasswordResetRequired := False, usr_UpdatedAt := now\<rparr>) (t_users (db w)) = 1"
  proof (rule changed_one [OF w(3) [unfolded usr_keys_def] u(1)])
    show "u\<lparr>usr_PasswordHash := ph, usr_PasswordResetRequired := False, usr_UpdatedAt := now\<rparr> \<noteq> u"
      using ph by (auto dest: arg_cong [of _ _ usr_PasswordHash])
  qed (use ru(2) in \<open>auto simp: reset_usable_def\<close>)
  show ?thesis
    using w(1) ru use set u(2)
    by (simp add: ConsumePasswordReset_def sql_use_reset_def sql_set_password_def sql_revoke_all_def
        sql_drop_resets_def go_simps Let_def)
qed

lemma validate_quiet:
  "script w = [] \<Longrightarrow> reset_with_owner h (db w) = Some x \<Longrightarrow> reset_usable now x \<Longrightarrow>
   ValidatePasswordResetToken h now w = (Inr (), w)"
  by (simp add: ValidatePasswordResetToken_def go_simps)

lemma audit_quiet:
  assumes "script w = []"
  obtains v as where "WritePasswordResetAudit u a w = (Inr (), v)" "script v = []"
    "db v = (db w)\<lparr>t_audit_logs := as\<rparr>"
proof -
  let ?w = "tick (w\<lparr>uuid_ix := Suc (uuid_ix w)\<rparr>)"
  let ?row = "reset_audit_row (uuid_src w (uuid_ix w)) u a (clock w)"
  obtain as where "snd (commit (insert_audit_log ?row) ?w) = ?w\<lparr>db := (db ?w)\<lparr>t_audit_logs := as\<rparr>\<rparr>"
    using audit_effect by blast
  then have "WritePasswordResetAudit u a w = (Inr (), ?w\<lparr>db := (db ?w)\<lparr>t_audit_logs := as\<rparr>\<rparr>)"
    using assms by (simp add: WritePasswordResetAudit_def go_now_run new_uuid_run bind_run ignoring_run
        exec_quiet ret_run)
  with that assms show ?thesis by simp
qed

lemma confirm_quiet:
  assumes w: "script w = []" "prt_keys (db w)" "usr_keys (db w)"
    and t: "32 \<le> length token" "length token \<le> 256" "ValidatePasswordPublic p"
    and ru: "reset_with_owner (hashPasswordResetToken token) (db w) = Some (r, u)" "reset_usable (clock w) (r, u)"
    and ph: "bc_generate bc (rnd_src w (rnd_ix w) 16) p cost = Inr ph" "ph \<noteq> usr_PasswordHash u"
  shows "\<exists>w'. ConfirmReset bc cost token p w = (Inr (), w') \<and>
    t_users (db w') = upd (\<lambda>x. usr_ID x = usr_ID u \<and> usr_DeletedAt x = None)
      (\<lambda>x. x\<lparr>usr_PasswordHash := ph, usr_PasswordResetRequired := False, usr_UpdatedAt := clock w\<rparr>) (t_users (db w)) \<and>
    t_refresh_tokens (db w') = deleted (\<lambda>x. rft_UserID x = usr_ID u) (t_refresh_tokens (db w)) \<and>
    (\<forall>x \<in> set (t_password_reset_tokens (db w')). prt_UserID x = usr_ID u \<longrightarrow> prt_UsedAt x \<noteq> None) \<and>
    t_user_provider_accounts (db w') = t_user_provider_accounts (db w)"
proof -
  define v where "v = (tick w)\<lparr>rnd_ix := Suc (rnd_ix w)\<rparr>"
  have tick: "rnd_ix (tick w) = rnd_ix w" "rnd_src (tick w) = rnd_src w" by simp_all
  have hash: "bcrypt_hash bc p cost (tick w) = (Inr ph, v)"
    using ph(1) by (simp add: bcrypt_hash_def go_simps v_def)
  have v: "script v = []" "db v = db w" using w(1) by (simp_all add: v_def)
  from consume_quiet [of v "hashPasswordResetToken token" r u "clock w" ph]
  obtain w1 where w1: "ConsumePasswordReset (hashPasswordResetToken token) ph (clock w) v = (Inr (usr_ID u), w1)"
    "script w1 = []" "t_users (db w1) = upd (\<lambda>x. usr_ID x = usr_ID u \<and> usr_DeletedAt x = None)
      (\<lambda>x. x\<lparr>usr_PasswordHash := ph, usr_PasswordResetRequired := False, usr_UpdatedAt := clock w\<rparr>) (t_users (db w))"
    "t_refresh_tokens (db w1) = deleted (\<lambda>x. rft_UserID x = usr_ID u) (t_refresh_tokens (db w))"
    "t_password_reset_tokens (db w1) = deleted (\<lambda>x. prt_UserID x = prt_UserID r \<and> prt_ID x \<noteq> prt_ID r)
      (upd (\<lambda>x. prt_ID x = prt_ID r \<and> prt_UsedAt x = None \<and> clock w < prt_ExpiresAt x)
        (\<lambda>x. x\<lparr>prt_UsedAt := Some (clock w)\<rparr>) (t_password_reset_tokens (db w)))"
    "t_user_provider_accounts (db w1) = t_user_provider_accounts (db w)"
    using v w ru ph(2) by auto
  obtain w' as where w': "WritePasswordResetAudit (usr_ID u) ''USER_PASSWORD_RESET_CONFIRM'' w1 = (Inr (), w')"
    "db w' = (db w1)\<lparr>t_audit_logs := as\<rparr>"
    using audit_quiet [OF w1(2)] by metis
  have owner: "usr_ID u = prt_UserID r" "r \<in> set (t_password_reset_tokens (db w))"
    using ru(1) by (auto simp: reset_with_owner_Some dest: first_row_Some)
  have used: "\<forall>x \<in> set (t_password_reset_tokens (db w1)). prt_UserID x = usr_ID u \<longrightarrow> prt_UsedAt x \<noteq> None"
  proof (intro ballI impI)
    fix x assume x: "x \<in> set (t_password_reset_tokens (db w1))" "prt_UserID x = usr_ID u"
    then obtain y where y: "y \<in> set (t_password_reset_tokens (db w))" "prt_ID y = prt_ID r"
      "x = (if prt_UsedAt y = None \<and> clock w < prt_ExpiresAt y then y\<lparr>prt_UsedAt := Some (clock w)\<rparr> else y)"
      using owner(1) by (auto simp: w1(5) set_upd)
    have "y = r" using distinct_key_unique [OF prt_ids [OF w(2)] y(1) owner(2) y(2)] .
    then show "prt_UsedAt x \<noteq> None" using y(3) ru(2) by (simp add: reset_usable_def)
  qed
  have "ConfirmReset bc cost token p w = (Inr (), w')"
    using t w(1) ru hash w1(1) w'(1) validate_quiet [of "tick w" "hashPasswordResetToken token" "(r, u)" "clock w"]
    by (simp add: ConfirmReset_def go_simps Let_def)
  then show ?thesis using used w1(3,4,6) w'(2) by auto
qed

text \<open>C17: in an undisturbed run a confirmation with a usable link and a valid password succeeds; it
  replaces the password hash of the link's owner and of nobody else, deletes exactly the owner's
  refresh tokens, and leaves the owner no unused link.\<close>

theorem reset_confirm_exact:
  assumes "script w = []" "prt_keys (db w)" "usr_keys (db w)"
    and "32 \<le> length token" "length token \<le> 256" "ValidatePasswordPublic p"
    and "reset_with_owner (hashPasswordResetToken token) (db w) = Some (r, u)" "reset_usable (clock w) (r, u)"
    and "bc_generate bc (rnd_src w (rnd_ix w) 16) p cost = Inr ph" "ph \<noteq> usr_PasswordHash u"
  shows "\<exists>w'. ConfirmReset bc cost token p w = (Inr (), w') \<and>
    t_users (db w') = upd (\<lambda>x. usr_ID x = usr_ID u \<and> usr_DeletedAt x = None)
      (\<lambda>x. x\<lparr>usr_PasswordHash := ph, usr_PasswordResetRequired := False, usr_UpdatedAt := clock w\<rparr>) (t_users (db w)) \<and>
    t_refresh_tokens (db w') = deleted (\<lambda>x. rft_UserID x = usr_ID u) (t_refresh_tokens (db w)) \<and>
    (\<forall>x \<in> set (t_password_reset_tokens (db w')). prt_UserID x = usr_ID u \<longrightarrow> prt_UsedAt x \<noteq> None) \<and>
    t_user_provider_accounts (db w') = t_user_provider_accounts (db w)"
  using assms by (rule confirm_quiet)

section \<open>One request, undisturbed\<close>

lemma replace_quiet:
  assumes w: "script w = []" "user_exists (db w) u"
    and fresh: "\<forall>x \<in> set (t_password_reset_tokens (db w)). prt_UserID x \<noteq> u \<longrightarrow>
      prt_ID x \<noteq> uuid_src w (uuid_ix w) \<and> prt_TokenHash x \<noteq> h"
  shows "\<exists>n v. ReplacePasswordResetToken u h t w = (Inr (uuid_src w (uuid_ix w)), v) \<and> script v = [] \<and>
    db v = (db w)\<lparr>t_password_reset_tokens := deleted (\<lambda>r. prt_UserID r = u) (t_password_reset_tokens (db w)) @
      [\<lparr> prt_ID = uuid_src w (uuid_ix w), prt_UserID = u, prt_TokenHash = h, prt_ExpiresAt = t, prt_UsedAt = None, prt_CreatedAt = n \<rparr>]\<rparr>"
proof -
  obtain r where r: "first_row (\<lambda>r. usr_ID r = u) (t_users (db w)) = Some r"
    using w(2) by (cases "first_row (\<lambda>r. usr_ID r = u) (t_users (db w))")
      (auto simp: user_exists_def list_ex_iff first_row_None)
  define d where "d = (db w)\<lparr>t_password_reset_tokens := deleted (\<lambda>r. prt_UserID r = u) (t_password_reset_tokens (db w))\<rparr>"
  define row where "row = \<lparr> prt_ID = uuid_src w (uuid_ix w), prt_UserID = u, prt_TokenHash = h, prt_ExpiresAt = t,
    prt_UsedAt = None, prt_CreatedAt = clock w \<rparr>"
  have ins: "insert_reset_token row d = Inr ((), d\<lparr>t_password_reset_tokens := t_password_reset_tokens d @ [row]\<rparr>)"
    using fresh w(2) by (auto simp: insert_reset_token_def row_def d_def list_ex_iff prt_conflict_def user_exists_def)
  define v where "v = (tick (w\<lparr>db := d, uuid_ix := Suc (uuid_ix w)\<rparr>))\<lparr>db := d\<lparr>t_password_reset_tokens :=
    t_password_reset_tokens d @ [row]\<rparr>, script := []\<rparr>"
  have "ReplacePasswordResetToken u h t w = (Inr (uuid_src w (uuid_ix w)), v)"
    using w(1) r ins
    by (simp add: ReplacePasswordResetToken_def sql_drop_resets_def go_simps v_def flip: d_def row_def)
  then show ?thesis
    by (intro exI [of _ "clock w"] exI [of _ v])
      (simp add: v_def d_def row_def)
qed

text \<open>With mail delivery configured a request answers with success whatever the address is, known,
  unknown, disabled or without a password, and whatever the mail service does: in an undisturbed
  run the answer does not tell accounts apart.\<close>

theorem reset_request_silent:
  assumes "script w = []" "pn_Enabled n" "rnd_src w (rnd_ix w) 32 = Some bs"
    and "\<forall>x \<in> set (t_password_reset_tokens (db w)). prt_ID x \<noteq> uuid_src w (uuid_ix w) \<and>
      prt_TokenHash x \<noteq> hashPasswordResetToken (base64_raw_url bs)"
  shows "fst (RequestReset n email w) = Inr ()"
proof (cases "first_row (live_email (to_lower (trim_space email))) (t_users (db w))")
  case None
  then show ?thesis
    using assms(1,2) by (simp add: RequestReset_def auth_repo_GetUserByEmail_def q_GetUserByEmail_def go_simps)
next
  case (Some u)
  then have "user_exists (db w) (usr_ID u)" by (auto simp: user_exists_def list_ex_iff dest: first_row_Some)
  then obtain v where "ReplacePasswordResetToken (usr_ID u) (hashPasswordResetToken (base64_raw_url bs))
      (clock w + passwordResetTTL) (tick (w\<lparr>rnd_ix := Suc (rnd_ix w)\<rparr>)) = (Inr (uuid_src w (uuid_ix w)), v)"
    using replace_quiet [of "tick (w\<lparr>rnd_ix := Suc (rnd_ix w)\<rparr>)" "usr_ID u"] assms(1,4) by fastforce
  then show ?thesis
    using Some assms(1-3)
    by (simp add: RequestReset_def auth_repo_GetUserByEmail_def q_GetUserByEmail_def go_simps
        generatePasswordResetToken_def split: prod.split sum.split)
qed

lemma request_quiet:
  assumes w: "script w = []" "pn_Enabled n" "rnd_src w (rnd_ix w) 32 = Some bs"
    and n: "\<And>a t k v. pn_SendPasswordReset n a t k v = (Inr (), v)"
    and u: "first_row (live_email (to_lower (trim_space email))) (t_users (db w)) = Some u" "usr_PasswordHash u \<noteq> []"
    and fresh: "\<forall>x \<in> set (t_password_reset_tokens (db w)). prt_UserID x \<noteq> usr_ID u \<longrightarrow>
      prt_ID x \<noteq> uuid_src w (uuid_ix w) \<and> prt_TokenHash x \<noteq> hashPasswordResetToken (base64_raw_url bs)"
  shows "\<exists>c v. RequestReset n email w = (Inr (), v) \<and> t_users (db v) = t_users (db w) \<and>
    t_password_reset_tokens (db v) = deleted (\<lambda>r. prt_UserID r = usr_ID u) (t_password_reset_tokens (db w)) @
      [\<lparr> prt_ID = uuid_src w (uuid_ix w), prt_UserID = usr_ID u, prt_TokenHash = hashPasswordResetToken (base64_raw_url bs),
         prt_ExpiresAt = clock w + passwordResetTTL, prt_UsedAt = None, prt_CreatedAt = c \<rparr>]"
proof -
  let ?w = "tick (w\<lparr>rnd_ix := Suc (rnd_ix w)\<rparr>)"
  have "user_exists (db ?w) (usr_ID u)" using u(1) by (auto simp: user_exists_def list_ex_iff dest: first_row_Some)
  then obtain c v where v: "ReplacePasswordResetToken (usr_ID u) (hashPasswordResetToken (base64_raw_url bs))
      (clock w + passwordResetTTL) ?w = (Inr (uuid_src w (uuid_ix w)), v)" "script v = []"
    "db v = (db ?w)\<lparr>t_password_reset_tokens := deleted (\<lambda>r. prt_UserID r = usr_ID u) (t_password_reset_tokens (db ?w)) @
      [\<lparr> prt_ID = uuid_src w (uuid_ix w), prt_UserID = usr_ID u, prt_TokenHash = hashPasswordResetToken (base64_raw_url bs),
         prt_ExpiresAt = clock w + passwordResetTTL, prt_UsedAt = None, prt_CreatedAt = c \<rparr>]\<rparr>"
  proof -
    have "script ?w = []" using w(1) by simp
    moreover have "\<forall>x \<in> set (t_password_reset_tokens (db ?w)). prt_UserID x \<noteq> usr_ID u \<longrightarrow>
        prt_ID x \<noteq> uuid_src ?w (uuid_ix ?w) \<and> prt_TokenHash x \<noteq> hashPasswordResetToken (base64_raw_url bs)"
      using fresh by simp
    ultimately show ?thesis
      using replace_quiet [of ?w "usr_ID u" "hashPasswordResetToken (base64_raw_url bs)" "clock w + passwordResetTTL"]
        \<open>user_exists (db ?w) (usr_ID u)\<close> that by auto
  qed
  obtain z as where z: "WritePasswordResetAudit (usr_ID u) ''USER_PASSWORD_RESET_REQUEST'' v = (Inr (), z)"
    "db z = (db v)\<lparr>t_audit_logs := as\<rparr>"
    using audit_quiet [OF v(2)] by metis
  have "RequestReset n email w = (Inr (), z)"
    using w u v(1) z(1) n
    by (simp add: RequestReset_def auth_repo_GetUserByEmail_def q_GetUserByEmail_def go_simps
        generatePasswordResetToken_def)
  then show ?thesis
    by (intro exI [of _ c] exI [of _ z]) (simp add: v(3) z(2))
qed

lemma first_row_last: "\<forall>x \<in> set xs. \<not> P x \<Longrightarrow> P r \<Longrightarrow> first_row P (xs @ [r]) = Some r"
  by (induction xs) auto

lemma roundtrip_quiet:
  assumes w: "script w = []" "pn_Enabled n" "rnd_src w (rnd_ix w) 32 = Some bs" "length bs = 32"
    and n: "\<And>a t k v. pn_SendPasswordReset n a t k v = (Inr (), v)"
    and u: "first_row (live_email (to_lower (trim_space email))) (t_users (db w)) = Some u" "usr_PasswordHash u \<noteq> []"
    and keys: "prt_keys (db w)" "usr_keys (db w)"
    and fresh: "\<forall>x \<in> set (t_password_reset_tokens (db w)). prt_UserID x \<noteq> usr_ID u \<longrightarrow>
      prt_ID x \<noteq> uuid_src w (uuid_ix w) \<and> prt_TokenHash x \<noteq> hashPasswordResetToken (base64_raw_url bs)"
    and run: "RequestReset n email w = (Inr (), w')"
    and v: "script v = []" "db v = db w'" "clock v < clock w + passwordResetTTL"
    and p: "ValidatePasswordPublic p" "bc_generate bc (rnd_src v (rnd_ix v) 16) p cost = Inr ph"
      "ph \<noteq> usr_PasswordHash u"
  shows "\<exists>v'. ConfirmReset bc cost (base64_raw_url bs) p v = (Inr (), v') \<and>
    (\<exists>x \<in> set (t_users (db v')). usr_ID x = usr_ID u \<and> usr_Email x = usr_Email u \<and> usr_PasswordHash x = ph)"
proof -
  let ?h = "hashPasswordResetToken (base64_raw_url bs)"
  define i where "i = uuid_src w (uuid_ix w)"
  obtain c where db: "t_users (db v) = t_users (db w)"
    "t_password_reset_tokens (db v) = deleted (\<lambda>r. prt_UserID r = usr_ID u) (t_password_reset_tokens (db w)) @
      [\<lparr> prt_ID = i, prt_UserID = usr_ID u, prt_TokenHash = ?h, prt_ExpiresAt = clock w + passwordResetTTL,
         prt_UsedAt = None, prt_CreatedAt = c \<rparr>]"
    using request_quiet [OF w(1-3) n u fresh] run v(2) by (auto simp: i_def)
  define r where "r = \<lparr> prt_ID = i, prt_UserID = usr_ID u, prt_TokenHash = ?h,
    prt_ExpiresAt = clock w + passwordResetTTL, prt_UsedAt = None, prt_CreatedAt = c \<rparr>"
  have live: "u \<in> set (t_users (db w))" "usr_DeletedAt u = None"
    using first_row_Some [OF u(1)] by (auto simp: live_email_def)
  have "first_row (\<lambda>x. prt_TokenHash x = ?h) (t_password_reset_tokens (db v)) = Some r"
    unfolding db(2) r_def using fresh by (intro first_row_last) auto
  moreover have "first_row (\<lambda>x. usr_ID x = prt_UserID r) (t_users (db v)) = Some u"
    using first_row_key [OF keys(2) [unfolded usr_keys_def] live(1)] by (simp add: r_def db(1))
  ultimately have ru: "reset_with_owner ?h (db v) = Some (r, u)" by (simp add: reset_with_owner_Some)
  have usable: "reset_usable (clock v) (r, u)" using v(3) live(2) by (simp add: reset_usable_def r_def)
  have "no_conflicts prt_conflict (deleted (\<lambda>r. prt_UserID r = usr_ID u) (t_password_reset_tokens (db w)) @ [r])"
    using keys(1) fresh prt_sym unfolding prt_keys_def
    by (intro no_conflicts_append no_conflicts_deleted) (auto simp: list_ex_iff prt_conflict_def r_def i_def)
  then have k: "prt_keys (db v)" "usr_keys (db v)" using keys(2) by (simp_all add: prt_keys_def usr_keys_def db r_def)
  have len: "32 \<le> length (base64_raw_url bs)" "length (base64_raw_url bs) \<le> 256"
    using w(4) by (simp_all add: length_base64)
  from confirm_quiet [OF v(1) k len p(1) ru usable p(2,3)] obtain v' where
    "ConfirmReset bc cost (base64_raw_url bs) p v = (Inr (), v')"
    "t_users (db v') = upd (\<lambda>x. usr_ID x = usr_ID u \<and> usr_DeletedAt x = None)
      (\<lambda>x. x\<lparr>usr_PasswordHash := ph, usr_PasswordResetRequired := False, usr_UpdatedAt := clock v\<rparr>) (t_users (db v))"
    by blast
  then show ?thesis
    using live by (intro exI [of _ v'] conjI bexI [of _ "u\<lparr>usr_PasswordHash := ph,
      usr_PasswordResetRequired := False, usr_UpdatedAt := clock v\<rparr>"]) (simp_all add: set_upd db(1))
qed

text \<open>The link mailed is the link accepted: after an undisturbed request for a live account with a
  password, confirming with the mailed token within half an hour and a valid password succeeds
  and leaves the account with the new hash.\<close>

theorem reset_roundtrip:
  assumes "script w = []" "pn_Enabled n" "rnd_src w (rnd_ix w) 32 = Some bs" "length bs = 32"
    and "\<And>a t k v. pn_SendPasswordReset n a t k v = (Inr (), v)"
    and "first_row (live_email (to_lower (trim_space email))) (t_users (db w)) = Some u" "usr_PasswordHash u \<noteq> []"
    and "prt_keys (db w)" "usr_keys (db w)"
    and "\<forall>x \<in> set (t_password_reset_tokens (db w)). prt_UserID x \<noteq> usr_ID u \<longrightarrow>
      prt_ID x \<noteq> uuid_src w (uuid_ix w) \<and> prt_TokenHash x \<noteq> hashPasswordResetToken (base64_raw_url bs)"
    and "RequestReset n email w = (Inr (), w')"
    and "script v = []" "db v = db w'" "clock v < clock w + passwordResetTTL"
    and "ValidatePasswordPublic p" "bc_generate bc (rnd_src v (rnd_ix v) 16) p cost = Inr ph"
      "ph \<noteq> usr_PasswordHash u"
  shows "\<exists>v'. ConfirmReset bc cost (base64_raw_url bs) p v = (Inr (), v') \<and>
    (\<exists>x \<in> set (t_users (db v')). usr_ID x = usr_ID u \<and> usr_Email x = usr_Email u \<and> usr_PasswordHash x = ph)"
  using assms by (rule roundtrip_quiet)

text \<open>Resets write users, refresh tokens, reset tokens and audit rows only.\<close>

interpretation reset_frame: reset_writes "untouched (\<lambda>d. d\<lparr>t_users := [], t_refresh_tokens := [],
    t_password_reset_tokens := [], t_audit_logs := []\<rparr>)"
  by unfold_locales
    (auto simp: untouched_def stmt_ok_def sql_drop_resets_def sql_use_reset_def sql_set_password_def
      sql_revoke_all_def insert_audit_log_def insert_reset_token_def Let_def split: if_splits)

section \<open>Concrete instances\<close>

definition toy_bcrypt :: bcrypt_lib where
  "toy_bcrypt = \<lparr> bc_generate = (\<lambda>salt p c. if 72 < length p then Inl (Plain ''bcrypt: password length exceeds 72 bytes'')
       else Inr (CHR ''$'' # p)),
     bc_compare = (\<lambda>h p. h = CHR ''$'' # p) \<rparr>"

definition toy_mail :: PasswordResetNotifier where
  "toy_mail = \<lparr> pn_Enabled = True, pn_SendPasswordReset = (\<lambda>a t k. ret ()) \<rparr>"

definition reset_link :: string where
  "reset_link = replicate 43 CHR ''k''"

definition reset_world :: world where
  "reset_world = demo_world ((demo_database [] [])\<lparr>t_password_reset_tokens :=
     [\<lparr> prt_ID = ''pr1'', prt_UserID = ''u1'', prt_TokenHash = hashPasswordResetToken reset_link,
        prt_ExpiresAt = 5000, prt_UsedAt = None, prt_CreatedAt = 0 \<rparr>],
     t_refresh_tokens := [\<lparr> rft_ID = ''r1'', rft_Token = ''h1'', rft_UserID = ''u1'', rft_ExpiresAt = 5000, rft_CreatedAt = 0 \<rparr>,
       \<lparr> rft_ID = ''r2'', rft_Token = ''h2'', rft_UserID = ''u2'', rft_ExpiresAt = 5000, rft_CreatedAt = 0 \<rparr>]\<rparr>)"

definition good_password :: string where
  "good_password = ''Correct-Horse-7''"

lemma good_password_ok: "ValidatePasswordPublic good_password"
  by (simp add: ValidatePasswordPublic_def validatePasswordInput_def good_password_def is_alnum_def
      is_lower_def is_upper_def is_digit_def in_range_def byte_of_def)

lemma reset_world_facts:
  "script reset_world = []" "prt_keys (db reset_world)" "usr_keys (db reset_world)"
  "32 \<le> length reset_link" "length reset_link \<le> 256"
  "reset_with_owner (hashPasswordResetToken reset_link) (db reset_world) =
     Some (hd (t_password_reset_tokens (db reset_world)), demo_user ''u1'')"
  "reset_usable (clock reset_world) (hd (t_password_reset_tokens (db reset_world)), demo_user ''u1'')"
  by (simp_all add: reset_world_def demo_defs prt_keys_def usr_keys_def no_conflicts_def reset_link_def
      reset_with_owner_def reset_usable_def)

theorem reset_confirm_exact_witness:
  "\<exists>w'. ConfirmReset toy_bcrypt 12 reset_link good_password reset_world = (Inr (), w') \<and>
     map usr_PasswordHash (t_users (db w')) = [CHR ''$'' # good_password, ''h''] \<and>
     map rft_ID (t_refresh_tokens (db w')) = [''r2'']"
proof -
  have "bc_generate toy_bcrypt (rnd_src reset_world (rnd_ix reset_world) 16) good_password 12 = Inr (CHR ''$'' # good_password)"
    by (simp add: toy_bcrypt_def good_password_def)
  from reset_confirm_exact [OF reset_world_facts(1-5) good_password_ok reset_world_facts(6,7) this]
  show ?thesis by (fastforce simp: reset_world_def demo_defs good_password_def deleted_def)
qed

theorem reset_token_once_witness:
  "\<exists>w'. ConfirmReset toy_bcrypt 12 reset_link good_password reset_world = (Inr (), w') \<and>
     (\<exists>e. fst (ConfirmReset toy_bcrypt 12 reset_link good_password w') = Inl e)"
proof -
  have "bc_generate toy_bcrypt (rnd_src reset_world (rnd_ix reset_world) 16) good_password 12 = Inr (CHR ''$'' # good_password)"
    by (simp add: toy_bcrypt_def good_password_def)
  from confirm_quiet [OF reset_world_facts(1-5) good_password_ok reset_world_facts(6,7) this]
  obtain w' where run: "ConfirmReset toy_bcrypt 12 reset_link good_password reset_world = (Inr (), w')"
    by (fastforce simp: good_password_def demo_user_def)
  have "script w' = []"
    using quiet_script [OF reset_once.within_ConfirmReset [of "[]"] reset_world_facts(1)] run by (metis snd_conv)
  then show ?thesis
    using reset_token_once [OF run, of w'] reset_world_facts(1,2) run reset_once.db_refl
    by (auto simp: rely_ok_def)
qed

theorem reset_request_silent_witness:
  "fst (RequestReset toy_mail ''nobody@x.io'' (demo_world (demo_database [] []))) = Inr ()"
  by (rule reset_request_silent [where bs = "replicate 32 CHR 0x2A"])
    (simp_all add: toy_mail_def demo_world_def demo_database_def empty_database_def)

theorem reset_roundtrip_witness:
  "\<exists>w' v'. RequestReset toy_mail ''u1@x.io'' (demo_world (demo_database [] [])) = (Inr (), w') \<and>
     ConfirmReset toy_bcrypt 12 (base64_raw_url (replicate 32 CHR 0x2A)) good_password
       ((demo_world (demo_database [] []))\<lparr>db := db w'\<rparr>) = (Inr (), v')"
proof -
  let ?w = "demo_world (demo_database [] [])"
  have w: "script ?w = []" "pn_Enabled toy_mail" "rnd_src ?w (rnd_ix ?w) 32 = Some (replicate 32 CHR 0x2A)"
    "length (replicate 32 CHR 0x2A) = 32"
    by (simp_all add: demo_world_def toy_mail_def)
  have n: "pn_SendPasswordReset toy_mail a t k v = (Inr (), v)" for a t k v
    by (simp add: toy_mail_def ret_def)
  have u: "first_row (live_email (to_lower (trim_space ''u1@x.io''))) (t_users (db ?w)) = Some (demo_user ''u1'')"
    "usr_PasswordHash (demo_user ''u1'') \<noteq> []"
    by (simp_all add: demo_defs live_email_def trim_space_def is_space_def to_lower_def lower_char_def
        is_upper_def in_range_def byte_of_def)
  have keys: "prt_keys (db ?w)" "usr_keys (db ?w)"
    "\<forall>x \<in> set (t_password_reset_tokens (db ?w)). prt_UserID x \<noteq> usr_ID (demo_user ''u1'') \<longrightarrow>
      prt_ID x \<noteq> uuid_src ?w (uuid_ix ?w) \<and> prt_TokenHash x \<noteq> hashPasswordResetToken (base64_raw_url (replicate 32 CHR 0x2A))"
    by (simp_all add: demo_defs prt_keys_def usr_keys_def)
  obtain w' where run: "RequestReset toy_mail ''u1@x.io'' ?w = (Inr (), w')"
    using request_quiet [OF w(1-3) n u keys(3)] by blast
  let ?v = "?w\<lparr>db := db w'\<rparr>"
  have v: "script ?v = []" "db ?v = db w'" "clock ?v < clock ?w + passwordResetTTL"
    by (simp_all add: demo_world_def passwordResetTTL_def)
  have p: "bc_generate toy_bcrypt (rnd_src ?v (rnd_ix ?v) 16) good_password 12 = Inr (CHR ''$'' # good_password)"
    "CHR ''$'' # good_password \<noteq> usr_PasswordHash (demo_user ''u1'')"
    by (simp_all add: toy_bcrypt_def good_password_def demo_user_def)
  from reset_roundtrip [OF w n u keys run v good_password_ok p] run show ?thesis by blast
qed

end
