(* ===== verification/Providers.thy ===== *)
theory Providers
  imports AuthStore Credentials
begin

text \<open>
  The sign-in providers of \<open>internal/auth\<close>: \<open>EmailPasswordProvider\<close> (\<open>email_password.go\<close>),
  \<open>OAuthProvider\<close> for Google and GitHub (\<open>oauth.go\<close>), \<open>SsoProvider\<close> for SAML (\<open>sso.go\<close>,
  \<open>saml_adapter.go\<close>), and the state store they go through.  The OAuth2, SAML and HTTP clients are
  parameters; what comes back from them (JSON documents, assertions) is decoded here the way the
  code decodes it.
\<close>

abbreviation ErrInvalidCredentials :: go_error where
  "ErrInvalidCredentials \<equiv> Sentinel ''auth: invalid credentials''"

abbreviation ErrStateNotFound :: go_error where
  "ErrStateNotFound \<equiv> Sentinel ''auth: state not found or expired''"

text \<open>The profile without the raw provider document, which nothing reads.\<close>

record AuthIdentity =
  aid_ProviderUserID :: string
  aid_Profile :: AuthProfile

type_synonym AuthCredentials = "(string \<times> json) list"

text \<open>\<open>creds[k].(string)\<close>, the empty string when absent or of another type.\<close>

definition cred :: "AuthCredentials \<Rightarrow> string \<Rightarrow> string" where
  "cred creds k = (case map_of creds k of Some (JStr s) \<Rightarrow> s | _ \<Rightarrow> [])"

definition credentialString :: "AuthCredentials \<Rightarrow> string list \<Rightarrow> string" where
  "credentialString creds keys =
     (case List.find (\<lambda>k. cred creds k \<noteq> []) keys of None \<Rightarrow> [] | Some k \<Rightarrow> cred creds k)"

section \<open>State store\<close>

record StateStore =
  ss_SaveOAuth :: "string \<Rightarrow> OAuthState \<Rightarrow> int \<Rightarrow> unit io"
  ss_ConsumeOAuth :: "string \<Rightarrow> OAuthState io"
  ss_SaveSAML :: "string \<Rightarrow> SAMLState \<Rightarrow> int \<Rightarrow> unit io"
  ss_ConsumeSAML :: "string \<Rightarrow> SAMLState io"

definition with_states :: "(MemoryStateStore \<Rightarrow> 'a \<times> MemoryStateStore) \<Rightarrow> 'a io" where
  "with_states f = locked (\<lambda>d. (fst (f (t_states d)), d\<lparr>t_states := snd (f (t_states d))\<rparr>))"

definition found :: "'a option \<Rightarrow> 'a io" where
  "found x = (case x of None \<Rightarrow> fail ErrStateNotFound | Some p \<Rightarrow> ret p)"

text \<open>The in-memory store behind the interface.\<close>

definition memory_store :: StateStore where
  "memory_store = \<lparr>
     ss_SaveOAuth = (\<lambda>st p ttl. bind go_now (\<lambda>now.
       with_states (\<lambda>s. ((), memory_SaveOAuth st p ttl now s)))),
     ss_ConsumeOAuth = (\<lambda>st. bind go_now (\<lambda>now.
       bind (with_states (memory_ConsumeOAuth st now)) found)),
     ss_SaveSAML = (\<lambda>st p ttl. bind go_now (\<lambda>now.
       with_states (\<lambda>s. ((), memory_SaveSAML st p ttl now s)))),
     ss_ConsumeSAML = (\<lambda>st. bind go_now (\<lambda>now.
       bind (with_states (memory_ConsumeSAML st now)) found)) \<rparr>"

definition generateRandomBase64URL :: "nat \<Rightarrow> string io" where
  "generateRandomBase64URL n =
     bind (rand_read n) (\<lambda>raw. case raw of
       None \<Rightarrow> fail (Plain ''rand'')
     | Some bytes \<Rightarrow> ret (base64_raw_url bytes))"

definition GenerateRandomState :: "string io" where
  "GenerateRandomState = generateRandomBase64URL 32"

definition GenerateCodeVerifier :: "string io" where
  "GenerateCodeVerifier = generateRandomBase64URL 32"

section \<open>E-mail and password\<close>

record EmailPasswordProvider =
  epp_bcrypt :: bcrypt_lib
  epp_BcryptRounds :: int

abbreviation msg_weak_password :: string where
  "msg_weak_password \<equiv>
     ''Password must be 12-128 characters and include uppercase, lowercase, number and symbol''"

definition handleRegister :: "EmailPasswordProvider \<Rightarrow> string \<Rightarrow> string \<Rightarrow> string \<Rightarrow> AuthIdentity io" where
  "handleRegister p email password name =
     (if trim_space name = [] then fail (BadRequest ''Valid name is required'')
      else if \<not> validatePasswordInput password then fail (BadRequest msg_weak_password)
      else
      let proceed =
        call (bcrypt_hash (epp_bcrypt p) password (epp_BcryptRounds p))
          (\<lambda>e. fail (Internal ''hash password'' e))
          (\<lambda>h.
        call (auth_repo_CreateUser email h (trim_space name))
          (\<lambda>e. if isDuplicateKeyError e then fail (Conflict ''Email already registered'')
               else fail (Internal ''create user'' e))
          (\<lambda>user.
        call (auth_repo_CreateProviderAccount (usr_ID user) ''email_password'' email email (trim_space name) True)
          (\<lambda>e. fail (Internal ''bind provider'' e))
          (\<lambda>_. ret \<lparr> aid_ProviderUserID = email, aid_Profile = \<lparr> prf_Email = email,
             prf_EmailVerified = True, prf_Name = trim_space name, prf_AvatarURL = [] \<rparr> \<rparr>)))
      in
      call (auth_repo_GetUserByEmail email)
        (\<lambda>e. if \<not> errors_is e auth_ErrNotFound then fail (Internal ''lookup existing user'' e) else proceed)
        (\<lambda>existing. if usr_ID existing \<noteq> [] then fail (Conflict ''Email already registered'') else proceed))"

definition handleLogin :: "EmailPasswordProvider \<Rightarrow> string \<Rightarrow> string \<Rightarrow> AuthIdentity io" where
  "handleLogin p email password =
     (if password = [] then fail (Unauthorized ''Invalid credentials'')
      else
      call (auth_repo_GetUserByEmail email)
        (\<lambda>e. if errors_is e auth_ErrNotFound then fail (Unauthorized ''Invalid credentials'')
             else fail (Internal ''lookup user'' e))
        (\<lambda>user.
      if usr_DeletedAt user \<noteq> None then fail (Unauthorized ''Invalid credentials'')
      else if usr_PasswordHash user = [] then fail (Unauthorized ''Invalid credentials'')
      else if \<not> bc_compare (epp_bcrypt p) (usr_PasswordHash user) password
      then fail (Unauthorized ''Invalid credentials'')
      else ignoring (auth_repo_UpdateUserLastLogin (usr_ID user))
        (ret \<lparr> aid_ProviderUserID = email, aid_Profile = \<lparr> prf_Email = usr_Email user,
           prf_EmailVerified = True, prf_Name = usr_Name user,
           prf_AvatarURL = or_empty (usr_AvatarUrl user) \<rparr> \<rparr>)))"

text \<open>\<open>%q\<close> of the mode goes into a message only.\<close>

definition email_password_Verify :: "EmailPasswordProvider \<Rightarrow> AuthCredentials \<Rightarrow> AuthIdentity io" where
  "email_password_Verify p creds =
     (let mode = cred creds ''mode''; email = cred creds ''email''; password = cred creds ''password''
      in if \<not> validateEmail email then fail (BadRequest ''Valid email is required'')
      else
      let email = to_lower (trim_space email)
      in if mode = ''register'' then handleRegister p email password (cred creds ''name'')
      else if mode = ''login'' \<or> mode = [] then handleLogin p email password
      else fail (BadRequest (''Unknown auth mode '' @ CHR 0x22 # mode @ [CHR 0x22])))"

definition email_password_Link :: "EmailPasswordProvider \<Rightarrow> string \<Rightarrow> AuthCredentials \<Rightarrow> unit io" where
  "email_password_Link p userID creds =
     (if \<not> validatePasswordInput (cred creds ''password'') then fail (BadRequest msg_weak_password)
      else
      call (auth_repo_GetUserByID userID)
        (\<lambda>e. if errors_is e auth_ErrNotFound then fail (NotFound ''user not found'')
             else fail (Internal ''lookup user'' e))
        (\<lambda>user.
      if usr_DeletedAt user \<noteq> None then fail (Unauthorized ''Invalid credentials'')
      else
      call (auth_repo_LinkProviderAccount userID ''email_password'' (usr_Email user)
             \<lparr> prf_Email = usr_Email user, prf_EmailVerified = True, prf_Name = usr_Name user, prf_AvatarURL = [] \<rparr>)
        (\<lambda>e. if isDuplicateKeyError e then fail (Conflict ''Password is already linked for this user'')
             else fail (Internal ''link provider'' e))
        ret))"

section \<open>Documents from the identity provider\<close>

text \<open>\<open>json.Unmarshal\<close> into a struct: an absent or null field keeps its zero value, one of another
  type is an error (\<open>None\<close>); of duplicate keys the last counts.  Keys are matched exactly.\<close>

definition field :: "json \<Rightarrow> string \<Rightarrow> json" where
  "field j k = (case j of JObj fs \<Rightarrow> (case map_of (rev fs) k of None \<Rightarrow> JNull | Some v \<Rightarrow> v) | _ \<Rightarrow> JNull)"

fun str_of :: "json \<Rightarrow> string option" where
  "str_of JNull = Some []"
| "str_of (JStr s) = Some s"
| "str_of _ = None"

fun bool_of :: "json \<Rightarrow> bool option" where
  "bool_of JNull = Some False"
| "bool_of (JBool b) = Some b"
| "bool_of _ = None"

text \<open>\<open>json.Number\<close> takes a number, or a string that spells one.\<close>

definition exponent_ok :: "string \<Rightarrow> bool" where
  "exponent_ok s = (case s of
      [] \<Rightarrow> True
    | c # t \<Rightarrow> c \<in> set ''eE'' \<and>
        (let u = (case t of [] \<Rightarrow> [] | d # v \<Rightarrow> if d \<in> set ''+-'' then v else t)
         in u \<noteq> [] \<and> list_all is_digit u))"

definition isValidNumber :: "string \<Rightarrow> bool" where
  "isValidNumber s =
     (let t = trim_prefix s ''-''; i = takeWhile is_digit t; r = dropWhile is_digit t
      in i \<noteq> [] \<and> (hd i = CHR ''0'' \<longrightarrow> length i = 1) \<and>
         (if has_prefix r ''.''
          then takeWhile is_digit (tl r) \<noteq> [] \<and> exponent_ok (dropWhile is_digit (tl r))
          else exponent_ok r))"

fun num_of :: "json \<Rightarrow> string option" where
  "num_of JNull = Some []"
| "num_of (JNum s) = Some s"
| "num_of (JStr s) = (if isValidNumber s then Some s else None)"
| "num_of _ = None"

definition is_struct :: "json \<Rightarrow> bool" where
  "is_struct j = (case j of JObj _ \<Rightarrow> True | JNull \<Rightarrow> True | _ \<Rightarrow> False)"

record google_user =
  gu_Sub :: string
  gu_Email :: string
  gu_EmailVerified :: bool
  gu_Name :: string
  gu_Picture :: string

definition google_decode :: "json \<Rightarrow> google_user option" where
  "google_decode j = (if \<not> is_struct j then None else
     case (str_of (field j ''sub''), str_of (field j ''email''), bool_of (field j ''email_verified''),
           str_of (field j ''name''), str_of (field j ''picture'')) of
       (Some s, Some e, Some v, Some n, Some p) \<Rightarrow>
         Some \<lparr> gu_Sub = s, gu_Email = e, gu_EmailVerified = v, gu_Name = n, gu_Picture = p \<rparr>
     | _ \<Rightarrow> None)"

record github_user =
  hu_ID :: string
  hu_Login :: string
  hu_Name :: string
  hu_Email :: string
  hu_AvatarURL :: string

definition github_decode :: "json \<Rightarrow> github_user option" where
  "github_decode j = (if \<not> is_struct j then None else
     case (num_of (field j ''id''), str_of (field j ''login''), str_of (field j ''name''),
           str_of (field j ''email''), str_of (field j ''avatar_url'')) of
       (Some i, Some l, Some n, Some e, Some a) \<Rightarrow>
         Some \<lparr> hu_ID = i, hu_Login = l, hu_Name = n, hu_Email = e, hu_AvatarURL = a \<rparr>
     | _ \<Rightarrow> None)"

text \<open>An entry of \<open>/user/emails\<close>: address, primary, verified.\<close>

definition email_entry :: "json \<Rightarrow> (string \<times> bool \<times> bool) option" where
  "email_entry j = (if \<not> is_struct j then None else
     case (str_of (field j ''email''), bool_of (field j ''primary''), bool_of (field j ''verified'')) of
       (Some e, Some p, Some v) \<Rightarrow> Some (e, p, v) | _ \<Rightarrow> None)"

fun sequence :: "'a option list \<Rightarrow> 'a list option" where
  "sequence [] = Some []"
| "sequence (x # xs) = (case (x, sequence xs) of (Some y, Some ys) \<Rightarrow> Some (y # ys) | _ \<Rightarrow> None)"

fun emails_decode :: "json \<Rightarrow> (string \<times> bool \<times> bool) list option" where
  "emails_decode (JArr es) = sequence (map email_entry es)"
| "emails_decode JNull = Some []"
| "emails_decode _ = None"

definition verified_email :: "(string \<times> bool \<times> bool) list \<Rightarrow> string" where
  "verified_email es =
     (case List.find (\<lambda>(e, p, v). p \<and> v) es of
        Some (e, _) \<Rightarrow> e
      | None \<Rightarrow> (case List.find (\<lambda>(e, p, v). v) es of Some (e, _) \<Rightarrow> e | None \<Rightarrow> []))"

fun indexByte :: "string \<Rightarrow> char \<Rightarrow> int" where
  "indexByte [] b = -1"
| "indexByte (c # s) b = (if c = b then 0 else (let i = indexByte s b in if i < 0 then -1 else i + 1))"

definition local_part :: "string \<Rightarrow> string" where
  "local_part email =
     (let i = indexByte email CHR ''@'' in if 0 < i then take (nat i) email else email)"

definition truncate_text :: "string \<Rightarrow> nat \<Rightarrow> string" where
  "truncate_text s n = (if length s \<le> n then s else take n s @ ''...'')"

end
