(* ===== verification/External.thy ===== *)
theory External
  imports Providers
begin

text \<open>
  The two providers that ask somebody else: OAuth 2.0 with PKCE and SAML 2.0
  (\<open>internal/auth/oauth.go\<close>, \<open>sso.go\<close>, \<open>saml_adapter.go\<close>), and the provider interface over all
  three kinds.
\<close>

section \<open>OAuth\<close>

record oauthConfig =
  oac_ClientID :: string
  oac_ClientSecret :: string
  oac_RedirectURI :: string
  oac_Scopes :: "string list"

text \<open>A response: status, body as text, and the body as JSON if it is.\<close>

record http_response =
  hr_Status :: int
  hr_Text :: string
  hr_JSON :: "json option"

text \<open>\<open>golang.org/x/oauth2\<close> and the HTTP client: the authorization URL for a state and a PKCE
  verifier, the exchange of a code for an access token, and a GET with a bearer token.\<close>

record oauth_lib =
  ol_AuthCodeURL :: "oauthConfig \<Rightarrow> string \<Rightarrow> string \<Rightarrow> string"
  ol_Exchange :: "oauthConfig \<Rightarrow> string \<Rightarrow> string \<Rightarrow> string io"
  ol_Get :: "string \<Rightarrow> string \<Rightarrow> http_response io"

datatype userinfo_fetcher = FetchGoogle | FetchGitHub

record OAuthProvider =
  oap_id :: string
  oap_cfg :: oauthConfig
  oap_userinfoURL :: string
  oap_userinfoFetcher :: userinfo_fetcher
  oap_lib :: oauth_lib

definition decodeOAuthConfig :: "(string \<times> json) list \<Rightarrow> oauthConfig" where
  "decodeOAuthConfig cfg =
     \<lparr> oac_ClientID = cred cfg ''client_id'', oac_ClientSecret = cred cfg ''client_secret'',
       oac_RedirectURI = cred cfg ''redirect_uri'',
       oac_Scopes = (case map_of cfg ''scopes'' of
         Some (JArr xs) \<Rightarrow> List.map_filter (\<lambda>x. case x of JStr s \<Rightarrow> Some s | _ \<Rightarrow> None) xs
       | _ \<Rightarrow> []) \<rparr>"

definition NewOAuthProvider ::
  "oauth_lib \<Rightarrow> string \<Rightarrow> (string \<times> json) list \<Rightarrow> go_error + OAuthProvider" where
  "NewOAuthProvider lib i cfg =
     (let c = decodeOAuthConfig cfg
      in if oac_ClientID c = [] \<or> oac_ClientSecret c = [] \<or> oac_RedirectURI c = []
         then Inl (Plain (''oauth: '' @ i @ '': missing client_id / client_secret / redirect_uri''))
         else if i = ''oauth.google'' then Inr \<lparr> oap_id = i, oap_cfg = c,
           oap_userinfoURL = ''https://www.googleapis.com/oauth2/v3/userinfo'',
           oap_userinfoFetcher = FetchGoogle, oap_lib = lib \<rparr>
         else if i = ''oauth.github'' then Inr \<lparr> oap_id = i, oap_cfg = c,
           oap_userinfoURL = ''https://api.github.com/user'',
           oap_userinfoFetcher = FetchGitHub, oap_lib = lib \<rparr>
         else Inl (Plain (''oauth: unknown provider id '' @ CHR 0x22 # i @ [CHR 0x22])))"

definition oauth_AuthURL :: "OAuthProvider \<Rightarrow> string \<Rightarrow> string \<Rightarrow> string io" where
  "oauth_AuthURL p state codeVerifier =
     (if state = [] then fail (Plain ''oauth: state is required'')
      else if codeVerifier = [] then fail (Plain ''oauth: codeVerifier is required'')
      else ret (ol_AuthCodeURL (oap_lib p) (oap_cfg p) state codeVerifier))"

definition getJSON :: "OAuthProvider \<Rightarrow> string \<Rightarrow> string \<Rightarrow> http_response io" where
  "getJSON p url accessToken =
     bind (ol_Get (oap_lib p) url accessToken) (\<lambda>resp.
     if hr_Status resp < 200 \<or> 300 \<le> hr_Status resp
     then fail (Plain (''http '' @ show_int (hr_Status resp) @ '': '' @ truncate_text (hr_Text resp) 200))
     else ret resp)"

text \<open>The decoding error's own text is left open.\<close>

definition decoded :: "string \<Rightarrow> (json \<Rightarrow> 'a option) \<Rightarrow> http_response \<Rightarrow> 'a io" where
  "decoded what dec resp =
     (case Option.bind (hr_JSON resp) dec of
        None \<Rightarrow> fail (Wrap what (Plain ''json'')) | Some x \<Rightarrow> ret x)"

definition fetchGoogleUserinfo :: "OAuthProvider \<Rightarrow> string \<Rightarrow> AuthIdentity io" where
  "fetchGoogleUserinfo p tok =
     call (getJSON p (oap_userinfoURL p) tok) (\<lambda>e. fail (Wrap ''oauth: google userinfo'' e)) (\<lambda>body.
     bind (decoded ''oauth: google userinfo decode'' google_decode body) (\<lambda>raw.
     if gu_Email raw = [] \<or> \<not> gu_EmailVerified raw
     then fail (Annot ErrInvalidCredentials ''google account has no verified email'')
     else ret \<lparr> aid_ProviderUserID = gu_Sub raw, aid_Profile =
       \<lparr> prf_Email = gu_Email raw, prf_EmailVerified = gu_EmailVerified raw,
         prf_Name = (if gu_Name raw = [] then local_part (gu_Email raw) else gu_Name raw),
         prf_AvatarURL = gu_Picture raw \<rparr> \<rparr>))"

definition fetchGitHubVerifiedEmail :: "OAuthProvider \<Rightarrow> string \<Rightarrow> string \<Rightarrow> string io" where
  "fetchGitHubVerifiedEmail p accessToken emailsURL =
     call (getJSON p emailsURL accessToken) (\<lambda>e. fail (Wrap ''oauth: github emails'' e)) (\<lambda>body.
     bind (decoded ''oauth: github emails decode'' emails_decode body) (\<lambda>emails.
     ret (verified_email emails)))"

definition trim_suffix :: "string \<Rightarrow> string \<Rightarrow> string" where
  "trim_suffix s p = rev (trim_prefix (rev s) (rev p))"

definition emails_url :: "OAuthProvider \<Rightarrow> string" where
  "emails_url p =
     (if oap_userinfoURL p = [] then ''https://api.github.com/user/emails''
      else trim_suffix (oap_userinfoURL p) ''/user'' @ ''/user/emails'')"

definition fetchGitHubUserinfo :: "OAuthProvider \<Rightarrow> string \<Rightarrow> AuthIdentity io" where
  "fetchGitHubUserinfo p tok =
     call (getJSON p (oap_userinfoURL p) tok) (\<lambda>e. fail (Wrap ''oauth: github user'' e)) (\<lambda>userBody.
     bind (decoded ''oauth: github user decode'' github_decode userBody) (\<lambda>raw.
     bind (if hu_Email raw = [] then fetchGitHubVerifiedEmail p tok (emails_url p) else ret (hu_Email raw)) (\<lambda>email.
     if email = [] then fail (Annot ErrInvalidCredentials ''github account has no verified email'')
     else if hu_ID raw = [] \<or> hu_ID raw = ''0''
     then fail (Annot ErrInvalidCredentials ''github user has no id'')
     else ret \<lparr> aid_ProviderUserID = hu_ID raw, aid_Profile =
       \<lparr> prf_Email = email, prf_EmailVerified = True,
         prf_Name = (if hu_Name raw = [] then hu_Login raw else hu_Name raw),
         prf_AvatarURL = hu_AvatarURL raw \<rparr> \<rparr>)))"

definition ExchangeAndFetchUser :: "OAuthProvider \<Rightarrow> string \<Rightarrow> string \<Rightarrow> AuthIdentity io" where
  "ExchangeAndFetchUser p code codeVerifier =
     (if code = [] then fail (Annot ErrInvalidCredentials ''missing code'')
      else if codeVerifier = [] then fail (Annot ErrInvalidCredentials ''missing code_verifier'')
      else
      call (ol_Exchange (oap_lib p) (oap_cfg p) code codeVerifier)
        (\<lambda>e. fail (Annot ErrInvalidCredentials (''token exchange: '' @ error_text e)))
        (\<lambda>tok.
      bind (case oap_userinfoFetcher p of
              FetchGoogle \<Rightarrow> fetchGoogleUserinfo p tok | FetchGitHub \<Rightarrow> fetchGitHubUserinfo p tok) (\<lambda>identity.
      if aid_ProviderUserID identity = []
      then fail (Annot ErrInvalidCredentials ''userinfo missing subject'')
      else ret identity)))"

text \<open>The switch \<open>OAuthTestMode\<close> and its identity are an argument, \<open>None\<close> outside the tests.\<close>

definition oauth_Verify :: "AuthIdentity option \<Rightarrow> OAuthProvider \<Rightarrow> AuthCredentials \<Rightarrow> AuthIdentity io" where
  "oauth_Verify test p creds =
     (case test of
        Some identity \<Rightarrow> ret identity
      | None \<Rightarrow> ExchangeAndFetchUser p (cred creds ''code'') (cred creds ''_codeVerifier''))"

section \<open>SAML\<close>

text \<open>An assertion: the name id, if the subject has one, and the attributes of each statement.\<close>

record saml_assertion =
  sa_NameID :: "string option"
  sa_AttributeStatements :: "(string \<times> string list) list list"

text \<open>\<open>crewjam/saml\<close>: a new request to the endpoint (its id), and the check of a response against
  the ids of the requests it may answer.\<close>

record saml_lib =
  sl_MakeAuthenticationRequest :: "string \<Rightarrow> string io"
  sl_ParseResponse :: "string \<Rightarrow> string \<Rightarrow> string list \<Rightarrow> saml_assertion option io"

text \<open>The identity provider's metadata enter through the endpoint of their first service.\<close>

record SsoProvider =
  ssp_id :: string
  ssp_location :: string
  ssp_sp :: saml_lib

definition FlattenAttributes :: "saml_assertion \<Rightarrow> string \<rightharpoonup> string list" where
  "FlattenAttributes a = map_of (rev (filter (\<lambda>(n, vs). n \<noteq> []) (concat (sa_AttributeStatements a))))"

definition firstAttributeValue :: "(string \<rightharpoonup> string list) \<Rightarrow> string list \<Rightarrow> string" where
  "firstAttributeValue attrs names =
     (case List.find (\<lambda>v. v \<noteq> []) (concat (map (\<lambda>n. case attrs n of None \<Rightarrow> [] | Some vs \<Rightarrow> vs) names)) of
        None \<Rightarrow> [] | Some v \<Rightarrow> v)"

definition ExtractProfile :: "string \<Rightarrow> (string \<rightharpoonup> string list) \<Rightarrow> AuthProfile" where
  "ExtractProfile nameID attrs =
     (let email = firstAttributeValue attrs [''email'', ''mail'', ''urn:oid:0.9.2342.19200300.100.1.3'',
            ''http://schemas.xmlsoap.org/ws/2005/05/identity/claims/emailaddress'',
            ''http://schemas.xmlsoap.org/claims/EmailAddress''];
          name = firstAttributeValue attrs [''displayName'', ''cn'', ''name'',
            ''urn:oid:2.16.840.1.113730.3.1.241'', ''urn:oid:2.5.4.3'',
            ''http://schemas.xmlsoap.org/ws/2005/05/identity/claims/name'',
            ''http://schemas.xmlsoap.org/claims/CommonName'']
      in \<lparr> prf_Email = email,
           prf_EmailVerified =
             (firstAttributeValue attrs [''email_verified'', ''verified_email''] = ''true'' \<or> email \<noteq> []),
           prf_Name = (if name = [] \<and> email \<noteq> [] then local_part email else name),
           prf_AvatarURL = [] \<rparr>)"

record AuthnRequestResult =
  anr_URL :: string
  anr_RelayState :: string
  anr_RequestID :: string

definition BuildAuthnRequest :: "SsoProvider \<Rightarrow> string \<Rightarrow> AuthnRequestResult io" where
  "BuildAuthnRequest p idpSSOURL =
     (let location = (if idpSSOURL = [] then ssp_location p else idpSSOURL)
      in call (sl_MakeAuthenticationRequest (ssp_sp p) location)
           (\<lambda>e. fail (Wrap ''sso: build authn request'' e)) (\<lambda>reqID.
         call GenerateRandomState (\<lambda>e. fail (Wrap ''sso: generate relay state'' e)) (\<lambda>relay.
         ret \<lparr> anr_URL = location, anr_RelayState = relay, anr_RequestID = reqID \<rparr>)))"

definition ParseRelayState :: "SsoProvider \<Rightarrow> StateStore \<Rightarrow> string \<Rightarrow> SAMLState io" where
  "ParseRelayState p store relayState =
     (if relayState = [] then fail (Annot ErrInvalidCredentials ''missing relayState'')
      else
      call (ss_ConsumeSAML store relayState)
        (\<lambda>e. if errors_is e ErrStateNotFound then fail (Annot ErrInvalidCredentials (error_text e)) else fail e)
        (\<lambda>payload.
      if sas_Provider payload \<noteq> ssp_id p
      then fail (Annot ErrInvalidCredentials ''relay state provider mismatch'')
      else ret payload))"

definition ProcessResponse :: "SsoProvider \<Rightarrow> string \<Rightarrow> string \<Rightarrow> string \<Rightarrow> AuthIdentity io" where
  "ProcessResponse p samlResponse relayState requestID =
     (if samlResponse = [] then fail (Annot ErrInvalidCredentials ''missing SAMLResponse'')
      else
      call (sl_ParseResponse (ssp_sp p) samlResponse relayState [requestID])
        (\<lambda>e. fail (Annot ErrInvalidCredentials (error_text e)))
        (\<lambda>assertion.
      case Option.bind assertion (\<lambda>a. map_option (\<lambda>n. (a, n)) (sa_NameID a)) of
        None \<Rightarrow> fail (Annot ErrInvalidCredentials ''assertion missing NameID'')
      | Some (a, nameID) \<Rightarrow>
          (let profile = ExtractProfile nameID (FlattenAttributes a)
           in if prf_Email profile = []
              then fail (Annot ErrInvalidCredentials ''SAML assertion missing email attribute'')
              else ret \<lparr> aid_ProviderUserID = nameID, aid_Profile = profile \<rparr>)))"

definition sso_Verify :: "SsoProvider \<Rightarrow> AuthCredentials \<Rightarrow> AuthIdentity io" where
  "sso_Verify p creds =
     ProcessResponse p (cred creds ''samlResponse'') (cred creds ''relayState'') (cred creds ''_requestId'')"

section \<open>The provider interface\<close>

datatype AuthProvider = EmailPassword EmailPasswordProvider | OAuth OAuthProvider | Sso SsoProvider

fun provider_Enabled :: "AuthProvider \<Rightarrow> bool" where
  "provider_Enabled (EmailPassword p) = True"
| "provider_Enabled (OAuth p) = (oac_ClientID (oap_cfg p) \<noteq> [] \<and> oac_ClientSecret (oap_cfg p) \<noteq> [])"
| "provider_Enabled (Sso p) = True"

fun provider_ID :: "AuthProvider \<Rightarrow> string" where
  "provider_ID (EmailPassword p) = ''email_password''"
| "provider_ID (OAuth p) = oap_id p"
| "provider_ID (Sso p) = ssp_id p"

record ProviderDescriptor =
  pde_ID :: string
  pde_Label :: string
  pde_IconURL :: string
  pde_Type :: string

fun provider_Describe :: "AuthProvider \<Rightarrow> ProviderDescriptor" where
  "provider_Describe (EmailPassword p) =
     \<lparr> pde_ID = ''email_password'', pde_Label = ''Email + Password'', pde_IconURL = [], pde_Type = ''email_password'' \<rparr>"
| "provider_Describe (OAuth p) =
     \<lparr> pde_ID = oap_id p, pde_Label = (if oap_id p = ''oauth.google'' then ''Google''
         else if oap_id p = ''oauth.github'' then ''GitHub'' else oap_id p), pde_IconURL = [], pde_Type = ''oauth'' \<rparr>"
| "provider_Describe (Sso p) =
     \<lparr> pde_ID = ssp_id p, pde_Label = ''Enterprise SSO (SAML)'', pde_IconURL = [], pde_Type = ''sso'' \<rparr>"

fun provider_Verify :: "AuthIdentity option \<Rightarrow> AuthProvider \<Rightarrow> AuthCredentials \<Rightarrow> AuthIdentity io" where
  "provider_Verify test (EmailPassword p) creds = email_password_Verify p creds"
| "provider_Verify test (OAuth p) creds = oauth_Verify test p creds"
| "provider_Verify test (Sso p) creds = sso_Verify p creds"

fun provider_Link :: "AuthIdentity option \<Rightarrow> AuthProvider \<Rightarrow> string \<Rightarrow> AuthCredentials \<Rightarrow> unit io" where
  "provider_Link test (EmailPassword p) u creds = email_password_Link p u creds"
| "provider_Link test (OAuth p) u creds = bind (oauth_Verify test p creds) (\<lambda>_. ret ())"
| "provider_Link test (Sso p) u creds = bind (sso_Verify p creds) (\<lambda>_. ret ())"

end
