(* ===== verification/AuthService.thy ===== *)
theory AuthService
  imports External
begin

text \<open>
  The dispatcher of \<open>internal/auth/service.go\<close>: providers by id, sign-in and its account mapping
  (\<open>upsertUser\<close>), the browser flows with their one-shot states, and linked identities.  The
  service holds its providers, the state store if one is wired, and the identity that the test
  switch \<open>OAuthTestMode\<close> substitutes.
\<close>

record AuthService =
  svc_providers :: "(string \<times> AuthProvider) list"
  svc_stateStore :: "StateStore option"
  svc_test :: "AuthIdentity option"

definition NewAuthService :: "AuthIdentity option \<Rightarrow> AuthService" where
  "NewAuthService test = \<lparr> svc_providers = [], svc_stateStore = None, svc_test = test \<rparr>"

text \<open>Registering an id twice panics (\<open>None\<close>).\<close>

definition Register :: "AuthProvider \<Rightarrow> AuthService \<Rightarrow> AuthService option" where
  "Register p s =
     (if map_of (svc_providers s) (provider_ID p) \<noteq> None then None
      else Some (s\<lparr>svc_providers := svc_providers s @ [(provider_ID p, p)]\<rparr>))"

definition SetStateStore :: "StateStore \<Rightarrow> AuthService \<Rightarrow> AuthService" where
  "SetStateStore store s = s\<lparr>svc_stateStore := Some store\<rparr>"

definition Get :: "AuthService \<Rightarrow> string \<Rightarrow> AuthProvider option" where
  "Get s pid = map_of (svc_providers s) pid"

text \<open>Go iterates over the map in any order; here in the order of registration.\<close>

definition ListProviders :: "AuthService \<Rightarrow> ProviderDescriptor list" where
  "ListProviders s = map (\<lambda>(i, p). provider_Describe p) (filter (\<lambda>(i, p). provider_Enabled p) (svc_providers s))"

text \<open>\<open>if !ok || !provider.Enabled()\<close>.\<close>

definition with_provider :: "AuthService \<Rightarrow> string \<Rightarrow> (AuthProvider \<Rightarrow> 'a io) \<Rightarrow> 'a io" where
  "with_provider s pid k =
     (case Get s pid of
        None \<Rightarrow> fail (Unauthorized ''Provider not available'')
      | Some p \<Rightarrow> if \<not> provider_Enabled p then fail (Unauthorized ''Provider not available'') else k p)"

definition stateStore :: "AuthService \<Rightarrow> StateStore io" where
  "stateStore s =
     (case svc_stateStore s of
        None \<Rightarrow> fail (ServiceUnavailable ''Authentication state storage is unavailable'')
      | Some store \<Rightarrow> ret store)"

section \<open>From an identity to a user\<close>

definition upsertUser :: "string \<Rightarrow> AuthIdentity \<Rightarrow> (User \<times> bool) io" where
  "upsertUser pid identity =
     (let email = prf_Email (aid_Profile identity);
          create =
            (if pid = ''email_password''
             then call (auth_repo_GetUserByEmail email)
               (\<lambda>e. fail (Internal ''read back registered user'' e)) (\<lambda>user. ret (user, True))
             else
             bind go_now (\<lambda>now.
             call (auth_repo_CreateUser email [] (prf_Name (aid_Profile identity)))
               (\<lambda>e. fail (Internal ''create user'' e)) (\<lambda>user.
             call (auth_repo_CreateProviderAccount (usr_ID user) pid (aid_ProviderUserID identity) email
                    (prf_Name (aid_Profile identity)) True)
               (\<lambda>e. fail (Internal ''bind provider account'' e)) (\<lambda>_.
             call (auth_repo_GetUserByID (usr_ID user))
               (\<lambda>e. fail (Internal ''read back new user'' e)) (\<lambda>got. ret (got, True))))));
          by_email =
            call (auth_repo_GetUserByEmail email)
              (\<lambda>e. if \<not> errors_is e auth_ErrNotFound then fail (Internal ''lookup user by email'' e) else create)
              (\<lambda>user.
                if usr_DeletedAt user \<noteq> None then fail (Unauthorized ''Account is disabled'')
                else if pid \<noteq> ''email_password'' \<and> \<not> prf_EmailVerified (aid_Profile identity)
                then fail (Unauthorized ''OAuth email is not verified'')
                else
                call (auth_repo_LinkProviderAccount (usr_ID user) pid (aid_ProviderUserID identity) (aid_Profile identity))
                  (\<lambda>e. fail (Internal ''link provider account'' e)) (\<lambda>_. ret (user, False)))
      in
      call (auth_repo_GetProviderAccountByProvider pid (aid_ProviderUserID identity))
        (\<lambda>e. if \<not> errors_is e auth_ErrNotFound then fail (Internal ''lookup provider account'' e) else by_email)
        (\<lambda>existing.
          if upa_DeletedAt existing \<noteq> None then fail (Unauthorized ''Identity is not available'')
          else
          call (auth_repo_GetUserByID (upa_UserID existing))
            (\<lambda>e. fail (Internal ''load user for provider account'' e)) (\<lambda>user.
          if usr_DeletedAt user \<noteq> None then fail (Unauthorized ''Account is disabled'')
          else ret (user, False))))"

record AuthResult =
  ars_Kind :: string
  ars_UserID :: string
  ars_Identity :: AuthIdentity
  ars_IsNewUser :: bool
  ars_FailureReason :: string

text \<open>On the error side the result is dropped by every caller.\<close>

definition completeExternalAuthentication :: "string \<Rightarrow> AuthIdentity \<Rightarrow> AuthResult io" where
  "completeExternalAuthentication pid identity =
     call (upsertUser pid identity) fail (\<lambda>(user, isNew).
     ret \<lparr> ars_Kind = ''authenticated'', ars_UserID = usr_ID user, ars_Identity = identity,
           ars_IsNewUser = isNew, ars_FailureReason = [] \<rparr>)"

fun needs_callback :: "AuthProvider \<Rightarrow> bool" where
  "needs_callback (EmailPassword _) = False"
| "needs_callback (OAuth _) = True"
| "needs_callback (Sso _) = True"

definition Authenticate :: "AuthService \<Rightarrow> string \<Rightarrow> AuthCredentials \<Rightarrow> AuthResult io" where
  "Authenticate s pid creds =
     with_provider s pid (\<lambda>p.
     if svc_test s = None \<and> needs_callback p
     then fail (BadRequest ''Provider requires stateful callback'')
     else call (provider_Verify (svc_test s) p creds) fail (completeExternalAuthentication pid))"

section \<open>Browser flows\<close>

record Authorization =
  atz_URL :: string
  atz_State :: string

definition flow_login :: string where "flow_login = ''login''"
definition flow_link :: string where "flow_link = ''link''"

definition createSAMLAuthnRequest ::
  "AuthService \<Rightarrow> string \<Rightarrow> string \<Rightarrow> string \<Rightarrow> Authorization io" where
  "createSAMLAuthnRequest s pid flow userID =
     with_provider s pid (\<lambda>p. case p of
       Sso sso \<Rightarrow>
         call (stateStore s) fail (\<lambda>store.
         call (BuildAuthnRequest sso []) (\<lambda>e. fail (Internal ''build authn request'' e)) (\<lambda>res.
         call (ss_SaveSAML store (anr_RelayState res) \<lparr> sas_Provider = pid, sas_RedirectAfter = [],
                 sas_RequestID = anr_RequestID res, sas_Flow = flow, sas_UserID = userID \<rparr> SAMLStateTTL)
           (\<lambda>e. fail (Internal ''persist relay state'' e))
           (\<lambda>_. ret \<lparr> atz_URL = anr_URL res, atz_State = anr_RelayState res \<rparr>)))
     | _ \<Rightarrow> fail (Unauthorized ''Provider does not support SAML start''))"

definition createAuthorization ::
  "AuthService \<Rightarrow> string \<Rightarrow> string \<Rightarrow> string \<Rightarrow> Authorization io" where
  "createAuthorization s pid flow userID =
     with_provider s pid (\<lambda>p. case p of
       EmailPassword _ \<Rightarrow> fail (BadRequest ''Provider does not support /start'')
     | Sso _ \<Rightarrow> createSAMLAuthnRequest s pid flow userID
     | OAuth oauth \<Rightarrow>
         call GenerateRandomState (\<lambda>e. fail (Internal ''generate state'' e)) (\<lambda>state.
         call GenerateCodeVerifier (\<lambda>e. fail (Internal ''generate verifier'' e)) (\<lambda>verifier.
         call (oauth_AuthURL oauth state verifier) (\<lambda>e. fail (Internal ''auth URL'' e)) (\<lambda>url.
         call (stateStore s) fail (\<lambda>store.
         call (ss_SaveOAuth store state \<lparr> oas_Provider = pid, oas_RedirectAfter = [],
                 oas_CodeVerifier = verifier, oas_Nonce = [], oas_Flow = flow, oas_UserID = userID \<rparr> OAuthStateTTL)
           (\<lambda>e. fail (Internal ''persist OAuth state'' e))
           (\<lambda>_. ret \<lparr> atz_URL = url, atz_State = state \<rparr>))))))"

definition CreateAuthorization :: "AuthService \<Rightarrow> string \<Rightarrow> Authorization io" where
  "CreateAuthorization s pid = createAuthorization s pid flow_login []"

definition CreateSAMLAuthnRequest :: "AuthService \<Rightarrow> string \<Rightarrow> Authorization io" where
  "CreateSAMLAuthnRequest s pid = createSAMLAuthnRequest s pid flow_login []"

definition CreateLinkAuthorization :: "AuthService \<Rightarrow> string \<Rightarrow> string \<Rightarrow> Authorization io" where
  "CreateLinkAuthorization s userID pid =
     (if userID = [] then fail (Unauthorized ''missing link user'')
      else createAuthorization s pid flow_link userID)"

definition handleSAMLAcs ::
  "AuthService \<Rightarrow> string \<Rightarrow> string \<Rightarrow> string \<Rightarrow> string \<Rightarrow> string \<Rightarrow> AuthIdentity io" where
  "handleSAMLAcs s pid samlResponse relayState expectedFlow expectedUserID =
     with_provider s pid (\<lambda>p. case p of
       Sso sso \<Rightarrow>
         call (stateStore s) fail (\<lambda>store.
         call (ParseRelayState sso store relayState) fail (\<lambda>payload.
         if sas_Flow payload \<noteq> expectedFlow \<or> sas_UserID payload \<noteq> expectedUserID
         then fail (Unauthorized ''SAML state flow or user mismatch'')
         else ProcessResponse sso samlResponse relayState (sas_RequestID payload)))
     | _ \<Rightarrow> fail (Unauthorized ''Provider does not support SAML ACS''))"

definition handleOAuthCallback ::
  "AuthService \<Rightarrow> string \<Rightarrow> string \<Rightarrow> string \<Rightarrow> string \<Rightarrow> string \<Rightarrow> AuthIdentity io" where
  "handleOAuthCallback s pid state code expectedFlow expectedUserID =
     with_provider s pid (\<lambda>p. case p of
       OAuth oauth \<Rightarrow>
         call (stateStore s) fail (\<lambda>store.
         call (ss_ConsumeOAuth store state)
           (\<lambda>e. if errors_is e ErrStateNotFound then fail (Unauthorized ''OAuth state invalid or expired'')
                else fail (Internal ''consume state'' e))
           (\<lambda>payload.
         if oas_Provider payload \<noteq> pid then fail (Unauthorized ''OAuth state provider mismatch'')
         else if oas_Flow payload \<noteq> expectedFlow \<or> oas_UserID payload \<noteq> expectedUserID
         then fail (Unauthorized ''OAuth state flow or user mismatch'')
         else if svc_test s \<noteq> None
         then oauth_Verify (svc_test s) oauth [(''code'', JStr code), (''_codeVerifier'', JStr (oas_CodeVerifier payload))]
         else ExchangeAndFetchUser oauth code (oas_CodeVerifier payload)))
     | _ \<Rightarrow> fail (Unauthorized ''Provider does not support OAuth callback''))"

definition HandleSAMLAcs :: "AuthService \<Rightarrow> string \<Rightarrow> string \<Rightarrow> string \<Rightarrow> AuthIdentity io" where
  "HandleSAMLAcs s pid samlResponse relayState = handleSAMLAcs s pid samlResponse relayState flow_login []"

definition HandleOAuthCallback :: "AuthService \<Rightarrow> string \<Rightarrow> string \<Rightarrow> string \<Rightarrow> AuthIdentity io" where
  "HandleOAuthCallback s pid state code = handleOAuthCallback s pid state code flow_login []"

abbreviation saml_response_keys :: "string list" where
  "saml_response_keys \<equiv> [''SAMLResponse'', ''samlResponse'']"

abbreviation relay_keys :: "string list" where
  "relay_keys \<equiv> [''RelayState'', ''relayState'', ''state'']"

definition AuthenticateCallback :: "AuthService \<Rightarrow> string \<Rightarrow> AuthCredentials \<Rightarrow> AuthResult io" where
  "AuthenticateCallback s pid creds =
     with_provider s pid (\<lambda>p.
     call (case p of
             OAuth _ \<Rightarrow> HandleOAuthCallback s pid (credentialString creds [''state'']) (credentialString creds [''code''])
           | Sso _ \<Rightarrow> HandleSAMLAcs s pid (credentialString creds saml_response_keys) (credentialString creds relay_keys)
           | EmailPassword _ \<Rightarrow> fail (BadRequest ''Provider does not support callback''))
       fail (completeExternalAuthentication pid))"

section \<open>Linked identities\<close>

definition LinkProvider :: "AuthService \<Rightarrow> string \<Rightarrow> string \<Rightarrow> AuthCredentials \<Rightarrow> unit io" where
  "LinkProvider s userID pid creds =
     (case Get s pid of
        None \<Rightarrow> fail (Unauthorized ''Provider not available'')
      | Some p \<Rightarrow> provider_Link (svc_test s) p userID creds)"

definition LinkIdentity :: "AuthService \<Rightarrow> string \<Rightarrow> string \<Rightarrow> AuthCredentials \<Rightarrow> unit io" where
  "LinkIdentity s userID pid creds =
     with_provider s pid (\<lambda>p.
     call (case p of
             OAuth _ \<Rightarrow> handleOAuthCallback s pid (credentialString creds [''state''])
               (credentialString creds [''code'']) flow_link userID
           | Sso _ \<Rightarrow> handleSAMLAcs s pid (credentialString creds saml_response_keys)
               (credentialString creds relay_keys) flow_link userID
           | EmailPassword _ \<Rightarrow> provider_Verify (svc_test s) p creds)
       fail
       (\<lambda>identity. auth_repo_LinkProviderAccount userID pid (aid_ProviderUserID identity) (aid_Profile identity)))"

definition ListIdentities :: "string \<Rightarrow> Identity list io" where
  "ListIdentities userID = auth_repo_ListProviderAccountsByUser userID"

definition auth_UnlinkIdentity :: "string \<Rightarrow> string \<Rightarrow> unit io" where
  "auth_UnlinkIdentity userID identityID =
     call (auth_repo_UnlinkProviderAccount userID identityID)
       (\<lambda>e. if errors_is e auth_ErrNotFound then fail (NotFound ''identity not found'')
            else fail (Internal ''unlink'' e))
       ret"

end
