(* ===== verification/AuthHandlers.thy ===== *)
theory AuthHandlers
  imports AuthService Tokens PasswordReset
begin

text \<open>
  \<open>internal/handler/auth.go\<close>: the endpoints under \<open>/api/v1/auth\<close>.  A handler takes the parsed body
  (\<open>None\<close> when parsing fails) and yields the response: status, tokens, user and the cookie it
  sets; its errors go to the error handler.  The claims argument is what \<open>RequireAuth\<close> stored.
\<close>

record AuthHandlerConfig =
  ahc_Env :: string
  ahc_AccessTokenTTL :: int
  ahc_RefreshTokenTTL :: int

record AuthHandler =
  ahd_svc :: AuthService
  ahd_jwt :: jwt_lib
  ahd_tokens :: JWTTokenIssuer
  ahd_cfg :: AuthHandlerConfig

record Cookie =
  cok_Name :: string
  cok_Value :: string
  cok_HTTPOnly :: bool
  cok_Secure :: bool
  cok_SameSite :: string
  cok_Path :: string
  cok_MaxAge :: int

record UserView =
  uvw_id :: string
  uvw_email :: string
  uvw_name :: "string option"
  uvw_role :: string

record Session =
  ses_Status :: int
  ses_accessToken :: string
  ses_user :: UserView
  ses_cookie :: Cookie

definition defaultRole :: string where "defaultRole = ''student''"

definition sameSiteFor :: "string \<Rightarrow> string" where
  "sameSiteFor env = (if env = ''production'' then ''Strict'' else ''Lax'')"

definition setRefreshCookie :: "AuthHandler \<Rightarrow> string \<Rightarrow> Cookie" where
  "setRefreshCookie h token =
     \<lparr> cok_Name = ''refresh_token'', cok_Value = token, cok_HTTPOnly = True,
       cok_Secure = (ahc_Env (ahd_cfg h) = ''production''), cok_SameSite = sameSiteFor (ahc_Env (ahd_cfg h)),
       cok_Path = ''/api/v1/auth'', cok_MaxAge = ahc_RefreshTokenTTL (ahd_cfg h) div 1000 \<rparr>"

definition clearRefreshCookie :: "AuthHandler \<Rightarrow> Cookie" where
  "clearRefreshCookie h =
     \<lparr> cok_Name = ''refresh_token'', cok_Value = [], cok_HTTPOnly = True,
       cok_Secure = (ahc_Env (ahd_cfg h) = ''production''), cok_SameSite = sameSiteFor (ahc_Env (ahd_cfg h)),
       cok_Path = ''/api/v1/auth'', cok_MaxAge = -1 \<rparr>"

text \<open>An error of the response type passes with what it wraps; the sentinels get their status.\<close>

definition mapAuthError :: "go_error \<Rightarrow> go_error" where
  "mapAuthError err =
     (case List.find is_app (error_chain err) of
        Some ae \<Rightarrow> ae
      | None \<Rightarrow>
         if errors_is err ErrInvalidCredentials then Unauthorized ''invalid credentials''
         else if errors_is err (Sentinel ''auth: email already registered'') then Conflict ''email already registered''
         else if errors_is err (Sentinel ''auth: user not found'') then NotFound ''user not found''
         else if errors_is err (Sentinel ''auth: provider disabled'') then BadRequest ''auth provider not available''
         else if errors_is err (Sentinel ''context canceled'') \<or> errors_is err (Sentinel ''context deadline exceeded'')
         then Internal (''auth: '' @ error_text err) err
         else Internal (error_text err) err)"

definition failed_with :: "string \<Rightarrow> go_error \<Rightarrow> 'a io" where
  "failed_with what e = fail (Internal (what @ '': '' @ error_text e) e)"

text \<open>The tail the sign-in endpoints share: the account is looked up by the e-mail address of the
  identity, and the tokens are issued for it.\<close>

definition signed_in :: "AuthHandler \<Rightarrow> int \<Rightarrow> string \<Rightarrow> (User \<Rightarrow> string) \<Rightarrow> AuthResult \<Rightarrow> Session io" where
  "signed_in h status what role result =
     call (auth_repo_GetUserByEmail (prf_Email (aid_Profile (ars_Identity result)))) (failed_with what) (\<lambda>user.
     call (Issue (ahd_jwt h) (ahd_tokens h) (usr_ID user) (usr_Email user) (role user)) (failed_with ''issue tokens'') (\<lambda>pair.
     ret \<lparr> ses_Status = status, ses_accessToken = tp_AccessToken pair,
       ses_user = \<lparr> uvw_id = usr_ID user, uvw_email = usr_Email user, uvw_name = Some (usr_Name user), uvw_role = role user \<rparr>,
       ses_cookie = setRefreshCookie h (tp_RefreshToken pair) \<rparr>))"

definition h_register :: "AuthHandler \<Rightarrow> (string \<times> string \<times> string) option \<Rightarrow> Session io" where
  "h_register h body =
     (case body of
        None \<Rightarrow> fail (BadRequest ''invalid request body'')
      | Some (email, password, name) \<Rightarrow>
          if \<not> ValidateEmailPublic email \<or> \<not> ValidatePasswordPublic password
          then fail (BadRequest ''invalid email or password format'')
          else
          call (Authenticate (ahd_svc h) ''email_password'' [(''email'', JStr email), (''password'', JStr password),
                  (''name'', JStr name), (''mode'', JStr ''register'')])
            (\<lambda>e. fail (mapAuthError e))
            (signed_in h 201 ''resolve user after register'' (\<lambda>_. defaultRole)))"

definition h_login :: "AuthHandler \<Rightarrow> (string \<times> string) option \<Rightarrow> Session io" where
  "h_login h body =
     (case body of
        None \<Rightarrow> fail (BadRequest ''invalid request body'')
      | Some (email, password) \<Rightarrow>
          if email = [] \<or> password = [] then fail (BadRequest ''email and password are required'')
          else
          call (Authenticate (ahd_svc h) ''email_password'' [(''email'', JStr email), (''password'', JStr password),
                  (''mode'', JStr ''login'')])
            (\<lambda>e. fail (mapAuthError e))
            (signed_in h 200 ''resolve user after login'' usr_Role))"

definition h_refresh :: "AuthHandler \<Rightarrow> string \<Rightarrow> Session io" where
  "h_refresh h old =
     (if old = [] then fail (Unauthorized ''missing refresh token'')
      else
      call (RotateRefreshToken (ahd_jwt h) (ahd_tokens h) old)
        (\<lambda>e. if errors_is e ErrTokenReuse then fail (Unauthorized ''refresh token reuse detected'')
             else if errors_is e ErrInvalidToken then fail (Unauthorized ''invalid or expired refresh token'')
             else failed_with ''rotate token'' e)
        (\<lambda>pair.
      call (Verify (ahd_jwt h) (ahd_tokens h) (tp_AccessToken pair)) (failed_with ''verify new token'') (\<lambda>claims.
      ret \<lparr> ses_Status = 200, ses_accessToken = tp_AccessToken pair,
        ses_user = \<lparr> uvw_id = clm_UserID claims, uvw_email = clm_Email claims, uvw_name = None, uvw_role = clm_Role claims \<rparr>,
        ses_cookie = setRefreshCookie h (tp_RefreshToken pair) \<rparr>)))"

definition h_logout :: "AuthHandler \<Rightarrow> string \<Rightarrow> Cookie io" where
  "h_logout h old =
     (if old \<noteq> [] then ignoring (DropUserFromToken old) (ret (clearRefreshCookie h))
      else ret (clearRefreshCookie h))"

definition h_me :: "Claims option \<Rightarrow> UserView io" where
  "h_me claims =
     (case claims of
        None \<Rightarrow> fail (Unauthorized ''missing auth context'')
      | Some c \<Rightarrow>
          call (auth_repo_GetUserByID (clm_UserID c))
            (\<lambda>e. if errors_is e auth_ErrNotFound then fail (NotFound ''user not found'')
                 else failed_with ''get user'' e)
            (\<lambda>user. ret \<lparr> uvw_id = usr_ID user, uvw_email = usr_Email user,
               uvw_name = Some (usr_Name user), uvw_role = usr_Role user \<rparr>))"

definition h_listProviders :: "AuthHandler \<Rightarrow> ProviderDescriptor list" where
  "h_listProviders h = ListProviders (ahd_svc h)"

definition h_startProvider :: "AuthHandler \<Rightarrow> string \<Rightarrow> Authorization io" where
  "h_startProvider h pid = call (CreateAuthorization (ahd_svc h) pid) (\<lambda>e. fail (mapAuthError e)) ret"

definition h_authenticate :: "AuthHandler \<Rightarrow> string \<Rightarrow> AuthCredentials option \<Rightarrow> Session io" where
  "h_authenticate h pid body =
     (case body of
        None \<Rightarrow> fail (BadRequest ''invalid request body'')
      | Some creds \<Rightarrow>
          if creds = [] then fail (BadRequest ''missing credentials'')
          else call (Authenticate (ahd_svc h) pid creds) (\<lambda>e. fail (mapAuthError e))
                 (signed_in h 200 ''resolve user'' usr_Role))"

text \<open>\<open>code\<close> and \<open>state\<close> missing from the body are taken from the query string.\<close>

definition from_query :: "(string \<Rightarrow> string) \<Rightarrow> AuthCredentials option \<Rightarrow> AuthCredentials" where
  "from_query q body =
     (let c0 = (case body of None \<Rightarrow> [(''code'', JStr (q ''code'')), (''state'', JStr (q ''state''))] | Some c \<Rightarrow> c);
          c1 = (if cred c0 ''code'' = [] then (''code'', JStr (q ''code'')) # c0 else c0)
      in if cred c1 ''state'' = [] then (''state'', JStr (q ''state'')) # c1 else c1)"

definition h_providerCallback ::
  "AuthHandler \<Rightarrow> string \<Rightarrow> (string \<Rightarrow> string) \<Rightarrow> AuthCredentials option \<Rightarrow> Session io" where
  "h_providerCallback h pid q body =
     call (AuthenticateCallback (ahd_svc h) pid (from_query q body)) (\<lambda>e. fail (mapAuthError e))
       (signed_in h 200 ''resolve user'' usr_Role)"

definition h_startLink :: "AuthHandler \<Rightarrow> Claims option \<Rightarrow> string \<Rightarrow> Authorization io" where
  "h_startLink h claims pid =
     (case claims of
        None \<Rightarrow> fail (Unauthorized ''missing auth context'')
      | Some c \<Rightarrow> call (CreateLinkAuthorization (ahd_svc h) (clm_UserID c) pid) (\<lambda>e. fail (mapAuthError e)) ret)"

definition h_linkCallback ::
  "AuthHandler \<Rightarrow> Claims option \<Rightarrow> string \<Rightarrow> AuthCredentials option \<Rightarrow> unit io" where
  "h_linkCallback h claims pid body =
     (case claims of
        None \<Rightarrow> fail (Unauthorized ''missing auth context'')
      | Some c \<Rightarrow>
          (case body of
             None \<Rightarrow> fail (BadRequest ''invalid request body'')
           | Some creds \<Rightarrow> call (LinkIdentity (ahd_svc h) (clm_UserID c) pid creds) (\<lambda>e. fail (mapAuthError e)) ret))"

section \<open>Password reset endpoints\<close>

definition h_reset_request :: "PasswordResetNotifier \<Rightarrow> string option \<Rightarrow> bool io" where
  "h_reset_request n body =
     (case body of
        None \<Rightarrow> fail (BadRequest ''invalid request body'')
      | Some email \<Rightarrow>
          if 320 < length email \<or> \<not> ValidateEmailPublic (trim_space email)
          then fail (BadRequest ''valid email is required'')
          else call (RequestReset n email) fail (\<lambda>_. ret True))"

definition h_reset_confirm :: "bcrypt_lib \<Rightarrow> int \<Rightarrow> (string \<times> string) option \<Rightarrow> bool io" where
  "h_reset_confirm bc cost body =
     (case body of
        None \<Rightarrow> fail (BadRequest ''invalid request body'')
      | Some (token, newPassword) \<Rightarrow> call (ConfirmReset bc cost token newPassword) fail (\<lambda>_. ret True))"

end
