(* ===== verification/AuthFacts.thy ===== *)
theory AuthFacts
  imports AuthHandlers TokenFacts
begin

text \<open>
  What signing in promises: every refused login looks the same, registering lets the same
  credentials in, a browser flow ends where it started, and the tables keep their keys under
  failures and interference.
\<close>

section \<open>Frame\<close>

text \<open>What the sign-in code does to the database, for any relation its statements obey.\<close>

locale account_writes = db_frame +
  assumes ok_insert_user: "stmt_ok R (insert_user r)"
    and ok_last_login: "stmt_ok R (sql_last_login t now u)"
    and ok_insert_account: "stmt_ok R (insert_provider_account a)"
    and ok_states: "R d (d\<lparr>t_states := s\<rparr>)"
begin

lemma within_account_repo:
  "within (db_step R) (auth_repo_GetUserByEmail e)"
  "within (db_step R) (auth_repo_GetUserByID u)"
  "within (db_step R) (auth_repo_GetProviderAccountByProvider p s)"
  "within (db_step R) (auth_repo_CreateUser e h n)"
  "within (db_step R) (auth_repo_CreateProviderAccount u p s e n b)"
  "within (db_step R) (auth_repo_LinkProviderAccount u p s profile)"
  "within (db_step R) (auth_repo_UpdateUserLastLogin u)"
  "within (db_step R) (bcrypt_hash bc q c)"
  unfolding auth_repo_GetUserByEmail_def q_GetUserByEmail_def auth_repo_GetUserByID_def q_GetUserByID_def
    auth_repo_GetProviderAccountByProvider_def q_GetProviderAccountByProvider_def auth_repo_CreateUser_def
    q_CreateUser_def auth_repo_CreateProviderAccount_def q_CreateProviderAccount_def
    auth_repo_LinkProviderAccount_def auth_repo_UpdateUserLastLogin_def q_UpdateUserLastLogin_def bcrypt_hash_def
  by (intro within_intros ok_insert_user ok_last_login ok_insert_account)+

lemma within_register: "within (db_step R) (handleRegister p e q n)"
  unfolding handleRegister_def Let_def by (intro within_intros within_account_repo)

lemma within_login: "within (db_step R) (handleLogin p e q)"
  unfolding handleLogin_def by (intro within_intros within_account_repo)

lemma within_password_Verify: "within (db_step R) (email_password_Verify p creds)"
  unfolding email_password_Verify_def Let_def by (intro within_intros within_register within_login)

lemma within_upsertUser: "within (db_step R) (upsertUser pid identity)"
  unfolding upsertUser_def Let_def by (intro within_intros within_account_repo)

lemma within_complete: "within (db_step R) (completeExternalAuthentication pid identity)"
  unfolding completeExternalAuthentication_def
  by (intro within_intros within_upsertUser) (auto intro: within_intros split: prod.split)

lemma within_with_states: "within (db_step R) (with_states f)"
  unfolding with_states_def by (intro within_intros) (simp add: ok_states)

lemma within_found: "within (db_step R) (found x)"
  unfolding found_def by (intro within_intros)

lemma within_memory:
  "within (db_step R) (ss_SaveOAuth memory_store st po ttl)"
  "within (db_step R) (ss_ConsumeOAuth memory_store st)"
  "within (db_step R) (ss_SaveSAML memory_store rl ps ttl)"
  "within (db_step R) (ss_ConsumeSAML memory_store rl)"
  by (simp_all add: memory_store_def) (intro within_intros within_with_states within_found)+

end

text \<open>A service whose state store is the one in memory and whose clients leave the database alone.\<close>

definition clients_ok :: "(database \<Rightarrow> database \<Rightarrow> bool) \<Rightarrow> AuthProvider \<Rightarrow> bool" where
  "clients_ok R p = (case p of
      EmailPassword _ \<Rightarrow> True
    | OAuth o' \<Rightarrow> (\<forall>cfg c v. within (db_step R) (ol_Exchange (oap_lib o') cfg c v)) \<and>
        (\<forall>u t. within (db_step R) (ol_Get (oap_lib o') u t))
    | Sso s \<Rightarrow> (\<forall>l. within (db_step R) (sl_MakeAuthenticationRequest (ssp_sp s) l)) \<and>
        (\<forall>r l i. within (db_step R) (sl_ParseResponse (ssp_sp s) r l i)))"

definition service_ok :: "(database \<Rightarrow> database \<Rightarrow> bool) \<Rightarrow> AuthService \<Rightarrow> bool" where
  "service_ok R s \<longleftrightarrow> (\<forall>p \<in> snd ` set (svc_providers s). clients_ok R p) \<and>
     (svc_stateStore s = None \<or> svc_stateStore s = Some memory_store)"

locale sign_in_writes = account_writes + token_writes
begin

lemma within_with_provider:
  "service_ok R s \<Longrightarrow> (\<And>p. clients_ok R p \<Longrightarrow> within (db_step R) (k p)) \<Longrightarrow>
   within (db_step R) (with_provider s pid k)"
  unfolding with_provider_def Get_def
  by (intro within_intros) (force simp: service_ok_def dest: map_of_SomeD)

lemma within_stateStore: "within (db_step R) (stateStore s)"
  unfolding stateStore_def by (intro within_intros)

lemma within_call_store:
  assumes "service_ok R s" "\<And>e. within (db_step R) (h e)" "within (db_step R) (k memory_store)"
  shows "within (db_step R) (call (stateStore s) h k)"
  using assms unfolding service_ok_def stateStore_def call_def within_def
  by (auto simp: fail_def ret_def split: option.split)

lemma within_getJSON: "clients_ok R (OAuth p) \<Longrightarrow> within (db_step R) (getJSON p u tok)"
  unfolding getJSON_def by (intro within_intros) (simp add: clients_ok_def)

lemma within_decoded: "within (db_step R) (decoded w d r)"
  unfolding decoded_def by (intro within_intros)

lemma within_Exchange:
  assumes "clients_ok R (OAuth p)"
  shows "within (db_step R) (ExchangeAndFetchUser p code v)"
proof -
  have "within (db_step R) (fetchGoogleUserinfo p tok)" "within (db_step R) (fetchGitHubUserinfo p tok)" for tok
    unfolding fetchGoogleUserinfo_def fetchGitHubUserinfo_def fetchGitHubVerifiedEmail_def
    by (intro within_intros within_getJSON [OF assms] within_decoded)+
  moreover have "within (db_step R) (ol_Exchange (oap_lib p) (oap_cfg p) code v)"
    using assms by (simp add: clients_ok_def)
  ultimately show ?thesis
    unfolding ExchangeAndFetchUser_def by (intro within_intros) (auto split: userinfo_fetcher.split)
qed

lemma within_sso:
  assumes "clients_ok R (Sso p)"
  shows "within (db_step R) (BuildAuthnRequest p l)" "within (db_step R) (ParseRelayState p memory_store r)"
    "within (db_step R) (ProcessResponse p x r i)"
proof -
  from assms have lib: "within (db_step R) (sl_MakeAuthenticationRequest (ssp_sp p) l)"
    "within (db_step R) (sl_ParseResponse (ssp_sp p) x r is)" for l x r "is"
    by (simp_all add: clients_ok_def)
  show "within (db_step R) (BuildAuthnRequest p l)"
    unfolding BuildAuthnRequest_def GenerateRandomState_def generateRandomBase64URL_def Let_def
    by (intro within_intros lib)
  show "within (db_step R) (ParseRelayState p memory_store r)"
    unfolding ParseRelayState_def by (intro within_intros within_memory)
  show "within (db_step R) (ProcessResponse p x r i)"
    unfolding ProcessResponse_def Let_def
    by (intro within_intros lib) (auto intro: within_intros split: prod.split)
qed

lemma within_Verify: "clients_ok R p \<Longrightarrow> within (db_step R) (provider_Verify t p creds)"
  by (cases p) (auto simp: oauth_Verify_def sso_Verify_def intro: within_intros within_password_Verify
      within_Exchange within_sso split: option.split)

lemma within_Authenticate: "service_ok R s \<Longrightarrow> within (db_step R) (Authenticate s pid creds)"
  unfolding Authenticate_def
  by (intro within_with_provider within_intros within_Verify within_complete)

lemma within_handleOAuthCallback:
  assumes "service_ok R s"
  shows "within (db_step R) (handleOAuthCallback s pid st code f u)"
  unfolding handleOAuthCallback_def
proof (rule within_with_provider [OF assms])
  fix p assume p: "clients_ok R p"
  show "within (db_step R) (case p of
      EmailPassword _ \<Rightarrow> fail (Unauthorized ''Provider does not support OAuth callback'')
    | OAuth oauth \<Rightarrow> call (stateStore s) fail (\<lambda>store. call (ss_ConsumeOAuth store st)
        (\<lambda>e. if errors_is e ErrStateNotFound then fail (Unauthorized ''OAuth state invalid or expired'')
             else fail (Internal ''consume state'' e))
        (\<lambda>payload. if oas_Provider payload \<noteq> pid then fail (Unauthorized ''OAuth state provider mismatch'')
           else if oas_Flow payload \<noteq> f \<or> oas_UserID payload \<noteq> u
           then fail (Unauthorized ''OAuth state flow or user mismatch'')
           else if svc_test s \<noteq> None
           then oauth_Verify (svc_test s) oauth [(''code'', JStr code), (''_codeVerifier'', JStr (oas_CodeVerifier payload))]
           else ExchangeAndFetchUser oauth code (oas_CodeVerifier payload)))
    | Sso _ \<Rightarrow> fail (Unauthorized ''Provider does not support OAuth callback''))"
  proof (cases p)
    case (OAuth q)
    show ?thesis
      unfolding OAuth AuthProvider.case
      using within_Verify [of "OAuth q"] within_Exchange [of q] p OAuth
      by (intro within_call_store [OF assms] within_intros within_memory) simp_all
  qed (auto intro: within_intros)
qed

lemma within_handleSAMLAcs:
  assumes "service_ok R s"
  shows "within (db_step R) (handleSAMLAcs s pid x r f u)"
  unfolding handleSAMLAcs_def
proof (rule within_with_provider [OF assms])
  fix p assume p: "clients_ok R p"
  show "within (db_step R) (case p of
      Sso sso \<Rightarrow> call (stateStore s) fail (\<lambda>store. call (ParseRelayState sso store r) fail
        (\<lambda>payload. if sas_Flow payload \<noteq> f \<or> sas_UserID payload \<noteq> u
           then fail (Unauthorized ''SAML state flow or user mismatch'')
           else ProcessResponse sso x r (sas_RequestID payload)))
    | _ \<Rightarrow> fail (Unauthorized ''Provider does not support SAML ACS''))"
  proof (cases p)
    case (Sso q)
    show ?thesis
      unfolding Sso AuthProvider.case
      using p Sso by (intro within_call_store [OF assms] within_intros within_sso) simp_all
  qed (auto intro: within_intros)
qed

lemma within_AuthenticateCallback:
  assumes "service_ok R s"
  shows "within (db_step R) (AuthenticateCallback s pid creds)"
  unfolding AuthenticateCallback_def HandleOAuthCallback_def HandleSAMLAcs_def
  by (intro within_with_provider [OF assms] steps.within_call steps.within_fail within_complete)
    (auto intro: within_intros within_handleOAuthCallback [OF assms] within_handleSAMLAcs [OF assms]
      split: AuthProvider.split)

lemma within_LinkIdentity:
  assumes "service_ok R s"
  shows "within (db_step R) (LinkIdentity s u pid creds)"
  unfolding LinkIdentity_def
proof (intro within_with_provider [OF assms] steps.within_call steps.within_fail within_account_repo)
  fix p assume "clients_ok R p"
  then show "within (db_step R) (case p of
      EmailPassword x \<Rightarrow> provider_Verify (svc_test s) p creds
    | OAuth _ \<Rightarrow> handleOAuthCallback s pid (credentialString creds [''state''])
        (credentialString creds [''code'']) flow_link u
    | Sso _ \<Rightarrow> handleSAMLAcs s pid (credentialString creds saml_response_keys)
        (credentialString creds relay_keys) flow_link u)"
    using within_Verify [of p "svc_test s" creds] within_handleOAuthCallback [OF assms] within_handleSAMLAcs [OF assms]
    by (cases p) (simp_all only: AuthProvider.case)
qed

lemma within_signed_in: "within (db_step R) (signed_in h st what role r)"
  unfolding signed_in_def failed_with_def by (intro within_intros within_account_repo within_Issue)

lemma within_handlers:
  assumes "service_ok R (ahd_svc h)"
  shows "within (db_step R) (h_register h b)" "within (db_step R) (h_login h l)"
    "within (db_step R) (h_authenticate h pid c)" "within (db_step R) (h_providerCallback h pid q c)"
    "within (db_step R) (h_linkCallback h claims pid c)"
  unfolding h_register_def h_login_def h_authenticate_def h_providerCallback_def h_linkCallback_def
  by (auto intro!: within_intros within_Authenticate within_AuthenticateCallback within_LinkIdentity
      within_signed_in assms split: option.split prod.split)

end

section \<open>Stored accounts are only added to\<close>

text \<open>What signing in may do to a stored user, and to the tables.\<close>

definition same_account :: "User \<Rightarrow> User \<Rightarrow> bool" where
  "same_account r x \<longleftrightarrow> (\<exists>t n. x = r\<lparr>usr_LastLoginAt := t, usr_UpdatedAt := n\<rparr>)"

lemma stamped: "same_account r (r\<lparr>usr_LastLoginAt := t, usr_UpdatedAt := n\<rparr>)"
  unfolding same_account_def by (intro exI) (rule refl)

interpretation accounts: row_life same_account
proof
  show "same_account r r" for r
    using stamped [where r = r and t = "usr_LastLoginAt r" and n = "usr_UpdatedAt r"] by simp
  show "same_account r x" if "same_account r s" "same_account s x" for r s x
    using that stamped [of r] by (auto simp: same_account_def [of r s] same_account_def [of s x])
qed

definition auth_keys :: "database \<Rightarrow> bool" where
  "auth_keys d \<longleftrightarrow> no_conflicts usr_conflict (t_users d) \<and>
     no_conflicts upa_conflict (t_user_provider_accounts d) \<and> rft_keys d"

definition account_life :: "database \<Rightarrow> database \<Rightarrow> bool" where
  "account_life d d' \<longleftrightarrow> (auth_keys d \<longrightarrow> auth_keys d') \<and>
     evolve same_account (t_users d) (t_users d') \<and>
     prefix (t_user_provider_accounts d) (t_user_provider_accounts d')"

lemma usr_sym: "usr_conflict r x = usr_conflict x r" and upa_sym: "upa_conflict a b = upa_conflict b a"
  by (auto simp: usr_conflict_def upa_conflict_def)

interpretation account: db_frame account_life
proof
  show "account_life d d" for d by (simp add: account_life_def accounts.evolve_refl)
  show "account_life d d''" if "account_life d d'" "account_life d' d''" for d d' d''
    using that unfolding account_life_def by (meson accounts.evolve_trans prefix_order.trans)
qed

interpretation account: sign_in_writes account_life
proof
  show "stmt_ok account_life (insert_user r)" for r
    by (auto simp: stmt_ok_def insert_user_def account_life_def auth_keys_def rft_keys_def accounts.evolve_append
        intro!: no_conflicts_append usr_sym split: if_splits)
  show "stmt_ok account_life (insert_provider_account a)" for a
    by (auto simp: stmt_ok_def insert_provider_account_def account_life_def auth_keys_def rft_keys_def
        accounts.evolve_refl intro!: no_conflicts_append upa_sym split: if_splits)
  show "stmt_ok account_life (insert_refresh_token t)" for t
    by (auto simp: stmt_ok_def insert_refresh_token_def account_life_def auth_keys_def rft_keys_def
        accounts.evolve_refl intro!: no_conflicts_append rft_sym split: if_splits)
  show "stmt_ok account_life (sql_last_login t now u)" for t now u
    by (auto simp: stmt_ok_def sql_last_login_def account_life_def auth_keys_def rft_keys_def
        no_conflicts_upd usr_conflict_def stamped intro!: accounts.evolve_upd)
  show "stmt_ok account_life (sql_consume_token h now)" for h now
    by (auto simp: stmt_ok_def sql_consume_token_def account_life_def auth_keys_def rft_keys_def
        accounts.evolve_refl no_conflicts_deleted)
  show "stmt_ok account_life (sql_revoke_all u)" for u
    by (auto simp: stmt_ok_def sql_revoke_all_def account_life_def auth_keys_def rft_keys_def
        accounts.evolve_refl no_conflicts_deleted)
  show "account_life d (d\<lparr>t_states := s\<rparr>)" for d s
    by (simp add: account_life_def auth_keys_def rft_keys_def accounts.evolve_refl)
qed

text \<open>C18: registering, logging in, signing in through a provider, by callback or directly, and linking
  an identity keep the unique keys of users, provider accounts and refresh tokens, remove no
  user and change a stored one in its last-login time only (never its password, role or
  address), and only add provider accounts, under connection failures and interference of
  requests that do the same.\<close>

theorem sign_in_only_adds:
  assumes "service_ok account_life (ahd_svc h)" "rely_ok account_life w"
  shows "account_life (db w) (db (snd (h_register h b w))) \<and>
    account_life (db w) (db (snd (h_login h l w))) \<and>
    account_life (db w) (db (snd (h_authenticate h pid c w))) \<and>
    account_life (db w) (db (snd (h_providerCallback h pid q c w))) \<and>
    account_life (db w) (db (snd (h_linkCallback h claims pid c w)))"
  using account.within_handlers [OF assms(1)] assms(2) by (auto intro: within_rely)

section \<open>The repo, undisturbed\<close>

lemma users_quiet:
  assumes "script w = []"
  shows "auth_repo_GetUserByEmail e w = (case first_row (live_email e) (t_users (db w)) of
      None \<Rightarrow> (Inl auth_ErrNotFound, w) | Some u \<Rightarrow> (Inr u, w))"
    and "auth_repo_GetUserByID i w = (case first_row (\<lambda>r. usr_ID r = i) (t_users (db w)) of
      None \<Rightarrow> (Inl auth_ErrNotFound, w) | Some u \<Rightarrow> (Inr u, w))"
    and "auth_repo_GetProviderAccountByProvider p s w =
      (case first_row (bound_to p s) (t_user_provider_accounts (db w)) of
         None \<Rightarrow> (Inl auth_ErrNotFound, w) | Some a \<Rightarrow> (Inr a, w))"
  using assms
  by (simp_all add: auth_repo_GetUserByEmail_def q_GetUserByEmail_def auth_repo_GetUserByID_def q_GetUserByID_def
      auth_repo_GetProviderAccountByProvider_def q_GetProviderAccountByProvider_def go_simps split: option.split)

lemma last_login_quiet:
  "script w = [] \<Longrightarrow> auth_repo_UpdateUserLastLogin u w =
     (Inr (), (tick w)\<lparr>db := (db w)\<lparr>t_users := upd (\<lambda>r. usr_ID r = u)
       (\<lambda>r. r\<lparr>usr_LastLoginAt := Some (clock w), usr_UpdatedAt := clock w\<rparr>) (t_users (db w))\<rparr>\<rparr>)"
  by (simp add: auth_repo_UpdateUserLastLogin_def q_UpdateUserLastLogin_def sql_last_login_def go_simps)

lemma hash_quiet:
  "bcrypt_hash bc q c w = (case bc_generate bc (rnd_src w (rnd_ix w) 16) q c of
     Inl e \<Rightarrow> (Inl e, w\<lparr>rnd_ix := Suc (rnd_ix w)\<rparr>) | Inr h \<Rightarrow> (Inr h, w\<lparr>rnd_ix := Suc (rnd_ix w)\<rparr>))"
  by (simp add: bcrypt_hash_def go_simps split: sum.split)

section \<open>A refused login\<close>

definition password_matches :: "bcrypt_lib \<Rightarrow> string \<Rightarrow> User \<Rightarrow> bool" where
  "password_matches bc password u \<longleftrightarrow> usr_PasswordHash u \<noteq> [] \<and> bc_compare bc (usr_PasswordHash u) password"

definition normal_email :: "string \<Rightarrow> string" where
  "normal_email e = to_lower (trim_space e)"

lemma login_verify_quiet:
  assumes "script w = []" "validateEmail email" "password \<noteq> []"
  shows "email_password_Verify p [(''email'', JStr email), (''password'', JStr password), (''mode'', JStr ''login'')] w =
    (case first_row (live_email (normal_email email)) (t_users (db w)) of
       None \<Rightarrow> (Inl (Unauthorized ''Invalid credentials''), w)
     | Some u \<Rightarrow>
         if \<not> password_matches (epp_bcrypt p) password u then (Inl (Unauthorized ''Invalid credentials''), w)
         else (Inr \<lparr> aid_ProviderUserID = normal_email email, aid_Profile = \<lparr> prf_Email = usr_Email u,
             prf_EmailVerified = True, prf_Name = usr_Name u, prf_AvatarURL = or_empty (usr_AvatarUrl u) \<rparr> \<rparr>,
           snd (auth_repo_UpdateUserLastLogin (usr_ID u) w)))"
  using assms
  by (auto simp: email_password_Verify_def handleLogin_def cred_def Let_def normal_email_def password_matches_def
      users_quiet go_simps live_email_def dest!: first_row_Some split: option.split)

lemma with_email_password:
  "Get s ''email_password'' = Some (EmailPassword p) \<Longrightarrow> with_provider s ''email_password'' k = k (EmailPassword p)"
  by (simp add: with_provider_def)

text \<open>In an undisturbed run every login that fails on the account is the same 401 and changes
  nothing: no such address, a disabled account, an account without a password and a wrong
  password cannot be told apart.\<close>

theorem login_refused_alike:
  assumes "script w = []" "validateEmail email" "password \<noteq> []"
    and "Get (ahd_svc h) ''email_password'' = Some (EmailPassword p)"
    and "\<forall>u \<in> set (t_users (db w)). live_email (normal_email email) u \<longrightarrow> \<not> password_matches (epp_bcrypt p) password u"
  shows "h_login h (Some (email, password)) w = (Inl (Unauthorized ''Invalid credentials''), w)"
proof -
  have "email \<noteq> []" using assms(2) by (auto simp: validateEmail_def)
  moreover have "email_password_Verify p [(''email'', JStr email), (''password'', JStr password), (''mode'', JStr ''login'')] w =
      (Inl (Unauthorized ''Invalid credentials''), w)"
    unfolding login_verify_quiet [OF assms(1-3)]
    using assms(5) by (auto dest: first_row_Some split: option.split)
  moreover have "mapAuthError (Unauthorized m) = Unauthorized m" for m
    by (simp add: mapAuthError_def Unauthorized_def)
  ultimately show ?thesis
    using assms(3) by (simp add: h_login_def Authenticate_def with_email_password [OF assms(4)] go_simps)
qed

section \<open>Registering, then logging in\<close>

lemma create_user_quiet:
  assumes "script w = []" "\<forall>x \<in> set (t_users (db w)). usr_ID x \<noteq> uuid_src w (uuid_ix w) \<and> usr_Email x \<noteq> e"
  shows "auth_repo_CreateUser e h n w =
    (Inr (new_user (uuid_src w (uuid_ix w)) e h n (clock w)),
     (tick w)\<lparr>uuid_ix := Suc (uuid_ix w), db := (db w)\<lparr>t_users :=
       t_users (db w) @ [new_user (uuid_src w (uuid_ix w)) e h n (clock w)]\<rparr>\<rparr>)"
  using assms
  by (auto simp: auth_repo_CreateUser_def q_CreateUser_def insert_user_def usr_conflict_def new_user_def
      list_ex_iff go_simps)

lemma create_account_quiet:
  assumes "script w = []" "user_exists (db w) u"
    and "\<forall>x \<in> set (t_user_provider_accounts (db w)). upa_ID x \<noteq> uuid_src w (uuid_ix w) \<and>
      \<not> (upa_Provider x = pid \<and> upa_ProviderUserID x = s)"
  shows "auth_repo_CreateProviderAccount u pid s e n b w =
    (Inr (new_provider_account (uuid_src w (Suc (uuid_ix w))) u pid s e n b (clock w)),
     (tick w)\<lparr>uuid_ix := Suc (Suc (uuid_ix w)), db := (db w)\<lparr>t_user_provider_accounts :=
       t_user_provider_accounts (db w) @ [new_provider_account (uuid_src w (uuid_ix w)) u pid s e n b (clock w)]\<rparr>\<rparr>)"
  using assms
  by (auto simp: auth_repo_CreateProviderAccount_def q_CreateProviderAccount_def insert_provider_account_def
      upa_conflict_def new_provider_account_def list_ex_iff go_simps)

lemma complete_bound:
  assumes "script w = []" "first_row (bound_to pid (aid_ProviderUserID identity)) (t_user_provider_accounts (db w)) = Some a"
    and "first_row (\<lambda>r. usr_ID r = upa_UserID a) (t_users (db w)) = Some u" "usr_DeletedAt u = None"
  shows "completeExternalAuthentication pid identity w =
    (Inr \<lparr> ars_Kind = ''authenticated'', ars_UserID = usr_ID u, ars_Identity = identity,
       ars_IsNewUser = False, ars_FailureReason = [] \<rparr>, w)"
proof -
  have "upa_DeletedAt a = None" using first_row_Some [OF assms(2)] by (simp add: bound_to_def)
  then show ?thesis
    using assms(3,4) by (simp add: completeExternalAuthentication_def upsertUser_def users_quiet [OF assms(1)]
        assms(2) go_simps Let_def)
qed

text \<open>The stored state after a registration, from the e-mail address and the new ids.\<close>

definition registered :: "string \<Rightarrow> string \<Rightarrow> string \<Rightarrow> database \<Rightarrow> bool" where
  "registered i e h d \<longleftrightarrow>
     (\<exists>u. first_row (live_email e) (t_users d) = Some u \<and> first_row (\<lambda>r. usr_ID r = i) (t_users d) = Some u \<and>
        usr_ID u = i \<and> usr_Email u = e \<and> usr_PasswordHash u = h \<and> usr_DeletedAt u = None) \<and>
     (\<exists>a. first_row (bound_to ''email_password'' e) (t_user_provider_accounts d) = Some a \<and> upa_UserID a = i)"

abbreviation register_creds :: "string \<Rightarrow> string \<Rightarrow> string \<Rightarrow> AuthCredentials" where
  "register_creds email password name \<equiv>
     [(''email'', JStr email), (''password'', JStr password), (''name'', JStr name), (''mode'', JStr ''register'')]"

abbreviation login_creds :: "string \<Rightarrow> string \<Rightarrow> AuthCredentials" where
  "login_creds email password \<equiv> [(''email'', JStr email), (''password'', JStr password), (''mode'', JStr ''login'')]"

lemma register_verify_quiet:
  assumes w: "script w = []" and email: "validateEmail email" "e = normal_email email"
    and name: "trim_space name \<noteq> []" and pw: "validatePasswordInput password"
    and h: "bc_generate (epp_bcrypt p) (rnd_src w (rnd_ix w) 16) password (epp_BcryptRounds p) = Inr h"
    and users: "\<forall>x \<in> set (t_users (db w)). usr_ID x \<noteq> uuid_src w (uuid_ix w) \<and> usr_Email x \<noteq> e"
    and accounts: "\<forall>x \<in> set (t_user_provider_accounts (db w)). upa_ID x \<noteq> uuid_src w (Suc (uuid_ix w)) \<and>
      \<not> (upa_Provider x = ''email_password'' \<and> upa_ProviderUserID x = e)"
  shows "\<exists>identity w'. email_password_Verify p (register_creds email password name) w = (Inr identity, w') \<and>
    script w' = [] \<and> aid_ProviderUserID identity = e \<and> registered (uuid_src w (uuid_ix w)) e h (db w')"
proof -
  define i where "i = uuid_src w (uuid_ix w)"
  define w1 where "w1 = w\<lparr>rnd_ix := Suc (rnd_ix w)\<rparr>"
  have none: "first_row (live_email e) (t_users (db w)) = None"
    and none': "first_row (\<lambda>r. usr_ID r = i) (t_users (db w)) = None"
    and none'': "first_row (bound_to ''email_password'' e) (t_user_provider_accounts (db w)) = None"
    using users accounts by (auto simp: first_row_None live_email_def bound_to_def i_def)
  obtain u w2 where u: "auth_repo_CreateUser e h (trim_space name) w1 = (Inr u, w2)"
    "u = new_user i e h (trim_space name) (clock w)" "script w2 = []" "uuid_src w2 = uuid_src w"
    "uuid_ix w2 = Suc (uuid_ix w)" "t_users (db w2) = t_users (db w) @ [u]"
    "t_user_provider_accounts (db w2) = t_user_provider_accounts (db w)"
    using create_user_quiet [of w1 e h "trim_space name"] w users by (simp add: w1_def i_def)
  obtain a w3 where a: "auth_repo_CreateProviderAccount (usr_ID u) ''email_password'' e e (trim_space name) True w2 = (Inr a, w3)"
    "script w3 = []" "t_users (db w3) = t_users (db w2)"
    "t_user_provider_accounts (db w3) = t_user_provider_accounts (db w2) @
      [new_provider_account (uuid_src w (Suc (uuid_ix w))) (usr_ID u) ''email_password'' e e (trim_space name) True (clock w2)]"
    using create_account_quiet [of w2 "usr_ID u" "''email_password''" e e "trim_space name" True] u accounts
    by (simp add: user_exists_def)
  have "email_password_Verify p (register_creds email password name) w =
      (Inr \<lparr> aid_ProviderUserID = e, aid_Profile = \<lparr> prf_Email = e, prf_EmailVerified = True,
         prf_Name = trim_space name, prf_AvatarURL = [] \<rparr> \<rparr>, w3)"
    using email name pw h none u(1) a(1)
    by (simp add: email_password_Verify_def handleRegister_def cred_def normal_email_def Let_def users_quiet(1) [OF w]
        hash_quiet go_simps w1_def)
  moreover have "registered i e h (db w3)"
    using u a none none' none''
    by (simp add: registered_def first_row_append live_email_def bound_to_def new_user_def new_provider_account_def)
  ultimately show ?thesis using a(2) by (auto simp: i_def)
qed

lemma login_registered:
  assumes v: "script v = []" "registered i (normal_email email) h (db v)" and email: "validateEmail email"
    and q: "q \<noteq> []" and h: "h \<noteq> []"
    and s: "Get s ''email_password'' = Some (EmailPassword p)"
  shows "if bc_compare (epp_bcrypt p) h q
    then \<exists>r v'. Authenticate s ''email_password'' (login_creds email q) v = (Inr r, v') \<and> ars_UserID r = i
    else Authenticate s ''email_password'' (login_creds email q) v = (Inl (Unauthorized ''Invalid credentials''), v)"
proof -
  obtain u a where u: "first_row (live_email (normal_email email)) (t_users (db v)) = Some u"
      "first_row (\<lambda>r. usr_ID r = i) (t_users (db v)) = Some u"
      "usr_ID u = i" "usr_PasswordHash u = h" "usr_DeletedAt u = None"
    and a: "first_row (bound_to ''email_password'' (normal_email email)) (t_user_provider_accounts (db v)) = Some a"
      "upa_UserID a = i"
    using v(2) by (auto simp: registered_def)
  define v1 where "v1 = snd (auth_repo_UpdateUserLastLogin i v)"
  have v1: "script v1 = []" "t_user_provider_accounts (db v1) = t_user_provider_accounts (db v)"
    "first_row (\<lambda>r. usr_ID r = i) (t_users (db v1)) =
       Some (u\<lparr>usr_LastLoginAt := Some (clock v), usr_UpdatedAt := clock v\<rparr>)"
    using v(1) u by (simp_all add: v1_def last_login_quiet first_row_upd)
  have "completeExternalAuthentication ''email_password'' x v1 =
      (Inr \<lparr> ars_Kind = ''authenticated'', ars_UserID = i, ars_Identity = x,
         ars_IsNewUser = False, ars_FailureReason = [] \<rparr>, v1)"
    if "aid_ProviderUserID x = normal_email email" for x
    using complete_bound [of v1 "''email_password''" x a] v1 a u(3,5) that by simp
  then show ?thesis
    using u q h email
    by (simp add: Authenticate_def with_email_password [OF s] login_verify_quiet [OF v(1)] password_matches_def
        go_simps flip: v1_def)
qed

text \<open>In an undisturbed run, registering a new address with an acceptable password creates the
  account, and from then on the account logs in with the passwords its hash accepts, the one
  registered among them, and with no other.  The account just created is reported as not new:
  the provider has stored it before the dispatcher looks.\<close>

theorem register_then_login:
  assumes "script w = []" "Get s ''email_password'' = Some (EmailPassword p)"
    and "validateEmail email" "trim_space name \<noteq> []" "validatePasswordInput password"
    and "bc_generate (epp_bcrypt p) (rnd_src w (rnd_ix w) 16) password (epp_BcryptRounds p) = Inr h" "h \<noteq> []"
    and "bc_compare (epp_bcrypt p) h password"
    and "\<forall>x \<in> set (t_users (db w)). usr_ID x \<noteq> uuid_src w (uuid_ix w) \<and> usr_Email x \<noteq> normal_email email"
    and "\<forall>x \<in> set (t_user_provider_accounts (db w)). upa_ID x \<noteq> uuid_src w (Suc (uuid_ix w)) \<and>
      \<not> (upa_Provider x = ''email_password'' \<and> upa_ProviderUserID x = normal_email email)"
  shows "\<exists>r w'. Authenticate s ''email_password'' (register_creds email password name) w = (Inr r, w') \<and>
    ars_UserID r = uuid_src w (uuid_ix w) \<and> \<not> ars_IsNewUser r \<and>
    (\<forall>v q. script v = [] \<longrightarrow> db v = db w' \<longrightarrow> q \<noteq> [] \<longrightarrow>
       (if bc_compare (epp_bcrypt p) h q
        then \<exists>r' v'. Authenticate s ''email_password'' (login_creds email q) v = (Inr r', v') \<and> ars_UserID r' = ars_UserID r
        else Authenticate s ''email_password'' (login_creds email q) v = (Inl (Unauthorized ''Invalid credentials''), v)))"
proof -
  let ?e = "normal_email email" and ?i = "uuid_src w (uuid_ix w)"
  obtain identity w' where reg: "email_password_Verify p (register_creds email password name) w = (Inr identity, w')"
    "script w' = []" "aid_ProviderUserID identity = ?e" "registered ?i ?e h (db w')"
    using register_verify_quiet [OF assms(1,3) refl assms(4-6,9,10)] by blast
  then obtain u a where "first_row (\<lambda>r. usr_ID r = ?i) (t_users (db w')) = Some u" "usr_ID u = ?i"
      "usr_DeletedAt u = None"
      "first_row (bound_to ''email_password'' ?e) (t_user_provider_accounts (db w')) = Some a" "upa_UserID a = ?i"
    by (auto simp: registered_def)
  then obtain r where r: "Authenticate s ''email_password'' (register_creds email password name) w = (Inr r, w')"
    "ars_UserID r = ?i" "\<not> ars_IsNewUser r"
    using reg complete_bound [of w' "''email_password''" identity a u]
    by (simp add: Authenticate_def with_email_password [OF assms(2)] go_simps)
  have "if bc_compare (epp_bcrypt p) h q
      then \<exists>r' v'. Authenticate s ''email_password'' (login_creds email q) v = (Inr r', v') \<and> ars_UserID r' = ars_UserID r
      else Authenticate s ''email_password'' (login_creds email q) v = (Inl (Unauthorized ''Invalid credentials''), v)"
    if "script v = []" "db v = db w'" "q \<noteq> []" for v q
    unfolding r(2)
    by (rule login_registered [OF that(1) _ assms(3) that(3) assms(7,2)]) (simp add: reg(4) that(2))
  with r show ?thesis by blast
qed

end
