(* ===== verification/FlowFacts.thy ===== *)
theory FlowFacts
  imports AuthFacts ResetFacts
begin

text \<open>
  The browser flows: an authorization comes back only to the provider, flow and user it was
  started for, with its own PKCE verifier and once; and what the callback then signs in.
\<close>

section \<open>The state store, undisturbed\<close>

definition stored_states :: "MemoryStateStore \<Rightarrow> world \<Rightarrow> world" where
  "stored_states s w = w\<lparr>db := (db w)\<lparr>t_states := s\<rparr>\<rparr>"

lemma stored_states_simps [simp]:
  "script (stored_states s w) = script w" "t_states (db (stored_states s w)) = s"
  "clock (stored_states s w) = clock w" "t_users (db (stored_states s w)) = t_users (db w)"
  "t_user_provider_accounts (db (stored_states s w)) = t_user_provider_accounts (db w)"
  by (simp_all add: stored_states_def)

lemma with_states_quiet:
  "script w = [] \<Longrightarrow> with_states f w = (Inr (fst (f (t_states (db w)))), stored_states (snd (f (t_states (db w)))) w)"
  by (simp add: with_states_def go_simps stored_states_def)

lemma memory_save_quiet:
  "script w = [] \<Longrightarrow> ss_SaveOAuth memory_store st p ttl w =
     (Inr (), stored_states (memory_SaveOAuth st p ttl (clock w) (t_states (db w))) (tick w))"
  "script w = [] \<Longrightarrow> ss_SaveSAML memory_store st q ttl w =
     (Inr (), stored_states (memory_SaveSAML st q ttl (clock w) (t_states (db w))) (tick w))"
  by (simp_all add: memory_store_def go_simps with_states_quiet)

lemma memory_consume_quiet:
  "script w = [] \<Longrightarrow> ss_ConsumeOAuth memory_store st w =
     (let (x, s) = memory_ConsumeOAuth st (clock w) (t_states (db w))
      in (case x of None \<Rightarrow> Inl ErrStateNotFound | Some p \<Rightarrow> Inr p, stored_states s (tick w)))"
  "script w = [] \<Longrightarrow> ss_ConsumeSAML memory_store st w =
     (let (y, s) = memory_ConsumeSAML st (clock w) (t_states (db w))
      in (case y of None \<Rightarrow> Inl ErrStateNotFound | Some q \<Rightarrow> Inr q, stored_states s (tick w)))"
  by (simp_all add: memory_store_def go_simps with_states_quiet found_def Let_def split: prod.split option.split)

section \<open>OAuth\<close>

lemma start_quiet:
  assumes "script w = []" "Get s pid = Some (OAuth p)" "provider_Enabled (OAuth p)"
    and "svc_stateStore s = Some memory_store"
    and "createAuthorization s pid flow u w = (Inr a, w')"
  shows "\<exists>verifier. atz_URL a = ol_AuthCodeURL (oap_lib p) (oap_cfg p) (atz_State a) verifier \<and>
    t_states (db w') = memory_SaveOAuth (atz_State a) \<lparr> oas_Provider = pid, oas_RedirectAfter = [],
      oas_CodeVerifier = verifier, oas_Nonce = [], oas_Flow = flow, oas_UserID = u \<rparr> OAuthStateTTL (clock w) (t_states (db w))"
  using assms
  by (auto simp: createAuthorization_def with_provider_def GenerateRandomState_def GenerateCodeVerifier_def
      generateRandomBase64URL_def oauth_AuthURL_def stateStore_def memory_save_quiet go_simps
      split: option.splits if_splits)

text \<open>C19: in an undisturbed run with the in-memory store, the state of an OAuth authorization is
  accepted by the callback for as long as it lives, of the provider, flow and user it was
  started for and of no other, and the code is exchanged with the PKCE verifier that went into
  the authorization URL; whatever the outcome, the state is gone afterwards.\<close>

theorem oauth_flow_bound:
  assumes "script w = []" "Get s pid = Some (OAuth p)" "provider_Enabled (OAuth p)"
    and "svc_stateStore s = Some memory_store" "svc_test s = None"
    and "createAuthorization s pid flow u w = (Inr a, w')"
    and "script v = []" "db v = db w'"
    and "Get s pid' = Some (OAuth p')" "provider_Enabled (OAuth p')"
  shows "\<exists>verifier v'. atz_URL a = ol_AuthCodeURL (oap_lib p) (oap_cfg p) (atz_State a) verifier \<and>
    mss_oauth (t_states (db v')) (atz_State a) = None \<and>
    handleOAuthCallback s pid' (atz_State a) code flow' u' v =
      (if clock w + OAuthStateTTL < clock v then (Inl (Unauthorized ''OAuth state invalid or expired''), v')
       else if pid \<noteq> pid' then (Inl (Unauthorized ''OAuth state provider mismatch''), v')
       else if flow \<noteq> flow' \<or> u \<noteq> u' then (Inl (Unauthorized ''OAuth state flow or user mismatch''), v')
       else ExchangeAndFetchUser p code verifier v')"
proof -
  obtain verifier where start: "atz_URL a = ol_AuthCodeURL (oap_lib p) (oap_cfg p) (atz_State a) verifier"
    "t_states (db v) = memory_SaveOAuth (atz_State a) \<lparr> oas_Provider = pid, oas_RedirectAfter = [],
      oas_CodeVerifier = verifier, oas_Nonce = [], oas_Flow = flow, oas_UserID = u \<rparr> OAuthStateTTL (clock w) (t_states (db w))"
    using start_quiet [OF assms(1-4,6)] assms(8) by auto
  define c where "c = memory_ConsumeOAuth (atz_State a) (clock v) (t_states (db v))"
  have c: "fst c = (if clock w + OAuthStateTTL < clock v then None else Some \<lparr> oas_Provider = pid, oas_RedirectAfter = [],
      oas_CodeVerifier = verifier, oas_Nonce = [], oas_Flow = flow, oas_UserID = u \<rparr>)"
    unfolding c_def start(2) by (rule oauth_states.consume_saved)
  have gone: "mss_oauth (snd c) (atz_State a) = None"
    by (simp add: c_def start(2) memory_defs)
  have same: "pid = pid' \<Longrightarrow> p' = p" using assms(2,9) by simp
  have "handleOAuthCallback s pid' (atz_State a) code flow' u' v =
      (if clock w + OAuthStateTTL < clock v then (Inl (Unauthorized ''OAuth state invalid or expired''), stored_states (snd c) (tick v))
       else if pid \<noteq> pid' then (Inl (Unauthorized ''OAuth state provider mismatch''), stored_states (snd c) (tick v))
       else if flow \<noteq> flow' \<or> u \<noteq> u' then (Inl (Unauthorized ''OAuth state flow or user mismatch''), stored_states (snd c) (tick v))
       else ExchangeAndFetchUser p code verifier (stored_states (snd c) (tick v)))"
    using assms(4,5,9,10) c same
    by (auto simp: handleOAuthCallback_def with_provider_def stateStore_def memory_consume_quiet [OF assms(7)]
        go_simps case_prod_unfold Let_def simp flip: c_def)
  with start(1) gone show ?thesis
    by (intro exI [of _ verifier] exI [of _ "stored_states (snd c) (tick v)"] conjI) simp_all
qed

section \<open>What a callback signs in\<close>

lemma issue_pair_quiet:
  assumes "script w = []" "user_exists (db w) u"
    and "jwt_sign lib (jti_secret iss) (issued_claims iss u email role (clock w)) = Inr a"
    and "rnd_src w (rnd_ix w) 32 = Some bs"
    and "\<forall>x \<in> set (t_refresh_tokens (db w)). rft_ID x \<noteq> uuid_src w (uuid_ix w) \<and>
      rft_Token x \<noteq> HashRefreshToken (base64_raw_url bs)"
  shows "\<exists>pair v i t n. Issue lib iss u email role w = (Inr pair, v) \<and> tp_AccessToken pair = a \<and>
    db v = (db w)\<lparr>t_refresh_tokens := t_refresh_tokens (db w) @ [\<lparr> rft_ID = i,
      rft_Token = HashRefreshToken (base64_raw_url bs), rft_UserID = u, rft_ExpiresAt = t, rft_CreatedAt = n \<rparr>]\<rparr>"
proof -
  have "\<exists>v. auth_repo_CreateRefreshToken u (HashRefreshToken (base64_raw_url bs)) (clock (tick w) + jti_refreshTTL iss)
      (drawn (tick w)) = (Inr (), v) \<and> db v = (db w)\<lparr>t_refresh_tokens := t_refresh_tokens (db w) @ [\<lparr> rft_ID = uuid_src w (uuid_ix w),
        rft_Token = HashRefreshToken (base64_raw_url bs), rft_UserID = u,
        rft_ExpiresAt = clock (tick w) + jti_refreshTTL iss, rft_CreatedAt = clock (drawn (tick w)) \<rparr>]\<rparr>"
    using create_token_quiet [of "drawn (tick w)" u "HashRefreshToken (base64_raw_url bs)"] assms(1,2,5) by simp
  then obtain v where v: "auth_repo_CreateRefreshToken u (HashRefreshToken (base64_raw_url bs))
        (clock (tick w) + jti_refreshTTL iss) (drawn (tick w)) = (Inr (), v)"
    and d: "db v = (db w)\<lparr>t_refresh_tokens := t_refresh_tokens (db w) @ [\<lparr> rft_ID = uuid_src w (uuid_ix w),
        rft_Token = HashRefreshToken (base64_raw_url bs), rft_UserID = u,
        rft_ExpiresAt = clock (tick w) + jti_refreshTTL iss, rft_CreatedAt = clock (drawn (tick w)) \<rparr>]\<rparr>"
    by blast
  have "Issue lib iss u email role w = (Inr \<lparr> tp_AccessToken = a, tp_RefreshToken = base64_raw_url bs,
      tp_ExpiresAt = clock w + jti_accessTTL iss \<rparr>, v)"
    using assms(3,4) v by (simp add: issue_run)
  with d show ?thesis by (metis TokenPair.select_convs(1))
qed

text \<open>A SAML callback whose identity is bound to an account is completed for that account, and
  then signs in whichever live account has the identity's e-mail address: the session and the
  refresh token are for B when the binding is to A.\<close>

theorem callback_follows_email:
  assumes "Get (ahd_svc h) pid = Some (Sso p)"
    and "HandleSAMLAcs (ahd_svc h) pid (credentialString (from_query q body) saml_response_keys)
      (credentialString (from_query q body) relay_keys) w = (Inr identity, v)" "script v = []"
    and "first_row (bound_to pid (aid_ProviderUserID identity)) (t_user_provider_accounts (db v)) = Some acc"
    and "first_row (\<lambda>r. usr_ID r = upa_UserID acc) (t_users (db v)) = Some A" "usr_DeletedAt A = None"
    and "first_row (live_email (prf_Email (aid_Profile identity))) (t_users (db v)) = Some B"
    and "jwt_sign (ahd_jwt h) (jti_secret (ahd_tokens h)) (issued_claims (ahd_tokens h) (usr_ID B) (usr_Email B)
      (usr_Role B) (clock v)) = Inr t" "rnd_src v (rnd_ix v) 32 = Some bs"
    and "\<forall>x \<in> set (t_refresh_tokens (db v)). rft_ID x \<noteq> uuid_src v (uuid_ix v) \<and>
      rft_Token x \<noteq> HashRefreshToken (base64_raw_url bs)"
  shows "(\<exists>r. AuthenticateCallback (ahd_svc h) pid (from_query q body) w = (Inr r, v) \<and> ars_UserID r = usr_ID A) \<and>
    (\<exists>ses w'. h_providerCallback h pid q body w = (Inr ses, w') \<and> uvw_id (ses_user ses) = usr_ID B \<and>
       ses_accessToken ses = t \<and> map rft_UserID (t_refresh_tokens (db w')) =
         map rft_UserID (t_refresh_tokens (db v)) @ [usr_ID B])"
proof -
  obtain r where r: "AuthenticateCallback (ahd_svc h) pid (from_query q body) w = (Inr r, v)" "ars_UserID r = usr_ID A"
    "ars_Identity r = identity"
    using complete_bound [OF assms(3-6)] assms(1,2)
    by (simp add: AuthenticateCallback_def with_provider_def go_simps)
  have "user_exists (db v) (usr_ID B)"
    using first_row_Some [OF assms(7)] by (auto simp: user_exists_def list_ex_iff)
  then obtain pair w' where i: "Issue (ahd_jwt h) (ahd_tokens h) (usr_ID B) (usr_Email B) (usr_Role B) v = (Inr pair, w')"
    "tp_AccessToken pair = t" "map rft_UserID (t_refresh_tokens (db w')) = map rft_UserID (t_refresh_tokens (db v)) @ [usr_ID B]"
    using issue_pair_quiet [OF assms(3) _ assms(8-10)] by fastforce
  have "signed_in h 200 ''resolve user'' usr_Role r v = (Inr \<lparr> ses_Status = 200, ses_accessToken = t,
      ses_user = \<lparr> uvw_id = usr_ID B, uvw_email = usr_Email B, uvw_name = Some (usr_Name B), uvw_role = usr_Role B \<rparr>,
      ses_cookie = setRefreshCookie h (tp_RefreshToken pair) \<rparr>, w')"
    using i by (simp add: signed_in_def r(3) users_quiet [OF assms(3)] assms(7) go_simps)
  with r i(3) show ?thesis by (auto simp: h_providerCallback_def go_simps)
qed

section \<open>Two ways to be locked out\<close>

text \<open>An account whose password binding was unlinked has no live binding, and the new one meets the
  old row under the unique key: every login with the right password is a 500.\<close>

theorem unlinked_password_locked_out:
  assumes "script w = []" "validateEmail email" "password \<noteq> []"
    and "Get (ahd_svc h) ''email_password'' = Some (EmailPassword p)"
    and "first_row (live_email (normal_email email)) (t_users (db w)) = Some u"
    and "password_matches (epp_bcrypt p) password u"
    and "a \<in> set (t_user_provider_accounts (db w))" "upa_Provider a = ''email_password''"
      "upa_ProviderUserID a = normal_email email"
    and "first_row (bound_to ''email_password'' (normal_email email)) (t_user_provider_accounts (db w)) = None"
  shows "\<exists>e. fst (h_login h (Some (email, password)) w) = Inl e \<and> status_of e = 500"
proof -
  let ?e = "normal_email email"
  define v where "v = snd (auth_repo_UpdateUserLastLogin (usr_ID u) w)"
  define u' where "u' = (if usr_ID u = usr_ID u
    then u\<lparr>usr_LastLoginAt := Some (clock w), usr_UpdatedAt := clock w\<rparr> else u)"
  have u: "usr_Email u = ?e" "usr_DeletedAt u = None"
    using first_row_Some [OF assms(5)] by (simp_all add: live_email_def)
  have v: "script v = []" "t_user_provider_accounts (db v) = t_user_provider_accounts (db w)"
    "first_row (live_email ?e) (t_users (db v)) = Some u'"
    using assms(1,5) by (simp_all add: v_def last_login_quiet first_row_upd live_email_def u'_def)
  have clash: "insert_provider_account (new_provider_account i j ''email_password'' ?e m n b t) (db x) = Inl ErrDuplicate"
    if "t_user_provider_accounts (db x) = t_user_provider_accounts (db w)" for i j m n b t x
    using that bexI [OF _ assms(7), of "upa_conflict (new_provider_account i j ''email_password'' ?e m n b t)"] assms(8,9)
    by (simp add: insert_provider_account_def list_ex_iff upa_conflict_def new_provider_account_def)
  have link: "\<exists>e v'. auth_repo_LinkProviderAccount i ''email_password'' ?e profile v = (Inl e, v')" for i profile
    using clash [of "tick v\<lparr>uuid_ix := Suc (uuid_ix v)\<rparr>"] v(1,2)
    by (simp add: auth_repo_LinkProviderAccount_def q_CreateProviderAccount_def go_simps)
  define identity where "identity = \<lparr> aid_ProviderUserID = ?e, aid_Profile = \<lparr> prf_Email = usr_Email u,
      prf_EmailVerified = True, prf_Name = usr_Name u, prf_AvatarURL = or_empty (usr_AvatarUrl u) \<rparr> \<rparr>"
  obtain e v' where e: "auth_repo_LinkProviderAccount (usr_ID u') ''email_password'' ?e (aid_Profile identity) v = (Inl e, v')"
    using link by blast
  have "completeExternalAuthentication ''email_password'' identity v = (Inl (Internal ''link provider account'' e), v')"
    using assms(10) v e u
    by (simp add: completeExternalAuthentication_def upsertUser_def users_quiet identity_def go_simps Let_def u'_def)
  moreover have "email_password_Verify p (login_creds email password) w = (Inr identity, v)"
    using assms(5,6) by (simp add: login_verify_quiet [OF assms(1-3)] identity_def v_def)
  moreover have "email \<noteq> []" using assms(2) by (auto simp: validateEmail_def)
  moreover have "mapAuthError (Internal m e) = Internal m e" for m
    by (simp add: mapAuthError_def Internal_def)
  ultimately show ?thesis
    using assms(3) by (simp add: h_login_def Authenticate_def with_email_password [OF assms(4)] go_simps)
qed

text \<open>bcrypt refuses more than 72 bytes, the password rule only more than 128: in between a password
  is accepted by the check and the registration is a 500.\<close>

theorem long_password_fails_late:
  assumes "script w = []" "Get (ahd_svc h) ''email_password'' = Some (EmailPassword p)"
    and "validateEmail email" "validatePasswordInput password" "trim_space name \<noteq> []"
    and "\<And>salt c q. 72 < length q \<Longrightarrow> bc_generate (epp_bcrypt p) salt q c = Inl bcrypt_error" "72 < length password"
    and "\<forall>x \<in> set (t_users (db w)). usr_Email x \<noteq> normal_email email"
  shows "\<exists>e. fst (h_register h (Some (email, password, name)) w) = Inl e \<and> status_of e = 500"
proof -
  have none: "first_row (live_email (normal_email email)) (t_users (db w)) = None"
    using assms(8) by (auto simp: first_row_None live_email_def)
  have "mapAuthError (Internal m e) = Internal m e" for m e
    by (simp add: mapAuthError_def Internal_def)
  then show ?thesis
    using assms(3-5) none
    by (simp add: h_register_def Authenticate_def with_email_password [OF assms(2)] email_password_Verify_def
        handleRegister_def cred_def ValidateEmailPublic_def ValidatePasswordPublic_def users_quiet [OF assms(1)]
        normal_email_def hash_quiet assms(6) [OF assms(7)] go_simps Let_def)
qed

section \<open>Concrete instances\<close>

definition toy_password :: EmailPasswordProvider where
  "toy_password = \<lparr> epp_bcrypt = toy_bcrypt, epp_BcryptRounds = 12 \<rparr>"

definition toy_oauth :: OAuthProvider where
  "toy_oauth = \<lparr> oap_id = ''oauth.google'', oap_cfg = \<lparr> oac_ClientID = ''id'', oac_ClientSecret = ''s'',
       oac_RedirectURI = ''r'', oac_Scopes = [] \<rparr>, oap_userinfoURL = ''u'', oap_userinfoFetcher = FetchGoogle,
     oap_lib = \<lparr> ol_AuthCodeURL = (\<lambda>c st v. st @ v), ol_Exchange = (\<lambda>c code v. ret ''tok''),
       ol_Get = (\<lambda>u t. ret \<lparr> hr_Status = 500, hr_Text = [], hr_JSON = None \<rparr>) \<rparr> \<rparr>"

definition toy_sso :: SsoProvider where
  "toy_sso = \<lparr> ssp_id = ''sso.saml'', ssp_location = ''idp'',
     ssp_sp = \<lparr> sl_MakeAuthenticationRequest = (\<lambda>l. ret ''req''),
       sl_ParseResponse = (\<lambda>x r is. ret (Some \<lparr> sa_NameID = Some ''n1'',
         sa_AttributeStatements = [[(''email'', [''u2@x.io''])]] \<rparr>)) \<rparr> \<rparr>"

definition toy_service :: AuthService where
  "toy_service = \<lparr> svc_providers = [(''email_password'', EmailPassword toy_password),
     (''oauth.google'', OAuth toy_oauth), (''sso.saml'', Sso toy_sso)],
     svc_stateStore = Some memory_store, svc_test = None \<rparr>"

definition toy_handler :: AuthHandler where
  "toy_handler = \<lparr> ahd_svc = toy_service, ahd_jwt = toy_jwt, ahd_tokens = toy_iss,
     ahd_cfg = \<lparr> ahc_Env = ''production'', ahc_AccessTokenTTL = TokenTTL, ahc_RefreshTokenTTL = RefreshTokenTTL \<rparr> \<rparr>"

text \<open>Two users, the SAML subject \<open>n1\<close> bound to the first, and a relay state on its way.\<close>

definition flow_world :: world where
  "flow_world = demo_world ((demo_database [] [])\<lparr>
     t_user_provider_accounts := [new_provider_account ''a1'' ''u1'' ''sso.saml'' ''n1'' ''u1@x.io'' ''u1'' False 0],
     t_states := memory_SaveSAML ''rel'' \<lparr> sas_Provider = ''sso.saml'', sas_RedirectAfter = [],
       sas_RequestID = ''req'', sas_Flow = ''login'', sas_UserID = [] \<rparr> SAMLStateTTL 900 NewMemoryStateStore\<rparr>)"

lemma toy_gets [simp]:
  "Get toy_service ''email_password'' = Some (EmailPassword toy_password)"
  "Get toy_service ''oauth.google'' = Some (OAuth toy_oauth)"
  "Get toy_service ''sso.saml'' = Some (Sso toy_sso)" "ahd_svc toy_handler = toy_service"
  "svc_stateStore toy_service = Some memory_store" "svc_test toy_service = None"
  by (simp_all add: Get_def toy_service_def toy_handler_def)

lemma within_ret_db: "db_frame R \<Longrightarrow> within (db_step R) (ret x)"
  by (rule step_frame.within_ret [OF db_frame.db_step_frame])

lemma toy_service_ok: "db_frame R \<Longrightarrow> service_ok R toy_service"
  by (auto intro!: within_ret_db simp: service_ok_def toy_service_def clients_ok_def toy_oauth_def toy_sso_def)

lemma flow_world_simps [simp]:
  "script flow_world = []" "clock flow_world = 1000" "rnd_src flow_world i n = Some (replicate n CHR 0x2A)"
  "uuid_src flow_world = demo_uuid" "uuid_ix flow_world = 0" "t_refresh_tokens (db flow_world) = []"
  "t_users (db flow_world) = [demo_user ''u1'', demo_user ''u2'']"
  "t_user_provider_accounts (db flow_world) =
     [new_provider_account ''a1'' ''u1'' ''sso.saml'' ''n1'' ''u1@x.io'' ''u1'' False 0]"
  by (simp_all add: flow_world_def demo_world_def demo_database_def empty_database_def)

theorem sign_in_only_adds_witness:
  "t_user_provider_accounts (db flow_world) \<noteq> [] \<and>
   prefix (t_user_provider_accounts (db flow_world))
     (t_user_provider_accounts (db (snd (h_login toy_handler (Some (''u1@x.io'', ''pw'')) flow_world))))"
  using sign_in_only_adds [of toy_handler flow_world _ "Some (''u1@x.io'', ''pw'')"]
    toy_service_ok [OF account.db_frame_axioms]
  by (simp add: rely_ok_def account_life_def)

lemma u1_email: "validateEmail ''u1@x.io''" "normal_email ''u1@x.io'' = ''u1@x.io''"
  by (simp_all add: validateEmail_def re_space_def normal_email_def to_lower_def trim_space_def lower_char_def
      is_upper_def in_range_def byte_of_def is_space_def)

theorem login_refused_alike_witness:
  "h_login toy_handler (Some (''u1@x.io'', ''wrong'')) flow_world =
     (Inl (Unauthorized ''Invalid credentials''), flow_world)"
  by (rule login_refused_alike [where p = toy_password])
    (simp_all add: u1_email live_email_def demo_user_def password_matches_def toy_password_def toy_bcrypt_def)

definition callback_world :: world where
  "callback_world = stored_states NewMemoryStateStore (tick flow_world)"

lemma saml_callback:
  "HandleSAMLAcs toy_service ''sso.saml'' ''x'' ''rel'' flow_world =
     (Inr \<lparr> aid_ProviderUserID = ''n1'', aid_Profile = \<lparr> prf_Email = ''u2@x.io'', prf_EmailVerified = True,
        prf_Name = ''u2'', prf_AvatarURL = [] \<rparr> \<rparr>, callback_world)"
proof -
  have "memory_ConsumeSAML ''rel'' 1000 (t_states (db flow_world)) =
      (Some \<lparr> sas_Provider = ''sso.saml'', sas_RedirectAfter = [], sas_RequestID = ''req'', sas_Flow = ''login'',
         sas_UserID = [] \<rparr>, NewMemoryStateStore)"
    by (simp add: flow_world_def demo_world_def memory_defs NewMemoryStateStore_def SAMLStateTTL_def)
  then show ?thesis
    by (simp add: HandleSAMLAcs_def handleSAMLAcs_def with_provider_def stateStore_def ParseRelayState_def
        memory_consume_quiet go_simps toy_sso_def flow_login_def ProcessResponse_def ExtractProfile_def
        FlattenAttributes_def firstAttributeValue_def local_part_def callback_world_def Let_def)
qed

lemma callback_world_simps [simp]:
  "script callback_world = []" "t_users (db callback_world) = [demo_user ''u1'', demo_user ''u2'']"
  "t_user_provider_accounts (db callback_world) = t_user_provider_accounts (db flow_world)"
  "t_refresh_tokens (db callback_world) = []" "rnd_src callback_world i n = Some (replicate n CHR 0x2A)"
  by (simp_all add: callback_world_def) (simp_all add: stored_states_def)

abbreviation saml_body :: AuthCredentials where
  "saml_body \<equiv> [(''SAMLResponse'', JStr ''x''), (''RelayState'', JStr ''rel''), (''code'', JStr ''-''), (''state'', JStr ''-'')]"

theorem callback_follows_email_witness:
  "\<exists>r v ses w'. AuthenticateCallback toy_service ''sso.saml'' saml_body flow_world = (Inr r, v) \<and>
     ars_UserID r = ''u1'' \<and>
     h_providerCallback toy_handler ''sso.saml'' (\<lambda>_. []) (Some saml_body) flow_world = (Inr ses, w') \<and>
     uvw_id (ses_user ses) = ''u2''"
proof -
  have body: "from_query (\<lambda>_. []) (Some saml_body) = saml_body"
    by (simp add: from_query_def cred_def Let_def)
  have keys: "credentialString saml_body saml_response_keys = ''x''" "credentialString saml_body relay_keys = ''rel''"
    by (simp_all add: credentialString_def cred_def)
  show ?thesis
    using callback_follows_email [of toy_handler "''sso.saml''" toy_sso "\<lambda>_. []" "Some saml_body" flow_world,
        unfolded body keys, OF _ _ callback_world_simps(1), where A = "demo_user ''u1''" and B = "demo_user ''u2''"
        and t = "''jwt''" and bs = "replicate 32 CHR 0x2A"
        and acc = "new_provider_account ''a1'' ''u1'' ''sso.saml'' ''n1'' ''u1@x.io'' ''u1'' False 0"]
    by (fastforce simp: saml_callback bound_to_def new_provider_account_def demo_user_def live_email_def toy_handler_def)
qed

lemma start_google:
  "\<exists>a w'. createAuthorization toy_service ''oauth.google'' flow_login [] flow_world = (Inr a, w') \<and>
     script w' = [] \<and> clock w' = 1001"
proof -
  define tok where "tok = base64_raw_url (replicate 32 CHR 0x2A)"
  have "length tok = 43" by (simp add: tok_def length_base64)
  then have "tok \<noteq> []" by auto
  moreover have "clock (tick (flow_world\<lparr>rnd_ix := n\<rparr>)) = 1001" for n
    by (simp add: tick_eq flow_world_def demo_world_def)
  ultimately show ?thesis
    by (simp add: createAuthorization_def with_provider_def toy_oauth_def GenerateRandomState_def
        GenerateCodeVerifier_def generateRandomBase64URL_def oauth_AuthURL_def stateStore_def memory_save_quiet
        go_simps flip: tok_def)
qed

theorem oauth_flow_bound_witness:
  "\<exists>a w' v'. createAuthorization toy_service ''oauth.google'' flow_login [] flow_world = (Inr a, w') \<and>
     handleOAuthCallback toy_service ''oauth.google'' (atz_State a) ''code'' flow_link ''u1'' w' =
       (Inl (Unauthorized ''OAuth state flow or user mismatch''), v')"
proof -
  obtain a w' where a: "createAuthorization toy_service ''oauth.google'' flow_login [] flow_world = (Inr a, w')"
    and w': "script w' = []" "clock w' = 1001" using start_google by blast
  have on: "provider_Enabled (OAuth toy_oauth)" by (simp add: toy_oauth_def)
  show ?thesis
    using oauth_flow_bound [OF flow_world_simps(1) toy_gets(2) on toy_gets(5,6) a w'(1) refl toy_gets(2) on,
        of "''code''" flow_link "''u1''"] a w'(2)
    by (auto simp: OAuthStateTTL_def flow_login_def flow_link_def)
qed

theorem register_then_login_witness:
  "\<exists>r w'. Authenticate toy_service ''email_password'' (register_creds ''new@x.io'' good_password ''New'') flow_world = (Inr r, w') \<and>
     ars_UserID r = demo_uuid 0 \<and>
     Authenticate toy_service ''email_password'' (login_creds ''new@x.io'' ''other'') (w'\<lparr>script := []\<rparr>) =
       (Inl (Unauthorized ''Invalid credentials''), w'\<lparr>script := []\<rparr>)"
proof -
  have e: "validateEmail ''new@x.io''" "normal_email ''new@x.io'' = ''new@x.io''"
    by (simp_all add: validateEmail_def re_space_def normal_email_def to_lower_def trim_space_def lower_char_def
        is_upper_def in_range_def byte_of_def is_space_def)
  have n: "trim_space ''New'' \<noteq> []" by (simp add: trim_space_def is_space_def)
  have g: "validatePasswordInput good_password"
    using good_password_ok by (simp add: ValidatePasswordPublic_def)
  have h: "bc_generate (epp_bcrypt toy_password) (rnd_src flow_world (rnd_ix flow_world) 16) good_password
      (epp_BcryptRounds toy_password) = Inr (CHR ''$'' # good_password)"
    by (simp add: toy_password_def toy_bcrypt_def good_password_def)
  have c: "bc_compare (epp_bcrypt toy_password) (CHR ''$'' # good_password) q \<longleftrightarrow> q = good_password" for q
    by (auto simp: toy_password_def toy_bcrypt_def)
  obtain r w' where r: "Authenticate toy_service ''email_password'' (register_creds ''new@x.io'' good_password ''New'') flow_world = (Inr r, w')"
    "ars_UserID r = uuid_src flow_world (uuid_ix flow_world)"
    and login: "\<forall>v q. script v = [] \<longrightarrow> db v = db w' \<longrightarrow> q \<noteq> [] \<longrightarrow>
       (if q = good_password
        then \<exists>r' v'. Authenticate toy_service ''email_password'' (login_creds ''new@x.io'' q) v = (Inr r', v') \<and> ars_UserID r' = ars_UserID r
        else Authenticate toy_service ''email_password'' (login_creds ''new@x.io'' q) v = (Inl (Unauthorized ''Invalid credentials''), v))"
    using register_then_login [OF flow_world_simps(1) toy_gets(1) e(1) n g h, unfolded c e(2)]
    by (fastforce simp: demo_user_def new_provider_account_def demo_uuid_def show_nat.simps digit_char_def)
  have "Authenticate toy_service ''email_password'' (login_creds ''new@x.io'' ''other'') (w'\<lparr>script := []\<rparr>) =
      (Inl (Unauthorized ''Invalid credentials''), w'\<lparr>script := []\<rparr>)"
    using login [rule_format, of "w'\<lparr>script := []\<rparr>" "''other''"] by (simp add: good_password_def)
  with r show ?thesis by auto
qed

end
