(* ===== verification/GoText.thy ===== *)
theory GoText
  imports TimeFmt
begin

text \<open>
  Text helpers of the Go library that several components use: UTF-8 characters, JSON strings and
  objects as \<open>json.Marshal\<close> prints them, \<open>time.Time\<close> in JSON (RFC 3339 with the milliseconds that
  are there), the value of \<open>strconv.Atoi\<close> when its error is dropped, and MySQL's \<open>LIKE\<close>.
\<close>

section \<open>Characters\<close>

text \<open>A byte of the form \<open>10xxxxxx\<close> continues the character before it.\<close>

definition utf8_cont :: "char \<Rightarrow> bool" where
  "utf8_cont c \<longleftrightarrow> 128 \<le> byte_of c \<and> byte_of c < 192"

function runes :: "string \<Rightarrow> string list" where
  "runes [] = []"
| "runes (c # s) = (c # takeWhile utf8_cont s) # runes (dropWhile utf8_cont s)"
  by pat_completeness auto
termination
  by (relation "measure length") (auto simp: le_imp_less_Suc length_dropWhile_le)

lemma concat_runes: "concat (runes s) = s"
  by (induction s rule: runes.induct) simp_all

lemma runes_le: "length (runes s) \<le> length s"
  by (induction s rule: runes.induct) (auto intro: le_trans [OF _ length_dropWhile_le])

lemma runes_ascii: "list_all (\<lambda>c. \<not> utf8_cont c) s \<Longrightarrow> runes s = map (\<lambda>c. [c]) s"
proof (induction s rule: runes.induct)
  case (2 c s)
  then have "takeWhile utf8_cont s = []" "dropWhile utf8_cont s = s"
    by (cases s; simp)+
  with 2 show ?case by simp
qed simp

section \<open>JSON text\<close>

definition json_hex4 :: "nat \<Rightarrow> string" where
  "json_hex4 n = [CHR 0x5C] @ ''u00'' @
     [let h = n div 16 in char_of (if h < 10 then 48 + h else 87 + h),
      let l = n mod 16 in char_of (if l < 10 then 48 + l else 87 + l)]"

text \<open>One ASCII character: the quote and the backslash, the five short escapes, the other control
  characters and the three characters \<open>Marshal\<close> hides from HTML.\<close>

definition json_escape1 :: "char \<Rightarrow> string" where
  "json_escape1 c =
     (if c = CHR 0x22 \<or> c = CHR 0x5C then [CHR 0x5C, c]
      else if c = CHR 0x08 then [CHR 0x5C, CHR ''b'']
      else if c = CHR 0x0C then [CHR 0x5C, CHR ''f'']
      else if c = CHR 0x0A then [CHR 0x5C, CHR ''n'']
      else if c = CHR 0x0D then [CHR 0x5C, CHR ''r'']
      else if c = CHR 0x09 then [CHR 0x5C, CHR ''t'']
      else if byte_of c < 32 \<or> c \<in> set ''<>&'' then json_hex4 (byte_of c)
      else [c])"

text \<open>The line separators U+2028 and U+2029 are escaped, every other character of a valid UTF-8
  text stands for itself.\<close>

definition json_rune :: "string \<Rightarrow> string" where
  "json_rune r =
     (if r = [CHR 0xE2, CHR 0x80, CHR 0xA8] then [CHR 0x5C] @ ''u2028''
      else if r = [CHR 0xE2, CHR 0x80, CHR 0xA9] then [CHR 0x5C] @ ''u2029''
      else concat (map json_escape1 r))"

definition json_string :: "string \<Rightarrow> string" where
  "json_string s = [CHR 0x22] @ concat (map json_rune (runes s)) @ [CHR 0x22]"

fun comma_sep :: "string list \<Rightarrow> string" where
  "comma_sep [] = []"
| "comma_sep [x] = x"
| "comma_sep (x # y # xs) = x @ '','' @ comma_sep (y # xs)"

definition json_object :: "(string \<times> string) list \<Rightarrow> string" where
  "json_object kvs = ''{'' @ comma_sep (map (\<lambda>(k, v). json_string k @ '':'' @ v) kvs) @ ''}''"

definition json_array :: "string list \<Rightarrow> string" where
  "json_array xs = ''['' @ comma_sep xs @ '']''"

text \<open>\<open>time.Time\<close> in JSON: trailing zeros of the fraction are dropped.\<close>

definition json_time :: "int \<Rightarrow> string" where
  "json_time t =
     (let frac = rev (dropWhile (\<lambda>c. c = CHR ''0'') (rev (pad_int 3 (t mod 1000))))
      in [CHR 0x22] @ fmt_date t @ ''T'' @ fmt_clock t @ (if frac = [] then [] else ''.'' @ frac) @ ''Z'' @ [CHR 0x22])"

section \<open>Numbers from queries\<close>

text \<open>\<open>n, _ := strconv.Atoi(s)\<close>: zero for a malformed number, the nearest bound for one out of
  range.\<close>

definition atoi_value :: "string \<Rightarrow> int" where
  "atoi_value s =
     (case atoi s of
        Some n \<Rightarrow> n
      | None \<Rightarrow>
         (case s of
            [] \<Rightarrow> 0
          | c # t \<Rightarrow>
              if c = CHR ''-'' then (if parse_digits t = None then 0 else - (2 ^ 63))
              else if parse_digits (if c = CHR ''+'' then t else s) = None then 0 else 2 ^ 63 - 1))"

lemma atoi_bounds: "atoi s = Some n \<Longrightarrow> - (2 ^ 63) \<le> n \<and> n < 2 ^ 63"
  by (auto simp: atoi_def Let_def split: list.splits option.splits if_splits)

lemma atoi_value_bounds: "- (2 ^ 63) \<le> atoi_value s \<and> atoi_value s < 2 ^ 63"
  using atoi_bounds [of s] by (auto simp: atoi_value_def split: option.split list.split)

section \<open>LIKE\<close>

text \<open>\<open>%\<close> stands for any text, \<open>_\<close> for one character, the backslash takes the next character
  literally; ASCII letters match in either case, as the collation has it.\<close>

definition same_char :: "string \<Rightarrow> string \<Rightarrow> bool" where
  "same_char r x \<longleftrightarrow> map lower_char r = map lower_char x"

fun like_runes :: "string list \<Rightarrow> string list \<Rightarrow> bool" where
  "like_runes [] ts = (ts = [])"
| "like_runes (p # ps) ts =
     (if p = ''%'' then like_runes ps ts \<or> (case ts of [] \<Rightarrow> False | t # ts' \<Rightarrow> like_runes (p # ps) ts')
      else if p = ''_'' then (case ts of [] \<Rightarrow> False | t # ts' \<Rightarrow> like_runes ps ts')
      else if p = [CHR 0x5C] \<and> ps \<noteq> []
           then (case ts of [] \<Rightarrow> False | t # ts' \<Rightarrow> same_char (hd ps) t \<and> like_runes (tl ps) ts')
      else (case ts of [] \<Rightarrow> False | t # ts' \<Rightarrow> same_char p t \<and> like_runes ps ts'))"

definition sql_like :: "string \<Rightarrow> string \<Rightarrow> bool" where
  "sql_like pattern s = like_runes (runes pattern) (runes s)"

definition containing :: "string \<Rightarrow> string" where
  "containing s = ''%'' @ s @ ''%''"

lemma like_percent: "like_runes [''%''] ts"
  by (induction ts) simp_all

end
