(* ===== verification/Users.thy ===== *)
theory Users
  imports AuthStore Credentials Messages Enrollments GoText
begin

text \<open>
  \<open>internal/users\<close> (repo and service), \<open>internal/repo/db/users.sql.go\<close> and the endpoints of
  \<open>internal/handler/users.go\<close> and \<open>identities.go\<close>: accounts as the administrator and their owner
  manage them.  The bcrypt library and \<open>mail.ParseAddress\<close> are parameters.
\<close>

abbreviation users_ErrNotFound :: go_error where
  "users_ErrNotFound \<equiv> Sentinel ''users: not found''"

section \<open>Statements\<close>

definition active_admin :: "User \<Rightarrow> bool" where
  "active_admin r \<longleftrightarrow> usr_Role r = ''admin'' \<and> usr_DeletedAt r = None"

definition q_CountActiveAdmins :: "int io" where
  "q_CountActiveAdmins = query (\<lambda>d. count_rows active_admin (t_users d))"

definition q_ListActiveUsers :: "nat \<Rightarrow> nat \<Rightarrow> User list io" where
  "q_ListActiveUsers limit offset = query (\<lambda>d. take limit (drop offset
     (sort_desc usr_CreatedAt (filter (\<lambda>r. usr_DeletedAt r = None) (t_users d)))))"

record UpdatePatch =
  upp_Name :: string
  upp_AvatarUrl :: "string option"
  upp_Role :: string

text \<open>The columns hold 191 characters; the role is one of the three.\<close>

definition sql_update_user :: "UpdatePatch \<Rightarrow> int \<Rightarrow> string \<Rightarrow> unit stmt" where
  "sql_update_user p now u = (\<lambda>d.
     if list_ex (\<lambda>r. usr_ID r = u) (t_users d) \<and> upp_Role p \<notin> set [''admin'', ''student'', ''instructor'']
     then Inl ErrTruncated
     else if list_ex (\<lambda>r. usr_ID r = u) (t_users d) \<and>
             (\<exists>a \<in> set_option (upp_AvatarUrl p). 191 < length (runes a))
     then Inl ErrTooLong
     else Inr ((), d\<lparr>t_users := upd (\<lambda>r. usr_ID r = u)
            (\<lambda>r. r\<lparr>usr_Name := upp_Name p, usr_AvatarUrl := upp_AvatarUrl p, usr_Role := upp_Role p,
                  usr_UpdatedAt := now\<rparr>) (t_users d)\<rparr>))"

definition q_UpdateUser :: "UpdatePatch \<Rightarrow> int \<Rightarrow> string \<Rightarrow> unit io" where
  "q_UpdateUser p now u = exec (sql_update_user p now u)"

definition sql_update_password :: "string \<Rightarrow> bool \<Rightarrow> int \<Rightarrow> string \<Rightarrow> unit stmt" where
  "sql_update_password h required now u = (\<lambda>d. Inr ((), d\<lparr>t_users := upd (\<lambda>r. usr_ID r = u)
     (\<lambda>r. r\<lparr>usr_PasswordHash := h, usr_PasswordResetRequired := required, usr_UpdatedAt := now\<rparr>)
     (t_users d)\<rparr>))"

definition q_UpdateUserPassword :: "string \<Rightarrow> bool \<Rightarrow> int \<Rightarrow> string \<Rightarrow> unit io" where
  "q_UpdateUserPassword h required now u = exec (sql_update_password h required now u)"

definition sql_mark_deleted :: "int option \<Rightarrow> int \<Rightarrow> string \<Rightarrow> unit stmt" where
  "sql_mark_deleted t now u = (\<lambda>d. Inr ((), d\<lparr>t_users := upd (\<lambda>r. usr_ID r = u)
     (\<lambda>r. r\<lparr>usr_DeletedAt := t, usr_UpdatedAt := now\<rparr>) (t_users d)\<rparr>))"

definition q_SoftDeleteUser :: "int option \<Rightarrow> int \<Rightarrow> string \<Rightarrow> unit io" where
  "q_SoftDeleteUser t now u = exec (sql_mark_deleted t now u)"

definition q_RestoreUser :: "int \<Rightarrow> string \<Rightarrow> unit io" where
  "q_RestoreUser now u = exec (sql_mark_deleted None now u)"

definition q_WriteAuditLog :: "AuditLog \<Rightarrow> unit io" where
  "q_WriteAuditLog r = exec (insert_audit_log r)"

section \<open>Repo: accounts\<close>

record ListFilter =
  lfl_Role :: string
  lfl_Search :: string
  lfl_Status :: string
  lfl_Page :: int
  lfl_Limit :: int

record ListResult =
  lrs_Data :: "User list"
  lrs_Total :: int
  lrs_Page :: int
  lrs_Limit :: int

text \<open>The conditions of the \<open>WHERE\<close> clause \<open>List\<close> puts together.\<close>

definition user_matches :: "ListFilter \<Rightarrow> User \<Rightarrow> bool" where
  "user_matches f r \<longleftrightarrow>
     (lfl_Status f = ''active'' \<longrightarrow> usr_DeletedAt r = None) \<and>
     (lfl_Status f = ''disabled'' \<longrightarrow> usr_DeletedAt r \<noteq> None) \<and>
     (lfl_Role f \<noteq> [] \<longrightarrow> usr_Role r = lfl_Role f) \<and>
     (lfl_Search f \<noteq> [] \<longrightarrow>
        sql_like (containing (lfl_Search f)) (usr_Email r) \<or> sql_like (containing (lfl_Search f)) (usr_Name r))"

text \<open>The offset is a 64-bit product; the server refuses a negative one.\<close>

definition scanUsers :: "ListFilter \<Rightarrow> int \<Rightarrow> int \<Rightarrow> User list io" where
  "scanUsers f limit offset =
     (if offset < 0 then exec (\<lambda>_. Inl (Plain ''Error 1064: You have an error in your SQL syntax''))
      else query (\<lambda>d. take (nat limit) (drop (nat offset)
             (sort_desc usr_CreatedAt (filter (user_matches f) (t_users d))))))"

definition users_repo_List :: "ListFilter \<Rightarrow> ListResult io" where
  "users_repo_List f =
     (let page = (if lfl_Page f < 1 then 1 else lfl_Page f);
          limit = (if lfl_Limit f < 1 \<or> 200 < lfl_Limit f then 20 else lfl_Limit f);
          offset = wrap64 ((page - 1) * limit)
      in call (scanUsers f limit offset) (\<lambda>e. fail (Wrap ''users.repo: list'' e)) (\<lambda>rows.
         call (query (\<lambda>d. count_rows (user_matches f) (t_users d)))
           (\<lambda>e. fail (Wrap ''users.repo: count'' e)) (\<lambda>total.
         ret \<lparr> lrs_Data = rows, lrs_Total = total, lrs_Page = page, lrs_Limit = limit \<rparr>)))"

definition users_repo_GetByID :: "string \<Rightarrow> User io" where
  "users_repo_GetByID u =
     call (q_GetUserByID u)
       (\<lambda>e. if errors_is e ErrNoRows then fail users_ErrNotFound else fail (Wrap ''users.repo: get by id'' e))
       ret"

definition users_repo_GetByEmail :: "string \<Rightarrow> User io" where
  "users_repo_GetByEmail email =
     call (q_GetUserByEmail email)
       (\<lambda>e. if errors_is e ErrNoRows then fail users_ErrNotFound else fail (Wrap ''users.repo: get by email'' e))
       ret"

definition created_user :: "string \<Rightarrow> string \<Rightarrow> string \<Rightarrow> string \<Rightarrow> string \<Rightarrow> int \<Rightarrow> User" where
  "created_user i email passwordHash name role now =
     \<lparr> usr_ID = i, usr_Email = email, usr_PasswordHash = passwordHash, usr_Name = name,
       usr_Role = role, usr_AvatarUrl = None, usr_PasswordResetRequired = False,
       usr_Points = 0, usr_Level = 0, usr_DeletedAt = None, usr_CreatedAt = now,
       usr_UpdatedAt = now, usr_LastLoginAt = None \<rparr>"

definition users_repo_Create :: "string \<Rightarrow> string \<Rightarrow> string \<Rightarrow> string \<Rightarrow> User io" where
  "users_repo_Create email passwordHash name role =
     bind go_now (\<lambda>now. bind new_uuid (\<lambda>i.
     call (q_CreateUser (created_user i email passwordHash name role now))
       (\<lambda>e. fail (Wrap ''users.repo: create'' e))
       (\<lambda>_. ret (created_user i email passwordHash name role now))))"

definition users_repo_Update :: "string \<Rightarrow> UpdatePatch \<Rightarrow> unit io" where
  "users_repo_Update u p =
     bind go_now (\<lambda>now. call (q_UpdateUser p now u) (\<lambda>e. fail (Wrap ''users.repo: update'' e)) ret)"

definition users_repo_UpdatePassword :: "string \<Rightarrow> string \<Rightarrow> bool \<Rightarrow> unit io" where
  "users_repo_UpdatePassword u h required =
     bind go_now (\<lambda>now. call (q_UpdateUserPassword h required now u)
       (\<lambda>e. fail (Wrap ''users.repo: update password'' e)) ret)"

definition users_repo_SoftDelete :: "string \<Rightarrow> unit io" where
  "users_repo_SoftDelete u =
     bind go_now (\<lambda>now. call (q_SoftDeleteUser (Some now) now u)
       (\<lambda>e. fail (Wrap ''users.repo: soft delete'' e)) ret)"

definition users_repo_Restore :: "string \<Rightarrow> unit io" where
  "users_repo_Restore u =
     bind go_now (\<lambda>now. call (q_RestoreUser now u) (\<lambda>e. fail (Wrap ''users.repo: restore'' e)) ret)"

definition users_repo_CountActiveAdmins :: "int io" where
  "users_repo_CountActiveAdmins =
     call q_CountActiveAdmins (\<lambda>e. fail (Wrap ''users.repo: count active admins'' e)) ret"

record AuditEntry =
  aue_UserID :: string
  aue_Action :: string
  aue_Entity :: string
  aue_EntityID :: string
  aue_Details :: string
  aue_IPAddress :: string
  aue_UserAgent :: string

definition audit_row :: "string \<Rightarrow> AuditEntry \<Rightarrow> int \<Rightarrow> AuditLog" where
  "audit_row i e now =
     \<lparr> aud_ID = i, aud_UserID = non_empty (aue_UserID e), aud_Action = aue_Action e,
       aud_Entity = aue_Entity e, aud_EntityID = non_empty (aue_EntityID e),
       aud_Details = non_empty (aue_Details e), aud_IpAddress = non_empty (aue_IPAddress e),
       aud_UserAgent = non_empty (aue_UserAgent e), aud_CreatedAt = now \<rparr>"

definition users_repo_WriteAuditLog :: "AuditEntry \<Rightarrow> unit io" where
  "users_repo_WriteAuditLog e =
     bind go_now (\<lambda>now. bind new_uuid (\<lambda>i.
     call (q_WriteAuditLog (audit_row i e now)) (\<lambda>e. fail (Wrap ''users.repo: write audit log'' e)) ret))"

definition users_repo_GetProviderAccountByID :: "string \<Rightarrow> UserProviderAccount io" where
  "users_repo_GetProviderAccountByID i =
     call (q_GetProviderAccountByID i)
       (\<lambda>e. if errors_is e ErrNoRows then fail users_ErrNotFound
            else fail (Wrap ''users.repo: get provider account by id'' e)) ret"

definition users_repo_SoftDeleteProviderAccount :: "string \<Rightarrow> unit io" where
  "users_repo_SoftDeleteProviderAccount i =
     bind go_now (\<lambda>now. call (q_SoftDeleteProviderAccount (Some now) now i)
       (\<lambda>e. fail (Wrap ''users.repo: soft delete provider account'' e)) ret)"

definition users_repo_CountActivePrimaryProviders :: "string \<Rightarrow> int io" where
  "users_repo_CountActivePrimaryProviders u =
     call (q_CountActivePrimaryProviders u) (\<lambda>e. fail (Wrap ''users.repo: count primary providers'' e)) ret"

section \<open>Repo: grants\<close>

text \<open>The row \<open>upsertEnrollment\<close> inserts: one of the two references is set.\<close>

definition granted_row :: "string \<Rightarrow> string \<Rightarrow> string \<Rightarrow> string \<Rightarrow> int \<Rightarrow> string \<Rightarrow> Enrollment" where
  "granted_row i u c g now src =
     \<lparr> enr_ID = i, enr_UserID = u, enr_CourseID = (if c \<noteq> [] then Some c else None),
       enr_DegreeID = (if c \<noteq> [] then None else Some g), enr_EnrolledAt = now, enr_ExpiresAt = None,
       enr_Source = src, enr_DeletedAt = None \<rparr>"

definition grant_of :: "string \<Rightarrow> string \<Rightarrow> string \<Rightarrow> database \<Rightarrow> string option" where
  "grant_of u c g d = map_option enr_ID (first_row
     (\<lambda>e. enr_UserID e = u \<and> (if c \<noteq> [] then enr_CourseID e = Some c else enr_DegreeID e = Some g))
     (t_enrollments d))"

definition users_repo_upsertEnrollment :: "string \<Rightarrow> string \<Rightarrow> string \<Rightarrow> string \<Rightarrow> unit io" where
  "users_repo_upsertEnrollment u c g src =
     bind go_now (\<lambda>now.
     call (query_one (grant_of u c g))
       (\<lambda>e. if \<not> errors_is e ErrNoRows then fail (Wrap ''users.repo: upsert enrollment lookup'' e)
            else bind new_uuid (\<lambda>i.
              call (exec (insert_enrollment (granted_row i u c g now src)))
                (\<lambda>e. fail (Wrap ''users.repo: upsert enrollment insert'' e)) ret))
       (\<lambda>existing. call (exec (sql_enr_revive None now src existing))
          (\<lambda>e. fail (Wrap ''users.repo: upsert enrollment update'' e)) ret))"

definition users_repo_GrantCourseAccess :: "string \<Rightarrow> string list \<Rightarrow> int io" where
  "users_repo_GrantCourseAccess u cs =
     call (for_each (\<lambda>c. users_repo_upsertEnrollment u c [] ''direct'') cs) fail (\<lambda>_. ret (int (length cs)))"

definition users_repo_GrantDegreeAccess :: "string \<Rightarrow> string list \<Rightarrow> int io" where
  "users_repo_GrantDegreeAccess u gs =
     call (for_each (\<lambda>g. users_repo_upsertEnrollment u [] g ''direct'') gs) fail (\<lambda>_. ret (int (length gs)))"

end
