(* ===== verification/UserDetail.thy ===== *)
theory UserDetail
  imports Users
begin

text \<open>
  The detail drawer of \<open>internal/users/repo.go\<close>: \<open>FindOneDetail\<close> and the queries it runs for one
  user.  A row whose column does not fit the Go type fails the whole lookup; the amount of an
  order is a \<open>DECIMAL\<close> text scanned into an integer.
\<close>

section \<open>Data\<close>

record UserCourseLite =
  ucl_ID :: string
  ucl_Title :: string
  ucl_Thumbnail :: string

record UserDegreeLite =
  udl_ID :: string
  udl_Title :: string

record EnrollmentRow =
  erw_Enrollment :: Enrollment
  erw_Course :: "UserCourseLite option"
  erw_Degree :: "UserDegreeLite option"
  erw_CompletedLessonsCount :: int
  erw_TotalLessonsCount :: int
  erw_ProgressPercent :: int
  erw_IsCompleted :: bool

record OrderRow =
  orw_ID :: string
  orw_UserID :: string
  orw_OrderType :: "string option"
  orw_Status :: "string option"
  orw_Amount :: "int option"
  orw_CreatedAt :: int

record CertRow =
  crw_ID :: string
  crw_UserID :: string
  crw_Type :: "string option"
  crw_Title :: "string option"
  crw_IssuedAt :: int

record PointRow =
  prw_ID :: string
  prw_UserID :: string
  prw_Amount :: int
  prw_RefType :: "string option"
  prw_CreatedAt :: int

record Counts =
  cnt_Enrollments :: int
  cnt_Orders :: int
  cnt_Certificates :: int
  cnt_ProgressRecords :: int
  cnt_Submissions :: int

record Detail =
  dtl_User :: User
  dtl_Enrollments :: "EnrollmentRow list"
  dtl_Orders :: "OrderRow list"
  dtl_Certificates :: "CertRow list"
  dtl_PointTransactions :: "PointRow list"
  dtl_Counts :: Counts

section \<open>Queries\<close>

definition enrollment_row :: "database \<Rightarrow> Enrollment \<Rightarrow> EnrollmentRow" where
  "enrollment_row d e =
     \<lparr> erw_Enrollment = e,
       erw_Course = map_option
         (\<lambda>c. \<lparr> ucl_ID = crs_ID c, ucl_Title = crs_Title c, ucl_Thumbnail = crs_Thumbnail c \<rparr>)
         (first_row (\<lambda>c. Some (crs_ID c) = enr_CourseID e) (t_courses d)),
       erw_Degree = map_option
         (\<lambda>g. \<lparr> udl_ID = deg_ID g, udl_Title = deg_Title g \<rparr>)
         (first_row (\<lambda>g. Some (deg_ID g) = enr_DegreeID e) (t_nano_degrees d)),
       erw_CompletedLessonsCount = 0, erw_TotalLessonsCount = 0, erw_ProgressPercent = 0,
       erw_IsCompleted = False \<rparr>"

text \<open>The two grouped counts; a course without a group reads as zero from the Go map.\<close>

definition progressCompletedByCourse :: "string \<Rightarrow> string list \<Rightarrow> (string \<Rightarrow> int) io" where
  "progressCompletedByCourse u cs =
     (if cs = [] then ret (\<lambda>_. 0)
      else query (\<lambda>d c. if c \<in> set cs then count_rows
             (\<lambda>p. prg_UserID p = u \<and> prg_Status p = ProgressRecordsStatusCompleted \<and> prg_CourseID p = c)
             (t_progress_records d) else 0))"

definition lessonTotalByCourse :: "string list \<Rightarrow> (string \<Rightarrow> int) io" where
  "lessonTotalByCourse cs =
     (if cs = [] then ret (\<lambda>_. 0)
      else query (\<lambda>d c. if c \<in> set cs then
             sum_list (map (\<lambda>ch. count_rows
                 (\<lambda>l. lsn_ChapterID l = chp_ID ch \<and> lsn_DeletedAt l = None) (t_lessons d))
               (filter (\<lambda>ch. chp_DeletedAt ch = None \<and> chp_CourseID ch = c) (t_chapters d)))
           else 0))"

definition with_progress :: "(string \<Rightarrow> int) \<Rightarrow> (string \<Rightarrow> int) \<Rightarrow> EnrollmentRow \<Rightarrow> EnrollmentRow" where
  "with_progress finished totals r =
     (case enr_CourseID (erw_Enrollment r) of
        None \<Rightarrow> r
      | Some c \<Rightarrow>
          (let total = totals c; done' = finished c
           in r\<lparr>erw_TotalLessonsCount := total, erw_CompletedLessonsCount := done',
                erw_IsCompleted := (0 < total \<and> total \<le> done'),
                erw_ProgressPercent := (if 0 < total then done' * 100 div total else 0)\<rparr>))"

definition listEnrollmentsWithProgress :: "string \<Rightarrow> EnrollmentRow list io" where
  "listEnrollmentsWithProgress u =
     call (query (\<lambda>d. map (enrollment_row d) (take 20 (sort_desc enr_EnrolledAt
             (filter (\<lambda>e. enr_UserID e = u \<and> enr_DeletedAt e = None) (t_enrollments d)))))) fail (\<lambda>out.
     (let cs = List.map_filter (\<lambda>r. enr_CourseID (erw_Enrollment r)) out
      in if cs = [] then ret out
         else
           call (progressCompletedByCourse u cs) fail (\<lambda>finished.
           call (lessonTotalByCourse cs) fail (\<lambda>totals.
           ret (map (with_progress finished totals) out)))))"

text \<open>\<open>rows.Scan\<close> over a result set: the first row that does not fit ends it.\<close>

fun scan_rows :: "('r \<Rightarrow> go_error + 'a) \<Rightarrow> 'r list \<Rightarrow> 'a list io" where
  "scan_rows f [] = ret []"
| "scan_rows f (r # rs) =
     (case f r of Inl e \<Rightarrow> fail e | Inr x \<Rightarrow> call (scan_rows f rs) fail (\<lambda>xs. ret (x # xs)))"

text \<open>\<open>sql.NullInt64\<close> from the text of a \<open>DECIMAL\<close>: \<open>strconv.ParseInt\<close> decides.\<close>

definition scan_order :: "Order \<Rightarrow> go_error + OrderRow" where
  "scan_order r =
     (case atoi (ord_Amount r) of
        None \<Rightarrow> Inl (Plain ''sql: Scan error on column index 4, name amount'')
      | Some n \<Rightarrow> Inr \<lparr> orw_ID = ord_ID r, orw_UserID = ord_UserID r,
          orw_OrderType = Some (ordersType_str (ord_Type r)),
          orw_Status = Some (ordersStatus_str (ord_Status r)), orw_Amount = Some n,
          orw_CreatedAt = ord_CreatedAt r \<rparr>)"

definition listOrders :: "string \<Rightarrow> nat \<Rightarrow> OrderRow list io" where
  "listOrders u limit =
     call (query (\<lambda>d. take limit (sort_desc ord_CreatedAt (filter (\<lambda>r. ord_UserID r = u) (t_orders d)))))
       fail (scan_rows scan_order)"

definition listCertificates :: "string \<Rightarrow> nat \<Rightarrow> CertRow list io" where
  "listCertificates u limit =
     query (\<lambda>d. map (\<lambda>r. \<lparr> crw_ID = crt_ID r, crw_UserID = crt_UserID r, crw_Type = Some (crt_Type r),
                         crw_Title = Some (crt_Title r), crw_IssuedAt = crt_IssuedAt r \<rparr>)
       (take limit (sort_desc crt_IssuedAt (filter (\<lambda>r. crt_UserID r = u) (t_certificates d)))))"

definition listPointTransactions :: "string \<Rightarrow> nat \<Rightarrow> PointRow list io" where
  "listPointTransactions u limit =
     query (\<lambda>d. map (\<lambda>r. \<lparr> prw_ID = ptx_ID r, prw_UserID = ptx_UserID r, prw_Amount = ptx_Amount r,
                         prw_RefType = ptx_RefType r, prw_CreatedAt = ptx_CreatedAt r \<rparr>)
       (take limit (sort_desc ptx_CreatedAt (filter (\<lambda>r. ptx_UserID r = u) (t_point_transactions d)))))"

definition listCounts :: "string \<Rightarrow> Counts io" where
  "listCounts u =
     call (query (\<lambda>d. count_rows (\<lambda>r. enr_UserID r = u) (t_enrollments d))) fail (\<lambda>e.
     call (query (\<lambda>d. count_rows (\<lambda>r. ord_UserID r = u) (t_orders d))) fail (\<lambda>q.
     call (query (\<lambda>d. count_rows (\<lambda>r. crt_UserID r = u) (t_certificates d))) fail (\<lambda>c.
     call (query (\<lambda>d. count_rows (\<lambda>r. prg_UserID r = u) (t_progress_records d))) fail (\<lambda>p.
     call (query (\<lambda>d. count_rows (\<lambda>r. sub_UserID r = Some u) (t_submissions d))) fail (\<lambda>s.
     ret \<lparr> cnt_Enrollments = e, cnt_Orders = q, cnt_Certificates = c, cnt_ProgressRecords = p,
           cnt_Submissions = s \<rparr>)))))"

definition detail_error :: "string \<Rightarrow> go_error \<Rightarrow> 'a io" where
  "detail_error part e = fail (Wrap (''users.repo: find one detail: '' @ part) e)"

definition FindOneDetail :: "string \<Rightarrow> Detail io" where
  "FindOneDetail u =
     call (users_repo_GetByID u) fail (\<lambda>user.
     call (listEnrollmentsWithProgress u) (detail_error ''enrollments'') (\<lambda>enrollments.
     call (listOrders u 20) (detail_error ''orders'') (\<lambda>orders.
     call (listCertificates u 20) (detail_error ''certs'') (\<lambda>certificates.
     call (listPointTransactions u 20) (detail_error ''points'') (\<lambda>points.
     call (listCounts u) (detail_error ''counts'') (\<lambda>counts.
     ret \<lparr> dtl_User = user, dtl_Enrollments = enrollments, dtl_Orders = orders,
           dtl_Certificates = certificates, dtl_PointTransactions = points, dtl_Counts = counts \<rparr>))))))"

section \<open>Nothing is written\<close>

lemma scan_rows_state: "snd (scan_rows f rs w) = w"
  by (induction rs) (auto simp: go_simps split: sum.split prod.split)

context db_frame
begin

lemma within_scan_rows: "within (db_step R) (scan_rows f rs)"
  by (simp add: within_def scan_rows_state steps.frame_refl)

lemma within_FindOneDetail: "within (db_step R) (FindOneDetail u)"
  unfolding FindOneDetail_def users_repo_GetByID_def q_GetUserByID_def listEnrollmentsWithProgress_def
    progressCompletedByCourse_def lessonTotalByCourse_def listOrders_def listCertificates_def
    listPointTransactions_def listCounts_def detail_error_def Let_def
  by (intro within_intros within_scan_rows)

end

end
