(* ===== verification/UserService.thy ===== *)
theory UserService
  imports UserDetail Tokens
begin

text \<open>
  \<open>internal/users/service.go\<close>: the rules of the accounts, and the handlers of
  \<open>internal/handler/users.go\<close> and \<open>identities.go\<close> on parsed bodies.
\<close>

section \<open>Validators\<close>

definition valid_role :: "string \<Rightarrow> bool" where
  "valid_role r \<longleftrightarrow> r \<in> set [''admin'', ''student'', ''instructor'']"

definition users_validateEmail :: "(string \<Rightarrow> bool) \<Rightarrow> string \<Rightarrow> go_error option" where
  "users_validateEmail parse_address s =
     (let s = trim_space s
      in if s = [] then Some (BadRequest ''email is required'')
         else if \<not> parse_address s then Some (BadRequest ''email is invalid'') else None)"

definition users_validateName :: "string \<Rightarrow> go_error option" where
  "users_validateName s =
     (let s = trim_space s
      in if s = [] then Some (BadRequest ''name is required'')
         else if 191 < length s then Some (BadRequest ''name too long'') else None)"

definition users_validateRole :: "string \<Rightarrow> go_error option" where
  "users_validateRole r =
     (if valid_role r then None
      else if r = [] then Some (BadRequest ''role is required'')
      else Some (BadRequest ''role must be one of admin|student|instructor''))"

text \<open>\<open>^.{12,}$\<close>: twelve characters, none a newline.\<close>

definition users_validatePassword :: "string \<Rightarrow> go_error option" where
  "users_validatePassword p =
     (if \<not> (12 \<le> length (runes p) \<and> CHR 0x0A \<notin> set p) then Some (BadRequest msg_pwd_short)
      else if \<not> list_ex is_lower p then Some (BadRequest msg_pwd_lower)
      else if \<not> list_ex is_upper p then Some (BadRequest msg_pwd_upper)
      else if \<not> list_ex is_digit p then Some (BadRequest msg_pwd_digit)
      else if \<not> list_ex (\<lambda>c. \<not> is_alnum c) p then Some (BadRequest msg_pwd_symbol)
      else None)"

definition validateAvatarURL :: "string \<Rightarrow> go_error option" where
  "validateAvatarURL s =
     (if s = [] then None
      else if 500 < length s then Some (BadRequest ''avatarUrl too long'')
      else if \<not> has_prefix (to_lower s) ''http://'' \<and> \<not> has_prefix (to_lower s) ''https://''
      then Some (BadRequest ''avatarUrl must be http(s)://'') else None)"

definition is_hex :: "char \<Rightarrow> bool" where
  "is_hex c \<longleftrightarrow> is_digit c \<or> in_range CHR ''a'' CHR ''f'' c \<or> in_range CHR ''A'' CHR ''F'' c"

definition isUUID :: "string \<Rightarrow> bool" where
  "isUUID s \<longleftrightarrow> map length (split_on CHR ''-'' s) = [8, 4, 4, 4, 12] \<and>
     list_all (list_all is_hex) (split_on CHR ''-'' s)"

text \<open>The Go idiom \<open>if err := check; err != nil { return err }\<close>.\<close>

definition checked :: "go_error option \<Rightarrow> 'a io \<Rightarrow> 'a io" where
  "checked c k = (case c of Some e \<Rightarrow> fail e | None \<Rightarrow> k)"

definition checked_opt :: "('b \<Rightarrow> go_error option) \<Rightarrow> 'b option \<Rightarrow> 'a io \<Rightarrow> 'a io" where
  "checked_opt c x k = (case x of None \<Rightarrow> k | Some y \<Rightarrow> checked (c y) k)"

section \<open>Audit details\<close>

definition userAuditView :: "User \<Rightarrow> string" where
  "userAuditView u = json_object
     [(''avatarUrl'', json_string (or_empty (usr_AvatarUrl u))),
      (''deletedAt'', json_time (case usr_DeletedAt u of None \<Rightarrow> zero_time | Some t \<Rightarrow> t)),
      (''email'', json_string (usr_Email u)), (''id'', json_string (usr_ID u)),
      (''name'', json_string (usr_Name u)), (''role'', json_string (usr_Role u))]"

definition auditDetails :: "User \<Rightarrow> User \<Rightarrow> string" where
  "auditDetails before after =
     json_object [(''after'', userAuditView after), (''before'', userAuditView before)]"

section \<open>Service\<close>

record UsersService =
  usv_bcrypt :: bcrypt_lib
  usv_bcryptCost :: int
  usv_ParseAddress :: "string \<Rightarrow> bool"

definition NewUsersService :: "bcrypt_lib \<Rightarrow> (string \<Rightarrow> bool) \<Rightarrow> int \<Rightarrow> UsersService" where
  "NewUsersService bc parse cost =
     \<lparr> usv_bcrypt = bc, usv_bcryptCost = (if cost \<le> 0 then 12 else cost), usv_ParseAddress = parse \<rparr>"

definition users_hash :: "UsersService \<Rightarrow> string \<Rightarrow> string io" where
  "users_hash s p = bcrypt_hash (usv_bcrypt s) p (usv_bcryptCost s)"

definition users_writeAudit :: "AuditEntry \<Rightarrow> unit io" where
  "users_writeAudit e = users_repo_WriteAuditLog e"

definition user_audit :: "string \<Rightarrow> string \<Rightarrow> string \<Rightarrow> string \<Rightarrow> AuditEntry" where
  "user_audit actor action u details =
     \<lparr> aue_UserID = actor, aue_Action = action, aue_Entity = ''user'', aue_EntityID = u,
       aue_Details = details, aue_IPAddress = [], aue_UserAgent = [] \<rparr>"

definition users_revokeAll :: "string \<Rightarrow> unit io" where
  "users_revokeAll u = exec (sql_revoke_all u)"

text \<open>The lookup most methods start with: a missing account and a broken lookup.\<close>

definition lookup_user :: "string \<Rightarrow> string \<Rightarrow> (User \<Rightarrow> 'a io) \<Rightarrow> 'a io" where
  "lookup_user u missing k =
     call (users_repo_GetByID u)
       (\<lambda>e. if e = users_ErrNotFound then fail (NotFound missing) else fail (Internal ''lookup user'' e)) k"

record ListParams =
  lpr_Role :: string
  lpr_Search :: string
  lpr_Page :: int
  lpr_Limit :: int
  lpr_Status :: string

definition users_List :: "ListParams \<Rightarrow> ListResult io" where
  "users_List p =
     (let status = (if lpr_Status p = [] then ''active'' else lpr_Status p)
      in if status \<notin> set [''active'', ''disabled'', ''all'']
         then fail (BadRequest ''status must be one of active|disabled|all'')
         else if lpr_Role p \<noteq> [] \<and> \<not> valid_role (lpr_Role p)
         then fail (BadRequest ''role must be one of admin|student|instructor'')
         else users_repo_List \<lparr> lfl_Role = lpr_Role p, lfl_Search = lpr_Search p,
                lfl_Status = status, lfl_Page = lpr_Page p, lfl_Limit = lpr_Limit p \<rparr>)"

definition users_Get :: "string \<Rightarrow> User io" where
  "users_Get u =
     call (users_repo_GetByID u)
       (\<lambda>e. if e = users_ErrNotFound then fail (NotFound ''User not found'')
            else fail (Internal ''get user'' e)) ret"

definition users_GetDetail :: "string \<Rightarrow> Detail io" where
  "users_GetDetail u =
     call (FindOneDetail u)
       (\<lambda>e. if e = users_ErrNotFound then fail (NotFound ''User not found'')
            else fail (Internal ''get user detail'' e)) ret"

record users_CreateInput =
  uci_Email :: string
  uci_Password :: string
  uci_Name :: string
  uci_Role :: string

definition users_Create :: "UsersService \<Rightarrow> users_CreateInput \<Rightarrow> User io" where
  "users_Create s i =
     checked (users_validateEmail (usv_ParseAddress s) (uci_Email i))
     (checked (users_validateName (uci_Name i))
     (checked (users_validateRole (uci_Role i))
     (checked (users_validatePassword (uci_Password i))
     (call (users_repo_GetByEmail (uci_Email i))
       (\<lambda>e. if e \<noteq> users_ErrNotFound then fail (Internal ''check email'' e)
            else
              call (users_hash s (uci_Password i)) (\<lambda>e. fail (Internal ''hash password'' e)) (\<lambda>h.
              call (users_repo_Create (uci_Email i) h (uci_Name i) (uci_Role i))
                (\<lambda>e. fail (Internal ''create user'' e)) (\<lambda>u.
              ignoring (users_writeAudit (user_audit (usr_ID u) ''USER_CREATE'' (usr_ID u) [])) (ret u))))
       (\<lambda>_. fail (Conflict ''Email already registered''))))))"

record UpdateInput =
  upi_Name :: "string option"
  upi_AvatarURL :: "string option"
  upi_Role :: "string option"

record UpdateContext =
  upc_ActorUserID :: string
  upc_IsAdmin :: bool

definition patch_of :: "User \<Rightarrow> UpdateInput \<Rightarrow> UpdatePatch" where
  "patch_of before i =
     \<lparr> upp_Name = (case upi_Name i of None \<Rightarrow> usr_Name before | Some n \<Rightarrow> n),
       upp_AvatarUrl = (case upi_AvatarURL i of None \<Rightarrow> usr_AvatarUrl before | Some a \<Rightarrow> Some a),
       upp_Role = (case upi_Role i of None \<Rightarrow> usr_Role before | Some r \<Rightarrow> r) \<rparr>"

definition users_Update :: "string \<Rightarrow> UpdateInput \<Rightarrow> UpdateContext \<Rightarrow> User io" where
  "users_Update u i uc =
     (if \<not> upc_IsAdmin uc \<and> upc_ActorUserID uc \<noteq> u then fail (Forbidden msg_own_account_only)
      else if upi_Role i \<noteq> None \<and> \<not> upc_IsAdmin uc then fail (Forbidden msg_role_admin_only)
      else
        checked_opt users_validateRole (upi_Role i)
        (checked_opt users_validateName (upi_Name i)
        (checked_opt validateAvatarURL (upi_AvatarURL i)
        (lookup_user u ''User not found'' (\<lambda>before.
           if usr_DeletedAt before \<noteq> None then fail (NotFound ''User not found or deleted'')
           else
             call (users_repo_Update u (patch_of before i)) (\<lambda>e. fail (Internal ''update user'' e)) (\<lambda>_.
             call (users_repo_GetByID u) (\<lambda>e. fail (Internal ''reload user'' e)) (\<lambda>after.
             ignoring (users_writeAudit (user_audit (upc_ActorUserID uc) ''USER_UPDATE'' u (auditDetails before after)))
               (ret after))))))))"

definition users_ChangePassword :: "UsersService \<Rightarrow> string \<Rightarrow> string \<Rightarrow> string \<Rightarrow> unit io" where
  "users_ChangePassword s u current fresh =
     lookup_user u ''User not found'' (\<lambda>r.
     if usr_DeletedAt r \<noteq> None then fail (NotFound ''User not found'')
     else if usr_PasswordHash r = [] then fail (Unauthorized msg_wrong_password)
     else if \<not> bc_compare (usv_bcrypt s) (usr_PasswordHash r) current then fail (Unauthorized msg_wrong_password)
     else if current = fresh then fail (BadRequest msg_same_password)
     else
       checked (users_validatePassword fresh)
       (call (users_hash s fresh) (\<lambda>e. fail (Internal ''hash password'' e)) (\<lambda>h.
        call (users_repo_UpdatePassword u h False) (\<lambda>e. fail (Internal ''update password'' e)) (\<lambda>_.
        ignoring (users_revokeAll u)
        (ignoring (users_writeAudit (user_audit u ''USER_PASSWORD_CHANGE'' u [])) (ret ()))))))"

definition generateTemporaryPassword :: "string io" where
  "generateTemporaryPassword =
     bind (rand_read 12) (\<lambda>raw. case raw of
       None \<Rightarrow> fail (Plain ''rand'') | Some b \<Rightarrow> ret (''A!a1'' @ base64_raw_url b))"

definition users_ResetPassword :: "UsersService \<Rightarrow> string \<Rightarrow> string \<Rightarrow> string io" where
  "users_ResetPassword s u actor =
     lookup_user u ''User not found'' (\<lambda>r.
     if usr_DeletedAt r \<noteq> None then fail (NotFound ''User not found'')
     else
       call generateTemporaryPassword (\<lambda>e. fail (Internal ''generate password'' e)) (\<lambda>temporary.
       call (users_hash s temporary) (\<lambda>e. fail (Internal ''hash password'' e)) (\<lambda>h.
       call (users_repo_UpdatePassword u h True) (\<lambda>e. fail (Internal ''update password'' e)) (\<lambda>_.
       ignoring (users_revokeAll u)
       (ignoring (users_writeAudit (user_audit actor ''USER_PASSWORD_RESET'' u [])) (ret temporary))))))"

definition users_disable_now :: "string \<Rightarrow> string \<Rightarrow> unit io" where
  "users_disable_now u actor =
     call (users_repo_SoftDelete u) (\<lambda>e. fail (Internal ''soft delete'' e)) (\<lambda>_.
     ignoring (users_revokeAll u)
     (ignoring (users_writeAudit (user_audit actor ''USER_DISABLE'' u [])) (ret ())))"

definition users_Disable :: "string \<Rightarrow> string \<Rightarrow> unit io" where
  "users_Disable u actor =
     (if u = actor then fail (Forbidden msg_disable_self)
      else
        lookup_user u ''User not found or already disabled'' (\<lambda>r.
        if usr_DeletedAt r \<noteq> None then fail (NotFound ''User not found or already disabled'')
        else if usr_Role r = ''admin'' then
          call users_repo_CountActiveAdmins (\<lambda>e. fail (Internal ''count admins'' e)) (\<lambda>n.
          if n \<le> 1 then fail (BadRequest msg_last_admin) else users_disable_now u actor)
        else users_disable_now u actor))"

definition users_Restore :: "string \<Rightarrow> string \<Rightarrow> User io" where
  "users_Restore u actor =
     lookup_user u ''User not found or already active'' (\<lambda>r.
     if usr_DeletedAt r = None then fail (NotFound ''User not found or already active'')
     else
       call (users_repo_Restore u) (\<lambda>e. fail (Internal ''restore user'' e)) (\<lambda>_.
       call (users_repo_GetByID u) (\<lambda>e. fail (Internal ''reload user'' e)) (\<lambda>after.
       ignoring (users_writeAudit (user_audit actor ''USER_RESTORE'' u [])) (ret after))))"

definition users_GrantCourseAccess :: "string \<Rightarrow> string list \<Rightarrow> string \<Rightarrow> int io" where
  "users_GrantCourseAccess u cs actor =
     (if cs = [] then fail (BadRequest ''courseIds is required'')
      else if \<not> list_all isUUID cs then fail (BadRequest ''courseIds must be UUIDs'')
      else
        lookup_user u ''User not found'' (\<lambda>r.
        if usr_DeletedAt r \<noteq> None then fail (NotFound ''User not found'')
        else
          call (users_repo_GrantCourseAccess u cs) (\<lambda>e. fail (Internal ''grant course access'' e)) (\<lambda>n.
          ignoring (users_writeAudit (user_audit actor ''USER_GRANT_COURSE'' u
              (json_object [(''courseIds'', json_array (map json_string cs))]))) (ret n))))"

definition users_GrantDegreeAccess :: "string \<Rightarrow> string list \<Rightarrow> string \<Rightarrow> int io" where
  "users_GrantDegreeAccess u gs actor =
     (if gs = [] then fail (BadRequest ''degreeIds is required'')
      else if \<not> list_all isUUID gs then fail (BadRequest ''degreeIds must be UUIDs'')
      else
        lookup_user u ''User not found'' (\<lambda>r.
        if usr_DeletedAt r \<noteq> None then fail (NotFound ''User not found'')
        else
          call (users_repo_GrantDegreeAccess u gs) (\<lambda>e. fail (Internal ''grant degree access'' e)) (\<lambda>n.
          ignoring (users_writeAudit (user_audit actor ''USER_GRANT_DEGREE'' u
              (json_object [(''degreeIds'', json_array (map json_string gs))]))) (ret n))))"

definition users_ListIdentities :: "string \<Rightarrow> UserProviderAccount list io" where
  "users_ListIdentities u =
     call (q_ListProviderAccountsByUser u) (\<lambda>e. fail (Internal ''list identities'' e)) ret"

definition users_unlink_now :: "string \<Rightarrow> unit io" where
  "users_unlink_now i =
     call (users_repo_SoftDeleteProviderAccount i) (\<lambda>e. fail (Internal ''soft delete identity'' e)) ret"

definition users_UnlinkIdentity :: "string \<Rightarrow> string \<Rightarrow> unit io" where
  "users_UnlinkIdentity u i =
     call (users_repo_GetProviderAccountByID i)
       (\<lambda>e. if e = users_ErrNotFound then fail (NotFound ''Identity not found'')
            else fail (Internal ''lookup identity'' e))
       (\<lambda>pa.
        if upa_UserID pa \<noteq> u then fail (Forbidden (''Cannot unlink another user'' @ [CHR 0x27] @ ''s identity''))
        else if upa_DeletedAt pa \<noteq> None then fail (NotFound ''Identity not found'')
        else if upa_IsPrimary pa then
          call (users_repo_CountActivePrimaryProviders u) (\<lambda>e. fail (Internal ''count primaries'' e)) (\<lambda>n.
          if n \<le> 1 then fail (BadRequest ''Cannot unlink the last primary identity'')
          else users_unlink_now i)
        else users_unlink_now i)"

end
