(* ===== verification/Http.thy ===== *)
theory Http
  imports Tokens GoText
begin

text \<open>
  What the handlers share: the claims \<open>RequireAuth\<close> stored (\<open>None\<close> when it did not run), a parsed
  body (\<open>None\<close> when it does not parse), routes for administrators, and Fiber's readings of query
  parameters.
\<close>

definition with_claims :: "Claims option \<Rightarrow> (Claims \<Rightarrow> 'a io) \<Rightarrow> 'a io" where
  "with_claims claims k =
     (case claims of None \<Rightarrow> fail (Unauthorized ''missing auth claims'') | Some c \<Rightarrow> k c)"

definition with_body :: "'b option \<Rightarrow> ('b \<Rightarrow> 'a io) \<Rightarrow> 'a io" where
  "with_body body k =
     (case body of None \<Rightarrow> fail (BadRequest ''invalid request body'') | Some b \<Rightarrow> k b)"

text \<open>A route behind \<open>RequireRole("admin")\<close>.\<close>

definition admin_only :: "Claims option \<Rightarrow> 'a io \<Rightarrow> 'a io" where
  "admin_only claims k = call (RequireRole [''admin''] claims) fail (\<lambda>_. k)"

section \<open>Query parameters\<close>

text \<open>\<open>c.QueryInt(k, d)\<close> and \<open>c.QueryBool(k, d)\<close> on the text of the parameter; an absent parameter is the
  empty text.\<close>

definition query_int :: "string \<Rightarrow> int \<Rightarrow> int" where
  "query_int s d = (case atoi s of Some n \<Rightarrow> n | None \<Rightarrow> d)"

definition parse_bool :: "string \<Rightarrow> bool option" where
  "parse_bool s =
     (if s \<in> set [''1'', ''t'', ''T'', ''TRUE'', ''true'', ''True''] then Some True
      else if s \<in> set [''0'', ''f'', ''F'', ''FALSE'', ''false'', ''False''] then Some False
      else None)"

definition query_bool :: "string \<Rightarrow> bool \<Rightarrow> bool" where
  "query_bool s d = (case parse_bool s of Some b \<Rightarrow> b | None \<Rightarrow> d)"

text \<open>Claims for the closed instances of the theorems.\<close>

definition demo_claims :: "string \<Rightarrow> string \<Rightarrow> Claims" where
  "demo_claims u role = \<lparr> clm_UserID = u, clm_Email = u @ ''@x.io'', clm_Role = role, clm_Issuer = ''ai-academy'',
     clm_Subject = u, clm_IssuedAt = 0, clm_ExpiresAt = 900 \<rparr>"

section \<open>Frames\<close>

context db_frame
begin

lemma within_with_claims: "(\<And>c. within (db_step R) (k c)) \<Longrightarrow> within (db_step R) (with_claims cl k)"
  unfolding with_claims_def by (intro within_intros)

lemma within_with_body: "(\<And>b. within (db_step R) (k b)) \<Longrightarrow> within (db_step R) (with_body b k)"
  unfolding with_body_def by (intro within_intros)

lemma within_admin_only: "within (db_step R) k \<Longrightarrow> within (db_step R) (admin_only cl k)"
  unfolding admin_only_def RequireRole_def by (intro within_intros)

lemmas http_intros = within_intros within_with_claims within_with_body within_admin_only

end

end
