(* ===== verification/UserHandlers.thy ===== *)
theory UserHandlers
  imports UserService Http
begin

text \<open>
  \<open>internal/handler/users.go\<close> and \<open>identities.go\<close>: the endpoints behind the guards of \<open>Mount\<close>.
  A body is \<open>None\<close> when it does not parse; the claims are those \<open>RequireAuth\<close> stored.
\<close>

record PublicUser =
  pbu_id :: string
  pbu_email :: string
  pbu_name :: string
  pbu_role :: string
  pbu_avatarUrl :: string
  pbu_passwordResetRequired :: bool
  pbu_points :: int
  pbu_level :: int
  pbu_createdAt :: int
  pbu_updatedAt :: int
  pbu_lastLoginAt :: "int option"
  pbu_deletedAt :: "int option"

definition publicUserView :: "User \<Rightarrow> PublicUser" where
  "publicUserView u =
     \<lparr> pbu_id = usr_ID u, pbu_email = usr_Email u, pbu_name = usr_Name u, pbu_role = usr_Role u,
       pbu_avatarUrl = or_empty (usr_AvatarUrl u),
       pbu_passwordResetRequired = usr_PasswordResetRequired u, pbu_points = usr_Points u,
       pbu_level = usr_Level u, pbu_createdAt = usr_CreatedAt u, pbu_updatedAt = usr_UpdatedAt u,
       pbu_lastLoginAt = usr_LastLoginAt u, pbu_deletedAt = usr_DeletedAt u \<rparr>"

definition h_users_getMe :: "Claims option \<Rightarrow> PublicUser io" where
  "h_users_getMe claims = with_claims claims (\<lambda>c.
     call (users_GetDetail (clm_UserID c)) fail (\<lambda>d. ret (publicUserView (dtl_User d))))"

record UserPage =
  upg_data :: "PublicUser list"
  upg_total :: int
  upg_page :: int
  upg_limit :: int

text \<open>\<open>q k d\<close> is \<open>c.Query(k, d)\<close>: the query parameter or its default.\<close>

definition h_users_list :: "Claims option \<Rightarrow> (string \<Rightarrow> string \<Rightarrow> string) \<Rightarrow> UserPage io" where
  "h_users_list claims q = admin_only claims
     (call (users_List \<lparr> lpr_Role = q ''role'' [], lpr_Search = q ''search'' [],
              lpr_Page = atoi_value (q ''page'' ''1''), lpr_Limit = atoi_value (q ''limit'' ''20''),
              lpr_Status = q ''status'' ''active'' \<rparr>) fail (\<lambda>res.
      ret \<lparr> upg_data = map publicUserView (lrs_Data res), upg_total = lrs_Total res,
            upg_page = lrs_Page res, upg_limit = lrs_Limit res \<rparr>))"

definition h_users_getOne :: "Claims option \<Rightarrow> string \<Rightarrow> (PublicUser \<times> Detail) io" where
  "h_users_getOne claims u = admin_only claims
     (call (users_GetDetail u) fail (\<lambda>d. ret (publicUserView (dtl_User d), d)))"

definition h_users_create :: "UsersService \<Rightarrow> Claims option \<Rightarrow> users_CreateInput option \<Rightarrow> PublicUser io" where
  "h_users_create s claims body = admin_only claims (with_body body (\<lambda>i.
     call (users_Create s i) fail (\<lambda>u. ret (publicUserView u))))"

definition h_users_update :: "Claims option \<Rightarrow> string \<Rightarrow> UpdateInput option \<Rightarrow> PublicUser io" where
  "h_users_update claims u body = with_claims claims (\<lambda>c. with_body body (\<lambda>i.
     call (users_Update u i \<lparr> upc_ActorUserID = clm_UserID c, upc_IsAdmin = (clm_Role c = ''admin'') \<rparr>)
       fail (\<lambda>r. ret (publicUserView r))))"

definition h_users_changePasswordOwn ::
  "UsersService \<Rightarrow> Claims option \<Rightarrow> (string \<times> string) option \<Rightarrow> bool io" where
  "h_users_changePasswordOwn s claims body = with_claims claims (\<lambda>c. with_body body (\<lambda>(current, fresh).
     call (users_ChangePassword s (clm_UserID c) current fresh) fail (\<lambda>_. ret True)))"

definition h_users_resetPassword :: "UsersService \<Rightarrow> Claims option \<Rightarrow> string \<Rightarrow> string io" where
  "h_users_resetPassword s claims u = admin_only claims (with_claims claims (\<lambda>c.
     call (users_ResetPassword s u (clm_UserID c)) fail ret))"

definition h_users_disable :: "Claims option \<Rightarrow> string \<Rightarrow> string io" where
  "h_users_disable claims u = admin_only claims (with_claims claims (\<lambda>c.
     call (users_Disable u (clm_UserID c)) fail (\<lambda>_. ret u)))"

definition h_users_restore :: "Claims option \<Rightarrow> string \<Rightarrow> PublicUser io" where
  "h_users_restore claims u = admin_only claims (with_claims claims (\<lambda>c.
     call (users_Restore u (clm_UserID c)) fail (\<lambda>r. ret (publicUserView r))))"

definition h_users_grantCourse :: "Claims option \<Rightarrow> string \<Rightarrow> string list option \<Rightarrow> int io" where
  "h_users_grantCourse claims u body = admin_only claims (with_claims claims (\<lambda>c. with_body body (\<lambda>cs.
     call (users_GrantCourseAccess u cs (clm_UserID c)) fail ret)))"

definition h_users_grantDegree :: "Claims option \<Rightarrow> string \<Rightarrow> string list option \<Rightarrow> int io" where
  "h_users_grantDegree claims u body = admin_only claims (with_claims claims (\<lambda>c. with_body body (\<lambda>gs.
     call (users_GrantDegreeAccess u gs (clm_UserID c)) fail ret)))"

record IdentityView =
  idv_id :: string
  idv_provider :: string
  idv_isPrimary :: bool
  idv_linkedAt :: int
  idv_lastUsedAt :: int
  idv_email :: "string option"
  idv_displayName :: "string option"

definition h_identities_list :: "Claims option \<Rightarrow> IdentityView list io" where
  "h_identities_list claims = with_claims claims (\<lambda>c.
     call (users_ListIdentities (clm_UserID c)) fail (\<lambda>rows.
     ret (map (\<lambda>r. \<lparr> idv_id = upa_ID r, idv_provider = upa_Provider r, idv_isPrimary = upa_IsPrimary r,
                      idv_linkedAt = upa_LinkedAt r, idv_lastUsedAt = upa_LastUsedAt r,
                      idv_email = upa_Email r, idv_displayName = upa_DisplayName r \<rparr>) rows)))"

definition h_identities_unlink :: "Claims option \<Rightarrow> string \<Rightarrow> unit io" where
  "h_identities_unlink claims i = with_claims claims (\<lambda>c.
     call (users_UnlinkIdentity (clm_UserID c) i) fail ret)"

section \<open>What the endpoints may do to the database\<close>

text \<open>The contract of the statements for a relation \<open>R\<close>; the endpoints then stay within \<open>R\<close>.\<close>

locale user_writes = enrollment_writes +
  assumes ok_insert_user: "stmt_ok R (insert_user r)"
    and ok_update_user: "stmt_ok R (sql_update_user p now u)"
    and ok_update_password: "stmt_ok R (sql_update_password h b now u)"
    and ok_mark_deleted: "stmt_ok R (sql_mark_deleted t now u)"
    and ok_revoke_all: "stmt_ok R (sql_revoke_all u)"
    and ok_audit: "stmt_ok R (insert_audit_log a)"
begin

lemma within_users_repo:
  "within (db_step R) (users_repo_GetByID u)"
  "within (db_step R) (users_repo_GetByEmail e)"
  "within (db_step R) (users_repo_Create e h n r)"
  "within (db_step R) (users_repo_Update u p)"
  "within (db_step R) (users_repo_UpdatePassword u h b)"
  "within (db_step R) (users_repo_SoftDelete u)"
  "within (db_step R) (users_repo_Restore u)"
  "within (db_step R) users_repo_CountActiveAdmins"
  "within (db_step R) (users_repo_WriteAuditLog a)"
  "within (db_step R) (users_revokeAll u)"
  "within (db_step R) (users_repo_upsertEnrollment u c g src)"
  unfolding users_repo_GetByID_def q_GetUserByID_def users_repo_GetByEmail_def q_GetUserByEmail_def
    users_repo_Create_def q_CreateUser_def users_repo_Update_def q_UpdateUser_def
    users_repo_UpdatePassword_def q_UpdateUserPassword_def users_repo_SoftDelete_def
    q_SoftDeleteUser_def users_repo_Restore_def q_RestoreUser_def users_repo_CountActiveAdmins_def
    q_CountActiveAdmins_def users_repo_WriteAuditLog_def q_WriteAuditLog_def users_revokeAll_def
    users_repo_upsertEnrollment_def
  by (intro enrollment_intros ok_insert_user ok_update_user ok_update_password ok_mark_deleted
      ok_revoke_all ok_audit)+

lemma within_users_hash: "within (db_step R) (users_hash s p)"
  unfolding users_hash_def bcrypt_hash_def by (intro within_intros)

lemma within_checked: "within (db_step R) k \<Longrightarrow> within (db_step R) (checked c k)"
  unfolding checked_def by (intro within_intros)

lemma within_checked_opt: "within (db_step R) k \<Longrightarrow> within (db_step R) (checked_opt c x k)"
  unfolding checked_opt_def by (intro within_intros within_checked)

lemma within_lookup: "(\<And>r. within (db_step R) (k r)) \<Longrightarrow> within (db_step R) (lookup_user u m k)"
  unfolding lookup_user_def by (intro within_intros within_users_repo)

lemmas user_intros = within_intros within_users_repo within_users_hash within_checked
  within_checked_opt within_lookup

lemma within_users_Create: "within (db_step R) (users_Create s i)"
  unfolding users_Create_def users_writeAudit_def by (intro user_intros)

lemma within_users_Update: "within (db_step R) (users_Update u i uc)"
  unfolding users_Update_def users_writeAudit_def by (intro user_intros)

lemma within_users_ChangePassword: "within (db_step R) (users_ChangePassword s u c f)"
  unfolding users_ChangePassword_def users_writeAudit_def by (intro user_intros)

lemma within_users_ResetPassword: "within (db_step R) (users_ResetPassword s u a)"
  unfolding users_ResetPassword_def users_writeAudit_def generateTemporaryPassword_def
  by (intro user_intros)

lemma within_users_Disable: "within (db_step R) (users_Disable u a)"
  unfolding users_Disable_def users_disable_now_def users_writeAudit_def by (intro user_intros)

lemma within_users_Restore: "within (db_step R) (users_Restore u a)"
  unfolding users_Restore_def users_writeAudit_def by (intro user_intros)

lemma within_users_Grant:
  "within (db_step R) (users_GrantCourseAccess u cs a)"
  "within (db_step R) (users_GrantDegreeAccess u cs a)"
  unfolding users_GrantCourseAccess_def users_GrantDegreeAccess_def users_writeAudit_def
    users_repo_GrantCourseAccess_def users_repo_GrantDegreeAccess_def by (intro user_intros)+

lemmas within_users_service = within_users_Create within_users_Update within_users_ChangePassword
  within_users_ResetPassword within_users_Disable within_users_Restore within_users_Grant

lemma within_users_endpoints:
  "within (db_step R) (h_users_create s cl b)"
  "within (db_step R) (h_users_update cl u ub)"
  "within (db_step R) (h_users_changePasswordOwn s cl pb)"
  "within (db_step R) (h_users_resetPassword s cl u)"
  "within (db_step R) (h_users_disable cl u)"
  "within (db_step R) (h_users_restore cl u)"
  "within (db_step R) (h_users_grantCourse cl u gb)"
  "within (db_step R) (h_users_grantDegree cl u gb)"
  unfolding h_users_create_def h_users_update_def h_users_changePasswordOwn_def
    h_users_resetPassword_def h_users_disable_def h_users_restore_def h_users_grantCourse_def
    h_users_grantDegree_def admin_only_def RequireRole_def with_claims_def with_body_def case_prod_unfold
  by (intro within_intros within_users_service)+

end

end
