(* ===== verification/UserFacts.thy ===== *)
theory UserFacts
  imports UserHandlers Demo
begin

text \<open>
  What the user endpoints promise: nobody but an administrator reaches another account, the guard
  of the last administrator holds as long as requests do not overlap, pages of the list cover
  it, a temporary password passes the rules, and where an account's orders hide its details.
\<close>

section \<open>Undisturbed runs\<close>

text \<open>Everything but the audit log.\<close>

definition but_audit :: "database \<Rightarrow> database" where
  "but_audit d = d\<lparr>t_audit_logs := []\<rparr>"

lemma audit_only: "stmt_ok (untouched but_audit) (insert_audit_log a)"
  by (simp add: stmt_ok_def untouched_def insert_audit_log_def but_audit_def)

lemma but_audit_tables:
  assumes "but_audit d' = but_audit d"
  shows "t_users d' = t_users d \<and> t_refresh_tokens d' = t_refresh_tokens d \<and> t_enrollments d' = t_enrollments d"
  using arg_cong [OF assms, of t_users] arg_cong [OF assms, of t_refresh_tokens]
    arg_cong [OF assms, of t_enrollments] by (simp add: but_audit_def)

lemma write_audit_quiet:
  assumes "script w = []"
  shows "but_audit (db (snd (users_writeAudit a w))) = but_audit (db w)"
    and "script (snd (users_writeAudit a w)) = []"
proof -
  have "within (db_step (untouched but_audit)) (users_writeAudit a)"
    unfolding users_writeAudit_def users_repo_WriteAuditLog_def q_WriteAuditLog_def
    by (intro same_db.within_intros audit_only)
  from quiet_step [OF this assms same_db.db_frame_axioms]
  show "but_audit (db (snd (users_writeAudit a w))) = but_audit (db w)"
    "script (snd (users_writeAudit a w)) = []" by (auto simp: untouched_def)
qed

lemma users_get_quiet:
  "script w = [] \<Longrightarrow> users_repo_GetByID u w =
     (case first_row (\<lambda>r. usr_ID r = u) (t_users (db w)) of None \<Rightarrow> (Inl users_ErrNotFound, w) | Some r \<Rightarrow> (Inr r, w))"
  by (simp add: users_repo_GetByID_def q_GetUserByID_def go_simps split: option.split)

lemma lookup_user_quiet [go_simps]:
  "script w = [] \<Longrightarrow> lookup_user u m k w =
     (case first_row (\<lambda>r. usr_ID r = u) (t_users (db w)) of None \<Rightarrow> (Inl (NotFound m), w) | Some r \<Rightarrow> k r w)"
  by (simp add: lookup_user_def users_get_quiet go_simps split: option.split)

section \<open>The last administrator\<close>

definition disable_allowed :: "string \<Rightarrow> string \<Rightarrow> User list \<Rightarrow> bool" where
  "disable_allowed u actor us \<longleftrightarrow> u \<noteq> actor \<and>
     (\<exists>r. first_row (\<lambda>r. usr_ID r = u) us = Some r \<and> usr_DeletedAt r = None \<and>
        (usr_Role r = ''admin'' \<longrightarrow> 2 \<le> count_rows active_admin us))"

lemma disable_now_quiet:
  assumes "script w = []"
  obtains v where "users_disable_now u actor w = (Inr (), v)"
    "t_users (db v) = upd (\<lambda>r. usr_ID r = u)
       (\<lambda>r. r\<lparr>usr_DeletedAt := Some (clock w), usr_UpdatedAt := clock w\<rparr>) (t_users (db w))"
    "t_refresh_tokens (db v) = deleted (\<lambda>r. rft_UserID r = u) (t_refresh_tokens (db w))"
    "t_enrollments (db v) = t_enrollments (db w)"
proof -
  define w1 where "w1 = snd (users_revokeAll u (snd (users_repo_SoftDelete u w)))"
  have w1: "script w1 = []" "t_users (db w1) = upd (\<lambda>r. usr_ID r = u)
       (\<lambda>r. r\<lparr>usr_DeletedAt := Some (clock w), usr_UpdatedAt := clock w\<rparr>) (t_users (db w))"
    "t_refresh_tokens (db w1) = deleted (\<lambda>r. rft_UserID r = u) (t_refresh_tokens (db w))"
    "t_enrollments (db w1) = t_enrollments (db w)"
    using assms by (simp_all add: w1_def users_revokeAll_def users_repo_SoftDelete_def q_SoftDeleteUser_def
        sql_mark_deleted_def sql_revoke_all_def go_simps)
  have run: "users_disable_now u actor w = (Inr (), snd (users_writeAudit (user_audit actor ''USER_DISABLE'' u []) w1))"
    using assms by (simp add: users_disable_now_def w1_def users_repo_SoftDelete_def q_SoftDeleteUser_def
        sql_mark_deleted_def go_simps)
  show thesis
    by (rule that [OF run]) (use w1 but_audit_tables [OF write_audit_quiet(1) [OF w1(1)]] in auto)
qed

lemma disable_refused_quiet:
  assumes "script w = []" "\<not> disable_allowed u actor (t_users (db w))"
  shows "\<exists>e. users_Disable u actor w = (Inl e, w) \<and> status_of e \<in> {400, 403, 404}"
proof -
  have count: "users_repo_CountActiveAdmins w = (Inr (count_rows active_admin (t_users (db w))), w)"
    using assms(1) by (simp add: users_repo_CountActiveAdmins_def q_CountActiveAdmins_def go_simps)
  show ?thesis
    using assms count
    by (auto simp: users_Disable_def disable_allowed_def go_simps split: option.split)
qed

lemma disable_allowed_quiet:
  assumes "script w = []" "disable_allowed u actor (t_users (db w))"
  shows "users_Disable u actor w = users_disable_now u actor w"
proof -
  have count: "users_repo_CountActiveAdmins w = (Inr (count_rows active_admin (t_users (db w))), w)"
    using assms(1) by (simp add: users_repo_CountActiveAdmins_def q_CountActiveAdmins_def go_simps)
  show ?thesis
    using assms count by (auto simp: users_Disable_def disable_allowed_def go_simps)
qed

lemma admin_survives:
  assumes keys: "no_conflicts usr_conflict us" and allowed: "disable_allowed u actor us"
    and adm: "a \<in> set us" "active_admin a"
  shows "\<exists>b \<in> set (upd (\<lambda>r. usr_ID r = u) f us). active_admin b"
proof -
  obtain r where r: "first_row (\<lambda>r. usr_ID r = u) us = Some r"
    "usr_Role r = ''admin'' \<longrightarrow> 2 \<le> count_rows active_admin us" "usr_DeletedAt r = None"
    using allowed by (auto simp: disable_allowed_def)
  have ids: "distinct (map usr_ID us)"
    by (rule no_conflicts_distinct [OF keys]) (simp add: usr_conflict_def)
  show ?thesis
  proof (cases "usr_ID a = u")
    case False
    with adm show ?thesis by (force simp: set_upd)
  next
    case True
    then have "r = a" using first_row_Some [OF r(1)] adm(1) distinct_key_unique [OF ids] by metis
    with adm(2) r(2) have two: "2 \<le> length (filter active_admin us)"
      by (simp add: active_admin_def count_rows_def)
    have dist: "distinct (filter active_admin us)" using ids by (simp add: distinct_map)
    have "\<exists>b \<in> set (filter active_admin us). b \<noteq> a"
    proof (rule ccontr)
      assume "\<not> ?thesis"
      then have "set (filter active_admin us) \<subseteq> {a}" by auto
      then have "card (set (filter active_admin us)) \<le> 1" by (metis card.empty card.insert card_mono
            empty_iff finite.emptyI finite.insertI One_nat_def)
      with two distinct_card [OF dist] show False by simp
    qed
    then obtain b where b: "b \<in> set us" "active_admin b" "b \<noteq> a" by auto
    with adm(1) True distinct_key_unique [OF ids] have "usr_ID b \<noteq> u" by metis
    with b show ?thesis by (force simp: set_upd)
  qed
qed



definition two_admins :: database where
  "two_admins = empty_database\<lparr>t_users :=
     [(demo_user ''a'')\<lparr>usr_Role := ''admin''\<rparr>, (demo_user ''b'')\<lparr>usr_Role := ''admin''\<rparr>, demo_user ''u1'']\<rparr>"

lemma two_admins_simps:
  "t_users two_admins = [(demo_user ''a'')\<lparr>usr_Role := ''admin''\<rparr>, (demo_user ''b'')\<lparr>usr_Role := ''admin''\<rparr>, demo_user ''u1'']"
  by (simp add: two_admins_def)

lemma two_admins_keys: "no_conflicts usr_conflict (t_users two_admins)"
  unfolding two_admins_simps no_conflicts_def by (simp add: usr_conflict_def demo_user_def)

lemma two_admins_allowed:
  "disable_allowed ''b'' ''a'' (t_users two_admins)" "disable_allowed ''a'' ''b'' (t_users two_admins)"
  "list_ex active_admin (t_users two_admins)"
  by (simp_all add: two_admins_simps disable_allowed_def demo_user_def active_admin_def count_rows_def)


text \<open>Two administrators who disable each other at once: the second request is decided on the
  count it read before the first one took effect.\<close>

definition other_disables :: "database \<Rightarrow> database" where
  "other_disables d = db (snd (users_Disable ''a'' ''b'' (demo_world d)))"

definition overlap_world :: world where
  "overlap_world = (demo_world two_admins)\<lparr>script := [(Fine, id), (Fine, id), (Fine, other_disables)]\<rparr>"

lemma disable_ok_quiet:
  assumes "script w = []" "disable_allowed u actor (t_users (db w))"
  shows "t_users (db (snd (users_Disable u actor w))) = upd (\<lambda>r. usr_ID r = u)
       (\<lambda>r. r\<lparr>usr_DeletedAt := Some (clock w), usr_UpdatedAt := clock w\<rparr>) (t_users (db w))"
  unfolding disable_allowed_quiet [OF assms]
  by (rule disable_now_quiet [OF assms(1), of u actor]) simp

lemma other_disables_users:
  "t_users (other_disables two_admins) =
     [(demo_user ''a'')\<lparr>usr_Role := ''admin'', usr_DeletedAt := Some 1000, usr_UpdatedAt := 1000\<rparr>,
      (demo_user ''b'')\<lparr>usr_Role := ''admin''\<rparr>, demo_user ''u1'']"
  using disable_ok_quiet [of "demo_world two_admins" "''a''" "''b''"] two_admins_allowed(2)
  by (simp add: other_disables_def demo_world_def two_admins_simps demo_user_def)

lemma exec_fine: "script w = (Fine, g) # s \<Longrightarrow> exec f w = commit f (w\<lparr>script := s, db := g (db w)\<rparr>)"
  by (simp add: exec_def)

lemma overlap_simps:
  "script overlap_world = [(Fine, id), (Fine, id), (Fine, other_disables)]" "db overlap_world = two_admins"
  by (simp_all add: overlap_world_def demo_world_def)


section \<open>Temporary passwords\<close>

lemma base64_runes: "runes (base64_raw_url s) = map (\<lambda>c. [c]) (base64_raw_url s)"
  by (rule runes_ascii) (use base64_bytes in \<open>fastforce simp: list_all_iff utf8_cont_def b64_bytes_def\<close>)

text \<open>With a working random source of twelve bytes, a temporary password is twenty characters that
  the user service, the sign-up rule and bcrypt's limit of 72 bytes all accept, so resetting a
  password never fails on its own rules.\<close>

theorem temporary_password_accepted:
  assumes "rnd_src w (rnd_ix w) 12 = Some b" "length b = 12"
  shows "\<exists>p. generateTemporaryPassword w = (Inr p, w\<lparr>rnd_ix := Suc (rnd_ix w)\<rparr>) \<and>
     length p = 20 \<and> users_validatePassword p = None \<and> validatePasswordInput p"
proof -
  let ?t = "base64_raw_url b"
  have run: "generateTemporaryPassword w = (Inr (''A!a1'' @ ?t), w\<lparr>rnd_ix := Suc (rnd_ix w)\<rparr>)"
    using assms by (simp add: generateTemporaryPassword_def go_simps)
  have len: "length ?t = 16" using assms(2) by (simp add: length_base64)
  have head: "is_upper CHR ''A''" "is_lower CHR ''a''" "is_digit CHR ''1''" "\<not> is_alnum CHR ''!''"
    by (simp_all add: is_alnum_def is_upper_def is_lower_def is_digit_def in_range_def byte_of_def)
  have "list_all (\<lambda>c. \<not> utf8_cont c) (''A!a1'' @ ?t)"
    using base64_bytes [of _ b] by (fastforce simp: list_all_iff utf8_cont_def byte_of_def b64_bytes_def)
  from runes_ascii [OF this] have "length (runes (''A!a1'' @ ?t)) = length (''A!a1'' @ ?t)"
    by (simp only: length_map)
  then have "length (runes (''A!a1'' @ ?t)) = 20" using len by simp
  moreover have "CHR 0x0A \<notin> set (''A!a1'' @ ?t)" using newline_not_base64 [of b] by simp
  ultimately have "users_validatePassword (''A!a1'' @ ?t) = None"
    using head by (simp add: users_validatePassword_def)
  moreover have "validatePasswordInput (''A!a1'' @ ?t)" using head len by (simp add: validatePasswordInput_def)
  ultimately show ?thesis using run len by auto
qed

theorem temporary_password_accepted_witness:
  "\<exists>p. generateTemporaryPassword (demo_world empty_database) =
     (Inr p, (demo_world empty_database)\<lparr>rnd_ix := 1\<rparr>) \<and> length p = 20 \<and> users_validatePassword p = None"
  using temporary_password_accepted [of "demo_world empty_database" "replicate 12 CHR 0x2A"]
  by (auto simp: demo_world_def)

section \<open>Pages of the user list\<close>

definition page_of :: "ListFilter \<Rightarrow> nat \<Rightarrow> world \<Rightarrow> User list" where
  "page_of f n w = (case fst (users_repo_List (f\<lparr>lfl_Page := int n\<rparr>) w) of Inr r \<Rightarrow> lrs_Data r | Inl _ \<Rightarrow> [])"

lemma user_matches_page [simp]: "user_matches (f\<lparr>lfl_Page := p\<rparr>) = user_matches f"
  by (simp add: user_matches_def fun_eq_iff)

lemma list_quiet:
  assumes "script w = []" "1 \<le> lfl_Limit f" "lfl_Limit f \<le> 200" "int n * lfl_Limit f < 2 ^ 63"
  shows "users_repo_List (f\<lparr>lfl_Page := int (Suc n)\<rparr>) w =
     (Inr \<lparr> lrs_Data = take (nat (lfl_Limit f)) (drop (n * nat (lfl_Limit f))
              (sort_desc usr_CreatedAt (filter (user_matches f) (t_users (db w))))),
            lrs_Total = count_rows (user_matches f) (t_users (db w)),
            lrs_Page = int (Suc n), lrs_Limit = lfl_Limit f \<rparr>, w)"
proof -
  have "0 \<le> int n * lfl_Limit f" using assms by simp
  then have off: "wrap64 (int n * lfl_Limit f) = int n * lfl_Limit f" "nat (int n * lfl_Limit f) = n * nat (lfl_Limit f)"
    using assms by (simp_all add: wrap64_def nat_mult_distrib)
  with assms \<open>0 \<le> int n * lfl_Limit f\<close> show ?thesis
    by (simp add: users_repo_List_def scanUsers_def go_simps Let_def not_less)
qed

text \<open>With a page size between 1 and 200 the pages of the user list, read undisturbed, put together
  are exactly the matching users, newest first, without a gap or a repetition, and the total says
  how many there are.\<close>

theorem pages_cover_list:
  assumes quiet: "script w = []" and limit: "1 \<le> lfl_Limit f" "lfl_Limit f \<le> 200"
    and enough: "count_rows (user_matches f) (t_users (db w)) \<le> int k * lfl_Limit f"
    and small: "int k * lfl_Limit f < 2 ^ 63"
  shows "concat (map (\<lambda>n. page_of f (Suc n) w) [0..<k]) =
       sort_desc usr_CreatedAt (filter (user_matches f) (t_users (db w))) \<and>
     (\<forall>n < k. \<exists>r. users_repo_List (f\<lparr>lfl_Page := int (Suc n)\<rparr>) w = (Inr r, w) \<and>
        lrs_Total r = count_rows (user_matches f) (t_users (db w)))"
proof -
  let ?xs = "sort_desc usr_CreatedAt (filter (user_matches f) (t_users (db w)))"
  have le: "int n * lfl_Limit f < 2 ^ 63" if "n < k" for n
    using that limit small by (meson le_less_trans less_imp_le mult_right_mono of_nat_mono order_trans zero_le_one)
  have pages: "page_of f (Suc n) w = take (nat (lfl_Limit f)) (drop (n * nat (lfl_Limit f)) ?xs)" if "n < k" for n
    using list_quiet [OF quiet limit le [OF that]] by (simp add: page_of_def)
  then have "concat (map (\<lambda>n. page_of f (Suc n) w) [0..<k]) = take (k * nat (lfl_Limit f)) ?xs"
    by (subst concat_chunks [symmetric]) (auto intro!: arg_cong [where f = concat])
  moreover have "length ?xs \<le> k * nat (lfl_Limit f)"
  proof -
    have "int (length ?xs) \<le> int (k * nat (lfl_Limit f))"
      using enough limit by (simp add: sort_desc_def count_rows_def)
    then show ?thesis by linarith
  qed
  ultimately show ?thesis using list_quiet [OF quiet limit le] by auto
qed

theorem pages_cover_list_witness:
  "concat (map (\<lambda>n. page_of \<lparr> lfl_Role = [], lfl_Search = [], lfl_Status = ''active'', lfl_Page = 1, lfl_Limit = 2 \<rparr>
      (Suc n) (demo_world two_admins)) [0..<2]) = t_users two_admins"
proof -
  let ?f = "\<lparr> lfl_Role = [], lfl_Search = [], lfl_Status = ''active'', lfl_Page = 1, lfl_Limit = 2 \<rparr>"
  have "filter (user_matches ?f) (t_users two_admins) = t_users two_admins"
    "sort_desc usr_CreatedAt (t_users two_admins) = t_users two_admins" "length (t_users two_admins) = 3"
    by (simp_all add: two_admins_simps user_matches_def demo_user_def sort_desc_def)
  with pages_cover_list [of "demo_world two_admins" ?f 2] show ?thesis
    by (simp add: demo_world_def count_rows_def)
qed

section \<open>Details\<close>

lemma atoi_dot: "CHR ''.'' \<in> set s \<Longrightarrow> atoi s = None"
proof -
  have dot: "\<not> is_digit CHR ''.''" by (simp add: is_digit_def in_range_def byte_of_def)
  then have "CHR ''.'' \<in> set t \<Longrightarrow> parse_digits t = None" for t
    by (auto simp: parse_digits_def list_all_iff)
  then show "CHR ''.'' \<in> set s \<Longrightarrow> atoi s = None"
    by (auto simp: atoi_def Let_def split: list.split)
qed

lemma enrollments_part_quiet:
  "script w = [] \<Longrightarrow> \<exists>rs. listEnrollmentsWithProgress u w = (Inr rs, w)"
  by (simp add: listEnrollmentsWithProgress_def progressCompletedByCourse_def lessonTotalByCourse_def
      go_simps Let_def)

lemma listOrders_dot:
  assumes quiet: "script w = []" and some: "r \<in> set (t_orders (db w))" "ord_UserID r = u"
    and dots: "\<And>r. r \<in> set (t_orders (db w)) \<Longrightarrow> ord_UserID r = u \<Longrightarrow> CHR ''.'' \<in> set (ord_Amount r)"
  shows "listOrders u 20 w = (Inl (Plain ''sql: Scan error on column index 4, name amount''), w)"
proof -
  let ?os = "take 20 (sort_desc ord_CreatedAt (filter (\<lambda>r. ord_UserID r = u) (t_orders (db w))))"
  have "set (sort_desc ord_CreatedAt (filter (\<lambda>r. ord_UserID r = u) (t_orders (db w)))) =
      {r \<in> set (t_orders (db w)). ord_UserID r = u}" by (auto simp: sort_desc_def)
  with some dots obtain q qs where q: "?os = q # qs" "CHR ''.'' \<in> set (ord_Amount q)"
    by (cases "sort_desc ord_CreatedAt (filter (\<lambda>r. ord_UserID r = u) (t_orders (db w)))") fastforce+
  then show ?thesis
    using quiet by (simp add: listOrders_def go_simps scan_order_def atoi_dot)
qed

text \<open>C23: the amounts of orders are decimals with a point.  Once a user has an order, the user's own
  profile and the administrator's view of the user are answered with 500: the amount is scanned
  into an integer.\<close>

theorem order_hides_profile:
  assumes quiet: "script w = []" and user: "user_exists (db w) (clm_UserID c)"
    and order: "r \<in> set (t_orders (db w))" "ord_UserID r = clm_UserID c"
    and dots: "\<forall>r \<in> set (t_orders (db w)). CHR ''.'' \<in> set (ord_Amount r)"
  shows "\<exists>e. h_users_getMe (Some c) w = (Inl e, w) \<and> status_of e = 500 \<and>
     (clm_Role a = ''admin'' \<longrightarrow> h_users_getOne (Some a) (clm_UserID c) w = (Inl e, w))"
proof -
  let ?e = "Wrap ''users.repo: find one detail: orders'' (Plain ''sql: Scan error on column index 4, name amount'')"
  define u where "u = clm_UserID c"
  note user = user [folded u_def] and order = order [folded u_def]
  have "first_row (\<lambda>r. usr_ID r = u) (t_users (db w)) \<noteq> None"
    using user unfolding first_row_None by (auto simp: user_exists_def list_ex_iff)
  then obtain x where x: "users_repo_GetByID u w = (Inr x, w)"
    by (auto simp: users_get_quiet [OF quiet])
  obtain rs where rs: "listEnrollmentsWithProgress u w = (Inr rs, w)"
    using enrollments_part_quiet [OF quiet] by blast
  have os: "listOrders u 20 w = (Inl (Plain ''sql: Scan error on column index 4, name amount''), w)"
    by (rule listOrders_dot [OF quiet order]) (use dots in blast)
  have "users_GetDetail u w = (Inl (Internal ''get user detail'' ?e), w)"
    by (simp add: users_GetDetail_def FindOneDetail_def detail_error_def call_run x rs os fail_run)
  then show ?thesis
    unfolding u_def [symmetric]
    by (simp add: u_def [symmetric] h_users_getMe_def h_users_getOne_def admin_only_def RequireRole_def with_claims_def
        go_simps)
qed

theorem order_hides_profile_witness:
  "\<exists>e. h_users_getMe (Some (demo_claims ''u1'' ''student''))
     (demo_world (demo_database [demo_order ''o1'' OrdersStatusPaid] [])) =
     (Inl e, demo_world (demo_database [demo_order ''o1'' OrdersStatusPaid] [])) \<and> status_of e = 500"
  using order_hides_profile [of "demo_world (demo_database [demo_order ''o1'' OrdersStatusPaid] [])"
      "demo_claims ''u1'' ''student''" "demo_order ''o1'' OrdersStatusPaid"]
  by (fastforce simp: demo_world_def demo_database_def user_exists_def demo_user_def demo_claims_def)

end
