(* ===== verification/UserScope.thy ===== *)
theory UserScope
  imports UserFacts
begin

text \<open>
  Who reaches what through the user endpoints: a member only the profile fields and the password
  of the own account; everybody together never an account's identity.
\<close>

section \<open>What a member's request does\<close>

definition same_identity :: "User \<Rightarrow> User \<Rightarrow> bool" where
  "same_identity r s \<longleftrightarrow> usr_ID s = usr_ID r \<and> usr_Email s = usr_Email r \<and> usr_Points s = usr_Points r \<and>
     usr_Level s = usr_Level r \<and> usr_CreatedAt s = usr_CreatedAt r \<and> usr_LastLoginAt s = usr_LastLoginAt r"

definition own_row :: "string \<Rightarrow> User \<Rightarrow> User \<Rightarrow> bool" where
  "own_row u r s \<longleftrightarrow> (usr_ID r \<noteq> u \<longrightarrow> s = r) \<and> same_identity r s \<and>
     usr_Role s = usr_Role r \<and> usr_DeletedAt s = usr_DeletedAt r"

definition own_step :: "string \<Rightarrow> database \<Rightarrow> database \<Rightarrow> bool" where
  "own_step u d d' \<longleftrightarrow> list_all2 (own_row u) (t_users d) (t_users d')"

lemma own_row_refl: "own_row u r r"
  by (simp add: own_row_def same_identity_def)

lemma own_row_trans: "own_row u r s \<Longrightarrow> own_row u s t \<Longrightarrow> own_row u r t"
  by (auto simp: own_row_def same_identity_def)

interpretation own: db_frame "own_step u" for u
proof
  show "own_step u d d" for d by (simp add: own_step_def list_all2_refl own_row_refl)
  show "own_step u d d''" if "own_step u d d'" "own_step u d' d''" for d d' d''
    using that list_all2_trans [of "own_row u" "own_row u" "own_row u"] own_row_trans
    unfolding own_step_def by blast
qed

lemma own_upd:
  "(\<And>r. usr_ID r = u \<Longrightarrow> r \<in> set us \<Longrightarrow> own_row u r (f r)) \<Longrightarrow> list_all2 (own_row u) us (upd (\<lambda>r. usr_ID r = u) f us)"
  by (induction us) (auto simp: own_row_refl)

lemma own_stmts:
  "stmt_ok (own_step u) (sql_update_password h b now u)" "stmt_ok (own_step u) (sql_revoke_all u')"
  "stmt_ok (own_step u) (insert_audit_log a)"
  by (auto simp: stmt_ok_def own_step_def sql_update_password_def sql_revoke_all_def insert_audit_log_def
      list_all2_refl own_row_refl split: if_splits intro!: own_upd) (simp_all add: own_row_def same_identity_def)

text \<open>The role of the account.\<close>

definition has_role :: "string \<Rightarrow> string \<Rightarrow> database \<Rightarrow> bool" where
  "has_role u role d \<longleftrightarrow> (\<forall>r \<in> set (t_users d). usr_ID r = u \<longrightarrow> usr_Role r = role)"

lemma own_keeps_role:
  "list_all2 (own_row u) us vs \<Longrightarrow> \<forall>r \<in> set us. usr_ID r = u \<longrightarrow> usr_Role r = role \<Longrightarrow>
   \<forall>r \<in> set vs. usr_ID r = u \<longrightarrow> usr_Role r = role"
  by (induction rule: list_all2_induct) (auto simp: own_row_def same_identity_def)

lemma has_role_stable: "stable (own_step u) (has_role u role)"
  using own_keeps_role by (auto simp: stable_def has_role_def own_step_def)

lemma rg_get_user:
  "rg (own_step u) (has_role u role) (users_repo_GetByID u)
     (\<lambda>x d. has_role u role d \<and> (\<forall>r. x = Inr r \<longrightarrow> usr_Role r = role))"
  unfolding users_repo_GetByID_def q_GetUserByID_def query_one_def
  by (rule own.rg_call [OF own.rg_exec [OF has_role_stable,
        where Q = "\<lambda>x d. has_role u role d \<and> (\<forall>r. x = Inr r \<longrightarrow> usr_Role r = role)"]])
    (auto simp: own.db_refl has_role_def own.rg_if own.rg_fail own.rg_ret dest: first_row_Some
      split: option.splits intro!: own.rg_fail own.rg_ret)

lemma rg_update:
  assumes "upp_Role p = role"
  shows "rg (own_step u) (has_role u role) (users_repo_Update u p) (\<lambda>_. has_role u role)"
proof -
  have st: "rg (own_step u) (has_role u role) (q_UpdateUser p now u) (\<lambda>_. has_role u role)" for now
    unfolding q_UpdateUser_def
  proof (rule own.rg_exec [OF has_role_stable])
    fix d x d' assume d: "has_role u role d" and run: "sql_update_user p now u d = Inr (x, d')"
    then have "own_step u d d'"
      using assms by (auto simp: sql_update_user_def own_step_def has_role_def own_row_def same_identity_def
          split: if_splits intro!: own_upd)
    with d has_role_stable show "own_step u d d' \<and> has_role u role d'" unfolding stable_def by blast
  qed simp
  show ?thesis
    unfolding users_repo_Update_def bind_def
    by (rule own.rg_call [OF own.rg_of_within [OF own.within_pure(1) has_role_stable]])
      (auto intro!: own.rg_fail own.rg_call [OF st] own.rg_ret)
qed

lemma rg_checked:
  "rg (own_step u) (has_role u role) k (\<lambda>_ _. True) \<Longrightarrow> rg (own_step u) (has_role u role) (checked c k) (\<lambda>_ _. True)"
  "rg (own_step u) (has_role u role) k (\<lambda>_ _. True) \<Longrightarrow> rg (own_step u) (has_role u role) (checked_opt f x k) (\<lambda>_ _. True)"
  by (auto simp: checked_def checked_opt_def intro!: own.rg_fail split: option.split)

lemma rg_own_within:
  "within (db_step (own_step u)) m \<Longrightarrow> rg (own_step u) (has_role u role) m (\<lambda>_ _. True)"
  by (rule rg_conseq [OF own.rg_of_within [OF _ has_role_stable]]) auto

lemma own_within:
  "within (db_step (own_step u)) (users_writeAudit a)" "within (db_step (own_step u)) (users_revokeAll v)"
  "within (db_step (own_step u)) (users_repo_GetByID v)"
  "within (db_step (own_step u)) (users_repo_UpdatePassword u h b)"
  "within (db_step (own_step u)) (users_hash s p)"
  unfolding users_writeAudit_def users_repo_WriteAuditLog_def q_WriteAuditLog_def users_revokeAll_def
    users_repo_GetByID_def q_GetUserByID_def users_repo_UpdatePassword_def q_UpdateUserPassword_def
    users_hash_def bcrypt_hash_def
  by (intro own.within_intros own_stmts)+

lemma own_update:
  assumes "upi_Role i = None"
  shows "rg (own_step u) (has_role u role) (users_Update u i uc) (\<lambda>_ _. True)"
  unfolding users_Update_def lookup_user_def
proof (intro own.rg_if own.rg_fail rg_checked own.rg_call [OF rg_get_user])
  fix before :: User
  show "rg (own_step u) (\<lambda>d. has_role u role d \<and> (\<forall>r. Inr before = Inr r \<longrightarrow> usr_Role r = role))
      (call (users_repo_Update u (patch_of before i)) (\<lambda>e. fail (Internal ''update user'' e))
       (\<lambda>_. call (users_repo_GetByID u) (\<lambda>e. fail (Internal ''reload user'' e))
       (\<lambda>after. ignoring (users_writeAudit (user_audit (upc_ActorUserID uc) ''USER_UPDATE'' u (auditDetails before after)))
               (ret after)))) (\<lambda>_ _. True)"
  proof (cases "usr_Role before = role")
    case True
    then have "upp_Role (patch_of before i) = role" using assms by (simp add: patch_of_def)
    then show ?thesis
      by (intro rg_conseq [OF own.rg_call [OF rg_update, where Q = "\<lambda>_ _. True"]] rg_own_within
          own.within_intros own_within) auto
  qed (auto intro: rg_False)
qed simp_all

lemma own_password: "within (db_step (own_step u)) (users_ChangePassword s u c f)"
  unfolding users_ChangePassword_def lookup_user_def checked_def
  by (intro own.within_intros own_within)

lemma own_step_quiet:
  assumes "script w = []" "no_conflicts usr_conflict (t_users (db w))"
    and "\<And>role. rg (own_step u) (has_role u role) m (\<lambda>_ _. True)"
  shows "own_step u (db w) (db (snd (m w)))"
proof -
  have ids: "distinct (map usr_ID (t_users (db w)))"
    by (rule no_conflicts_distinct [OF assms(2)]) (simp add: usr_conflict_def)
  obtain role where "has_role u role (db w)"
  proof (cases "first_row (\<lambda>r. usr_ID r = u) (t_users (db w))")
    case None
    then show ?thesis using that unfolding first_row_None has_role_def by blast
  next
    case (Some r)
    with ids show ?thesis
      by (intro that [of "usr_Role r"]) (auto simp: has_role_def dest: first_row_Some distinct_key_unique)
  qed
  moreover have "rely_ok (own_step u) w" by (simp add: rely_ok_def assms(1))
  ultimately show ?thesis using assms(3) db_step_rely unfolding rg_def by blast
qed

text \<open>C22: whoever is not an administrator: every administration endpoint refuses with 403 and changes
  nothing; updating a profile (any id, any fields) and changing the password touch no row but the
  caller's own, and of that neither id, e-mail, role, points nor the disabled mark.\<close>

theorem member_scope:
  assumes member: "clm_Role c \<noteq> ''admin''" and quiet: "script w = []"
    and keys: "no_conflicts usr_conflict (t_users (db w))"
  shows "h_users_list (Some c) q w = (Inl (Forbidden ''insufficient role''), w) \<and>
     h_users_getOne (Some c) u w = (Inl (Forbidden ''insufficient role''), w) \<and>
     h_users_create s (Some c) ib w = (Inl (Forbidden ''insufficient role''), w) \<and>
     h_users_resetPassword s (Some c) u w = (Inl (Forbidden ''insufficient role''), w) \<and>
     h_users_disable (Some c) u w = (Inl (Forbidden ''insufficient role''), w) \<and>
     h_users_restore (Some c) u w = (Inl (Forbidden ''insufficient role''), w) \<and>
     h_users_grantCourse (Some c) u gb w = (Inl (Forbidden ''insufficient role''), w) \<and>
     h_users_grantDegree (Some c) u gb w = (Inl (Forbidden ''insufficient role''), w) \<and>
     own_step (clm_UserID c) (db w) (db (snd (h_users_update (Some c) u ub w))) \<and>
     own_step (clm_UserID c) (db w) (db (snd (h_users_changePasswordOwn s (Some c) pb w)))"
proof -
  let ?u = "clm_UserID c"
  have pw: "own_step ?u (db w) (db (snd (h_users_changePasswordOwn s (Some c) pb w)))"
    unfolding h_users_changePasswordOwn_def with_claims_def with_body_def case_prod_unfold option.case
    by (rule own_step_quiet [OF quiet keys], rule rg_own_within) (intro own.within_intros own_password)
  have up: "own_step ?u (db w) (db (snd (h_users_update (Some c) u ub w)))"
  proof (cases "\<exists>i. ub = Some i \<and> u = ?u \<and> upi_Role i = None")
    case True
    then obtain i where i: "ub = Some i" "u = ?u" "upi_Role i = None" by blast
    show ?thesis
      unfolding h_users_update_def with_claims_def with_body_def i(1,2) option.case
      by (rule own_step_quiet [OF quiet keys], rule own.rg_call [OF own_update [OF i(3)]],
          rule own.rg_fail, simp, rule own.rg_ret, simp)
  next
    case False
    then have "snd (h_users_update (Some c) u ub w) = w"
      using member by (cases ub) (auto simp: h_users_update_def with_claims_def with_body_def users_Update_def go_simps)
    then show ?thesis by (simp add: own.db_refl)
  qed
  show ?thesis
    using member pw up
    by (simp add: h_users_list_def h_users_getOne_def h_users_create_def h_users_resetPassword_def
        h_users_disable_def h_users_restore_def h_users_grantCourse_def h_users_grantDegree_def
        admin_only_def RequireRole_def go_simps)
qed

theorem member_scope_witness:
  "own_step ''u1'' two_admins (db (snd (h_users_update (Some (demo_claims ''u1'' ''student'')) ''a''
     (Some \<lparr> upi_Name = Some ''x'', upi_AvatarURL = None, upi_Role = Some ''student'' \<rparr>) (demo_world two_admins))))"
proof -
  have "clm_Role (demo_claims ''u1'' ''student'') \<noteq> ''admin''" "clm_UserID (demo_claims ''u1'' ''student'') = ''u1''"
    by (simp_all add: demo_claims_def)
  moreover have "script (demo_world two_admins) = []" "db (demo_world two_admins) = two_admins"
    by (simp_all add: demo_world_def)
  ultimately show ?thesis
    using member_scope [of "demo_claims ''u1'' ''student''" "demo_world two_admins"] two_admins_keys by metis
qed

section \<open>Accounts stay\<close>

definition account_next :: "User \<Rightarrow> User \<Rightarrow> bool" where
  "account_next r s \<longleftrightarrow> same_identity r s"

definition accounts_kept :: "database \<Rightarrow> database \<Rightarrow> bool" where
  "accounts_kept d e \<longleftrightarrow>
     (no_conflicts usr_conflict (t_users d) \<longrightarrow> no_conflicts usr_conflict (t_users e)) \<and>
     evolve account_next (t_users d) (t_users e)"

interpretation account_rows: row_life account_next
  by unfold_locales (auto simp: account_next_def same_identity_def)

interpretation accounts_kept: db_frame accounts_kept
  by unfold_locales (auto simp: accounts_kept_def account_rows.evolve_refl intro: account_rows.evolve_trans)

lemma kept_upd:
  assumes "\<And>r. same_identity r (f r)"
  shows "accounts_kept d (d\<lparr>t_users := upd P f (t_users d)\<rparr>)"
proof -
  have "no_conflicts usr_conflict (upd P f us) = no_conflicts usr_conflict us" for us
    by (rule no_conflicts_upd) (use assms in \<open>auto simp: usr_conflict_def same_identity_def\<close>)
  moreover have "evolve account_next us (upd P f us)" for us
    by (rule account_rows.evolve_upd) (simp add: account_next_def assms)
  ultimately show ?thesis by (simp add: accounts_kept_def)
qed

lemma kept_same: "t_users e = t_users d \<Longrightarrow> accounts_kept d e"
  by (simp add: accounts_kept_def account_rows.evolve_refl)

lemma usr_conflict_sym: "usr_conflict r x = usr_conflict x r"
  by (metis usr_conflict_def)

interpretation kept_writes: user_writes accounts_kept
proof unfold_locales
  show "stmt_ok accounts_kept (insert_user r)" for r
    by (auto simp: stmt_ok_def insert_user_def accounts_kept_def account_rows.evolve_append usr_conflict_sym
        intro: no_conflicts_append)
  show "stmt_ok accounts_kept (sql_update_user p now u)" "stmt_ok accounts_kept (sql_update_password h b now u)"
    "stmt_ok accounts_kept (sql_mark_deleted t now u)" for p now u h b t
    by (auto simp: stmt_ok_def sql_update_user_def sql_update_password_def sql_mark_deleted_def same_identity_def
        intro!: kept_upd split: if_splits)
  show "stmt_ok accounts_kept (insert_enrollment e)" "stmt_ok accounts_kept (sql_enr_revive x now src eid)"
    "stmt_ok accounts_kept (sql_revoke_all u)" "stmt_ok accounts_kept (insert_audit_log a)" for e x now src eid u a
    by (auto simp: stmt_ok_def insert_enrollment_def sql_enr_revive_def sql_revoke_all_def insert_audit_log_def
        intro: kept_same split: if_splits)
qed

text \<open>No user endpoint ever removes an account or changes its id, e-mail address, points, level or the times
  of its creation and last login, and no two accounts come to share an id or an address: new accounts
  come behind the stored ones, under connection failures and beside requests that do the same.\<close>

theorem accounts_never_lost:
  assumes "rely_ok accounts_kept w"
  shows "accounts_kept (db w) (db (snd (h_users_create s cl b w))) \<and>
    accounts_kept (db w) (db (snd (h_users_update cl u ub w))) \<and>
    accounts_kept (db w) (db (snd (h_users_changePasswordOwn s cl pb w))) \<and>
    accounts_kept (db w) (db (snd (h_users_resetPassword s cl u w))) \<and>
    accounts_kept (db w) (db (snd (h_users_disable cl u w))) \<and>
    accounts_kept (db w) (db (snd (h_users_restore cl u w))) \<and>
    accounts_kept (db w) (db (snd (h_users_grantCourse cl u gb w))) \<and>
    accounts_kept (db w) (db (snd (h_users_grantDegree cl u gb w)))"
proof -
  have step: "accounts_kept (db w) (db (snd (m w)))" if "within (db_step accounts_kept) m" for m :: "'x io"
    using that assms db_step_rely by (auto simp: within_def)
  show ?thesis by (intro conjI step kept_writes.within_users_endpoints)
qed

theorem accounts_never_lost_witness:
  "accounts_kept (db (demo_world (demo_database [] [])))
     (db (snd (h_users_disable (Some (demo_claims ''a'' ''admin'')) ''u1'' (demo_world (demo_database [] [])))))"
proof -
  have "rely_ok accounts_kept (demo_world (demo_database [] []))" by (simp add: rely_ok_def demo_world_def)
  then show ?thesis using accounts_never_lost by blast
qed

end
