(* ===== verification/Practices.thy ===== *)
theory Practices
  imports Http AuthStore Wiring
begin

text \<open>
  \<open>internal/practices\<close> (repo and service), \<open>internal/repo/db/practices.sql.go\<close> and the endpoints of
  \<open>internal/handler/practices.go\<close>: practice projects of a course and the users' completions of them.
\<close>

abbreviation practices_ErrNotFound :: go_error where
  "practices_ErrNotFound \<equiv> Sentinel ''practices: not found''"

section \<open>Statements\<close>

definition project_difficulties :: "string list" where
  "project_difficulties = [''beginner'', ''intermediate'', ''advanced'', ''expert'']"

definition project_types :: "string list" where
  "project_types = [''model_deployment'', ''model_training'', ''model_inference'', ''api_integration'',
     ''notebook'', ''sandbox'', ''repository'', ''csghub_space'']"

definition ppj_enums_ok :: "PracticeProject \<Rightarrow> bool" where
  "ppj_enums_ok p \<longleftrightarrow> ppj_Difficulty p \<in> set project_difficulties \<and> ppj_ProjectType p \<in> set project_types"

definition project_exists :: "database \<Rightarrow> string \<Rightarrow> bool" where
  "project_exists d p \<longleftrightarrow> list_ex (\<lambda>r. ppj_ID r = p) (t_practice_projects d)"

definition pcm_conflict :: "PracticeCompletion \<Rightarrow> PracticeCompletion \<Rightarrow> bool" where
  "pcm_conflict r x \<longleftrightarrow>
     pcm_ID r = pcm_ID x \<or> (pcm_UserID r = pcm_UserID x \<and> pcm_ProjectID r = pcm_ProjectID x)"

text \<open>\<open>created_at\<close> is left to the server: the clock when the statement runs.\<close>

definition insert_practice_project :: "PracticeProject \<Rightarrow> unit stmt" where
  "insert_practice_project p = (\<lambda>d.
     if \<not> ppj_enums_ok p then Inl ErrTruncated
     else if project_exists d (ppj_ID p) then Inl ErrDuplicate
     else if \<not> course_exists d (ppj_CourseID p) then Inl ErrForeignKey
     else Inr ((), d\<lparr>t_practice_projects := t_practice_projects d @ [p]\<rparr>))"

definition sql_update_project :: "PracticeProject \<Rightarrow> unit stmt" where
  "sql_update_project p = (\<lambda>d.
     if project_exists d (ppj_ID p) \<and> \<not> ppj_enums_ok p then Inl ErrTruncated
     else Inr ((), d\<lparr>t_practice_projects := upd (\<lambda>r. ppj_ID r = ppj_ID p)
            (\<lambda>r. p\<lparr>ppj_CourseID := ppj_CourseID r, ppj_CreatedAt := ppj_CreatedAt r\<rparr>)
            (t_practice_projects d)\<rparr>))"

text \<open>The foreign key cascades to the completions.\<close>

definition sql_delete_project :: "string \<Rightarrow> unit stmt" where
  "sql_delete_project i = (\<lambda>d. Inr ((), d\<lparr>
     t_practice_projects := deleted (\<lambda>r. ppj_ID r = i) (t_practice_projects d),
     t_practice_completions := deleted (\<lambda>r. pcm_ProjectID r = i) (t_practice_completions d)\<rparr>))"

definition insert_completion :: "PracticeCompletion \<Rightarrow> unit stmt" where
  "insert_completion c = (\<lambda>d.
     if list_ex (pcm_conflict c) (t_practice_completions d) then Inl ErrDuplicate
     else if \<not> (user_exists d (pcm_UserID c) \<and> project_exists d (pcm_ProjectID c)) then Inl ErrForeignKey
     else Inr ((), d\<lparr>t_practice_completions := t_practice_completions d @ [c]\<rparr>))"

definition completion_of :: "string \<Rightarrow> string \<Rightarrow> PracticeCompletion \<Rightarrow> bool" where
  "completion_of u p r \<longleftrightarrow> pcm_UserID r = u \<and> pcm_ProjectID r = p"

definition set_completion :: "string \<Rightarrow> int option \<Rightarrow> string option \<Rightarrow> string option \<Rightarrow>
    PracticeCompletion \<Rightarrow> PracticeCompletion" where
  "set_completion st at url notes r =
     r\<lparr>pcm_Status := st, pcm_CompletedAt := at, pcm_SubmissionUrl := url, pcm_Notes := notes\<rparr>"

definition sql_update_completion :: "string \<Rightarrow> int option \<Rightarrow> string option \<Rightarrow> string option \<Rightarrow>
    string \<Rightarrow> string \<Rightarrow> unit stmt" where
  "sql_update_completion st at url notes u p = (\<lambda>d. Inr ((), d\<lparr>t_practice_completions :=
     upd (completion_of u p) (set_completion st at url notes) (t_practice_completions d)\<rparr>))"

definition project_order :: "PracticeProject \<Rightarrow> PracticeProject \<Rightarrow> bool" where
  "project_order r s \<longleftrightarrow> ppj_OrderIndex r < ppj_OrderIndex s \<or>
     (ppj_OrderIndex r = ppj_OrderIndex s \<and> ppj_CreatedAt r \<le> ppj_CreatedAt s)"

definition q_ListPracticeProjectsByCourse :: "string \<Rightarrow> PracticeProject list io" where
  "q_ListPracticeProjectsByCourse c = query (\<lambda>d. take 100 (sort_by project_order
     (filter (\<lambda>r. ppj_CourseID r = c \<and> ppj_IsActive r) (t_practice_projects d))))"

definition q_ListAllPracticeProjectsByCourse :: "string \<Rightarrow> PracticeProject list io" where
  "q_ListAllPracticeProjectsByCourse c = query (\<lambda>d. take 100 (sort_by project_order
     (filter (\<lambda>r. ppj_CourseID r = c) (t_practice_projects d))))"

definition q_GetPracticeProjectByID :: "string \<Rightarrow> PracticeProject io" where
  "q_GetPracticeProjectByID i = query_one (\<lambda>d. first_row (\<lambda>r. ppj_ID r = i) (t_practice_projects d))"

definition q_CreatePracticeProject :: "PracticeProject \<Rightarrow> unit io" where
  "q_CreatePracticeProject p =
     bind go_now (\<lambda>server. exec (insert_practice_project (p\<lparr>ppj_CreatedAt := server\<rparr>)))"

definition q_UpdatePracticeProject :: "PracticeProject \<Rightarrow> unit io" where
  "q_UpdatePracticeProject p = exec (sql_update_project p)"

definition q_DeletePracticeProject :: "string \<Rightarrow> unit io" where
  "q_DeletePracticeProject i = exec (sql_delete_project i)"

definition q_GetActiveEnrollmentForUserCourse :: "string \<Rightarrow> string \<Rightarrow> string io" where
  "q_GetActiveEnrollmentForUserCourse u c = query_one (\<lambda>d. map_option enr_ID (first_row
     (\<lambda>r. enr_UserID r = u \<and> enr_CourseID r = Some c \<and> enr_DeletedAt r = None) (t_enrollments d)))"

definition q_GetPracticeCompletion :: "string \<Rightarrow> string \<Rightarrow> PracticeCompletion io" where
  "q_GetPracticeCompletion u p = query_one (\<lambda>d. first_row (completion_of u p) (t_practice_completions d))"

definition q_CreatePracticeCompletion :: "PracticeCompletion \<Rightarrow> unit io" where
  "q_CreatePracticeCompletion c = exec (insert_completion c)"

definition q_UpdatePracticeCompletion :: "string \<Rightarrow> int option \<Rightarrow> string option \<Rightarrow> string option \<Rightarrow>
    string \<Rightarrow> string \<Rightarrow> unit io" where
  "q_UpdatePracticeCompletion st at url notes u p = exec (sql_update_completion st at url notes u p)"

section \<open>Repo\<close>

definition practices_repo_ListByCourse :: "string \<Rightarrow> PracticeProject list io" where
  "practices_repo_ListByCourse c =
     call (q_ListPracticeProjectsByCourse c) (\<lambda>e. fail (Wrap ''practices.repo: list'' e)) ret"

definition practices_repo_ListAllByCourse :: "string \<Rightarrow> PracticeProject list io" where
  "practices_repo_ListAllByCourse c =
     call (q_ListAllPracticeProjectsByCourse c) (\<lambda>e. fail (Wrap ''practices.repo: list all'' e)) ret"

definition practices_repo_GetByID :: "string \<Rightarrow> PracticeProject io" where
  "practices_repo_GetByID i =
     call (q_GetPracticeProjectByID i)
       (\<lambda>e. if errors_is e ErrNoRows then fail practices_ErrNotFound else fail (Wrap ''practices.repo: get'' e)) ret"

definition practices_repo_GetCourseCostType :: "string \<Rightarrow> string io" where
  "practices_repo_GetCourseCostType c =
     call (query_one (\<lambda>d. map_option (coursesCostType_str \<circ> crs_CostType)
             (first_row (\<lambda>r. crs_ID r = c) (t_courses d))))
       (\<lambda>e. if errors_is e ErrNoRows then ret []
            else fail (Wrap ''practices.repo: get cost type'' e)) ret"

definition practices_repo_HasActiveEnrollment :: "string \<Rightarrow> string \<Rightarrow> bool io" where
  "practices_repo_HasActiveEnrollment u c =
     call (q_GetActiveEnrollmentForUserCourse u c)
       (\<lambda>e. if errors_is e ErrNoRows then ret False
            else fail (Wrap ''practices.repo: enrollment check'' e))
       (\<lambda>_. ret True)"

definition practices_repo_GetCompletion :: "string \<Rightarrow> string \<Rightarrow> PracticeCompletion io" where
  "practices_repo_GetCompletion u p =
     call (q_GetPracticeCompletion u p)
       (\<lambda>e. if errors_is e ErrNoRows then fail practices_ErrNotFound
            else fail (Wrap ''practices.repo: get completion'' e)) ret"

definition new_completion :: "string \<Rightarrow> string \<Rightarrow> string \<Rightarrow> int \<Rightarrow> PracticeCompletion" where
  "new_completion i u p now =
     \<lparr> pcm_ID = i, pcm_UserID = u, pcm_ProjectID = p, pcm_Status = ''in_progress'', pcm_StartedAt = now,
       pcm_CompletedAt = None, pcm_SubmissionUrl = None, pcm_Notes = None, pcm_DeletedAt = None \<rparr>"

definition practices_repo_CreateCompletion :: "string \<Rightarrow> string \<Rightarrow> PracticeCompletion io" where
  "practices_repo_CreateCompletion u p =
     bind new_uuid (\<lambda>i. bind go_now (\<lambda>now.
     call (q_CreatePracticeCompletion (new_completion i u p now))
       (\<lambda>e. fail (Wrap ''practices.repo: create completion'' e))
       (\<lambda>_. practices_repo_GetCompletion u p)))"

record practices_ProjectSummary =
  pps_ID :: string
  pps_Title :: string
  pps_CourseID :: string
  pps_Difficulty :: string
  pps_EstimatedTime :: int
  pps_ProjectType :: string

record UserProgressRow =
  upw_Completion :: PracticeCompletion
  upw_Project :: practices_ProjectSummary

definition project_summary :: "PracticeProject \<Rightarrow> practices_ProjectSummary" where
  "project_summary p =
     \<lparr> pps_ID = ppj_ID p, pps_Title = ppj_Title p, pps_CourseID = ppj_CourseID p,
       pps_Difficulty = ppj_Difficulty p, pps_EstimatedTime = ppj_EstimatedTime p,
       pps_ProjectType = ppj_ProjectType p \<rparr>"

definition progress_join :: "string \<Rightarrow> string \<Rightarrow> database \<Rightarrow> UserProgressRow list" where
  "progress_join u c d = sort_desc (pcm_StartedAt \<circ> upw_Completion)
     [\<lparr> upw_Completion = r, upw_Project = project_summary p \<rparr>.
        r \<leftarrow> t_practice_completions d, p \<leftarrow> t_practice_projects d,
        ppj_ID p = pcm_ProjectID r \<and> pcm_UserID r = u \<and> (c = [] \<or> ppj_CourseID p = c)]"

definition practices_repo_ListUserProgress :: "string \<Rightarrow> string \<Rightarrow> UserProgressRow list io" where
  "practices_repo_ListUserProgress u c =
     call (query (progress_join u c)) (\<lambda>e. fail (Wrap ''practices.repo: list user progress'' e)) ret"

record practices_CourseSummary =
  csm_ID :: string
  csm_Title :: string
  csm_Thumbnail :: string

definition course_summary_of :: "string \<Rightarrow> database \<Rightarrow> practices_CourseSummary option" where
  "course_summary_of i d = (case
     [c. p \<leftarrow> t_practice_projects d, c \<leftarrow> t_courses d, crs_ID c = ppj_CourseID p \<and> ppj_ID p = i] of
       [] \<Rightarrow> None
     | c # cs \<Rightarrow> Some \<lparr> csm_ID = crs_ID c, csm_Title = crs_Title c, csm_Thumbnail = crs_Thumbnail c \<rparr>)"

definition practices_repo_GetCourseSummaryByProject :: "string \<Rightarrow> practices_CourseSummary io" where
  "practices_repo_GetCourseSummaryByProject i =
     call (query_one (course_summary_of i))
       (\<lambda>e. if errors_is e ErrNoRows then fail practices_ErrNotFound
            else fail (Wrap ''practices.repo: get course summary'' e)) ret"

end
