(* ===== verification/PracticeService.thy ===== *)
theory PracticeService
  imports Practices
begin

text \<open>
  \<open>internal/practices/service.go\<close> and \<open>internal/handler/practices.go\<close>: who sees the address of a
  project, who may start, complete and skip one.
\<close>

section \<open>Views\<close>

record ProjectDTO =
  pjd_ID :: string
  pjd_CourseID :: string
  pjd_Title :: string
  pjd_Description :: string
  pjd_ProjectURL :: string
  pjd_ThumbnailURL :: "string option"
  pjd_Difficulty :: string
  pjd_EstimatedTime :: int
  pjd_Tags :: "string option"
  pjd_ProjectType :: string
  pjd_OrderIndex :: int
  pjd_Requirements :: "string option"
  pjd_Objectives :: "string option"
  pjd_IsActive :: bool
  pjd_CreatedAt :: string
  pjd_UpdatedAt :: string

definition toProjectDTO :: "PracticeProject \<Rightarrow> ProjectDTO" where
  "toProjectDTO p =
     \<lparr> pjd_ID = ppj_ID p, pjd_CourseID = ppj_CourseID p, pjd_Title = ppj_Title p,
       pjd_Description = ppj_Description p, pjd_ProjectURL = ppj_ProjectUrl p,
       pjd_ThumbnailURL = ppj_ThumbnailUrl p, pjd_Difficulty = ppj_Difficulty p,
       pjd_EstimatedTime = ppj_EstimatedTime p, pjd_Tags = ppj_Tags p,
       pjd_ProjectType = ppj_ProjectType p, pjd_OrderIndex = ppj_OrderIndex p,
       pjd_Requirements = ppj_Requirements p, pjd_Objectives = ppj_Objectives p,
       pjd_IsActive = ppj_IsActive p, pjd_CreatedAt = fmt_iso (ppj_CreatedAt p),
       pjd_UpdatedAt = fmt_iso (ppj_UpdatedAt p) \<rparr>"

record CompletionDTO =
  pcd_ID :: string
  pcd_UserID :: string
  pcd_ProjectID :: string
  pcd_Status :: string
  pcd_StartedAt :: string
  pcd_CompletedAt :: "string option"
  pcd_SubmissionURL :: "string option"
  pcd_Notes :: "string option"

definition toCompletionDTO :: "PracticeCompletion \<Rightarrow> CompletionDTO" where
  "toCompletionDTO c =
     \<lparr> pcd_ID = pcm_ID c, pcd_UserID = pcm_UserID c, pcd_ProjectID = pcm_ProjectID c,
       pcd_Status = pcm_Status c, pcd_StartedAt = fmt_iso (pcm_StartedAt c),
       pcd_CompletedAt = map_option fmt_iso (pcm_CompletedAt c),
       pcd_SubmissionURL = pcm_SubmissionUrl c, pcd_Notes = pcm_Notes c \<rparr>"

record practices_CourseLite =
  pcl_ID :: string
  pcl_Title :: string
  pcl_Thumbnail :: string

record ProjectWithCourse =
  pwc_Project :: ProjectDTO
  pwc_Course :: practices_CourseLite

record UserProgressDTO =
  upd_Completion :: CompletionDTO
  upd_Project :: practices_ProjectSummary

section \<open>Reading\<close>

text \<open>\<open>enrolled, _ = HasActiveEnrollment(...)\<close>: an error counts as not enrolled.\<close>

definition enrolled_or_false :: "string \<Rightarrow> string \<Rightarrow> (bool \<Rightarrow> 'a io) \<Rightarrow> 'a io" where
  "enrolled_or_false u c k = call (practices_repo_HasActiveEnrollment u c) (\<lambda>_. k False) k"

definition gated :: "bool \<Rightarrow> ProjectDTO \<Rightarrow> ProjectDTO" where
  "gated open_url p = (if open_url then p else p\<lparr>pjd_ProjectURL := []\<rparr>)"

definition practices_ListByCourse :: "string \<Rightarrow> string \<Rightarrow> bool \<Rightarrow> ProjectDTO list io" where
  "practices_ListByCourse c u isAdmin =
     call (practices_repo_ListByCourse c) (\<lambda>e. fail (Internal ''list practices'' e)) (\<lambda>rows.
       if u \<noteq> [] \<and> \<not> isAdmin
       then enrolled_or_false u c (\<lambda>enrolled. ret (map (gated enrolled \<circ> toProjectDTO) rows))
       else ret (map (gated isAdmin \<circ> toProjectDTO) rows))"

definition practices_ListAllByCourse :: "string \<Rightarrow> ProjectDTO list io" where
  "practices_ListAllByCourse c =
     call (practices_repo_ListAllByCourse c) (\<lambda>e. fail (Internal ''list all practices'' e))
       (\<lambda>rows. ret (map toProjectDTO rows))"

definition lookup_project :: "string \<Rightarrow> (PracticeProject \<Rightarrow> 'a io) \<Rightarrow> 'a io" where
  "lookup_project i k =
     call (practices_repo_GetByID i)
       (\<lambda>e. if e = practices_ErrNotFound then fail (NotFound ''Practice project not found'')
            else fail (Internal ''get practice'' e)) k"

definition practices_GetByID :: "string \<Rightarrow> string \<Rightarrow> bool \<Rightarrow> ProjectWithCourse io" where
  "practices_GetByID i u isAdmin =
     lookup_project i (\<lambda>p.
     call (practices_repo_GetCourseSummaryByProject i) (\<lambda>e. fail (Internal ''get course summary'' e)) (\<lambda>s.
       (let course = \<lparr> pcl_ID = csm_ID s, pcl_Title = csm_Title s, pcl_Thumbnail = csm_Thumbnail s \<rparr>
        in if isAdmin then ret \<lparr> pwc_Project = toProjectDTO p, pwc_Course = course \<rparr>
           else enrolled_or_false u (ppj_CourseID p) (\<lambda>enrolled.
             ret \<lparr> pwc_Project = gated enrolled (toProjectDTO p), pwc_Course = course \<rparr>))))"

definition practices_GetUserProgress :: "string \<Rightarrow> string \<Rightarrow> UserProgressDTO list io" where
  "practices_GetUserProgress u c =
     call (practices_repo_ListUserProgress u c) (\<lambda>e. fail (Internal ''list user progress'' e)) (\<lambda>rows.
       ret (map (\<lambda>r. \<lparr> upd_Completion = toCompletionDTO (upw_Completion r),
                        upd_Project = upw_Project r \<rparr>) rows))"

section \<open>Administration\<close>

record practices_APIInput =
  pin_CourseID :: string
  pin_Title :: string
  pin_Description :: string
  pin_ProjectURL :: string
  pin_ThumbnailURL :: string
  pin_Difficulty :: string
  pin_EstimatedTime :: int
  pin_Tags :: string
  pin_ProjectType :: string
  pin_OrderIndex :: int
  pin_Requirements :: string
  pin_Objectives :: string
  pin_IsActive :: "bool option"

definition validDifficulty :: "string \<Rightarrow> bool" where
  "validDifficulty s \<longleftrightarrow> s \<in> set project_difficulties"

definition validProjectType :: "string \<Rightarrow> bool" where
  "validProjectType s \<longleftrightarrow> s \<in> set project_types"

text \<open>The row \<open>Create\<close> builds; its creation time stays Go's zero time, also in the answer.\<close>

definition project_row :: "string \<Rightarrow> practices_APIInput \<Rightarrow> int \<Rightarrow> PracticeProject" where
  "project_row i a now =
     \<lparr> ppj_ID = i, ppj_CourseID = pin_CourseID a, ppj_Title = pin_Title a,
       ppj_Description = pin_Description a, ppj_ProjectUrl = pin_ProjectURL a,
       ppj_ThumbnailUrl = non_empty (pin_ThumbnailURL a), ppj_Difficulty = pin_Difficulty a,
       ppj_EstimatedTime = pin_EstimatedTime a, ppj_Tags = non_empty (pin_Tags a),
       ppj_ProjectType = pin_ProjectType a, ppj_OrderIndex = pin_OrderIndex a,
       ppj_Requirements = non_empty (pin_Requirements a), ppj_Objectives = non_empty (pin_Objectives a),
       ppj_IsActive = (pin_IsActive a \<noteq> Some False), ppj_CreatedAt = zero_time, ppj_UpdatedAt = now \<rparr>"

definition practices_Create :: "practices_APIInput \<Rightarrow> ProjectDTO io" where
  "practices_Create a =
     (if pin_CourseID a = [] \<or> pin_Title a = [] then fail (BadRequest ''courseId and title required'')
      else if \<not> validDifficulty (pin_Difficulty a)
      then fail (BadRequest ''difficulty must be beginner, intermediate, advanced, or expert'')
      else if \<not> validProjectType (pin_ProjectType a) then fail (BadRequest ''invalid projectType'')
      else call (practices_repo_GetCourseCostType (pin_CourseID a)) (\<lambda>e. fail (Internal ''get course'' e)) (\<lambda>cost.
        if cost = [] then fail (NotFound ''Course not found'')
        else bind go_now (\<lambda>now. bind new_uuid (\<lambda>i.
          call (q_CreatePracticeProject (project_row i a now)) (\<lambda>e. fail (Internal ''create practice'' e))
            (\<lambda>_. ret (toProjectDTO (project_row i a now)))))))"

definition new_or :: "string \<Rightarrow> string \<Rightarrow> string" where
  "new_or x old = (if x \<noteq> [] then x else old)"

definition new_or_opt :: "string \<Rightarrow> string option \<Rightarrow> string option" where
  "new_or_opt x old = (if x \<noteq> [] then Some x else old)"

definition merged_project :: "PracticeProject \<Rightarrow> practices_APIInput \<Rightarrow> int \<Rightarrow> PracticeProject" where
  "merged_project cur a now = cur
     \<lparr> ppj_Title := new_or (pin_Title a) (ppj_Title cur),
       ppj_Description := new_or (pin_Description a) (ppj_Description cur),
       ppj_ProjectUrl := new_or (pin_ProjectURL a) (ppj_ProjectUrl cur),
       ppj_ThumbnailUrl := new_or_opt (pin_ThumbnailURL a) (ppj_ThumbnailUrl cur),
       ppj_Difficulty := new_or (pin_Difficulty a) (ppj_Difficulty cur),
       ppj_EstimatedTime := (if pin_EstimatedTime a \<noteq> 0 then pin_EstimatedTime a else ppj_EstimatedTime cur),
       ppj_Tags := new_or_opt (pin_Tags a) (ppj_Tags cur),
       ppj_ProjectType := new_or (pin_ProjectType a) (ppj_ProjectType cur),
       ppj_OrderIndex := (if pin_OrderIndex a \<noteq> 0 then pin_OrderIndex a else ppj_OrderIndex cur),
       ppj_Requirements := new_or_opt (pin_Requirements a) (ppj_Requirements cur),
       ppj_Objectives := new_or_opt (pin_Objectives a) (ppj_Objectives cur),
       ppj_IsActive := (case pin_IsActive a of Some b \<Rightarrow> b | None \<Rightarrow> ppj_IsActive cur),
       ppj_UpdatedAt := now \<rparr>"

definition practices_Update :: "string \<Rightarrow> practices_APIInput \<Rightarrow> ProjectDTO io" where
  "practices_Update i a = lookup_project i (\<lambda>cur. bind go_now (\<lambda>now.
     call (q_UpdatePracticeProject (merged_project cur a now)) (\<lambda>e. fail (Internal ''update practice'' e))
       (\<lambda>_. ret (toProjectDTO (merged_project cur a now)))))"

definition practices_Delete :: "string \<Rightarrow> unit io" where
  "practices_Delete i = lookup_project i (\<lambda>_.
     call (q_DeletePracticeProject i) (\<lambda>e. fail (Internal ''delete practice'' e)) ret)"

section \<open>Completions\<close>

definition assertCourseAccess :: "string \<Rightarrow> string \<Rightarrow> unit io" where
  "assertCourseAccess u c =
     call (practices_repo_GetCourseCostType c) (\<lambda>e. fail (Internal ''get cost type'' e)) (\<lambda>cost.
       if cost = [] then fail (NotFound ''Course not found'')
       else if cost = ''free'' \<or> cost = ''charity'' then ret ()
       else call (practices_repo_HasActiveEnrollment u c) (\<lambda>e. fail (Internal ''enrollment check'' e)) (\<lambda>enrolled.
         if \<not> enrolled then fail (Forbidden ''Course enrollment required'') else ret ()))"

definition assertProjectAccess :: "string \<Rightarrow> string \<Rightarrow> unit io" where
  "assertProjectAccess u i = lookup_project i (\<lambda>p.
     if \<not> ppj_IsActive p then fail (Forbidden ''This practice project is not active'')
     else assertCourseAccess u (ppj_CourseID p))"

definition StartProject :: "string \<Rightarrow> string \<Rightarrow> CompletionDTO io" where
  "StartProject u i = call (assertProjectAccess u i) fail (\<lambda>_.
     call (practices_repo_GetCompletion u i)
       (\<lambda>e. if e \<noteq> practices_ErrNotFound then fail (Internal ''check existing'' e)
            else call (practices_repo_CreateCompletion u i) (\<lambda>e. fail (Internal ''start practice'' e))
                   (\<lambda>c. ret (toCompletionDTO c)))
       (\<lambda>c. ret (toCompletionDTO c)))"

definition lookup_completion :: "string \<Rightarrow> string \<Rightarrow> (PracticeCompletion \<Rightarrow> 'a io) \<Rightarrow> 'a io" where
  "lookup_completion u i k =
     call (practices_repo_GetCompletion u i)
       (\<lambda>e. if e = practices_ErrNotFound
            then fail (NotFound ''Practice completion not found. Please start the project first.'')
            else fail (Internal ''get completion'' e)) k"

definition CompleteProject :: "string \<Rightarrow> string \<Rightarrow> string \<Rightarrow> string \<Rightarrow> CompletionDTO io" where
  "CompleteProject u i submissionURL notes = call (assertProjectAccess u i) fail (\<lambda>_.
     lookup_completion u i (\<lambda>comp. bind go_now (\<lambda>now.
     call (q_UpdatePracticeCompletion ''completed'' (Some now) (non_empty submissionURL) (non_empty notes) u i)
       (\<lambda>e. fail (Internal ''update completion'' e)) (\<lambda>_.
     call (practices_repo_GetCompletion u i) (\<lambda>e. fail (Internal ''reload completion'' e)) (\<lambda>updated.
     if pcm_Status comp \<noteq> ''completed''
     then bind (go_spawn (PracticeAwardTask u)) (\<lambda>_. ret (toCompletionDTO updated))
     else ret (toCompletionDTO updated))))))"

definition SkipProject :: "string \<Rightarrow> string \<Rightarrow> CompletionDTO io" where
  "SkipProject u i = call (assertProjectAccess u i) fail (\<lambda>_.
     lookup_completion u i (\<lambda>_.
     call (q_UpdatePracticeCompletion ''skipped'' None None None u i)
       (\<lambda>e. fail (Internal ''update completion'' e)) (\<lambda>_.
     call (practices_repo_GetCompletion u i) (\<lambda>e. fail (Internal ''reload completion'' e))
       (\<lambda>updated. ret (toCompletionDTO updated)))))"

section \<open>Endpoints\<close>

text \<open>\<open>GetClaims\<close> after \<open>OptionalAuth\<close>: no claims is an anonymous visitor.\<close>

definition visitor :: "Claims option \<Rightarrow> string \<times> bool" where
  "visitor claims = (case claims of None \<Rightarrow> ([], False) | Some c \<Rightarrow> (clm_UserID c, clm_Role c = ''admin''))"

definition h_practices_list :: "Claims option \<Rightarrow> string \<Rightarrow> ProjectDTO list io" where
  "h_practices_list claims c = practices_ListByCourse c (fst (visitor claims)) (snd (visitor claims))"

definition h_practices_listAccessible :: "Claims option \<Rightarrow> string \<Rightarrow> ProjectDTO list io" where
  "h_practices_listAccessible claims c = with_claims claims (\<lambda>k.
     practices_ListByCourse c (clm_UserID k) (clm_Role k = ''admin''))"

definition h_practices_listAdmin :: "Claims option \<Rightarrow> string \<Rightarrow> ProjectDTO list io" where
  "h_practices_listAdmin claims c = admin_only claims (practices_ListAllByCourse c)"

definition h_practices_get :: "Claims option \<Rightarrow> string \<Rightarrow> ProjectWithCourse io" where
  "h_practices_get claims i = practices_GetByID i (fst (visitor claims)) (snd (visitor claims))"

definition h_practices_userProgress :: "Claims option \<Rightarrow> string \<Rightarrow> UserProgressDTO list io" where
  "h_practices_userProgress claims c = with_claims claims (\<lambda>k. practices_GetUserProgress (clm_UserID k) c)"

definition h_practices_start :: "Claims option \<Rightarrow> string \<Rightarrow> CompletionDTO io" where
  "h_practices_start claims i = with_claims claims (\<lambda>k. StartProject (clm_UserID k) i)"

text \<open>The error of \<open>BodyParser\<close> is dropped: the two fields are as it left them.\<close>

definition h_practices_complete :: "Claims option \<Rightarrow> string \<Rightarrow> string \<Rightarrow> string \<Rightarrow> CompletionDTO io" where
  "h_practices_complete claims i submissionURL notes = with_claims claims (\<lambda>k.
     CompleteProject (clm_UserID k) i submissionURL notes)"

definition h_practices_skip :: "Claims option \<Rightarrow> string \<Rightarrow> CompletionDTO io" where
  "h_practices_skip claims i = with_claims claims (\<lambda>k. SkipProject (clm_UserID k) i)"

definition h_practices_create :: "Claims option \<Rightarrow> practices_APIInput option \<Rightarrow> ProjectDTO io" where
  "h_practices_create claims body = admin_only claims (with_body body practices_Create)"

definition h_practices_update :: "Claims option \<Rightarrow> string \<Rightarrow> practices_APIInput option \<Rightarrow> ProjectDTO io" where
  "h_practices_update claims i body = admin_only claims (with_body body (practices_Update i))"

definition h_practices_delete :: "Claims option \<Rightarrow> string \<Rightarrow> bool io" where
  "h_practices_delete claims i = admin_only claims (call (practices_Delete i) fail (\<lambda>_. ret True))"

end
