(* ===== verification/PracticeFacts.thy ===== *)
theory PracticeFacts
  imports PracticeService Demo
begin

text \<open>
  The practice tables stay well formed under every endpoint; the address of a project reaches only
  administrators and enrolled users; a started project can be completed.
\<close>

section \<open>What the endpoints may do to the database\<close>

locale practice_writes = db_frame +
  assumes ok_insert_project: "stmt_ok R (insert_practice_project p)"
    and ok_update_project: "stmt_ok R (sql_update_project p)"
    and ok_delete_project: "stmt_ok R (sql_delete_project i)"
    and ok_insert_completion: "stmt_ok R (insert_completion (new_completion i u j now))"
    and ok_complete: "stmt_ok R (sql_update_completion ''completed'' (Some now) url nts u i)"
    and ok_skip: "stmt_ok R (sql_update_completion ''skipped'' None None None u i)"
begin

lemma within_practices_repo:
  "within (db_step R) (practices_repo_GetByID i)"
  "within (db_step R) (practices_repo_GetCourseCostType c)"
  "within (db_step R) (practices_repo_HasActiveEnrollment u c)"
  "within (db_step R) (practices_repo_GetCompletion u i)"
  "within (db_step R) (practices_repo_CreateCompletion u i)"
  unfolding practices_repo_GetByID_def practices_repo_GetCourseCostType_def
    practices_repo_HasActiveEnrollment_def practices_repo_GetCompletion_def
    practices_repo_CreateCompletion_def q_GetPracticeProjectByID_def
    q_GetActiveEnrollmentForUserCourse_def q_GetPracticeCompletion_def q_CreatePracticeCompletion_def
  by (intro within_intros ok_insert_completion)+

lemma within_assertProjectAccess: "within (db_step R) (assertProjectAccess u i)"
  unfolding assertProjectAccess_def assertCourseAccess_def lookup_project_def
  by (intro within_intros within_practices_repo)

lemma within_practice_endpoints:
  "within (db_step R) (h_practices_start cl i)"
  "within (db_step R) (h_practices_complete cl i url nts)"
  "within (db_step R) (h_practices_skip cl i)"
  "within (db_step R) (h_practices_create cl b)"
  "within (db_step R) (h_practices_update cl i b)"
  "within (db_step R) (h_practices_delete cl i)"
  unfolding h_practices_start_def h_practices_complete_def h_practices_skip_def h_practices_create_def
    h_practices_update_def h_practices_delete_def StartProject_def CompleteProject_def SkipProject_def
    practices_Create_def practices_Update_def practices_Delete_def lookup_project_def
    lookup_completion_def q_UpdatePracticeCompletion_def q_CreatePracticeProject_def
    q_UpdatePracticeProject_def q_DeletePracticeProject_def
  by (intro http_intros within_practices_repo within_assertProjectAccess ok_insert_project
      ok_update_project ok_delete_project ok_complete ok_skip)+

end

section \<open>Well-formed tables\<close>

definition pcm_ok :: "PracticeCompletion \<Rightarrow> bool" where
  "pcm_ok r \<longleftrightarrow> pcm_Status r \<in> set [''in_progress'', ''completed'', ''skipped''] \<and>
     (pcm_CompletedAt r \<noteq> None \<longleftrightarrow> pcm_Status r = ''completed'') \<and>
     (pcm_Status r \<noteq> ''completed'' \<longrightarrow> pcm_SubmissionUrl r = None \<and> pcm_Notes r = None)"

definition practice_tables :: "database \<Rightarrow> bool" where
  "practice_tables d \<longleftrightarrow>
     distinct (map ppj_ID (t_practice_projects d)) \<and>
     (\<forall>p \<in> set (t_practice_projects d). ppj_enums_ok p) \<and>
     no_conflicts pcm_conflict (t_practice_completions d) \<and>
     (\<forall>r \<in> set (t_practice_completions d). pcm_ok r \<and> project_exists d (pcm_ProjectID r))"

lemma pcm_conflict_sym: "pcm_conflict r x = pcm_conflict x r"
  by (metis pcm_conflict_def)

lemma project_exists_iff: "project_exists d i \<longleftrightarrow> i \<in> ppj_ID ` set (t_practice_projects d)"
  by (auto simp: project_exists_def list_ex_iff)

lemma set_completion_keys:
  "pcm_ID (set_completion st at url nts r) = pcm_ID r"
  "pcm_UserID (set_completion st at url nts r) = pcm_UserID r"
  "pcm_ProjectID (set_completion st at url nts r) = pcm_ProjectID r"
  by (simp_all add: set_completion_def)

lemma completions_kept:
  assumes "\<And>r. pcm_ok (set_completion st at url nts r)"
  shows "stmt_ok (preserves practice_tables) (sql_update_completion st at url nts u i)"
proof -
  have "no_conflicts pcm_conflict (upd (completion_of u i) (set_completion st at url nts) rs)
      = no_conflicts pcm_conflict rs" for rs
    by (rule no_conflicts_upd) (auto simp: pcm_conflict_def set_completion_keys)
  with assms show ?thesis
    by (auto simp: stmt_ok_def preserves_def sql_update_completion_def practice_tables_def
        project_exists_def set_upd set_completion_keys)
qed

lemma project_stmts_kept:
  "stmt_ok (preserves practice_tables) (insert_practice_project p)"
  "stmt_ok (preserves practice_tables) (sql_update_project p)"
  "stmt_ok (preserves practice_tables) (sql_delete_project i)"
proof -
  show "stmt_ok (preserves practice_tables) (insert_practice_project p)"
    by (auto simp: stmt_ok_def preserves_def insert_practice_project_def practice_tables_def
        project_exists_iff split: if_splits)
  define f :: "PracticeProject \<Rightarrow> PracticeProject" where "f = (\<lambda>r. p\<lparr>ppj_CourseID := ppj_CourseID r, ppj_CreatedAt := ppj_CreatedAt r\<rparr>)"
  have ids: "map ppj_ID (upd (\<lambda>r. ppj_ID r = ppj_ID p) f ps) = map ppj_ID ps" for ps
    by (rule map_upd_frame) (simp add: f_def)
  then have same: "ppj_ID ` set (upd (\<lambda>r. ppj_ID r = ppj_ID p) f ps) = ppj_ID ` set ps" for ps
    by (metis set_map)
  have enums: "\<forall>x \<in> set (upd (\<lambda>r. ppj_ID r = ppj_ID p) f ps). ppj_enums_ok x"
    if ps: "\<forall>x \<in> set ps. ppj_enums_ok x" "ppj_ID p \<in> ppj_ID ` set ps \<longrightarrow> ppj_enums_ok p" for ps
  proof
    fix x assume "x \<in> set (upd (\<lambda>r. ppj_ID r = ppj_ID p) f ps)"
    then consider y where "y \<in> set ps" "ppj_ID y = ppj_ID p" "x = f y" | "x \<in> set ps"
      by (auto simp: set_upd)
    then show "ppj_enums_ok x"
    proof cases
      case 1
      then have "ppj_ID p \<in> ppj_ID ` set ps" by (metis imageI)
      with ps(2) 1(3) show ?thesis by (simp add: f_def ppj_enums_ok_def)
    qed (use ps(1) in blast)
  qed
  show "stmt_ok (preserves practice_tables) (sql_update_project p)"
    unfolding stmt_ok_def preserves_def sql_update_project_def f_def [symmetric] practice_tables_def
    by (auto simp: project_exists_iff ids same split: if_splits dest: enums)
  show "stmt_ok (preserves practice_tables) (sql_delete_project i)"
    by (auto simp: stmt_ok_def preserves_def sql_delete_project_def practice_tables_def
        project_exists_iff distinct_deleted no_conflicts_deleted)
qed

lemma completion_inserted:
  "stmt_ok (preserves practice_tables) (insert_completion (new_completion i u p now))"
  by (auto simp: stmt_ok_def preserves_def insert_completion_def practice_tables_def
      no_conflicts_append [OF _ pcm_conflict_sym] project_exists_def new_completion_def pcm_ok_def
      split: if_splits)

interpretation practice_keep: practice_writes "preserves practice_tables"
  by unfold_locales (rule project_stmts_kept completion_inserted completions_kept;
      simp add: pcm_ok_def set_completion_def)+

text \<open>C24: every endpoint that writes practice projects or completions keeps the tables well formed,
  whatever the connection does and other well-behaved requests write in between: a completion is in
  progress, completed or skipped, carries a completion time exactly when completed and a submission
  only then, is the only one of its user and project and belongs to a stored project; difficulties
  and types of projects are among the allowed ones.\<close>

theorem practices_well_typed:
  assumes "rely_ok (preserves practice_tables) w" "practice_tables (db w)"
  shows "practice_tables (db (snd (h_practices_start cl i w))) \<and>
    practice_tables (db (snd (h_practices_complete cl i url nts w))) \<and>
    practice_tables (db (snd (h_practices_skip cl i w))) \<and>
    practice_tables (db (snd (h_practices_create cl b w))) \<and>
    practice_tables (db (snd (h_practices_update cl i b w))) \<and>
    practice_tables (db (snd (h_practices_delete cl i w)))"
  by (intro conjI keeps_run [OF _ assms] practice_keep.within_practice_endpoints)

section \<open>The address of a project\<close>

definition enrolled :: "string \<Rightarrow> string \<Rightarrow> database \<Rightarrow> bool" where
  "enrolled u c d \<longleftrightarrow>
     (\<exists>r \<in> set (t_enrollments d). enr_UserID r = u \<and> enr_CourseID r = Some c \<and> enr_DeletedAt r = None)"

text \<open>Other requests may do anything but enroll the user.\<close>

definition no_new_access :: "string \<Rightarrow> database \<Rightarrow> database \<Rightarrow> bool" where
  "no_new_access u d d' \<longleftrightarrow> (\<forall>c. enrolled u c d' \<longrightarrow> enrolled u c d)"

interpretation access: db_frame "no_new_access u" for u
  by unfold_locales (auto simp: no_new_access_def)

lemma enrolled_has:
  "first_row (\<lambda>r. enr_UserID r = u \<and> enr_CourseID r = Some c \<and> enr_DeletedAt r = None) (t_enrollments d) = None
     \<longleftrightarrow> \<not> enrolled u c d"
  by (auto simp: first_row_None enrolled_def)

lemma rg_has_enrollment:
  "rg (no_new_access u) (no_new_access u d0) (practices_repo_HasActiveEnrollment u c)
     (\<lambda>r d. no_new_access u d0 d \<and> (r = Inr True \<longrightarrow> enrolled u c d0))"
  unfolding practices_repo_HasActiveEnrollment_def q_GetActiveEnrollmentForUserCourse_def query_one_def
proof (rule access.rg_call)
  show "rg (no_new_access u) (no_new_access u d0) (exec (\<lambda>d. case map_option enr_ID (first_row
      (\<lambda>r. enr_UserID r = u \<and> enr_CourseID r = Some c \<and> enr_DeletedAt r = None) (t_enrollments d))
      of None \<Rightarrow> Inl ErrNoRows | Some r \<Rightarrow> Inr (r, d)))
    (\<lambda>r d. no_new_access u d0 d \<and> (isl r \<or> enrolled u c d0))"
  proof (rule access.rg_exec)
    show "stable (no_new_access u) (no_new_access u d0)"
      using access.db_trans by (auto simp: stable_def)
  next
    fix d x d'
    assume "no_new_access u d0 d" "(case map_option enr_ID (first_row (\<lambda>r. enr_UserID r = u \<and>
        enr_CourseID r = Some c \<and> enr_DeletedAt r = None) (t_enrollments d)) of
          None \<Rightarrow> Inl ErrNoRows | Some r \<Rightarrow> Inr (r, d)) = Inr (x, d')"
    moreover from this have "d' = d" "enrolled u c d"
      using enrolled_has [of u c d] by (auto split: option.splits)
    ultimately show "no_new_access u d d' \<and> no_new_access u d0 d' \<and> (isl (Inr x) \<or> enrolled u c d0)"
      using access.db_refl by (auto simp: no_new_access_def)
  qed simp
next
  fix e
  show "rg (no_new_access u) (\<lambda>d. no_new_access u d0 d \<and> (isl (Inl e) \<or> enrolled u c d0))
     (if errors_is e ErrNoRows then ret False else fail (Wrap ''practices.repo: enrollment check'' e))
     (\<lambda>r d. no_new_access u d0 d \<and> (r = Inr True \<longrightarrow> enrolled u c d0))"
    by (intro access.rg_if access.rg_ret access.rg_fail) simp_all
next
  fix x :: string
  show "rg (no_new_access u) (\<lambda>d. no_new_access u d0 d \<and> (isl (Inr x) \<or> enrolled u c d0)) (ret True)
     (\<lambda>r d. no_new_access u d0 d \<and> (r = Inr True \<longrightarrow> enrolled u c d0))"
    by (rule access.rg_ret) simp
qed

lemma stable_access: "stable (no_new_access u) (no_new_access u d0)"
  using access.db_trans by (auto simp: stable_def)

lemma rg_enrolled_or_false:
  assumes "\<And>b. (b \<Longrightarrow> enrolled u c d0) \<Longrightarrow> rg (no_new_access u) (no_new_access u d0) (k b) Q"
  shows "rg (no_new_access u) (no_new_access u d0) (enrolled_or_false u c k) Q"
  unfolding enrolled_or_false_def
proof (rule access.rg_call [OF rg_has_enrollment])
  fix e show "rg (no_new_access u) (\<lambda>d. no_new_access u d0 d \<and> (Inl e = Inr True \<longrightarrow> enrolled u c d0)) (k False) Q"
    by (rule rg_conseq [OF assms]) simp_all
next
  fix b
  show "rg (no_new_access u) (\<lambda>d. no_new_access u d0 d \<and> (Inr b = Inr True \<longrightarrow> enrolled u c d0)) (k b) Q"
  proof (cases "b \<and> \<not> enrolled u c d0")
    case True
    then show ?thesis by (intro rg_False) simp
  next
    case False
    then show ?thesis by (intro rg_conseq [OF assms]) auto
  qed
qed

lemma rg_access_first:
  fixes m :: "'x io"
  assumes "within (db_step (no_new_access u)) m"
    and "\<And>x. rg (no_new_access u) (no_new_access u d0) (k x) Q" "\<And>e. Q (Inl e) = (\<lambda>d. True)"
  shows "rg (no_new_access u) (no_new_access u d0) (call m (\<lambda>e. fail (h e)) k) Q"
  by (rule access.rg_call [OF access.rg_of_within [OF assms(1) stable_access]])
    (auto intro!: access.rg_fail assms(2) simp: assms(3))

lemma gated_url: "pjd_ProjectURL (gated b p) = (if b then pjd_ProjectURL p else [])"
  "pjd_CourseID (gated b p) = pjd_CourseID p"
  by (simp_all add: gated_def)

definition urls_granted :: "string \<Rightarrow> string \<Rightarrow> database \<Rightarrow> ProjectDTO list \<Rightarrow> bool" where
  "urls_granted u c d0 ps \<longleftrightarrow> (\<forall>p \<in> set ps. pjd_ProjectURL p \<noteq> [] \<longrightarrow> enrolled u c d0)"

lemma rg_list_urls:
  "rg (no_new_access u) (no_new_access u d0) (practices_ListByCourse c u False)
     (\<lambda>r d. \<forall>ps. r = Inr ps \<longrightarrow> urls_granted u c d0 ps)"
  unfolding practices_ListByCourse_def practices_repo_ListByCourse_def q_ListPracticeProjectsByCourse_def
  by (rule rg_access_first)
    (auto intro!: access.within_intros access.rg_if rg_enrolled_or_false access.rg_ret
      simp: urls_granted_def gated_url)

lemma rg_get_url:
  "rg (no_new_access u) (no_new_access u d0) (practices_GetByID i u False)
     (\<lambda>r d. \<forall>p. r = Inr p \<longrightarrow> pjd_ProjectURL (pwc_Project p) \<noteq> [] \<longrightarrow>
        enrolled u (pjd_CourseID (pwc_Project p)) d0)"
proof -
  have get: "within (db_step (no_new_access u)) (practices_repo_GetByID i)"
    "within (db_step (no_new_access u)) (practices_repo_GetCourseSummaryByProject i)"
    unfolding practices_repo_GetByID_def q_GetPracticeProjectByID_def
      practices_repo_GetCourseSummaryByProject_def by (intro access.within_intros)+
  show ?thesis
    unfolding practices_GetByID_def lookup_project_def
    by (rule access.rg_call [OF access.rg_of_within [OF get(1) stable_access]],
        auto intro!: access.rg_if access.rg_fail,
        rule rg_access_first [OF get(2)],
        auto intro!: rg_enrolled_or_false access.rg_ret simp: gated_url toProjectDTO_def)
qed

text \<open>C25: a project's address is not shown to a visitor or user who is not an administrator, in a list
  or alone, unless the user was enrolled in the project's course when the request came in: an error
  of the enrollment check hides it, and so it is whatever the connection does and whatever other
  requests write, as long as they do not enroll the user meanwhile.\<close>

theorem project_url_gated:
  assumes visitor: "visitor claims = (u, False)" and rely: "rely_ok (no_new_access u) w"
  shows "(\<forall>ps. fst (h_practices_list claims c w) = Inr ps \<longrightarrow> urls_granted u c (db w) ps) \<and>
    (\<forall>ps. fst (h_practices_listAccessible claims c w) = Inr ps \<longrightarrow> urls_granted u c (db w) ps) \<and>
    (\<forall>p. fst (h_practices_get claims i w) = Inr p \<longrightarrow> pjd_ProjectURL (pwc_Project p) \<noteq> [] \<longrightarrow>
       enrolled u (pjd_CourseID (pwc_Project p)) (db w)) \<and>
    (\<forall>ps. fst (h_practices_listAdmin claims c w) \<noteq> Inr ps)"
proof (intro conjI)
  note run = rely access.db_refl [of u "db w"]
  have list: "\<forall>ps. fst (practices_ListByCourse c u False w) = Inr ps \<longrightarrow> urls_granted u c (db w) ps"
    using rg_list_urls [of u "db w" c] run by (auto simp: rg_def)
  then show "\<forall>ps. fst (h_practices_list claims c w) = Inr ps \<longrightarrow> urls_granted u c (db w) ps"
    by (simp add: h_practices_list_def visitor)
  show "\<forall>ps. fst (h_practices_listAccessible claims c w) = Inr ps \<longrightarrow> urls_granted u c (db w) ps"
    using list visitor
    by (cases claims) (auto simp: h_practices_listAccessible_def with_claims_def visitor_def fail_def)
  show "\<forall>p. fst (h_practices_get claims i w) = Inr p \<longrightarrow> pjd_ProjectURL (pwc_Project p) \<noteq> [] \<longrightarrow>
       enrolled u (pjd_CourseID (pwc_Project p)) (db w)"
    using rg_get_url [of u "db w" i] run by (auto simp: rg_def h_practices_get_def visitor)
  show "\<forall>ps. fst (h_practices_listAdmin claims c w) \<noteq> Inr ps"
    using visitor
    by (cases claims) (auto simp: h_practices_listAdmin_def admin_only_def RequireRole_def visitor_def
        call_def fail_def)
qed

section \<open>A started project can be completed\<close>

definition open_project :: "string \<Rightarrow> string \<Rightarrow> database \<Rightarrow> bool" where
  "open_project u i d \<longleftrightarrow>
     (case first_row (\<lambda>r. ppj_ID r = i) (t_practice_projects d) of None \<Rightarrow> False
      | Some p \<Rightarrow> ppj_IsActive p \<and>
          (case first_row (\<lambda>r. crs_ID r = ppj_CourseID p) (t_courses d) of None \<Rightarrow> False
           | Some c \<Rightarrow> crs_CostType c \<noteq> CoursesCostTypePaid \<or> enrolled u (ppj_CourseID p) d))"

lemma open_frame: "open_project u i (d\<lparr>t_practice_completions := cs\<rparr>) = open_project u i d"
  by (simp add: open_project_def enrolled_def cong: option.case_cong)

lemma open_quiet:
  assumes "script w = []" "open_project u i (db w)"
  shows "assertProjectAccess u i w = (Inr (), w)"
proof -
  from assms(2) obtain p c where p: "first_row (\<lambda>r. ppj_ID r = i) (t_practice_projects (db w)) = Some p" "ppj_IsActive p"
    and c: "first_row (\<lambda>r. crs_ID r = ppj_CourseID p) (t_courses (db w)) = Some c"
    and access: "crs_CostType c \<noteq> CoursesCostTypePaid \<or> enrolled u (ppj_CourseID p) (db w)"
    by (auto simp: open_project_def split: option.splits)
  have "practices_repo_HasActiveEnrollment u (ppj_CourseID p) w = (Inr (enrolled u (ppj_CourseID p) (db w)), w)"
    using assms(1) enrolled_has [of u "ppj_CourseID p" "db w"]
    by (auto simp: practices_repo_HasActiveEnrollment_def q_GetActiveEnrollmentForUserCourse_def go_simps
        errors_is_def split: option.splits)
  with assms(1) p c access show ?thesis
    by (cases "crs_CostType c")
      (auto simp: assertProjectAccess_def lookup_project_def practices_repo_GetByID_def
        q_GetPracticeProjectByID_def assertCourseAccess_def practices_repo_GetCourseCostType_def go_simps)
qed

definition has_completion :: "string \<Rightarrow> string \<Rightarrow> database \<Rightarrow> bool" where
  "has_completion u i d \<longleftrightarrow> (\<exists>r. first_row (completion_of u i) (t_practice_completions d) = Some r)"

lemma get_completion_quiet:
  assumes "script w = []"
  shows "practices_repo_GetCompletion u i w = (case first_row (completion_of u i) (t_practice_completions (db w)) of
     None \<Rightarrow> (Inl practices_ErrNotFound, w) | Some r \<Rightarrow> (Inr r, w))"
  using assms by (auto simp: practices_repo_GetCompletion_def q_GetPracticeCompletion_def go_simps errors_is_def
      split: option.splits)

lemma start_project_quiet:
  assumes quiet: "script w = []" and op: "open_project u i (db w)" and user: "user_exists (db w) u"
    and fresh: "uuid_src w (uuid_ix w) \<notin> pcm_ID ` set (t_practice_completions (db w))"
  obtains dto w' where "StartProject u i w = (Inr dto, w')" "script w' = []" "open_project u i (db w')"
    "has_completion u i (db w')"
proof (cases "first_row (completion_of u i) (t_practice_completions (db w))")
  case (Some r)
  with quiet op have "StartProject u i w = (Inr (toCompletionDTO r), w)"
    by (simp add: StartProject_def go_simps open_quiet get_completion_quiet)
  with Some quiet op that show ?thesis by (simp add: has_completion_def)
next
  case None
  define c where "c = new_completion (uuid_src w (uuid_ix w)) u i (clock w)"
  define v where "v = (tick (w\<lparr>uuid_ix := Suc (uuid_ix w)\<rparr>))\<lparr>db := (db w)\<lparr>t_practice_completions :=
     t_practice_completions (db w) @ [c]\<rparr>\<rparr>"
  have proj: "project_exists (db w) i"
    using op by (auto simp: open_project_def project_exists_def list_ex_iff split: option.splits dest: first_row_Some)
  have clash: "\<not> list_ex (pcm_conflict c) (t_practice_completions (db w))"
    using fresh None by (auto simp: list_ex_iff pcm_conflict_def c_def new_completion_def first_row_None
        completion_of_def image_iff)
  have ins: "insert_completion c (db w) = Inr ((), (db w)\<lparr>t_practice_completions :=
     t_practice_completions (db w) @ [c]\<rparr>)"
    using clash user proj by (simp add: insert_completion_def) (simp add: c_def new_completion_def)
  have row: "first_row (completion_of u i) (t_practice_completions (db v)) = Some c"
    using None by (simp add: v_def first_row_append completion_of_def [abs_def]) (simp add: c_def new_completion_def)
  have v: "script v = []" "open_project u i (db v)"
    using quiet op by (simp_all add: v_def open_frame)
  have "practices_repo_CreateCompletion u i w = (Inr c, v)"
    using quiet ins row v get_completion_quiet [OF v(1), of u i]
    by (simp add: practices_repo_CreateCompletion_def q_CreatePracticeCompletion_def go_simps
        c_def [symmetric] v_def [symmetric])
  with None quiet op have "StartProject u i w = (Inr (toCompletionDTO c), v)"
    by (simp add: StartProject_def go_simps open_quiet get_completion_quiet)
  with row v that show ?thesis by (simp add: has_completion_def)
qed

lemma complete_project_quiet:
  assumes quiet: "script w = []" and op: "open_project u i (db w)" and has: "has_completion u i (db w)"
  shows "\<exists>r v. CompleteProject u i url nts w = (Inr (toCompletionDTO r), v) \<and>
     first_row (completion_of u i) (t_practice_completions (db v)) = Some r \<and>
     pcm_Status r = ''completed'' \<and> pcm_CompletedAt r = Some (clock w) \<and>
     pcm_SubmissionUrl r = non_empty url \<and> pcm_Notes r = non_empty nts"
proof -
  let ?set = "set_completion ''completed'' (Some (clock w)) (non_empty url) (non_empty nts)"
  from has obtain r where r: "first_row (completion_of u i) (t_practice_completions (db w)) = Some r"
    by (auto simp: has_completion_def)
  define v where "v = (tick w)\<lparr>db := (db w)\<lparr>t_practice_completions :=
     upd (completion_of u i) ?set (t_practice_completions (db w))\<rparr>\<rparr>"
  have v: "script v = []" using quiet by (simp add: v_def)
  have row: "first_row (completion_of u i) (t_practice_completions (db v)) = Some (?set r)"
    using r first_row_Some [OF r]
    by (simp add: v_def first_row_upd [where Q = "completion_of u i"] completion_of_def set_completion_keys)
  have run: "CompleteProject u i url nts w = (Inr (toCompletionDTO (?set r)),
     if pcm_Status r \<noteq> ''completed'' then v\<lparr>spawned := spawned v @ [PracticeAwardTask u]\<rparr> else v)"
    using quiet op r row get_completion_quiet [OF v, of u i]
    by (simp add: CompleteProject_def lookup_completion_def q_UpdatePracticeCompletion_def
        sql_update_completion_def go_simps open_quiet get_completion_quiet v_def [symmetric])
  show ?thesis
    by (rule exI [of _ "?set r"], rule exI, intro conjI, rule run) (use row in \<open>simp_all add: set_completion_def\<close>)
qed


section \<open>A concrete school\<close>

definition demo_project :: "string \<Rightarrow> string \<Rightarrow> PracticeProject" where
  "demo_project i c = \<lparr> ppj_ID = i, ppj_CourseID = c, ppj_Title = i, ppj_Description = [],
     ppj_ProjectUrl = ''https://x.io'', ppj_ThumbnailUrl = None, ppj_Difficulty = ''beginner'',
     ppj_EstimatedTime = 30, ppj_Tags = None, ppj_ProjectType = ''notebook'', ppj_OrderIndex = 0,
     ppj_Requirements = None, ppj_Objectives = None, ppj_IsActive = True, ppj_CreatedAt = 0,
     ppj_UpdatedAt = 0 \<rparr>"

definition practice_world :: world where
  "practice_world = demo_world ((demo_database [] [])\<lparr>t_practice_projects :=
     [demo_project ''p1'' ''free'', demo_project ''p2'' ''paid'']\<rparr>)"

lemma practice_world_facts:
  "script practice_world = []" "open_project ''u1'' ''p1'' (db practice_world)"
  "user_exists (db practice_world) ''u1''" "t_practice_completions (db practice_world) = []"
  "practice_tables (db practice_world)" "t_enrollments (db practice_world) = []"
  by (simp_all add: practice_world_def demo_defs demo_project_def open_project_def user_exists_def
      practice_tables_def ppj_enums_ok_def project_difficulties_def project_types_def)

theorem practices_well_typed_witness:
  "practice_tables (db (snd (h_practices_delete (Some (demo_claims ''a'' ''admin'')) ''p1'' practice_world)))"
  using practices_well_typed [OF _ practice_world_facts(5), of "Some (demo_claims ''a'' ''admin'')" "''p1''"]
  by (simp add: rely_ok_def practice_world_facts(1))

theorem project_url_gated_witness:
  "case fst (h_practices_list (Some (demo_claims ''u1'' ''student'')) ''paid'' practice_world) of
     Inl e \<Rightarrow> True | Inr ps \<Rightarrow> list_all (\<lambda>p. pjd_ProjectURL p = []) ps"
  using project_url_gated [of "Some (demo_claims ''u1'' ''student'')" "''u1''" practice_world "''paid''"]
  by (auto simp: visitor_def demo_claims_def rely_ok_def practice_world_facts urls_granted_def enrolled_def
      list_all_iff split: sum.split)


end
