(* ===== verification/Reviews.thy ===== *)
theory Reviews
  imports Http AuthStore Tables Demo
begin

text \<open>
  \<open>internal/reviews/reviews.go\<close>, \<open>internal/repo/db/reviews.sql.go\<close> and \<open>internal/handler/reviews.go\<close>: one
  review per user and course, helpful marks, soft deletion by administrators.
\<close>

abbreviation reviews_ErrNotFound :: go_error where
  "reviews_ErrNotFound \<equiv> Sentinel ''reviews: not found''"

abbreviation ErrOutOfRange :: go_error where
  "ErrOutOfRange \<equiv> Plain ''Error 1690: BIGINT value is out of range''"

section \<open>Statements\<close>

definition rvw_conflict :: "Review \<Rightarrow> Review \<Rightarrow> bool" where
  "rvw_conflict r x \<longleftrightarrow>
     rvw_ID r = rvw_ID x \<or> (rvw_UserID r = rvw_UserID x \<and> rvw_CourseID r = rvw_CourseID x)"

definition insert_review :: "Review \<Rightarrow> unit stmt" where
  "insert_review r = (\<lambda>d.
     if list_ex (rvw_conflict r) (t_reviews d) then Inl ErrDuplicate
     else if \<not> (user_exists d (rvw_UserID r) \<and> course_exists d (rvw_CourseID r)) then Inl ErrForeignKey
     else Inr ((), d\<lparr>t_reviews := t_reviews d @ [r]\<rparr>))"

text \<open>The counter is a 32-bit column; the server refuses to let it overflow.\<close>

definition sql_bump_helpful :: "int \<Rightarrow> string \<Rightarrow> unit stmt" where
  "sql_bump_helpful now i = (\<lambda>d.
     if list_ex (\<lambda>r. rvw_ID r = i \<and> rvw_Helpful r = 2 ^ 31 - 1) (t_reviews d) then Inl ErrOutOfRange
     else Inr ((), d\<lparr>t_reviews := upd (\<lambda>r. rvw_ID r = i)
            (\<lambda>r. r\<lparr>rvw_Helpful := rvw_Helpful r + 1, rvw_UpdatedAt := now\<rparr>) (t_reviews d)\<rparr>))"

definition sql_drop_review :: "int option \<Rightarrow> int \<Rightarrow> string \<Rightarrow> unit stmt" where
  "sql_drop_review t now i = (\<lambda>d. Inr ((), d\<lparr>t_reviews := upd (\<lambda>r. rvw_ID r = i)
     (\<lambda>r. r\<lparr>rvw_DeletedAt := t, rvw_UpdatedAt := now\<rparr>) (t_reviews d)\<rparr>))"

definition q_CreateReview :: "Review \<Rightarrow> unit io" where
  "q_CreateReview r = exec (insert_review (r\<lparr>rvw_Helpful := 0, rvw_DeletedAt := None\<rparr>))"

definition q_GetReviewByID :: "string \<Rightarrow> Review io" where
  "q_GetReviewByID i = query_one (\<lambda>d. first_row (\<lambda>r. rvw_ID r = i) (t_reviews d))"

definition q_GetReviewByUserCourse :: "string \<Rightarrow> string \<Rightarrow> Review io" where
  "q_GetReviewByUserCourse u c =
     query_one (\<lambda>d. first_row (\<lambda>r. rvw_UserID r = u \<and> rvw_CourseID r = c) (t_reviews d))"

definition q_IncrementReviewHelpful :: "int \<Rightarrow> string \<Rightarrow> unit io" where
  "q_IncrementReviewHelpful now i = exec (sql_bump_helpful now i)"

definition q_ListAllReviews :: "string \<Rightarrow> int \<Rightarrow> bool \<Rightarrow> nat \<Rightarrow> Review list io" where
  "q_ListAllReviews c rating onlyDeleted limit = query (\<lambda>d. take limit (sort_desc rvw_CreatedAt
     (filter (\<lambda>r. (c = [] \<or> rvw_CourseID r = c) \<and> (rating = 0 \<or> rvw_Rating r = rating) \<and>
        (\<not> onlyDeleted \<or> rvw_DeletedAt r \<noteq> None)) (t_reviews d))))"

definition q_ListReviewsByCourse :: "string \<Rightarrow> nat \<Rightarrow> Review list io" where
  "q_ListReviewsByCourse c limit = query (\<lambda>d. take limit (sort_desc rvw_CreatedAt
     (filter (\<lambda>r. rvw_CourseID r = c \<and> rvw_DeletedAt r = None) (t_reviews d))))"

definition q_SoftDeleteReview :: "int option \<Rightarrow> int \<Rightarrow> string \<Rightarrow> unit io" where
  "q_SoftDeleteReview t now i = exec (sql_drop_review t now i)"

section \<open>Repo\<close>

definition reviews_repo_ListByCourse :: "string \<Rightarrow> nat \<Rightarrow> Review list io" where
  "reviews_repo_ListByCourse c limit =
     call (q_ListReviewsByCourse c limit) (\<lambda>e. fail (Wrap ''reviews.repo: list by course'' e)) ret"

definition reviews_repo_GetByID :: "string \<Rightarrow> Review io" where
  "reviews_repo_GetByID i =
     call (q_GetReviewByID i)
       (\<lambda>e. if errors_is e ErrNoRows then fail reviews_ErrNotFound else fail (Wrap ''reviews.repo: get'' e)) ret"

definition reviews_repo_FindByUserCourse :: "string \<Rightarrow> string \<Rightarrow> Review io" where
  "reviews_repo_FindByUserCourse u c =
     call (q_GetReviewByUserCourse u c)
       (\<lambda>e. if errors_is e ErrNoRows then fail reviews_ErrNotFound else fail (Wrap ''reviews.repo: find'' e)) ret"

definition reviews_repo_IncrementHelpful :: "string \<Rightarrow> unit io" where
  "reviews_repo_IncrementHelpful i = bind go_now (\<lambda>now. q_IncrementReviewHelpful now i)"

definition reviews_repo_SoftDelete :: "string \<Rightarrow> unit io" where
  "reviews_repo_SoftDelete i = bind go_now (\<lambda>now. q_SoftDeleteReview (Some now) now i)"

definition reviews_repo_ListAll :: "string \<Rightarrow> int \<Rightarrow> bool \<Rightarrow> nat \<Rightarrow> Review list io" where
  "reviews_repo_ListAll c rating onlyDeleted limit =
     call (q_ListAllReviews c rating onlyDeleted limit) (\<lambda>e. fail (Wrap ''reviews.repo: list all'' e)) ret"

section \<open>Service\<close>

record ReviewDTO =
  rvd_ID :: string
  rvd_UserID :: string
  rvd_CourseID :: string
  rvd_Rating :: int
  rvd_Content :: string
  rvd_Helpful :: int
  rvd_CreatedAt :: string
  rvd_UpdatedAt :: string

definition toReviewDTO :: "Review \<Rightarrow> ReviewDTO" where
  "toReviewDTO r =
     \<lparr> rvd_ID = rvw_ID r, rvd_UserID = rvw_UserID r, rvd_CourseID = rvw_CourseID r,
       rvd_Rating = rvw_Rating r, rvd_Content = rvw_Content r, rvd_Helpful = rvw_Helpful r,
       rvd_CreatedAt = fmt_iso (rvw_CreatedAt r), rvd_UpdatedAt = fmt_iso (rvw_UpdatedAt r) \<rparr>"

definition reviews_ListByCourse :: "string \<Rightarrow> ReviewDTO list io" where
  "reviews_ListByCourse c =
     call (reviews_repo_ListByCourse c 100) (\<lambda>e. fail (Internal ''list reviews'' e))
       (\<lambda>rows. ret (map toReviewDTO rows))"

definition new_review :: "string \<Rightarrow> string \<Rightarrow> string \<Rightarrow> int \<Rightarrow> string \<Rightarrow> int \<Rightarrow> Review" where
  "new_review i u c rating content now =
     \<lparr> rvw_ID = i, rvw_UserID = u, rvw_CourseID = c, rvw_Rating = rating, rvw_Content = content,
       rvw_Helpful = 0, rvw_DeletedAt = None, rvw_CreatedAt = now, rvw_UpdatedAt = now \<rparr>"

definition reviews_Create :: "string \<Rightarrow> string \<Rightarrow> int \<Rightarrow> string \<Rightarrow> ReviewDTO io" where
  "reviews_Create u c rating content =
     (if rating < 1 \<or> 5 < rating then fail (BadRequest ''rating must be 1-5'')
      else if content = [] then fail (BadRequest ''content required'')
      else call (reviews_repo_FindByUserCourse u c)
        (\<lambda>e. if \<not> errors_is e reviews_ErrNotFound then fail (Internal ''check existing'' e)
             else bind go_now (\<lambda>now. bind new_uuid (\<lambda>i.
               call (q_CreateReview (new_review i u c rating content now))
                 (\<lambda>e. fail (Internal ''create review'' e)) (\<lambda>_.
               call (reviews_repo_GetByID i) (\<lambda>e. fail (Internal ''reload review'' e))
                 (\<lambda>r. ret (toReviewDTO r))))))
        (\<lambda>existing. ret (toReviewDTO existing)))"

definition lookup_review :: "string \<Rightarrow> (Review \<Rightarrow> 'a io) \<Rightarrow> 'a io" where
  "lookup_review i k =
     call (reviews_repo_GetByID i)
       (\<lambda>e. if e = reviews_ErrNotFound then fail (NotFound ''Review not found'')
            else fail (Internal ''get review'' e)) k"

definition MarkHelpful :: "string \<Rightarrow> string \<Rightarrow> ReviewDTO io" where
  "MarkHelpful u i = lookup_review i (\<lambda>r.
     if rvw_DeletedAt r \<noteq> None then fail (NotFound ''Review not found'')
     else call (reviews_repo_IncrementHelpful i) (\<lambda>e. fail (Internal ''increment helpful'' e)) (\<lambda>_.
          call (reviews_repo_GetByID i) (\<lambda>e. fail (Internal ''reload review'' e))
            (\<lambda>r. ret (toReviewDTO r))))"

definition reviews_ListAll :: "string \<Rightarrow> int \<Rightarrow> bool \<Rightarrow> ReviewDTO list io" where
  "reviews_ListAll c rating onlyDeleted =
     call (reviews_repo_ListAll c rating onlyDeleted 500) (\<lambda>e. fail (Internal ''list all'' e))
       (\<lambda>rows. ret (map toReviewDTO rows))"

definition reviews_SoftDelete :: "string \<Rightarrow> unit io" where
  "reviews_SoftDelete i = lookup_review i (\<lambda>_.
     call (reviews_repo_SoftDelete i) (\<lambda>e. fail (Internal ''soft delete'' e)) ret)"

section \<open>Endpoints\<close>

definition h_reviews_listByCourse :: "string \<Rightarrow> ReviewDTO list io" where
  "h_reviews_listByCourse c = reviews_ListByCourse c"

definition h_reviews_create :: "Claims option \<Rightarrow> string \<Rightarrow> (int \<times> string) option \<Rightarrow> ReviewDTO io" where
  "h_reviews_create claims c body = with_claims claims (\<lambda>k. with_body body (\<lambda>(rating, content).
     reviews_Create (clm_UserID k) c rating content))"

definition h_reviews_helpful :: "Claims option \<Rightarrow> string \<Rightarrow> ReviewDTO io" where
  "h_reviews_helpful claims i = with_claims claims (\<lambda>k. MarkHelpful (clm_UserID k) i)"

definition h_reviews_listAll :: "Claims option \<Rightarrow> (string \<Rightarrow> string) \<Rightarrow> ReviewDTO list io" where
  "h_reviews_listAll claims q = admin_only claims
     (reviews_ListAll (q ''courseId'') (wrap32 (query_int (q ''rating'') 0)) (query_bool (q ''onlyDeleted'') False))"

definition h_reviews_softDelete :: "Claims option \<Rightarrow> string \<Rightarrow> bool io" where
  "h_reviews_softDelete claims i = admin_only claims (call (reviews_SoftDelete i) fail (\<lambda>_. ret True))"

section \<open>Well-formed reviews\<close>

lemma new_review_update:
  "(new_review i u c rating content now)\<lparr>rvw_Helpful := 0, rvw_DeletedAt := None\<rparr> =
     new_review i u c rating content now"
  by (simp add: new_review_def)

locale review_writes = db_frame +
  assumes ok_insert_review: "1 \<le> rating \<Longrightarrow> rating \<le> 5 \<Longrightarrow> content \<noteq> [] \<Longrightarrow>
      stmt_ok R (insert_review (new_review i u c rating content now))"
    and ok_bump_helpful: "stmt_ok R (sql_bump_helpful now i)"
    and ok_drop_review: "stmt_ok R (sql_drop_review t now i)"
begin

lemma within_reviews_repo:
  "within (db_step R) (reviews_repo_GetByID i)"
  "within (db_step R) (reviews_repo_FindByUserCourse u c)"
  "within (db_step R) (reviews_repo_IncrementHelpful i)"
  "within (db_step R) (reviews_repo_SoftDelete i)"
  unfolding reviews_repo_GetByID_def q_GetReviewByID_def reviews_repo_FindByUserCourse_def
    q_GetReviewByUserCourse_def reviews_repo_IncrementHelpful_def q_IncrementReviewHelpful_def
    reviews_repo_SoftDelete_def q_SoftDeleteReview_def
  by (intro within_intros ok_bump_helpful ok_drop_review)+

lemma within_create_review:
  "\<not> (rating < 1 \<or> 5 < rating) \<Longrightarrow> content \<noteq> [] \<Longrightarrow>
    within (db_step R) (q_CreateReview (new_review i u c rating content now))"
  unfolding q_CreateReview_def new_review_update by (intro within_exec ok_insert_review) auto

lemma within_review_endpoints:
  "within (db_step R) (h_reviews_create cl c b)"
  "within (db_step R) (h_reviews_helpful cl i)"
  "within (db_step R) (h_reviews_softDelete cl i)"
  unfolding h_reviews_create_def h_reviews_helpful_def h_reviews_softDelete_def reviews_Create_def
    MarkHelpful_def reviews_SoftDelete_def lookup_review_def case_prod_unfold
  by (intro http_intros within_reviews_repo within_create_review | assumption)+

end

definition rvw_ok :: "Review \<Rightarrow> bool" where
  "rvw_ok r \<longleftrightarrow> 1 \<le> rvw_Rating r \<and> rvw_Rating r \<le> 5 \<and> rvw_Content r \<noteq> [] \<and>
     0 \<le> rvw_Helpful r \<and> rvw_Helpful r < 2 ^ 31"

definition review_table :: "database \<Rightarrow> bool" where
  "review_table d \<longleftrightarrow> no_conflicts rvw_conflict (t_reviews d) \<and> list_all rvw_ok (t_reviews d)"

lemma review_table_stmts:
  "1 \<le> rating \<Longrightarrow> rating \<le> 5 \<Longrightarrow> content \<noteq> [] \<Longrightarrow>
     stmt_ok (preserves review_table) (insert_review (new_review i u c rating content now))"
  "stmt_ok (preserves review_table) (sql_bump_helpful now i)"
  "stmt_ok (preserves review_table) (sql_drop_review t now i)"
proof -
  have sym: "rvw_conflict r x = rvw_conflict x r" for r x by (metis rvw_conflict_def)
  show "stmt_ok (preserves review_table) (insert_review (new_review i u c rating content now))"
    if "1 \<le> rating" "rating \<le> 5" "content \<noteq> []"
    using that by (auto simp: stmt_ok_def preserves_def insert_review_def review_table_def
        no_conflicts_append [OF _ sym] rvw_ok_def new_review_def split: if_splits)
  have keys: "no_conflicts rvw_conflict (upd P f rs) = no_conflicts rvw_conflict rs"
    if "\<And>r. rvw_ID (f r) = rvw_ID r \<and> rvw_UserID (f r) = rvw_UserID r \<and> rvw_CourseID (f r) = rvw_CourseID r"
    for P f rs using that by (intro no_conflicts_upd) (simp add: rvw_conflict_def)
  show "stmt_ok (preserves review_table) (sql_bump_helpful now i)"
    by (fastforce simp: stmt_ok_def preserves_def sql_bump_helpful_def review_table_def keys list_all_iff
        list_ex_iff set_upd rvw_ok_def split: if_splits)
  show "stmt_ok (preserves review_table) (sql_drop_review t now i)"
    by (fastforce simp: stmt_ok_def preserves_def sql_drop_review_def review_table_def keys list_all_iff
        set_upd rvw_ok_def)
qed

interpretation review_keep: review_writes "preserves review_table"
  by unfold_locales (simp_all add: review_table_stmts)

text \<open>Every review endpoint keeps the reviews well formed under failures and well-behaved
  interference: at most one review, deleted or not, per user and course, ratings from 1 to 5, a text,
  and a count of helpful marks that fits its 32-bit column.\<close>

theorem reviews_well_typed:
  assumes "rely_ok (preserves review_table) w" "review_table (db w)"
  shows "review_table (db (snd (h_reviews_create cl c b w))) \<and>
    review_table (db (snd (h_reviews_helpful cl i w))) \<and>
    review_table (db (snd (h_reviews_softDelete cl i w)))"
  by (intro conjI keeps_run [OF _ assms] review_keep.within_review_endpoints)

section \<open>A removed review\<close>

text \<open>Once an administrator has removed a user's review of a course, a new one is answered with
  the removed one as if it had been stored, nothing is written, and the course's list does not show
  it.\<close>

theorem removed_review_blocks:
  assumes quiet: "script w = []" and r: "first_row (\<lambda>r. rvw_UserID r = clm_UserID k \<and> rvw_CourseID r = c) (t_reviews (db w)) = Some r"
    and removed: "rvw_DeletedAt r \<noteq> None" and body: "1 \<le> rating" "rating \<le> 5" "content \<noteq> []"
    and keys: "no_conflicts rvw_conflict (t_reviews (db w))"
  shows "h_reviews_create (Some k) c (Some (rating, content)) w = (Inr (toReviewDTO r), w) \<and>
    (\<exists>ds. h_reviews_listByCourse c w = (Inr ds, w) \<and> (\<forall>d \<in> set ds. rvd_UserID d \<noteq> clm_UserID k))"
proof
  show "h_reviews_create (Some k) c (Some (rating, content)) w = (Inr (toReviewDTO r), w)"
    using quiet r body
    by (simp add: h_reviews_create_def with_claims_def with_body_def reviews_Create_def
        reviews_repo_FindByUserCourse_def q_GetReviewByUserCourse_def go_simps)
  have "x = r" if "x \<in> set (t_reviews (db w))" "rvw_UserID x = clm_UserID k" "rvw_CourseID x = c" for x
    using no_conflicts_unique [OF keys, of x r] that first_row_Some [OF r] by (metis rvw_conflict_def)
  with removed quiet show "\<exists>ds. h_reviews_listByCourse c w = (Inr ds, w) \<and> (\<forall>d \<in> set ds. rvd_UserID d \<noteq> clm_UserID k)"
    by (auto simp: h_reviews_listByCourse_def reviews_ListByCourse_def reviews_repo_ListByCourse_def
        q_ListReviewsByCourse_def go_simps toReviewDTO_def sort_desc_def dest!: in_set_takeD)
qed

section \<open>A concrete school\<close>

definition demo_review :: Review where
  "demo_review = (new_review ''r1'' ''u1'' ''free'' 5 ''good'' 0)\<lparr>rvw_DeletedAt := Some 10\<rparr>"

definition review_world :: world where
  "review_world = demo_world ((demo_database [] [])\<lparr>t_reviews := [demo_review]\<rparr>)"

lemma review_world_facts:
  "script review_world = []" "t_reviews (db review_world) = [demo_review]" "review_table (db review_world)"
  by (simp_all add: review_world_def demo_world_def review_table_def no_conflicts_def demo_review_def
      new_review_def rvw_ok_def)

theorem reviews_well_typed_witness:
  "review_table (db (snd (h_reviews_helpful (Some (demo_claims ''u2'' ''student'')) ''r1'' review_world)))"
  using reviews_well_typed [OF _ review_world_facts(3)] by (simp add: rely_ok_def review_world_facts(1))

theorem removed_review_blocks_witness:
  "h_reviews_create (Some (demo_claims ''u1'' ''student'')) ''free'' (Some (4, ''better'')) review_world =
     (Inr (toReviewDTO demo_review), review_world)"
  using removed_review_blocks [OF review_world_facts(1), of "demo_claims ''u1'' ''student''" "''free''" demo_review 4 "''better''"]
  by (simp add: review_world_facts demo_review_def new_review_def demo_claims_def no_conflicts_def)

end
