(* ===== verification/Notes.thy ===== *)
theory Notes
  imports Http AuthStore Tables Demo
begin

text \<open>
  \<open>internal/notes/notes.go\<close>, \<open>internal/repo/db/notes.sql.go\<close> and \<open>internal/handler/notes.go\<close>: private notes
  of a user on a lesson, and that nobody else's notes are touched.
\<close>

abbreviation notes_ErrNotFound :: go_error where
  "notes_ErrNotFound \<equiv> Sentinel ''notes: not found''"

section \<open>Statements\<close>

definition insert_note :: "Note \<Rightarrow> unit stmt" where
  "insert_note n = (\<lambda>d.
     if list_ex (\<lambda>r. note_ID r = note_ID n) (t_notes d) then Inl ErrDuplicate
     else if \<not> (user_exists d (note_UserID n) \<and> lesson_exists d (note_LessonID n)) then Inl ErrForeignKey
     else Inr ((), d\<lparr>t_notes := t_notes d @ [n]\<rparr>))"

definition sql_update_note :: "string \<Rightarrow> int option \<Rightarrow> int \<Rightarrow> string \<Rightarrow> unit stmt" where
  "sql_update_note content pos now i = (\<lambda>d. Inr ((), d\<lparr>t_notes := upd (\<lambda>r. note_ID r = i)
     (\<lambda>r. r\<lparr>note_Content := content, note_PositionSec := pos, note_UpdatedAt := now\<rparr>) (t_notes d)\<rparr>))"

definition sql_delete_note :: "string \<Rightarrow> unit stmt" where
  "sql_delete_note i = (\<lambda>d. Inr ((), d\<lparr>t_notes := deleted (\<lambda>r. note_ID r = i) (t_notes d)\<rparr>))"

definition q_CreateNote :: "Note \<Rightarrow> unit io" where
  "q_CreateNote n = exec (insert_note n)"

definition q_DeleteNote :: "string \<Rightarrow> unit io" where
  "q_DeleteNote i = exec (sql_delete_note i)"

definition q_GetNoteByID :: "string \<Rightarrow> Note io" where
  "q_GetNoteByID i = query_one (\<lambda>d. first_row (\<lambda>r. note_ID r = i) (t_notes d))"

definition q_ListNotesByUserLesson :: "string \<Rightarrow> string \<Rightarrow> Note list io" where
  "q_ListNotesByUserLesson u l = query (\<lambda>d. sort_key note_CreatedAt
     (filter (\<lambda>r. note_UserID r = u \<and> note_LessonID r = l) (t_notes d)))"

definition q_UpdateNote :: "string \<Rightarrow> int option \<Rightarrow> int \<Rightarrow> string \<Rightarrow> unit io" where
  "q_UpdateNote content pos now i = exec (sql_update_note content pos now i)"

section \<open>Repo and service\<close>

definition notes_repo_ListByUserLesson :: "string \<Rightarrow> string \<Rightarrow> Note list io" where
  "notes_repo_ListByUserLesson u l =
     call (q_ListNotesByUserLesson u l) (\<lambda>e. fail (Wrap ''notes.repo: list'' e)) ret"

definition notes_repo_GetByID :: "string \<Rightarrow> Note io" where
  "notes_repo_GetByID i =
     call (q_GetNoteByID i)
       (\<lambda>e. if errors_is e ErrNoRows then fail notes_ErrNotFound else fail (Wrap ''notes.repo: get'' e)) ret"

definition notes_repo_Update :: "string \<Rightarrow> string \<Rightarrow> int option \<Rightarrow> unit io" where
  "notes_repo_Update i content pos = bind go_now (\<lambda>now. q_UpdateNote content pos now i)"

record NoteDTO =
  ntd_ID :: string
  ntd_UserID :: string
  ntd_LessonID :: string
  ntd_Content :: string
  ntd_PositionSec :: "int option"
  ntd_CreatedAt :: string
  ntd_UpdatedAt :: string

definition toNoteDTO :: "Note \<Rightarrow> NoteDTO" where
  "toNoteDTO n =
     \<lparr> ntd_ID = note_ID n, ntd_UserID = note_UserID n, ntd_LessonID = note_LessonID n,
       ntd_Content = note_Content n, ntd_PositionSec = note_PositionSec n,
       ntd_CreatedAt = fmt_iso (note_CreatedAt n), ntd_UpdatedAt = fmt_iso (note_UpdatedAt n) \<rparr>"

definition notes_List :: "string \<Rightarrow> string \<Rightarrow> NoteDTO list io" where
  "notes_List u l =
     call (notes_repo_ListByUserLesson u l) (\<lambda>e. fail (Internal ''list notes'' e))
       (\<lambda>rows. ret (map toNoteDTO rows))"

definition new_note :: "string \<Rightarrow> string \<Rightarrow> string \<Rightarrow> string \<Rightarrow> int option \<Rightarrow> int \<Rightarrow> Note" where
  "new_note i u l content pos now =
     \<lparr> note_ID = i, note_UserID = u, note_LessonID = l, note_Content = content,
       note_PositionSec = pos, note_CreatedAt = now, note_UpdatedAt = now \<rparr>"

definition reload_note :: "string \<Rightarrow> NoteDTO io" where
  "reload_note i =
     call (notes_repo_GetByID i) (\<lambda>e. fail (Internal ''reload note'' e)) (\<lambda>n. ret (toNoteDTO n))"

definition notes_Create :: "string \<Rightarrow> string \<Rightarrow> string \<Rightarrow> int option \<Rightarrow> NoteDTO io" where
  "notes_Create u l content pos =
     (if content = [] then fail (BadRequest ''content required'')
      else bind go_now (\<lambda>now. bind new_uuid (\<lambda>i.
        call (q_CreateNote (new_note i u l content pos now)) (\<lambda>e. fail (Internal ''create note'' e))
          (\<lambda>_. reload_note i))))"

definition lookup_note :: "string \<Rightarrow> (Note \<Rightarrow> 'a io) \<Rightarrow> 'a io" where
  "lookup_note i k =
     call (notes_repo_GetByID i)
       (\<lambda>e. if e = notes_ErrNotFound then fail (NotFound ''Note not found'')
            else fail (Internal ''get note'' e)) k"

definition notes_Update :: "string \<Rightarrow> string \<Rightarrow> string \<Rightarrow> int option \<Rightarrow> NoteDTO io" where
  "notes_Update u i content pos = lookup_note i (\<lambda>cur.
     if note_UserID cur \<noteq> u then fail (Forbidden ''Not your note'')
     else call (notes_repo_Update i content (case pos of None \<Rightarrow> note_PositionSec cur | Some p \<Rightarrow> Some p))
            (\<lambda>e. fail (Internal ''update note'' e)) (\<lambda>_. reload_note i))"

definition notes_Delete :: "string \<Rightarrow> string \<Rightarrow> unit io" where
  "notes_Delete u i = lookup_note i (\<lambda>cur.
     if note_UserID cur \<noteq> u then fail (Forbidden ''Not your note'')
     else call (q_DeleteNote i) (\<lambda>e. fail (Internal ''delete note'' e)) ret)"

section \<open>Endpoints\<close>

definition h_notes_list :: "Claims option \<Rightarrow> string \<Rightarrow> NoteDTO list io" where
  "h_notes_list claims l = with_claims claims (\<lambda>k. notes_List (clm_UserID k) l)"

definition h_notes_create :: "Claims option \<Rightarrow> string \<Rightarrow> (string \<times> int option) option \<Rightarrow> NoteDTO io" where
  "h_notes_create claims l body = with_claims claims (\<lambda>k. with_body body (\<lambda>(content, pos).
     notes_Create (clm_UserID k) l content pos))"

definition h_notes_update :: "Claims option \<Rightarrow> string \<Rightarrow> (string \<times> int option) option \<Rightarrow> NoteDTO io" where
  "h_notes_update claims i body = with_claims claims (\<lambda>k. with_body body (\<lambda>(content, pos).
     notes_Update (clm_UserID k) i content pos))"

definition h_notes_delete :: "Claims option \<Rightarrow> string \<Rightarrow> bool io" where
  "h_notes_delete claims i = with_claims claims (\<lambda>k.
     call (notes_Delete (clm_UserID k) i) fail (\<lambda>_. ret True))"

section \<open>Nobody else's notes\<close>

definition others_notes :: "string \<Rightarrow> database \<Rightarrow> Note list" where
  "others_notes u d = filter (\<lambda>r. note_UserID r \<noteq> u) (t_notes d)"

text \<open>The steps of a user's requests: the notes of the others stay as they are.\<close>

definition notes_step :: "string \<Rightarrow> database \<Rightarrow> database \<Rightarrow> bool" where
  "notes_step u d d' \<longleftrightarrow> others_notes u d' = others_notes u d \<and>
     (distinct (map note_ID (t_notes d)) \<longrightarrow> distinct (map note_ID (t_notes d')))"

interpretation own_notes: db_frame "notes_step u" for u
  by unfold_locales (auto simp: notes_step_def)

text \<open>No note of another user has the id.\<close>

definition free_of_others :: "string \<Rightarrow> string \<Rightarrow> database \<Rightarrow> bool" where
  "free_of_others u i d \<longleftrightarrow> (\<forall>r \<in> set (t_notes d). note_ID r = i \<longrightarrow> note_UserID r = u) \<and>
     distinct (map note_ID (t_notes d))"

lemma free_of_others_alt: "free_of_others u i d \<longleftrightarrow> i \<notin> note_ID ` set (others_notes u d) \<and> distinct (map note_ID (t_notes d))"
  by (auto simp: free_of_others_def others_notes_def)

lemma stable_free: "stable (notes_step u) (free_of_others u i)"
  by (auto simp: stable_def notes_step_def free_of_others_alt)

lemma stable_distinct: "stable (notes_step u) (\<lambda>d. distinct (map note_ID (t_notes d)))"
  by (auto simp: stable_def notes_step_def)

lemma upd_others:
  assumes "\<And>r. r \<in> set rs \<Longrightarrow> P r \<Longrightarrow> note_UserID r = u \<and> note_UserID (f r) = u"
  shows "filter (\<lambda>r. note_UserID r \<noteq> u) (upd P f rs) = filter (\<lambda>r. note_UserID r \<noteq> u) rs"
  using assms by (induction rs) auto

lemma deleted_others:
  assumes "\<And>r. r \<in> set rs \<Longrightarrow> P r \<Longrightarrow> note_UserID r = u"
  shows "filter (\<lambda>r. note_UserID r \<noteq> u) (deleted P rs) = filter (\<lambda>r. note_UserID r \<noteq> u) rs"
  using assms by (induction rs) (auto simp: deleted_def)

lemma own_note_stmts:
  assumes "free_of_others u i d"
  shows "sql_update_note content pos now i d = Inr (x, d') \<Longrightarrow> notes_step u d d'"
    and "sql_delete_note i d = Inr (y, d'') \<Longrightarrow> notes_step u d d''"
proof -
  have ids: "map note_ID (upd (\<lambda>r. note_ID r = i) (\<lambda>r. r\<lparr>note_Content := content,
      note_PositionSec := pos, note_UpdatedAt := now\<rparr>) rs) = map note_ID rs" for rs
    by (rule map_upd_frame) simp
  show "sql_update_note content pos now i d = Inr (x, d') \<Longrightarrow> notes_step u d d'"
    using assms by (auto simp: sql_update_note_def notes_step_def others_notes_def free_of_others_def ids
        intro!: upd_others)
  show "sql_delete_note i d = Inr (y, d'') \<Longrightarrow> notes_step u d d''"
    using assms by (auto simp: sql_delete_note_def notes_step_def others_notes_def free_of_others_def
        distinct_deleted intro!: deleted_others)
qed

lemma insert_own_note: "stmt_ok (notes_step u) (insert_note (new_note i u l content pos now))"
  by (auto simp: stmt_ok_def insert_note_def notes_step_def others_notes_def new_note_def list_ex_iff
      split: if_splits)

lemma rg_note_exec:
  assumes "\<And>d x d'. free_of_others u i d \<Longrightarrow> f d = Inr (x, d') \<Longrightarrow> notes_step u d d'"
  shows "rg (notes_step u) (free_of_others u i) (exec f) (\<lambda>_. free_of_others u i)"
  by (rule own_notes.rg_exec [OF stable_free]) (use assms stable_free in \<open>auto simp: stable_def\<close>)

lemma rg_note_within: "within (db_step (notes_step u)) m \<Longrightarrow>
    rg (notes_step u) (free_of_others u i) m (\<lambda>_. free_of_others u i)"
  by (rule own_notes.rg_of_within [OF _ stable_free])

lemma within_note_reads: "within (db_step (notes_step u)) (notes_repo_GetByID i)"
  "within (db_step (notes_step u)) (reload_note i)" "within (db_step (notes_step u)) (notes_List u' l)"
  unfolding reload_note_def notes_repo_GetByID_def q_GetNoteByID_def notes_List_def
    notes_repo_ListByUserLesson_def q_ListNotesByUserLesson_def by (intro own_notes.within_intros)+

text \<open>After the ownership check the id belongs to the user, whatever the user's other requests do.\<close>

lemma rg_lookup_note:
  assumes "\<And>r. note_UserID r = u \<Longrightarrow> rg (notes_step u) (free_of_others u i) (k r) (\<lambda>_ _. True)"
    and other: "\<And>r. note_UserID r \<noteq> u \<Longrightarrow> rg (notes_step u) (\<lambda>d. distinct (map note_ID (t_notes d))) (k r) (\<lambda>_ _. True)"
  shows "rg (notes_step u) (\<lambda>d. distinct (map note_ID (t_notes d))) (lookup_note i k) (\<lambda>_ _. True)"
proof -
  let ?D = "\<lambda>d. distinct (map note_ID (t_notes d))"
  let ?Q = "\<lambda>r d. ?D d \<and> (\<forall>x. r = Inr x \<longrightarrow> note_UserID x = u \<longrightarrow> free_of_others u i d)"
  have get: "rg (notes_step u) ?D (notes_repo_GetByID i) ?Q"
    unfolding notes_repo_GetByID_def
  proof (rule own_notes.rg_call)
    show "rg (notes_step u) ?D (q_GetNoteByID i) ?Q"
      unfolding q_GetNoteByID_def query_one_def
      by (rule own_notes.rg_exec [OF stable_distinct])
        (auto simp: own_notes.db_refl free_of_others_def split: option.splits dest!: first_row_Some
          dest: distinct_key_unique)
  qed (auto intro!: own_notes.rg_fail own_notes.rg_ret)
  show ?thesis
    unfolding lookup_note_def
  proof (rule own_notes.rg_call [OF get])
    fix x
    show "rg (notes_step u) (?Q (Inr x)) (k x) (\<lambda>_ _. True)"
      by (cases "note_UserID x = u") (rule rg_conseq [OF assms(1)] rg_conseq [OF other]; simp)+
  qed (auto intro!: own_notes.rg_fail)
qed

lemma notes_write_own:
  "rg (notes_step u) (\<lambda>d. distinct (map note_ID (t_notes d))) (notes_Update u i content pos) (\<lambda>_ _. True)"
  "rg (notes_step u) (\<lambda>d. distinct (map note_ID (t_notes d))) (notes_Delete u i) (\<lambda>_ _. True)"
proof -
  have up: "rg (notes_step u) (free_of_others u i)
      (call (notes_repo_Update i content p) (\<lambda>e. fail (Internal ''update note'' e)) (\<lambda>_. reload_note i)) (\<lambda>_ _. True)" for p
    unfolding notes_repo_Update_def q_UpdateNote_def bind_def
    by (rule own_notes.rg_call [where M = "\<lambda>_. free_of_others u i"],
        rule own_notes.rg_call [OF rg_note_within], rule own_notes.within_pure(1), rule own_notes.rg_fail,
        assumption, rule rg_note_exec, erule own_note_stmts(1), assumption, rule own_notes.rg_fail, simp,
        rule rg_conseq [OF rg_note_within [OF within_note_reads(2)]]) auto
  show "rg (notes_step u) (\<lambda>d. distinct (map note_ID (t_notes d))) (notes_Update u i content pos) (\<lambda>_ _. True)"
    unfolding notes_Update_def by (rule rg_lookup_note) (auto intro!: up own_notes.rg_fail)
  have del: "rg (notes_step u) (free_of_others u i)
      (call (q_DeleteNote i) (\<lambda>e. fail (Internal ''delete note'' e)) ret) (\<lambda>_ _. True)"
    unfolding q_DeleteNote_def
    by (rule own_notes.rg_call [OF rg_note_exec]) (auto intro!: own_notes.rg_fail own_notes.rg_ret own_note_stmts(2))
  show "rg (notes_step u) (\<lambda>d. distinct (map note_ID (t_notes d))) (notes_Delete u i) (\<lambda>_ _. True)"
    unfolding notes_Delete_def by (rule rg_lookup_note) (auto intro!: del own_notes.rg_fail)
qed

lemma rg_keeps_others:
  assumes "rg (notes_step u) (\<lambda>d. distinct (map note_ID (t_notes d))) m Q"
    "rely_ok (notes_step u) w" "distinct (map note_ID (t_notes (db w)))"
  shows "others_notes u (db (snd (m w))) = others_notes u (db w)"
  using assms db_step_rely by (fastforce simp: rg_def notes_step_def)

lemma notes_list_own:
  "rg (notes_step u) (\<lambda>d. True) (notes_List u l) (\<lambda>r d. \<forall>ns. r = Inr ns \<longrightarrow> (\<forall>n \<in> set ns. ntd_UserID n = u))"
proof -
  have q: "rg (notes_step u) (\<lambda>d. True) (q_ListNotesByUserLesson u l)
      (\<lambda>r d. \<forall>ns. r = Inr ns \<longrightarrow> (\<forall>n \<in> set ns. note_UserID n = u))"
    unfolding q_ListNotesByUserLesson_def query_def
    by (rule own_notes.rg_exec) (auto simp: stable_def own_notes.db_refl)
  show ?thesis
    unfolding notes_List_def notes_repo_ListByUserLesson_def
    by (rule own_notes.rg_call [where M = "\<lambda>r d. \<forall>ns. r = Inr ns \<longrightarrow> (\<forall>n \<in> set ns. note_UserID n = u)"],
        rule own_notes.rg_call [OF q])
      (auto intro!: own_notes.rg_fail own_notes.rg_ret simp: toNoteDTO_def)
qed

text \<open>Whatever notes a user creates, updates or deletes by whichever ids, and however these requests of
  the user overlap or the connection breaks, the notes of everybody else stay exactly as they are,
  and the list shows the user's own notes only.\<close>

theorem notes_owner_only:
  assumes rely: "rely_ok (notes_step (clm_UserID c)) w" and ids: "distinct (map note_ID (t_notes (db w)))"
  shows "others_notes (clm_UserID c) (db (snd (h_notes_create (Some c) l b w))) = others_notes (clm_UserID c) (db w) \<and>
    others_notes (clm_UserID c) (db (snd (h_notes_update (Some c) i b w))) = others_notes (clm_UserID c) (db w) \<and>
    others_notes (clm_UserID c) (db (snd (h_notes_delete (Some c) i w))) = others_notes (clm_UserID c) (db w) \<and>
    (\<forall>ns. fst (h_notes_list (Some c) l w) = Inr ns \<longrightarrow> (\<forall>n \<in> set ns. ntd_UserID n = clm_UserID c))"
proof (intro conjI)
  note keep = rg_keeps_others [OF _ rely ids]
  note endpoint = with_claims_def with_body_def option.case case_prod_unfold
  have create: "within (db_step (notes_step (clm_UserID c))) (notes_Create (clm_UserID c) l t p)" for t p
    unfolding notes_Create_def q_CreateNote_def
    by (intro own_notes.within_intros within_note_reads insert_own_note)
  show "others_notes (clm_UserID c) (db (snd (h_notes_create (Some c) l b w))) = others_notes (clm_UserID c) (db w)"
    unfolding h_notes_create_def endpoint
    by (rule keep [OF own_notes.rg_of_within [OF _ stable_distinct]])
      (intro own_notes.within_intros create)
  show "others_notes (clm_UserID c) (db (snd (h_notes_update (Some c) i b w))) = others_notes (clm_UserID c) (db w)"
    by (cases b) (auto simp: h_notes_update_def endpoint fail_def intro: keep [OF notes_write_own(1)])
  show "others_notes (clm_UserID c) (db (snd (h_notes_delete (Some c) i w))) = others_notes (clm_UserID c) (db w)"
    unfolding h_notes_delete_def endpoint
    by (rule keep, rule own_notes.rg_call [OF notes_write_own(2)])
      (auto intro!: own_notes.rg_fail own_notes.rg_ret)
  show "\<forall>ns. fst (h_notes_list (Some c) l w) = Inr ns \<longrightarrow> (\<forall>n \<in> set ns. ntd_UserID n = clm_UserID c)"
    using notes_list_own [of "clm_UserID c" l] rely by (auto simp: rg_def h_notes_list_def endpoint)
qed

definition note_world :: world where
  "note_world = demo_world ((demo_database [] [])\<lparr>t_notes :=
     [new_note ''n1'' ''u1'' ''l1'' ''mine'' None 0, new_note ''n2'' ''u2'' ''l1'' ''theirs'' None 0]\<rparr>)"

theorem notes_owner_only_witness:
  "others_notes ''u1'' (db (snd (h_notes_delete (Some (demo_claims ''u1'' ''student'')) ''n2'' note_world))) =
     [new_note ''n2'' ''u2'' ''l1'' ''theirs'' None 0]"
proof -
  have "script note_world = []" "t_notes (db note_world) =
      [new_note ''n1'' ''u1'' ''l1'' ''mine'' None 0, new_note ''n2'' ''u2'' ''l1'' ''theirs'' None 0]"
    by (simp_all add: note_world_def demo_world_def)
  with notes_owner_only [of "demo_claims ''u1'' ''student''" note_world "''l1''" None "''n2''"] show ?thesis
    by (simp add: rely_ok_def demo_claims_def others_notes_def new_note_def)
qed

end
