(* ===== verification/ServerAudit.thy ===== *)
theory ServerAudit
  imports Orders Http AuthStore
begin

text \<open>
  What the services of the course contents share: the audit row the server itself completes
  (\<open>UUID()\<close>, \<open>NOW(3)\<close>), checks of titles and addresses, the next place in an order.
\<close>

section \<open>Audit rows\<close>

text \<open>\<open>JSON_OBJECT(k, v)\<close> as the server prints it.\<close>

definition json_pair :: "string \<Rightarrow> string \<Rightarrow> string" where
  "json_pair k v = [CHR 0x7B, CHR 0x22] @ k @ [CHR 0x22, CHR 0x3A, CHR 0x20, CHR 0x22]
     @ concat (map json_char v) @ [CHR 0x22, CHR 0x7D]"

definition server_audit_row :: "string \<Rightarrow> string \<Rightarrow> string \<Rightarrow> string \<Rightarrow> string option \<Rightarrow> int \<Rightarrow> AuditLog" where
  "server_audit_row aid entity action entityID details now =
     \<lparr> aud_ID = aid, aud_UserID = None, aud_Action = action, aud_Entity = entity,
       aud_EntityID = Some entityID, aud_Details = details,
       aud_IpAddress = None, aud_UserAgent = None, aud_CreatedAt = now \<rparr>"

definition server_audit :: "string \<Rightarrow> string \<Rightarrow> string \<Rightarrow> string option \<Rightarrow> unit io" where
  "server_audit entity action entityID details =
     bind new_uuid (\<lambda>aid. bind go_now (\<lambda>now.
     ignoring (exec (insert_audit_log (server_audit_row aid entity action entityID details now))) (ret ())))"

section \<open>Checks\<close>

definition http_url :: "string \<Rightarrow> bool" where
  "http_url s \<longleftrightarrow> has_prefix (to_lower s) ''http://'' \<or> has_prefix (to_lower s) ''https://''"

text \<open>A title: not blank, at most 191 bytes.\<close>

definition content_validateTitle :: "string \<Rightarrow> go_error option" where
  "content_validateTitle t =
     (if trim_space t = [] then Some (BadRequest ''title is required'')
      else if 191 < length t then Some (BadRequest ''title too long (max 191)'') else None)"

definition checked_by :: "go_error option \<Rightarrow> 'a io \<Rightarrow> 'a io" where
  "checked_by c k = (case c of Some e \<Rightarrow> fail e | None \<Rightarrow> k)"

text \<open>A \<open>VARCHAR(191)\<close> column for an address that may be longer.\<close>

definition fits_191 :: "string option \<Rightarrow> bool" where
  "fits_191 u \<longleftrightarrow> (\<forall>s \<in> set_option u. length (runes s) \<le> 191)"

section \<open>Order indices\<close>

text \<open>\<open>COALESCE(MAX(order_index), -1)\<close>.\<close>

definition coalesce_max :: "int list \<Rightarrow> int" where
  "coalesce_max xs = (case xs of [] \<Rightarrow> - 1 | x # ys \<Rightarrow> foldl max x ys)"

text \<open>The place of an id in a list, its length when it is not there.\<close>

definition place_of :: "string \<Rightarrow> string list \<Rightarrow> nat" where
  "place_of x xs = length (takeWhile (\<lambda>y. y \<noteq> x) xs)"

text \<open>\<open>for i, id := range ids { ... }\<close> from the index \<open>i\<close> on.\<close>

fun for_indexed :: "(nat \<Rightarrow> 'a \<Rightarrow> unit io) \<Rightarrow> nat \<Rightarrow> 'a list \<Rightarrow> unit io" where
  "for_indexed f i [] = ret ()"
| "for_indexed f i (x # xs) = call (f i x) fail (\<lambda>_. for_indexed f (Suc i) xs)"

section \<open>Frames\<close>

context db_frame
begin

lemma within_server_audit:
  "(\<And>a. stmt_ok R (insert_audit_log a)) \<Longrightarrow> within (db_step R) (server_audit entity action i x)"
  unfolding server_audit_def by (intro within_intros)

lemma within_for_indexed:
  "(\<And>i x. within (db_step R) (f i x)) \<Longrightarrow> within (db_step R) (for_indexed f i xs)"
  by (induction xs arbitrary: i) (auto intro!: within_intros)

lemma within_checked_by: "within (db_step R) k \<Longrightarrow> within (db_step R) (checked_by c k)"
  unfolding checked_by_def by (intro within_intros)

end

end
