(* ===== verification/Resources.thy ===== *)
theory Resources
  imports ServerAudit
begin

text \<open>
  \<open>internal/resources\<close> (repo and service), \<open>internal/repo/db/resources.sql.go\<close> and the endpoints of
  \<open>internal/handler/resources.go\<close>: files and links attached to a lesson, for administrators.
\<close>

abbreviation resources_ErrNotFound :: go_error where
  "resources_ErrNotFound \<equiv> Sentinel ''resources: not found''"

section \<open>Statements\<close>

definition resource_types :: "string list" where
  "resource_types = [''pdf'', ''code'', ''link'', ''video'', ''audio'']"

definition insert_resource :: "Resource \<Rightarrow> unit stmt" where
  "insert_resource r = (\<lambda>d.
     if res_Type r \<notin> set resource_types then Inl ErrTruncated
     else if \<not> fits_191 (Some (res_Url r)) then Inl ErrTooLong
     else if list_ex (\<lambda>x. res_ID x = res_ID r) (t_resources d) then Inl ErrDuplicate
     else if \<not> lesson_exists d (res_LessonID r) then Inl ErrForeignKey
     else Inr ((), d\<lparr>t_resources := t_resources d @ [r]\<rparr>))"

definition sql_update_resource :: "string \<Rightarrow> string \<Rightarrow> string \<Rightarrow> bool \<Rightarrow> string \<Rightarrow> unit stmt" where
  "sql_update_resource title url typ lck i = (\<lambda>d.
     if list_ex (\<lambda>r. res_ID r = i) (t_resources d) \<and> typ \<notin> set resource_types then Inl ErrTruncated
     else if list_ex (\<lambda>r. res_ID r = i) (t_resources d) \<and> \<not> fits_191 (Some url) then Inl ErrTooLong
     else Inr ((), d\<lparr>t_resources := upd (\<lambda>r. res_ID r = i)
            (\<lambda>r. r\<lparr>res_Title := title, res_Url := url, res_Type := typ, res_IsLocked := lck\<rparr>)
            (t_resources d)\<rparr>))"

definition sql_drop_resource :: "int option \<Rightarrow> string \<Rightarrow> unit stmt" where
  "sql_drop_resource t i = (\<lambda>d. Inr ((), d\<lparr>t_resources :=
     upd (\<lambda>r. res_ID r = i \<and> res_DeletedAt r = None) (\<lambda>r. r\<lparr>res_DeletedAt := t\<rparr>) (t_resources d)\<rparr>))"

definition sql_drop_resources_of :: "int option \<Rightarrow> string \<Rightarrow> nat stmt" where
  "sql_drop_resources_of t l = (\<lambda>d.
     Inr (changed (\<lambda>r. res_LessonID r = l \<and> res_DeletedAt r = None) (\<lambda>r. r\<lparr>res_DeletedAt := t\<rparr>) (t_resources d),
          d\<lparr>t_resources := upd (\<lambda>r. res_LessonID r = l \<and> res_DeletedAt r = None)
              (\<lambda>r. r\<lparr>res_DeletedAt := t\<rparr>) (t_resources d)\<rparr>))"

definition q_CreateResource :: "Resource \<Rightarrow> unit io" where
  "q_CreateResource r = exec (insert_resource r)"

definition q_GetResourceByID :: "string \<Rightarrow> Resource io" where
  "q_GetResourceByID i =
     query_one (\<lambda>d. first_row (\<lambda>r. res_ID r = i \<and> res_DeletedAt r = None) (t_resources d))"

definition q_ListResourcesByLesson :: "string \<Rightarrow> Resource list io" where
  "q_ListResourcesByLesson l = query (\<lambda>d. sort_key res_CreatedAt
     (filter (\<lambda>r. res_LessonID r = l \<and> res_DeletedAt r = None) (t_resources d)))"

definition q_UpdateResource :: "string \<Rightarrow> string \<Rightarrow> string \<Rightarrow> bool \<Rightarrow> string \<Rightarrow> unit io" where
  "q_UpdateResource title url typ lck i = exec (sql_update_resource title url typ lck i)"

definition q_SoftDeleteResource :: "int option \<Rightarrow> string \<Rightarrow> unit io" where
  "q_SoftDeleteResource t i = exec (sql_drop_resource t i)"

definition q_SoftDeleteResourcesByLesson :: "int option \<Rightarrow> string \<Rightarrow> nat io" where
  "q_SoftDeleteResourcesByLesson t l = exec (sql_drop_resources_of t l)"

section \<open>Repo\<close>

definition resources_repo_ListByLesson :: "string \<Rightarrow> Resource list io" where
  "resources_repo_ListByLesson l =
     call (q_ListResourcesByLesson l) (\<lambda>e. fail (Wrap ''resources.repo: list'' e)) ret"

definition resources_repo_GetByID :: "string \<Rightarrow> Resource io" where
  "resources_repo_GetByID i =
     call (q_GetResourceByID i)
       (\<lambda>e. if errors_is e ErrNoRows then fail resources_ErrNotFound else fail (Wrap ''resources.repo: get'' e)) ret"

definition new_resource :: "string \<Rightarrow> string \<Rightarrow> string \<Rightarrow> string \<Rightarrow> string \<Rightarrow> bool \<Rightarrow> int \<Rightarrow> Resource" where
  "new_resource i l title url typ lck now =
     \<lparr> res_ID = i, res_LessonID = l, res_Title = title, res_Url = url, res_Type = typ,
       res_IsLocked = lck, res_CreatedAt = now, res_DeletedAt = None \<rparr>"

definition resources_repo_Create :: "string \<Rightarrow> string \<Rightarrow> string \<Rightarrow> string \<Rightarrow> bool \<Rightarrow> Resource io" where
  "resources_repo_Create l title url typ lck =
     bind go_now (\<lambda>now. bind new_uuid (\<lambda>i.
     call (q_CreateResource (new_resource i l title url typ lck now))
       (\<lambda>e. fail (Wrap ''resources.repo: create'' e)) (\<lambda>_. ret (new_resource i l title url typ lck now))))"

definition resources_repo_Update :: "string \<Rightarrow> string \<Rightarrow> string \<Rightarrow> string \<Rightarrow> bool \<Rightarrow> unit io" where
  "resources_repo_Update i title url typ lck =
     call (q_UpdateResource title url typ lck i) (\<lambda>e. fail (Wrap ''resources.repo: update'' e)) ret"

definition resources_repo_SoftDelete :: "string \<Rightarrow> unit io" where
  "resources_repo_SoftDelete i = bind go_now (\<lambda>now.
     call (q_SoftDeleteResource (Some now) i) (\<lambda>e. fail (Wrap ''resources.repo: soft delete'' e)) ret)"

definition resources_repo_SoftDeleteByLesson :: "string \<Rightarrow> nat io" where
  "resources_repo_SoftDeleteByLesson l = bind go_now (\<lambda>now.
     call (q_SoftDeleteResourcesByLesson (Some now) l)
       (\<lambda>e. fail (Wrap ''resources.repo: soft delete by lesson'' e)) ret)"

definition resources_repo_LessonExists :: "string \<Rightarrow> bool io" where
  "resources_repo_LessonExists l =
     query (\<lambda>d. list_ex (\<lambda>r. lsn_ID r = l \<and> lsn_DeletedAt r = None) (t_lessons d))"

section \<open>Service\<close>

definition resources_validateURL :: "string \<Rightarrow> go_error option" where
  "resources_validateURL u =
     (if trim_space u = [] then Some (BadRequest ''url is required'')
      else if 1000 < length u then Some (BadRequest ''url too long (max 1000)'')
      else if \<not> http_url u then Some (BadRequest ''url must be http(s)://'') else None)"

text \<open>Go leaves the order of a map open; the message lists the names in the order declared.\<close>

definition resources_validateType :: "string \<Rightarrow> go_error option" where
  "resources_validateType t =
     (if t = [] then Some (BadRequest ''type is required'')
      else if t \<notin> set resource_types
      then Some (BadRequest (''type must be one of: '' @ ''pdf, code, link, video, audio'')) else None)"

definition resources_audit :: "string \<Rightarrow> string \<Rightarrow> string \<Rightarrow> unit io" where
  "resources_audit action i l = server_audit ''resource'' action i (Some (json_pair ''lessonId'' l))"

record resources_APIInput =
  rin_Title :: string
  rin_URL :: string
  rin_Type :: string
  rin_IsLocked :: "bool option"

definition resources_ListByLesson :: "string \<Rightarrow> Resource list io" where
  "resources_ListByLesson l =
     call (resources_repo_LessonExists l) (\<lambda>e. fail (Internal ''check lesson'' e)) (\<lambda>present.
       if \<not> present then fail (NotFound ''Lesson not found'')
       else call (resources_repo_ListByLesson l) (\<lambda>e. fail (Internal ''list resources'' e)) ret)"

definition resources_Create :: "string \<Rightarrow> resources_APIInput \<Rightarrow> Resource io" where
  "resources_Create l a =
     checked_by (content_validateTitle (rin_Title a)) (
     checked_by (resources_validateURL (rin_URL a)) (
     checked_by (resources_validateType (rin_Type a)) (
     call (resources_repo_LessonExists l) (\<lambda>e. fail (Internal ''check lesson'' e)) (\<lambda>present.
       if \<not> present then fail (NotFound ''Lesson not found'')
       else call (resources_repo_Create l (rin_Title a) (rin_URL a) (rin_Type a) (rin_IsLocked a \<noteq> Some False))
              (\<lambda>e. fail (Internal ''create resource'' e)) (\<lambda>out.
            bind (resources_audit ''resource.create'' (res_ID out) l) (\<lambda>_. ret out))))))"

definition lookup_resource :: "string \<Rightarrow> (Resource \<Rightarrow> 'a io) \<Rightarrow> 'a io" where
  "lookup_resource i k =
     call (resources_repo_GetByID i)
       (\<lambda>e. if errors_is e resources_ErrNotFound then fail (NotFound ''Resource not found'')
            else fail (Internal ''lookup resource'' e)) k"

text \<open>A field that is empty in the request keeps its value; one that is not is checked.\<close>

definition given :: "(string \<Rightarrow> go_error option) \<Rightarrow> string \<Rightarrow> go_error option" where
  "given c x = (if x \<noteq> [] then c x else None)"

definition or_old :: "string \<Rightarrow> string \<Rightarrow> string" where
  "or_old x old = (if x \<noteq> [] then x else old)"

definition resources_Update :: "string \<Rightarrow> resources_APIInput \<Rightarrow> Resource io" where
  "resources_Update i a = lookup_resource i (\<lambda>before.
     checked_by (given content_validateTitle (rin_Title a)) (
     checked_by (given resources_validateURL (rin_URL a)) (
     checked_by (given resources_validateType (rin_Type a)) (
     call (resources_repo_Update i (or_old (rin_Title a) (res_Title before)) (or_old (rin_URL a) (res_Url before))
             (or_old (rin_Type a) (res_Type before))
             (case rin_IsLocked a of None \<Rightarrow> res_IsLocked before | Some b \<Rightarrow> b))
       (\<lambda>e. fail (Internal ''update resource'' e)) (\<lambda>_.
     call (resources_repo_GetByID i) (\<lambda>e. fail (Internal ''reload resource'' e)) (\<lambda>after.
     bind (resources_audit ''resource.update'' i (res_LessonID before)) (\<lambda>_. ret after)))))))"

definition resources_Delete :: "string \<Rightarrow> unit io" where
  "resources_Delete i = lookup_resource i (\<lambda>before.
     call (resources_repo_SoftDelete i) (\<lambda>e. fail (Internal ''soft delete resource'' e)) (\<lambda>_.
     resources_audit ''resource.delete'' i (res_LessonID before)))"

section \<open>Endpoints\<close>

record ResourceView =
  rsv_id :: string
  rsv_lessonId :: string
  rsv_title :: string
  rsv_url :: string
  rsv_type :: string
  rsv_isLocked :: bool
  rsv_createdAt :: int

definition publicResourceView :: "Resource \<Rightarrow> ResourceView" where
  "publicResourceView r =
     \<lparr> rsv_id = res_ID r, rsv_lessonId = res_LessonID r, rsv_title = res_Title r, rsv_url = res_Url r,
       rsv_type = res_Type r, rsv_isLocked = res_IsLocked r, rsv_createdAt = res_CreatedAt r \<rparr>"

definition h_resources_listByLesson :: "Claims option \<Rightarrow> string \<Rightarrow> ResourceView list io" where
  "h_resources_listByLesson claims l = admin_only claims
     (call (resources_ListByLesson l) fail (\<lambda>rows. ret (map publicResourceView rows)))"

definition h_resources_create :: "Claims option \<Rightarrow> string \<Rightarrow> resources_APIInput option \<Rightarrow> ResourceView io" where
  "h_resources_create claims l body = admin_only claims (with_body body (\<lambda>a.
     call (resources_Create l a) fail (\<lambda>r. ret (publicResourceView r))))"

definition h_resources_update :: "Claims option \<Rightarrow> string \<Rightarrow> resources_APIInput option \<Rightarrow> ResourceView io" where
  "h_resources_update claims i body = admin_only claims (with_body body (\<lambda>a.
     call (resources_Update i a) fail (\<lambda>r. ret (publicResourceView r))))"

definition h_resources_delete :: "Claims option \<Rightarrow> string \<Rightarrow> bool io" where
  "h_resources_delete claims i = admin_only claims (call (resources_Delete i) fail (\<lambda>_. ret True))"

end
