(* ===== verification/Lessons.thy ===== *)
theory Lessons
  imports Resources Messages
begin

text \<open>
  \<open>internal/lessons\<close> (repo and service), \<open>internal/repo/db/lessons.sql.go\<close> and the endpoints of
  \<open>internal/handler/lessons.go\<close>; deleting a lesson calls the hook \<open>mountResources\<close> installs.
\<close>

abbreviation lessons_ErrNotFound :: go_error where
  "lessons_ErrNotFound \<equiv> Sentinel ''lessons: not found''"

section \<open>Statements\<close>

definition insert_lesson :: "Lesson \<Rightarrow> unit stmt" where
  "insert_lesson r = (\<lambda>d.
     if \<not> fits_191 (lsn_VideoUrl r) then Inl ErrTooLong
     else if list_ex (\<lambda>x. lsn_ID x = lsn_ID r) (t_lessons d) then Inl ErrDuplicate
     else if \<not> list_ex (\<lambda>x. chp_ID x = lsn_ChapterID r) (t_chapters d) then Inl ErrForeignKey
     else Inr ((), d\<lparr>t_lessons := t_lessons d @ [r]\<rparr>))"

record lessons_UpdatePatch =
  lup_Title :: string
  lup_Description :: "string option"
  lup_VideoURL :: "string option"
  lup_VideoDuration :: "int option"
  lup_OrderIndex :: int
  lup_IsPreview :: bool

definition patched_lesson :: "lessons_UpdatePatch \<Rightarrow> Lesson \<Rightarrow> Lesson" where
  "patched_lesson p r = r\<lparr>lsn_Title := lup_Title p, lsn_Description := lup_Description p,
     lsn_VideoUrl := lup_VideoURL p, lsn_VideoDuration := lup_VideoDuration p,
     lsn_OrderIndex := lup_OrderIndex p, lsn_IsPreview := lup_IsPreview p\<rparr>"

definition sql_update_lesson :: "lessons_UpdatePatch \<Rightarrow> string \<Rightarrow> unit stmt" where
  "sql_update_lesson p i = (\<lambda>d.
     if list_ex (\<lambda>r. lsn_ID r = i) (t_lessons d) \<and> \<not> fits_191 (lup_VideoURL p) then Inl ErrTooLong
     else Inr ((), d\<lparr>t_lessons := upd (\<lambda>r. lsn_ID r = i) (patched_lesson p) (t_lessons d)\<rparr>))"

definition sql_drop_lesson :: "int option \<Rightarrow> string \<Rightarrow> unit stmt" where
  "sql_drop_lesson t i = (\<lambda>d. Inr ((), d\<lparr>t_lessons :=
     upd (\<lambda>r. lsn_ID r = i \<and> lsn_DeletedAt r = None) (\<lambda>r. r\<lparr>lsn_DeletedAt := t\<rparr>) (t_lessons d)\<rparr>))"

definition sql_drop_lessons_of :: "int option \<Rightarrow> string \<Rightarrow> nat stmt" where
  "sql_drop_lessons_of t ch = (\<lambda>d.
     Inr (changed (\<lambda>r. lsn_ChapterID r = ch \<and> lsn_DeletedAt r = None) (\<lambda>r. r\<lparr>lsn_DeletedAt := t\<rparr>) (t_lessons d),
          d\<lparr>t_lessons := upd (\<lambda>r. lsn_ChapterID r = ch \<and> lsn_DeletedAt r = None)
              (\<lambda>r. r\<lparr>lsn_DeletedAt := t\<rparr>) (t_lessons d)\<rparr>))"

definition q_CreateLesson :: "Lesson \<Rightarrow> unit io" where
  "q_CreateLesson r = exec (insert_lesson r)"

definition q_GetLessonByID :: "string \<Rightarrow> Lesson io" where
  "q_GetLessonByID i =
     query_one (\<lambda>d. first_row (\<lambda>r. lsn_ID r = i \<and> lsn_DeletedAt r = None) (t_lessons d))"

definition q_LessonsByIDs :: "string list \<Rightarrow> (string \<times> string) list io" where
  "q_LessonsByIDs ids = query (\<lambda>d. map (\<lambda>r. (lsn_ID r, lsn_ChapterID r))
     (filter (\<lambda>r. lsn_ID r \<in> set ids) (t_lessons d)))"

definition q_ListLessonsByChapter :: "string \<Rightarrow> Lesson list io" where
  "q_ListLessonsByChapter ch = query (\<lambda>d. sort_key lsn_OrderIndex
     (filter (\<lambda>r. lsn_ChapterID r = ch \<and> lsn_DeletedAt r = None) (t_lessons d)))"

definition q_MaxLessonOrderIndex :: "string \<Rightarrow> int io" where
  "q_MaxLessonOrderIndex ch = query (\<lambda>d. coalesce_max (map lsn_OrderIndex
     (filter (\<lambda>r. lsn_ChapterID r = ch \<and> lsn_DeletedAt r = None) (t_lessons d))))"

definition q_SoftDeleteLesson :: "int option \<Rightarrow> string \<Rightarrow> unit io" where
  "q_SoftDeleteLesson t i = exec (sql_drop_lesson t i)"

definition q_SoftDeleteLessonsByChapter :: "int option \<Rightarrow> string \<Rightarrow> nat io" where
  "q_SoftDeleteLessonsByChapter t ch = exec (sql_drop_lessons_of t ch)"

definition q_UpdateLesson :: "lessons_UpdatePatch \<Rightarrow> string \<Rightarrow> unit io" where
  "q_UpdateLesson p i = exec (sql_update_lesson p i)"

section \<open>Repo\<close>

definition lessons_repo_ListByChapter :: "string \<Rightarrow> Lesson list io" where
  "lessons_repo_ListByChapter ch =
     call (q_ListLessonsByChapter ch) (\<lambda>e. fail (Wrap ''lessons.repo: list'' e)) ret"

definition lessons_repo_GetByID :: "string \<Rightarrow> Lesson io" where
  "lessons_repo_GetByID i =
     call (q_GetLessonByID i)
       (\<lambda>e. if errors_is e ErrNoRows then fail lessons_ErrNotFound else fail (Wrap ''lessons.repo: get'' e)) ret"

record lessons_CreateInput =
  lci_ChapterID :: string
  lci_Title :: string
  lci_Description :: "string option"
  lci_VideoURL :: "string option"
  lci_VideoDuration :: "int option"
  lci_OrderIndex :: int
  lci_IsPreview :: bool

definition new_lesson :: "string \<Rightarrow> lessons_CreateInput \<Rightarrow> int \<Rightarrow> Lesson" where
  "new_lesson i a now =
     \<lparr> lsn_ID = i, lsn_ChapterID = lci_ChapterID a, lsn_Title = lci_Title a,
       lsn_Description = lci_Description a, lsn_VideoUrl = lci_VideoURL a,
       lsn_VideoDuration = lci_VideoDuration a, lsn_OrderIndex = lci_OrderIndex a,
       lsn_IsPreview = lci_IsPreview a, lsn_CreatedAt = now, lsn_DeletedAt = None \<rparr>"

definition lessons_repo_Create :: "lessons_CreateInput \<Rightarrow> Lesson io" where
  "lessons_repo_Create a =
     bind go_now (\<lambda>now. bind new_uuid (\<lambda>i.
     call (q_CreateLesson (new_lesson i a now)) (\<lambda>e. fail (Wrap ''lessons.repo: create'' e))
       (\<lambda>_. ret (new_lesson i a now))))"

definition lessons_repo_Update :: "string \<Rightarrow> lessons_UpdatePatch \<Rightarrow> unit io" where
  "lessons_repo_Update i p = call (q_UpdateLesson p i) (\<lambda>e. fail (Wrap ''lessons.repo: update'' e)) ret"

definition lessons_repo_SoftDelete :: "string \<Rightarrow> unit io" where
  "lessons_repo_SoftDelete i = bind go_now (\<lambda>now.
     call (q_SoftDeleteLesson (Some now) i) (\<lambda>e. fail (Wrap ''lessons.repo: soft delete'' e)) ret)"

definition lessons_repo_MaxOrderIndex :: "string \<Rightarrow> int io" where
  "lessons_repo_MaxOrderIndex ch =
     call (q_MaxLessonOrderIndex ch) (\<lambda>e. fail (Wrap ''lessons.repo: max order index'' e)) (\<lambda>v. ret (wrap32 v))"

definition lessons_repo_LessonsByIDs :: "string list \<Rightarrow> (string \<times> string) list io" where
  "lessons_repo_LessonsByIDs ids = call (q_LessonsByIDs ids) (\<lambda>e. fail (Wrap ''lessons.repo: by ids'' e)) ret"

definition lessons_repo_ChapterExists :: "string \<Rightarrow> bool io" where
  "lessons_repo_ChapterExists ch =
     query (\<lambda>d. list_ex (\<lambda>r. chp_ID r = ch \<and> chp_DeletedAt r = None) (t_chapters d))"

definition lessons_repo_SoftDeleteByChapter :: "string \<Rightarrow> nat io" where
  "lessons_repo_SoftDeleteByChapter ch = bind go_now (\<lambda>now.
     call (q_SoftDeleteLessonsByChapter (Some now) ch)
       (\<lambda>e. fail (Wrap ''lessons.repo: soft delete by chapter'' e)) ret)"

text \<open>The hook of \<open>Delete\<close> as \<open>mountResources\<close> sets it.\<close>

definition ResourceSoftDeleteByLesson :: "string \<Rightarrow> nat io" where
  "ResourceSoftDeleteByLesson l = resources_repo_SoftDeleteByLesson l"

section \<open>Service\<close>

record lessons_APIInput =
  lin_Title :: string
  lin_Description :: string
  lin_VideoURL :: string
  lin_VideoDuration :: "int option"
  lin_IsPreview :: "bool option"
  lin_OrderIndex :: "int option"

definition lessons_validateURL :: "string \<Rightarrow> go_error option" where
  "lessons_validateURL u =
     (if u = [] then None
      else if 500 < length u then Some (BadRequest (''videoUrl'' @ '' too long''))
      else if \<not> http_url u then Some (BadRequest (''videoUrl'' @ '' must be http(s)://'')) else None)"

definition duration_check :: "int option \<Rightarrow> go_error option" where
  "duration_check n = (if \<exists>x \<in> set_option n. x < 0 then Some (BadRequest msg_video_duration) else None)"

definition lessons_audit :: "string \<Rightarrow> string \<Rightarrow> string \<Rightarrow> unit io" where
  "lessons_audit action i ch = server_audit ''lesson'' action i (Some (json_pair ''chapterId'' ch))"

definition lessons_ListByChapter :: "string \<Rightarrow> Lesson list io" where
  "lessons_ListByChapter ch =
     call (lessons_repo_ChapterExists ch) (\<lambda>e. fail (Internal ''check chapter'' e)) (\<lambda>present.
       if \<not> present then fail (NotFound ''Chapter not found'')
       else call (lessons_repo_ListByChapter ch) (\<lambda>e. fail (Internal ''list lessons'' e)) ret)"

definition lesson_input :: "string \<Rightarrow> lessons_APIInput \<Rightarrow> int \<Rightarrow> lessons_CreateInput" where
  "lesson_input ch a orderIdx =
     \<lparr> lci_ChapterID = ch, lci_Title = lin_Title a, lci_Description = non_empty (lin_Description a),
       lci_VideoURL = non_empty (lin_VideoURL a), lci_VideoDuration = lin_VideoDuration a,
       lci_OrderIndex = orderIdx, lci_IsPreview = (lin_IsPreview a = Some True) \<rparr>"

definition lessons_Create :: "string \<Rightarrow> lessons_APIInput \<Rightarrow> Lesson io" where
  "lessons_Create ch a =
     checked_by (content_validateTitle (lin_Title a)) (
     checked_by (lessons_validateURL (lin_VideoURL a)) (
     checked_by (duration_check (lin_VideoDuration a)) (
     call (lessons_repo_ChapterExists ch) (\<lambda>e. fail (Internal ''check chapter'' e)) (\<lambda>present.
       if \<not> present then fail (NotFound ''Chapter not found'')
       else bind (case lin_OrderIndex a of Some i \<Rightarrow> ret i
                  | None \<Rightarrow> call (lessons_repo_MaxOrderIndex ch) (\<lambda>e. fail (Internal ''max order index'' e))
                      (\<lambda>m. ret (wrap32 (m + 1)))) (\<lambda>orderIdx.
            call (lessons_repo_Create (lesson_input ch a orderIdx)) (\<lambda>e. fail (Internal ''create lesson'' e)) (\<lambda>out.
            bind (lessons_audit ''lesson.create'' (lsn_ID out) ch) (\<lambda>_. ret out)))))))"

definition lookup_lesson :: "string \<Rightarrow> (Lesson \<Rightarrow> 'a io) \<Rightarrow> 'a io" where
  "lookup_lesson i k =
     call (lessons_repo_GetByID i)
       (\<lambda>e. if errors_is e lessons_ErrNotFound then fail (NotFound ''Lesson not found'')
            else fail (Internal ''lookup lesson'' e)) k"

text \<open>A request with a title and no description clears the description.\<close>

definition lesson_patch :: "Lesson \<Rightarrow> lessons_APIInput \<Rightarrow> lessons_UpdatePatch" where
  "lesson_patch before a =
     \<lparr> lup_Title = or_old (lin_Title a) (lsn_Title before),
       lup_Description = (if lin_Description a \<noteq> [] \<or> (lin_Description a = [] \<and> lin_Title a \<noteq> [])
                          then non_empty (lin_Description a) else lsn_Description before),
       lup_VideoURL = (if lin_VideoURL a \<noteq> [] then non_empty (lin_VideoURL a) else lsn_VideoUrl before),
       lup_VideoDuration = (case lin_VideoDuration a of None \<Rightarrow> lsn_VideoDuration before | Some n \<Rightarrow> Some n),
       lup_OrderIndex = (case lin_OrderIndex a of None \<Rightarrow> lsn_OrderIndex before | Some n \<Rightarrow> n),
       lup_IsPreview = (case lin_IsPreview a of None \<Rightarrow> lsn_IsPreview before | Some b \<Rightarrow> b) \<rparr>"

definition lessons_Update :: "string \<Rightarrow> lessons_APIInput \<Rightarrow> Lesson io" where
  "lessons_Update i a = lookup_lesson i (\<lambda>before.
     checked_by (given content_validateTitle (lin_Title a)) (
     checked_by (given lessons_validateURL (lin_VideoURL a)) (
     checked_by (duration_check (lin_VideoDuration a)) (
     call (lessons_repo_Update i (lesson_patch before a)) (\<lambda>e. fail (Internal ''update lesson'' e)) (\<lambda>_.
     call (lessons_repo_GetByID i) (\<lambda>e. fail (Internal ''reload lesson'' e)) (\<lambda>after.
     bind (lessons_audit ''lesson.update'' i (lsn_ChapterID before)) (\<lambda>_. ret after)))))))"

definition lessons_Delete :: "string \<Rightarrow> unit io" where
  "lessons_Delete i = lookup_lesson i (\<lambda>before.
     call (lessons_repo_SoftDelete i) (\<lambda>e. fail (Internal ''soft delete lesson'' e)) (\<lambda>_.
     ignoring (ResourceSoftDeleteByLesson i) (
     lessons_audit ''lesson.delete'' i (lsn_ChapterID before))))"

text \<open>The patch of \<open>Reorder\<close> sets the index and leaves every other field of the literal zero.\<close>

definition order_only :: "nat \<Rightarrow> lessons_UpdatePatch" where
  "order_only i = \<lparr> lup_Title = [], lup_Description = None, lup_VideoURL = None, lup_VideoDuration = None,
     lup_OrderIndex = wrap32 (int i), lup_IsPreview = False \<rparr>"

definition lessons_Reorder :: "string \<Rightarrow> string list \<Rightarrow> string list io" where
  "lessons_Reorder ch ids =
     (if ids = [] then fail (BadRequest ''ids must be a non-empty array'')
      else call (lessons_repo_LessonsByIDs ids) (\<lambda>e. fail (Internal ''lookup lessons'' e)) (\<lambda>refs.
        if length refs \<noteq> length ids
        then fail (BadRequest (''some lesson ids not found: expected '' @ show_nat (length ids) @ '', got ''
               @ show_nat (length refs)))
        else if list_ex (\<lambda>(_, c). c \<noteq> ch) refs
        then fail (Forbidden (''lessons do not belong to chapter '' @ ch))
        else call (for_indexed (\<lambda>i l. call (lessons_repo_Update l (order_only i))
                     (\<lambda>e. fail (Internal (''reorder lesson '' @ l) e)) ret) 0 ids) fail (\<lambda>_.
             bind (lessons_audit ''lesson.reorder'' ch ch) (\<lambda>_. ret ids))))"

section \<open>Endpoints\<close>

record LessonView =
  lsv_id :: string
  lsv_chapterId :: string
  lsv_title :: string
  lsv_description :: string
  lsv_videoUrl :: string
  lsv_videoDuration :: int
  lsv_orderIndex :: int
  lsv_isPreview :: bool
  lsv_createdAt :: int

definition publicLessonView :: "Lesson \<Rightarrow> LessonView" where
  "publicLessonView l =
     \<lparr> lsv_id = lsn_ID l, lsv_chapterId = lsn_ChapterID l, lsv_title = lsn_Title l,
       lsv_description = or_empty (lsn_Description l), lsv_videoUrl = or_empty (lsn_VideoUrl l),
       lsv_videoDuration = (case lsn_VideoDuration l of None \<Rightarrow> 0 | Some n \<Rightarrow> n),
       lsv_orderIndex = lsn_OrderIndex l, lsv_isPreview = lsn_IsPreview l, lsv_createdAt = lsn_CreatedAt l \<rparr>"

definition h_lessons_listByChapter :: "Claims option \<Rightarrow> string \<Rightarrow> LessonView list io" where
  "h_lessons_listByChapter claims ch = admin_only claims
     (call (lessons_ListByChapter ch) fail (\<lambda>rows. ret (map publicLessonView rows)))"

definition h_lessons_create :: "Claims option \<Rightarrow> string \<Rightarrow> lessons_APIInput option \<Rightarrow> LessonView io" where
  "h_lessons_create claims ch body = admin_only claims (with_body body (\<lambda>a.
     call (lessons_Create ch a) fail (\<lambda>r. ret (publicLessonView r))))"

definition h_lessons_reorder :: "Claims option \<Rightarrow> string \<Rightarrow> string list option \<Rightarrow> string list io" where
  "h_lessons_reorder claims ch body = admin_only claims (with_body body (lessons_Reorder ch))"

definition h_lessons_update :: "Claims option \<Rightarrow> string \<Rightarrow> lessons_APIInput option \<Rightarrow> LessonView io" where
  "h_lessons_update claims i body = admin_only claims (with_body body (\<lambda>a.
     call (lessons_Update i a) fail (\<lambda>r. ret (publicLessonView r))))"

definition h_lessons_delete :: "Claims option \<Rightarrow> string \<Rightarrow> bool io" where
  "h_lessons_delete claims i = admin_only claims (call (lessons_Delete i) fail (\<lambda>_. ret True))"

end
