(* ===== verification/Chapters.thy ===== *)
theory Chapters
  imports Lessons
begin

text \<open>
  \<open>internal/chapters\<close> (repo and service), \<open>internal/repo/db/chapters.sql.go\<close> and the endpoints of
  \<open>internal/handler/chapters.go\<close>; deleting a chapter calls the hook \<open>mountLessons\<close> installs.
\<close>

abbreviation chapters_ErrNotFound :: go_error where
  "chapters_ErrNotFound \<equiv> Sentinel ''chapters: not found''"

section \<open>Statements\<close>

definition insert_chapter :: "Chapter \<Rightarrow> unit stmt" where
  "insert_chapter r = (\<lambda>d.
     if list_ex (\<lambda>x. chp_ID x = chp_ID r) (t_chapters d) then Inl ErrDuplicate
     else if \<not> course_exists d (chp_CourseID r) then Inl ErrForeignKey
     else Inr ((), d\<lparr>t_chapters := t_chapters d @ [r]\<rparr>))"

record chapters_UpdatePatch =
  cup_Title :: string
  cup_Description :: "string option"
  cup_OrderIndex :: int

definition patched_chapter :: "chapters_UpdatePatch \<Rightarrow> Chapter \<Rightarrow> Chapter" where
  "patched_chapter p r = r\<lparr>chp_Title := cup_Title p, chp_Description := cup_Description p,
     chp_OrderIndex := cup_OrderIndex p\<rparr>"

definition sql_update_chapter :: "chapters_UpdatePatch \<Rightarrow> string \<Rightarrow> unit stmt" where
  "sql_update_chapter p i = (\<lambda>d.
     Inr ((), d\<lparr>t_chapters := upd (\<lambda>r. chp_ID r = i) (patched_chapter p) (t_chapters d)\<rparr>))"

definition sql_drop_chapter :: "int option \<Rightarrow> string \<Rightarrow> unit stmt" where
  "sql_drop_chapter t i = (\<lambda>d. Inr ((), d\<lparr>t_chapters :=
     upd (\<lambda>r. chp_ID r = i \<and> chp_DeletedAt r = None) (\<lambda>r. r\<lparr>chp_DeletedAt := t\<rparr>) (t_chapters d)\<rparr>))"

definition q_ChaptersByIDs :: "string list \<Rightarrow> (string \<times> string) list io" where
  "q_ChaptersByIDs ids = query (\<lambda>d. map (\<lambda>r. (chp_ID r, chp_CourseID r))
     (filter (\<lambda>r. chp_ID r \<in> set ids) (t_chapters d)))"

definition q_CreateChapter :: "Chapter \<Rightarrow> unit io" where
  "q_CreateChapter r = exec (insert_chapter r)"

definition q_GetChapterByID :: "string \<Rightarrow> Chapter io" where
  "q_GetChapterByID i =
     query_one (\<lambda>d. first_row (\<lambda>r. chp_ID r = i \<and> chp_DeletedAt r = None) (t_chapters d))"

definition q_GetChapterByIDIncludingDeleted :: "string \<Rightarrow> Chapter io" where
  "q_GetChapterByIDIncludingDeleted i = query_one (\<lambda>d. first_row (\<lambda>r. chp_ID r = i) (t_chapters d))"

definition q_ListChaptersByCourse :: "string \<Rightarrow> Chapter list io" where
  "q_ListChaptersByCourse c = query (\<lambda>d. sort_key chp_OrderIndex
     (filter (\<lambda>r. chp_CourseID r = c \<and> chp_DeletedAt r = None) (t_chapters d)))"

definition q_MaxChapterOrderIndex :: "string \<Rightarrow> int io" where
  "q_MaxChapterOrderIndex c = query (\<lambda>d. coalesce_max (map chp_OrderIndex
     (filter (\<lambda>r. chp_CourseID r = c \<and> chp_DeletedAt r = None) (t_chapters d))))"

definition q_SoftDeleteChapter :: "int option \<Rightarrow> string \<Rightarrow> unit io" where
  "q_SoftDeleteChapter t i = exec (sql_drop_chapter t i)"

definition q_UpdateChapter :: "chapters_UpdatePatch \<Rightarrow> string \<Rightarrow> unit io" where
  "q_UpdateChapter p i = exec (sql_update_chapter p i)"

section \<open>Repo\<close>

definition chapters_repo_ListByCourse :: "string \<Rightarrow> Chapter list io" where
  "chapters_repo_ListByCourse c =
     call (q_ListChaptersByCourse c) (\<lambda>e. fail (Wrap ''chapters.repo: list'' e)) ret"

definition chapters_repo_GetByID :: "string \<Rightarrow> Chapter io" where
  "chapters_repo_GetByID i =
     call (q_GetChapterByID i)
       (\<lambda>e. if errors_is e ErrNoRows then fail chapters_ErrNotFound else fail (Wrap ''chapters.repo: get'' e)) ret"

definition chapters_repo_GetByIDIncludingDeleted :: "string \<Rightarrow> Chapter io" where
  "chapters_repo_GetByIDIncludingDeleted i =
     call (q_GetChapterByIDIncludingDeleted i)
       (\<lambda>e. if errors_is e ErrNoRows then fail chapters_ErrNotFound
            else fail (Wrap ''chapters.repo: get incl deleted'' e)) ret"

definition new_chapter :: "string \<Rightarrow> string \<Rightarrow> string \<Rightarrow> string option \<Rightarrow> int \<Rightarrow> int \<Rightarrow> Chapter" where
  "new_chapter i c title descr idx now =
     \<lparr> chp_ID = i, chp_CourseID = c, chp_Title = title, chp_Description = descr,
       chp_OrderIndex = idx, chp_CreatedAt = now, chp_DeletedAt = None \<rparr>"

definition chapters_repo_Create :: "string \<Rightarrow> string \<Rightarrow> string option \<Rightarrow> int \<Rightarrow> Chapter io" where
  "chapters_repo_Create c title descr idx =
     bind go_now (\<lambda>now. bind new_uuid (\<lambda>i.
     call (q_CreateChapter (new_chapter i c title descr idx now)) (\<lambda>e. fail (Wrap ''chapters.repo: create'' e))
       (\<lambda>_. ret (new_chapter i c title descr idx now))))"

definition chapters_repo_Update :: "string \<Rightarrow> chapters_UpdatePatch \<Rightarrow> unit io" where
  "chapters_repo_Update i p = call (q_UpdateChapter p i) (\<lambda>e. fail (Wrap ''chapters.repo: update'' e)) ret"

definition chapters_repo_SoftDelete :: "string \<Rightarrow> unit io" where
  "chapters_repo_SoftDelete i = bind go_now (\<lambda>now.
     call (q_SoftDeleteChapter (Some now) i) (\<lambda>e. fail (Wrap ''chapters.repo: soft delete'' e)) ret)"

definition chapters_repo_MaxOrderIndex :: "string \<Rightarrow> int io" where
  "chapters_repo_MaxOrderIndex c =
     call (q_MaxChapterOrderIndex c) (\<lambda>e. fail (Wrap ''chapters.repo: max order index'' e)) (\<lambda>v. ret (wrap32 v))"

definition chapters_repo_ChaptersByIDs :: "string list \<Rightarrow> (string \<times> string) list io" where
  "chapters_repo_ChaptersByIDs ids =
     (if ids = [] then ret []
      else call (q_ChaptersByIDs ids) (\<lambda>e. fail (Wrap ''chapters.repo: by ids'' e)) ret)"

definition chapters_repo_CourseExists :: "string \<Rightarrow> bool io" where
  "chapters_repo_CourseExists c = query (\<lambda>d. course_exists d c)"

text \<open>The hook of \<open>Delete\<close> as \<open>mountLessons\<close> sets it.\<close>

definition LessonSoftDeleteByChapter :: "string \<Rightarrow> nat io" where
  "LessonSoftDeleteByChapter ch = lessons_repo_SoftDeleteByChapter ch"

section \<open>Service\<close>

record chapters_APIInput =
  cin_Title :: string
  cin_Description :: string
  cin_OrderIndex :: "int option"

definition chapters_audit :: "string \<Rightarrow> string \<Rightarrow> string \<Rightarrow> unit io" where
  "chapters_audit action i c = server_audit ''chapter'' action i (Some (json_pair ''courseId'' c))"

definition chapters_ListByCourse :: "string \<Rightarrow> Chapter list io" where
  "chapters_ListByCourse c =
     call (chapters_repo_CourseExists c) (\<lambda>e. fail (Internal ''check course'' e)) (\<lambda>present.
       if \<not> present then fail (NotFound ''Course not found'')
       else call (chapters_repo_ListByCourse c) (\<lambda>e. fail (Internal ''list chapters'' e)) ret)"

definition chapters_Create :: "string \<Rightarrow> chapters_APIInput \<Rightarrow> Chapter io" where
  "chapters_Create c a =
     checked_by (content_validateTitle (cin_Title a)) (
     call (chapters_repo_CourseExists c) (\<lambda>e. fail (Internal ''check course'' e)) (\<lambda>present.
       if \<not> present then fail (NotFound ''Course not found'')
       else bind (case cin_OrderIndex a of Some i \<Rightarrow> ret i
                  | None \<Rightarrow> call (chapters_repo_MaxOrderIndex c) (\<lambda>e. fail (Internal ''max order index'' e))
                      (\<lambda>m. ret (wrap32 (m + 1)))) (\<lambda>orderIdx.
            call (chapters_repo_Create c (cin_Title a) (non_empty (cin_Description a)) orderIdx)
              (\<lambda>e. fail (Internal ''create chapter'' e)) (\<lambda>out.
            bind (chapters_audit ''chapter.create'' (chp_ID out) c) (\<lambda>_. ret out)))))"

definition lookup_chapter :: "string \<Rightarrow> (Chapter \<Rightarrow> 'a io) \<Rightarrow> 'a io" where
  "lookup_chapter i k =
     call (chapters_repo_GetByID i)
       (\<lambda>e. if e = chapters_ErrNotFound then fail (NotFound ''Chapter not found'')
            else fail (Internal ''lookup chapter'' e)) k"

text \<open>A request with a title and no description clears the description.\<close>

definition chapter_patch :: "Chapter \<Rightarrow> chapters_APIInput \<Rightarrow> chapters_UpdatePatch" where
  "chapter_patch before a =
     \<lparr> cup_Title = or_old (cin_Title a) (chp_Title before),
       cup_Description = (if cin_Description a \<noteq> [] \<or> (cin_Description a = [] \<and> cin_Title a \<noteq> [])
                          then non_empty (cin_Description a) else chp_Description before),
       cup_OrderIndex = (case cin_OrderIndex a of None \<Rightarrow> chp_OrderIndex before | Some n \<Rightarrow> n) \<rparr>"

definition chapters_Update :: "string \<Rightarrow> chapters_APIInput \<Rightarrow> Chapter io" where
  "chapters_Update i a = lookup_chapter i (\<lambda>before.
     checked_by (given content_validateTitle (cin_Title a)) (
     call (chapters_repo_Update i (chapter_patch before a)) (\<lambda>e. fail (Internal ''update chapter'' e)) (\<lambda>_.
     call (chapters_repo_GetByID i) (\<lambda>e. fail (Internal ''reload chapter'' e)) (\<lambda>after.
     bind (chapters_audit ''chapter.update'' i (chp_CourseID before)) (\<lambda>_. ret after)))))"

definition chapters_Delete :: "string \<Rightarrow> unit io" where
  "chapters_Delete i = lookup_chapter i (\<lambda>before.
     call (chapters_repo_SoftDelete i) (\<lambda>e. fail (Internal ''soft delete chapter'' e)) (\<lambda>_.
     ignoring (LessonSoftDeleteByChapter i) (
     chapters_audit ''chapter.delete'' i (chp_CourseID before))))"

text \<open>The patch of \<open>Reorder\<close> sets the index and leaves title and description zero.\<close>

definition chapter_order_only :: "nat \<Rightarrow> chapters_UpdatePatch" where
  "chapter_order_only i = \<lparr> cup_Title = [], cup_Description = None, cup_OrderIndex = wrap32 (int i) \<rparr>"

definition chapters_Reorder :: "string \<Rightarrow> string list \<Rightarrow> string list io" where
  "chapters_Reorder c ids =
     (if ids = [] then fail (BadRequest ''ids must be a non-empty array'')
      else call (chapters_repo_ChaptersByIDs ids) (\<lambda>e. fail (Internal ''lookup chapters'' e)) (\<lambda>refs.
        if length refs \<noteq> length ids
        then fail (BadRequest (''some chapter ids not found: expected '' @ show_nat (length ids) @ '', got ''
               @ show_nat (length refs)))
        else if list_ex (\<lambda>(_, k). k \<noteq> c) refs
        then fail (Forbidden (''chapters '' @ comma_sep ids @ '' do not belong to course '' @ c))
        else call (for_indexed (\<lambda>i l. call (chapters_repo_Update l (chapter_order_only i))
                     (\<lambda>e. fail (Internal (''reorder chapter '' @ l) e)) ret) 0 ids) fail (\<lambda>_.
             bind (chapters_audit ''chapter.reorder'' c c) (\<lambda>_. ret ids))))"

section \<open>Endpoints\<close>

record ChapterView =
  chv_id :: string
  chv_courseId :: string
  chv_title :: string
  chv_description :: string
  chv_orderIndex :: int
  chv_createdAt :: int

definition publicChapterView :: "Chapter \<Rightarrow> ChapterView" where
  "publicChapterView c =
     \<lparr> chv_id = chp_ID c, chv_courseId = chp_CourseID c, chv_title = chp_Title c,
       chv_description = or_empty (chp_Description c), chv_orderIndex = chp_OrderIndex c,
       chv_createdAt = chp_CreatedAt c \<rparr>"

definition h_chapters_listByCourse :: "Claims option \<Rightarrow> string \<Rightarrow> ChapterView list io" where
  "h_chapters_listByCourse claims c = admin_only claims
     (call (chapters_ListByCourse c) fail (\<lambda>rows. ret (map publicChapterView rows)))"

definition h_chapters_create :: "Claims option \<Rightarrow> string \<Rightarrow> chapters_APIInput option \<Rightarrow> ChapterView io" where
  "h_chapters_create claims c body = admin_only claims (with_body body (\<lambda>a.
     call (chapters_Create c a) fail (\<lambda>r. ret (publicChapterView r))))"

definition h_chapters_reorder :: "Claims option \<Rightarrow> string \<Rightarrow> string list option \<Rightarrow> string list io" where
  "h_chapters_reorder claims c body = admin_only claims (with_body body (chapters_Reorder c))"

definition h_chapters_update :: "Claims option \<Rightarrow> string \<Rightarrow> chapters_APIInput option \<Rightarrow> ChapterView io" where
  "h_chapters_update claims i body = admin_only claims (with_body body (\<lambda>a.
     call (chapters_Update i a) fail (\<lambda>r. ret (publicChapterView r))))"

definition h_chapters_delete :: "Claims option \<Rightarrow> string \<Rightarrow> bool io" where
  "h_chapters_delete claims i = admin_only claims (call (chapters_Delete i) fail (\<lambda>_. ret True))"

end
