(* ===== verification/ContentFacts.thy ===== *)
theory ContentFacts
  imports Chapters Demo
begin

text \<open>
  Reordering chapters and lessons writes the new indices and erases everything else the update
  statement writes.
\<close>

section \<open>A loop of updates by key\<close>

fun rewrite_all :: "('r \<Rightarrow> string) \<Rightarrow> (nat \<Rightarrow> 'r \<Rightarrow> 'r) \<Rightarrow> nat \<Rightarrow> string list \<Rightarrow> 'r list \<Rightarrow> 'r list" where
  "rewrite_all k f i [] rs = rs"
| "rewrite_all k f i (x # xs) rs = rewrite_all k f (Suc i) xs (upd (\<lambda>r. k r = x) (f i) rs)"

lemma place_of_Cons: "place_of x (y # ys) = (if y = x then 0 else Suc (place_of x ys))"
  by (simp add: place_of_def)

lemma rewrite_all_map:
  assumes "distinct ids" "\<And>i r. k (f i r) = k r"
  shows "rewrite_all k f i ids rs =
    map (\<lambda>r. if k r \<in> set ids then f (i + place_of (k r) ids) r else r) rs"
  using assms
proof (induction ids arbitrary: i rs)
  case (Cons x xs)
  then show ?case by (auto simp: upd_def place_of_Cons)
qed simp

text \<open>As many rows as ids: the rows found are those of the ids, one each.\<close>

lemma found_all:
  assumes keys: "distinct (map k rs)" and ids: "distinct ids" "set ids \<subseteq> k ` set rs"
  shows "length (filter (\<lambda>r. k r \<in> set ids) rs) = length ids"
proof -
  let ?fs = "filter (\<lambda>r. k r \<in> set ids) rs"
  have "distinct (map k ?fs)" using keys by (simp add: distinct_map_filter)
  moreover have "set (map k ?fs) = set ids" using ids(2) by auto
  ultimately show ?thesis using ids(1) by (metis distinct_card length_map)
qed

section \<open>Reordering\<close>

definition erased_chapter :: "string list \<Rightarrow> Chapter \<Rightarrow> Chapter" where
  "erased_chapter ids r = (if chp_ID r \<in> set ids
     then r\<lparr>chp_Title := [], chp_Description := None, chp_OrderIndex := wrap32 (int (place_of (chp_ID r) ids))\<rparr>
     else r)"

definition erased_lesson :: "string list \<Rightarrow> Lesson \<Rightarrow> Lesson" where
  "erased_lesson ids r = (if lsn_ID r \<in> set ids
     then r\<lparr>lsn_Title := [], lsn_Description := None, lsn_VideoUrl := None, lsn_VideoDuration := None,
            lsn_OrderIndex := wrap32 (int (place_of (lsn_ID r) ids)), lsn_IsPreview := False\<rparr>
     else r)"

lemma chapters_loop:
  "script w = [] \<Longrightarrow>
   for_indexed (\<lambda>i l. call (chapters_repo_Update l (chapter_order_only i)) (h l) ret) i ids w =
     (Inr (), w\<lparr>db := (db w)\<lparr>t_chapters :=
        rewrite_all chp_ID (\<lambda>i. patched_chapter (chapter_order_only i)) i ids (t_chapters (db w))\<rparr>\<rparr>)"
proof (induction ids arbitrary: i w)
  case (Cons x xs)
  have "call (chapters_repo_Update x (chapter_order_only i)) (h x) ret w = (Inr (), w\<lparr>db := (db w)\<lparr>t_chapters :=
      upd (\<lambda>r. chp_ID r = x) (patched_chapter (chapter_order_only i)) (t_chapters (db w))\<rparr>\<rparr>)"
    by (simp add: Cons.prems chapters_repo_Update_def q_UpdateChapter_def sql_update_chapter_def go_simps)
  then show ?case
    unfolding for_indexed.simps call_run [where m = "call (chapters_repo_Update x (chapter_order_only i)) (h x) ret"]
    by (simp add: Cons.prems Cons.IH)
qed (simp add: go_simps)

lemma lessons_loop:
  "script w = [] \<Longrightarrow>
   for_indexed (\<lambda>i l. call (lessons_repo_Update l (order_only i)) (h l) ret) i ids w =
     (Inr (), w\<lparr>db := (db w)\<lparr>t_lessons :=
        rewrite_all lsn_ID (\<lambda>i. patched_lesson (order_only i)) i ids (t_lessons (db w))\<rparr>\<rparr>)"
proof (induction ids arbitrary: i w)
  case (Cons x xs)
  have "fits_191 (lup_VideoURL (order_only i))" by (simp add: order_only_def fits_191_def)
  then have "call (lessons_repo_Update x (order_only i)) (h x) ret w = (Inr (), w\<lparr>db := (db w)\<lparr>t_lessons :=
      upd (\<lambda>r. lsn_ID r = x) (patched_lesson (order_only i)) (t_lessons (db w))\<rparr>\<rparr>)"
    by (simp add: Cons.prems lessons_repo_Update_def q_UpdateLesson_def sql_update_lesson_def go_simps)
  then show ?case
    unfolding for_indexed.simps call_run [where m = "call (lessons_repo_Update x (order_only i)) (h x) ret"]
    by (simp add: Cons.prems Cons.IH)
qed (simp add: go_simps)

lemma server_audit_quiet:
  assumes "script w = []"
  obtains as v where "server_audit e a i x w = (Inr (), v)" "db v = (db w)\<lparr>t_audit_logs := as\<rparr>"
proof -
  define u where "u = tick (w\<lparr>uuid_ix := Suc (uuid_ix w)\<rparr>)"
  define r where "r = server_audit_row (uuid_src w (uuid_ix w)) e a i x (clock w)"
  have u: "script u = []" "db u = db w" using assms by (simp_all add: u_def)
  obtain as where as: "snd (commit (insert_audit_log r) u) = u\<lparr>db := (db u)\<lparr>t_audit_logs := as\<rparr>\<rparr>"
    using audit_effect by blast
  have "server_audit e a i x w = (Inr (), snd (exec (insert_audit_log r) u))"
    by (simp add: server_audit_def new_uuid_run go_now_run bind_run ignoring_run ret_run u_def r_def)
  then show ?thesis
    by (intro that [of "snd (exec (insert_audit_log r) u)" as]) (simp_all add: exec_quiet u as)
qed

lemma chapters_erased:
  assumes quiet: "script w = []" and admin: "clm_Role k = ''admin''" and ids: "ids \<noteq> []" "distinct ids"
    and keys: "distinct (map chp_ID (t_chapters (db w)))"
    and own: "\<forall>i \<in> set ids. \<exists>r \<in> set (t_chapters (db w)). chp_ID r = i \<and> chp_CourseID r = c"
  shows "\<exists>v. h_chapters_reorder (Some k) c (Some ids) w = (Inr ids, v) \<and>
        t_chapters (db v) = map (erased_chapter ids) (t_chapters (db w))"
proof -
  let ?rs = "filter (\<lambda>r. chp_ID r \<in> set ids) (t_chapters (db w))"
  have "set ids \<subseteq> chp_ID ` set (t_chapters (db w))" using own by force
  then have n: "length ?rs = length ids" by (rule found_all [OF keys ids(2)])
  have mine: "\<not> list_ex (\<lambda>(_, k). k \<noteq> c) (map (\<lambda>r. (chp_ID r, chp_CourseID r)) ?rs)"
    using own keys by (auto simp: list_ex_iff dest: distinct_key_unique)
  define u where "u = w\<lparr>db := (db w)\<lparr>t_chapters := map (erased_chapter ids) (t_chapters (db w))\<rparr>\<rparr>"
  have "rewrite_all chp_ID (\<lambda>i. patched_chapter (chapter_order_only i)) 0 ids (t_chapters (db w)) =
      map (erased_chapter ids) (t_chapters (db w))"
    by (subst rewrite_all_map [OF ids(2)])
      (auto simp: patched_chapter_def chapter_order_only_def erased_chapter_def)
  then have loop: "for_indexed (\<lambda>i l. call (chapters_repo_Update l (chapter_order_only i)) (h l) ret) 0 ids w = (Inr (), u)" for h
    using chapters_loop [OF quiet, of h 0 ids] by (simp add: u_def)
  have "script u = []" using quiet by (simp add: u_def)
  then obtain as v where v: "server_audit ''chapter'' ''chapter.reorder'' c (Some (json_pair ''courseId'' c)) u = (Inr (), v)"
    "db v = (db u)\<lparr>t_audit_logs := as\<rparr>" by (rule server_audit_quiet)
  have "h_chapters_reorder (Some k) c (Some ids) w = (Inr ids, v)"
    using quiet admin ids n mine v loop
    by (simp add: h_chapters_reorder_def admin_only_def RequireRole_def with_body_def chapters_Reorder_def
        chapters_repo_ChaptersByIDs_def q_ChaptersByIDs_def chapters_audit_def go_simps)
  with v show "\<exists>v. h_chapters_reorder (Some k) c (Some ids) w = (Inr ids, v) \<and>
        t_chapters (db v) = map (erased_chapter ids) (t_chapters (db w))"
    by (intro exI [of _ v]) (simp add: u_def)
qed

lemma lessons_erased:
  assumes quiet: "script w = []" and admin: "clm_Role k = ''admin''" and ids: "ids \<noteq> []" "distinct ids"
    and keys: "distinct (map lsn_ID (t_lessons (db w)))"
    and own: "\<forall>i \<in> set ids. \<exists>r \<in> set (t_lessons (db w)). lsn_ID r = i \<and> lsn_ChapterID r = c"
  shows "\<exists>v. h_lessons_reorder (Some k) c (Some ids) w = (Inr ids, v) \<and>
        t_lessons (db v) = map (erased_lesson ids) (t_lessons (db w))"
proof -
  let ?rs = "filter (\<lambda>r. lsn_ID r \<in> set ids) (t_lessons (db w))"
  have "set ids \<subseteq> lsn_ID ` set (t_lessons (db w))" using own by force
  then have n: "length ?rs = length ids" by (rule found_all [OF keys ids(2)])
  have mine: "\<not> list_ex (\<lambda>(_, k). k \<noteq> c) (map (\<lambda>r. (lsn_ID r, lsn_ChapterID r)) ?rs)"
    using own keys by (auto simp: list_ex_iff dest: distinct_key_unique)
  define u where "u = w\<lparr>db := (db w)\<lparr>t_lessons := map (erased_lesson ids) (t_lessons (db w))\<rparr>\<rparr>"
  have "rewrite_all lsn_ID (\<lambda>i. patched_lesson (order_only i)) 0 ids (t_lessons (db w)) =
      map (erased_lesson ids) (t_lessons (db w))"
    by (subst rewrite_all_map [OF ids(2)]) (auto simp: patched_lesson_def order_only_def erased_lesson_def)
  then have loop: "for_indexed (\<lambda>i l. call (lessons_repo_Update l (order_only i)) (h l) ret) 0 ids w = (Inr (), u)" for h
    using lessons_loop [OF quiet, of h 0 ids] by (simp add: u_def)
  have "script u = []" using quiet by (simp add: u_def)
  then obtain as v where v: "server_audit ''lesson'' ''lesson.reorder'' c (Some (json_pair ''chapterId'' c)) u = (Inr (), v)"
    "db v = (db u)\<lparr>t_audit_logs := as\<rparr>" by (rule server_audit_quiet)
  have "h_lessons_reorder (Some k) c (Some ids) w = (Inr ids, v)"
    using quiet admin ids n mine v loop
    by (simp add: h_lessons_reorder_def admin_only_def RequireRole_def with_body_def lessons_Reorder_def
        lessons_repo_LessonsByIDs_def q_LessonsByIDs_def lessons_audit_def go_simps)
  with v show "\<exists>v. h_lessons_reorder (Some k) c (Some ids) w = (Inr ids, v) \<and>
        t_lessons (db v) = map (erased_lesson ids) (t_lessons (db w))"
    by (intro exI [of _ v]) (simp add: u_def)
qed

text \<open>C27: an accepted reordering of chapters (and of lessons) gives every listed row its place as index,
  and with it an empty title and no description (and no video, no duration, no preview): all
  of what the update statement writes beside the index is lost.  Rows not listed stay as they are.\<close>

theorem reorder_erases:
  assumes quiet: "script w = []" and admin: "clm_Role k = ''admin''" and ids: "ids \<noteq> []" "distinct ids"
    and keys: "distinct (map chp_ID (t_chapters (db w)))" "distinct (map lsn_ID (t_lessons (db w)))"
  shows "((\<forall>i \<in> set ids. \<exists>r \<in> set (t_chapters (db w)). chp_ID r = i \<and> chp_CourseID r = c) \<longrightarrow>
      (\<exists>v. h_chapters_reorder (Some k) c (Some ids) w = (Inr ids, v) \<and>
        t_chapters (db v) = map (erased_chapter ids) (t_chapters (db w)))) \<and>
    ((\<forall>i \<in> set ids. \<exists>r \<in> set (t_lessons (db w)). lsn_ID r = i \<and> lsn_ChapterID r = c) \<longrightarrow>
      (\<exists>v. h_lessons_reorder (Some k) c (Some ids) w = (Inr ids, v) \<and>
        t_lessons (db v) = map (erased_lesson ids) (t_lessons (db w))))"
  using chapters_erased [OF quiet admin ids keys(1)] lessons_erased [OF quiet admin ids keys(2)] by blast

definition content_world :: world where
  "content_world = demo_world ((demo_database [] [])\<lparr>t_lessons :=
     [(demo_lesson ''l1'' ''ch'')\<lparr>lsn_Title := ''one'', lsn_VideoUrl := Some ''https://v''\<rparr>,
      (demo_lesson ''l2'' ''ch'')\<lparr>lsn_Title := ''two''\<rparr>]\<rparr>)"

theorem reorder_erases_witness:
  "\<exists>v. h_lessons_reorder (Some (demo_claims ''a'' ''admin'')) ''ch'' (Some [''l2'', ''l1'']) content_world =
      (Inr [''l2'', ''l1''], v) \<and> map lsn_Title (t_lessons (db v)) = [[], []] \<and>
      map lsn_VideoUrl (t_lessons (db v)) = [None, None]"
proof -
  have "script content_world = []" "map chp_ID (t_chapters (db content_world)) = [''ch'']"
    "t_lessons (db content_world) = [(demo_lesson ''l1'' ''ch'')\<lparr>lsn_Title := ''one'', lsn_VideoUrl := Some ''https://v''\<rparr>,
      (demo_lesson ''l2'' ''ch'')\<lparr>lsn_Title := ''two''\<rparr>]"
    by (simp_all add: content_world_def demo_world_def demo_database_def demo_chapter_def)
  with reorder_erases [of content_world "demo_claims ''a'' ''admin''" "[''l2'', ''l1'']" "''ch''"] show ?thesis
    by (fastforce simp: demo_claims_def demo_lesson_def erased_lesson_def)
qed

end
