(* ===== verification/LearningEvents.thy ===== *)
theory LearningEvents
  imports Http AuthStore Tables Demo
begin

text \<open>
  \<open>internal/learningevents/repo.go\<close>, \<open>internal/repo/db/learning_events.sql.go\<close> and
  \<open>internal/handler/learningevents.go\<close>: what a player reports about the watching of a lesson.
\<close>

section \<open>Statements\<close>

definition event_types :: "string list" where
  "event_types = [''play'', ''pause'', ''seek'', ''complete'', ''replay'', ''skip'', ''note'']"

definition insert_learning_event :: "LearningEvent \<Rightarrow> unit stmt" where
  "insert_learning_event e = (\<lambda>d.
     if lev_EventType e \<notin> set event_types then Inl ErrTruncated
     else if list_ex (\<lambda>r. lev_ID r = lev_ID e) (t_learning_events d) then Inl ErrDuplicate
     else if \<not> (user_exists d (lev_UserID e) \<and> list_all (lesson_exists d) (case lev_LessonID e of None \<Rightarrow> [] | Some l \<Rightarrow> [l]))
     then Inl ErrForeignKey
     else Inr ((), d\<lparr>t_learning_events := t_learning_events d @ [e]\<rparr>))"

text \<open>The time of the row is the server's.  How the driver sends a nil \<open>json.RawMessage\<close> is not part of the
  repository: \<open>null_ok\<close> says that the server takes it for \<open>NULL\<close>; else it sees an empty document and
  refuses it.\<close>

definition q_CreateLearningEvent :: "bool \<Rightarrow> LearningEvent \<Rightarrow> unit io" where
  "q_CreateLearningEvent null_ok e = bind go_now (\<lambda>server.
     exec (if lev_Metadata e = None \<and> \<not> null_ok then (\<lambda>_. Inl ErrTruncated)
           else insert_learning_event (e\<lparr>lev_CreatedAt := server\<rparr>)))"

text \<open>\<open>IFNULL(metadata, JSON_OBJECT())\<close>\<close>

definition with_event_metadata :: "LearningEvent \<Rightarrow> LearningEvent" where
  "with_event_metadata e = (case lev_Metadata e of None \<Rightarrow> e\<lparr>lev_Metadata := Some (JObj [])\<rparr> | Some _ \<Rightarrow> e)"

definition q_ListLearningEventsByUser :: "string \<Rightarrow> nat \<Rightarrow> LearningEvent list io" where
  "q_ListLearningEventsByUser u n = query (\<lambda>d. map with_event_metadata (take n (sort_desc lev_CreatedAt
     (filter (\<lambda>r. lev_UserID r = u) (t_learning_events d)))))"

definition q_ListLearningEventsByLesson :: "string \<Rightarrow> nat \<Rightarrow> LearningEvent list io" where
  "q_ListLearningEventsByLesson l n = query (\<lambda>d. map with_event_metadata (take n (sort_desc lev_CreatedAt
     (filter (\<lambda>r. lev_LessonID r = Some l) (t_learning_events d)))))"

section \<open>Repo and service\<close>

definition learningevents_repo_ListByUser :: "string \<Rightarrow> nat \<Rightarrow> LearningEvent list io" where
  "learningevents_repo_ListByUser u n =
     call (q_ListLearningEventsByUser u n) (\<lambda>e. fail (Wrap ''learningevents.repo: list by user'' e)) ret"

definition learningevents_repo_ListByLesson :: "string \<Rightarrow> nat \<Rightarrow> LearningEvent list io" where
  "learningevents_repo_ListByLesson l n =
     call (q_ListLearningEventsByLesson l n) (\<lambda>e. fail (Wrap ''learningevents.repo: list by lesson'' e)) ret"

record EventDTO =
  evd_ID :: string
  evd_UserID :: string
  evd_LessonID :: "string option"
  evd_EventType :: string
  evd_PositionSec :: "int option"
  evd_DurationMs :: "int option"
  evd_Metadata :: "json option"
  evd_CreatedAt :: string

definition toEventDTO :: "LearningEvent \<Rightarrow> EventDTO" where
  "toEventDTO e =
     \<lparr> evd_ID = lev_ID e, evd_UserID = lev_UserID e, evd_LessonID = lev_LessonID e,
       evd_EventType = lev_EventType e, evd_PositionSec = lev_PositionSec e,
       evd_DurationMs = lev_DurationMs e,
       evd_Metadata = (case lev_Metadata e of Some JNull \<Rightarrow> None | j \<Rightarrow> j),
       evd_CreatedAt = fmt_iso (lev_CreatedAt e) \<rparr>"

record learningevents_APIInput =
  ein_LessonID :: string
  ein_EventType :: string
  ein_PositionSec :: "int option"
  ein_DurationMs :: "int option"
  ein_Metadata :: "json option"

definition validEventType :: "string \<Rightarrow> bool" where
  "validEventType s \<longleftrightarrow> s \<in> set event_types"

text \<open>The creation time stays Go's zero time, also in the answer of \<open>CreateOne\<close>.\<close>

definition newEvent :: "string \<Rightarrow> string \<Rightarrow> learningevents_APIInput \<Rightarrow> LearningEvent" where
  "newEvent i u a =
     \<lparr> lev_ID = i, lev_UserID = u, lev_LessonID = non_empty (ein_LessonID a),
       lev_EventType = ein_EventType a, lev_PositionSec = ein_PositionSec a,
       lev_DurationMs = ein_DurationMs a, lev_Metadata = ein_Metadata a, lev_CreatedAt = zero_time \<rparr>"

definition CreateOne :: "bool \<Rightarrow> string \<Rightarrow> learningevents_APIInput \<Rightarrow> EventDTO io" where
  "CreateOne null_ok u a =
     (if \<not> validEventType (ein_EventType a) then fail (BadRequest ''invalid eventType'')
      else bind new_uuid (\<lambda>i.
        call (q_CreateLearningEvent null_ok (newEvent i u a)) (\<lambda>e. fail (Internal ''create event'' e))
          (\<lambda>_. ret (toEventDTO (newEvent i u a)))))"

text \<open>The loop of \<open>CreateBatch\<close>; the count that goes with an error is not answered.\<close>

fun create_events :: "bool \<Rightarrow> string \<Rightarrow> nat \<Rightarrow> learningevents_APIInput list \<Rightarrow> nat io" where
  "create_events null_ok u count [] = ret count"
| "create_events null_ok u count (a # as) =
     (if \<not> validEventType (ein_EventType a)
      then fail (BadRequest (''invalid eventType: '' @ ein_EventType a))
      else bind new_uuid (\<lambda>i.
        call (q_CreateLearningEvent null_ok (newEvent i u a)) (\<lambda>e. fail (Internal ''create batch'' e))
          (\<lambda>_. create_events null_ok u (Suc count) as)))"

definition CreateBatch :: "bool \<Rightarrow> string \<Rightarrow> learningevents_APIInput list \<Rightarrow> nat io" where
  "CreateBatch null_ok u as =
     (if as = [] then ret 0
      else if 200 < length as then fail (BadRequest ''batch max 200'')
      else create_events null_ok u 0 as)"

definition event_limit :: "int \<Rightarrow> nat" where
  "event_limit n = (if n \<le> 0 \<or> 100 < n then 50 else nat n)"

definition learningevents_ListMine :: "string \<Rightarrow> int \<Rightarrow> EventDTO list io" where
  "learningevents_ListMine u n =
     call (learningevents_repo_ListByUser u (event_limit n)) (\<lambda>e. fail (Internal ''list mine'' e))
       (\<lambda>rows. ret (map toEventDTO rows))"

definition learningevents_ListByLesson :: "string \<Rightarrow> int \<Rightarrow> EventDTO list io" where
  "learningevents_ListByLesson l n =
     call (learningevents_repo_ListByLesson l (event_limit n)) (\<lambda>e. fail (Internal ''list by lesson'' e))
       (\<lambda>rows. ret (map toEventDTO rows))"

section \<open>Endpoints\<close>

definition h_events_createOne :: "bool \<Rightarrow> Claims option \<Rightarrow> learningevents_APIInput option \<Rightarrow> EventDTO io" where
  "h_events_createOne null_ok claims body =
     with_claims claims (\<lambda>k. with_body body (CreateOne null_ok (clm_UserID k)))"

definition h_events_createBatch :: "bool \<Rightarrow> Claims option \<Rightarrow> learningevents_APIInput list option \<Rightarrow> nat io" where
  "h_events_createBatch null_ok claims body =
     with_claims claims (\<lambda>k. with_body body (CreateBatch null_ok (clm_UserID k)))"

text \<open>\<open>limit\<close> is the text of the query parameter.\<close>

definition asked_limit :: "string \<Rightarrow> int" where
  "asked_limit s = (if 0 < query_int s 0 then query_int s 0 else 50)"

definition h_events_listMine :: "Claims option \<Rightarrow> string \<Rightarrow> EventDTO list io" where
  "h_events_listMine claims limit =
     with_claims claims (\<lambda>k. learningevents_ListMine (clm_UserID k) (asked_limit limit))"

definition h_events_listByLesson :: "Claims option \<Rightarrow> string \<Rightarrow> string \<Rightarrow> EventDTO list io" where
  "h_events_listByLesson claims l limit =
     call (RequireRole [''admin'', ''instructor''] claims) fail
       (\<lambda>_. learningevents_ListByLesson l (asked_limit limit))"

section \<open>A batch is not atomic\<close>

definition storable :: "bool \<Rightarrow> database \<Rightarrow> learningevents_APIInput \<Rightarrow> bool" where
  "storable null_ok d a \<longleftrightarrow> validEventType (ein_EventType a) \<and>
     (ein_LessonID a = [] \<or> lesson_exists d (ein_LessonID a)) \<and> (null_ok \<or> ein_Metadata a \<noteq> None)"

definition reported :: "LearningEvent \<Rightarrow> string \<times> string \<times> string option \<times> int option" where
  "reported e = (lev_UserID e, lev_EventType e, lev_LessonID e, lev_PositionSec e)"

definition report :: "string \<Rightarrow> learningevents_APIInput \<Rightarrow> string \<times> string \<times> string option \<times> int option" where
  "report u a = (u, ein_EventType a, non_empty (ein_LessonID a), ein_PositionSec a)"

definition fresh_uuids :: "nat \<Rightarrow> string list \<Rightarrow> world \<Rightarrow> bool" where
  "fresh_uuids n used w \<longleftrightarrow> inj_on (uuid_src w) {uuid_ix w..<uuid_ix w + n} \<and>
     uuid_src w ` {uuid_ix w..<uuid_ix w + n} \<inter> set used = {}"

lemma fresh_uuids_Suc:
  assumes "fresh_uuids (Suc n) used w"
  shows "uuid_src w (uuid_ix w) \<notin> set used"
    "\<lbrakk>uuid_src v = uuid_src w; uuid_ix v = Suc (uuid_ix w)\<rbrakk> \<Longrightarrow> fresh_uuids n (used @ [uuid_src w (uuid_ix w)]) v"
proof -
  have i: "{uuid_ix w..<uuid_ix w + Suc n} = insert (uuid_ix w) {Suc (uuid_ix w)..<Suc (uuid_ix w) + n}" by auto
  show "uuid_src w (uuid_ix w) \<notin> set used"
    "\<lbrakk>uuid_src v = uuid_src w; uuid_ix v = Suc (uuid_ix w)\<rbrakk> \<Longrightarrow> fresh_uuids n (used @ [uuid_src w (uuid_ix w)]) v"
    using assms unfolding fresh_uuids_def i by auto
qed

lemma newEvent_metadata: "lev_Metadata (newEvent i u a) = ein_Metadata a"
  by (simp add: newEvent_def)

lemma q_create_event:
  "null_ok \<or> lev_Metadata e \<noteq> None \<Longrightarrow> q_CreateLearningEvent null_ok e w =
     exec (insert_learning_event (e\<lparr>lev_CreatedAt := clock w\<rparr>)) (tick w)"
  by (auto simp: q_CreateLearningEvent_def bind_run go_now_run)

lemma create_event_run:
  assumes "script w = []" "user_exists (db w) u" "storable null_ok (db w) a"
    and "uuid_src w (uuid_ix w) \<notin> set (map lev_ID (t_learning_events (db w)))"
  shows "\<exists>v e. create_events null_ok u c (a # as) w = create_events null_ok u (Suc c) as v \<and> script v = [] \<and>
    uuid_src v = uuid_src w \<and> uuid_ix v = Suc (uuid_ix w) \<and> lev_ID e = uuid_src w (uuid_ix w) \<and>
    reported e = report u a \<and> db v = (db w)\<lparr>t_learning_events := t_learning_events (db w) @ [e]\<rparr>"
proof -
  define v where "v = tick (w\<lparr>uuid_ix := Suc (uuid_ix w)\<rparr>)"
  define e where "e = (newEvent (uuid_src w (uuid_ix w)) u a)\<lparr>lev_CreatedAt := clock w\<rparr>"
  have v: "script v = []" "db v = db w" "uuid_src v = uuid_src w" "uuid_ix v = Suc (uuid_ix w)"
    using assms(1) by (simp_all add: v_def)
  have new: "\<not> list_ex (\<lambda>r. lev_ID r = uuid_src w (uuid_ix w)) (t_learning_events (db w))"
    using assms(4) unfolding list_ex_iff set_map by (metis imageI)
  have ins: "insert_learning_event e (db w) = Inr ((), (db w)\<lparr>t_learning_events := t_learning_events (db w) @ [e]\<rparr>)"
    using assms(2,3) new by (auto simp: insert_learning_event_def e_def newEvent_def storable_def validEventType_def
        non_empty_def)
  have "create_events null_ok u c (a # as) w = create_events null_ok u (Suc c) as
      (v\<lparr>db := (db w)\<lparr>t_learning_events := t_learning_events (db w) @ [e]\<rparr>\<rparr>)"
    using assms(3) q_create_event [of null_ok "newEvent (uuid_src w (uuid_ix w)) u a"]
    by (simp add: storable_def newEvent_metadata new_uuid_run bind_run call_run v_def [symmetric] e_def [symmetric]
        v exec_quiet commit_def ins)
  then show ?thesis
    by (intro exI [of _ "v\<lparr>db := (db w)\<lparr>t_learning_events := t_learning_events (db w) @ [e]\<rparr>\<rparr>"] exI [of _ e])
      (simp add: v e_def newEvent_def reported_def report_def)
qed

lemma create_events_run:
  assumes "script w = []" "user_exists (db w) u" "list_all (storable null_ok (db w)) as"
    and "fresh_uuids (length as) (map lev_ID (t_learning_events (db w))) w"
  shows "\<exists>v es. create_events null_ok u c (as @ bs) w = create_events null_ok u (c + length as) bs v \<and>
    map reported es = map (report u) as \<and>
    db v = (db w)\<lparr>t_learning_events := t_learning_events (db w) @ es\<rparr>"
  using assms
proof (induction as arbitrary: w c)
  case Nil
  then show ?case by (intro exI [of _ w] exI [of _ "[]"]) simp
next
  case (Cons a as)
  note fresh = fresh_uuids_Suc [OF Cons.prems(4) [unfolded list.size(4) add_Suc_right add_0_right]]
  obtain v e where v: "create_events null_ok u c (a # as @ bs) w = create_events null_ok u (Suc c) (as @ bs) v"
    "script v = []" "uuid_src v = uuid_src w" "uuid_ix v = Suc (uuid_ix w)" "lev_ID e = uuid_src w (uuid_ix w)"
    "reported e = report u a" "db v = (db w)\<lparr>t_learning_events := t_learning_events (db w) @ [e]\<rparr>"
    using create_event_run [of w u null_ok a c "as @ bs"] Cons.prems fresh(1) by auto
  have "storable null_ok (db v) = storable null_ok (db w)" "user_exists (db v) u"
    using Cons.prems(2) by (simp_all add: fun_eq_iff v storable_def user_exists_def lesson_exists_def)
  then have "list_all (storable null_ok (db v)) as" "user_exists (db v) u" using Cons.prems(3) by simp_all
  moreover have "fresh_uuids (length as) (map lev_ID (t_learning_events (db v))) v"
    using fresh(2) [OF v(3,4)] by (simp add: v)
  ultimately obtain t es where t: "create_events null_ok u (Suc c) (as @ bs) v = create_events null_ok u (Suc c + length as) bs t"
    "map reported es = map (report u) as" "db t = (db v)\<lparr>t_learning_events := t_learning_events (db v) @ es\<rparr>"
    using Cons.IH [of v "Suc c"] v(2) by blast
  then show ?case using v by (intro exI [of _ t] exI [of _ "e # es"]) simp
qed

text \<open>A batch with an unknown event type is answered with 400, but the events before it have been stored, in
  their order and for the caller; nothing after it is, and nothing else changes.\<close>

theorem batch_keeps_prefix:
  assumes "script w = []" "user_exists (db w) (clm_UserID k)" "length as + length bs < 200"
    and "list_all (storable null_ok (db w)) as" "\<not> validEventType (ein_EventType b)"
    and "fresh_uuids (length as) (map lev_ID (t_learning_events (db w))) w"
  shows "\<exists>v es. h_events_createBatch null_ok (Some k) (Some (as @ b # bs)) w =
      (Inl (BadRequest (''invalid eventType: '' @ ein_EventType b)), v) \<and>
    map reported es = map (report (clm_UserID k)) as \<and>
    db v = (db w)\<lparr>t_learning_events := t_learning_events (db w) @ es\<rparr>"
  using create_events_run [OF assms(1,2,4,6), of 0 "b # bs"] assms(3,5)
  by (auto simp: h_events_createBatch_def with_claims_def with_body_def CreateBatch_def fail_def)

definition demo_event :: "string \<Rightarrow> learningevents_APIInput" where
  "demo_event t = \<lparr> ein_LessonID = [], ein_EventType = t, ein_PositionSec = Some 7, ein_DurationMs = None,
     ein_Metadata = None \<rparr>"

theorem batch_keeps_prefix_witness:
  "\<exists>v es. h_events_createBatch True (Some (demo_claims ''u1'' ''user''))
      (Some [demo_event ''play'', demo_event ''rewind'', demo_event ''note'']) (demo_world (demo_database [] [])) =
      (Inl (BadRequest ''invalid eventType: rewind''), v) \<and>
    map reported es = [(''u1'', ''play'', None, Some 7)] \<and> t_learning_events (db v) = es"
proof -
  have w: "script (demo_world (demo_database [] [])) = []" "user_exists (db (demo_world (demo_database [] []))) ''u1''"
    "t_learning_events (db (demo_world (demo_database [] []))) = []"
    by (simp_all add: demo_world_def demo_database_def user_exists_def demo_user_def empty_database_def)
  then have "fresh_uuids 1 (map lev_ID (t_learning_events (db (demo_world (demo_database [] []))))) (demo_world (demo_database [] []))"
    by (simp add: fresh_uuids_def)
  with w batch_keeps_prefix [of "demo_world (demo_database [] [])" "demo_claims ''u1'' ''user''" "[demo_event ''play'']"
      "[demo_event ''note'']" True "demo_event ''rewind''"]
  show ?thesis
    by (force simp: demo_claims_def demo_event_def storable_def validEventType_def event_types_def report_def non_empty_def)
qed

end
