(* ===== verification/Courses.thy ===== *)
theory Courses
  imports ServerAudit PracticeService
begin

text \<open>
  \<open>internal/courses/repo.go\<close> and \<open>internal/repo/db/courses.sql.go\<close>: the course catalogue, what the
  foreign keys take along when a course is deleted, and the links of courses to degrees.

  Prices are \<open>DECIMAL(10, 2)\<close>: \<open>dec\<close> is the server's reading of a text as such a number (\<open>None\<close>: not a
  number, which strict mode refuses) in the form it hands out again.
\<close>

abbreviation courses_ErrNotFound :: go_error where
  "courses_ErrNotFound \<equiv> Sentinel ''courses: not found''"

section \<open>Deleting a course\<close>

text \<open>The rows below a set of lessons: resources, notes and progress go, learning events and chat sessions
  lose the lesson.\<close>

definition cut :: "(string \<Rightarrow> bool) \<Rightarrow> string option \<Rightarrow> string option" where
  "cut gone x = (case x of None \<Rightarrow> None | Some i \<Rightarrow> if gone i then None else Some i)"

definition cascade_lessons :: "(string \<Rightarrow> bool) \<Rightarrow> database \<Rightarrow> database" where
  "cascade_lessons gone d = d\<lparr>
     t_lessons := deleted (\<lambda>r. gone (lsn_ID r)) (t_lessons d),
     t_resources := deleted (\<lambda>r. gone (res_LessonID r)) (t_resources d),
     t_notes := deleted (\<lambda>r. gone (note_LessonID r)) (t_notes d),
     t_progress_records := deleted (\<lambda>r. gone (prg_LessonID r)) (t_progress_records d),
     t_learning_events := map (\<lambda>r. r\<lparr>lev_LessonID := cut gone (lev_LessonID r)\<rparr>) (t_learning_events d),
     t_chat_sessions := map (\<lambda>r. r\<lparr>chs_LessonID := cut gone (chs_LessonID r)\<rparr>) (t_chat_sessions d)\<rparr>"

definition lessons_below :: "database \<Rightarrow> (string \<Rightarrow> bool) \<Rightarrow> string \<Rightarrow> bool" where
  "lessons_below d chapters l \<longleftrightarrow> list_ex (\<lambda>r. lsn_ID r = l \<and> chapters (lsn_ChapterID r)) (t_lessons d)"

definition cascade_chapters :: "(string \<Rightarrow> bool) \<Rightarrow> database \<Rightarrow> database" where
  "cascade_chapters gone d =
     (let e = cascade_lessons (lessons_below d gone) d
      in e\<lparr>t_chapters := deleted (\<lambda>r. gone (chp_ID r)) (t_chapters e)\<rparr>)"

definition chapters_below :: "database \<Rightarrow> string \<Rightarrow> string \<Rightarrow> bool" where
  "chapters_below d c h \<longleftrightarrow> list_ex (\<lambda>r. chp_ID r = h \<and> chp_CourseID r = c) (t_chapters d)"

definition projects_below :: "database \<Rightarrow> string \<Rightarrow> string \<Rightarrow> bool" where
  "projects_below d c p \<longleftrightarrow> list_ex (\<lambda>r. ppj_ID r = p \<and> ppj_CourseID r = c) (t_practice_projects d)"

definition reviews_below :: "database \<Rightarrow> string \<Rightarrow> string \<Rightarrow> bool" where
  "reviews_below d c v \<longleftrightarrow> list_ex (\<lambda>r. rvw_ID r = v \<and> rvw_CourseID r = c) (t_reviews d)"

text \<open>Enrollments, orders and imports keep their rows and lose the course.\<close>

definition cascade_course :: "string \<Rightarrow> database \<Rightarrow> database" where
  "cascade_course c d =
     (let e = cascade_chapters (chapters_below d c) d
      in e\<lparr>
        t_courses := deleted (\<lambda>r. crs_ID r = c) (t_courses e),
        t_course_instructor_links := deleted (\<lambda>r. cil_CourseID r = c) (t_course_instructor_links e),
        t_degree_courses := deleted (\<lambda>r. dgc_CourseID r = c) (t_degree_courses e),
        t_progress_records := deleted (\<lambda>r. prg_CourseID r = c) (t_progress_records e),
        t_practice_completions := deleted (\<lambda>r. projects_below d c (pcm_ProjectID r)) (t_practice_completions e),
        t_practice_projects := deleted (\<lambda>r. ppj_CourseID r = c) (t_practice_projects e),
        t_review_helpful_votes := deleted (\<lambda>r. reviews_below d c (rhv_ReviewID r)) (t_review_helpful_votes e),
        t_reviews := deleted (\<lambda>r. rvw_CourseID r = c) (t_reviews e),
        t_enrollments := map (\<lambda>r. r\<lparr>enr_CourseID := cut (\<lambda>i. i = c) (enr_CourseID r)\<rparr>) (t_enrollments e),
        t_orders := map (\<lambda>r. r\<lparr>ord_CourseID := cut (\<lambda>i. i = c) (ord_CourseID r)\<rparr>) (t_orders e),
        t_url_imports := map (\<lambda>r. r\<lparr>uim_ResultCourseID := cut (\<lambda>i. i = c) (uim_ResultCourseID r)\<rparr>) (t_url_imports e)\<rparr>)"

definition sql_delete_course :: "string \<Rightarrow> unit stmt" where
  "sql_delete_course c = (\<lambda>d. Inr ((), if course_exists d c then cascade_course c d else d))"

section \<open>Statements\<close>

definition crs_conflict :: "Course \<Rightarrow> Course \<Rightarrow> bool" where
  "crs_conflict r x \<longleftrightarrow> crs_ID r = crs_ID x \<or>
     (crs_SourceVideoUrl r \<noteq> None \<and> crs_SourceVideoUrl r = crs_SourceVideoUrl x)"

definition industry_exists :: "database \<Rightarrow> string \<Rightarrow> bool" where
  "industry_exists d i \<longleftrightarrow> list_ex (\<lambda>r. ind_ID r = i) (t_industries d)"

definition category_exists :: "database \<Rightarrow> string \<Rightarrow> bool" where
  "category_exists d i \<longleftrightarrow> list_ex (\<lambda>r. ccg_ID r = i) (t_course_categories d)"

definition crs_parents_ok :: "database \<Rightarrow> Course \<Rightarrow> bool" where
  "crs_parents_ok d r \<longleftrightarrow> (\<forall>i \<in> set_option (crs_IndustryID r). industry_exists d i) \<and>
     (\<forall>i \<in> set_option (crs_CategoryID r). category_exists d i)"

text \<open>The \<open>VARCHAR(191)\<close> columns without a rule of their own.\<close>

definition crs_fits :: "Course \<Rightarrow> bool" where
  "crs_fits r \<longleftrightarrow> list_all (\<lambda>s. length (runes s) \<le> 191) [crs_Title r, crs_Instructor r, crs_Duration r, crs_Thumbnail r] \<and>
     list_all fits_191 [crs_ExternalUrl r, crs_SourceVideoUrl r, crs_SourcePlatform r]"

definition crs_enums_ok :: "Course \<Rightarrow> bool" where
  "crs_enums_ok r \<longleftrightarrow> crs_Level r \<in> set [''Beginner'', ''Intermediate'', ''Advanced'', ''Expert''] \<and>
     crs_Status r \<in> set [''draft'', ''published'', ''archived''] \<and>
     crs_CourseType r \<in> set [''own'', ''partner'', ''public'', ''third_party'']"

text \<open>What an \<open>INSERT\<close> or \<open>UPDATE\<close> checks of the row it writes, against the other rows.\<close>

definition crs_checked :: "(string \<Rightarrow> string option) \<Rightarrow> database \<Rightarrow> Course list \<Rightarrow> Course \<Rightarrow> go_error + Course" where
  "crs_checked dec d others r =
     (if \<not> crs_fits r then Inl ErrTooLong
      else if \<not> crs_enums_ok r then Inl ErrTruncated
      else case dec (crs_Price r) of
        None \<Rightarrow> Inl ErrTruncated
      | Some p \<Rightarrow>
          if list_ex (crs_conflict r) others then Inl ErrDuplicate
          else if \<not> crs_parents_ok d r then Inl ErrForeignKey
          else Inr (r\<lparr>crs_Price := p\<rparr>))"

definition insert_course :: "(string \<Rightarrow> string option) \<Rightarrow> Course \<Rightarrow> unit stmt" where
  "insert_course dec r = (\<lambda>d.
     case crs_checked dec d (t_courses d) r of
       Inl e \<Rightarrow> Inl e
     | Inr s \<Rightarrow> Inr ((), d\<lparr>t_courses := t_courses d @ [s]\<rparr>))"

record courses_UpdatePatch =
  cpp_Title :: string
  cpp_Description :: string
  cpp_LearningPoints :: string
  cpp_Instructor :: string
  cpp_Level :: string
  cpp_Duration :: string
  cpp_Thumbnail :: string
  cpp_Tags :: string
  cpp_CostType :: CoursesCostType
  cpp_Price :: string
  cpp_CourseType :: string
  cpp_ExternalURL :: "string option"
  cpp_SourceVideoURL :: "string option"
  cpp_SourcePlatform :: "string option"
  cpp_IndustryID :: "string option"
  cpp_CategoryID :: "string option"

definition patched_course :: "courses_UpdatePatch \<Rightarrow> int \<Rightarrow> Course \<Rightarrow> Course" where
  "patched_course p now r = r\<lparr>crs_Title := cpp_Title p, crs_Description := cpp_Description p, crs_LearningPoints := cpp_LearningPoints p,
     crs_Instructor := cpp_Instructor p, crs_Level := cpp_Level p, crs_Duration := cpp_Duration p,
     crs_Thumbnail := cpp_Thumbnail p, crs_Tags := cpp_Tags p, crs_CostType := cpp_CostType p,
     crs_Price := cpp_Price p, crs_CourseType := cpp_CourseType p, crs_ExternalUrl := cpp_ExternalURL p,
     crs_SourceVideoUrl := cpp_SourceVideoURL p, crs_SourcePlatform := cpp_SourcePlatform p, crs_IndustryID := cpp_IndustryID p,
     crs_CategoryID := cpp_CategoryID p, crs_UpdatedAt := now\<rparr>"

definition sql_update_course :: "(string \<Rightarrow> string option) \<Rightarrow> courses_UpdatePatch \<Rightarrow> int \<Rightarrow> string \<Rightarrow> unit stmt" where
  "sql_update_course dec p now c = (\<lambda>d.
     case first_row (\<lambda>r. crs_ID r = c) (t_courses d) of
       None \<Rightarrow> Inr ((), d)
     | Some r \<Rightarrow>
         (case crs_checked dec d (deleted (\<lambda>r. crs_ID r = c) (t_courses d)) (patched_course p now r) of
            Inl e \<Rightarrow> Inl e
          | Inr s \<Rightarrow> Inr ((), d\<lparr>t_courses := upd (\<lambda>r. crs_ID r = c)
               (\<lambda>r. (patched_course p now r)\<lparr>crs_Price := crs_Price s\<rparr>) (t_courses d)\<rparr>)))"

definition insert_degree_course :: "DegreeCourse \<Rightarrow> unit stmt" where
  "insert_degree_course r = (\<lambda>d.
     if list_ex (\<lambda>x. dgc_DegreeID x = dgc_DegreeID r \<and> dgc_CourseID x = dgc_CourseID r) (t_degree_courses d)
     then Inl ErrDuplicate
     else if \<not> (degree_exists d (dgc_DegreeID r) \<and> course_exists d (dgc_CourseID r)) then Inl ErrForeignKey
     else Inr ((), d\<lparr>t_degree_courses := t_degree_courses d @ [r]\<rparr>))"

definition q_CreateCourse :: "(string \<Rightarrow> string option) \<Rightarrow> Course \<Rightarrow> unit io" where
  "q_CreateCourse dec r = exec (insert_course dec r)"

definition q_GetCourseByID :: "string \<Rightarrow> Course io" where
  "q_GetCourseByID c = query_one (\<lambda>d. first_row (\<lambda>r. crs_ID r = c \<and> crs_Status r = ''published'') (t_courses d))"

definition q_GetCourseByIDAnyStatus :: "string \<Rightarrow> Course io" where
  "q_GetCourseByIDAnyStatus c = query_one (\<lambda>d. first_row (\<lambda>r. crs_ID r = c) (t_courses d))"

definition q_UpdateCourse :: "(string \<Rightarrow> string option) \<Rightarrow> courses_UpdatePatch \<Rightarrow> int \<Rightarrow> string \<Rightarrow> unit io" where
  "q_UpdateCourse dec p now c = exec (sql_update_course dec p now c)"

definition q_DeleteCourse :: "string \<Rightarrow> unit io" where
  "q_DeleteCourse c = exec (sql_delete_course c)"

definition q_DegreeCourseExists :: "string \<Rightarrow> string \<Rightarrow> bool io" where
  "q_DegreeCourseExists g c =
     query (\<lambda>d. list_ex (\<lambda>r. dgc_DegreeID r = g \<and> dgc_CourseID r = c) (t_degree_courses d))"

definition q_MaxOrderIndexInDegree :: "string \<Rightarrow> int io" where
  "q_MaxOrderIndexInDegree g =
     query (\<lambda>d. coalesce_max (map dgc_OrderIndex (filter (\<lambda>r. dgc_DegreeID r = g) (t_degree_courses d))))"

definition q_CreateDegreeCourse :: "DegreeCourse \<Rightarrow> unit io" where
  "q_CreateDegreeCourse r = exec (insert_degree_course r)"

section \<open>Repo\<close>

record courses_ListFilter =
  clf_Status :: string
  clf_CourseType :: string
  clf_Search :: string
  clf_Page :: int
  clf_Limit :: int

record courses_ListResult =
  clr_Data :: "Course list"
  clr_Total :: int
  clr_Page :: int
  clr_Limit :: int

definition course_matches :: "courses_ListFilter \<Rightarrow> bool \<Rightarrow> Course \<Rightarrow> bool" where
  "course_matches f allowNonPublished r \<longleftrightarrow>
     (if \<not> allowNonPublished then crs_Status r = ''published''
      else clf_Status f \<noteq> [] \<longrightarrow> crs_Status r = clf_Status f) \<and>
     (clf_CourseType f \<noteq> [] \<longrightarrow> crs_CourseType r = clf_CourseType f) \<and>
     (clf_Search f \<noteq> [] \<longrightarrow> list_ex (sql_like (containing (clf_Search f)))
        [crs_Title r, crs_Description r, crs_Instructor r])"

definition course_rows :: "courses_ListFilter \<Rightarrow> bool \<Rightarrow> int \<Rightarrow> int \<Rightarrow> Course list io" where
  "course_rows f a limit offset =
     (if offset < 0 then exec (\<lambda>_. Inl (Plain ''Error 1064: You have an error in your SQL syntax''))
      else query (\<lambda>d. take (nat limit) (drop (nat offset)
             (sort_desc crs_CreatedAt (filter (course_matches f a) (t_courses d))))))"

definition courses_repo_List :: "courses_ListFilter \<Rightarrow> bool \<Rightarrow> courses_ListResult io" where
  "courses_repo_List f a =
     (let page = (if clf_Page f < 1 then 1 else clf_Page f);
          limit = (if clf_Limit f < 1 \<or> 100 < clf_Limit f then 20 else clf_Limit f);
          offset = wrap64 ((page - 1) * limit)
      in call (course_rows f a limit offset) (\<lambda>e. fail (Wrap ''courses.repo: list'' e)) (\<lambda>rows.
         call (query (\<lambda>d. count_rows (course_matches f a) (t_courses d)))
           (\<lambda>e. fail (Wrap ''courses.repo: count'' e)) (\<lambda>total.
         ret \<lparr> clr_Data = rows, clr_Total = total, clr_Page = page, clr_Limit = limit \<rparr>)))"

definition courses_repo_GetByID :: "string \<Rightarrow> bool \<Rightarrow> Course io" where
  "courses_repo_GetByID c includeDraft =
     call (if includeDraft then q_GetCourseByIDAnyStatus c else q_GetCourseByID c)
       (\<lambda>e. if errors_is e ErrNoRows then fail courses_ErrNotFound
            else fail (Wrap ''courses.repo: get by id'' e)) ret"

record courses_CreateInput =
  cci_Title :: string
  cci_Description :: string
  cci_LearningPoints :: string
  cci_Instructor :: string
  cci_Level :: string
  cci_Duration :: string
  cci_Thumbnail :: string
  cci_Tags :: string
  cci_CostType :: CoursesCostType
  cci_Price :: string
  cci_Status :: string
  cci_CourseType :: string
  cci_ExternalURL :: "string option"
  cci_SourceVideoURL :: "string option"
  cci_SourcePlatform :: "string option"
  cci_IndustryID :: "string option"
  cci_CategoryID :: "string option"

definition new_course :: "string \<Rightarrow> courses_CreateInput \<Rightarrow> int \<Rightarrow> Course" where
  "new_course i a now =
     \<lparr> crs_ID = i, crs_Title = cci_Title a, crs_Description = cci_Description a,
       crs_LearningPoints = cci_LearningPoints a, crs_Instructor = cci_Instructor a, crs_Level = cci_Level a,
       crs_Duration = cci_Duration a, crs_Thumbnail = cci_Thumbnail a, crs_Tags = cci_Tags a,
       crs_CostType = cci_CostType a, crs_Price = cci_Price a, crs_Status = (if cci_Status a = [] then ''draft'' else cci_Status a),
       crs_CourseType = cci_CourseType a, crs_ExternalUrl = cci_ExternalURL a, crs_SourceVideoUrl = cci_SourceVideoURL a,
       crs_SourcePlatform = cci_SourcePlatform a, crs_CreatedAt = now, crs_UpdatedAt = now,
       crs_IndustryID = cci_IndustryID a, crs_CategoryID = cci_CategoryID a \<rparr>"

definition courses_repo_Create :: "(string \<Rightarrow> string option) \<Rightarrow> courses_CreateInput \<Rightarrow> Course io" where
  "courses_repo_Create dec a = bind go_now (\<lambda>now. bind new_uuid (\<lambda>i.
     call (q_CreateCourse dec (new_course i a now)) (\<lambda>e. fail (Wrap ''courses.repo: create'' e))
       (\<lambda>_. ret (new_course i a now))))"

definition courses_repo_Update :: "(string \<Rightarrow> string option) \<Rightarrow> string \<Rightarrow> courses_UpdatePatch \<Rightarrow> unit io" where
  "courses_repo_Update dec c p = bind go_now (\<lambda>now.
     call (q_UpdateCourse dec p now c) (\<lambda>e. fail (Wrap ''courses.repo: update'' e)) ret)"

definition courses_repo_Delete :: "string \<Rightarrow> unit io" where
  "courses_repo_Delete c = call (q_DeleteCourse c) (\<lambda>e. fail (Wrap ''courses.repo: delete'' e)) ret"

record LinkDegreesResult =
  ldr_Appended :: nat
  ldr_Skipped :: nat
  ldr_Total :: nat
  ldr_Degrees :: "string list"

fun link_degrees :: "string \<Rightarrow> LinkDegreesResult \<Rightarrow> string list \<Rightarrow> LinkDegreesResult io" where
  "link_degrees c res [] = ret res"
| "link_degrees c res (g # gs) =
     call (q_DegreeCourseExists g c) (\<lambda>e. fail (Wrap ''courses.repo: link degrees (exists)'' e)) (\<lambda>exists.
     if exists then link_degrees c (res\<lparr>ldr_Skipped := Suc (ldr_Skipped res)\<rparr>) gs
     else call (q_MaxOrderIndexInDegree g) (\<lambda>e. fail (Wrap ''courses.repo: link degrees (max)'' e)) (\<lambda>m.
          call (q_CreateDegreeCourse \<lparr> dgc_DegreeID = g, dgc_CourseID = c, dgc_OrderIndex = wrap32 (m + 1) \<rparr>)
            (\<lambda>e. fail (Wrap ''courses.repo: link degrees (insert)'' e))
            (\<lambda>_. link_degrees c (res\<lparr>ldr_Appended := Suc (ldr_Appended res)\<rparr>) gs)))"

definition courses_repo_LinkDegrees :: "string \<Rightarrow> string list \<Rightarrow> LinkDegreesResult io" where
  "courses_repo_LinkDegrees c gs =
     link_degrees c \<lparr> ldr_Appended = 0, ldr_Skipped = 0, ldr_Total = length gs, ldr_Degrees = gs \<rparr> gs"

end
