(* ===== verification/CourseService.thy ===== *)
theory CourseService
  imports Courses
begin

text \<open>
  \<open>internal/courses/service.go\<close> and \<open>internal/handler/courses.go\<close>.
\<close>

section \<open>Checks\<close>

record courses_APIInput =
  cin_Title :: string
  cin_Description :: string
  cin_LearningPoints :: string
  cin_Instructor :: string
  cin_Level :: string
  cin_Duration :: string
  cin_Thumbnail :: string
  cin_Tags :: string
  cin_CostType :: string
  cin_Price :: string
  cin_Status :: string
  cin_CourseType :: string
  cin_ExternalURL :: string
  cin_SourceVideoURL :: string
  cin_SourcePlatform :: string
  cin_IndustryID :: string
  cin_CategoryID :: string

definition courses_validateFields :: "courses_APIInput \<Rightarrow> go_error option" where
  "courses_validateFields a =
     (if trim_space (cin_Title a) = [] then Some (BadRequest ''title is required'')
      else if trim_space (cin_Description a) = [] then Some (BadRequest ''description is required'')
      else if trim_space (cin_LearningPoints a) = [] then Some (BadRequest ''learningPoints is required'')
      else if trim_space (cin_Instructor a) = [] then Some (BadRequest ''instructor is required'')
      else if trim_space (cin_Duration a) = [] then Some (BadRequest ''duration is required'')
      else if trim_space (cin_Thumbnail a) = [] then Some (BadRequest ''thumbnail is required'')
      else if trim_space (cin_Tags a) = [] then Some (BadRequest ''tags is required'')
      else None)"

definition courses_validateLevel :: "string \<Rightarrow> go_error option" where
  "courses_validateLevel s =
     (if s \<in> set [''Beginner'', ''Intermediate'', ''Advanced'', ''Expert''] then None
      else if s = [] then Some (BadRequest ''level is required'')
      else Some (BadRequest ''level must be one of Beginner|Intermediate|Advanced|Expert''))"

definition courses_validateCostType :: "string \<Rightarrow> go_error option" where
  "courses_validateCostType s =
     (if s \<in> set [''free'', ''paid'', ''charity''] then None
      else if s = [] then Some (BadRequest ''costType is required'')
      else Some (BadRequest ''costType must be one of free|paid|charity''))"

definition courses_validateStatus :: "string \<Rightarrow> go_error option" where
  "courses_validateStatus s =
     (if s \<in> set [''draft'', ''published'', ''archived''] then None
      else Some (BadRequest ''status must be one of draft|published|archived''))"

definition courses_validateCourseType :: "string \<Rightarrow> go_error option" where
  "courses_validateCourseType s =
     (if s \<in> set [''own'', ''partner'', ''public'', ''third_party''] then None
      else Some (BadRequest ''courseType must be one of own|partner|public|third_party''))"

definition courses_validateURL :: "string \<Rightarrow> string \<Rightarrow> go_error option" where
  "courses_validateURL s field =
     (if 500 < length s then Some (BadRequest (field @ '' too long''))
      else if \<not> http_url s then Some (BadRequest (field @ '' must be http(s)://'')) else None)"

definition when_given :: "string \<Rightarrow> go_error option \<Rightarrow> go_error option" where
  "when_given x c = (if x \<noteq> [] then c else None)"

text \<open>The checks \<open>Create\<close> and \<open>Update\<close> share, in their order; only \<open>Create\<close> looks at the status.\<close>

definition courses_checks :: "bool \<Rightarrow> courses_APIInput \<Rightarrow> 'a io \<Rightarrow> 'a io" where
  "courses_checks with_status a k =
     checked_by (courses_validateFields a)
     (checked_by (courses_validateLevel (cin_Level a))
     (checked_by (courses_validateCostType (cin_CostType a))
     (checked_by (if with_status then when_given (cin_Status a) (courses_validateStatus (cin_Status a)) else None)
     (checked_by (when_given (cin_CourseType a) (courses_validateCourseType (cin_CourseType a)))
     (checked_by (when_given (cin_ExternalURL a) (courses_validateURL (cin_ExternalURL a) ''externalUrl''))
     (checked_by (when_given (cin_SourceVideoURL a) (courses_validateURL (cin_SourceVideoURL a) ''sourceVideoUrl'')) k))))))"

section \<open>Service\<close>

record courses_ListParams =
  clp_Status :: string
  clp_CourseType :: string
  clp_Search :: string
  clp_Page :: int
  clp_Limit :: int

definition courses_List :: "courses_ListParams \<Rightarrow> bool \<Rightarrow> courses_ListResult io" where
  "courses_List p isAdmin =
     checked_by (when_given (clp_Status p) (courses_validateStatus (clp_Status p)))
     (checked_by (when_given (clp_CourseType p) (courses_validateCourseType (clp_CourseType p)))
     (courses_repo_List \<lparr> clf_Status = clp_Status p, clf_CourseType = clp_CourseType p,
        clf_Search = clp_Search p, clf_Page = clp_Page p, clf_Limit = clp_Limit p \<rparr> isAdmin))"

definition courses_lookup :: "string \<Rightarrow> string \<Rightarrow> bool \<Rightarrow> (Course \<Rightarrow> 'a io) \<Rightarrow> 'a io" where
  "courses_lookup what c includeDraft k =
     call (courses_repo_GetByID c includeDraft)
       (\<lambda>e. if e = courses_ErrNotFound then fail (NotFound ''Course not found'') else fail (Internal what e)) k"

definition courses_Get :: "string \<Rightarrow> bool \<Rightarrow> Course io" where
  "courses_Get c includeDraft = courses_lookup ''get course'' c includeDraft ret"

definition cost_of :: "string \<Rightarrow> CoursesCostType" where
  "cost_of s = (if s = ''free'' then CoursesCostTypeFree
     else if s = ''charity'' then CoursesCostTypeCharity else CoursesCostTypePaid)"

definition courses_toRepoInput :: "courses_APIInput \<Rightarrow> courses_CreateInput" where
  "courses_toRepoInput a =
     \<lparr> cci_Title = cin_Title a, cci_Description = cin_Description a, cci_LearningPoints = cin_LearningPoints a,
       cci_Instructor = cin_Instructor a, cci_Level = cin_Level a, cci_Duration = cin_Duration a,
       cci_Thumbnail = cin_Thumbnail a, cci_Tags = cin_Tags a, cci_CostType = cost_of (cin_CostType a),
       cci_Price = cin_Price a, cci_Status = orDefault (cin_Status a) ''draft'', cci_CourseType = orDefault (cin_CourseType a) ''own'',
       cci_ExternalURL = non_empty (cin_ExternalURL a), cci_SourceVideoURL = non_empty (cin_SourceVideoURL a), cci_SourcePlatform = non_empty (cin_SourcePlatform a),
       cci_IndustryID = non_empty (cin_IndustryID a), cci_CategoryID = non_empty (cin_CategoryID a) \<rparr>"

definition courses_toRepoPatch :: "courses_APIInput \<Rightarrow> Course \<Rightarrow> courses_UpdatePatch" where
  "courses_toRepoPatch a b =
     \<lparr> cpp_Title = orDefault (cin_Title a) (crs_Title b), cpp_Description = orDefault (cin_Description a) (crs_Description b),
       cpp_LearningPoints = orDefault (cin_LearningPoints a) (crs_LearningPoints b), cpp_Instructor = orDefault (cin_Instructor a) (crs_Instructor b),
       cpp_Level = orDefault (cin_Level a) (crs_Level b), cpp_Duration = orDefault (cin_Duration a) (crs_Duration b),
       cpp_Thumbnail = orDefault (cin_Thumbnail a) (crs_Thumbnail b), cpp_Tags = orDefault (cin_Tags a) (crs_Tags b),
       cpp_CostType = (if cin_CostType a = [] then crs_CostType b else cost_of (cin_CostType a)), cpp_Price = orDefault (cin_Price a) (crs_Price b),
       cpp_CourseType = orDefault (cin_CourseType a) (crs_CourseType b), cpp_ExternalURL = new_or_opt (cin_ExternalURL a) (crs_ExternalUrl b),
       cpp_SourceVideoURL = new_or_opt (cin_SourceVideoURL a) (crs_SourceVideoUrl b), cpp_SourcePlatform = new_or_opt (cin_SourcePlatform a) (crs_SourcePlatform b),
       cpp_IndustryID = new_or_opt (cin_IndustryID a) (crs_IndustryID b), cpp_CategoryID = new_or_opt (cin_CategoryID a) (crs_CategoryID b) \<rparr>"

definition courses_audit :: "string \<Rightarrow> string \<Rightarrow> unit io" where
  "courses_audit action c = server_audit ''course'' action c None"

definition courses_Create :: "(string \<Rightarrow> string option) \<Rightarrow> courses_APIInput \<Rightarrow> Course io" where
  "courses_Create dec a = courses_checks True a
     (call (courses_repo_Create dec (courses_toRepoInput a)) (\<lambda>e. fail (Internal ''create course'' e)) (\<lambda>r.
      bind (courses_audit ''COURSE_CREATE'' (crs_ID r)) (\<lambda>_. ret r)))"

definition courses_Update :: "(string \<Rightarrow> string option) \<Rightarrow> string \<Rightarrow> courses_APIInput \<Rightarrow> Course io" where
  "courses_Update dec c a = courses_checks False a
     (courses_lookup ''lookup course'' c True (\<lambda>before.
      call (courses_repo_Update dec c (courses_toRepoPatch a before)) (\<lambda>e. fail (Internal ''update course'' e)) (\<lambda>_.
      call (courses_repo_GetByID c True) (\<lambda>e. fail (Internal ''reload course'' e)) (\<lambda>r.
      bind (courses_audit ''COURSE_UPDATE'' c) (\<lambda>_. ret r)))))"

definition courses_Delete :: "string \<Rightarrow> unit io" where
  "courses_Delete c = courses_lookup ''lookup course'' c True (\<lambda>_.
     call (courses_repo_Delete c) (\<lambda>e. fail (Internal ''delete course'' e)) (\<lambda>_.
     courses_audit ''COURSE_DELETE'' c))"

definition courses_LinkDegrees :: "string \<Rightarrow> string list \<Rightarrow> LinkDegreesResult io" where
  "courses_LinkDegrees c gs =
     (if gs = [] then fail (BadRequest ''degreeIds is required'')
      else courses_lookup ''lookup course'' c True (\<lambda>_.
        call (courses_repo_LinkDegrees c gs) (\<lambda>e. fail (Internal ''link degrees'' e)) (\<lambda>res.
        bind (courses_audit ''COURSE_LINK_DEGREES'' c) (\<lambda>_. ret res))))"

section \<open>Endpoints\<close>

text \<open>The claims are those \<open>OptionalAuth\<close> stored, if any.\<close>

definition handler_isAdmin :: "Claims option \<Rightarrow> bool" where
  "handler_isAdmin claims = (case claims of None \<Rightarrow> False | Some k \<Rightarrow> clm_Role k = ''admin'')"

record CourseView =
  cvw_id :: string
  cvw_title :: string
  cvw_description :: string
  cvw_learningPoints :: string
  cvw_instructor :: string
  cvw_level :: string
  cvw_duration :: string
  cvw_thumbnail :: string
  cvw_tags :: string
  cvw_costType :: string
  cvw_price :: string
  cvw_status :: string
  cvw_courseType :: string
  cvw_externalUrl :: string
  cvw_sourceVideoUrl :: string
  cvw_sourcePlatform :: string
  cvw_industryId :: string
  cvw_categoryId :: string
  cvw_createdAt :: int
  cvw_updatedAt :: int

definition publicCourseView :: "Course \<Rightarrow> CourseView" where
  "publicCourseView c =
     \<lparr> cvw_id = crs_ID c, cvw_title = crs_Title c, cvw_description = crs_Description c,
       cvw_learningPoints = crs_LearningPoints c, cvw_instructor = crs_Instructor c, cvw_level = crs_Level c,
       cvw_duration = crs_Duration c, cvw_thumbnail = crs_Thumbnail c, cvw_tags = crs_Tags c,
       cvw_costType = coursesCostType_str (crs_CostType c), cvw_price = crs_Price c, cvw_status = crs_Status c,
       cvw_courseType = crs_CourseType c, cvw_externalUrl = or_empty (crs_ExternalUrl c), cvw_sourceVideoUrl = or_empty (crs_SourceVideoUrl c),
       cvw_sourcePlatform = or_empty (crs_SourcePlatform c), cvw_industryId = or_empty (crs_IndustryID c), cvw_categoryId = or_empty (crs_CategoryID c),
       cvw_createdAt = crs_CreatedAt c, cvw_updatedAt = crs_UpdatedAt c \<rparr>"

record CoursePage =
  cpg_data :: "CourseView list"
  cpg_total :: int
  cpg_page :: int
  cpg_limit :: int

text \<open>\<open>q k d\<close> is \<open>c.Query(k, d)\<close>.\<close>

definition h_courses_list :: "Claims option \<Rightarrow> (string \<Rightarrow> string \<Rightarrow> string) \<Rightarrow> CoursePage io" where
  "h_courses_list claims q =
     (if \<not> handler_isAdmin claims \<and> q ''status'' [] = ''draft''
      then fail (Forbidden ''only admin can filter by status=draft'')
      else call (courses_List \<lparr> clp_Status = q ''status'' [], clp_CourseType = q ''courseType'' [],
                   clp_Search = q ''search'' [], clp_Page = atoi_value (q ''page'' ''1''),
                   clp_Limit = atoi_value (q ''limit'' ''20'') \<rparr> (handler_isAdmin claims)) fail (\<lambda>res.
           ret \<lparr> cpg_data = map publicCourseView (clr_Data res), cpg_total = clr_Total res,
                 cpg_page = clr_Page res, cpg_limit = clr_Limit res \<rparr>))"

definition h_courses_get :: "Claims option \<Rightarrow> string \<Rightarrow> CourseView io" where
  "h_courses_get claims c =
     call (courses_Get c (handler_isAdmin claims)) fail (\<lambda>r. ret (publicCourseView r))"

definition h_courses_create :: "(string \<Rightarrow> string option) \<Rightarrow> Claims option \<Rightarrow> courses_APIInput option \<Rightarrow> CourseView io" where
  "h_courses_create dec claims body = admin_only claims (with_body body (\<lambda>a.
     call (courses_Create dec a) fail (\<lambda>r. ret (publicCourseView r))))"

definition h_courses_update :: "(string \<Rightarrow> string option) \<Rightarrow> Claims option \<Rightarrow> string \<Rightarrow>
    courses_APIInput option \<Rightarrow> CourseView io" where
  "h_courses_update dec claims c body = admin_only claims (with_body body (\<lambda>a.
     call (courses_Update dec c a) fail (\<lambda>r. ret (publicCourseView r))))"

definition h_courses_delete :: "Claims option \<Rightarrow> string \<Rightarrow> unit io" where
  "h_courses_delete claims c = admin_only claims (courses_Delete c)"

definition uuid_shape :: "string \<Rightarrow> bool" where
  "uuid_shape s \<longleftrightarrow> length s = 36 \<and> length (filter (\<lambda>c. c = CHR ''-'') s) = 4"

definition h_courses_linkDegrees :: "Claims option \<Rightarrow> string \<Rightarrow> string list option \<Rightarrow> LinkDegreesResult io" where
  "h_courses_linkDegrees claims c body = admin_only claims (with_body body (\<lambda>gs.
     if gs = [] then fail (BadRequest ''degreeIds is required'')
     else if \<not> list_all uuid_shape gs then fail (BadRequest ''degreeIds must be UUIDs'')
     else courses_LinkDegrees c gs))"

end
