(* ===== verification/CourseFacts.thy ===== *)
theory CourseFacts
  imports CourseService Demo "HOL-Library.Sublist"
begin

text \<open>
  No endpoint of the course catalogue changes the status of a stored course, and all of them,
  deletion with its cascades included, keep every reference to a course, chapter, lesson, project or
  review pointing at a stored row.
\<close>

section \<open>What the endpoints may do to the database\<close>

locale course_writes = db_frame +
  assumes ok_insert_course: "stmt_ok R (insert_course dec r)"
    and ok_update_course: "stmt_ok R (sql_update_course dec p now c)"
    and ok_delete_course: "stmt_ok R (sql_delete_course c)"
    and ok_link: "stmt_ok R (insert_degree_course l)"
    and ok_course_audit: "stmt_ok R (insert_audit_log a)"
begin

lemma within_courses_audit: "within (db_step R) (courses_audit action c)"
  unfolding courses_audit_def by (intro within_server_audit ok_course_audit)

lemma within_courses_repo:
  "within (db_step R) (courses_repo_GetByID c b)"
  "within (db_step R) (courses_repo_Create dec i)"
  "within (db_step R) (courses_repo_Update dec c p)"
  "within (db_step R) (courses_repo_Delete c)"
  unfolding courses_repo_GetByID_def courses_repo_Create_def courses_repo_Update_def courses_repo_Delete_def
    q_GetCourseByID_def q_GetCourseByIDAnyStatus_def q_CreateCourse_def q_UpdateCourse_def q_DeleteCourse_def
  by (intro within_intros ok_insert_course ok_update_course ok_delete_course)+

lemma within_link_degrees: "within (db_step R) (link_degrees c res gs)"
  by (induction gs arbitrary: res)
    (auto simp: q_DegreeCourseExists_def q_MaxOrderIndexInDegree_def q_CreateDegreeCourse_def
      intro!: within_intros ok_link)

lemma within_courses_lookup:
  "(\<And>r. within (db_step R) (k r)) \<Longrightarrow> within (db_step R) (courses_lookup what c b k)"
  unfolding courses_lookup_def by (intro within_intros within_courses_repo)

lemma within_course_endpoints:
  "within (db_step R) (h_courses_create dec cl b)"
  "within (db_step R) (h_courses_update dec cl c b)"
  "within (db_step R) (h_courses_delete cl c)"
  "within (db_step R) (h_courses_linkDegrees cl c gs)"
  unfolding h_courses_create_def h_courses_update_def h_courses_delete_def h_courses_linkDegrees_def
    courses_Create_def courses_Update_def courses_Delete_def courses_LinkDegrees_def courses_checks_def
    courses_repo_LinkDegrees_def
  by (intro http_intros within_checked_by within_courses_lookup within_courses_repo within_link_degrees
      within_courses_audit)+

end

section \<open>The status of a course\<close>

definition status_key :: "Course \<Rightarrow> string \<times> string" where
  "status_key r = (crs_ID r, crs_Status r)"

text \<open>Stored courses may go and new ones come behind them; what stays keeps id and status.\<close>

definition status_frozen :: "database \<Rightarrow> database \<Rightarrow> bool" where
  "status_frozen d e \<longleftrightarrow> (\<exists>old new. map status_key (t_courses e) = old @ new \<and>
     subseq old (map status_key (t_courses d)))"

lemma status_frozen_trans:
  assumes "status_frozen d e" "status_frozen e f"
  shows "status_frozen d f"
proof -
  obtain a b where e: "map status_key (t_courses e) = a @ b" "subseq a (map status_key (t_courses d))"
    using assms(1) by (auto simp: status_frozen_def)
  obtain c g where f: "map status_key (t_courses f) = c @ g" "subseq c (a @ b)"
    using assms(2) e(1) by (auto simp: status_frozen_def)
  from f(2) obtain c1 c2 where c: "c = c1 @ c2" "subseq c1 a" by (auto elim: subseq_appendE)
  then have "subseq c1 (map status_key (t_courses d))" using e(2) subseq_order.trans by blast
  with f(1) c(1) show ?thesis unfolding status_frozen_def by (intro exI [of _ c1] exI [of _ "c2 @ g"]) simp
qed

interpretation frozen: db_frame status_frozen
  by unfold_locales (use status_frozen_trans in \<open>auto simp: status_frozen_def\<close>)

lemma status_frozen_same: "map status_key (t_courses e) = map status_key (t_courses d) \<Longrightarrow> status_frozen d e"
  by (auto simp: status_frozen_def intro: exI [of _ "[]"])

lemma cascade_course_courses: "t_courses (cascade_course c d) = deleted (\<lambda>r. crs_ID r = c) (t_courses d)"
  by (simp add: cascade_course_def cascade_chapters_def cascade_lessons_def Let_def)

lemma crs_checked_Inr:
  "crs_checked dec d xs r = Inr s \<Longrightarrow> s = r\<lparr>crs_Price := crs_Price s\<rparr> \<and> crs_parents_ok d r"
  by (auto simp: crs_checked_def split: if_splits option.splits)

lemma frozen_statements:
  "stmt_ok status_frozen (insert_course dec r)"
  "stmt_ok status_frozen (sql_update_course dec p now c)"
  "stmt_ok status_frozen (sql_delete_course c)"
  "stmt_ok status_frozen (insert_degree_course l)"
  "stmt_ok status_frozen (insert_audit_log a)"
proof -
  show "stmt_ok status_frozen (insert_course dec r)"
    by (auto simp: stmt_ok_def insert_course_def status_frozen_def split: sum.splits)
  have "map status_key (upd P (\<lambda>r. (patched_course p now r)\<lparr>crs_Price := q\<rparr>) rs) = map status_key rs" for P q rs
    by (rule map_upd_frame) (simp add: patched_course_def status_key_def)
  then show "stmt_ok status_frozen (sql_update_course dec p now c)"
    by (auto simp: stmt_ok_def sql_update_course_def split: sum.splits option.splits intro!: status_frozen_same)
  have "subseq (map status_key (deleted P rs)) (map status_key rs)" for P rs
    unfolding deleted_def by (intro subseq_map) simp
  then show "stmt_ok status_frozen (sql_delete_course c)"
    by (auto simp: stmt_ok_def sql_delete_course_def status_frozen_def cascade_course_courses
        intro: exI [of _ "[]"])
  show "stmt_ok status_frozen (insert_degree_course l)" "stmt_ok status_frozen (insert_audit_log a)"
    by (auto simp: stmt_ok_def insert_degree_course_def insert_audit_log_def intro: status_frozen_same
        split: if_splits)
qed

interpretation frozen_writes: course_writes status_frozen
  by unfold_locales (rule frozen_statements)+

text \<open>C28: no endpoint of the course catalogue ever changes the status of a stored course, under connection
  failures and beside other such requests: what is created as a draft stays a draft (an update that
  asks for another status succeeds and ignores it).\<close>

theorem course_status_frozen:
  assumes "rely_ok status_frozen w"
  shows "status_frozen (db w) (db (snd (h_courses_create dec claims body w))) \<and>
    status_frozen (db w) (db (snd (h_courses_update dec claims c body w))) \<and>
    status_frozen (db w) (db (snd (h_courses_delete claims c w))) \<and>
    status_frozen (db w) (db (snd (h_courses_linkDegrees claims c gs w)))"
proof -
  have step: "status_frozen (db w) (db (snd (m w)))" if "within (db_step status_frozen) m" for m :: "'x io"
    using that assms db_step_rely by (auto simp: within_def)
  show ?thesis by (intro conjI step frozen_writes.within_course_endpoints)
qed

section \<open>References\<close>

definition refs :: "('r \<Rightarrow> string option) \<Rightarrow> 'r list \<Rightarrow> string list \<Rightarrow> bool" where
  "refs k rs ids \<longleftrightarrow> (\<forall>r \<in> set rs. \<forall>i. k r = Some i \<longrightarrow> i \<in> set ids)"

lemma refs_deleted:
  assumes "refs k rs ids" "\<And>i. i \<in> set ids \<Longrightarrow> \<not> gone i \<Longrightarrow> i \<in> set ids'"
    and "\<And>r i. r \<in> set rs \<Longrightarrow> k r = Some i \<Longrightarrow> gone i \<Longrightarrow> P r"
  shows "refs k (deleted P rs) ids'"
  using assms by (fastforce simp: refs_def set_deleted)

lemma refs_cut:
  assumes "refs k rs ids" "\<And>i. i \<in> set ids \<Longrightarrow> \<not> gone i \<Longrightarrow> i \<in> set ids'" "\<And>r. k (f r) = cut gone (k r)"
  shows "refs k (map f rs) ids'"
  using assms by (fastforce simp: refs_def cut_def split: option.splits if_splits)

lemma refs_mono: "refs k rs ids \<Longrightarrow> set ids \<subseteq> set ids' \<Longrightarrow> refs k rs ids'"
  by (auto simp: refs_def)

lemma refs_append: "refs k (rs @ [r]) ids \<longleftrightarrow> refs k rs ids \<and> (\<forall>i. k r = Some i \<longrightarrow> i \<in> set ids)"
  by (auto simp: refs_def)

definition lesson_refs :: "database \<Rightarrow> bool" where
  "lesson_refs d \<longleftrightarrow> (let ls = map lsn_ID (t_lessons d) in
     refs (Some \<circ> res_LessonID) (t_resources d) ls \<and> refs (Some \<circ> note_LessonID) (t_notes d) ls \<and>
     refs (Some \<circ> prg_LessonID) (t_progress_records d) ls \<and>
     refs lev_LessonID (t_learning_events d) ls \<and> refs chs_LessonID (t_chat_sessions d) ls)"

definition chapter_refs :: "database \<Rightarrow> bool" where
  "chapter_refs d \<longleftrightarrow> refs (Some \<circ> lsn_ChapterID) (t_lessons d) (map chp_ID (t_chapters d)) \<and>
     refs (Some \<circ> pcm_ProjectID) (t_practice_completions d) (map ppj_ID (t_practice_projects d)) \<and>
     refs (Some \<circ> rhv_ReviewID) (t_review_helpful_votes d) (map rvw_ID (t_reviews d))"

definition course_refs :: "database \<Rightarrow> bool" where
  "course_refs d \<longleftrightarrow> (let cs = map crs_ID (t_courses d) in
     refs (Some \<circ> chp_CourseID) (t_chapters d) cs \<and> refs (Some \<circ> cil_CourseID) (t_course_instructor_links d) cs \<and>
     refs (Some \<circ> dgc_CourseID) (t_degree_courses d) cs \<and> refs (Some \<circ> prg_CourseID) (t_progress_records d) cs \<and>
     refs (Some \<circ> ppj_CourseID) (t_practice_projects d) cs \<and> refs (Some \<circ> rvw_CourseID) (t_reviews d) cs \<and>
     refs enr_CourseID (t_enrollments d) cs \<and> refs ord_CourseID (t_orders d) cs \<and>
     refs uim_ResultCourseID (t_url_imports d) cs)"

definition refs_ok :: "database \<Rightarrow> bool" where
  "refs_ok d \<longleftrightarrow> lesson_refs d \<and> chapter_refs d \<and> course_refs d"

subsection \<open>The cascades\<close>

lemma not_deleted: "i \<in> set (map k rs) \<Longrightarrow> \<not> gone i \<Longrightarrow> i \<in> set (map k (deleted (\<lambda>r. gone (k r)) rs))"
  by (auto simp: set_deleted)

lemma cascade_lessons_refs: "lesson_refs d \<Longrightarrow> lesson_refs (cascade_lessons gone d)"
  unfolding lesson_refs_def Let_def cascade_lessons_def
  by (auto intro!: refs_deleted [where gone = gone] refs_cut [where gone = gone] not_deleted simp: image_iff
      simp del: set_map)

lemma refs_fewer: "refs k rs ids \<Longrightarrow> refs k (deleted P rs) ids"
  by (auto simp: refs_def)

lemma cascade_chapters_tables:
  fixes d gone defines "e \<equiv> cascade_chapters gone d"
  shows "t_chapters e = deleted (\<lambda>r. gone (chp_ID r)) (t_chapters d)"
    "t_lessons e = deleted (\<lambda>r. lessons_below d gone (lsn_ID r)) (t_lessons d)"
    "t_progress_records e = deleted (\<lambda>r. lessons_below d gone (prg_LessonID r)) (t_progress_records d)"
    "t_courses e = t_courses d" "t_practice_completions e = t_practice_completions d"
    "t_practice_projects e = t_practice_projects d" "t_review_helpful_votes e = t_review_helpful_votes d"
    "t_reviews e = t_reviews d" "t_course_instructor_links e = t_course_instructor_links d"
    "t_degree_courses e = t_degree_courses d" "t_enrollments e = t_enrollments d" "t_orders e = t_orders d"
    "t_url_imports e = t_url_imports d"
  by (simp_all add: e_def cascade_chapters_def cascade_lessons_def Let_def)

lemma cascade_chapters_lesson_refs: "lesson_refs d \<Longrightarrow> lesson_refs (cascade_chapters gone d)"
  using cascade_lessons_refs [of d "lessons_below d gone"] by (simp add: cascade_chapters_def lesson_refs_def Let_def)

lemma cascade_chapters_chapter_refs: "chapter_refs d \<Longrightarrow> chapter_refs (cascade_chapters gone d)"
  unfolding chapter_refs_def cascade_chapters_tables
  by (auto intro!: refs_deleted [where gone = gone] not_deleted simp: lessons_below_def list_ex_iff simp del: set_map)

lemma refs_children:
  assumes "refs (Some \<circ> k) rs (map j ps)"
  shows "refs (Some \<circ> k) (deleted (\<lambda>r. list_ex (\<lambda>p. j p = k r \<and> P p) ps) rs) (map j (deleted P ps))"
  using assms by (fastforce simp: refs_def list_ex_iff)

lemma refs_deleted_id:
  "refs (Some \<circ> k) rs (map j ps) \<Longrightarrow>
   refs (Some \<circ> k) (deleted (\<lambda>r. k r = c) rs) (map j (deleted (\<lambda>p. j p = c) ps))"
  by (fastforce simp: refs_def)

lemma refs_cut_id:
  "\<lbrakk>refs k rs (map j ps); \<And>r. k (f r) = cut (\<lambda>i. i = c) (k r)\<rbrakk> \<Longrightarrow>
   refs k (map f rs) (map j (deleted (\<lambda>p. j p = c) ps))"
  by (rule refs_cut) (auto simp: image_iff)

lemma cascade_course_refs:
  assumes "refs_ok d"
  shows "refs_ok (cascade_course c d)"
proof -
  define e where "e = cascade_chapters (chapters_below d c) d"
  note e = cascade_chapters_tables [of "chapters_below d c" d, folded e_def]
  have les: "lesson_refs e" and chp: "chapter_refs e"
    using assms by (simp_all add: e_def refs_ok_def cascade_chapters_lesson_refs cascade_chapters_chapter_refs)
  have "lesson_refs (cascade_course c d)"
    using les by (simp add: lesson_refs_def cascade_course_def Let_def e_def [symmetric] refs_fewer)
  moreover have "refs (Some \<circ> pcm_ProjectID) (deleted (\<lambda>r. projects_below d c (pcm_ProjectID r)) (t_practice_completions d))
      (map ppj_ID (deleted (\<lambda>r. ppj_CourseID r = c) (t_practice_projects d)))"
    "refs (Some \<circ> rhv_ReviewID) (deleted (\<lambda>r. reviews_below d c (rhv_ReviewID r)) (t_review_helpful_votes d))
      (map rvw_ID (deleted (\<lambda>r. rvw_CourseID r = c) (t_reviews d)))"
    using chp unfolding chapter_refs_def e projects_below_def reviews_below_def by (auto intro: refs_children)
  then have "chapter_refs (cascade_course c d)"
    using chp unfolding chapter_refs_def cascade_course_def Let_def e_def [symmetric] by (simp add: e)
  moreover have "refs (Some \<circ> chp_CourseID) (deleted (\<lambda>r. chapters_below d c (chp_ID r)) (t_chapters d))
      (map crs_ID (deleted (\<lambda>r. crs_ID r = c) (t_courses d)))"
    using assms by (fastforce simp: refs_ok_def course_refs_def refs_def Let_def chapters_below_def list_ex_iff)
  then have "course_refs (cascade_course c d)"
    using assms unfolding refs_ok_def course_refs_def Let_def cascade_course_def e_def [symmetric]
    by (simp add: e refs_deleted_id refs_cut_id refs_fewer)
  ultimately show ?thesis by (simp add: refs_ok_def)
qed

lemma course_refs_grow:
  "\<lbrakk>course_refs d; set (map crs_ID (t_courses d)) \<subseteq> set (map crs_ID cs)\<rbrakk> \<Longrightarrow> course_refs (d\<lparr>t_courses := cs\<rparr>)"
  unfolding course_refs_def Let_def by (simp del: set_map) (blast intro: refs_mono)

lemma refs_ok_grow:
  "\<lbrakk>refs_ok d; set (map crs_ID (t_courses d)) \<subseteq> set (map crs_ID cs)\<rbrakk> \<Longrightarrow> refs_ok (d\<lparr>t_courses := cs\<rparr>)"
  using course_refs_grow [of d cs] by (simp add: refs_ok_def lesson_refs_def chapter_refs_def)

lemma course_exists_iff: "course_exists d c \<longleftrightarrow> c \<in> crs_ID ` set (t_courses d)"
  by (auto simp: course_exists_def list_ex_iff)

lemma refs_statements:
  "stmt_ok (preserves refs_ok) (insert_course dec r)"
  "stmt_ok (preserves refs_ok) (sql_update_course dec p now c)"
  "stmt_ok (preserves refs_ok) (sql_delete_course c)"
  "stmt_ok (preserves refs_ok) (insert_degree_course l)"
  "stmt_ok (preserves refs_ok) (insert_audit_log a)"
proof -
  show "stmt_ok (preserves refs_ok) (insert_course dec r)"
    by (auto simp: stmt_ok_def preserves_def insert_course_def split: sum.splits intro: refs_ok_grow)
  have "map crs_ID (upd P (\<lambda>r. (patched_course p now r)\<lparr>crs_Price := q\<rparr>) rs) = map crs_ID rs" for P q rs
    by (rule map_upd_frame) (simp add: patched_course_def)
  then show "stmt_ok (preserves refs_ok) (sql_update_course dec p now c)"
    by (auto simp: stmt_ok_def preserves_def sql_update_course_def split: sum.splits option.splits
        intro!: refs_ok_grow simp del: set_map)
  show "stmt_ok (preserves refs_ok) (sql_delete_course c)"
    by (simp add: stmt_ok_def preserves_def sql_delete_course_def cascade_course_refs)
  show "stmt_ok (preserves refs_ok) (insert_degree_course l)"
    by (auto simp: stmt_ok_def preserves_def insert_degree_course_def refs_ok_def lesson_refs_def chapter_refs_def
        course_refs_def Let_def refs_append course_exists_iff split: if_splits)
  show "stmt_ok (preserves refs_ok) (insert_audit_log a)"
    by (simp add: stmt_ok_def preserves_def insert_audit_log_def refs_ok_def lesson_refs_def chapter_refs_def
        course_refs_def Let_def)
qed

interpretation refs_keep: course_writes "preserves refs_ok"
  by (intro course_writes.intro course_writes_axioms.intro inv_db.db_frame_axioms refs_statements)

text \<open>C29: the endpoints of the course catalogue keep every reference to a course, chapter, lesson, project or
  review pointing at a stored row, under connection failures and beside requests that do the same:
  deleting a course takes everything below it along, and enrollments, orders, imports, learning
  events and chat sessions only lose the reference.\<close>

theorem references_kept:
  assumes "rely_ok (preserves refs_ok) w" "refs_ok (db w)"
  shows "refs_ok (db (snd (h_courses_create dec claims body w))) \<and>
    refs_ok (db (snd (h_courses_update dec claims c body w))) \<and>
    refs_ok (db (snd (h_courses_delete claims c w))) \<and>
    refs_ok (db (snd (h_courses_linkDegrees claims c gs w)))"
  by (intro conjI keeps_run [OF _ assms] refs_keep.within_course_endpoints)

definition course_world :: world where
  "course_world = demo_world ((demo_database [demo_order ''o1'' OrdersStatusPaid] [demo_enrollment ''e1'' ''paid'' ''order''])
     \<lparr>t_lessons := [demo_lesson ''l1'' ''ch''],
     t_notes := [\<lparr> note_ID = ''n1'', note_UserID = ''u1'', note_LessonID = ''l1'', note_Content = ''x'',
       note_PositionSec = None, note_CreatedAt = 0, note_UpdatedAt = 0 \<rparr>]\<rparr>)"

lemma course_world_facts: "rely_ok R course_world" "refs_ok (db course_world)"
  by (simp_all add: course_world_def demo_world_def demo_database_def empty_database_def rely_ok_def refs_ok_def
      lesson_refs_def chapter_refs_def course_refs_def refs_def demo_lesson_def demo_chapter_def demo_course_def
      demo_order_def demo_enrollment_def)

theorem course_status_frozen_witness:
  "status_frozen (db course_world) (db (snd (h_courses_delete (Some (demo_claims ''a'' ''admin'')) ''paid'' course_world)))"
  using course_status_frozen [OF course_world_facts(1)] by blast

theorem references_kept_witness:
  "refs_ok (db (snd (h_courses_delete (Some (demo_claims ''a'' ''admin'')) ''paid'' course_world)))"
  using references_kept [OF course_world_facts(1,2)] by blast

end
