(* ===== verification/Degrees.thy ===== *)
theory Degrees
  imports Courses Demo
begin

text \<open>
  \<open>internal/degrees\<close> (repo and service), \<open>internal/repo/db/degrees.sql.go\<close> and
  \<open>internal/handler/degrees.go\<close>: nano degrees and the courses they are made of; who sees a draft.
\<close>

abbreviation degrees_ErrNotFound :: go_error where
  "degrees_ErrNotFound \<equiv> Sentinel ''degrees: not found''"

section \<open>Statements\<close>

definition deg_statuses :: "string list" where
  "deg_statuses = [''draft'', ''published'', ''archived'']"

text \<open>\<open>dec\<close> as for courses.\<close>

definition deg_checked :: "(string \<Rightarrow> string option) \<Rightarrow> NanoDegree \<Rightarrow> go_error + NanoDegree" where
  "deg_checked dec r =
     (if \<not> (list_all (\<lambda>s. length (runes s) \<le> 191) [deg_Title r, deg_Icon r] \<and> fits_191 (deg_Thumbnail r))
      then Inl ErrTooLong
      else if deg_Status r \<notin> set deg_statuses then Inl ErrTruncated
      else case dec (deg_Price r) of None \<Rightarrow> Inl ErrTruncated | Some p \<Rightarrow> Inr (r\<lparr>deg_Price := p\<rparr>))"

definition insert_degree :: "(string \<Rightarrow> string option) \<Rightarrow> NanoDegree \<Rightarrow> unit stmt" where
  "insert_degree dec r = (\<lambda>d.
     case deg_checked dec r of
       Inl e \<Rightarrow> Inl e
     | Inr s \<Rightarrow> if degree_exists d (deg_ID r) then Inl ErrDuplicate
              else Inr ((), d\<lparr>t_nano_degrees := t_nano_degrees d @ [s]\<rparr>))"

definition sql_update_degree :: "(string \<Rightarrow> string option) \<Rightarrow> NanoDegree \<Rightarrow> unit stmt" where
  "sql_update_degree dec r = (\<lambda>d.
     if \<not> degree_exists d (deg_ID r) then Inr ((), d)
     else case deg_checked dec r of
       Inl e \<Rightarrow> Inl e
     | Inr s \<Rightarrow> Inr ((), d\<lparr>t_nano_degrees := upd (\<lambda>x. deg_ID x = deg_ID r)
                  (\<lambda>x. s\<lparr>deg_CreatedAt := deg_CreatedAt x\<rparr>) (t_nano_degrees d)\<rparr>))"

text \<open>The links to courses go with the degree; enrollments and orders lose it.\<close>

definition sql_delete_degree :: "string \<Rightarrow> unit stmt" where
  "sql_delete_degree g = (\<lambda>d. Inr ((), if \<not> degree_exists d g then d else d\<lparr>
     t_nano_degrees := deleted (\<lambda>r. deg_ID r = g) (t_nano_degrees d),
     t_degree_courses := deleted (\<lambda>r. dgc_DegreeID r = g) (t_degree_courses d),
     t_enrollments := map (\<lambda>r. r\<lparr>enr_DegreeID := cut (\<lambda>i. i = g) (enr_DegreeID r)\<rparr>) (t_enrollments d),
     t_orders := map (\<lambda>r. r\<lparr>ord_DegreeID := cut (\<lambda>i. i = g) (ord_DegreeID r)\<rparr>) (t_orders d)\<rparr>))"

definition sql_upsert_degree_course :: "DegreeCourse \<Rightarrow> unit stmt" where
  "sql_upsert_degree_course r = (\<lambda>d.
     if list_ex (\<lambda>x. dgc_DegreeID x = dgc_DegreeID r \<and> dgc_CourseID x = dgc_CourseID r) (t_degree_courses d)
     then Inr ((), d\<lparr>t_degree_courses :=
            upd (\<lambda>x. dgc_DegreeID x = dgc_DegreeID r \<and> dgc_CourseID x = dgc_CourseID r)
              (\<lambda>x. x\<lparr>dgc_OrderIndex := dgc_OrderIndex r\<rparr>) (t_degree_courses d)\<rparr>)
     else insert_degree_course r d)"

definition q_CountActiveEnrollmentsByDegree :: "string \<Rightarrow> int io" where
  "q_CountActiveEnrollmentsByDegree g = query (\<lambda>d.
     count_rows (\<lambda>r. enr_DegreeID r = Some g \<and> enr_DeletedAt r = None) (t_enrollments d))"

definition q_CreateDegree :: "(string \<Rightarrow> string option) \<Rightarrow> NanoDegree \<Rightarrow> unit io" where
  "q_CreateDegree dec r = bind go_now (\<lambda>server. exec (insert_degree dec (r\<lparr>deg_CreatedAt := server\<rparr>)))"

definition q_DeleteDegree :: "string \<Rightarrow> unit io" where
  "q_DeleteDegree g = exec (sql_delete_degree g)"

definition q_GetDegreeByID :: "string \<Rightarrow> NanoDegree io" where
  "q_GetDegreeByID g = query_one (\<lambda>d. first_row (\<lambda>r. deg_ID r = g) (t_nano_degrees d))"

definition q_UpdateDegree :: "(string \<Rightarrow> string option) \<Rightarrow> NanoDegree \<Rightarrow> unit io" where
  "q_UpdateDegree dec r = exec (sql_update_degree dec r)"

definition q_UpsertDegreeCourse :: "DegreeCourse \<Rightarrow> unit io" where
  "q_UpsertDegreeCourse r = exec (sql_upsert_degree_course r)"

section \<open>Repo\<close>

definition degrees_repo_GetByID :: "string \<Rightarrow> NanoDegree io" where
  "degrees_repo_GetByID g =
     call (q_GetDegreeByID g)
       (\<lambda>e. if errors_is e ErrNoRows then fail degrees_ErrNotFound else fail (Wrap ''degrees.repo: get'' e)) ret"

definition degree_matches :: "string \<Rightarrow> string \<Rightarrow> bool \<Rightarrow> NanoDegree \<Rightarrow> bool" where
  "degree_matches status search isAdmin r \<longleftrightarrow>
     (if status \<noteq> [] then deg_Status r = status else isAdmin \<or> deg_Status r = ''published'') \<and>
     (search \<noteq> [] \<longrightarrow> sql_like (containing search) (deg_Title r) \<or> sql_like (containing search) (deg_Description r))"

definition degrees_repo_List :: "string \<Rightarrow> string \<Rightarrow> bool \<Rightarrow> NanoDegree list io" where
  "degrees_repo_List status search isAdmin =
     call (query (\<lambda>d. take 200 (sort_desc deg_CreatedAt
             (filter (degree_matches status search isAdmin) (t_nano_degrees d)))))
       (\<lambda>e. fail (Wrap ''degrees.repo: list'' e)) ret"

definition degrees_repo_CountActiveEnrollments :: "string \<Rightarrow> int io" where
  "degrees_repo_CountActiveEnrollments g =
     call (q_CountActiveEnrollmentsByDegree g) (\<lambda>e. fail (Wrap ''degrees.repo: count enrollments'' e)) ret"

definition degrees_repo_UpsertCourse :: "string \<Rightarrow> string \<Rightarrow> int \<Rightarrow> unit io" where
  "degrees_repo_UpsertCourse g c i =
     q_UpsertDegreeCourse \<lparr> dgc_DegreeID = g, dgc_CourseID = c, dgc_OrderIndex = i \<rparr>"

section \<open>Service\<close>

record DegreeDTO =
  dgd_ID :: string
  dgd_Title :: string
  dgd_Description :: string
  dgd_LearningPoints :: string
  dgd_Price :: string
  dgd_Icon :: string
  dgd_CostType :: string
  dgd_Thumbnail :: "string option"
  dgd_Status :: string
  dgd_CreatedAt :: string
  dgd_UpdatedAt :: string

definition toDegreeDTO :: "NanoDegree \<Rightarrow> DegreeDTO" where
  "toDegreeDTO r =
     \<lparr> dgd_ID = deg_ID r, dgd_Title = deg_Title r, dgd_Description = deg_Description r,
       dgd_LearningPoints = deg_LearningPoints r, dgd_Price = deg_Price r, dgd_Icon = deg_Icon r,
       dgd_CostType = nanoDegreesCostType_str (deg_CostType r), dgd_Thumbnail = deg_Thumbnail r,
       dgd_Status = deg_Status r, dgd_CreatedAt = fmt_iso (deg_CreatedAt r),
       dgd_UpdatedAt = fmt_iso (deg_UpdatedAt r) \<rparr>"

record degrees_APIInput =
  din_Title :: string
  din_Description :: string
  din_LearningPoints :: string
  din_Price :: string
  din_Icon :: string
  din_CostType :: string
  din_Thumbnail :: string
  din_Status :: string

definition degrees_cost :: "string \<Rightarrow> NanoDegreesCostType option" where
  "degrees_cost s = (if s = ''free'' then Some NanoDegreesCostTypeFree
     else if s = ''paid'' then Some NanoDegreesCostTypePaid
     else if s = ''charity'' then Some NanoDegreesCostTypeCharity else None)"

definition degrees_validStatus :: "string \<Rightarrow> bool" where
  "degrees_validStatus s \<longleftrightarrow> s \<in> set deg_statuses"

definition degrees_List :: "string \<Rightarrow> string \<Rightarrow> bool \<Rightarrow> DegreeDTO list io" where
  "degrees_List status search isAdmin =
     call (degrees_repo_List status search isAdmin) (\<lambda>e. fail (Internal ''list degrees'' e))
       (\<lambda>rows. ret (map toDegreeDTO rows))"

definition lookup_degree :: "string \<Rightarrow> (NanoDegree \<Rightarrow> 'a io) \<Rightarrow> 'a io" where
  "lookup_degree g k =
     call (degrees_repo_GetByID g)
       (\<lambda>e. if e = degrees_ErrNotFound then fail (NotFound ''Degree not found'')
            else fail (Internal ''get degree'' e)) k"

definition degrees_GetByID :: "string \<Rightarrow> bool \<Rightarrow> DegreeDTO io" where
  "degrees_GetByID g includeDraft = lookup_degree g (\<lambda>r.
     if deg_Status r = ''draft'' \<and> \<not> includeDraft then fail (NotFound ''Degree not found'')
     else ret (toDegreeDTO r))"

definition new_degree :: "string \<Rightarrow> degrees_APIInput \<Rightarrow> NanoDegreesCostType \<Rightarrow> int \<Rightarrow> NanoDegree" where
  "new_degree i a k now =
     \<lparr> deg_ID = i, deg_Title = din_Title a, deg_Description = din_Description a,
       deg_LearningPoints = din_LearningPoints a, deg_Price = din_Price a,
       deg_Icon = orDefault (din_Icon a) ''sparkles'', deg_CostType = k,
       deg_Thumbnail = non_empty (din_Thumbnail a), deg_Status = orDefault (din_Status a) ''draft'',
       deg_CreatedAt = zero_time, deg_UpdatedAt = now \<rparr>"

definition reload_degree :: "string \<Rightarrow> DegreeDTO io" where
  "reload_degree g =
     call (degrees_repo_GetByID g) (\<lambda>e. fail (Internal ''reload degree'' e)) (\<lambda>r. ret (toDegreeDTO r))"

definition degrees_Create :: "(string \<Rightarrow> string option) \<Rightarrow> degrees_APIInput \<Rightarrow> DegreeDTO io" where
  "degrees_Create dec a =
     (if din_CostType a = [] then fail (BadRequest ''costType required'')
      else if din_Title a = [] then fail (BadRequest ''title required'')
      else bind go_now (\<lambda>now. bind new_uuid (\<lambda>i.
        case degrees_cost (din_CostType a) of
          None \<Rightarrow> fail (BadRequest ''costType must be free, paid, or charity'')
        | Some k \<Rightarrow>
            if \<not> degrees_validStatus (orDefault (din_Status a) ''draft'')
            then fail (BadRequest ''status must be draft, published, or archived'')
            else call (q_CreateDegree dec (new_degree i a k now)) (\<lambda>e. fail (Internal ''create degree'' e))
                   (\<lambda>_. reload_degree i))))"

text \<open>\<open>wasProvided\<close> is false, so an empty thumbnail never clears.\<close>

definition merged_degree :: "NanoDegree \<Rightarrow> degrees_APIInput \<Rightarrow> int \<Rightarrow> NanoDegree" where
  "merged_degree cur a now = cur
     \<lparr> deg_Title := new_or (din_Title a) (deg_Title cur),
       deg_Description := new_or (din_Description a) (deg_Description cur),
       deg_LearningPoints := new_or (din_LearningPoints a) (deg_LearningPoints cur),
       deg_Price := new_or (din_Price a) (deg_Price cur), deg_Icon := new_or (din_Icon a) (deg_Icon cur),
       deg_CostType := (case degrees_cost (din_CostType a) of None \<Rightarrow> deg_CostType cur | Some k \<Rightarrow> k),
       deg_Status := new_or (din_Status a) (deg_Status cur),
       deg_Thumbnail := new_or_opt (din_Thumbnail a) (deg_Thumbnail cur), deg_UpdatedAt := now \<rparr>"

definition degrees_Update :: "(string \<Rightarrow> string option) \<Rightarrow> string \<Rightarrow> degrees_APIInput \<Rightarrow> DegreeDTO io" where
  "degrees_Update dec g a = lookup_degree g (\<lambda>cur.
     if din_CostType a \<noteq> [] \<and> degrees_cost (din_CostType a) = None
     then fail (BadRequest ''costType must be free, paid, or charity'')
     else if din_Status a \<noteq> [] \<and> \<not> degrees_validStatus (din_Status a)
     then fail (BadRequest ''status must be draft, published, or archived'')
     else bind go_now (\<lambda>now.
       call (q_UpdateDegree dec (merged_degree cur a now)) (\<lambda>e. fail (Internal ''update degree'' e))
         (\<lambda>_. reload_degree g)))"

definition degrees_Delete :: "string \<Rightarrow> unit io" where
  "degrees_Delete g = lookup_degree g (\<lambda>_.
     call (degrees_repo_CountActiveEnrollments g) (\<lambda>e. fail (Internal ''count enrollments'' e)) (\<lambda>n.
     if 0 < n then fail (Conflict ''Cannot delete: active enrollments exist. Archive instead.'')
     else call (q_DeleteDegree g) (\<lambda>e. fail (Internal ''delete degree'' e)) ret))"

fun link_courses :: "string \<Rightarrow> (string \<times> int) list \<Rightarrow> unit io" where
  "link_courses g [] = ret ()"
| "link_courses g ((c, i) # cs) =
     (if c = [] then fail (BadRequest ''courseId required for each entry'')
      else call (degrees_repo_UpsertCourse g c i) (\<lambda>e. fail (Internal ''link course'' e))
             (\<lambda>_. link_courses g cs))"

definition degrees_LinkCourses :: "string \<Rightarrow> (string \<times> int) list \<Rightarrow> unit io" where
  "degrees_LinkCourses g cs = lookup_degree g (\<lambda>_.
     if cs = [] then fail (BadRequest ''courses must be non-empty'') else link_courses g cs)"

section \<open>Endpoints\<close>

definition degrees_isAdmin :: "Claims option \<Rightarrow> bool" where
  "degrees_isAdmin claims \<longleftrightarrow> (case claims of None \<Rightarrow> False | Some k \<Rightarrow> clm_Role k = ''admin'')"

definition h_degrees_list :: "Claims option \<Rightarrow> string \<Rightarrow> string \<Rightarrow> DegreeDTO list io" where
  "h_degrees_list claims status search = degrees_List status search (degrees_isAdmin claims)"

definition h_degrees_get :: "Claims option \<Rightarrow> string \<Rightarrow> DegreeDTO io" where
  "h_degrees_get claims g = degrees_GetByID g (degrees_isAdmin claims)"

definition h_degrees_create :: "(string \<Rightarrow> string option) \<Rightarrow> Claims option \<Rightarrow> degrees_APIInput option \<Rightarrow> DegreeDTO io" where
  "h_degrees_create dec claims body = admin_only claims (with_body body (degrees_Create dec))"

definition h_degrees_update :: "(string \<Rightarrow> string option) \<Rightarrow> Claims option \<Rightarrow> string \<Rightarrow>
    degrees_APIInput option \<Rightarrow> DegreeDTO io" where
  "h_degrees_update dec claims g body = admin_only claims (with_body body (degrees_Update dec g))"

definition h_degrees_delete :: "Claims option \<Rightarrow> string \<Rightarrow> bool io" where
  "h_degrees_delete claims g = admin_only claims (call (degrees_Delete g) fail (\<lambda>_. ret True))"

definition h_degrees_linkCourses :: "Claims option \<Rightarrow> string \<Rightarrow> (string \<times> int) list option \<Rightarrow> bool io" where
  "h_degrees_linkCourses claims g body = admin_only claims (with_body body (\<lambda>cs.
     call (degrees_LinkCourses g cs) fail (\<lambda>_. ret True)))"

section \<open>Who sees a draft\<close>

text \<open>C30: a draft degree answers anyone but an administrator with 404 when asked for by id; yet the list with
  the filter status=draft hands all drafts, with everything in them, to anybody, signed in or not.\<close>

theorem degree_drafts_leak:
  assumes "script w = []" "claims = None \<or> (\<exists>k. claims = Some k \<and> clm_Role k \<noteq> ''admin'')"
    and "distinct (map deg_ID (t_nano_degrees (db w)))"
  shows "(\<forall>r \<in> set (t_nano_degrees (db w)). deg_Status r = ''draft'' \<longrightarrow>
      h_degrees_get claims (deg_ID r) w = (Inl (NotFound ''Degree not found''), w)) \<and>
    h_degrees_list claims ''draft'' [] w = (Inr (map toDegreeDTO (take 200 (sort_desc deg_CreatedAt
      (filter (\<lambda>r. deg_Status r = ''draft'') (t_nano_degrees (db w)))))), w)"
proof -
  have a: "\<not> degrees_isAdmin claims" using assms(2) by (auto simp: degrees_isAdmin_def)
  have "first_row (\<lambda>x. deg_ID x = deg_ID r) (t_nano_degrees (db w)) = Some r"
    if "r \<in> set (t_nano_degrees (db w))" for r
    using assms(3) that by (rule first_row_key)
  then show ?thesis
    using a assms(1) by (simp add: h_degrees_get_def degrees_GetByID_def lookup_degree_def degrees_repo_GetByID_def
        q_GetDegreeByID_def h_degrees_list_def degrees_List_def degrees_repo_List_def degree_matches_def [abs_def] go_simps)
qed

definition degree_world :: world where
  "degree_world = demo_world (empty_database\<lparr>t_nano_degrees := [(demo_degree ''g1'')\<lparr>deg_Status := ''draft''\<rparr>]\<rparr>)"

theorem degree_drafts_leak_witness:
  "fst (h_degrees_get None ''g1'' degree_world) = Inl (NotFound ''Degree not found'') \<and>
   map_sum id (map dgd_Price) (fst (h_degrees_list None ''draft'' [] degree_world)) = Inr [''499.00'']"
proof -
  have "script degree_world = []" "t_nano_degrees (db degree_world) = [(demo_degree ''g1'')\<lparr>deg_Status := ''draft''\<rparr>]"
    by (simp_all add: degree_world_def demo_world_def)
  with degree_drafts_leak [of degree_world None] show ?thesis
    by (simp add: demo_degree_def sort_desc_def toDegreeDTO_def)
qed

end
