(* ===== verification/Itoa.thy ===== *)
theory Itoa
  imports Prelude
begin

text \<open>
  The two hand-written number printers, \<open>itoa\<close> of \<open>internal/chapters/service.go\<close> and of
  \<open>internal/lessons/service.go\<close>: their loops as partial functions (\<open>None\<close>: it never ends), on Go's
  64-bit \<open>int\<close>.
\<close>

section \<open>The printers\<close>

text \<open>\<open>byte('0' + n%10)\<close>\<close>

definition digit_byte :: "int \<Rightarrow> char" where
  "digit_byte n = char_of (nat (48 + n mod 10))"

partial_function (option) itoa_loop :: "int \<Rightarrow> string \<Rightarrow> string option" where
  "itoa_loop n digits = (if 0 < n then itoa_loop (n div 10) (digit_byte n # digits) else Some digits)"

definition chapters_itoa :: "int \<Rightarrow> string option" where
  "chapters_itoa n =
     (if n = 0 then Some ''0''
      else map_option (\<lambda>digits. if n < 0 then ''-'' @ digits else digits)
             (itoa_loop (if n < 0 then wrap64 (- n) else n) []))"

text \<open>The lessons have the same loop with a counter of its own.\<close>

definition lessons_itoa :: "int \<Rightarrow> string option" where
  "lessons_itoa n =
     (if n = 0 then Some ''0''
      else let m = (if n < 0 then wrap64 (- n) else n)
           in map_option (\<lambda>digits. if n < 0 then ''-'' @ digits else digits) (itoa_loop m []))"

section \<open>They end\<close>

lemma itoa_loop_show: "0 < n \<Longrightarrow> itoa_loop (int n) digits = Some (show_nat n @ digits)"
proof (induction n arbitrary: digits rule: less_induct)
  case (less n)
  have d: "digit_byte (int n) = digit_char (n mod 10)"
    by (simp add: digit_byte_def digit_char_def nat_add_distrib flip: of_nat_mod [of n 10, simplified])
  have step: "itoa_loop (int n) digits = itoa_loop (int (n div 10)) (digit_char (n mod 10) # digits)"
    using less.prems by (subst itoa_loop.simps) (simp add: d zdiv_int)
  show ?case
  proof (cases "n < 10")
    case True
    then show ?thesis unfolding step by (simp add: itoa_loop.simps [of 0] show_nat.simps [of n])
  next
    case False
    then show ?thesis
      using less.IH [of "n div 10" "digit_char (n mod 10) # digits"] unfolding step
      by (simp add: show_nat.simps [of n])
  qed
qed

lemma itoa_loop_int: "0 < n \<Longrightarrow> itoa_loop n [] = Some (show_int n)"
  using itoa_loop_show [of "nat n" "[]"] by (simp add: show_int_def)

lemma digit_literals:
  "char_of (48 :: nat) = CHR ''0''" "char_of (50 :: nat) = CHR ''2''" "char_of (52 :: nat) = CHR ''4''"
  "char_of (53 :: nat) = CHR ''5''" "char_of (55 :: nat) = CHR ''7''"
  by code_simp+

lemma wrap64_least: "wrap64 9223372036854775808 = - 9223372036854775808"
  by (simp add: wrap64_def)

lemma wrap64_neg: "\<lbrakk>- (2 ^ 63) \<le> n; n < 0\<rbrakk> \<Longrightarrow> wrap64 (- n) = (if n = - (2 ^ 63) then n else - n)"
  by (simp add: wrap64_def)

text \<open>C40: both printers end for every 64-bit integer, with its decimal digits as text,
  save for the least one, which has no negative: it is printed as a lone minus sign.\<close>

theorem itoa_terminates:
  assumes "- (2 ^ 63) \<le> n" "n < 2 ^ 63"
  shows "chapters_itoa n = Some (if n = - (2 ^ 63) then ''-'' else show_int n) \<and> lessons_itoa n = chapters_itoa n"
proof -
  have "itoa_loop n [] = Some []" if "n < 0" using that by (simp add: itoa_loop.simps [of n])
  moreover have "show_int n = ''-'' @ show_int (- n)" if "n < 0" using that by (simp add: show_int_def)
  ultimately show ?thesis
    using assms itoa_loop_int [of n] itoa_loop_int [of "- n"]
    by (cases "n = 0") (auto simp: chapters_itoa_def lessons_itoa_def Let_def wrap64_neg show_int_def show_nat.simps
        digit_char_def digit_literals wrap64_least)
qed

theorem itoa_terminates_witness:
  "chapters_itoa (- 207) = Some ''-207'' \<and> chapters_itoa (- (2 ^ 63)) = Some ''-'' \<and> lessons_itoa 45 = Some ''45''"
  using itoa_terminates [of "- 207"] itoa_terminates [of "- (2 ^ 63)"] itoa_terminates [of 45]
  by (simp add: show_int_def show_nat.simps digit_char_def digit_literals)

end
