(* ===== verification/Routes.thy ===== *)
theory Routes
  imports Http
begin

text \<open>
  Routing: the guards of \<open>internal/middleware/auth.go\<close>, the \<open>Mount\<close> methods of \<open>internal/handler\<close> as
  lists of entries in the order they are registered, and \<open>cmd/server/main.go\<close>'s concatenation of them
  when every part is configured.  \<open>Group p gs\<close> is a group with handlers, which Fiber registers as
  middleware on the prefix; a group without handlers only prefixes its routes, whose paths are written
  out.  A handler is named \<open>file.method\<close>.

  Fiber is not under \<open>src\<close>: whether a pattern \<open>hits\<close> a path and whether a prefix \<open>uses\<close> it are
  parameters, with the documented behaviour as the hypothesis \<open>fiber_router\<close>.
\<close>

section \<open>Guards\<close>

datatype guard = Auth | Optional | Role "string list"

definition admin_guards :: "guard list" where
  "admin_guards = [Auth, Role [''admin'']]"

text \<open>\<open>bearer\<close> is what \<open>RequireAuth\<close> answers for the request's header, \<open>l\<close> the claims in the locals.\<close>

fun run_guards :: "go_error + Claims \<Rightarrow> Claims option \<Rightarrow> guard list \<Rightarrow> go_error + Claims option" where
  "run_guards bearer l [] = Inr l"
| "run_guards bearer l (Auth # gs) =
     (case bearer of Inl e \<Rightarrow> Inl e | Inr k \<Rightarrow> run_guards bearer (Some k) gs)"
| "run_guards bearer l (Optional # gs) =
     (case bearer of Inl e \<Rightarrow> run_guards bearer l gs | Inr k \<Rightarrow> run_guards bearer (Some k) gs)"
| "run_guards bearer l (Role rs # gs) =
     (case l of
        None \<Rightarrow> Inl (Unauthorized ''missing auth claims'')
      | Some k \<Rightarrow> if clm_Role k \<in> set rs then run_guards bearer l gs else Inl (Forbidden ''insufficient role''))"

text \<open>They are the middleware's functions, which pass on what they answer.\<close>

lemma run_guards_Role:
  "fst (RequireRole rs l w) = (case run_guards bearer l [Role rs] of Inl e \<Rightarrow> Inl e | Inr _ \<Rightarrow> Inr ())"
  by (simp add: RequireRole_def fail_def ret_def split: option.splits)

lemma run_guards_Optional:
  "fst (OptionalAuth lib iss authz w) = run_guards (fst (RequireAuth lib iss authz w)) None [Optional]"
  by (auto simp: OptionalAuth_def RequireAuth_def fail_def ret_def call_def has_prefix_def
      split: sum.splits prod.splits)

section \<open>The dispatcher\<close>

datatype entry = Group string "guard list" | Route string string "guard list" string

fun dispatch :: "(string \<Rightarrow> string \<Rightarrow> bool) \<Rightarrow> (string \<Rightarrow> string \<Rightarrow> bool) \<Rightarrow> go_error + Claims \<Rightarrow> string \<Rightarrow> string \<Rightarrow>
    Claims option \<Rightarrow> entry list \<Rightarrow> go_error + (string \<times> Claims option)" where
  "dispatch uses hits bearer meth path l [] =
     Inl (FiberError 404 (''Route not found: '' @ meth @ '' '' @ path))"
| "dispatch uses hits bearer meth path l (Group p gs # es) =
     (if uses p path
      then (case run_guards bearer l gs of Inl e \<Rightarrow> Inl e | Inr l' \<Rightarrow> dispatch uses hits bearer meth path l' es)
      else dispatch uses hits bearer meth path l es)"
| "dispatch uses hits bearer meth path l (Route m p gs h # es) =
     (if m = meth \<and> hits p path
      then (case run_guards bearer l gs of Inl e \<Rightarrow> Inl e | Inr l' \<Rightarrow> Inr (h, l'))
      else dispatch uses hits bearer meth path l es)"

section \<open>What Fiber matches\<close>

text \<open>The segments of a path, one trailing slash dropped; \<open>:x\<close> stands for one segment, \<open>*\<close> for the rest;
  letters match in either case.\<close>

definition segs :: "string \<Rightarrow> string list" where
  "segs p = (let ss = split_on CHR ''/'' p in if length ss > 2 \<and> last ss = [] then butlast ss else ss)"

definition seg_ok :: "string \<Rightarrow> string \<Rightarrow> bool" where
  "seg_ok p s \<longleftrightarrow> (if has_prefix p '':'' then s \<noteq> [] else to_lower p = to_lower s)"

fun segs_match :: "string list \<Rightarrow> string list \<Rightarrow> bool" where
  "segs_match [] ss = (ss = [])"
| "segs_match (p # ps) [] = (p = ''*'')"
| "segs_match (p # ps) (s # ss) = (p = ''*'' \<or> (seg_ok p s \<and> segs_match ps ss))"

fun segs_prefix :: "string list \<Rightarrow> string list \<Rightarrow> bool" where
  "segs_prefix [] ss = True"
| "segs_prefix (p # ps) [] = False"
| "segs_prefix (p # ps) (s # ss) = (seg_ok p s \<and> segs_prefix ps ss)"

text \<open>A pattern only matches such paths, and a group's middleware runs on every path below its prefix.\<close>

definition fiber_router :: "(string \<Rightarrow> string \<Rightarrow> bool) \<Rightarrow> (string \<Rightarrow> string \<Rightarrow> bool) \<Rightarrow> bool" where
  "fiber_router uses hits \<longleftrightarrow>
     (\<forall>p path. hits p path \<longrightarrow> segs_match (segs p) (segs path)) \<and>
     (\<forall>p path. segs_prefix (segs p) (segs path) \<longrightarrow> uses p path)"

section \<open>The routes\<close>

definition mount_password_reset :: "entry list" where
  "mount_password_reset =
     [Route ''GET'' ''/auth/password-reset/capability'' [] ''password_reset.capability'',
      Route ''POST'' ''/auth/password-reset/request'' [] ''password_reset.request'',
      Route ''POST'' ''/auth/password-reset/confirm'' [] ''password_reset.confirm'']"

definition mount_auth :: "entry list" where
  "mount_auth =
     [Route ''GET'' ''/auth/providers'' [] ''auth.listProviders'',
      Route ''POST'' ''/auth/register'' [] ''auth.register'',
      Route ''POST'' ''/auth/login'' [] ''auth.login'',
      Route ''POST'' ''/auth/refresh'' [] ''auth.refresh'',
      Route ''POST'' ''/auth/logout'' [] ''auth.logout'',
      Route ''GET'' ''/auth/me'' [Auth] ''auth.me'',
      Route ''GET'' ''/auth/:providerId/start'' [] ''auth.startProvider'',
      Route ''POST'' ''/auth/:providerId'' [] ''auth.authenticate'',
      Route ''POST'' ''/auth/:providerId/callback'' [] ''auth.providerCallback'',
      Route ''GET'' ''/auth/:providerId/link/start'' [Auth] ''auth.startLink'',
      Route ''POST'' ''/auth/:providerId/link/callback'' [Auth] ''auth.linkCallback'']"

definition mount_users :: "entry list" where
  "mount_users =
     [Route ''GET'' ''/users/me'' [Auth] ''users.getMe'',
      Route ''POST'' ''/users/me/change-password'' [Auth] ''users.changePasswordOwn'',
      Route ''GET'' ''/users'' admin_guards ''users.list'',
      Route ''GET'' ''/users/:id'' admin_guards ''users.getOne'',
      Route ''POST'' ''/users'' admin_guards ''users.create'',
      Route ''PATCH'' ''/users/:id'' [Auth] ''users.update'',
      Route ''POST'' ''/users/:id/reset-password'' admin_guards ''users.resetPassword'',
      Route ''DELETE'' ''/users/:id'' admin_guards ''users.disable'',
      Route ''POST'' ''/users/:id/restore'' admin_guards ''users.restore'',
      Route ''POST'' ''/users/:id/grant-course'' admin_guards ''users.grantCourse'',
      Route ''POST'' ''/users/:id/grant-degree'' admin_guards ''users.grantDegree'']"

definition mount_identities :: "entry list" where
  "mount_identities =
     [Route ''GET'' ''/auth/identities'' [Auth] ''identities.list'',
      Route ''DELETE'' ''/auth/identities/:id'' [Auth] ''identities.unlink'']"

definition mount_courses :: "entry list" where
  "mount_courses =
     [Route ''GET'' ''/courses'' [Optional] ''courses.list'',
      Route ''GET'' ''/courses/:id'' [Optional] ''courses.get'',
      Route ''POST'' ''/courses'' admin_guards ''courses.create'',
      Route ''PATCH'' ''/courses/:id'' admin_guards ''courses.update'',
      Route ''DELETE'' ''/courses/:id'' admin_guards ''courses.delete'',
      Route ''POST'' ''/courses/:id/degrees'' admin_guards ''courses.linkDegrees'']"

definition mount_chapters :: "entry list" where
  "mount_chapters =
     [Group ''/courses'' admin_guards,
      Route ''GET'' ''/courses/:courseId/chapters'' [] ''chapters.listByCourse'',
      Route ''POST'' ''/courses/:courseId/chapters'' [] ''chapters.create'',
      Route ''POST'' ''/courses/:courseId/chapters/reorder'' [] ''chapters.reorder'',
      Group ''/chapters'' admin_guards,
      Route ''PATCH'' ''/chapters/:id'' [] ''chapters.update'',
      Route ''DELETE'' ''/chapters/:id'' [] ''chapters.delete'']"

definition mount_lessons :: "entry list" where
  "mount_lessons =
     [Group ''/chapters'' admin_guards,
      Route ''GET'' ''/chapters/:chapterId/lessons'' [] ''lessons.listByChapter'',
      Route ''POST'' ''/chapters/:chapterId/lessons'' [] ''lessons.create'',
      Route ''POST'' ''/chapters/:chapterId/lessons/reorder'' [] ''lessons.reorder'',
      Group ''/lessons'' admin_guards,
      Route ''PATCH'' ''/lessons/:id'' [] ''lessons.update'',
      Route ''DELETE'' ''/lessons/:id'' [] ''lessons.delete'']"

definition mount_resources :: "entry list" where
  "mount_resources =
     [Group ''/lessons'' admin_guards,
      Route ''GET'' ''/lessons/:lessonId/resources'' [] ''resources.listByLesson'',
      Route ''POST'' ''/lessons/:lessonId/resources'' [] ''resources.create'',
      Group ''/resources'' admin_guards,
      Route ''PATCH'' ''/resources/:id'' [] ''resources.update'',
      Route ''DELETE'' ''/resources/:id'' [] ''resources.delete'']"

definition mount_enrollments :: "entry list" where
  "mount_enrollments =
     [Group ''/enrollments'' [Auth],
      Route ''GET'' ''/enrollments/me'' [] ''enrollments.list'',
      Route ''POST'' ''/enrollments/courses/:id/free'' [] ''enrollments.enrollFree'']"

definition mount_orders :: "entry list" where
  "mount_orders =
     [Group ''/orders'' [Auth],
      Route ''GET'' ''/orders/me'' [] ''orders.list'',
      Route ''GET'' ''/orders/:id'' [] ''orders.get'',
      Route ''POST'' ''/orders'' [] ''orders.create'',
      Route ''POST'' ''/orders/:id/pay'' [] ''orders.pay'',
      Route ''POST'' ''/orders/:id/cancel'' [] ''orders.cancel'',
      Route ''POST'' ''/orders/:id/refund'' [] ''orders.refund'']"

definition mount_degrees :: "entry list" where
  "mount_degrees =
     [Route ''GET'' ''/degrees'' [Optional] ''degrees.list'',
      Route ''GET'' ''/degrees/:id'' [Optional] ''degrees.get'',
      Group ''/degrees'' admin_guards,
      Route ''POST'' ''/degrees'' [] ''degrees.create'',
      Route ''PATCH'' ''/degrees/:id'' [] ''degrees.update'',
      Route ''DELETE'' ''/degrees/:id'' [] ''degrees.delete'',
      Route ''POST'' ''/degrees/:id/courses'' [] ''degrees.linkCourses'']"

definition mount_badges :: "entry list" where
  "mount_badges =
     [Route ''GET'' ''/badges'' [] ''badges.listActive'',
      Route ''GET'' ''/badges/me'' [Auth] ''badges.me'',
      Group ''/badges'' admin_guards,
      Route ''POST'' ''/badges'' [] ''badges.create'',
      Route ''PATCH'' ''/badges/:id'' [] ''badges.update'',
      Route ''DELETE'' ''/badges/:id'' [] ''badges.delete'',
      Route ''GET'' ''/badges/admin/stats'' [] ''badges.adminStats'']"

definition mount_certificates :: "entry list" where
  "mount_certificates =
     [Route ''GET'' ''/certificates'' [Auth] ''certificates.list'',
      Route ''GET'' ''/certificates/verify/:serial'' [] ''certificates.verify'',
      Route ''GET'' ''/certificates/:id'' [] ''certificates.get'',
      Group ''/certificates'' admin_guards,
      Route ''POST'' ''/certificates/revoke/:id'' [] ''certificates.revoke'']"

definition mount_practices :: "entry list" where
  "mount_practices =
     [Route ''GET'' ''/practices/courses/:courseId'' [Optional] ''practices.list'',
      Route ''GET'' ''/practices/courses/:courseId/access'' [Auth] ''practices.listAccessible'',
      Route ''GET'' ''/practices/admin/courses/:courseId'' admin_guards ''practices.listAdmin'',
      Route ''GET'' ''/practices/:id'' [Optional] ''practices.get'',
      Group ''/practices'' [Auth],
      Route ''GET'' ''/practices/user/progress'' [] ''practices.userProgress'',
      Route ''POST'' ''/practices/:id/start'' [] ''practices.start'',
      Route ''POST'' ''/practices/:id/complete'' [] ''practices.complete'',
      Route ''POST'' ''/practices/:id/skip'' [] ''practices.skip'',
      Group ''/practices'' admin_guards,
      Route ''POST'' ''/practices'' [] ''practices.create'',
      Route ''PATCH'' ''/practices/:id'' [] ''practices.update'',
      Route ''DELETE'' ''/practices/:id'' [] ''practices.delete'']"

definition mount_progress :: "entry list" where
  "mount_progress =
     [Group ''/progress'' [Auth],
      Route ''GET'' ''/progress/me'' [] ''progress.myProgress'',
      Route ''GET'' ''/progress/me/stats'' [] ''progress.myStats'',
      Route ''GET'' ''/progress/courses/:courseId'' [] ''progress.courseProgress'',
      Route ''POST'' ''/progress/lessons/:lessonId/complete'' [] ''progress.completeLesson'']"

definition mount_learningevents :: "entry list" where
  "mount_learningevents =
     [Group ''/learning-events'' [Auth],
      Route ''POST'' ''/learning-events'' [] ''learningevents.createOne'',
      Route ''POST'' ''/learning-events/batch'' [] ''learningevents.createBatch'',
      Route ''GET'' ''/learning-events/me'' [] ''learningevents.listMine'',
      Group ''/learning-events'' [Auth, Role [''admin'', ''instructor'']],
      Route ''GET'' ''/learning-events/lesson/:lessonId'' [] ''learningevents.listByLesson'']"

definition mount_notes :: "entry list" where
  "mount_notes =
     [Group ''/lessons/:lessonId/notes'' [Auth],
      Route ''GET'' ''/lessons/:lessonId/notes'' [] ''notes.list'',
      Route ''POST'' ''/lessons/:lessonId/notes'' [] ''notes.create'',
      Group ''/notes'' [Auth],
      Route ''PATCH'' ''/notes/:id'' [] ''notes.update'',
      Route ''DELETE'' ''/notes/:id'' [] ''notes.delete'']"

definition mount_reviews :: "entry list" where
  "mount_reviews =
     [Route ''GET'' ''/courses/:id/reviews'' [] ''reviews.listByCourse'',
      Route ''POST'' ''/courses/:id/reviews'' [Auth] ''reviews.create'',
      Group ''/reviews'' [Auth],
      Route ''POST'' ''/reviews/:id/helpful'' [] ''reviews.helpful'',
      Group ''/reviews'' admin_guards,
      Route ''GET'' ''/reviews'' [] ''reviews.listAll'',
      Route ''DELETE'' ''/reviews/:id'' [] ''reviews.softDelete'']"

definition mount_notifications :: "entry list" where
  "mount_notifications =
     [Group ''/notifications'' [Auth],
      Route ''GET'' ''/notifications'' [] ''notifications.list'',
      Route ''GET'' ''/notifications/unread-count'' [] ''notifications.unreadCount'',
      Route ''POST'' ''/notifications/:id/read'' [] ''notifications.markRead'',
      Route ''POST'' ''/notifications/read-all'' [] ''notifications.markAllRead'',
      Route ''DELETE'' ''/notifications/:id'' [] ''notifications.delete'',
      Route ''POST'' ''/notifications/clear-read'' [] ''notifications.clearRead'']"

definition mount_points :: "entry list" where
  "mount_points =
     [Group ''/points'' [Auth],
      Route ''GET'' ''/points/me'' [] ''points.getMyPoints'']"

definition mount_local_uploads :: "entry list" where
  "mount_local_uploads =
     [Route ''PUT'' ''/uploads/_local_upload/*'' [] ''uploads.putLocal'',
      Route ''GET'' ''/uploads/files/*'' [] ''uploads.getLocal'']"

definition mount_uploads :: "entry list" where
  "mount_uploads =
     [Group ''/uploads'' [Auth],
      Route ''POST'' ''/uploads/sign'' [] ''uploads.sign'',
      Route ''POST'' ''/uploads/complete'' [] ''uploads.complete'']"

definition mount_chat :: "entry list" where
  "mount_chat =
     [Group ''/chat'' [Auth],
      Route ''POST'' ''/chat/sessions'' [] ''chat.createSession'',
      Route ''GET'' ''/chat/sessions'' [] ''chat.listSessions'',
      Route ''GET'' ''/chat/sessions/:id/messages'' [] ''chat.listMessages'',
      Route ''POST'' ''/chat/sessions/:id/messages'' [] ''chat.sendMessage'',
      Route ''DELETE'' ''/chat/sessions/:id'' [] ''chat.deleteSession'']"

definition mount_ai :: "entry list" where
  "mount_ai =
     [Route ''GET'' ''/admin/ai/config'' admin_guards ''ai.adminList'',
      Route ''PUT'' ''/admin/ai/config'' admin_guards ''ai.adminUpsert'',
      Route ''POST'' ''/admin/ai/config/test'' admin_guards ''ai.adminTest'',
      Route ''DELETE'' ''/admin/ai/config/:provider'' admin_guards ''ai.adminDelete'',
      Route ''GET'' ''/ai/config/providers'' [Auth] ''ai.userList'',
      Route ''PUT'' ''/ai/config/providers'' [Auth] ''ai.userUpsert'',
      Route ''DELETE'' ''/ai/config/providers/:provider'' [Auth] ''ai.userDelete'',
      Group ''/admin/ai-config'' admin_guards,
      Route ''GET'' ''/admin/ai-config/providers'' [] ''ai.adminList'',
      Route ''PUT'' ''/admin/ai-config/providers'' [] ''ai.adminUpsert'',
      Route ''DELETE'' ''/admin/ai-config/providers/:provider'' [] ''ai.adminDelete'',
      Route ''POST'' ''/admin/ai-config/test'' [] ''ai.adminTest'',
      Group ''/ai/user-config'' [Auth],
      Route ''GET'' ''/ai/user-config/providers'' [] ''ai.userList'',
      Route ''PUT'' ''/ai/user-config/providers'' [] ''ai.userUpsert'',
      Route ''DELETE'' ''/ai/user-config/providers/:provider'' [] ''ai.userDelete'',
      Group ''/ai'' admin_guards,
      Route ''POST'' ''/ai/generate-course'' [] ''ai.generateCourse'',
      Route ''POST'' ''/ai/generate-degree'' [] ''ai.generateDegree'']"

definition mount_instructors :: "entry list" where
  "mount_instructors =
     [Route ''GET'' ''/instructors/expertises'' [] ''instructors.publicListExpertises'',
      Route ''GET'' ''/instructors'' [] ''instructors.publicList'',
      Route ''GET'' ''/instructors/:slug'' [] ''instructors.publicBySlug'',
      Group ''/admin/instructors'' admin_guards,
      Route ''GET'' ''/admin/instructors'' [] ''instructors.adminList'',
      Route ''GET'' ''/admin/instructors/reorder'' [] ''instructors.adminReorderReadStub'',
      Route ''POST'' ''/admin/instructors/reorder'' [] ''instructors.adminReorder'',
      Route ''GET'' ''/admin/instructors/expertises'' [] ''instructors.adminListExpertises'',
      Route ''POST'' ''/admin/instructors/expertises'' [] ''instructors.adminCreateExpertise'',
      Route ''PATCH'' ''/admin/instructors/expertises/:id'' [] ''instructors.adminUpdateExpertise'',
      Route ''DELETE'' ''/admin/instructors/expertises/:id'' [] ''instructors.adminDeleteExpertise'',
      Route ''GET'' ''/admin/instructors/:id'' [] ''instructors.adminByID'',
      Route ''POST'' ''/admin/instructors'' [] ''instructors.adminCreate'',
      Route ''PATCH'' ''/admin/instructors/:id'' [] ''instructors.adminUpdate'',
      Route ''DELETE'' ''/admin/instructors/:id'' [] ''instructors.adminSoftDelete'',
      Route ''GET'' ''/admin/instructors/:id/course-links'' [] ''instructors.adminListCourseLinks'',
      Route ''POST'' ''/admin/instructors/:id/course-links'' [] ''instructors.adminAddCourseLink'',
      Route ''PUT'' ''/admin/instructors/:id/course-links'' [] ''instructors.adminSyncCourseLinks'',
      Route ''DELETE'' ''/admin/instructors/course-links/:linkId'' [] ''instructors.adminRemoveCourseLink'']"

definition mount_site :: "entry list" where
  "mount_site =
     [Route ''GET'' ''/site/stats'' [] ''site.getStats'']"

definition mount_enterprise :: "entry list" where
  "mount_enterprise =
     [Route ''POST'' ''/enterprise/inquiries'' [] ''enterprise.create'',
      Group ''/enterprise'' admin_guards,
      Route ''GET'' ''/enterprise/inquiries'' [] ''enterprise.list'',
      Route ''PATCH'' ''/enterprise/inquiries/:id/status'' [] ''enterprise.updateStatus'',
      Route ''DELETE'' ''/enterprise/inquiries/:id'' [] ''enterprise.delete'']"

definition mount_urlimport :: "entry list" where
  "mount_urlimport =
     [Group ''/courses'' admin_guards,
      Route ''POST'' ''/courses/import-from-url'' [] ''urlimport.importSingle'',
      Route ''POST'' ''/courses/import-batch-from-urls'' [] ''urlimport.importBatch'']"

definition mount_hackathons :: "entry list" where
  "mount_hackathons =
     [Route ''GET'' ''/hackathons'' [Optional] ''hackathons.list'',
      Route ''GET'' ''/hackathons/:id'' [Optional] ''hackathons.get'',
      Route ''GET'' ''/hackathons/:id/announcements'' [] ''hackathons.listAnnouncements'',
      Route ''GET'' ''/hackathons/:id/teams'' [] ''hackathons.listTeams'',
      Route ''GET'' ''/hackathons/:id/judges'' [] ''hackathons.listJudges'',
      Route ''GET'' ''/hackathons/:id/sponsors'' [] ''hackathons.listSponsors'',
      Route ''POST'' ''/hackathons'' admin_guards ''hackathons.create'',
      Route ''PATCH'' ''/hackathons/:id'' admin_guards ''hackathons.update'',
      Route ''DELETE'' ''/hackathons/:id'' admin_guards ''hackathons.delete'',
      Route ''POST'' ''/hackathons/:id/announcements'' admin_guards ''hackathons.createAnnouncement'',
      Route ''POST'' ''/hackathons/:id/judges'' admin_guards ''hackathons.addJudge'',
      Route ''PATCH'' ''/hackathons/:id/judges/:judgeId'' admin_guards ''hackathons.updateJudge'',
      Route ''DELETE'' ''/hackathons/:id/judges/:judgeId'' admin_guards ''hackathons.removeJudge'',
      Route ''POST'' ''/hackathons/:id/sponsors'' admin_guards ''hackathons.addSponsor'',
      Route ''PATCH'' ''/hackathons/:id/sponsors/:sponsorId'' admin_guards ''hackathons.updateSponsor'',
      Route ''DELETE'' ''/hackathons/:id/sponsors/:sponsorId'' admin_guards ''hackathons.removeSponsor'',
      Route ''GET'' ''/hackathons/:id/submissions/all'' admin_guards ''hackathons.listAllSubmissions'',
      Route ''POST'' ''/hackathons/:id/submissions/:submissionId/judge'' admin_guards ''hackathons.judgeSubmission'',
      Route ''POST'' ''/hackathons/:id/register'' [Auth] ''hackathons.register'',
      Route ''POST'' ''/hackathons/:id/cancel'' [Auth] ''hackathons.cancel'',
      Route ''GET'' ''/hackathons/:id/my-registration'' [Auth] ''hackathons.myRegistration'',
      Route ''POST'' ''/hackathons/:id/teams'' [Auth] ''hackathons.createTeam'',
      Route ''POST'' ''/hackathons/:id/teams/:teamId/join'' [Auth] ''hackathons.joinTeam'',
      Route ''POST'' ''/hackathons/:id/teams/:teamId/leave'' [Auth] ''hackathons.leaveTeam'',
      Route ''GET'' ''/hackathons/:id/submissions'' [Auth] ''hackathons.listMySubmissions'',
      Route ''POST'' ''/hackathons/:id/submissions'' [Auth] ''hackathons.createSubmission'',
      Route ''PATCH'' ''/hackathons/:id/submissions/:submissionId'' [Auth] ''hackathons.updateSubmission'']"

definition mount_admin :: "entry list" where
  "mount_admin =
     [Group ''/admin'' admin_guards,
      Route ''GET'' ''/admin/stats'' [] ''admin.stats'']"

definition mount_audit :: "entry list" where
  "mount_audit =
     [Group ''/audit-logs'' admin_guards,
      Route ''GET'' ''/audit-logs'' [] ''audit.list'']"

definition mount_public_cms :: "entry list" where
  "mount_public_cms =
     [Route ''GET'' ''/app-settings'' [] ''cms.publicListAppSettings'',
      Route ''GET'' ''/site-settings'' [] ''cms.publicGetSiteSettings'',
      Route ''GET'' ''/page-settings'' [] ''cms.publicGetPageSettings'',
      Route ''GET'' ''/industries'' [] ''cms.publicListIndustries'',
      Route ''GET'' ''/enterprise-methods'' [] ''cms.publicListEnterpriseMethods'',
      Route ''GET'' ''/testimonials'' [] ''cms.publicListTestimonials'',
      Route ''GET'' ''/quick-prompts'' [] ''cms.publicListQuickPrompts'',
      Route ''GET'' ''/course-categories'' [] ''cms.publicListCourseCategories'',
      Route ''GET'' ''/popular-searches'' [] ''cms.publicListPopularSearches'',
      Route ''GET'' ''/hot-keywords'' [] ''cms.publicListHotKeywords'',
      Route ''GET'' ''/auth-providers'' [] ''cms.publicListAuthProviders'',
      Route ''GET'' ''/top-nav'' [] ''cms.publicListTopNav'',
      Route ''GET'' ''/footer-columns'' [] ''cms.publicListFooterColumns'',
      Route ''GET'' ''/enum-translations'' [] ''cms.publicListEnumTranslations'',
      Route ''GET'' ''/date-format-templates'' [] ''cms.publicListDateFormatTemplates'',
      Route ''GET'' ''/i18n/messages'' [] ''cms.publicListI18nMessages'']"

definition mount_admin_cms :: "entry list" where
  "mount_admin_cms =
     [Group ''/admin/cms'' admin_guards,
      Route ''GET'' ''/admin/cms/app-settings'' [] ''cms.adminListAppSettings'',
      Route ''POST'' ''/admin/cms/app-settings'' [] ''cms.adminCreateAppSetting'',
      Route ''PATCH'' ''/admin/cms/app-settings/:key'' [] ''cms.adminUpdateAppSetting'',
      Route ''DELETE'' ''/admin/cms/app-settings/:key'' [] ''cms.adminDeleteAppSetting'',
      Route ''GET'' ''/admin/cms/site-settings'' [] ''cms.adminListSiteSettings'',
      Route ''POST'' ''/admin/cms/site-settings'' [] ''cms.adminCreateSiteSetting'',
      Route ''PATCH'' ''/admin/cms/site-settings/:key'' [] ''cms.adminUpdateSiteSetting'',
      Route ''DELETE'' ''/admin/cms/site-settings/:key'' [] ''cms.adminDeleteSiteSetting'',
      Route ''GET'' ''/admin/cms/page-settings'' [] ''cms.adminListPageSettings'',
      Route ''POST'' ''/admin/cms/page-settings'' [] ''cms.adminCreatePageSetting'',
      Route ''PATCH'' ''/admin/cms/page-settings/:id'' [] ''cms.adminUpdatePageSetting'',
      Route ''DELETE'' ''/admin/cms/page-settings/:id'' [] ''cms.adminDeletePageSetting'',
      Route ''GET'' ''/admin/cms/enum-translations'' [] ''cms.adminListEnumTranslations'',
      Route ''POST'' ''/admin/cms/enum-translations'' [] ''cms.adminCreateEnumTranslation'',
      Route ''PATCH'' ''/admin/cms/enum-translations/:id'' [] ''cms.adminUpdateEnumTranslation'',
      Route ''DELETE'' ''/admin/cms/enum-translations/:id'' [] ''cms.adminDeleteEnumTranslation'',
      Route ''GET'' ''/admin/cms/date-format-templates'' [] ''cms.adminListDateFormatTemplates'',
      Route ''POST'' ''/admin/cms/date-format-templates'' [] ''cms.adminCreateDateFormatTemplate'',
      Route ''PATCH'' ''/admin/cms/date-format-templates/:id'' [] ''cms.adminUpdateDateFormatTemplate'',
      Route ''DELETE'' ''/admin/cms/date-format-templates/:id'' [] ''cms.adminDeleteDateFormatTemplate'',
      Route ''GET'' ''/admin/cms/industries'' [] ''cms.adminListIndustries'',
      Route ''POST'' ''/admin/cms/industries'' [] ''cms.adminCreateIndustry'',
      Route ''PATCH'' ''/admin/cms/industries/:id'' [] ''cms.adminUpdateIndustry'',
      Route ''DELETE'' ''/admin/cms/industries/:id'' [] ''cms.adminDeleteIndustry'',
      Route ''GET'' ''/admin/cms/enterprise-methods'' [] ''cms.adminListEnterpriseMethods'',
      Route ''POST'' ''/admin/cms/enterprise-methods'' [] ''cms.adminCreateEnterpriseMethod'',
      Route ''PATCH'' ''/admin/cms/enterprise-methods/:id'' [] ''cms.adminUpdateEnterpriseMethod'',
      Route ''DELETE'' ''/admin/cms/enterprise-methods/:id'' [] ''cms.adminDeleteEnterpriseMethod'',
      Route ''GET'' ''/admin/cms/testimonials'' [] ''cms.adminListTestimonials'',
      Route ''POST'' ''/admin/cms/testimonials'' [] ''cms.adminCreateTestimonial'',
      Route ''PATCH'' ''/admin/cms/testimonials/:id'' [] ''cms.adminUpdateTestimonial'',
      Route ''DELETE'' ''/admin/cms/testimonials/:id'' [] ''cms.adminDeleteTestimonial'',
      Route ''GET'' ''/admin/cms/quick-prompts'' [] ''cms.adminListQuickPrompts'',
      Route ''POST'' ''/admin/cms/quick-prompts'' [] ''cms.adminCreateQuickPrompt'',
      Route ''PATCH'' ''/admin/cms/quick-prompts/:id'' [] ''cms.adminUpdateQuickPrompt'',
      Route ''DELETE'' ''/admin/cms/quick-prompts/:id'' [] ''cms.adminDeleteQuickPrompt'',
      Route ''GET'' ''/admin/cms/course-categories'' [] ''cms.adminListCourseCategories'',
      Route ''POST'' ''/admin/cms/course-categories'' [] ''cms.adminCreateCourseCategory'',
      Route ''PATCH'' ''/admin/cms/course-categories/:id'' [] ''cms.adminUpdateCourseCategory'',
      Route ''DELETE'' ''/admin/cms/course-categories/:id'' [] ''cms.adminDeleteCourseCategory'',
      Route ''GET'' ''/admin/cms/popular-searches'' [] ''cms.adminListPopularSearches'',
      Route ''POST'' ''/admin/cms/popular-searches'' [] ''cms.adminCreatePopularSearch'',
      Route ''PATCH'' ''/admin/cms/popular-searches/:id'' [] ''cms.adminUpdatePopularSearch'',
      Route ''DELETE'' ''/admin/cms/popular-searches/:id'' [] ''cms.adminDeletePopularSearch'',
      Route ''GET'' ''/admin/cms/hot-keywords'' [] ''cms.adminListHotKeywords'',
      Route ''POST'' ''/admin/cms/hot-keywords'' [] ''cms.adminCreateHotKeyword'',
      Route ''PATCH'' ''/admin/cms/hot-keywords/:id'' [] ''cms.adminUpdateHotKeyword'',
      Route ''DELETE'' ''/admin/cms/hot-keywords/:id'' [] ''cms.adminDeleteHotKeyword'',
      Route ''GET'' ''/admin/cms/auth-providers'' [] ''cms.adminListAuthProviders'',
      Route ''POST'' ''/admin/cms/auth-providers'' [] ''cms.adminCreateAuthProvider'',
      Route ''PATCH'' ''/admin/cms/auth-providers/:id'' [] ''cms.adminUpdateAuthProvider'',
      Route ''DELETE'' ''/admin/cms/auth-providers/:id'' [] ''cms.adminDeleteAuthProvider'',
      Route ''GET'' ''/admin/cms/top-nav'' [] ''cms.adminListTopNav'',
      Route ''POST'' ''/admin/cms/top-nav'' [] ''cms.adminCreateTopNav'',
      Route ''PATCH'' ''/admin/cms/top-nav/:id'' [] ''cms.adminUpdateTopNav'',
      Route ''DELETE'' ''/admin/cms/top-nav/:id'' [] ''cms.adminDeleteTopNav'',
      Route ''GET'' ''/admin/cms/footer-columns'' [] ''cms.adminListFooterColumns'',
      Route ''POST'' ''/admin/cms/footer-columns'' [] ''cms.adminCreateFooterColumn'',
      Route ''PATCH'' ''/admin/cms/footer-columns/:id'' [] ''cms.adminUpdateFooterColumn'',
      Route ''DELETE'' ''/admin/cms/footer-columns/:id'' [] ''cms.adminDeleteFooterColumn'',
      Route ''GET'' ''/admin/cms/i18n/messages'' [] ''cms.adminListI18nMessages'',
      Route ''POST'' ''/admin/cms/i18n/messages'' [] ''cms.adminCreateI18nMessage'',
      Route ''PATCH'' ''/admin/cms/i18n/messages/:id'' [] ''cms.adminUpdateI18nMessage'',
      Route ''DELETE'' ''/admin/cms/i18n/messages/:id'' [] ''cms.adminDeleteI18nMessage'']"

text \<open>The parts in the order the server mounts them.\<close>

definition api_parts :: "entry list list" where
  "api_parts =
     [mount_password_reset, mount_auth, mount_users, mount_identities,
      mount_courses, mount_chapters, mount_lessons, mount_resources,
      mount_enrollments, mount_orders, mount_degrees, mount_badges,
      mount_certificates, mount_practices, mount_progress, mount_learningevents,
      mount_notes, mount_reviews, mount_notifications, mount_points,
      mount_local_uploads, mount_uploads, mount_chat, mount_ai,
      mount_instructors, mount_site, mount_enterprise, mount_urlimport,
      mount_hackathons, mount_admin, mount_audit, mount_public_cms,
      mount_admin_cms]"

definition api_routes :: "entry list" where
  "api_routes = concat api_parts"

section \<open>Who may reach what\<close>

text \<open>The intended access of each handler: these are for everybody, these for anybody who signed in, one
  for the teaching staff, and all others for administrators.\<close>

datatype access_level = Everybody | SignedIn | OnlyRoles "string list"

definition open_handlers :: "string list" where
  "open_handlers =
     [''password_reset.capability'', ''password_reset.request'', ''password_reset.confirm'',
      ''auth.listProviders'', ''auth.register'', ''auth.login'', ''auth.refresh'', ''auth.logout'',
      ''auth.startProvider'', ''auth.authenticate'', ''auth.providerCallback'', ''courses.list'',
      ''courses.get'', ''degrees.list'', ''degrees.get'', ''badges.listActive'',
      ''certificates.verify'', ''certificates.get'', ''practices.list'', ''practices.get'',
      ''reviews.listByCourse'', ''uploads.putLocal'', ''uploads.getLocal'',
      ''instructors.publicListExpertises'', ''instructors.publicList'', ''instructors.publicBySlug'',
      ''site.getStats'', ''enterprise.create'', ''hackathons.list'', ''hackathons.get'',
      ''hackathons.listAnnouncements'', ''hackathons.listTeams'', ''hackathons.listJudges'',
      ''hackathons.listSponsors'', ''cms.publicListAppSettings'', ''cms.publicGetSiteSettings'',
      ''cms.publicGetPageSettings'', ''cms.publicListIndustries'', ''cms.publicListEnterpriseMethods'',
      ''cms.publicListTestimonials'', ''cms.publicListQuickPrompts'',
      ''cms.publicListCourseCategories'', ''cms.publicListPopularSearches'',
      ''cms.publicListHotKeywords'', ''cms.publicListAuthProviders'', ''cms.publicListTopNav'',
      ''cms.publicListFooterColumns'', ''cms.publicListEnumTranslations'',
      ''cms.publicListDateFormatTemplates'', ''cms.publicListI18nMessages'']"

definition signed_in_handlers :: "string list" where
  "signed_in_handlers =
     [''auth.me'', ''auth.startLink'', ''auth.linkCallback'', ''users.getMe'',
      ''users.changePasswordOwn'', ''users.update'', ''identities.list'', ''identities.unlink'',
      ''enrollments.list'', ''enrollments.enrollFree'', ''orders.list'', ''orders.get'',
      ''orders.create'', ''orders.pay'', ''orders.cancel'', ''orders.refund'', ''badges.me'',
      ''certificates.list'', ''practices.listAccessible'', ''practices.userProgress'',
      ''practices.start'', ''practices.complete'', ''practices.skip'', ''progress.myProgress'',
      ''progress.myStats'', ''progress.courseProgress'', ''progress.completeLesson'',
      ''learningevents.createOne'', ''learningevents.createBatch'', ''learningevents.listMine'',
      ''notes.list'', ''notes.create'', ''notes.update'', ''notes.delete'', ''reviews.create'',
      ''reviews.helpful'', ''notifications.list'', ''notifications.unreadCount'',
      ''notifications.markRead'', ''notifications.markAllRead'', ''notifications.delete'',
      ''notifications.clearRead'', ''points.getMyPoints'', ''uploads.sign'', ''uploads.complete'',
      ''chat.createSession'', ''chat.listSessions'', ''chat.listMessages'', ''chat.sendMessage'',
      ''chat.deleteSession'', ''ai.userList'', ''ai.userUpsert'', ''ai.userDelete'',
      ''hackathons.register'', ''hackathons.cancel'', ''hackathons.myRegistration'',
      ''hackathons.createTeam'', ''hackathons.joinTeam'', ''hackathons.leaveTeam'',
      ''hackathons.listMySubmissions'', ''hackathons.createSubmission'', ''hackathons.updateSubmission'']"

definition access_table :: "string \<Rightarrow> access_level" where
  "access_table h =
     (if list_ex (has_prefix h) [''cms.admin'', ''instructors.admin'', ''ai.admin'', ''admin.'', ''audit.'']
      then OnlyRoles [''admin'']
      else if h \<in> set open_handlers then Everybody
      else if h \<in> set signed_in_handlers then SignedIn
      else if h = ''learningevents.listByLesson'' then OnlyRoles [''admin'', ''instructor'']
      else OnlyRoles [''admin''])"

fun allows :: "access_level \<Rightarrow> guard list \<Rightarrow> bool" where
  "allows Everybody gs = True"
| "allows SignedIn gs = (Auth \<in> set gs)"
| "allows (OnlyRoles rs) gs = (Role rs \<in> set gs)"

text \<open>The static check: a route's guards are its own and those of the groups whose prefix starts its
  pattern, segment by segment.\<close>

fun vetted :: "(string \<times> guard list) list \<Rightarrow> entry list \<Rightarrow> bool" where
  "vetted seen [] = True"
| "vetted seen (Group p gs # es) = vetted ((p, gs) # seen) es"
| "vetted seen (Route m p gs h # es) =
     (allows (access_table h)
        (concat (map snd (filter (\<lambda>(q, _). take (length (segs q)) (segs p) = segs q \<and> ''*'' \<notin> set (segs q)) seen)) @ gs)
      \<and> vetted seen es)"

lemma allows_mono: "allows a gs \<Longrightarrow> set gs \<subseteq> set gs' \<Longrightarrow> allows a gs'"
  by (cases a) auto

lemma vetted_mono: "vetted seen es \<Longrightarrow> set seen \<subseteq> set seen' \<Longrightarrow> vetted seen' es"
proof (induction seen es arbitrary: seen' rule: vetted.induct)
  case (2 seen p gs es)
  then show ?case by (metis insert_mono list.simps(15) vetted.simps(2))
next
  case (3 seen m p gs h es)
  then show ?case by (fastforce elim!: allows_mono)
qed simp

lemma vetted_append: "vetted seen es \<Longrightarrow> vetted [] es' \<Longrightarrow> vetted seen (es @ es')"
  by (induction seen es rule: vetted.induct) (auto elim: vetted_mono)

lemma vetted_concat: "\<forall>es\<in>set parts. vetted [] es \<Longrightarrow> vetted [] (concat parts)"
  by (induction parts) (auto intro: vetted_append)

lemmas vet_simps = access_table_def open_handlers_def signed_in_handlers_def segs_def admin_guards_def has_prefix_def

lemma vetted_password_reset: "vetted [] mount_password_reset"
  by (simp add: mount_password_reset_def vet_simps)

lemma vetted_auth: "vetted [] mount_auth"
  by (simp add: mount_auth_def vet_simps)

lemma vetted_users: "vetted [] mount_users"
  by (simp add: mount_users_def vet_simps)

lemma vetted_identities: "vetted [] mount_identities"
  by (simp add: mount_identities_def vet_simps)

lemma vetted_courses: "vetted [] mount_courses"
  by (simp add: mount_courses_def vet_simps)

lemma vetted_chapters: "vetted [] mount_chapters"
  by (simp add: mount_chapters_def vet_simps)

lemma vetted_lessons: "vetted [] mount_lessons"
  by (simp add: mount_lessons_def vet_simps)

lemma vetted_resources: "vetted [] mount_resources"
  by (simp add: mount_resources_def vet_simps)

lemma vetted_enrollments: "vetted [] mount_enrollments"
  by (simp add: mount_enrollments_def vet_simps)

lemma vetted_orders: "vetted [] mount_orders"
  by (simp add: mount_orders_def vet_simps)

lemma vetted_degrees: "vetted [] mount_degrees"
  by (simp add: mount_degrees_def vet_simps)

lemma vetted_badges: "vetted [] mount_badges"
  by (simp add: mount_badges_def vet_simps)

lemma vetted_certificates: "vetted [] mount_certificates"
  by (simp add: mount_certificates_def vet_simps)

lemma vetted_practices: "vetted [] mount_practices"
  by (simp add: mount_practices_def vet_simps)

lemma vetted_progress: "vetted [] mount_progress"
  by (simp add: mount_progress_def vet_simps)

lemma vetted_learningevents: "vetted [] mount_learningevents"
  by (simp add: mount_learningevents_def vet_simps)

lemma vetted_notes: "vetted [] mount_notes"
  by (simp add: mount_notes_def vet_simps)

lemma vetted_reviews: "vetted [] mount_reviews"
  by (simp add: mount_reviews_def vet_simps)

lemma vetted_notifications: "vetted [] mount_notifications"
  by (simp add: mount_notifications_def vet_simps)

lemma vetted_points: "vetted [] mount_points"
  by (simp add: mount_points_def vet_simps)

lemma vetted_local_uploads: "vetted [] mount_local_uploads"
  by (simp add: mount_local_uploads_def vet_simps)

lemma vetted_uploads: "vetted [] mount_uploads"
  by (simp add: mount_uploads_def vet_simps)

lemma vetted_chat: "vetted [] mount_chat"
  by (simp add: mount_chat_def vet_simps)

lemma vetted_ai: "vetted [] mount_ai"
  by (simp add: mount_ai_def vet_simps)

lemma vetted_instructors: "vetted [] mount_instructors"
  by (simp add: mount_instructors_def vet_simps)

lemma vetted_site: "vetted [] mount_site"
  by (simp add: mount_site_def vet_simps)

lemma vetted_enterprise: "vetted [] mount_enterprise"
  by (simp add: mount_enterprise_def vet_simps)

lemma vetted_urlimport: "vetted [] mount_urlimport"
  by (simp add: mount_urlimport_def vet_simps)

lemma vetted_hackathons: "vetted [] mount_hackathons"
  by (simp add: mount_hackathons_def vet_simps)

lemma vetted_admin: "vetted [] mount_admin"
  by (simp add: mount_admin_def vet_simps)

lemma vetted_audit: "vetted [] mount_audit"
  by (simp add: mount_audit_def vet_simps)

lemma vetted_public_cms: "vetted [] mount_public_cms"
  by (simp add: mount_public_cms_def vet_simps)

lemma vetted_admin_cms: "vetted [] mount_admin_cms"
  by (simp add: mount_admin_cms_def vet_simps)

lemma api_parts_vetted: "\<forall>es\<in>set api_parts. vetted [] es"
    by (simp add: api_parts_def vetted_password_reset vetted_auth vetted_users vetted_identities
    vetted_courses vetted_chapters vetted_lessons vetted_resources vetted_enrollments vetted_orders
    vetted_degrees vetted_badges vetted_certificates vetted_practices vetted_progress vetted_learningevents
    vetted_notes vetted_reviews vetted_notifications vetted_points vetted_local_uploads vetted_uploads
    vetted_chat vetted_ai vetted_instructors vetted_site vetted_enterprise vetted_urlimport vetted_hackathons
    vetted_admin vetted_audit vetted_public_cms vetted_admin_cms del: vetted.simps)

lemma api_routes_vetted: "vetted [] api_routes"
  unfolding api_routes_def by (rule vetted_concat) (rule api_parts_vetted)

section \<open>Soundness of the check\<close>

text \<open>A guard that has run: the claims in the locals are the bearer's, and of a role it allows.\<close>

fun granted :: "go_error + Claims \<Rightarrow> Claims option \<Rightarrow> guard \<Rightarrow> bool" where
  "granted bearer l Auth = (\<exists>k. bearer = Inr k \<and> l = Some k)"
| "granted bearer l Optional = True"
| "granted bearer l (Role rs) = (\<exists>k. bearer = Inr k \<and> l = Some k \<and> clm_Role k \<in> set rs)"

definition own_claims :: "go_error + Claims \<Rightarrow> Claims option \<Rightarrow> bool" where
  "own_claims bearer l \<longleftrightarrow> (\<forall>k. l = Some k \<longrightarrow> bearer = Inr k)"

lemma run_guards_sound:
  assumes "run_guards bearer l gs = Inr l'" "own_claims bearer l"
  shows "own_claims bearer l' \<and> (\<forall>g\<in>set gs. granted bearer l' g) \<and>
    (\<forall>g. granted bearer l g \<longrightarrow> granted bearer l' g)"
  using assms
proof (induction bearer l gs rule: run_guards.induct)
  case (2 bearer l gs)
  then obtain k where k: "bearer = Inr k" by (auto split: sum.splits)
  have "own_claims bearer (Some k)" by (simp add: own_claims_def k)
  note ih = 2(1) [OF k _ this]
  have "granted bearer l g \<Longrightarrow> granted bearer (Some k) g" for g by (cases g) (auto simp: k)
  moreover have "granted bearer (Some k) Auth" by (simp add: k)
  ultimately show ?case using ih 2(2) by (auto simp: k simp del: granted.simps)
next
  case (3 bearer l gs)
  show ?case
  proof (cases bearer)
    case (Inl e)
    then show ?thesis using 3(1) 3(3,4) by (auto simp: Inl)
  next
    case (Inr k)
    have "own_claims bearer (Some k)" by (simp add: own_claims_def Inr)
    note ih = 3(2) [OF Inr _ this]
    have "granted bearer l g \<Longrightarrow> granted bearer (Some k) g" for g by (cases g) (auto simp: Inr)
    then show ?thesis using ih 3(3) by (auto simp: Inr simp del: granted.simps(1,3))
  qed
next
  case (4 bearer l rs gs)
  then obtain k where k: "l = Some k" "clm_Role k \<in> set rs" by (auto split: option.splits if_splits)
  have b: "bearer = Inr k" using 4(3) k(1) by (simp add: own_claims_def)
  have "granted bearer l (Role rs)" by (simp add: k b)
  then show ?case using 4(1) [OF k] 4(2,3) by (auto simp: k simp del: granted.simps(1,3))
qed simp

lemma segs_prefix_of_match:
  "segs_match ps ss \<Longrightarrow> take (length q) ps = q \<Longrightarrow> ''*'' \<notin> set q \<Longrightarrow> segs_prefix q ss"
proof (induction ps ss arbitrary: q rule: segs_match.induct)
  case (1 ss)
  then show ?case by (cases q) auto
next
  case (2 p ps)
  then show ?case by (cases q) auto
next
  case (3 p ps s ss)
  then show ?case by (cases q) auto
qed

lemma dispatch_sound:
  assumes "fiber_router uses hits"
  shows "dispatch uses hits bearer meth path l es = Inr (h, l') \<Longrightarrow> vetted seen es \<Longrightarrow> own_claims bearer l \<Longrightarrow>
    \<forall>(p, gs)\<in>set seen. uses p path \<longrightarrow> (\<forall>g\<in>set gs. granted bearer l g) \<Longrightarrow>
    (\<exists>gs. allows (access_table h) gs \<and> (\<forall>g\<in>set gs. granted bearer l' g))"
proof (induction es arbitrary: l seen)
  case Nil
  then show ?case by simp
next
  case (Cons x es)
  show ?case
  proof (cases x)
    case (Group p gs)
    show ?thesis
    proof (cases "uses p path")
      case False
      then show ?thesis using Cons.IH [of l "(p, gs) # seen"] Cons.prems by (auto simp: Group)
    next
      case True
      then obtain l1 where l1: "run_guards bearer l gs = Inr l1"
        and d: "dispatch uses hits bearer meth path l1 es = Inr (h, l')"
        using Cons.prems(1) by (auto simp: Group split: sum.splits)
      note s = run_guards_sound [OF l1 Cons.prems(3)]
      show ?thesis
        by (rule Cons.IH [OF d, of "(p, gs) # seen"]) (use s Cons.prems(2,4) in \<open>fastforce simp: Group\<close>)+
    qed
  next
    case (Route m p gs h')
    show ?thesis
    proof (cases "m = meth \<and> hits p path")
      case False
      then show ?thesis using Cons.IH [of l seen] Cons.prems by (auto simp: Route)
    next
      case True
      then have r: "run_guards bearer l gs = Inr l'" and h: "h' = h"
        using Cons.prems(1) by (auto simp: Route split: sum.splits)
      note s = run_guards_sound [OF r Cons.prems(3)]
      let ?q = "\<lambda>(q, _). take (length (segs q)) (segs p) = segs q \<and> ''*'' \<notin> set (segs q)"
      have u: "uses q path" if "?q (q, gs')" for q gs'
      proof -
        have "segs_match (segs p) (segs path)" using assms True by (simp add: fiber_router_def)
        then have "segs_prefix (segs q) (segs path)"
          by (rule segs_prefix_of_match) (use that in simp_all)
        then show ?thesis using assms by (simp add: fiber_router_def)
      qed
      let ?gs = "concat (map snd (filter ?q seen)) @ gs"
      have "granted bearer l' g" if in_gs: "g \<in> set ?gs" for g
      proof (cases "g \<in> set gs")
        case True
        then show ?thesis using s by blast
      next
        case False
        then obtain q gs' where q: "(q, gs') \<in> set seen" "?q (q, gs')" "g \<in> set gs'" using in_gs by auto
        have "uses q path" by (rule u) (rule q(2))
        then have "granted bearer l g" using Cons.prems(4) q(1,3) by fastforce
        then show ?thesis using s by blast
      qed
      moreover have "allows (access_table h) ?gs" using Cons.prems(2) by (simp add: Route h)
      ultimately show ?thesis by blast
    qed
  qed
qed

lemma allows_granted:
  assumes "allows a gs" "\<forall>g\<in>set gs. granted bearer l g"
  shows "case a of Everybody \<Rightarrow> True
    | SignedIn \<Rightarrow> (\<exists>k. bearer = Inr k \<and> l = Some k)
    | OnlyRoles rs \<Rightarrow> (\<exists>k. bearer = Inr k \<and> l = Some k \<and> clm_Role k \<in> set rs)"
  using assms by (cases a) force+

text \<open>A request that a group of guards refuses, whatever the locals hold, before any route matches it.\<close>

definition refused_by :: "go_error + Claims \<Rightarrow> go_error \<Rightarrow> bool" where
  "refused_by bearer e \<longleftrightarrow>
     (case bearer of Inl e' \<Rightarrow> e' = e | Inr k \<Rightarrow> clm_Role k \<noteq> ''admin'' \<and> e = Forbidden ''insufficient role'')"

lemma refused_run: "refused_by bearer e \<Longrightarrow> run_guards bearer l admin_guards = Inl e"
  by (auto simp: refused_by_def admin_guards_def split: sum.splits)

fun passes :: "(string \<Rightarrow> string \<Rightarrow> bool) \<Rightarrow> string \<Rightarrow> entry \<Rightarrow> bool" where
  "passes hits path (Group p gs) = (gs = admin_guards)"
| "passes hits path (Route m p gs h) = (\<not> hits p path)"

lemma dispatch_refused:
  "refused_by bearer e \<Longrightarrow> list_all (passes hits path) pre \<Longrightarrow> uses p path \<Longrightarrow>
   dispatch uses hits bearer meth path l (pre @ Group p admin_guards # rest) = Inl e"
proof (induction pre arbitrary: l)
  case Nil
  then show ?case by (simp add: refused_run)
next
  case (Cons x pre)
  then show ?case by (cases x) (simp_all add: refused_run)
qed

text \<open>A path of four segments is not hit by the patterns mounted before the chapters, or the lessons.\<close>

lemma segs_sub:
  assumes "c \<noteq> []" "CHR ''/'' \<notin> set c" "p \<in> {''courses'', ''lessons''}" "q \<in> {''reviews'', ''notes''}"
  shows "segs (''/'' @ p @ ''/'' @ c @ ''/'' @ q) = [[], p, c, q]"
proof -
  have step: "split_on CHR ''/'' (a @ CHR ''/'' # b) = a # split_on CHR ''/'' b" if "CHR ''/'' \<notin> set a" for a b
    using that by (induction a) auto
  have "split_on CHR ''/'' (c @ ''/'' @ q) = [c, q]"
    using assms step [of c q] by auto
  then show ?thesis using assms by (auto simp: segs_def)
qed

section \<open>The claims\<close>

text \<open>A router for closed instances: it matches exactly what the laws speak of.\<close>

definition plain_hits :: "string \<Rightarrow> string \<Rightarrow> bool" where
  "plain_hits p path = segs_match (segs p) (segs path)"

definition plain_uses :: "string \<Rightarrow> string \<Rightarrow> bool" where
  "plain_uses p path = segs_prefix (segs p) (segs path)"

lemma plain_router: "fiber_router plain_uses plain_hits"
  by (simp add: fiber_router_def plain_hits_def plain_uses_def)

text \<open>C31: The guards in front of the handlers implement the access table: whatever request reaches a
  handler, a handler that is not for everybody was reached with a valid access token and sees its claims,
  and one for certain roles was reached with such a role.\<close>

theorem access_table_enforced:
  assumes "fiber_router uses hits"
    and "dispatch uses hits bearer meth path None api_routes = Inr (h, l)"
  shows "case access_table h of
      Everybody \<Rightarrow> True
    | SignedIn \<Rightarrow> (\<exists>k. bearer = Inr k \<and> l = Some k)
    | OnlyRoles rs \<Rightarrow> (\<exists>k. bearer = Inr k \<and> l = Some k \<and> clm_Role k \<in> set rs)"
proof -
  have "own_claims bearer None" by (simp add: own_claims_def)
  then obtain gs where "allows (access_table h) gs" "\<forall>g\<in>set gs. granted bearer l g"
    using dispatch_sound [OF assms api_routes_vetted] by auto
  then show ?thesis by (rule allows_granted)
qed

theorem access_table_enforced_witness:
  "(case access_table ''users.list'' of
      Everybody \<Rightarrow> True
    | SignedIn \<Rightarrow> (\<exists>k. Inr (demo_claims ''u1'' ''admin'') = (Inr k :: go_error + Claims) \<and>
        Some (demo_claims ''u1'' ''admin'') = Some k)
    | OnlyRoles rs \<Rightarrow> (\<exists>k. Inr (demo_claims ''u1'' ''admin'') = (Inr k :: go_error + Claims) \<and>
        Some (demo_claims ''u1'' ''admin'') = Some k \<and> clm_Role k \<in> set rs))"
  by (rule access_table_enforced [OF plain_router, where meth = "''GET''" and path = "''/users''"])
    (simp add: api_routes_def api_parts_def mount_password_reset_def mount_auth_def mount_users_def plain_hits_def
      plain_uses_def segs_def seg_ok_def has_prefix_def to_lower_def lower_char_def is_upper_def in_range_def
      byte_of_def admin_guards_def demo_claims_def)

text \<open>C32: Listing or writing the reviews of a course, and listing or writing notes on a lesson, is refused
  to everybody but administrators: the groups that the chapters and the resources mount on the same
  prefixes for administrators run first.\<close>

theorem reviews_behind_admin:
  assumes "fiber_router uses hits" "refused_by bearer e"
    and "c \<noteq> []" "CHR ''/'' \<notin> set c"
    and "path \<in> {''/courses/'' @ c @ ''/reviews'', ''/lessons/'' @ c @ ''/notes''}"
  shows "dispatch uses hits bearer meth path None api_routes = Inl e"
proof -
  have hit: "\<not> hits p path" if "\<not> segs_match (segs p) (segs path)" for p
    using assms(1) that by (auto simp: fiber_router_def)
  have use: "uses p path" if "segs_prefix (segs p) (segs path)" for p
    using assms(1) that by (auto simp: fiber_router_def)
  note facts = api_routes_def api_parts_def mount_password_reset_def mount_auth_def mount_users_def
    mount_identities_def mount_courses_def mount_chapters_def mount_lessons_def
  note pat = segs_def seg_ok_def has_prefix_def to_lower_def lower_char_def is_upper_def in_range_def byte_of_def
  consider (courses) "path = ''/'' @ ''courses'' @ ''/'' @ c @ ''/'' @ ''reviews''"
    | (lessons) "path = ''/'' @ ''lessons'' @ ''/'' @ c @ ''/'' @ ''notes''"
    using assms(5) by auto
  then show ?thesis
  proof cases
    case courses
    have s: "segs path = [[], ''courses'', c, ''reviews'']"
      using segs_sub [of c "''courses''" "''reviews''"] assms(3,4) by (simp add: courses)
    note hit = hit [unfolded s] and use = use [unfolded s]
    let ?pre = "concat [mount_password_reset, mount_auth, mount_users, mount_identities,
        mount_courses]"
    have "\<exists>rest. api_routes = ?pre @ Group ''/courses'' admin_guards # rest" by (simp add: facts)
    then obtain rest where rest: "api_routes = ?pre @ Group ''/courses'' admin_guards # rest" ..
    have "list_all (passes hits path) ?pre" unfolding facts by (simp add: hit pat)
    moreover have "uses ''/courses'' path" by (rule use) (simp add: pat)
    ultimately show ?thesis unfolding rest by (rule dispatch_refused [OF assms(2)])
  next
    case lessons
    have s: "segs path = [[], ''lessons'', c, ''notes'']"
      using segs_sub [of c "''lessons''" "''notes''"] assms(3,4) by (simp add: lessons)
    note hit = hit [unfolded s] and use = use [unfolded s]
    let ?pre = "concat [mount_password_reset, mount_auth, mount_users, mount_identities,
        mount_courses, mount_chapters] @ take 4 mount_lessons"
    have "\<exists>rest. api_routes = ?pre @ Group ''/lessons'' admin_guards # rest" by (simp add: facts)
    then obtain rest where rest: "api_routes = ?pre @ Group ''/lessons'' admin_guards # rest" ..
    have "list_all (passes hits path) ?pre" unfolding facts by (simp add: hit pat)
    moreover have "uses ''/lessons'' path" by (rule use) (simp add: pat)
    ultimately show ?thesis unfolding rest by (rule dispatch_refused [OF assms(2)])
  qed
qed

theorem reviews_behind_admin_witness:
  "dispatch plain_uses plain_hits (Inl (Unauthorized ''missing or invalid Authorization header'')) ''GET''
     ''/courses/c1/reviews'' None api_routes = Inl (Unauthorized ''missing or invalid Authorization header'')"
  by (rule reviews_behind_admin [OF plain_router, where c = "''c1''"]) (simp_all add: refused_by_def)

end
