(* ===== verification/HackathonStore.thy ===== *)
theory HackathonStore
  imports Http AuthStore Tables Messages ServerAudit
begin

text \<open>
  The data layer of \<open>internal/hackathons\<close>: the statements of \<open>internal/repo/db/hackathons.sql.go\<close> on the
  eight tables of the module, and the repo methods of \<open>hackathons.go\<close>, \<open>teams.go\<close>, \<open>submissions.go\<close>,
  \<open>judges.go\<close> and \<open>sponsors.go\<close>.  Deleting a team removes its members and, by the foreign key, sets the
  team of its submissions to NULL.
\<close>

abbreviation hackathons_ErrNotFound :: go_error where
  "hackathons_ErrNotFound \<equiv> Sentinel ''hackathons: not found''"

definition validStatuses :: "string list" where
  "validStatuses = [''upcoming'', ''active'', ''judging'', ''finished'', ''cancelled'']"

definition validSubmissionStatuses :: "string list" where
  "validSubmissionStatuses = [''draft'', ''submitted'', ''under_review'', ''shortlisted'', ''winner'', ''rejected'']"

definition hackathon_exists :: "database \<Rightarrow> string \<Rightarrow> bool" where
  "hackathon_exists d h \<longleftrightarrow> list_ex (\<lambda>r. hck_ID r = h) (t_hackathons d)"

definition team_exists :: "database \<Rightarrow> string \<Rightarrow> bool" where
  "team_exists d t \<longleftrightarrow> list_ex (\<lambda>r. team_ID r = t) (t_teams d)"

section \<open>Hackathons\<close>

definition hck_fits :: "Hackathon \<Rightarrow> bool" where
  "hck_fits h \<longleftrightarrow> fits_191 (Some (hck_Title h)) \<and> fits_191 (hck_BannerUrl h) \<and> fits_191 (hck_Location h) \<and>
     fits_191 (hck_RegistrationUrl h) \<and> fits_191 (hck_RegistrationLabel h)"

definition insert_hackathon :: "Hackathon \<Rightarrow> unit stmt" where
  "insert_hackathon h = (\<lambda>d.
     if hck_Status h \<notin> set validStatuses then Inl ErrTruncated
     else if \<not> hck_fits h then Inl ErrTooLong
     else if list_ex (\<lambda>r. hck_ID r = hck_ID h) (t_hackathons d) then Inl ErrDuplicate
     else if \<not> (\<forall>u \<in> set_option (hck_OrganizerID h). user_exists d u) then Inl ErrForeignKey
     else Inr ((), d\<lparr>t_hackathons := t_hackathons d @ [h]\<rparr>))"

definition sql_update_hackathon :: "(Hackathon \<Rightarrow> Hackathon) \<Rightarrow> string \<Rightarrow> nat stmt" where
  "sql_update_hackathon f i = (\<lambda>d.
     case first_row (\<lambda>r. hck_ID r = i) (t_hackathons d) of
       None \<Rightarrow> Inr (0, d)
     | Some r \<Rightarrow>
         if hck_Status (f r) \<notin> set validStatuses then Inl ErrTruncated
         else if \<not> hck_fits (f r) then Inl ErrTooLong
         else if \<not> (\<forall>u \<in> set_option (hck_OrganizerID (f r)). user_exists d u) then Inl ErrForeignKey
         else Inr (changed (\<lambda>r. hck_ID r = i) f (t_hackathons d),
                d\<lparr>t_hackathons := upd (\<lambda>r. hck_ID r = i) f (t_hackathons d)\<rparr>))"

definition cancelled_hackathon :: "int \<Rightarrow> Hackathon \<Rightarrow> Hackathon" where
  "cancelled_hackathon now r = r\<lparr>hck_Status := ''cancelled'', hck_UpdatedAt := now\<rparr>"

definition q_CreateHackathon :: "Hackathon \<Rightarrow> unit io" where
  "q_CreateHackathon h = exec (insert_hackathon h)"

definition q_UpdateHackathon :: "(Hackathon \<Rightarrow> Hackathon) \<Rightarrow> string \<Rightarrow> nat io" where
  "q_UpdateHackathon f i = exec (sql_update_hackathon f i)"

definition q_SoftDeleteHackathon :: "int \<Rightarrow> string \<Rightarrow> nat io" where
  "q_SoftDeleteHackathon now i = exec (sql_update_hackathon (cancelled_hackathon now) i)"

definition q_GetHackathonByID :: "string \<Rightarrow> Hackathon io" where
  "q_GetHackathonByID i = query_one (\<lambda>d. first_row (\<lambda>r. hck_ID r = i) (t_hackathons d))"

text \<open>The joined rows of the list and the detail: the organizer, three counts and the caller's registration,
  a cancelled one included.\<close>

record HackathonResponse =
  hrr_Hackathon :: Hackathon
  hrr_Organizer :: "User option"
  hrr_RegistrationCount :: int
  hrr_TeamCount :: int
  hrr_SubmissionCount :: int
  hrr_My :: "HackathonRegistration option"

definition active_registration :: "string \<Rightarrow> HackathonRegistration \<Rightarrow> bool" where
  "active_registration h r \<longleftrightarrow> hrg_HackathonID r = h \<and> hrg_Status r = ''registered'' \<and> hrg_DeletedAt r = None"

definition hackathon_response :: "string \<Rightarrow> database \<Rightarrow> Hackathon \<Rightarrow> HackathonResponse" where
  "hackathon_response u d h =
     \<lparr> hrr_Hackathon = h,
       hrr_Organizer = (case hck_OrganizerID h of None \<Rightarrow> None
         | Some org \<Rightarrow> first_row (\<lambda>r. usr_ID r = org) (t_users d)),
       hrr_RegistrationCount = count_rows (active_registration (hck_ID h)) (t_hackathon_registrations d),
       hrr_TeamCount = count_rows (\<lambda>r. team_HackathonID r = hck_ID h) (t_teams d),
       hrr_SubmissionCount = count_rows (\<lambda>r. sub_HackathonID r = hck_ID h \<and> sub_DeletedAt r = None) (t_submissions d),
       hrr_My = first_row (\<lambda>r. hrg_HackathonID r = hck_ID h \<and> hrg_UserID r = u) (t_hackathon_registrations d) \<rparr>"

definition hackathon_matches :: "string \<Rightarrow> Hackathon \<Rightarrow> bool" where
  "hackathon_matches search h \<longleftrightarrow> search = [] \<or> sql_like (containing search) (hck_Title h) \<or>
     sql_like (containing search) (hck_Description h) \<or>
     (\<exists>l \<in> set_option (hck_Location h). sql_like (containing search) l)"

definition q_ListHackathonResponseRows :: "string \<Rightarrow> string \<Rightarrow> nat \<Rightarrow> HackathonResponse list io" where
  "q_ListHackathonResponseRows u search limit = query (\<lambda>d. map (hackathon_response u d) (take limit
     (sort_desc hck_StartDate (filter (hackathon_matches search) (t_hackathons d)))))"

definition q_GetHackathonResponseRow :: "string \<Rightarrow> string \<Rightarrow> HackathonResponse io" where
  "q_GetHackathonResponseRow u i = query_one (\<lambda>d.
     map_option (hackathon_response u d) (first_row (\<lambda>r. hck_ID r = i) (t_hackathons d)))"

section \<open>Registrations\<close>

text \<open>The upsert: a row with the new id or of the same hackathon and user is made active again.\<close>

definition reactivated :: "HackathonRegistration \<Rightarrow> HackathonRegistration" where
  "reactivated r = r\<lparr>hrg_Status := ''registered'', hrg_DeletedAt := None\<rparr>"

definition new_registration :: "string \<Rightarrow> string \<Rightarrow> string \<Rightarrow> int \<Rightarrow> HackathonRegistration" where
  "new_registration i h u now =
     \<lparr> hrg_ID = i, hrg_HackathonID = h, hrg_UserID = u, hrg_Status = ''registered'', hrg_RegisteredAt = now,
       hrg_CheckedInAt = None, hrg_DeletedAt = None \<rparr>"

definition sql_upsert_registration :: "string \<Rightarrow> string \<Rightarrow> string \<Rightarrow> int \<Rightarrow> unit stmt" where
  "sql_upsert_registration i h u now = (\<lambda>d.
     if list_ex (\<lambda>r. hrg_ID r = i) (t_hackathon_registrations d)
     then Inr ((), d\<lparr>t_hackathon_registrations := upd (\<lambda>r. hrg_ID r = i) reactivated (t_hackathon_registrations d)\<rparr>)
     else if list_ex (\<lambda>r. hrg_HackathonID r = h \<and> hrg_UserID r = u) (t_hackathon_registrations d)
     then Inr ((), d\<lparr>t_hackathon_registrations :=
            upd (\<lambda>r. hrg_HackathonID r = h \<and> hrg_UserID r = u) reactivated (t_hackathon_registrations d)\<rparr>)
     else if \<not> (hackathon_exists d h \<and> user_exists d u) then Inl ErrForeignKey
     else Inr ((), d\<lparr>t_hackathon_registrations := t_hackathon_registrations d @ [new_registration i h u now]\<rparr>))"

definition withdrawn :: "int option \<Rightarrow> HackathonRegistration \<Rightarrow> HackathonRegistration" where
  "withdrawn t r = r\<lparr>hrg_Status := ''cancelled'', hrg_DeletedAt := t\<rparr>"

definition sql_cancel_registration :: "int option \<Rightarrow> string \<Rightarrow> string \<Rightarrow> nat stmt" where
  "sql_cancel_registration t h u = (\<lambda>d.
     let P = (\<lambda>r. hrg_HackathonID r = h \<and> hrg_UserID r = u \<and> hrg_DeletedAt r = None)
     in Inr (changed P (withdrawn t) (t_hackathon_registrations d),
          d\<lparr>t_hackathon_registrations := upd P (withdrawn t) (t_hackathon_registrations d)\<rparr>))"

definition q_UpsertRegistration :: "string \<Rightarrow> string \<Rightarrow> string \<Rightarrow> int \<Rightarrow> unit io" where
  "q_UpsertRegistration i h u now = exec (sql_upsert_registration i h u now)"

definition q_CancelRegistration :: "int option \<Rightarrow> string \<Rightarrow> string \<Rightarrow> nat io" where
  "q_CancelRegistration t h u = exec (sql_cancel_registration t h u)"

definition q_GetRegistration :: "string \<Rightarrow> string \<Rightarrow> HackathonRegistration io" where
  "q_GetRegistration h u = query_one (\<lambda>d. first_row
     (\<lambda>r. hrg_HackathonID r = h \<and> hrg_UserID r = u \<and> hrg_DeletedAt r = None) (t_hackathon_registrations d))"

definition q_GetRegistrationIncludingCancelled :: "string \<Rightarrow> string \<Rightarrow> HackathonRegistration io" where
  "q_GetRegistrationIncludingCancelled h u = query_one (\<lambda>d. first_row
     (\<lambda>r. hrg_HackathonID r = h \<and> hrg_UserID r = u) (t_hackathon_registrations d))"

definition q_CountRegistrationsByHackathon :: "string \<Rightarrow> int io" where
  "q_CountRegistrationsByHackathon h = query (\<lambda>d. count_rows (active_registration h) (t_hackathon_registrations d))"

section \<open>Announcements\<close>

definition insert_announcement :: "Announcement \<Rightarrow> unit stmt" where
  "insert_announcement a = (\<lambda>d.
     if \<not> fits_191 (Some (ann_Title a)) then Inl ErrTooLong
     else if list_ex (\<lambda>r. ann_ID r = ann_ID a) (t_announcements d) then Inl ErrDuplicate
     else if \<not> hackathon_exists d (ann_HackathonID a) then Inl ErrForeignKey
     else Inr ((), d\<lparr>t_announcements := t_announcements d @ [a]\<rparr>))"

definition q_CreateAnnouncement :: "Announcement \<Rightarrow> unit io" where
  "q_CreateAnnouncement a = exec (insert_announcement a)"

definition announcement_order :: "Announcement \<Rightarrow> Announcement \<Rightarrow> bool" where
  "announcement_order r s \<longleftrightarrow> (ann_IsPinned r \<and> \<not> ann_IsPinned s) \<or>
     (ann_IsPinned r = ann_IsPinned s \<and> ann_CreatedAt s \<le> ann_CreatedAt r)"

definition q_ListAnnouncements :: "string \<Rightarrow> nat \<Rightarrow> Announcement list io" where
  "q_ListAnnouncements h limit = query (\<lambda>d. take limit (sort_by announcement_order
     (filter (\<lambda>r. ann_HackathonID r = h) (t_announcements d))))"

section \<open>Teams\<close>

definition insert_team :: "Team \<Rightarrow> unit stmt" where
  "insert_team t = (\<lambda>d.
     if \<not> (fits_191 (Some (team_Name t)) \<and> fits_191 (team_Slogan t)) then Inl ErrTooLong
     else if list_ex (\<lambda>r. team_ID r = team_ID t) (t_teams d) then Inl ErrDuplicate
     else if \<not> hackathon_exists d (team_HackathonID t) then Inl ErrForeignKey
     else Inr ((), d\<lparr>t_teams := t_teams d @ [t]\<rparr>))"

definition tmm_conflict :: "TeamMember \<Rightarrow> TeamMember \<Rightarrow> bool" where
  "tmm_conflict r s \<longleftrightarrow> tmm_ID r = tmm_ID s \<or> (tmm_TeamID r = tmm_TeamID s \<and> tmm_UserID r = tmm_UserID s)"

definition insert_team_member :: "TeamMember \<Rightarrow> unit stmt" where
  "insert_team_member m = (\<lambda>d.
     if tmm_Role m \<notin> set [''captain'', ''member''] then Inl ErrTruncated
     else if list_ex (tmm_conflict m) (t_team_members d) then Inl ErrDuplicate
     else if \<not> (team_exists d (tmm_TeamID m) \<and> user_exists d (tmm_UserID m)) then Inl ErrForeignKey
     else Inr ((), d\<lparr>t_team_members := t_team_members d @ [m]\<rparr>))"

definition unlinked :: "string \<Rightarrow> Submission list \<Rightarrow> Submission list" where
  "unlinked t = upd (\<lambda>r. sub_TeamID r = Some t) (\<lambda>r. r\<lparr>sub_TeamID := None\<rparr>)"

definition sql_delete_team :: "string \<Rightarrow> nat stmt" where
  "sql_delete_team t = (\<lambda>d. Inr (length (filter (\<lambda>r. team_ID r = t) (t_teams d)),
     if team_exists d t
     then d\<lparr>t_teams := deleted (\<lambda>r. team_ID r = t) (t_teams d),
            t_team_members := deleted (\<lambda>r. tmm_TeamID r = t) (t_team_members d),
            t_submissions := unlinked t (t_submissions d)\<rparr>
     else d))"

definition sql_delete_team_member :: "string \<Rightarrow> nat stmt" where
  "sql_delete_team_member i = (\<lambda>d. Inr (length (filter (\<lambda>r. tmm_ID r = i) (t_team_members d)),
     d\<lparr>t_team_members := deleted (\<lambda>r. tmm_ID r = i) (t_team_members d)\<rparr>))"

definition q_CreateTeam :: "Team \<Rightarrow> unit io" where
  "q_CreateTeam t = exec (insert_team t)"

definition q_CreateTeamMember :: "TeamMember \<Rightarrow> unit io" where
  "q_CreateTeamMember m = exec (insert_team_member m)"

definition q_DeleteTeam :: "string \<Rightarrow> nat io" where
  "q_DeleteTeam t = exec (sql_delete_team t)"

definition q_DeleteTeamMember :: "string \<Rightarrow> nat io" where
  "q_DeleteTeamMember i = exec (sql_delete_team_member i)"

definition q_GetTeamByID :: "string \<Rightarrow> Team io" where
  "q_GetTeamByID t = query_one (\<lambda>d. first_row (\<lambda>r. team_ID r = t) (t_teams d))"

definition q_ListTeamsByHackathon :: "string \<Rightarrow> nat \<Rightarrow> Team list io" where
  "q_ListTeamsByHackathon h limit = query (\<lambda>d. take limit (sort_desc team_CreatedAt
     (filter (\<lambda>r. team_HackathonID r = h) (t_teams d))))"

definition q_FindTeamByHackathonAndName :: "string \<Rightarrow> string \<Rightarrow> string io" where
  "q_FindTeamByHackathonAndName h name = query_one (\<lambda>d.
     map_option team_ID (first_row (\<lambda>r. team_HackathonID r = h \<and> team_Name r = name) (t_teams d)))"

definition q_CountTeamMembers :: "string \<Rightarrow> int io" where
  "q_CountTeamMembers t = query (\<lambda>d. count_rows (\<lambda>r. tmm_TeamID r = t) (t_team_members d))"

definition team_of_hackathon :: "string \<Rightarrow> database \<Rightarrow> string \<Rightarrow> bool" where
  "team_of_hackathon h d t \<longleftrightarrow> list_ex (\<lambda>r. team_ID r = t \<and> team_HackathonID r = h) (t_teams d)"

definition q_FindTeamMembershipForUserInHackathon :: "string \<Rightarrow> string \<Rightarrow> TeamMember io" where
  "q_FindTeamMembershipForUserInHackathon u h = query_one (\<lambda>d.
     first_row (\<lambda>r. tmm_UserID r = u \<and> team_of_hackathon h d (tmm_TeamID r)) (t_team_members d))"

definition q_GetTeamMemberForUserAndTeam :: "string \<Rightarrow> string \<Rightarrow> TeamMember io" where
  "q_GetTeamMemberForUserAndTeam t u = query_one (\<lambda>d.
     first_row (\<lambda>r. tmm_TeamID r = t \<and> tmm_UserID r = u) (t_team_members d))"

text \<open>The roster: members with their users, the captain first, then by id.\<close>

definition member_order :: "TeamMember \<times> User \<Rightarrow> TeamMember \<times> User \<Rightarrow> bool" where
  "member_order r s \<longleftrightarrow>
     (let a = tmm_Role (fst r) = ''captain''; b = tmm_Role (fst s) = ''captain''
      in (a \<and> \<not> b) \<or> (a = b \<and> str_le (tmm_ID (fst r)) (tmm_ID (fst s))))"

definition q_ListTeamMembersByTeam :: "string \<Rightarrow> (TeamMember \<times> User) list io" where
  "q_ListTeamMembersByTeam t = query (\<lambda>d. sort_by member_order
     (concat (map (\<lambda>m. map (Pair m) (filter (\<lambda>u. usr_ID u = tmm_UserID m) (t_users d)))
       (filter (\<lambda>r. tmm_TeamID r = t) (t_team_members d)))))"

section \<open>Submissions\<close>

definition sub_fits :: "Submission \<Rightarrow> bool" where
  "sub_fits s \<longleftrightarrow> fits_191 (Some (sub_Title s)) \<and> fits_191 (sub_DemoUrl s) \<and> fits_191 (sub_RepoUrl s) \<and>
     fits_191 (sub_VideoUrl s)"

definition insert_submission :: "Submission \<Rightarrow> unit stmt" where
  "insert_submission s = (\<lambda>d.
     if sub_Status s \<notin> set validSubmissionStatuses then Inl ErrTruncated
     else if \<not> sub_fits s then Inl ErrTooLong
     else if list_ex (\<lambda>r. sub_ID r = sub_ID s) (t_submissions d) then Inl ErrDuplicate
     else if \<not> (hackathon_exists d (sub_HackathonID s) \<and> (\<forall>t \<in> set_option (sub_TeamID s). team_exists d t) \<and>
                (\<forall>u \<in> set_option (sub_UserID s). user_exists d u)) then Inl ErrForeignKey
     else Inr ((), d\<lparr>t_submissions := t_submissions d @ [s]\<rparr>))"

definition live_submission :: "string \<Rightarrow> Submission \<Rightarrow> bool" where
  "live_submission i r \<longleftrightarrow> sub_ID r = i \<and> sub_DeletedAt r = None"

definition sql_update_submission :: "(Submission \<Rightarrow> Submission) \<Rightarrow> string \<Rightarrow> unit stmt" where
  "sql_update_submission f i = (\<lambda>d.
     case first_row (live_submission i) (t_submissions d) of
       None \<Rightarrow> Inr ((), d)
     | Some r \<Rightarrow>
         if sub_Status (f r) \<notin> set validSubmissionStatuses then Inl ErrTruncated
         else if \<not> sub_fits (f r) then Inl ErrTooLong
         else Inr ((), d\<lparr>t_submissions := upd (live_submission i) f (t_submissions d)\<rparr>))"

definition q_CreateSubmission :: "Submission \<Rightarrow> unit io" where
  "q_CreateSubmission s = exec (insert_submission s)"

definition q_UpdateSubmission :: "(Submission \<Rightarrow> Submission) \<Rightarrow> string \<Rightarrow> unit io" where
  "q_UpdateSubmission f i = exec (sql_update_submission f i)"

definition q_GetSubmissionByID :: "string \<Rightarrow> Submission io" where
  "q_GetSubmissionByID i = query_one (\<lambda>d. first_row (live_submission i) (t_submissions d))"

text \<open>An \<open>ENUM\<close> column is ordered by the position of its value.\<close>

definition submission_order :: "Submission \<Rightarrow> Submission \<Rightarrow> bool" where
  "submission_order r s \<longleftrightarrow>
     (let a = place_of (sub_Status r) validSubmissionStatuses; b = place_of (sub_Status s) validSubmissionStatuses
      in a < b \<or> (a = b \<and> sub_CreatedAt s \<le> sub_CreatedAt r))"

definition q_ListSubmissionsByHackathon :: "string \<Rightarrow> nat \<Rightarrow> Submission list io" where
  "q_ListSubmissionsByHackathon h limit = query (\<lambda>d. take limit (sort_by submission_order
     (filter (\<lambda>r. sub_HackathonID r = h \<and> sub_DeletedAt r = None) (t_submissions d))))"

definition own_submission :: "string \<Rightarrow> database \<Rightarrow> Submission \<Rightarrow> bool" where
  "own_submission u d s \<longleftrightarrow> sub_UserID s = Some u \<or>
     list_ex (\<lambda>m. Some (tmm_TeamID m) = sub_TeamID s \<and> tmm_UserID m = u) (t_team_members d)"

definition q_ListMySubmissions :: "string \<Rightarrow> string \<Rightarrow> nat \<Rightarrow> Submission list io" where
  "q_ListMySubmissions u h limit = query (\<lambda>d. take limit (sort_desc sub_CreatedAt
     (filter (\<lambda>r. sub_HackathonID r = h \<and> sub_DeletedAt r = None \<and> own_submission u d r) (t_submissions d))))"

section \<open>Judges and sponsors\<close>

definition jdg_fits :: "Judge \<Rightarrow> bool" where
  "jdg_fits j \<longleftrightarrow> fits_191 (Some (jdg_Name j)) \<and> fits_191 (jdg_Title j) \<and> fits_191 (jdg_AvatarUrl j)"

definition insert_judge :: "Judge \<Rightarrow> unit stmt" where
  "insert_judge j = (\<lambda>d.
     if \<not> jdg_fits j then Inl ErrTooLong
     else if list_ex (\<lambda>r. jdg_ID r = jdg_ID j) (t_judges d) then Inl ErrDuplicate
     else if \<not> hackathon_exists d (jdg_HackathonID j) then Inl ErrForeignKey
     else Inr ((), d\<lparr>t_judges := t_judges d @ [j]\<rparr>))"

definition sql_update_judge :: "(Judge \<Rightarrow> Judge) \<Rightarrow> string \<Rightarrow> unit stmt" where
  "sql_update_judge f i = (\<lambda>d.
     if list_ex (\<lambda>r. jdg_ID r = i \<and> \<not> jdg_fits (f r)) (t_judges d) then Inl ErrTooLong
     else Inr ((), d\<lparr>t_judges := upd (\<lambda>r. jdg_ID r = i) f (t_judges d)\<rparr>))"

definition sql_delete_judge :: "string \<Rightarrow> nat stmt" where
  "sql_delete_judge i = (\<lambda>d. Inr (length (filter (\<lambda>r. jdg_ID r = i) (t_judges d)),
     d\<lparr>t_judges := deleted (\<lambda>r. jdg_ID r = i) (t_judges d)\<rparr>))"

definition q_CreateJudge :: "Judge \<Rightarrow> unit io" where
  "q_CreateJudge j = exec (insert_judge j)"

definition q_UpdateJudge :: "(Judge \<Rightarrow> Judge) \<Rightarrow> string \<Rightarrow> unit io" where
  "q_UpdateJudge f i = exec (sql_update_judge f i)"

definition q_DeleteJudge :: "string \<Rightarrow> nat io" where
  "q_DeleteJudge i = exec (sql_delete_judge i)"

definition q_GetJudgeByID :: "string \<Rightarrow> Judge io" where
  "q_GetJudgeByID i = query_one (\<lambda>d. first_row (\<lambda>r. jdg_ID r = i) (t_judges d))"

definition judge_order :: "Judge \<Rightarrow> Judge \<Rightarrow> bool" where
  "judge_order r s \<longleftrightarrow> jdg_OrderIndex r < jdg_OrderIndex s \<or>
     (jdg_OrderIndex r = jdg_OrderIndex s \<and> str_le (jdg_Name r) (jdg_Name s))"

definition q_ListJudgesByHackathon :: "string \<Rightarrow> nat \<Rightarrow> Judge list io" where
  "q_ListJudgesByHackathon h limit = query (\<lambda>d. take limit (sort_by judge_order
     (filter (\<lambda>r. jdg_HackathonID r = h) (t_judges d))))"

definition spn_fits :: "Sponsor \<Rightarrow> bool" where
  "spn_fits s \<longleftrightarrow> fits_191 (Some (spn_Name s)) \<and> fits_191 (spn_LogoUrl s) \<and> fits_191 (spn_WebsiteUrl s)"

definition insert_sponsor :: "Sponsor \<Rightarrow> unit stmt" where
  "insert_sponsor s = (\<lambda>d.
     if \<not> spn_fits s then Inl ErrTooLong
     else if list_ex (\<lambda>r. spn_ID r = spn_ID s) (t_sponsors d) then Inl ErrDuplicate
     else if \<not> hackathon_exists d (spn_HackathonID s) then Inl ErrForeignKey
     else Inr ((), d\<lparr>t_sponsors := t_sponsors d @ [s]\<rparr>))"

definition sql_update_sponsor :: "(Sponsor \<Rightarrow> Sponsor) \<Rightarrow> string \<Rightarrow> unit stmt" where
  "sql_update_sponsor f i = (\<lambda>d.
     if list_ex (\<lambda>r. spn_ID r = i \<and> \<not> spn_fits (f r)) (t_sponsors d) then Inl ErrTooLong
     else Inr ((), d\<lparr>t_sponsors := upd (\<lambda>r. spn_ID r = i) f (t_sponsors d)\<rparr>))"

definition sql_delete_sponsor :: "string \<Rightarrow> nat stmt" where
  "sql_delete_sponsor i = (\<lambda>d. Inr (length (filter (\<lambda>r. spn_ID r = i) (t_sponsors d)),
     d\<lparr>t_sponsors := deleted (\<lambda>r. spn_ID r = i) (t_sponsors d)\<rparr>))"

definition q_CreateSponsor :: "Sponsor \<Rightarrow> unit io" where
  "q_CreateSponsor s = exec (insert_sponsor s)"

definition q_UpdateSponsor :: "(Sponsor \<Rightarrow> Sponsor) \<Rightarrow> string \<Rightarrow> unit io" where
  "q_UpdateSponsor f i = exec (sql_update_sponsor f i)"

definition q_DeleteSponsor :: "string \<Rightarrow> nat io" where
  "q_DeleteSponsor i = exec (sql_delete_sponsor i)"

definition q_GetSponsorByID :: "string \<Rightarrow> Sponsor io" where
  "q_GetSponsorByID i = query_one (\<lambda>d. first_row (\<lambda>r. spn_ID r = i) (t_sponsors d))"

definition sponsor_order :: "Sponsor \<Rightarrow> Sponsor \<Rightarrow> bool" where
  "sponsor_order r s \<longleftrightarrow> (spn_Tier r \<noteq> spn_Tier s \<and> str_le (spn_Tier r) (spn_Tier s)) \<or>
     (spn_Tier r = spn_Tier s \<and> (spn_OrderIndex r < spn_OrderIndex s \<or>
        (spn_OrderIndex r = spn_OrderIndex s \<and> str_le (spn_Name r) (spn_Name s))))"

definition q_ListSponsorsByHackathon :: "string \<Rightarrow> nat \<Rightarrow> Sponsor list io" where
  "q_ListSponsorsByHackathon h limit = query (\<lambda>d. take limit (sort_by sponsor_order
     (filter (\<lambda>r. spn_HackathonID r = h) (t_sponsors d))))"

end
