(* ===== verification/HackathonRepo.thy ===== *)
theory HackathonRepo
  imports HackathonStore
begin

text \<open>
  The repo methods of \<open>internal/hackathons\<close> and the shapes they and the services answer with.
\<close>

section \<open>Hackathons and registrations\<close>

definition hack_missing :: "string \<Rightarrow> go_error \<Rightarrow> 'a io" where
  "hack_missing what e = (if errors_is e ErrNoRows then fail hackathons_ErrNotFound
     else fail (Wrap (''hackathons.repo: '' @ what) e))"

definition hackathons_repo_List :: "string \<Rightarrow> string \<Rightarrow> nat \<Rightarrow> HackathonResponse list io" where
  "hackathons_repo_List u search limit =
     call (q_ListHackathonResponseRows u search limit) (\<lambda>e. fail (Wrap ''hackathons.repo: list'' e)) ret"

definition GetResponseByID :: "string \<Rightarrow> string \<Rightarrow> HackathonResponse io" where
  "GetResponseByID i u = call (q_GetHackathonResponseRow u i) (hack_missing ''get response'') ret"

definition hackathons_repo_GetByID :: "string \<Rightarrow> Hackathon io" where
  "hackathons_repo_GetByID i = call (q_GetHackathonByID i) (hack_missing ''get'') ret"

definition CountRegistrations :: "string \<Rightarrow> int io" where
  "CountRegistrations h = q_CountRegistrationsByHackathon h"

record CreateHackathonInput =
  chi_Title :: string
  chi_Description :: string
  chi_BannerURL :: "string option"
  chi_Status :: string
  chi_StartDate :: int
  chi_EndDate :: int
  chi_RegisterDeadline :: "int option"
  chi_SubmissionDeadline :: "int option"
  chi_MaxTeamSize :: int
  chi_MinTeamSize :: int
  chi_Location :: "string option"
  chi_Rules :: "string option"
  chi_SubmissionRequirements :: "string option"
  chi_Prizes :: "string option"
  chi_RegistrationURL :: "string option"
  chi_RegistrationLabel :: "string option"
  chi_OrganizerID :: "string option"

definition new_hackathon :: "CreateHackathonInput \<Rightarrow> string \<Rightarrow> int \<Rightarrow> Hackathon" where
  "new_hackathon a i now =
     \<lparr> hck_ID = i, hck_Title = chi_Title a, hck_Description = chi_Description a, hck_BannerUrl = chi_BannerURL a,
       hck_Status = chi_Status a, hck_StartDate = chi_StartDate a, hck_EndDate = chi_EndDate a,
       hck_RegisterDeadline = chi_RegisterDeadline a, hck_SubmissionDeadline = chi_SubmissionDeadline a,
       hck_MaxTeamSize = chi_MaxTeamSize a, hck_MinTeamSize = chi_MinTeamSize a, hck_Location = chi_Location a,
       hck_Rules = chi_Rules a, hck_SubmissionRequirements = chi_SubmissionRequirements a,
       hck_Prizes = chi_Prizes a, hck_RegistrationUrl = chi_RegistrationURL a,
       hck_RegistrationLabel = chi_RegistrationLabel a, hck_OrganizerID = chi_OrganizerID a,
       hck_CreatedAt = now, hck_UpdatedAt = now \<rparr>"

definition hackathons_repo_Create :: "CreateHackathonInput \<Rightarrow> string io" where
  "hackathons_repo_Create a = bind go_now (\<lambda>now. bind new_uuid (\<lambda>i.
     call (q_CreateHackathon (new_hackathon a i now)) (\<lambda>e. fail (Wrap ''hackathons.repo: create'' e)) (\<lambda>_. ret i)))"

text \<open>The payload of the update has the same fields; id and time of creation stay.\<close>

definition patched_hackathon :: "CreateHackathonInput \<Rightarrow> int \<Rightarrow> Hackathon \<Rightarrow> Hackathon" where
  "patched_hackathon a now r = (new_hackathon a (hck_ID r) now)\<lparr>hck_CreatedAt := hck_CreatedAt r\<rparr>"

definition hackathons_repo_Update :: "string \<Rightarrow> CreateHackathonInput \<Rightarrow> unit io" where
  "hackathons_repo_Update i a = bind go_now (\<lambda>now.
     call (q_UpdateHackathon (patched_hackathon a now) i) (\<lambda>e. fail (Wrap ''hackathons.repo: update'' e)) (\<lambda>_. ret ()))"

definition hackathons_repo_SoftDelete :: "string \<Rightarrow> unit io" where
  "hackathons_repo_SoftDelete i = bind go_now (\<lambda>now.
     call (q_SoftDeleteHackathon now i) (\<lambda>e. fail (Wrap ''hackathons.repo: soft delete'' e)) (\<lambda>_. ret ()))"

definition GetRegistration :: "string \<Rightarrow> string \<Rightarrow> HackathonRegistration io" where
  "GetRegistration h u = call (q_GetRegistration h u) (hack_missing ''get registration'') ret"

definition GetRegistrationIncludingCancelled :: "string \<Rightarrow> string \<Rightarrow> HackathonRegistration io" where
  "GetRegistrationIncludingCancelled h u =
     call (q_GetRegistrationIncludingCancelled h u) (hack_missing ''get registration (incl cancelled)'') ret"

definition repo_UpsertRegistration :: "string \<Rightarrow> string \<Rightarrow> unit io" where
  "repo_UpsertRegistration h u = bind go_now (\<lambda>now. bind new_uuid (\<lambda>i.
     call (q_UpsertRegistration i h u now) (\<lambda>e. fail (Wrap ''hackathons.repo: upsert registration'' e)) ret))"

definition repo_CancelRegistration :: "string \<Rightarrow> string \<Rightarrow> unit io" where
  "repo_CancelRegistration h u = bind go_now (\<lambda>now.
     call (q_CancelRegistration (Some now) h u) (\<lambda>e. fail (Wrap ''hackathons.repo: cancel registration'' e))
       (\<lambda>n. if n = 0 then fail hackathons_ErrNotFound else ret ()))"

definition repo_ListAnnouncements :: "string \<Rightarrow> nat \<Rightarrow> Announcement list io" where
  "repo_ListAnnouncements h limit =
     call (q_ListAnnouncements h limit) (\<lambda>e. fail (Wrap ''hackathons.repo: list announcements'' e)) ret"

definition repo_CreateAnnouncement :: "string \<Rightarrow> string \<Rightarrow> string \<Rightarrow> bool \<Rightarrow> string io" where
  "repo_CreateAnnouncement h title content pinned = bind go_now (\<lambda>now. bind new_uuid (\<lambda>i.
     call (q_CreateAnnouncement \<lparr> ann_ID = i, ann_HackathonID = h, ann_Title = title, ann_Content = content,
             ann_IsPinned = pinned, ann_CreatedAt = now \<rparr>)
       (\<lambda>e. fail (Wrap ''hackathons.repo: create announcement'' e)) (\<lambda>_. ret i)))"

section \<open>Teams\<close>

definition repo_ListTeams :: "string \<Rightarrow> nat \<Rightarrow> Team list io" where
  "repo_ListTeams h limit =
     call (q_ListTeamsByHackathon h limit) (\<lambda>e. fail (Wrap ''hackathons.repo: list teams'' e)) ret"

definition GetTeam :: "string \<Rightarrow> Team io" where
  "GetTeam t = call (q_GetTeamByID t) (hack_missing ''get team'') ret"

definition CreateTeamWithCaptain :: "string \<Rightarrow> string \<Rightarrow> string option \<Rightarrow> string \<Rightarrow> (string \<times> string) io" where
  "CreateTeamWithCaptain h name slogan u = bind go_now (\<lambda>now.
     transaction (
       bind new_uuid (\<lambda>t.
       call (q_CreateTeam \<lparr> team_ID = t, team_HackathonID = h, team_Name = name, team_Slogan = slogan,
               team_CaptainID = u, team_CreatedAt = now \<rparr>)
         (\<lambda>e. fail (Wrap ''hackathons.repo: create team'' e)) (\<lambda>_.
       bind new_uuid (\<lambda>m.
       call (q_CreateTeamMember \<lparr> tmm_ID = m, tmm_TeamID = t, tmm_UserID = u, tmm_Role = ''captain'' \<rparr>)
         (\<lambda>e. fail (Wrap ''hackathons.repo: create captain member'' e)) (\<lambda>_. ret (t, m)))))))"

definition ListMembers :: "string \<Rightarrow> (TeamMember \<times> User) list io" where
  "ListMembers t = call (q_ListTeamMembersByTeam t) (\<lambda>e. fail (Wrap ''hackathons.repo: list members'' e)) ret"

definition CountMembers :: "string \<Rightarrow> int io" where
  "CountMembers t = q_CountTeamMembers t"

definition CountSubmissionsByTeam :: "string \<Rightarrow> int io" where
  "CountSubmissionsByTeam t =
     call (query (\<lambda>d. count_rows (\<lambda>r. sub_TeamID r = Some t \<and> sub_DeletedAt r = None) (t_submissions d)))
       (\<lambda>e. fail (Wrap ''hackathons.repo: count team submissions'' e)) ret"

definition FindMembershipInHackathon :: "string \<Rightarrow> string \<Rightarrow> TeamMember io" where
  "FindMembershipInHackathon u h =
     call (q_FindTeamMembershipForUserInHackathon u h) (hack_missing ''find membership'') ret"

definition GetMembershipForUserAndTeam :: "string \<Rightarrow> string \<Rightarrow> TeamMember io" where
  "GetMembershipForUserAndTeam t u =
     call (q_GetTeamMemberForUserAndTeam t u) (hack_missing ''get membership'') ret"

definition FindTeamByName :: "string \<Rightarrow> string \<Rightarrow> string io" where
  "FindTeamByName h name = call (q_FindTeamByHackathonAndName h name)
     (\<lambda>e. if errors_is e ErrNoRows then ret [] else fail (Wrap ''hackathons.repo: find team by name'' e)) ret"

definition AddMember :: "string \<Rightarrow> string \<Rightarrow> string \<Rightarrow> string io" where
  "AddMember t u role = bind new_uuid (\<lambda>i.
     call (q_CreateTeamMember \<lparr> tmm_ID = i, tmm_TeamID = t, tmm_UserID = u, tmm_Role = role \<rparr>)
       (\<lambda>e. fail (Wrap ''hackathons.repo: add member'' e)) (\<lambda>_. ret i))"

definition DeleteMember :: "string \<Rightarrow> unit io" where
  "DeleteMember i = call (q_DeleteTeamMember i) (\<lambda>e. fail (Wrap ''hackathons.repo: delete member'' e)) (\<lambda>_. ret ())"

definition repo_DeleteTeam :: "string \<Rightarrow> unit io" where
  "repo_DeleteTeam t = call (q_DeleteTeam t) (\<lambda>e. fail (Wrap ''hackathons.repo: delete team'' e)) (\<lambda>_. ret ())"

definition GetTeamHackathonID :: "string \<Rightarrow> string io" where
  "GetTeamHackathonID t =
     call (query_one (\<lambda>d. map_option team_HackathonID (first_row (\<lambda>r. team_ID r = t) (t_teams d))))
       (hack_missing ''get team hackathon id'') ret"

section \<open>Submissions\<close>

definition repo_GetSubmissionByID :: "string \<Rightarrow> Submission io" where
  "repo_GetSubmissionByID i = call (q_GetSubmissionByID i) (hack_missing ''get submission'') ret"

definition repo_ListAllSubmissions :: "string \<Rightarrow> nat \<Rightarrow> Submission list io" where
  "repo_ListAllSubmissions h limit =
     call (q_ListSubmissionsByHackathon h limit) (\<lambda>e. fail (Wrap ''hackathons.repo: list submissions'' e)) ret"

definition repo_ListUserSubmissions :: "string \<Rightarrow> string \<Rightarrow> nat \<Rightarrow> Submission list io" where
  "repo_ListUserSubmissions u h limit =
     call (q_ListMySubmissions u h limit) (\<lambda>e. fail (Wrap ''hackathons.repo: list my submissions'' e)) ret"

record CreateSubmissionRepoInput =
  csr_HackathonID :: string
  csr_TeamID :: "string option"
  csr_UserID :: "string option"
  csr_Title :: string
  csr_Description :: string
  csr_DemoURL :: "string option"
  csr_RepoURL :: "string option"
  csr_VideoURL :: "string option"
  csr_Status :: string
  csr_SubmittedAt :: "int option"

definition new_submission :: "CreateSubmissionRepoInput \<Rightarrow> string \<Rightarrow> int \<Rightarrow> Submission" where
  "new_submission a i now =
     \<lparr> sub_ID = i, sub_HackathonID = csr_HackathonID a, sub_TeamID = csr_TeamID a, sub_UserID = csr_UserID a,
       sub_Title = csr_Title a, sub_Description = csr_Description a, sub_DemoUrl = csr_DemoURL a,
       sub_RepoUrl = csr_RepoURL a, sub_VideoUrl = csr_VideoURL a, sub_Status = csr_Status a,
       sub_Score = None, sub_Feedback = None, sub_SubmittedAt = csr_SubmittedAt a,
       sub_CreatedAt = now, sub_UpdatedAt = now, sub_DeletedAt = None \<rparr>"

definition repo_CreateSubmission :: "CreateSubmissionRepoInput \<Rightarrow> string io" where
  "repo_CreateSubmission a = bind go_now (\<lambda>now. bind new_uuid (\<lambda>i.
     call (q_CreateSubmission (new_submission a i now)) (\<lambda>e. fail (Wrap ''hackathons.repo: create submission'' e))
       (\<lambda>_. ret i)))"

record UpdateSubmissionRepoInput =
  ups_Title :: string
  ups_Description :: string
  ups_DemoURL :: "string option"
  ups_RepoURL :: "string option"
  ups_VideoURL :: "string option"
  ups_Status :: string
  ups_Score :: "string option"
  ups_Feedback :: "string option"
  ups_SubmittedAt :: "int option"

definition patched_submission :: "UpdateSubmissionRepoInput \<Rightarrow> int \<Rightarrow> Submission \<Rightarrow> Submission" where
  "patched_submission a now r = r\<lparr> sub_Title := ups_Title a, sub_Description := ups_Description a,
     sub_DemoUrl := ups_DemoURL a, sub_RepoUrl := ups_RepoURL a, sub_VideoUrl := ups_VideoURL a,
     sub_Status := ups_Status a, sub_Score := ups_Score a, sub_Feedback := ups_Feedback a,
     sub_SubmittedAt := ups_SubmittedAt a, sub_UpdatedAt := now \<rparr>"

definition repo_UpdateSubmission :: "string \<Rightarrow> UpdateSubmissionRepoInput \<Rightarrow> unit io" where
  "repo_UpdateSubmission i a = bind go_now (\<lambda>now.
     call (q_UpdateSubmission (patched_submission a now) i)
       (\<lambda>e. fail (Wrap ''hackathons.repo: update submission'' e)) ret)"

section \<open>Judges and sponsors\<close>

definition repo_ListJudges :: "string \<Rightarrow> nat \<Rightarrow> Judge list io" where
  "repo_ListJudges h limit =
     call (q_ListJudgesByHackathon h limit) (\<lambda>e. fail (Wrap ''hackathons.repo: list judges'' e)) ret"

definition GetJudge :: "string \<Rightarrow> Judge io" where
  "GetJudge i = call (q_GetJudgeByID i) (hack_missing ''get judge'') ret"

record CreateJudgeInput =
  cji_HackathonID :: string
  cji_UserID :: "string option"
  cji_Name :: string
  cji_Title :: "string option"
  cji_AvatarURL :: "string option"
  cji_Bio :: "string option"
  cji_OrderIndex :: int
  cji_Role :: string

definition new_judge :: "CreateJudgeInput \<Rightarrow> string \<Rightarrow> Judge" where
  "new_judge a i =
     \<lparr> jdg_ID = i, jdg_HackathonID = cji_HackathonID a, jdg_UserID = cji_UserID a, jdg_Name = cji_Name a,
       jdg_Title = cji_Title a, jdg_AvatarUrl = cji_AvatarURL a, jdg_Bio = cji_Bio a,
       jdg_OrderIndex = cji_OrderIndex a, jdg_Role = cji_Role a \<rparr>"

definition repo_CreateJudge :: "CreateJudgeInput \<Rightarrow> string io" where
  "repo_CreateJudge a = bind new_uuid (\<lambda>i.
     call (q_CreateJudge (new_judge a i)) (\<lambda>e. fail (Wrap ''hackathons.repo: create judge'' e)) (\<lambda>_. ret i))"

definition repo_UpdateJudge :: "string \<Rightarrow> (Judge \<Rightarrow> Judge) \<Rightarrow> unit io" where
  "repo_UpdateJudge i f = call (q_UpdateJudge f i) (\<lambda>e. fail (Wrap ''hackathons.repo: update judge'' e)) ret"

definition repo_DeleteJudge :: "string \<Rightarrow> unit io" where
  "repo_DeleteJudge i = call (q_DeleteJudge i) (\<lambda>e. fail (Wrap ''hackathons.repo: delete judge'' e))
     (\<lambda>n. if n = 0 then fail hackathons_ErrNotFound else ret ())"

definition repo_ListSponsors :: "string \<Rightarrow> nat \<Rightarrow> Sponsor list io" where
  "repo_ListSponsors h limit =
     call (q_ListSponsorsByHackathon h limit) (\<lambda>e. fail (Wrap ''hackathons.repo: list sponsors'' e)) ret"

definition GetSponsor :: "string \<Rightarrow> Sponsor io" where
  "GetSponsor i = call (q_GetSponsorByID i) (hack_missing ''get sponsor'') ret"

record CreateSponsorInput =
  csp_HackathonID :: string
  csp_Name :: string
  csp_LogoURL :: "string option"
  csp_WebsiteURL :: "string option"
  csp_Tier :: string
  csp_OrderIndex :: int

definition new_sponsor :: "CreateSponsorInput \<Rightarrow> string \<Rightarrow> int \<Rightarrow> Sponsor" where
  "new_sponsor a i now =
     \<lparr> spn_ID = i, spn_HackathonID = csp_HackathonID a, spn_Name = csp_Name a, spn_LogoUrl = csp_LogoURL a,
       spn_WebsiteUrl = csp_WebsiteURL a, spn_Tier = csp_Tier a, spn_OrderIndex = csp_OrderIndex a,
       spn_CreatedAt = now, spn_UpdatedAt = now \<rparr>"

definition repo_CreateSponsor :: "CreateSponsorInput \<Rightarrow> string io" where
  "repo_CreateSponsor a = bind go_now (\<lambda>now. bind new_uuid (\<lambda>i.
     call (q_CreateSponsor (new_sponsor a i now)) (\<lambda>e. fail (Wrap ''hackathons.repo: create sponsor'' e)) (\<lambda>_. ret i)))"

definition repo_UpdateSponsor :: "string \<Rightarrow> (int \<Rightarrow> Sponsor \<Rightarrow> Sponsor) \<Rightarrow> unit io" where
  "repo_UpdateSponsor i f = bind go_now (\<lambda>now.
     call (q_UpdateSponsor (f now) i) (\<lambda>e. fail (Wrap ''hackathons.repo: update sponsor'' e)) ret)"

definition repo_DeleteSponsor :: "string \<Rightarrow> unit io" where
  "repo_DeleteSponsor i = call (q_DeleteSponsor i) (\<lambda>e. fail (Wrap ''hackathons.repo: delete sponsor'' e))
     (\<lambda>n. if n = 0 then fail hackathons_ErrNotFound else ret ())"

end
