(* ===== verification/Hackathons.thy ===== *)
theory Hackathons
  imports HackathonRepo
begin

text \<open>
  The services of \<open>internal/hackathons/hackathons.go\<close>, \<open>judges.go\<close> and \<open>sponsors.go\<close>: hackathons, their
  registrations and announcements, judges and sponsors.  \<open>uri\<close> stands for \<open>url.ParseRequestURI\<close>: the
  scheme and the host of a text, \<open>None\<close> for its error.
\<close>

type_synonym uri_parser = "string \<Rightarrow> (string \<times> string) option"

section \<open>Shapes\<close>

record JudgeDTO =
  jdd_ID :: string
  jdd_HackathonID :: string
  jdd_UserID :: "string option"
  jdd_Name :: string
  jdd_Title :: "string option"
  jdd_AvatarURL :: "string option"
  jdd_Bio :: "string option"
  jdd_OrderIndex :: int
  jdd_Role :: string

record SponsorDTO =
  spd_ID :: string
  spd_HackathonID :: string
  spd_Name :: string
  spd_LogoURL :: "string option"
  spd_WebsiteURL :: "string option"
  spd_Tier :: string
  spd_OrderIndex :: int
  spd_CreatedAt :: int
  spd_UpdatedAt :: int

record OrganizerDTO =
  ogd_ID :: string
  ogd_Name :: string
  ogd_AvatarURL :: "string option"

record HackathonCountDTO =
  hcd_Registrations :: int
  hcd_Teams :: int
  hcd_Submissions :: int

record RegistrationDTO =
  rgd_ID :: string
  rgd_HackathonID :: string
  rgd_UserID :: string
  rgd_Status :: string
  rgd_RegisteredAt :: int
  rgd_CheckedInAt :: "int option"

record HackathonDTO =
  hkd_ID :: string
  hkd_Title :: string
  hkd_Description :: string
  hkd_BannerURL :: "string option"
  hkd_Status :: string
  hkd_StartDate :: int
  hkd_EndDate :: int
  hkd_RegisterDeadline :: "int option"
  hkd_SubmissionDeadline :: "int option"
  hkd_MaxTeamSize :: int
  hkd_MinTeamSize :: int
  hkd_Location :: "string option"
  hkd_Rules :: "string option"
  hkd_SubmissionRequirements :: "string option"
  hkd_Prizes :: "string option"
  hkd_RegistrationURL :: "string option"
  hkd_RegistrationLabel :: "string option"
  hkd_OrganizerID :: "string option"
  hkd_CreatedAt :: int
  hkd_UpdatedAt :: int
  hkd_RegistrationCount :: "int option"
  hkd_Organizer :: "OrganizerDTO option"
  hkd_Count :: "HackathonCountDTO option"
  hkd_MyRegistration :: "RegistrationDTO option"
  hkd_Judges :: "JudgeDTO list option"

definition toHackathonDTO :: "Hackathon \<Rightarrow> string \<Rightarrow> HackathonDTO" where
  "toHackathonDTO h status =
     \<lparr> hkd_ID = hck_ID h, hkd_Title = hck_Title h, hkd_Description = hck_Description h,
       hkd_BannerURL = hck_BannerUrl h, hkd_Status = status, hkd_StartDate = hck_StartDate h,
       hkd_EndDate = hck_EndDate h, hkd_RegisterDeadline = hck_RegisterDeadline h,
       hkd_SubmissionDeadline = hck_SubmissionDeadline h, hkd_MaxTeamSize = hck_MaxTeamSize h,
       hkd_MinTeamSize = hck_MinTeamSize h, hkd_Location = hck_Location h, hkd_Rules = hck_Rules h,
       hkd_SubmissionRequirements = hck_SubmissionRequirements h, hkd_Prizes = hck_Prizes h,
       hkd_RegistrationURL = hck_RegistrationUrl h, hkd_RegistrationLabel = hck_RegistrationLabel h,
       hkd_OrganizerID = hck_OrganizerID h, hkd_CreatedAt = hck_CreatedAt h, hkd_UpdatedAt = hck_UpdatedAt h,
       hkd_RegistrationCount = None, hkd_Organizer = None, hkd_Count = None, hkd_MyRegistration = None,
       hkd_Judges = None \<rparr>"

definition toRegistrationDTO :: "string \<Rightarrow> string \<Rightarrow> string \<Rightarrow> string \<Rightarrow> int \<Rightarrow> int option \<Rightarrow> RegistrationDTO" where
  "toRegistrationDTO i h u status registered checkedIn =
     \<lparr> rgd_ID = i, rgd_HackathonID = h, rgd_UserID = u, rgd_Status = status,
       rgd_RegisteredAt = registered, rgd_CheckedInAt = checkedIn \<rparr>"

definition toJudgeDTO :: "Judge \<Rightarrow> JudgeDTO" where
  "toJudgeDTO j =
     \<lparr> jdd_ID = jdg_ID j, jdd_HackathonID = jdg_HackathonID j, jdd_UserID = jdg_UserID j, jdd_Name = jdg_Name j,
       jdd_Title = jdg_Title j, jdd_AvatarURL = jdg_AvatarUrl j, jdd_Bio = jdg_Bio j,
       jdd_OrderIndex = jdg_OrderIndex j, jdd_Role = jdg_Role j \<rparr>"

definition toSponsorDTO :: "Sponsor \<Rightarrow> SponsorDTO" where
  "toSponsorDTO s =
     \<lparr> spd_ID = spn_ID s, spd_HackathonID = spn_HackathonID s, spd_Name = spn_Name s, spd_LogoURL = spn_LogoUrl s,
       spd_WebsiteURL = spn_WebsiteUrl s, spd_Tier = spn_Tier s, spd_OrderIndex = spn_OrderIndex s,
       spd_CreatedAt = spn_CreatedAt s, spd_UpdatedAt = spn_UpdatedAt s \<rparr>"

text \<open>What the joined row adds; counts are cut to 32 bits in the one field that is an \<open>int32\<close>.\<close>

definition decorateHackathonDTO :: "HackathonResponse \<Rightarrow> HackathonDTO \<Rightarrow> HackathonDTO" where
  "decorateHackathonDTO r dto = dto\<lparr>
     hkd_RegistrationCount := Some (wrap32 (hrr_RegistrationCount r)),
     hkd_Count := Some \<lparr> hcd_Registrations = hrr_RegistrationCount r, hcd_Teams = hrr_TeamCount r,
                         hcd_Submissions = hrr_SubmissionCount r \<rparr>,
     hkd_Organizer := map_option (\<lambda>u. \<lparr> ogd_ID = usr_ID u, ogd_Name = usr_Name u, ogd_AvatarURL = usr_AvatarUrl u \<rparr>)
       (hrr_Organizer r),
     hkd_MyRegistration := map_option (\<lambda>g. toRegistrationDTO (hrg_ID g) (hkd_ID dto) (hrg_UserID g) (hrg_Status g)
       (hrg_RegisteredAt g) (hrg_CheckedInAt g)) (hrr_My r)\<rparr>"

section \<open>Helpers\<close>

definition nullableString :: "string \<Rightarrow> string option" where
  "nullableString s = (if s = [] then None else Some s)"

definition coalesceString :: "string \<Rightarrow> string option \<Rightarrow> string option" where
  "coalesceString s existing = (if s \<noteq> [] then Some s else existing)"

definition coalesceTime :: "int option \<Rightarrow> int option \<Rightarrow> int option" where
  "coalesceTime t existing = (case t of Some x \<Rightarrow> Some x | None \<Rightarrow> existing)"

definition validateOptionalHTTPURL :: "uri_parser \<Rightarrow> string \<Rightarrow> string \<Rightarrow> go_error option" where
  "validateOptionalHTTPURL uri field raw =
     (if raw = [] then None
      else if 1000 < length raw then Some (BadRequest (field @ '' is too long''))
      else case uri raw of
        Some (scheme, host) \<Rightarrow>
          if host = [] \<or> (scheme \<noteq> ''http'' \<and> scheme \<noteq> ''https'')
          then Some (BadRequest (field @ '' must be a valid http(s) URL'')) else None
      | None \<Rightarrow> Some (BadRequest (field @ '' must be a valid http(s) URL'')))"

definition hackathon_audit :: "string \<Rightarrow> string \<Rightarrow> unit io" where
  "hackathon_audit action i = server_audit ''hackathon'' action i None"

definition found_hackathon :: "string \<Rightarrow> (Hackathon \<Rightarrow> 'a io) \<Rightarrow> 'a io" where
  "found_hackathon h k = call (hackathons_repo_GetByID h)
     (\<lambda>e. if errors_is e hackathons_ErrNotFound then fail (NotFound ''Hackathon not found'')
          else fail (Internal ''lookup hackathon'' e)) k"

definition effectiveStatus :: "Hackathon \<Rightarrow> int \<Rightarrow> string" where
  "effectiveStatus h now =
     (if hck_Status h \<in> set [''cancelled'', ''finished'', ''judging''] then hck_Status h
      else if now < hck_StartDate h then ''upcoming''
      else if \<not> hck_EndDate h < now then ''active''
      else ''judging'')"

section \<open>Hackathons\<close>

definition hackathons_List :: "string \<Rightarrow> string \<Rightarrow> string \<Rightarrow> HackathonDTO list io" where
  "hackathons_List status search u =
     (if status \<noteq> [] \<and> status \<notin> set validStatuses
      then fail (BadRequest ''status must be one of upcoming|active|judging|finished|cancelled'')
      else if search \<noteq> [] \<and> 191 < length search then fail (BadRequest ''search too long'')
      else call (hackathons_repo_List u search 100) (\<lambda>e. fail (Internal ''list hackathons'' e)) (\<lambda>rows.
        bind go_now (\<lambda>now.
        ret (filter (\<lambda>dto. status = [] \<or> hkd_Status dto = status)
          (map (\<lambda>r. decorateHackathonDTO r
             (toHackathonDTO (hrr_Hackathon r) (effectiveStatus (hrr_Hackathon r) now))) rows)))))"

definition GetForUser :: "string \<Rightarrow> string \<Rightarrow> bool \<Rightarrow> HackathonDTO io" where
  "GetForUser i u includeCount =
     call (GetResponseByID i u)
       (\<lambda>e. if errors_is e hackathons_ErrNotFound then fail (NotFound ''Hackathon not found'')
            else fail (Internal ''get hackathon'' e)) (\<lambda>r.
     bind go_now (\<lambda>now.
     let dto = decorateHackathonDTO r (toHackathonDTO (hrr_Hackathon r) (effectiveStatus (hrr_Hackathon r) now));
         dto = (if includeCount then dto else dto\<lparr>hkd_RegistrationCount := None\<rparr>)
     in call (repo_ListJudges i 100) (\<lambda>e. fail (Internal ''list hackathon judges'' e)) (\<lambda>js.
        ret (dto\<lparr>hkd_Judges := Some (map toJudgeDTO js)\<rparr>))))"

record hackathons_CreateInput =
  hin_Title :: string
  hin_Description :: string
  hin_BannerURL :: string
  hin_Status :: string
  hin_StartDate :: int
  hin_EndDate :: int
  hin_RegisterDeadline :: "int option"
  hin_SubmissionDeadline :: "int option"
  hin_MaxTeamSize :: int
  hin_MinTeamSize :: int
  hin_Location :: string
  hin_Rules :: string
  hin_SubmissionRequirements :: string
  hin_Prizes :: string
  hin_RegistrationURL :: string
  hin_RegistrationLabel :: string
  hin_OrganizerID :: string

definition team_sizes :: "int \<Rightarrow> int \<Rightarrow> go_error option" where
  "team_sizes least most =
     (if least < 1 then Some (BadRequest ''minTeamSize must be at least 1'')
      else if most < 1 \<or> 20 < most then Some (BadRequest ''maxTeamSize must be between 1 and 20'')
      else if most < least then Some (BadRequest ''minTeamSize must be <= maxTeamSize'')
      else None)"

definition status_error :: "string \<Rightarrow> go_error option" where
  "status_error s = (if s \<in> set validStatuses then None
     else Some (BadRequest ''status must be one of upcoming|active|judging|finished|cancelled''))"

definition with_defaults :: "hackathons_CreateInput \<Rightarrow> hackathons_CreateInput" where
  "with_defaults a = a\<lparr>
     hin_Status := (if hin_Status a = [] then ''upcoming'' else hin_Status a),
     hin_MinTeamSize := (if hin_MinTeamSize a = 0 then 1 else hin_MinTeamSize a),
     hin_MaxTeamSize := (if hin_MaxTeamSize a = 0 then 5 else hin_MaxTeamSize a)\<rparr>"

definition hackathon_reload :: "string \<Rightarrow> HackathonDTO io" where
  "hackathon_reload i =
     call (hackathons_repo_GetByID i) (\<lambda>e. fail (Internal ''reload hackathon'' e)) (\<lambda>h.
     bind go_now (\<lambda>now. ret (toHackathonDTO h (effectiveStatus h now))))"

definition hackathons_Create :: "uri_parser \<Rightarrow> hackathons_CreateInput \<Rightarrow> string \<Rightarrow> HackathonDTO io" where
  "hackathons_Create uri a organizer =
     (if trim_space (hin_Title a) = [] then fail (BadRequest ''title is required'')
      else if trim_space (hin_Description a) = [] then fail (BadRequest ''description is required'')
      else if hin_StartDate a = zero_time \<or> hin_EndDate a = zero_time
      then fail (BadRequest ''startDate and endDate are required'')
      else if \<not> hin_StartDate a < hin_EndDate a then fail (BadRequest ''endDate must be after startDate'')
      else let a = with_defaults a in
        checked_by (status_error (hin_Status a))
       (checked_by (team_sizes (hin_MinTeamSize a) (hin_MaxTeamSize a))
       (checked_by (validateOptionalHTTPURL uri ''bannerUrl'' (hin_BannerURL a))
       (checked_by (validateOptionalHTTPURL uri ''registrationUrl'' (hin_RegistrationURL a))
       (call (hackathons_repo_Create
          \<lparr> chi_Title = hin_Title a, chi_Description = hin_Description a,
            chi_BannerURL = nullableString (hin_BannerURL a), chi_Status = hin_Status a,
            chi_StartDate = hin_StartDate a, chi_EndDate = hin_EndDate a,
            chi_RegisterDeadline = hin_RegisterDeadline a, chi_SubmissionDeadline = hin_SubmissionDeadline a,
            chi_MaxTeamSize = hin_MaxTeamSize a, chi_MinTeamSize = hin_MinTeamSize a,
            chi_Location = nullableString (hin_Location a), chi_Rules = nullableString (hin_Rules a),
            chi_SubmissionRequirements = nullableString (hin_SubmissionRequirements a),
            chi_Prizes = nullableString (hin_Prizes a), chi_RegistrationURL = nullableString (hin_RegistrationURL a),
            chi_RegistrationLabel = nullableString (hin_RegistrationLabel a),
            chi_OrganizerID = nullableString organizer \<rparr>)
        (\<lambda>e. fail (Internal ''create hackathon'' e)) (\<lambda>i.
        bind (hackathon_audit ''HACKATHON_CREATE'' i) (\<lambda>_. hackathon_reload i)))))))"

text \<open>The update fills in what the payload leaves out; the organizer stays.\<close>

definition merged_hackathon :: "hackathons_CreateInput \<Rightarrow> Hackathon \<Rightarrow> hackathons_CreateInput" where
  "merged_hackathon a r = a\<lparr>
     hin_Title := (if trim_space (hin_Title a) = [] then hck_Title r else hin_Title a),
     hin_Description := (if trim_space (hin_Description a) = [] then hck_Description r else hin_Description a),
     hin_StartDate := (if hin_StartDate a = zero_time then hck_StartDate r else hin_StartDate a),
     hin_EndDate := (if hin_EndDate a = zero_time then hck_EndDate r else hin_EndDate a),
     hin_Status := (if hin_Status a = [] then hck_Status r else hin_Status a),
     hin_MinTeamSize := (if hin_MinTeamSize a = 0 then hck_MinTeamSize r else hin_MinTeamSize a),
     hin_MaxTeamSize := (if hin_MaxTeamSize a = 0 then hck_MaxTeamSize r else hin_MaxTeamSize a)\<rparr>"

definition hackathons_Update :: "uri_parser \<Rightarrow> string \<Rightarrow> hackathons_CreateInput \<Rightarrow> HackathonDTO io" where
  "hackathons_Update uri i a = found_hackathon i (\<lambda>r.
     let a = merged_hackathon a r in
     if \<not> hin_StartDate a < hin_EndDate a then fail (BadRequest ''endDate must be after startDate'')
     else checked_by (status_error (hin_Status a))
      (checked_by (team_sizes (hin_MinTeamSize a) (hin_MaxTeamSize a))
      (checked_by (validateOptionalHTTPURL uri ''bannerUrl'' (hin_BannerURL a))
      (checked_by (validateOptionalHTTPURL uri ''registrationUrl'' (hin_RegistrationURL a))
      (call (hackathons_repo_Update i
          \<lparr> chi_Title = hin_Title a, chi_Description = hin_Description a,
            chi_BannerURL = coalesceString (hin_BannerURL a) (hck_BannerUrl r), chi_Status = hin_Status a,
            chi_StartDate = hin_StartDate a, chi_EndDate = hin_EndDate a,
            chi_RegisterDeadline = coalesceTime (hin_RegisterDeadline a) (hck_RegisterDeadline r),
            chi_SubmissionDeadline = coalesceTime (hin_SubmissionDeadline a) (hck_SubmissionDeadline r),
            chi_MaxTeamSize = hin_MaxTeamSize a, chi_MinTeamSize = hin_MinTeamSize a,
            chi_Location = coalesceString (hin_Location a) (hck_Location r),
            chi_Rules = coalesceString (hin_Rules a) (hck_Rules r),
            chi_SubmissionRequirements = coalesceString (hin_SubmissionRequirements a) (hck_SubmissionRequirements r),
            chi_Prizes = coalesceString (hin_Prizes a) (hck_Prizes r),
            chi_RegistrationURL = coalesceString (hin_RegistrationURL a) (hck_RegistrationUrl r),
            chi_RegistrationLabel = coalesceString (hin_RegistrationLabel a) (hck_RegistrationLabel r),
            chi_OrganizerID = hck_OrganizerID r \<rparr>)
        (\<lambda>e. fail (Internal ''update hackathon'' e)) (\<lambda>_.
        bind (hackathon_audit ''HACKATHON_UPDATE'' i) (\<lambda>_. hackathon_reload i)))))))"

definition hackathons_Delete :: "string \<Rightarrow> unit io" where
  "hackathons_Delete i = found_hackathon i (\<lambda>_.
     call (hackathons_repo_SoftDelete i) (\<lambda>e. fail (Internal ''soft delete hackathon'' e)) (\<lambda>_.
     hackathon_audit ''HACKATHON_DELETE'' i))"

section \<open>Registrations\<close>

definition registration_view :: "string \<Rightarrow> string \<Rightarrow> HackathonRegistration \<Rightarrow> RegistrationDTO" where
  "registration_view h u r =
     toRegistrationDTO (hrg_ID r) h u (hrg_Status r) (hrg_RegisteredAt r) (hrg_CheckedInAt r)"

definition register_now :: "string \<Rightarrow> string \<Rightarrow> RegistrationDTO io" where
  "register_now u h =
     call (repo_UpsertRegistration h u) (\<lambda>e. fail (Internal ''register'' e)) (\<lambda>_.
     call (GetRegistration h u) (\<lambda>e. fail (Internal ''reload registration'' e)) (\<lambda>r.
     ret (registration_view h u r)))"

definition hackathons_Register :: "string \<Rightarrow> string \<Rightarrow> RegistrationDTO io" where
  "hackathons_Register u h = found_hackathon h (\<lambda>hk.
     if hck_Status hk = ''cancelled'' then fail (Forbidden msg_hack_cancelled)
     else
       let existing = call (GetRegistration h u)
         (\<lambda>e. if \<not> errors_is e hackathons_ErrNotFound then fail (Internal ''check existing registration'' e)
              else register_now u h)
         (\<lambda>r. if hrg_Status r = ''registered'' then ret (registration_view h u r) else register_now u h)
       in case hck_RegisterDeadline hk of
            None \<Rightarrow> existing
          | Some t \<Rightarrow> bind go_now (\<lambda>now. if t < now then fail (Forbidden msg_hack_closed) else existing))"

definition hackathons_CancelRegistration :: "string \<Rightarrow> string \<Rightarrow> RegistrationDTO io" where
  "hackathons_CancelRegistration u h = found_hackathon h (\<lambda>_.
     call (GetRegistration h u)
       (\<lambda>e. if errors_is e hackathons_ErrNotFound then fail (BadRequest msg_hack_not_registered)
            else fail (Internal ''check registration'' e)) (\<lambda>r.
     if hrg_Status r \<noteq> ''registered'' then fail (BadRequest msg_hack_not_registered)
     else call (repo_CancelRegistration h u) (\<lambda>e. fail (Internal ''cancel registration'' e)) (\<lambda>_.
       call (GetRegistrationIncludingCancelled h u) (\<lambda>e. fail (Internal ''reload registration'' e)) (\<lambda>r.
       ret (registration_view h u r)))))"

definition MyRegistration :: "string \<Rightarrow> string \<Rightarrow> RegistrationDTO option io" where
  "MyRegistration u h = found_hackathon h (\<lambda>_.
     call (GetRegistrationIncludingCancelled h u)
       (\<lambda>e. if errors_is e hackathons_ErrNotFound then ret None else fail (Internal ''get registration'' e))
       (\<lambda>r. ret (Some (registration_view h u r))))"

section \<open>Announcements\<close>

text \<open>\<open>AnnouncementDTO\<close> has the fields of the row.\<close>

definition hackathons_ListAnnouncements :: "string \<Rightarrow> Announcement list io" where
  "hackathons_ListAnnouncements h = found_hackathon h (\<lambda>_.
     call (repo_ListAnnouncements h 100) (\<lambda>e. fail (Internal ''list announcements'' e)) ret)"

definition hackathons_CreateAnnouncement :: "string \<Rightarrow> string \<Rightarrow> string \<Rightarrow> string \<Rightarrow> bool \<Rightarrow> Announcement io" where
  "hackathons_CreateAnnouncement h u title content pinned =
     (if trim_space title = [] then fail (BadRequest ''title is required'')
      else if trim_space content = [] then fail (BadRequest ''content is required'')
      else found_hackathon h (\<lambda>_.
        call (repo_CreateAnnouncement h title content pinned) (\<lambda>e. fail (Internal ''create announcement'' e)) (\<lambda>i.
        bind (hackathon_audit ''HACKATHON_ANNOUNCEMENT_CREATE'' i) (\<lambda>_.
        bind go_now (\<lambda>now.
        ret \<lparr> ann_ID = i, ann_HackathonID = h, ann_Title = title, ann_Content = content, ann_IsPinned = pinned,
              ann_CreatedAt = now \<rparr>)))))"

section \<open>Judges\<close>

definition validJudgeRoles :: "string list" where
  "validJudgeRoles = [''judge'', ''advisor'', ''host'']"

record AddJudgeInput =
  aji_Name :: string
  aji_Title :: string
  aji_AvatarURL :: string
  aji_Bio :: string
  aji_OrderIndex :: "int option"
  aji_Role :: string

definition hackathons_ListJudges :: "string \<Rightarrow> JudgeDTO list io" where
  "hackathons_ListJudges h = found_hackathon h (\<lambda>_.
     call (repo_ListJudges h 100) (\<lambda>e. fail (Internal ''list judges'' e)) (\<lambda>js. ret (map toJudgeDTO js)))"

definition judge_role_error :: "string \<Rightarrow> go_error option" where
  "judge_role_error role = (if role \<in> set validJudgeRoles then None
     else Some (BadRequest ''role must be one of judge|advisor|host''))"

definition reload_judge :: "string \<Rightarrow> JudgeDTO io" where
  "reload_judge i = call (GetJudge i) (\<lambda>e. fail (Internal ''reload judge'' e)) (\<lambda>j. ret (toJudgeDTO j))"

definition AddJudge :: "uri_parser \<Rightarrow> string \<Rightarrow> AddJudgeInput \<Rightarrow> JudgeDTO io" where
  "AddJudge uri h a =
     (if trim_space (aji_Name a) = [] then fail (BadRequest ''name is required'')
      else found_hackathon h (\<lambda>_.
        let role = (if aji_Role a = [] then ''judge'' else aji_Role a) in
        checked_by (judge_role_error role)
       (checked_by (validateOptionalHTTPURL uri ''avatarUrl'' (aji_AvatarURL a))
       (call (repo_CreateJudge
          \<lparr> cji_HackathonID = h, cji_UserID = None, cji_Name = trim_space (aji_Name a),
            cji_Title = nullableString (aji_Title a), cji_AvatarURL = nullableString (aji_AvatarURL a),
            cji_Bio = nullableString (aji_Bio a),
            cji_OrderIndex = (case aji_OrderIndex a of None \<Rightarrow> 0 | Some n \<Rightarrow> n), cji_Role = role \<rparr>)
         (\<lambda>e. fail (Internal ''create judge'' e)) (\<lambda>i.
         bind (hackathon_audit ''HACKATHON_JUDGE_CREATE'' i) (\<lambda>_. reload_judge i))))))"

definition found_judge :: "string \<Rightarrow> string \<Rightarrow> (Judge \<Rightarrow> 'a io) \<Rightarrow> 'a io" where
  "found_judge h i k = call (GetJudge i)
     (\<lambda>e. if errors_is e hackathons_ErrNotFound then fail (NotFound ''Judge not found'')
          else fail (Internal ''lookup judge'' e))
     (\<lambda>j. if jdg_HackathonID j \<noteq> h then fail (NotFound ''Judge not found'') else k j)"

definition patched_judge :: "AddJudgeInput \<Rightarrow> string \<Rightarrow> string \<Rightarrow> Judge \<Rightarrow> Judge \<Rightarrow> Judge" where
  "patched_judge a name role before r = r\<lparr> jdg_UserID := jdg_UserID before, jdg_Name := name,
     jdg_Title := coalesceString (aji_Title a) (jdg_Title before),
     jdg_AvatarUrl := coalesceString (aji_AvatarURL a) (jdg_AvatarUrl before),
     jdg_Bio := coalesceString (aji_Bio a) (jdg_Bio before),
     jdg_OrderIndex := (case aji_OrderIndex a of None \<Rightarrow> jdg_OrderIndex before | Some n \<Rightarrow> n), jdg_Role := role \<rparr>"

definition hackathons_UpdateJudge :: "uri_parser \<Rightarrow> string \<Rightarrow> string \<Rightarrow> AddJudgeInput \<Rightarrow> JudgeDTO io" where
  "hackathons_UpdateJudge uri h i a = found_judge h i (\<lambda>before.
     let name = (if aji_Name a = [] then jdg_Name before else aji_Name a);
         role = (if aji_Role a = [] then jdg_Role before else aji_Role a)
     in checked_by (judge_role_error role)
       (checked_by (validateOptionalHTTPURL uri ''avatarUrl'' (aji_AvatarURL a))
       (call (repo_UpdateJudge i (patched_judge a name role before)) (\<lambda>e. fail (Internal ''update judge'' e)) (\<lambda>_.
        bind (hackathon_audit ''HACKATHON_JUDGE_UPDATE'' i) (\<lambda>_. reload_judge i)))))"

definition RemoveJudge :: "string \<Rightarrow> string \<Rightarrow> unit io" where
  "RemoveJudge h i = found_judge h i (\<lambda>_.
     call (repo_DeleteJudge i)
       (\<lambda>e. if errors_is e hackathons_ErrNotFound then fail (NotFound ''Judge not found'')
            else fail (Internal ''delete judge'' e))
       (\<lambda>_. hackathon_audit ''HACKATHON_JUDGE_DELETE'' i))"

section \<open>Sponsors\<close>

definition validSponsorTiers :: "string list" where
  "validSponsorTiers = [''platinum'', ''gold'', ''silver'', ''bronze'']"

record AddSponsorInput =
  asi_Name :: string
  asi_LogoURL :: string
  asi_WebsiteURL :: string
  asi_Tier :: string
  asi_OrderIndex :: "int option"

definition hackathons_ListSponsors :: "string \<Rightarrow> SponsorDTO list io" where
  "hackathons_ListSponsors h = found_hackathon h (\<lambda>_.
     call (repo_ListSponsors h 100) (\<lambda>e. fail (Internal ''list sponsors'' e)) (\<lambda>xs. ret (map toSponsorDTO xs)))"

definition tier_error :: "string \<Rightarrow> go_error option" where
  "tier_error tier = (if tier \<in> set validSponsorTiers then None
     else Some (BadRequest ''tier must be one of platinum|gold|silver|bronze''))"

definition reload_sponsor :: "string \<Rightarrow> SponsorDTO io" where
  "reload_sponsor i = call (GetSponsor i) (\<lambda>e. fail (Internal ''reload sponsor'' e)) (\<lambda>s. ret (toSponsorDTO s))"

definition AddSponsor :: "uri_parser \<Rightarrow> string \<Rightarrow> AddSponsorInput \<Rightarrow> SponsorDTO io" where
  "AddSponsor uri h a =
     (if trim_space (asi_Name a) = [] then fail (BadRequest ''name is required'')
      else found_hackathon h (\<lambda>_.
        let tier = (if asi_Tier a = [] then ''silver'' else asi_Tier a) in
        checked_by (tier_error tier)
       (checked_by (validateOptionalHTTPURL uri ''logoUrl'' (asi_LogoURL a))
       (checked_by (validateOptionalHTTPURL uri ''websiteUrl'' (asi_WebsiteURL a))
       (call (repo_CreateSponsor
          \<lparr> csp_HackathonID = h, csp_Name = trim_space (asi_Name a), csp_LogoURL = nullableString (asi_LogoURL a),
            csp_WebsiteURL = nullableString (asi_WebsiteURL a), csp_Tier = tier,
            csp_OrderIndex = (case asi_OrderIndex a of None \<Rightarrow> 0 | Some n \<Rightarrow> n) \<rparr>)
         (\<lambda>e. fail (Internal ''create sponsor'' e)) (\<lambda>i.
         bind (hackathon_audit ''HACKATHON_SPONSOR_CREATE'' i) (\<lambda>_. reload_sponsor i)))))))"

definition found_sponsor :: "string \<Rightarrow> string \<Rightarrow> (Sponsor \<Rightarrow> 'a io) \<Rightarrow> 'a io" where
  "found_sponsor h i k = call (GetSponsor i)
     (\<lambda>e. if errors_is e hackathons_ErrNotFound then fail (NotFound ''Sponsor not found'')
          else fail (Internal ''lookup sponsor'' e))
     (\<lambda>s. if spn_HackathonID s \<noteq> h then fail (NotFound ''Sponsor not found'') else k s)"

definition patched_sponsor :: "AddSponsorInput \<Rightarrow> string \<Rightarrow> string \<Rightarrow> Sponsor \<Rightarrow> int \<Rightarrow> Sponsor \<Rightarrow> Sponsor" where
  "patched_sponsor a name tier before now r = r\<lparr> spn_Name := name,
     spn_LogoUrl := coalesceString (asi_LogoURL a) (spn_LogoUrl before),
     spn_WebsiteUrl := coalesceString (asi_WebsiteURL a) (spn_WebsiteUrl before), spn_Tier := tier,
     spn_OrderIndex := (case asi_OrderIndex a of None \<Rightarrow> spn_OrderIndex before | Some n \<Rightarrow> n),
     spn_UpdatedAt := now \<rparr>"

definition hackathons_UpdateSponsor :: "uri_parser \<Rightarrow> string \<Rightarrow> string \<Rightarrow> AddSponsorInput \<Rightarrow> SponsorDTO io" where
  "hackathons_UpdateSponsor uri h i a = found_sponsor h i (\<lambda>before.
     let name = (if asi_Name a = [] then spn_Name before else asi_Name a);
         tier = (if asi_Tier a = [] then spn_Tier before else asi_Tier a)
     in checked_by (tier_error tier)
       (checked_by (validateOptionalHTTPURL uri ''logoUrl'' (asi_LogoURL a))
       (checked_by (validateOptionalHTTPURL uri ''websiteUrl'' (asi_WebsiteURL a))
       (call (repo_UpdateSponsor i (patched_sponsor a name tier before)) (\<lambda>e. fail (Internal ''update sponsor'' e)) (\<lambda>_.
        bind (hackathon_audit ''HACKATHON_SPONSOR_UPDATE'' i) (\<lambda>_. reload_sponsor i))))))"

definition RemoveSponsor :: "string \<Rightarrow> string \<Rightarrow> unit io" where
  "RemoveSponsor h i = found_sponsor h i (\<lambda>_.
     call (repo_DeleteSponsor i)
       (\<lambda>e. if errors_is e hackathons_ErrNotFound then fail (NotFound ''Sponsor not found'')
            else fail (Internal ''delete sponsor'' e))
       (\<lambda>_. hackathon_audit ''HACKATHON_SPONSOR_DELETE'' i))"

end
