(* ===== verification/HackathonTeams.thy ===== *)
theory HackathonTeams
  imports Hackathons Float64
begin

text \<open>
  The services of \<open>internal/hackathons/teams.go\<close> and \<open>submissions.go\<close>, and the endpoints of
  \<open>internal/handler/hackathons.go\<close> and \<open>hackathons_sub.go\<close> on parsed bodies.
\<close>

section \<open>Teams\<close>

record TeamMemberDTO =
  tmd_ID :: string
  tmd_TeamID :: string
  tmd_UserID :: string
  tmd_Role :: string
  tmd_UserName :: string
  tmd_UserAvatar :: "string option"

record TeamDTO =
  tdo_ID :: string
  tdo_HackathonID :: string
  tdo_Name :: string
  tdo_Slogan :: "string option"
  tdo_CaptainID :: string
  tdo_MemberCount :: int
  tdo_SubmissionCount :: int
  tdo_Members :: "TeamMemberDTO list"
  tdo_CreatedAt :: int

definition dbTeamMemberRowToDTO :: "TeamMember \<times> User \<Rightarrow> TeamMemberDTO" where
  "dbTeamMemberRowToDTO = (\<lambda>(m, u).
     \<lparr> tmd_ID = tmm_ID m, tmd_TeamID = tmm_TeamID m, tmd_UserID = tmm_UserID m, tmd_Role = tmm_Role m,
       tmd_UserName = usr_Name u, tmd_UserAvatar = usr_AvatarUrl u \<rparr>)"

definition hydrateTeam :: "Team \<Rightarrow> TeamDTO io" where
  "hydrateTeam t =
     call (ListMembers (team_ID t)) fail (\<lambda>ms.
     call (CountSubmissionsByTeam (team_ID t)) fail (\<lambda>n.
     ret \<lparr> tdo_ID = team_ID t, tdo_HackathonID = team_HackathonID t, tdo_Name = team_Name t,
           tdo_Slogan = team_Slogan t, tdo_CaptainID = team_CaptainID t,
           tdo_MemberCount = wrap32 (int (length ms)), tdo_SubmissionCount = wrap32 n,
           tdo_Members = map dbTeamMemberRowToDTO ms, tdo_CreatedAt = team_CreatedAt t \<rparr>))"

fun hydrate_teams :: "TeamDTO list \<Rightarrow> Team list \<Rightarrow> TeamDTO list io" where
  "hydrate_teams out [] = ret out"
| "hydrate_teams out (t # ts) =
     call (hydrateTeam t) (\<lambda>e. fail (Internal ''hydrate team'' e)) (\<lambda>dto. hydrate_teams (out @ [dto]) ts)"

definition hackathons_ListTeams :: "string \<Rightarrow> TeamDTO list io" where
  "hackathons_ListTeams h = found_hackathon h (\<lambda>_.
     call (repo_ListTeams h 100) (\<lambda>e. fail (Internal ''list teams'' e)) (hydrate_teams []))"

definition ensureRegistered :: "string \<Rightarrow> string \<Rightarrow> unit io" where
  "ensureRegistered u h = call (GetRegistration h u)
     (\<lambda>e. if errors_is e hackathons_ErrNotFound then fail (Forbidden msg_hack_register_first)
          else fail (Internal ''check registration'' e))
     (\<lambda>r. if hrg_Status r \<noteq> ''registered'' then fail (Forbidden msg_hack_register_first) else ret ())"

text \<open>Nobody joins a second team of a hackathon.\<close>

definition without_team :: "string \<Rightarrow> string \<Rightarrow> 'a io \<Rightarrow> 'a io" where
  "without_team u h k = call (FindMembershipInHackathon u h)
     (\<lambda>e. if errors_is e hackathons_ErrNotFound then k else fail (Internal ''check existing membership'' e))
     (\<lambda>_. fail (BadRequest msg_team_already))"

definition hackathons_CreateTeam :: "string \<Rightarrow> string \<Rightarrow> string \<Rightarrow> string \<Rightarrow> TeamDTO io" where
  "hackathons_CreateTeam u h name slogan =
     (if trim_space name = [] then fail (BadRequest ''name is required'')
      else found_hackathon h (\<lambda>_.
        call (ensureRegistered u h) fail (\<lambda>_.
        call (FindTeamByName h name) (\<lambda>e. fail (Internal ''check team name'' e)) (\<lambda>existing.
        if existing \<noteq> [] then fail (BadRequest msg_team_name_taken)
        else without_team u h (
          call (CreateTeamWithCaptain h name (nullableString slogan) u)
            (\<lambda>e. fail (Internal ''create team'' e)) (\<lambda>(t, _).
          bind (hackathon_audit ''HACKATHON_TEAM_CREATE'' t) (\<lambda>_.
          call (GetTeam t) (\<lambda>e. fail (Internal ''reload team'' e)) hydrateTeam)))))))"

definition team_in_hackathon :: "string \<Rightarrow> string \<Rightarrow> 'a io \<Rightarrow> 'a io" where
  "team_in_hackathon h t k = call (GetTeamHackathonID t)
     (\<lambda>e. if errors_is e hackathons_ErrNotFound then fail (NotFound ''Team not found'')
          else fail (Internal ''lookup team'' e))
     (\<lambda>h'. if h' \<noteq> h then fail (NotFound ''Team not found'') else k)"

definition JoinTeam :: "string \<Rightarrow> string \<Rightarrow> string \<Rightarrow> TeamMemberDTO io" where
  "JoinTeam u h t = found_hackathon h (\<lambda>hk.
     call (ensureRegistered u h) fail (\<lambda>_.
     team_in_hackathon h t (without_team u h (
       call (CountMembers t) (\<lambda>e. fail (Internal ''count team members'' e)) (\<lambda>n.
       if hck_MaxTeamSize hk \<le> wrap32 n then fail (Forbidden msg_team_full)
       else call (AddMember t u ''member'') (\<lambda>e. fail (Internal ''add member'' e)) (\<lambda>i.
         bind (hackathon_audit ''HACKATHON_TEAM_JOIN'' t) (\<lambda>_.
         ret \<lparr> tmd_ID = i, tmd_TeamID = t, tmd_UserID = u, tmd_Role = ''member'', tmd_UserName = [],
               tmd_UserAvatar = None \<rparr>)))))))"

definition LeaveTeam :: "string \<Rightarrow> string \<Rightarrow> string \<Rightarrow> string io" where
  "LeaveTeam u h t = found_hackathon h (\<lambda>_.
     team_in_hackathon h t (
       call (GetMembershipForUserAndTeam t u)
         (\<lambda>e. if errors_is e hackathons_ErrNotFound then fail (BadRequest msg_team_not_member)
              else fail (Internal ''lookup membership'' e)) (\<lambda>m.
       if tmm_Role m = ''captain'' then
         call (repo_DeleteTeam t) (\<lambda>e. fail (Internal ''disband team'' e)) (\<lambda>_.
         bind (hackathon_audit ''HACKATHON_TEAM_DISBAND'' t) (\<lambda>_. ret ''Team disbanded''))
       else
         call (DeleteMember (tmm_ID m)) (\<lambda>e. fail (Internal ''leave team'' e)) (\<lambda>_.
         bind (hackathon_audit ''HACKATHON_TEAM_LEAVE'' t) (\<lambda>_. ret ''Left team'')))))"

section \<open>Submissions\<close>

text \<open>\<open>SubmissionDTO\<close> has the fields of the row but the deletion mark.\<close>

record SubmissionDTO =
  sbd_ID :: string
  sbd_HackathonID :: string
  sbd_TeamID :: "string option"
  sbd_UserID :: "string option"
  sbd_Title :: string
  sbd_Description :: string
  sbd_DemoURL :: "string option"
  sbd_RepoURL :: "string option"
  sbd_VideoURL :: "string option"
  sbd_Status :: string
  sbd_Score :: "string option"
  sbd_Feedback :: "string option"
  sbd_SubmittedAt :: "int option"
  sbd_CreatedAt :: int
  sbd_UpdatedAt :: int

definition toSubmissionDTO :: "Submission \<Rightarrow> SubmissionDTO" where
  "toSubmissionDTO s =
     \<lparr> sbd_ID = sub_ID s, sbd_HackathonID = sub_HackathonID s, sbd_TeamID = sub_TeamID s, sbd_UserID = sub_UserID s,
       sbd_Title = sub_Title s, sbd_Description = sub_Description s, sbd_DemoURL = sub_DemoUrl s,
       sbd_RepoURL = sub_RepoUrl s, sbd_VideoURL = sub_VideoUrl s, sbd_Status = sub_Status s,
       sbd_Score = sub_Score s, sbd_Feedback = sub_Feedback s, sbd_SubmittedAt = sub_SubmittedAt s,
       sbd_CreatedAt = sub_CreatedAt s, sbd_UpdatedAt = sub_UpdatedAt s \<rparr>"

definition hackathons_ListMySubmissions :: "string \<Rightarrow> string \<Rightarrow> SubmissionDTO list io" where
  "hackathons_ListMySubmissions u h = found_hackathon h (\<lambda>_.
     call (repo_ListUserSubmissions u h 100) (\<lambda>e. fail (Internal ''list my submissions'' e))
       (\<lambda>xs. ret (map toSubmissionDTO xs)))"

definition hackathons_ListAllSubmissions :: "string \<Rightarrow> SubmissionDTO list io" where
  "hackathons_ListAllSubmissions h = found_hackathon h (\<lambda>_.
     call (repo_ListAllSubmissions h 200) (\<lambda>e. fail (Internal ''list submissions'' e))
       (\<lambda>xs. ret (map toSubmissionDTO xs)))"

record CreateSubmissionInput =
  sin_Title :: string
  sin_Description :: string
  sin_DemoURL :: string
  sin_RepoURL :: string
  sin_VideoURL :: string
  sin_TeamID :: string
  sin_Status :: string

text \<open>The three addresses are checked in the order of a Go map, which is open; \<open>pick\<close> is that order.\<close>

definition submission_urls :: "CreateSubmissionInput \<Rightarrow> (string \<times> string) list" where
  "submission_urls a = [(''demoUrl'', sin_DemoURL a), (''repoUrl'', sin_RepoURL a), (''videoUrl'', sin_VideoURL a)]"

fun first_error :: "go_error option list \<Rightarrow> go_error option" where
  "first_error [] = None"
| "first_error (Some e # es) = Some e"
| "first_error (None # es) = first_error es"

definition urls_error :: "((string \<times> string) list \<Rightarrow> (string \<times> string) list) \<Rightarrow> uri_parser \<Rightarrow>
    CreateSubmissionInput \<Rightarrow> go_error option" where
  "urls_error pick uri a =
     first_error (map (\<lambda>(field, raw). validateOptionalHTTPURL uri field raw) (pick (submission_urls a)))"

definition submission_status_error :: "string \<Rightarrow> go_error option" where
  "submission_status_error s = (if s \<in> set validSubmissionStatuses then None
     else Some (BadRequest ''status must be one of draft|submitted|under_review|shortlisted|winner|rejected''))"

definition reload_submission :: "string \<Rightarrow> SubmissionDTO io" where
  "reload_submission i =
     call (repo_GetSubmissionByID i) (\<lambda>e. fail (Internal ''reload submission'' e)) (\<lambda>s. ret (toSubmissionDTO s))"

definition submission_owner :: "string \<Rightarrow> string \<Rightarrow> string \<Rightarrow> (string option \<times> string option) io" where
  "submission_owner u h t =
     (if t = [] then ret (None, Some u)
      else team_in_hackathon h t (
        call (GetMembershipForUserAndTeam t u)
          (\<lambda>e. if errors_is e hackathons_ErrNotFound then fail (Forbidden msg_team_not_member)
               else fail (Internal ''check team membership'' e))
          (\<lambda>_. ret (Some t, None))))"

definition hackathons_CreateSubmission :: "((string \<times> string) list \<Rightarrow> (string \<times> string) list) \<Rightarrow> uri_parser \<Rightarrow>
    string \<Rightarrow> string \<Rightarrow> CreateSubmissionInput \<Rightarrow> SubmissionDTO io" where
  "hackathons_CreateSubmission pick uri u h a =
     (if trim_space (sin_Title a) = [] then fail (BadRequest ''title is required'')
      else if trim_space (sin_Description a) = [] then fail (BadRequest ''description is required'')
      else checked_by (urls_error pick uri a) (found_hackathon h (\<lambda>_.
        call (ensureRegistered u h) fail (\<lambda>_.
        call (submission_owner u h (sin_TeamID a)) fail (\<lambda>(team, user).
        let status = (if sin_Status a = [] then ''draft'' else sin_Status a) in
        checked_by (submission_status_error status) (
        bind (if status = ''submitted'' then bind go_now (\<lambda>now. ret (Some now)) else ret None) (\<lambda>submitted.
        call (repo_CreateSubmission
           \<lparr> csr_HackathonID = h, csr_TeamID = team, csr_UserID = user, csr_Title = sin_Title a,
             csr_Description = sin_Description a, csr_DemoURL = nullableString (sin_DemoURL a),
             csr_RepoURL = nullableString (sin_RepoURL a), csr_VideoURL = nullableString (sin_VideoURL a),
             csr_Status = status, csr_SubmittedAt = submitted \<rparr>)
          (\<lambda>e. fail (Internal ''create submission'' e)) (\<lambda>i.
        bind (hackathon_audit ''HACKATHON_SUBMISSION_CREATE'' i) (\<lambda>_. reload_submission i)))))))))"

definition found_submission :: "string \<Rightarrow> string \<Rightarrow> (Submission \<Rightarrow> 'a io) \<Rightarrow> 'a io" where
  "found_submission h i k = call (repo_GetSubmissionByID i)
     (\<lambda>e. if errors_is e hackathons_ErrNotFound then fail (NotFound ''Submission not found'')
          else fail (Internal ''lookup submission'' e))
     (\<lambda>s. if sub_HackathonID s \<noteq> h then fail (NotFound ''Submission not found'') else k s)"

definition owns_submission :: "string \<Rightarrow> Submission \<Rightarrow> bool io" where
  "owns_submission u s =
     (if sub_UserID s = Some u then ret True
      else case sub_TeamID s of
        None \<Rightarrow> ret False
      | Some t \<Rightarrow> call (GetMembershipForUserAndTeam t u)
          (\<lambda>e. if errors_is e hackathons_ErrNotFound then ret False
               else fail (Internal ''check team membership'' e))
          (\<lambda>_. ret True))"

definition merged_submission :: "CreateSubmissionInput \<Rightarrow> string \<Rightarrow> int option \<Rightarrow> Submission \<Rightarrow> UpdateSubmissionRepoInput" where
  "merged_submission a status submitted s =
     \<lparr> ups_Title = (if sin_Title a = [] then sub_Title s else sin_Title a),
       ups_Description = (if sin_Description a = [] then sub_Description s else sin_Description a),
       ups_DemoURL = coalesceString (sin_DemoURL a) (sub_DemoUrl s),
       ups_RepoURL = coalesceString (sin_RepoURL a) (sub_RepoUrl s),
       ups_VideoURL = coalesceString (sin_VideoURL a) (sub_VideoUrl s),
       ups_Status = status, ups_Score = sub_Score s, ups_Feedback = sub_Feedback s, ups_SubmittedAt = submitted \<rparr>"

definition hackathons_UpdateSubmission :: "((string \<times> string) list \<Rightarrow> (string \<times> string) list) \<Rightarrow> uri_parser \<Rightarrow>
    string \<Rightarrow> string \<Rightarrow> string \<Rightarrow> CreateSubmissionInput \<Rightarrow> SubmissionDTO io" where
  "hackathons_UpdateSubmission pick uri u h i a =
     checked_by (urls_error pick uri a) (found_hackathon h (\<lambda>_. found_submission h i (\<lambda>s.
       call (owns_submission u s) fail (\<lambda>own.
       if \<not> own then fail (NotFound ''Submission not found'')
       else let status = (if sin_Status a = [] then sub_Status s else sin_Status a) in
         checked_by (submission_status_error status) (
         bind (if status = ''submitted'' \<and> sub_SubmittedAt s = None then bind go_now (\<lambda>now. ret (Some now))
               else ret (sub_SubmittedAt s)) (\<lambda>submitted.
         call (repo_UpdateSubmission i (merged_submission a status submitted s))
           (\<lambda>e. fail (Internal ''update submission'' e)) (\<lambda>_.
         bind (hackathon_audit ''HACKATHON_SUBMISSION_UPDATE'' i) (\<lambda>_. reload_submission i))))))))"

record JudgeSubmissionInput =
  jsi_Score :: "dbl option"
  jsi_Feedback :: string
  jsi_Status :: string

text \<open>\<open>v == float64(int64(v))\<close> between 0 and 100 means that \<open>v\<close> is a whole number.\<close>

definition score_ok :: "dbl \<Rightarrow> bool" where
  "score_ok v \<longleftrightarrow> \<not> v < 0 \<and> \<not> dbl_of_int 100 < v \<and> v = dbl_of_int (dbl_trunc v)"

definition judged_submission :: "JudgeSubmissionInput \<Rightarrow> dbl \<Rightarrow> string \<Rightarrow> Submission \<Rightarrow> UpdateSubmissionRepoInput" where
  "judged_submission a v status s =
     \<lparr> ups_Title = sub_Title s, ups_Description = sub_Description s, ups_DemoURL = sub_DemoUrl s,
       ups_RepoURL = sub_RepoUrl s, ups_VideoURL = sub_VideoUrl s, ups_Status = status,
       ups_Score = Some (fmt_2f v), ups_Feedback = coalesceString (jsi_Feedback a) (sub_Feedback s),
       ups_SubmittedAt = sub_SubmittedAt s \<rparr>"

definition hackathons_JudgeSubmission :: "string \<Rightarrow> string \<Rightarrow> JudgeSubmissionInput \<Rightarrow> SubmissionDTO io" where
  "hackathons_JudgeSubmission h i a = found_hackathon h (\<lambda>_. found_submission h i (\<lambda>s.
     case jsi_Score a of
       None \<Rightarrow> fail (BadRequest ''score is required'')
     | Some v \<Rightarrow>
         if \<not> score_ok v then fail (BadRequest ''score must be an integer between 0 and 100'')
         else let status = (if jsi_Status a = [] then ''under_review'' else jsi_Status a) in
           checked_by (submission_status_error status) (
           call (repo_UpdateSubmission i (judged_submission a v status s))
             (\<lambda>e. fail (Internal ''judge submission'' e)) (\<lambda>_.
           bind (hackathon_audit ''HACKATHON_SUBMISSION_JUDGE'' i) (\<lambda>_. reload_submission i)))))"

section \<open>Endpoints\<close>

definition caller_id :: "Claims option \<Rightarrow> string" where
  "caller_id claims = (case claims of None \<Rightarrow> [] | Some k \<Rightarrow> clm_UserID k)"

definition h_hack_list :: "Claims option \<Rightarrow> string \<Rightarrow> string \<Rightarrow> HackathonDTO list io" where
  "h_hack_list claims status search = hackathons_List status search (caller_id claims)"

definition h_hack_get :: "Claims option \<Rightarrow> string \<Rightarrow> HackathonDTO io" where
  "h_hack_get claims h = GetForUser h (caller_id claims) True"

definition h_hack_create :: "uri_parser \<Rightarrow> Claims option \<Rightarrow> hackathons_CreateInput option \<Rightarrow> HackathonDTO io" where
  "h_hack_create uri claims body = admin_only claims (with_claims claims (\<lambda>k. with_body body (\<lambda>a.
     hackathons_Create uri a (clm_UserID k))))"

definition h_hack_update :: "uri_parser \<Rightarrow> Claims option \<Rightarrow> string \<Rightarrow> hackathons_CreateInput option \<Rightarrow> HackathonDTO io" where
  "h_hack_update uri claims h body = admin_only claims (with_body body (hackathons_Update uri h))"

definition h_hack_delete :: "Claims option \<Rightarrow> string \<Rightarrow> string io" where
  "h_hack_delete claims h = admin_only claims (call (hackathons_Delete h) fail (\<lambda>_. ret ''Hackathon deleted''))"

definition h_hack_register :: "Claims option \<Rightarrow> string \<Rightarrow> RegistrationDTO io" where
  "h_hack_register claims h = with_claims claims (\<lambda>k. hackathons_Register (clm_UserID k) h)"

definition h_hack_cancel :: "Claims option \<Rightarrow> string \<Rightarrow> RegistrationDTO io" where
  "h_hack_cancel claims h = with_claims claims (\<lambda>k. hackathons_CancelRegistration (clm_UserID k) h)"

definition h_hack_myRegistration :: "Claims option \<Rightarrow> string \<Rightarrow> RegistrationDTO option io" where
  "h_hack_myRegistration claims h = with_claims claims (\<lambda>k. MyRegistration (clm_UserID k) h)"

definition h_hack_listAnnouncements :: "string \<Rightarrow> Announcement list io" where
  "h_hack_listAnnouncements h = hackathons_ListAnnouncements h"

definition h_hack_createAnnouncement :: "Claims option \<Rightarrow> string \<Rightarrow> (string \<times> string \<times> bool) option \<Rightarrow> Announcement io" where
  "h_hack_createAnnouncement claims h body = admin_only claims (with_claims claims (\<lambda>k. with_body body
     (\<lambda>(title, content, pinned). hackathons_CreateAnnouncement h (clm_UserID k) title content pinned)))"

definition h_hack_listTeams :: "string \<Rightarrow> TeamDTO list io" where
  "h_hack_listTeams h = hackathons_ListTeams h"

definition h_hack_createTeam :: "Claims option \<Rightarrow> string \<Rightarrow> (string \<times> string) option \<Rightarrow> TeamDTO io" where
  "h_hack_createTeam claims h body = with_claims claims (\<lambda>k. with_body body
     (\<lambda>(name, slogan). hackathons_CreateTeam (clm_UserID k) h name slogan))"

definition h_hack_joinTeam :: "Claims option \<Rightarrow> string \<Rightarrow> string \<Rightarrow> TeamMemberDTO io" where
  "h_hack_joinTeam claims h t = with_claims claims (\<lambda>k. JoinTeam (clm_UserID k) h t)"

definition h_hack_leaveTeam :: "Claims option \<Rightarrow> string \<Rightarrow> string \<Rightarrow> string io" where
  "h_hack_leaveTeam claims h t = with_claims claims (\<lambda>k. LeaveTeam (clm_UserID k) h t)"

definition h_hack_listMySubmissions :: "Claims option \<Rightarrow> string \<Rightarrow> SubmissionDTO list io" where
  "h_hack_listMySubmissions claims h = with_claims claims (\<lambda>k. hackathons_ListMySubmissions (clm_UserID k) h)"

definition h_hack_listAllSubmissions :: "Claims option \<Rightarrow> string \<Rightarrow> SubmissionDTO list io" where
  "h_hack_listAllSubmissions claims h = admin_only claims (hackathons_ListAllSubmissions h)"

definition h_hack_createSubmission :: "((string \<times> string) list \<Rightarrow> (string \<times> string) list) \<Rightarrow> uri_parser \<Rightarrow>
    Claims option \<Rightarrow> string \<Rightarrow> CreateSubmissionInput option \<Rightarrow> SubmissionDTO io" where
  "h_hack_createSubmission pick uri claims h body = with_claims claims (\<lambda>k. with_body body
     (hackathons_CreateSubmission pick uri (clm_UserID k) h))"

definition h_hack_updateSubmission :: "((string \<times> string) list \<Rightarrow> (string \<times> string) list) \<Rightarrow> uri_parser \<Rightarrow>
    Claims option \<Rightarrow> string \<Rightarrow> string \<Rightarrow> CreateSubmissionInput option \<Rightarrow> SubmissionDTO io" where
  "h_hack_updateSubmission pick uri claims h i body = with_claims claims (\<lambda>k. with_body body
     (hackathons_UpdateSubmission pick uri (clm_UserID k) h i))"

definition h_hack_judgeSubmission :: "Claims option \<Rightarrow> string \<Rightarrow> string \<Rightarrow> JudgeSubmissionInput option \<Rightarrow> SubmissionDTO io" where
  "h_hack_judgeSubmission claims h i body = admin_only claims (with_body body (hackathons_JudgeSubmission h i))"

definition h_hack_listJudges :: "string \<Rightarrow> JudgeDTO list io" where
  "h_hack_listJudges h = hackathons_ListJudges h"

definition h_hack_addJudge :: "uri_parser \<Rightarrow> Claims option \<Rightarrow> string \<Rightarrow> AddJudgeInput option \<Rightarrow> JudgeDTO io" where
  "h_hack_addJudge uri claims h body = admin_only claims (with_body body (AddJudge uri h))"

definition h_hack_updateJudge :: "uri_parser \<Rightarrow> Claims option \<Rightarrow> string \<Rightarrow> string \<Rightarrow> AddJudgeInput option \<Rightarrow> JudgeDTO io" where
  "h_hack_updateJudge uri claims h i body = admin_only claims (with_body body (hackathons_UpdateJudge uri h i))"

definition h_hack_removeJudge :: "Claims option \<Rightarrow> string \<Rightarrow> string \<Rightarrow> string io" where
  "h_hack_removeJudge claims h i = admin_only claims (call (RemoveJudge h i) fail (\<lambda>_. ret ''Judge deleted''))"

definition h_hack_listSponsors :: "string \<Rightarrow> SponsorDTO list io" where
  "h_hack_listSponsors h = hackathons_ListSponsors h"

definition h_hack_addSponsor :: "uri_parser \<Rightarrow> Claims option \<Rightarrow> string \<Rightarrow> AddSponsorInput option \<Rightarrow> SponsorDTO io" where
  "h_hack_addSponsor uri claims h body = admin_only claims (with_body body (AddSponsor uri h))"

definition h_hack_updateSponsor :: "uri_parser \<Rightarrow> Claims option \<Rightarrow> string \<Rightarrow> string \<Rightarrow> AddSponsorInput option \<Rightarrow> SponsorDTO io" where
  "h_hack_updateSponsor uri claims h i body = admin_only claims (with_body body (hackathons_UpdateSponsor uri h i))"

definition h_hack_removeSponsor :: "Claims option \<Rightarrow> string \<Rightarrow> string \<Rightarrow> string io" where
  "h_hack_removeSponsor claims h i = admin_only claims (call (RemoveSponsor h i) fail (\<lambda>_. ret ''Sponsor deleted''))"

end
