(* ===== verification/HackathonFacts.thy ===== *)
theory HackathonFacts
  imports HackathonTeams Demo
begin

text \<open>
  What the hackathon endpoints keep: the writes of the module as a locale over any relation its statements
  obey, and the well-formedness of its eight tables as an instance.
\<close>

section \<open>The writes of the module\<close>

definition chi_ok :: "CreateHackathonInput \<Rightarrow> bool" where
  "chi_ok a \<longleftrightarrow> chi_StartDate a < chi_EndDate a \<and> 1 \<le> chi_MinTeamSize a \<and>
     chi_MinTeamSize a \<le> chi_MaxTeamSize a \<and> chi_MaxTeamSize a \<le> 20"

locale hackathon_writes = db_frame +
  assumes ok_insert_hackathon: "chi_ok a \<Longrightarrow> stmt_ok R (insert_hackathon (new_hackathon a i now))"
    and ok_update_hackathon: "chi_ok a \<Longrightarrow> stmt_ok R (sql_update_hackathon (patched_hackathon a now) i)"
    and ok_cancel_hackathon: "stmt_ok R (sql_update_hackathon (cancelled_hackathon now) i)"
    and ok_upsert: "stmt_ok R (sql_upsert_registration i h u now)"
    and ok_withdraw: "stmt_ok R (sql_cancel_registration (Some now) h u)"
    and ok_announcement: "stmt_ok R (insert_announcement n)"
    and ok_team: "stmt_ok R (insert_team t)"
    and ok_member: "stmt_ok R (insert_team_member m)"
    and ok_delete_team: "stmt_ok R (sql_delete_team i)"
    and ok_delete_member: "stmt_ok R (sql_delete_team_member i)"
    and ok_submission: "stmt_ok R (insert_submission (new_submission c i now))"
    and ok_update_submission: "stmt_ok R (sql_update_submission (patched_submission p now) i)"
    and ok_judge: "cji_Role j \<in> set validJudgeRoles \<Longrightarrow> stmt_ok R (insert_judge (new_judge j i))"
    and ok_update_judge: "role \<in> set validJudgeRoles \<Longrightarrow> stmt_ok R (sql_update_judge (patched_judge b name role old) i)"
    and ok_delete_judge: "stmt_ok R (sql_delete_judge i)"
    and ok_sponsor: "csp_Tier s \<in> set validSponsorTiers \<Longrightarrow> stmt_ok R (insert_sponsor (new_sponsor s i now))"
    and ok_update_sponsor: "tier \<in> set validSponsorTiers \<Longrightarrow>
          stmt_ok R (sql_update_sponsor (patched_sponsor sp name tier olds now) i)"
    and ok_delete_sponsor: "stmt_ok R (sql_delete_sponsor i)"
    and ok_hackathon_audit: "stmt_ok R (insert_audit_log l)"
begin

lemma within_checked: "(c = None \<Longrightarrow> within (db_step R) k) \<Longrightarrow> within (db_step R) (checked_by c k)"
  unfolding checked_by_def by (cases c) (auto intro: within_intros)

lemma within_hackathon_audit: "within (db_step R) (hackathon_audit action i)"
  unfolding hackathon_audit_def server_audit_def by (intro within_intros ok_hackathon_audit)

lemma within_hack_missing: "within (db_step R) (hack_missing what e)"
  unfolding hack_missing_def by (intro within_intros)

lemma within_hackathon_reads:
  "within (db_step R) (hackathons_repo_List u search n)" "within (db_step R) (GetResponseByID i u)"
  "within (db_step R) (hackathons_repo_GetByID i)" "within (db_step R) (GetRegistration h u)"
  "within (db_step R) (GetRegistrationIncludingCancelled h u)" "within (db_step R) (repo_ListAnnouncements h n)"
  "within (db_step R) (repo_ListTeams h n)" "within (db_step R) (GetTeam i)" "within (db_step R) (ListMembers i)"
  "within (db_step R) (CountMembers i)" "within (db_step R) (CountSubmissionsByTeam i)"
  "within (db_step R) (FindMembershipInHackathon u h)" "within (db_step R) (GetMembershipForUserAndTeam i u)"
  "within (db_step R) (FindTeamByName h name)" "within (db_step R) (GetTeamHackathonID i)"
  "within (db_step R) (repo_GetSubmissionByID i)" "within (db_step R) (repo_ListAllSubmissions h n)"
  "within (db_step R) (repo_ListUserSubmissions u h n)" "within (db_step R) (repo_ListJudges h n)"
  "within (db_step R) (GetJudge i)" "within (db_step R) (repo_ListSponsors h n)" "within (db_step R) (GetSponsor i)"
  unfolding hackathons_repo_List_def GetResponseByID_def hackathons_repo_GetByID_def GetRegistration_def
    GetRegistrationIncludingCancelled_def repo_ListAnnouncements_def repo_ListTeams_def GetTeam_def
    ListMembers_def CountMembers_def CountSubmissionsByTeam_def FindMembershipInHackathon_def
    GetMembershipForUserAndTeam_def FindTeamByName_def GetTeamHackathonID_def repo_GetSubmissionByID_def
    repo_ListAllSubmissions_def repo_ListUserSubmissions_def repo_ListJudges_def GetJudge_def
    repo_ListSponsors_def GetSponsor_def q_ListHackathonResponseRows_def q_GetHackathonResponseRow_def
    q_GetHackathonByID_def q_GetRegistration_def q_GetRegistrationIncludingCancelled_def q_ListAnnouncements_def
    q_ListTeamsByHackathon_def q_GetTeamByID_def q_ListTeamMembersByTeam_def q_CountTeamMembers_def
    q_FindTeamMembershipForUserInHackathon_def q_GetTeamMemberForUserAndTeam_def q_FindTeamByHackathonAndName_def
    q_GetSubmissionByID_def q_ListSubmissionsByHackathon_def q_ListMySubmissions_def q_ListJudgesByHackathon_def
    q_GetJudgeByID_def q_ListSponsorsByHackathon_def q_GetSponsorByID_def
  by (intro within_intros within_hack_missing)+

lemma within_hackathon_repo:
  "chi_ok a \<Longrightarrow> within (db_step R) (hackathons_repo_Create a)"
  "chi_ok a \<Longrightarrow> within (db_step R) (hackathons_repo_Update i a)"
  "within (db_step R) (hackathons_repo_SoftDelete i)" "within (db_step R) (repo_UpsertRegistration h u)"
  "within (db_step R) (repo_CancelRegistration h u)" "within (db_step R) (repo_CreateAnnouncement h title txt pinned)"
  "within (db_step R) (CreateTeamWithCaptain h name slogan u)" "within (db_step R) (AddMember i u role)"
  "within (db_step R) (DeleteMember i)" "within (db_step R) (repo_DeleteTeam i)"
  "within (db_step R) (repo_CreateSubmission c)" "within (db_step R) (repo_UpdateSubmission i p)"
  "cji_Role j \<in> set validJudgeRoles \<Longrightarrow> within (db_step R) (repo_CreateJudge j)"
  "role' \<in> set validJudgeRoles \<Longrightarrow> within (db_step R) (repo_UpdateJudge i (patched_judge b name role' old))"
  "within (db_step R) (repo_DeleteJudge i)"
  "csp_Tier s \<in> set validSponsorTiers \<Longrightarrow> within (db_step R) (repo_CreateSponsor s)"
  "tier \<in> set validSponsorTiers \<Longrightarrow> within (db_step R) (repo_UpdateSponsor i (patched_sponsor sp name tier olds))"
  "within (db_step R) (repo_DeleteSponsor i)"
  unfolding hackathons_repo_Create_def hackathons_repo_Update_def hackathons_repo_SoftDelete_def
    repo_UpsertRegistration_def repo_CancelRegistration_def repo_CreateAnnouncement_def CreateTeamWithCaptain_def
    AddMember_def DeleteMember_def repo_DeleteTeam_def repo_CreateSubmission_def repo_UpdateSubmission_def
    repo_CreateJudge_def repo_UpdateJudge_def repo_DeleteJudge_def repo_CreateSponsor_def repo_UpdateSponsor_def
    repo_DeleteSponsor_def q_CreateHackathon_def q_UpdateHackathon_def q_SoftDeleteHackathon_def
    q_UpsertRegistration_def q_CancelRegistration_def q_CreateAnnouncement_def q_CreateTeam_def
    q_CreateTeamMember_def q_DeleteTeam_def q_DeleteTeamMember_def q_CreateSubmission_def q_UpdateSubmission_def
    q_CreateJudge_def q_UpdateJudge_def q_DeleteJudge_def q_CreateSponsor_def q_UpdateSponsor_def q_DeleteSponsor_def
  by (intro within_intros ok_insert_hackathon ok_update_hackathon ok_cancel_hackathon ok_upsert ok_withdraw
      ok_announcement ok_team ok_member ok_delete_team ok_delete_member ok_submission ok_update_submission
      ok_judge ok_update_judge ok_delete_judge ok_sponsor ok_update_sponsor ok_delete_sponsor, assumption?)+

lemma within_found:
  "(\<And>r. within (db_step R) (k r)) \<Longrightarrow> within (db_step R) (found_hackathon h k)"
  "(\<And>r. within (db_step R) (kj r)) \<Longrightarrow> within (db_step R) (found_judge h i kj)"
  "(\<And>r. within (db_step R) (ks r)) \<Longrightarrow> within (db_step R) (found_sponsor h i ks)"
  "(\<And>r. within (db_step R) (kx r)) \<Longrightarrow> within (db_step R) (found_submission h i kx)"
  "within (db_step R) m \<Longrightarrow> within (db_step R) (team_in_hackathon h i m)"
  "within (db_step R) m \<Longrightarrow> within (db_step R) (without_team u h m)"
  unfolding found_hackathon_def found_judge_def found_sponsor_def found_submission_def team_in_hackathon_def
    without_team_def
  by (intro within_intros within_hackathon_reads; assumption?)+

lemma within_hackathon_parts:
  "within (db_step R) (hackathon_reload i)" "within (db_step R) (register_now u h)"
  "within (db_step R) (reload_judge i)" "within (db_step R) (reload_sponsor i)"
  "within (db_step R) (hydrateTeam t)" "within (db_step R) (ensureRegistered u h)"
  "within (db_step R) (reload_submission i)" "within (db_step R) (submission_owner u h i)"
  "within (db_step R) (owns_submission u x)"
  unfolding hackathon_reload_def register_now_def reload_judge_def reload_sponsor_def hydrateTeam_def
    ensureRegistered_def reload_submission_def submission_owner_def owns_submission_def
  by (intro within_intros within_hackathon_reads within_hackathon_repo within_found)+

lemma within_hydrate_teams: "within (db_step R) (hydrate_teams out ts)"
  by (induction out ts rule: hydrate_teams.induct) (auto intro!: within_intros within_hackathon_parts)

lemma team_sizes_ok: "team_sizes least most = None \<Longrightarrow> 1 \<le> least \<and> least \<le> most \<and> most \<le> 20"
  by (auto simp: team_sizes_def split: if_splits)

lemma within_hackathons_Create: "within (db_step R) (hackathons_Create uri a u)"
  unfolding hackathons_Create_def Let_def
  by (intro within_intros within_checked within_hackathon_repo within_hackathon_audit within_hackathon_parts)
    (auto simp: chi_ok_def with_defaults_def dest: team_sizes_ok)

lemma within_hackathons_Update: "within (db_step R) (hackathons_Update uri i a)"
  unfolding hackathons_Update_def Let_def
  by (intro within_intros within_found within_checked within_hackathon_repo within_hackathon_audit
      within_hackathon_parts) (auto simp: chi_ok_def dest: team_sizes_ok)

lemma within_panel:
  "within (db_step R) (AddJudge uri h b)" "within (db_step R) (hackathons_UpdateJudge uri h i b)"
  "within (db_step R) (RemoveJudge h i)"
  "within (db_step R) (AddSponsor uri h sp)" "within (db_step R) (hackathons_UpdateSponsor uri h i sp)"
  "within (db_step R) (RemoveSponsor h i)"
  unfolding AddJudge_def hackathons_UpdateJudge_def RemoveJudge_def AddSponsor_def hackathons_UpdateSponsor_def
    RemoveSponsor_def Let_def
  by (intro within_intros within_found within_checked within_hackathon_repo within_hackathon_audit
      within_hackathon_parts; auto simp: judge_role_error_def tier_error_def split: if_splits)+

lemma within_hackathon_endpoints:
  "within (db_step R) (h_hack_create uri cl hb)" "within (db_step R) (h_hack_update uri cl h hb)"
  "within (db_step R) (h_hack_delete cl h)" "within (db_step R) (h_hack_register cl h)"
  "within (db_step R) (h_hack_cancel cl h)" "within (db_step R) (h_hack_createAnnouncement cl h ab)"
  "within (db_step R) (h_hack_createTeam cl h tb)" "within (db_step R) (h_hack_joinTeam cl h t)"
  "within (db_step R) (h_hack_leaveTeam cl h t)" "within (db_step R) (h_hack_createSubmission pick uri cl h sb)"
  "within (db_step R) (h_hack_updateSubmission pick uri cl h i sb)"
  "within (db_step R) (h_hack_judgeSubmission cl h i jb)" "within (db_step R) (h_hack_addJudge uri cl h pb)"
  "within (db_step R) (h_hack_updateJudge uri cl h i pb)" "within (db_step R) (h_hack_removeJudge cl h i)"
  "within (db_step R) (h_hack_addSponsor uri cl h qb)" "within (db_step R) (h_hack_updateSponsor uri cl h i qb)"
  "within (db_step R) (h_hack_removeSponsor cl h i)"
  unfolding h_hack_create_def h_hack_update_def h_hack_delete_def h_hack_register_def h_hack_cancel_def
    h_hack_createAnnouncement_def h_hack_createTeam_def h_hack_joinTeam_def h_hack_leaveTeam_def
    h_hack_createSubmission_def h_hack_updateSubmission_def h_hack_judgeSubmission_def h_hack_addJudge_def
    h_hack_updateJudge_def h_hack_removeJudge_def h_hack_addSponsor_def h_hack_updateSponsor_def
    h_hack_removeSponsor_def hackathons_Delete_def hackathons_Register_def hackathons_CancelRegistration_def
    hackathons_CreateAnnouncement_def hackathons_CreateTeam_def JoinTeam_def LeaveTeam_def
    hackathons_CreateSubmission_def hackathons_UpdateSubmission_def hackathons_JudgeSubmission_def Let_def
    case_prod_unfold
  by (intro http_intros within_found within_checked within_hackathons_Create within_hackathons_Update within_panel
      within_hackathon_repo within_hackathon_reads within_hackathon_audit within_hackathon_parts)+

end

section \<open>The tables\<close>

definition hrg_conflict :: "HackathonRegistration \<Rightarrow> HackathonRegistration \<Rightarrow> bool" where
  "hrg_conflict r s \<longleftrightarrow> hrg_ID r = hrg_ID s \<or> (hrg_HackathonID r = hrg_HackathonID s \<and> hrg_UserID r = hrg_UserID s)"

definition hck_ok :: "Hackathon \<Rightarrow> bool" where
  "hck_ok h \<longleftrightarrow> hck_Status h \<in> set validStatuses \<and> hck_StartDate h < hck_EndDate h \<and> 1 \<le> hck_MinTeamSize h \<and>
     hck_MinTeamSize h \<le> hck_MaxTeamSize h \<and> hck_MaxTeamSize h \<le> 20"

definition own_rows :: "database \<Rightarrow> bool" where
  "own_rows d \<longleftrightarrow>
     distinct (map hck_ID (t_hackathons d)) \<and> list_all hck_ok (t_hackathons d) \<and>
     no_conflicts hrg_conflict (t_hackathon_registrations d) \<and>
     list_all (\<lambda>r. hrg_Status r = ''cancelled'' \<longleftrightarrow> hrg_DeletedAt r \<noteq> None) (t_hackathon_registrations d) \<and>
     distinct (map team_ID (t_teams d)) \<and>
     no_conflicts tmm_conflict (t_team_members d) \<and>
     list_all (\<lambda>m. tmm_Role m \<in> set [''captain'', ''member'']) (t_team_members d) \<and>
     distinct (map sub_ID (t_submissions d)) \<and>
     list_all (\<lambda>s. sub_Status s \<in> set validSubmissionStatuses) (t_submissions d) \<and>
     list_all (\<lambda>j. jdg_Role j \<in> set validJudgeRoles) (t_judges d) \<and>
     list_all (\<lambda>s. spn_Tier s \<in> set validSponsorTiers) (t_sponsors d)"

definition linked_rows :: "database \<Rightarrow> bool" where
  "linked_rows d \<longleftrightarrow>
     list_all (\<lambda>r. hackathon_exists d (hrg_HackathonID r)) (t_hackathon_registrations d) \<and>
     list_all (\<lambda>a. hackathon_exists d (ann_HackathonID a)) (t_announcements d) \<and>
     list_all (\<lambda>t. hackathon_exists d (team_HackathonID t)) (t_teams d) \<and>
     list_all (\<lambda>m. team_exists d (tmm_TeamID m)) (t_team_members d) \<and>
     list_all (\<lambda>s. hackathon_exists d (sub_HackathonID s)) (t_submissions d) \<and>
     list_all (\<lambda>s. \<forall>t \<in> set_option (sub_TeamID s). team_exists d t) (t_submissions d) \<and>
     list_all (\<lambda>j. hackathon_exists d (jdg_HackathonID j)) (t_judges d) \<and>
     list_all (\<lambda>s. hackathon_exists d (spn_HackathonID s)) (t_sponsors d)"

definition hackathon_tables :: "database \<Rightarrow> bool" where
  "hackathon_tables d \<longleftrightarrow> own_rows d \<and> linked_rows d"

lemma hrg_conflict_sym: "hrg_conflict x r = hrg_conflict r x"
  by (auto simp: hrg_conflict_def)

lemma tmm_conflict_sym: "tmm_conflict x r = tmm_conflict r x"
  by (auto simp: tmm_conflict_def)

text \<open>A statement that writes one table only needs its effect on that table looked at.\<close>

lemma tables_registrations:
  assumes "hackathon_tables d" "no_conflicts hrg_conflict rs"
    "list_all (\<lambda>r. hrg_Status r = ''cancelled'' \<longleftrightarrow> hrg_DeletedAt r \<noteq> None) rs"
    "list_all (\<lambda>r. hackathon_exists d (hrg_HackathonID r)) rs"
  shows "hackathon_tables (d\<lparr>t_hackathon_registrations := rs\<rparr>)"
  using assms by (simp add: hackathon_tables_def own_rows_def linked_rows_def hackathon_exists_def team_exists_def)

lemma tables_submissions:
  assumes "hackathon_tables d" "distinct (map sub_ID xs)"
    "list_all (\<lambda>s. sub_Status s \<in> set validSubmissionStatuses) xs"
    "list_all (\<lambda>s. hackathon_exists d (sub_HackathonID s)) xs"
    "list_all (\<lambda>s. \<forall>t \<in> set_option (sub_TeamID s). team_exists d t) xs"
  shows "hackathon_tables (d\<lparr>t_submissions := xs\<rparr>)"
  using assms by (simp add: hackathon_tables_def own_rows_def linked_rows_def hackathon_exists_def team_exists_def)

lemma tables_members:
  assumes "hackathon_tables d" "no_conflicts tmm_conflict ms"
    "list_all (\<lambda>m. tmm_Role m \<in> set [''captain'', ''member'']) ms" "list_all (\<lambda>m. team_exists d (tmm_TeamID m)) ms"
  shows "hackathon_tables (d\<lparr>t_team_members := ms\<rparr>)"
  using assms by (simp add: hackathon_tables_def own_rows_def linked_rows_def hackathon_exists_def team_exists_def)

lemma tables_judges:
  assumes "hackathon_tables d" "list_all (\<lambda>j. jdg_Role j \<in> set validJudgeRoles) js"
    "list_all (\<lambda>j. hackathon_exists d (jdg_HackathonID j)) js"
  shows "hackathon_tables (d\<lparr>t_judges := js\<rparr>)"
  using assms by (simp add: hackathon_tables_def own_rows_def linked_rows_def hackathon_exists_def team_exists_def)

lemma tables_sponsors:
  assumes "hackathon_tables d" "list_all (\<lambda>s. spn_Tier s \<in> set validSponsorTiers) xs"
    "list_all (\<lambda>s. hackathon_exists d (spn_HackathonID s)) xs"
  shows "hackathon_tables (d\<lparr>t_sponsors := xs\<rparr>)"
  using assms by (simp add: hackathon_tables_def own_rows_def linked_rows_def hackathon_exists_def team_exists_def)

text \<open>More hackathons, or changed ones under the same ids, keep every reference.\<close>

lemma linked_hackathons:
  assumes "linked_rows d" "hck_ID ` set (t_hackathons d) \<subseteq> hck_ID ` set hs"
  shows "linked_rows (d\<lparr>t_hackathons := hs\<rparr>)"
proof -
  have "hackathon_exists d i \<Longrightarrow> hackathon_exists (d\<lparr>t_hackathons := hs\<rparr>) i" for i
    using assms(2) by (fastforce simp: hackathon_exists_def list_ex_iff)
  with assms(1) show ?thesis by (auto simp: linked_rows_def list_all_iff team_exists_def)
qed

lemma tables_hackathons:
  assumes "hackathon_tables d" "distinct (map hck_ID hs)" "list_all hck_ok hs"
    "hck_ID ` set (t_hackathons d) \<subseteq> hck_ID ` set hs"
  shows "hackathon_tables (d\<lparr>t_hackathons := hs\<rparr>)"
  using assms linked_hackathons by (simp add: hackathon_tables_def own_rows_def)

lemmas tables_defs = hackathon_tables_def own_rows_def linked_rows_def

lemma hackathon_stmts:
  "chi_ok a \<Longrightarrow> stmt_ok (preserves hackathon_tables) (insert_hackathon (new_hackathon a i now))"
  "chi_ok a \<Longrightarrow> stmt_ok (preserves hackathon_tables) (sql_update_hackathon (patched_hackathon a now) i)"
  "stmt_ok (preserves hackathon_tables) (sql_update_hackathon (cancelled_hackathon now) i)"
proof -
  show "stmt_ok (preserves hackathon_tables) (insert_hackathon (new_hackathon a i now))" if "chi_ok a"
  proof -
    let ?x = "new_hackathon a i now"
    have x: "hck_ID ?x = i" "hck_Status ?x \<in> set validStatuses \<Longrightarrow> hck_ok ?x"
      using that by (auto simp: new_hackathon_def chi_ok_def hck_ok_def)
    have "hackathon_tables (d\<lparr>t_hackathons := t_hackathons d @ [?x]\<rparr>)"
      if "hackathon_tables d" "hck_Status ?x \<in> set validStatuses" "i \<notin> hck_ID ` set (t_hackathons d)" for d
      using that x by (intro tables_hackathons) (auto simp: tables_defs)
    then show ?thesis
      by (auto simp: stmt_ok_def preserves_def insert_hackathon_def x list_ex_iff image_iff split: if_splits)
  qed
  have upd: "stmt_ok (preserves hackathon_tables) (sql_update_hackathon f i)"
    if f: "\<And>r. hck_ID (f r) = hck_ID r" "\<And>r. hck_ok r \<Longrightarrow> hck_Status (f r) \<in> set validStatuses \<Longrightarrow> hck_ok (f r)"
    for f :: "Hackathon \<Rightarrow> Hackathon"
  proof -
    have ids: "map hck_ID (upd P f rs) = map hck_ID rs" for P rs by (rule map_upd_frame) (simp add: f)
    have ids': "hck_ID ` set (upd P f rs) = hck_ID ` set rs" for P rs by (metis ids set_map)
    have "hackathon_tables (d\<lparr>t_hackathons := upd (\<lambda>r. hck_ID r = i) f (t_hackathons d)\<rparr>)"
      if "hackathon_tables d" "first_row (\<lambda>r. hck_ID r = i) (t_hackathons d) = Some r"
        "hck_Status (f r) \<in> set validStatuses" for d r
    proof (rule tables_hackathons [OF that(1)])
      have "r' = r" if "r' \<in> set (t_hackathons d)" "hck_ID r' = i" for r'
        using that \<open>hackathon_tables d\<close> first_row_Some [OF \<open>first_row _ _ = _\<close>]
        by (auto simp: tables_defs distinct_map inj_on_def)
      then show "list_all hck_ok (upd (\<lambda>r. hck_ID r = i) f (t_hackathons d))"
        using that f(2) by (auto simp: tables_defs intro!: list_all_upd)
    qed (use that in \<open>simp_all add: ids ids' tables_defs\<close>)
    then show ?thesis
      by (auto simp: stmt_ok_def preserves_def sql_update_hackathon_def split: option.splits if_splits)
  qed
  show "stmt_ok (preserves hackathon_tables) (sql_update_hackathon (patched_hackathon a now) i)" if "chi_ok a"
    by (rule upd) (use that in \<open>auto simp: patched_hackathon_def new_hackathon_def hck_ok_def chi_ok_def\<close>)
  show "stmt_ok (preserves hackathon_tables) (sql_update_hackathon (cancelled_hackathon now) i)"
    by (rule upd) (auto simp: cancelled_hackathon_def hck_ok_def)
qed

lemma registration_stmts:
  "stmt_ok (preserves hackathon_tables) (sql_upsert_registration i h u now)"
  "stmt_ok (preserves hackathon_tables) (sql_cancel_registration (Some now) h u)"
proof -
  have re: "hackathon_tables (d\<lparr>t_hackathon_registrations := upd P reactivated (t_hackathon_registrations d)\<rparr>)"
    and wi: "hackathon_tables (d\<lparr>t_hackathon_registrations := upd P (withdrawn (Some now)) (t_hackathon_registrations d)\<rparr>)"
    if "hackathon_tables d" for d P
    using that by (intro tables_registrations list_all_upd;
        auto simp: tables_defs reactivated_def withdrawn_def no_conflicts_upd hrg_conflict_def)+
  have new: "hackathon_tables (d\<lparr>t_hackathon_registrations := t_hackathon_registrations d @ [new_registration i h u now]\<rparr>)"
    if "hackathon_tables d" "\<not> list_ex (\<lambda>r. hrg_ID r = i) (t_hackathon_registrations d)"
      "\<not> list_ex (\<lambda>r. hrg_HackathonID r = h \<and> hrg_UserID r = u) (t_hackathon_registrations d)" "hackathon_exists d h" for d
    using that by (intro tables_registrations) (auto simp: tables_defs new_registration_def hrg_conflict_sym
        intro!: no_conflicts_append simp: list_ex_iff hrg_conflict_def)
  show "stmt_ok (preserves hackathon_tables) (sql_upsert_registration i h u now)"
    using re new by (auto simp: stmt_ok_def preserves_def sql_upsert_registration_def split: if_splits)
  show "stmt_ok (preserves hackathon_tables) (sql_cancel_registration (Some now) h u)"
    using wi by (auto simp: stmt_ok_def preserves_def sql_cancel_registration_def Let_def)
qed

lemma team_stmts:
  "stmt_ok (preserves hackathon_tables) (insert_announcement n)"
  "stmt_ok (preserves hackathon_tables) (insert_team t)"
  "stmt_ok (preserves hackathon_tables) (insert_team_member m)"
  "stmt_ok (preserves hackathon_tables) (sql_delete_team i)"
  "stmt_ok (preserves hackathon_tables) (sql_delete_team_member i)"
proof -
  show "stmt_ok (preserves hackathon_tables) (insert_announcement n)"
    by (auto simp: stmt_ok_def preserves_def insert_announcement_def tables_defs hackathon_exists_def team_exists_def
        split: if_splits)
  have more: "linked_rows (d\<lparr>t_teams := t_teams d @ [t]\<rparr>)"
    if "linked_rows d" "hackathon_exists d (team_HackathonID t)" for d
    using that by (auto simp: linked_rows_def hackathon_exists_def team_exists_def list_all_iff list_ex_iff)
  show "stmt_ok (preserves hackathon_tables) (insert_team t)"
    using more by (auto simp: stmt_ok_def preserves_def insert_team_def hackathon_tables_def own_rows_def
        list_ex_iff split: if_splits)
  show "stmt_ok (preserves hackathon_tables) (insert_team_member m)"
  proof -
    have "hackathon_tables (d\<lparr>t_team_members := t_team_members d @ [m]\<rparr>)"
      if "hackathon_tables d" "tmm_Role m \<in> set [''captain'', ''member'']" "\<not> list_ex (tmm_conflict m) (t_team_members d)"
        "team_exists d (tmm_TeamID m)" for d
      using that by (intro tables_members) (auto simp: tables_defs tmm_conflict_sym intro!: no_conflicts_append)
    then show ?thesis by (auto simp: stmt_ok_def preserves_def insert_team_member_def split: if_splits)
  qed
  show "stmt_ok (preserves hackathon_tables) (sql_delete_team_member i)"
  proof -
    have "hackathon_tables (d\<lparr>t_team_members := deleted P (t_team_members d)\<rparr>)" if "hackathon_tables d" for d P
      using that by (intro tables_members no_conflicts_deleted list_all_deleted) (simp_all add: tables_defs)
    then show ?thesis by (simp add: stmt_ok_def preserves_def sql_delete_team_member_def)
  qed
  have gone: "hackathon_tables (d\<lparr>t_teams := deleted (\<lambda>r. team_ID r = i) (t_teams d),
      t_team_members := deleted (\<lambda>r. tmm_TeamID r = i) (t_team_members d),
      t_submissions := unlinked i (t_submissions d)\<rparr>)" if "hackathon_tables d" for d
  proof -
    let ?ms = "deleted (\<lambda>r. tmm_TeamID r = i) (t_team_members d)" and ?xs = "unlinked i (t_submissions d)"
    have ids: "map sub_ID ?xs = map sub_ID (t_submissions d)"
      unfolding unlinked_def by (rule map_upd_frame) simp
    have "hackathon_tables (d\<lparr>t_submissions := ?xs\<rparr>)"
      using that by (intro tables_submissions) (auto simp: ids [unfolded unlinked_def] tables_defs unlinked_def intro!: list_all_upd)
    then have e: "hackathon_tables (d\<lparr>t_submissions := ?xs, t_team_members := ?ms\<rparr>)"
      by (intro tables_members no_conflicts_deleted list_all_deleted) (simp_all add: tables_defs team_exists_def)
    have "sub_TeamID s \<noteq> Some i" if "s \<in> set ?xs" for s
      using that by (auto simp: unlinked_def upd_def)
    then have "linked_rows (d\<lparr>t_submissions := ?xs, t_team_members := ?ms,
        t_teams := deleted (\<lambda>r. team_ID r = i) (t_teams d)\<rparr>)"
      using e by (fastforce simp: hackathon_tables_def linked_rows_def hackathon_exists_def team_exists_def
          list_all_iff list_ex_iff)
    with e have "hackathon_tables (d\<lparr>t_submissions := ?xs, t_team_members := ?ms,
        t_teams := deleted (\<lambda>r. team_ID r = i) (t_teams d)\<rparr>)"
      by (simp add: hackathon_tables_def own_rows_def distinct_deleted)
    moreover have "d\<lparr>t_teams := ts, t_team_members := ms, t_submissions := xs\<rparr> =
        d\<lparr>t_submissions := xs, t_team_members := ms, t_teams := ts\<rparr>" for ts ms xs
      by (cases d) simp
    ultimately show ?thesis by (simp only:)
  qed
  then show "stmt_ok (preserves hackathon_tables) (sql_delete_team i)"
    by (auto simp: stmt_ok_def preserves_def sql_delete_team_def)
qed

lemma submission_stmts:
  "stmt_ok (preserves hackathon_tables) (insert_submission (new_submission c i now))"
  "stmt_ok (preserves hackathon_tables) (sql_update_submission (patched_submission p now) i)"
proof -
  show "stmt_ok (preserves hackathon_tables) (insert_submission (new_submission c i now))"
  proof -
    have "hackathon_tables (d\<lparr>t_submissions := t_submissions d @ [x]\<rparr>)"
      if "hackathon_tables d" "sub_Status x \<in> set validSubmissionStatuses" "\<not> list_ex (\<lambda>r. sub_ID r = sub_ID x) (t_submissions d)"
        "hackathon_exists d (sub_HackathonID x)" "\<forall>t \<in> set_option (sub_TeamID x). team_exists d t" for d x
      using that by (intro tables_submissions) (auto simp: tables_defs list_ex_iff)
    then show ?thesis
      by (auto simp: stmt_ok_def preserves_def insert_submission_def split: if_splits)
  qed
  have ids: "map sub_ID (upd P (patched_submission p now) xs) = map sub_ID xs" for P xs
    by (rule map_upd_frame) (simp add: patched_submission_def)
  have "hackathon_tables (d\<lparr>t_submissions := upd P (patched_submission p now) (t_submissions d)\<rparr>)"
    if "hackathon_tables d" "ups_Status p \<in> set validSubmissionStatuses" for d P
    using that by (intro tables_submissions) (auto simp: ids tables_defs patched_submission_def intro!: list_all_upd)
  then show "stmt_ok (preserves hackathon_tables) (sql_update_submission (patched_submission p now) i)"
    by (auto simp: stmt_ok_def preserves_def sql_update_submission_def patched_submission_def [of p now r for r]
        split: option.splits if_splits)
qed

lemma panel_stmts:
  "cji_Role j \<in> set validJudgeRoles \<Longrightarrow> stmt_ok (preserves hackathon_tables) (insert_judge (new_judge j i))"
  "role \<in> set validJudgeRoles \<Longrightarrow> stmt_ok (preserves hackathon_tables) (sql_update_judge (patched_judge b name role old) i)"
  "stmt_ok (preserves hackathon_tables) (sql_delete_judge i)"
  "csp_Tier s \<in> set validSponsorTiers \<Longrightarrow> stmt_ok (preserves hackathon_tables) (insert_sponsor (new_sponsor s i now))"
  "tier \<in> set validSponsorTiers \<Longrightarrow> stmt_ok (preserves hackathon_tables) (sql_update_sponsor (patched_sponsor sp name tier olds now) i)"
  "stmt_ok (preserves hackathon_tables) (sql_delete_sponsor i)"
  "stmt_ok (preserves hackathon_tables) (insert_audit_log l)"
  by (auto simp: stmt_ok_def preserves_def insert_judge_def sql_update_judge_def sql_delete_judge_def
      insert_sponsor_def sql_update_sponsor_def sql_delete_sponsor_def new_judge_def new_sponsor_def
      split: if_splits
      intro!: tables_judges tables_sponsors list_all_upd list_all_deleted)
    (auto simp: tables_defs patched_judge_def patched_sponsor_def insert_audit_log_def hackathon_exists_def
      team_exists_def intro!: list_all_upd list_all_deleted split: if_splits)

interpretation hackathon_keep: hackathon_writes "preserves hackathon_tables"
  by (intro hackathon_writes.intro hackathon_writes_axioms.intro inv_db.db_frame_axioms hackathon_stmts
      registration_stmts team_stmts submission_stmts panel_stmts)

text \<open>C33: every hackathon endpoint keeps the tables of the module well formed, under connection failures and
  beside requests that do the same: a hackathon ends after it starts and has team sizes between 1 and 20, a
  user has one registration for a hackathon, which is marked deleted exactly when it is cancelled, one
  membership in a team, and every registration, team, member, submission, judge, sponsor and announcement
  belongs to a stored hackathon or team.\<close>

theorem hackathons_well_formed:
  assumes "rely_ok (preserves hackathon_tables) w" "hackathon_tables (db w)"
  shows "hackathon_tables (db (snd (h_hack_create uri cl hb w))) \<and>
    hackathon_tables (db (snd (h_hack_update uri cl h hb w))) \<and>
    hackathon_tables (db (snd (h_hack_delete cl h w))) \<and>
    hackathon_tables (db (snd (h_hack_register cl h w))) \<and>
    hackathon_tables (db (snd (h_hack_cancel cl h w))) \<and>
    hackathon_tables (db (snd (h_hack_createAnnouncement cl h ab w))) \<and>
    hackathon_tables (db (snd (h_hack_createTeam cl h tb w))) \<and>
    hackathon_tables (db (snd (h_hack_joinTeam cl h t w))) \<and>
    hackathon_tables (db (snd (h_hack_leaveTeam cl h t w))) \<and>
    hackathon_tables (db (snd (h_hack_createSubmission pick uri cl h sb w))) \<and>
    hackathon_tables (db (snd (h_hack_updateSubmission pick uri cl h i sb w))) \<and>
    hackathon_tables (db (snd (h_hack_judgeSubmission cl h i jb w))) \<and>
    hackathon_tables (db (snd (h_hack_addJudge uri cl h pb w))) \<and>
    hackathon_tables (db (snd (h_hack_updateJudge uri cl h i pb w))) \<and>
    hackathon_tables (db (snd (h_hack_removeJudge cl h i w))) \<and>
    hackathon_tables (db (snd (h_hack_addSponsor uri cl h qb w))) \<and>
    hackathon_tables (db (snd (h_hack_updateSponsor uri cl h i qb w))) \<and>
    hackathon_tables (db (snd (h_hack_removeSponsor cl h i w)))"
  by (intro conjI keeps_run [OF _ assms] hackathon_keep.within_hackathon_endpoints)

end
