(* ===== verification/HackathonRuns.thy ===== *)
theory HackathonRuns
  imports HackathonFacts ContentFacts
begin

text \<open>
  What single requests of the hackathon module do to its tables: a team that is disbanded, a participant who
  names a submission the winner, and two participants who join the last place of a team at once.
\<close>

section \<open>Lookups\<close>

lemma found_hackathon_run:
  "script w = [] \<Longrightarrow>
   first_row (\<lambda>r. hck_ID r = h) (t_hackathons (db w)) = Some hk \<Longrightarrow> found_hackathon h k w = k hk w"
  by (simp add: found_hackathon_def hackathons_repo_GetByID_def q_GetHackathonByID_def go_simps)

lemma ensureRegistered_run:
  "script w = [] \<Longrightarrow>
   first_row (\<lambda>r. hrg_HackathonID r = h \<and> hrg_UserID r = u \<and> hrg_DeletedAt r = None)
     (t_hackathon_registrations (db w)) = Some r \<Longrightarrow> hrg_Status r = ''registered'' \<Longrightarrow>
   ensureRegistered u h w = (Inr (), w)"
  by (simp add: ensureRegistered_def GetRegistration_def q_GetRegistration_def go_simps)

lemma team_in_hackathon_run:
  "script w = [] \<Longrightarrow>
   first_row (\<lambda>r. team_ID r = t) (t_teams (db w)) = Some tm \<Longrightarrow> team_HackathonID tm = h \<Longrightarrow>
   team_in_hackathon h t k w = k w"
  by (simp add: team_in_hackathon_def GetTeamHackathonID_def go_simps)

lemma found_submission_run:
  "script w = [] \<Longrightarrow>
   first_row (live_submission i) (t_submissions (db w)) = Some s \<Longrightarrow> sub_HackathonID s = h \<Longrightarrow>
   found_submission h i k w = k s w"
  by (simp add: found_submission_def repo_GetSubmissionByID_def q_GetSubmissionByID_def go_simps)

lemma membership_run:
  "script w = [] \<Longrightarrow>
   first_row (\<lambda>r. tmm_TeamID r = t \<and> tmm_UserID r = u) (t_team_members (db w)) = Some m \<Longrightarrow>
   GetMembershipForUserAndTeam t u w = (Inr m, w)"
  by (simp add: GetMembershipForUserAndTeam_def q_GetTeamMemberForUserAndTeam_def go_simps)

lemma hackathon_audit_quiet:
  assumes "script w = []"
  obtains as v where "hackathon_audit a i w = (Inr (), v)" "db v = (db w)\<lparr>t_audit_logs := as\<rparr>"
  unfolding hackathon_audit_def using assms by (rule server_audit_quiet)

lemma hackathon_audit_script: "script w = [] \<Longrightarrow> script (snd (hackathon_audit a i w)) = []"
  by (simp add: hackathon_audit_def server_audit_def go_simps split: sum.split)

section \<open>Disbanding a team\<close>

text \<open>Nobody but the owner of a row changes it, and a row without user and team has no owner.\<close>

lemma ownerless_submission:
  assumes "script w = []" "first_row (live_submission i) (t_submissions (db w)) = Some s"
    "sub_TeamID s = None" "sub_UserID s = None"
  shows "\<exists>e. hackathons_UpdateSubmission pick uri u h i a w = (Inl e, w)"
proof (cases "urls_error pick uri a")
  case None
  then show ?thesis
    using assms by (auto simp: hackathons_UpdateSubmission_def checked_by_def found_hackathon_def
      hackathons_repo_GetByID_def q_GetHackathonByID_def hack_missing_def found_submission_def
      repo_GetSubmissionByID_def q_GetSubmissionByID_def owns_submission_def go_simps split: option.splits)
qed (auto simp: hackathons_UpdateSubmission_def checked_by_def go_simps)


definition demo_hackathon :: "string \<Rightarrow> int \<Rightarrow> Hackathon" where
  "demo_hackathon h most =
     \<lparr> hck_ID = h, hck_Title = h, hck_Description = h, hck_BannerUrl = None, hck_Status = ''finished'',
       hck_StartDate = 10, hck_EndDate = 20, hck_RegisterDeadline = Some 5, hck_SubmissionDeadline = Some 15,
       hck_MaxTeamSize = most, hck_MinTeamSize = 1, hck_Location = None, hck_Rules = None,
       hck_SubmissionRequirements = None, hck_Prizes = None, hck_RegistrationUrl = None,
       hck_RegistrationLabel = None, hck_OrganizerID = None, hck_CreatedAt = 0, hck_UpdatedAt = 0 \<rparr>"

definition demo_entry :: CreateSubmissionRepoInput where
  "demo_entry = \<lparr> csr_HackathonID = ''h'', csr_TeamID = Some ''t'', csr_UserID = None, csr_Title = ''robot'',
     csr_Description = ''walks'', csr_DemoURL = None, csr_RepoURL = None, csr_VideoURL = None,
     csr_Status = ''submitted'', csr_SubmittedAt = Some 12 \<rparr>"

text \<open>A hackathon that is over, for teams of two: \<open>u1\<close> is alone in her team and has entered a submission,
  \<open>u2\<close> and \<open>u3\<close> are registered.\<close>

definition demo_hackathon_db :: database where
  "demo_hackathon_db = empty_database\<lparr>
     t_users := [demo_user ''u1'', demo_user ''u2'', demo_user ''u3''],
     t_hackathons := [demo_hackathon ''h'' 2],
     t_hackathon_registrations := [new_registration ''r1'' ''h'' ''u1'' 1, new_registration ''r2'' ''h'' ''u2'' 1,
       new_registration ''r3'' ''h'' ''u3'' 1],
     t_teams := [\<lparr> team_ID = ''t'', team_HackathonID = ''h'', team_Name = ''ants'', team_Slogan = None,
       team_CaptainID = ''u1'', team_CreatedAt = 1 \<rparr>],
     t_team_members := [\<lparr> tmm_ID = ''m'', tmm_TeamID = ''t'', tmm_UserID = ''u1'', tmm_Role = ''captain'' \<rparr>],
     t_submissions := [new_submission demo_entry ''s'' 12]\<rparr>"

lemmas event_defs = demo_hackathon_db_def demo_hackathon_def demo_entry_def new_submission_def new_registration_def


theorem hackathons_well_formed_witness:
  "hackathon_tables (db (snd (h_hack_leaveTeam (Some (demo_claims ''u1'' ''student'')) ''h'' ''t'' (demo_world demo_hackathon_db))))"
proof -
  have "rely_ok (preserves hackathon_tables) (demo_world demo_hackathon_db)" by (simp add: rely_ok_def demo_world_def)
  moreover have "hackathon_tables (db (demo_world demo_hackathon_db))"
    by (simp add: demo_world_def event_defs tables_defs hck_ok_def validStatuses_def validSubmissionStatuses_def
        no_conflicts_def hrg_conflict_def tmm_conflict_def hackathon_exists_def team_exists_def empty_database_def)
  ultimately show ?thesis using hackathons_well_formed by blast
qed

section \<open>A submission of one's own\<close>


definition demo_submission_input :: CreateSubmissionInput where
  "demo_submission_input = \<lparr> sin_Title = ''mine'', sin_Description = ''best'', sin_DemoURL = [], sin_RepoURL = [],
     sin_VideoURL = [], sin_TeamID = [], sin_Status = ''winner'' \<rparr>"


section \<open>The last place of a team\<close>

definition other_joins :: "database \<Rightarrow> database" where
  "other_joins d = db (snd (JoinTeam ''u3'' ''h'' ''t'' (demo_world d)))"

text \<open>The other request runs between the five reads of the first and its insert.\<close>

definition join_world :: world where
  "join_world = (demo_world demo_hackathon_db)\<lparr>uuid_ix := 9, script := replicate 5 (Fine, id) @ [(Fine, other_joins)]\<rparr>"

definition members_of :: "string \<Rightarrow> database \<Rightarrow> string list" where
  "members_of t d = map tmm_UserID (filter (\<lambda>r. tmm_TeamID r = t) (t_team_members d))"

lemma fine_reads:
  assumes "script w = (Fine, id) # s"
  shows "query f w = (Inr (f (db w)), w\<lparr>script := s\<rparr>)"
    "query_one g w = (case g (db w) of None \<Rightarrow> Inl ErrNoRows | Some r \<Rightarrow> Inr r, w\<lparr>script := s\<rparr>)"
  using assms by (simp_all add: query_def query_one_def exec_def commit_def split: option.split)

text \<open>What \<open>JoinTeam\<close> does once its five reads have let the student in.\<close>

definition joined :: "string \<Rightarrow> string \<Rightarrow> TeamMemberDTO io" where
  "joined u t = call (AddMember t u ''member'') (\<lambda>e. fail (Internal ''add member'' e)) (\<lambda>i.
     bind (hackathon_audit ''HACKATHON_TEAM_JOIN'' t) (\<lambda>_.
     ret \<lparr> tmd_ID = i, tmd_TeamID = t, tmd_UserID = u, tmd_Role = ''member'', tmd_UserName = [],
           tmd_UserAvatar = None \<rparr>))"

definition may_join :: "string \<Rightarrow> database \<Rightarrow> bool" where
  "may_join u d \<longleftrightarrow> t_hackathons d = [demo_hackathon ''h'' 2] \<and> t_teams d = t_teams demo_hackathon_db \<and>
     t_users d = t_users demo_hackathon_db \<and> t_team_members d = t_team_members demo_hackathon_db \<and>
     t_hackathon_registrations d = t_hackathon_registrations demo_hackathon_db \<and> u \<in> {''u2'', ''u3''}"

lemma join_reads:
  assumes "may_join u (db w)"
  shows "script w = [] \<Longrightarrow> JoinTeam u ''h'' ''t'' w = joined u ''t'' w"
    "script w = replicate 5 (Fine, id) @ s \<Longrightarrow> JoinTeam u ''h'' ''t'' w = joined u ''t'' (w\<lparr>script := s\<rparr>)"
  using assms
  by (auto simp: may_join_def event_defs JoinTeam_def joined_def found_hackathon_def hackathons_repo_GetByID_def
      q_GetHackathonByID_def ensureRegistered_def GetRegistration_def q_GetRegistration_def team_in_hackathon_def
      GetTeamHackathonID_def without_team_def FindMembershipInHackathon_def
      q_FindTeamMembershipForUserInHackathon_def team_of_hackathon_def hack_missing_def CountMembers_def
      q_CountTeamMembers_def count_rows_def wrap32_def go_simps fine_reads numeral_eq_Suc)

lemma joined_quiet:
  assumes "script w = []" "\<not> list_ex (tmm_conflict m) (t_team_members (db w))" "team_exists (db w) t"
    "user_exists (db w) u" "m = \<lparr> tmm_ID = uuid_src w (uuid_ix w), tmm_TeamID = t, tmm_UserID = u, tmm_Role = ''member'' \<rparr>"
  obtains x v as where "joined u t w = (Inr x, v)"
    "db v = (db w)\<lparr>t_team_members := t_team_members (db w) @ [m], t_audit_logs := as\<rparr>"
proof -
  define w1 where "w1 = w\<lparr>uuid_ix := Suc (uuid_ix w), db := (db w)\<lparr>t_team_members := t_team_members (db w) @ [m]\<rparr>\<rparr>"
  have w1: "script w1 = []" using assms(1) by (simp add: w1_def)
  obtain as v where v: "hackathon_audit ''HACKATHON_TEAM_JOIN'' t w1 = (Inr (), v)" "db v = (db w1)\<lparr>t_audit_logs := as\<rparr>"
    using hackathon_audit_quiet [OF w1] by metis
  have add: "AddMember t u ''member'' w = (Inr (tmm_ID m), w1)"
    using assms by (simp add: AddMember_def q_CreateTeamMember_def insert_team_member_def go_simps w1_def)
  have "joined u t w = (Inr \<lparr> tmd_ID = tmm_ID m, tmd_TeamID = t, tmd_UserID = u, tmd_Role = ''member'',
      tmd_UserName = [], tmd_UserAvatar = None \<rparr>, v)"
    by (simp add: joined_def add go_simps v(1))
  then show ?thesis by (rule that) (simp add: v w1_def)
qed

text \<open>Two participants join a team with one free place at the same time, the other request committing
  between this one's count of the members and its insert: both are accepted, and a team for two has three
  members.\<close>

theorem team_overfull:
  "hck_MaxTeamSize (hd (t_hackathons (db join_world))) = 2 \<and> members_of ''t'' (db join_world) = [''u1''] \<and>
   (\<exists>x y v. JoinTeam ''u2'' ''h'' ''t'' join_world = (Inr x, v) \<and>
      fst (JoinTeam ''u3'' ''h'' ''t'' (demo_world (db join_world))) = Inr y \<and>
      members_of ''t'' (db v) = [''u1'', ''u3'', ''u2''])"
proof -
  let ?w = "demo_world demo_hackathon_db" and ?m = "hd (t_team_members demo_hackathon_db)"
  let ?n = "\<lambda>i u. \<lparr> tmm_ID = i, tmm_TeamID = ''t'', tmm_UserID = u, tmm_Role = ''member'' \<rparr>"
  note facts = event_defs tmm_conflict_def team_exists_def user_exists_def demo_user_def demo_world_def
  have may: "may_join ''u2'' (db join_world)" "may_join ''u3'' (db ?w)"
    by (simp_all add: may_join_def join_world_def demo_world_def, simp_all add: event_defs)
  obtain y v' bs where other: "joined ''u3'' ''t'' ?w = (Inr y, v')"
    "db v' = demo_hackathon_db\<lparr>t_team_members := t_team_members demo_hackathon_db @ [?n (demo_uuid 0) ''u3''], t_audit_logs := bs\<rparr>"
    by (rule joined_quiet [of ?w "?n (demo_uuid 0) ''u3''" "''t''" "''u3''"]) (auto simp: facts demo_uuid_def)
  have quiet: "script ?w = []" "db ?w = demo_hackathon_db" by (simp_all add: demo_world_def)
  have oj: "other_joins demo_hackathon_db = db v'"
    using join_reads(1) [OF may(2) quiet(1)] other(1) by (simp add: other_joins_def)
  define u where "u = join_world\<lparr>script := [], db := db v'\<rparr>"
  let ?k = "?n (demo_uuid 9) ''u2''"
  obtain x v as where mine: "joined ''u2'' ''t'' u = (Inr x, v)" "db v = (db u)\<lparr>t_team_members := t_team_members (db u) @ [?k], t_audit_logs := as\<rparr>"
  proof (rule joined_quiet)
    show "script u = []" "team_exists (db u) ''t''" "user_exists (db u) ''u2''" "?k = \<lparr> tmm_ID = uuid_src u (uuid_ix u),
        tmm_TeamID = ''t'', tmm_UserID = ''u2'', tmm_Role = ''member'' \<rparr>"
      by (simp_all add: u_def join_world_def other facts)
    show "\<not> list_ex (tmm_conflict ?k) (t_team_members (db u))"
      by (simp add: u_def other event_defs tmm_conflict_def demo_uuid_def show_nat.simps digit_char_def)
  qed
  have first: "joined ''u2'' ''t'' (join_world\<lparr>script := [(Fine, other_joins)]\<rparr>) = joined ''u2'' ''t'' u"
    by (simp add: joined_def AddMember_def q_CreateTeamMember_def bind_run new_uuid_run call_run exec_def u_def
        join_world_def demo_world_def oj)
  have "JoinTeam ''u2'' ''h'' ''t'' join_world = (Inr x, v)"
    using join_reads(2) [OF may(1), of "[(Fine, other_joins)]"] mine(1) first by (simp add: join_world_def)
  moreover have "fst (JoinTeam ''u3'' ''h'' ''t'' (demo_world (db join_world))) = Inr y"
    using join_reads(1) [OF may(2) quiet(1)] other(1) by (simp add: join_world_def demo_world_def)
  moreover have "members_of ''t'' (db v) = [''u1'', ''u3'', ''u2'']"
    by (simp add: mine other u_def members_of_def event_defs)
  ultimately show ?thesis by (simp add: join_world_def demo_world_def members_of_def event_defs)
qed

end
