(* ===== verification/ObjectStorage.thy ===== *)
theory ObjectStorage
  imports Http AuthStore Digest
begin

text \<open>
  \<open>internal/uploads/storage.go\<close> and \<open>local_put.go\<close>: the object storage of the uploads.  A request runs on the
  world and the state of the storage; \<open>storage\<close> is the Go interface \<open>Storage\<close>, with the map of the in-memory
  form and the directory of the local form as its two instances.  A path below the root is the list of its
  components.  \<open>sniff\<close> stands for \<open>http.DetectContentType\<close>; faults of the disk are left out, and the root
  exists and is no link.
\<close>

type_synonym ('s, 'a) on_storage = "(world \<times> 's, go_error, 'a) prog"

definition on_world :: "'a io \<Rightarrow> ('s, 'a) on_storage" where
  "on_world m = (\<lambda>(w, s). let (r, v) = m w in (r, (v, s)))"

abbreviation ErrObjectNotFound :: go_error where
  "ErrObjectNotFound \<equiv> Sentinel ''uploads: object not found''"

abbreviation ErrInvalidObjectKey :: go_error where
  "ErrInvalidObjectKey \<equiv> Sentinel ''uploads: invalid object key''"

abbreviation ErrInvalidUploadSignature :: go_error where
  "ErrInvalidUploadSignature \<equiv> Sentinel ''uploads: invalid local upload signature''"

abbreviation ErrUploadExpired :: go_error where
  "ErrUploadExpired \<equiv> Sentinel ''uploads: local upload URL expired''"

abbreviation ErrUploadTooLarge :: go_error where
  "ErrUploadTooLarge \<equiv> Sentinel ''uploads: local upload exceeds signed size''"

abbreviation ErrObjectAlreadyExists :: go_error where
  "ErrObjectAlreadyExists \<equiv> Sentinel ''uploads: object already exists''"

abbreviation ErrContentTypeMismatch :: go_error where
  "ErrContentTypeMismatch \<equiv> Sentinel ''uploads: content type mismatch''"

record PresignResult =
  psr_UploadURL :: string
  psr_PublicURL :: string
  psr_Key :: string
  psr_ExpiresIn :: int

record ObjectMeta =
  obm_Key :: string
  obm_Size :: int
  obm_ContentType :: string

record 's storage =
  stg_PresignUpload :: "string \<Rightarrow> string \<Rightarrow> int \<Rightarrow> int \<Rightarrow> ('s, PresignResult) on_storage"
  stg_HeadObject :: "string \<Rightarrow> ('s, ObjectMeta) on_storage"
  stg_DeleteObject :: "string \<Rightarrow> ('s, unit) on_storage"
  stg_PublicUrlBase :: string

section \<open>In memory\<close>

type_synonym memory_blobs = "string \<Rightarrow> (string \<times> string) option"

definition memory_PresignUpload :: "string \<Rightarrow> string \<Rightarrow> string \<Rightarrow> int \<Rightarrow> int \<Rightarrow> (memory_blobs, PresignResult) on_storage" where
  "memory_PresignUpload base key ct maxBytes expiresIn =
     ret \<lparr> psr_UploadURL = base @ ''/_test_upload/'' @ key, psr_PublicURL = base @ ''/'' @ key, psr_Key = key,
           psr_ExpiresIn = expiresIn \<rparr>"

definition memory_HeadObject :: "string \<Rightarrow> (memory_blobs, ObjectMeta) on_storage" where
  "memory_HeadObject key = (\<lambda>(w, s). (case s key of
       None \<Rightarrow> Inl ErrObjectNotFound
     | Some (ct, body) \<Rightarrow> Inr \<lparr> obm_Key = key, obm_Size = int (length body), obm_ContentType = ct \<rparr>, (w, s)))"

definition memory_DeleteObject :: "string \<Rightarrow> (memory_blobs, unit) on_storage" where
  "memory_DeleteObject key = (\<lambda>(w, s). (Inr (), (w, s(key := None))))"

definition TestSeed :: "string \<Rightarrow> string \<Rightarrow> string \<Rightarrow> memory_blobs \<Rightarrow> memory_blobs" where
  "TestSeed key ct body s = s(key := Some (ct, body))"

definition InMemoryStorage :: "string \<Rightarrow> memory_blobs storage" where
  "InMemoryStorage base = \<lparr> stg_PresignUpload = memory_PresignUpload base, stg_HeadObject = memory_HeadObject,
     stg_DeleteObject = memory_DeleteObject, stg_PublicUrlBase = base \<rparr>"

section \<open>Paths\<close>

datatype node = Dir | Link | File string

type_synonym disk = "string list \<Rightarrow> node option"

record LocalFileStorage =
  lfs_RootDir :: string
  lfs_PublicBase :: string
  lfs_UploadBaseURL :: string
  lfs_signingKey :: string

text \<open>\<open>filepath.Clean\<close> of a relative path, as the list of its components; the empty list is \<open>.\<close>.\<close>

definition clean_step :: "string list \<Rightarrow> string \<Rightarrow> string list" where
  "clean_step out c =
     (if c = [] \<or> c = ''.'' then out
      else if c = ''..'' then (if out = [] \<or> last out = ''..'' then out @ [c] else butlast out)
      else out @ [c])"

definition clean_path :: "string \<Rightarrow> string list" where
  "clean_path key = foldl clean_step [] (split_on CHR ''/'' key)"

definition key_char :: "char \<Rightarrow> bool" where
  "key_char c \<longleftrightarrow> is_lower c \<or> is_upper c \<or> is_digit c \<or> c \<in> set ''/-_.''"

text \<open>The components are inspected from the root on: an absent one ends the inspection, a link is refused, and
  below a regular file \<open>Lstat\<close> fails with \<open>ENOTDIR\<close>.\<close>

fun inspect :: "disk \<Rightarrow> string list \<Rightarrow> string list \<Rightarrow> go_error option" where
  "inspect d done [] = None"
| "inspect d done (c # cs) =
     (case d (done @ [c]) of
        None \<Rightarrow> None
      | Some Link \<Rightarrow> Some ErrInvalidObjectKey
      | Some Dir \<Rightarrow> inspect d (done @ [c]) cs
      | Some (File b) \<Rightarrow> if cs = [] then None
          else Some (Wrap ''uploads: inspect local object path'' (Plain ''not a directory'')))"

definition resolveObjectPath :: "LocalFileStorage \<Rightarrow> disk \<Rightarrow> string \<Rightarrow> go_error + string list" where
  "resolveObjectPath l d key =
     (if trim_space (lfs_RootDir l) = [] \<or> key = [] \<or> CHR 0x00 \<in> set key \<or> CHR 0x5C \<in> set key \<or>
         has_prefix key ''/'' then Inl ErrInvalidObjectKey
      else if \<not> list_all key_char key then Inl ErrInvalidObjectKey
      else let clean = clean_path key in
        if clean = [] \<or> hd clean = ''..'' then Inl ErrInvalidObjectKey
        else case inspect d [] clean of Some e \<Rightarrow> Inl e | None \<Rightarrow> Inr clean)"

section \<open>On the disk\<close>

definition NormalizeContentType :: "string \<Rightarrow> string" where
  "NormalizeContentType v = to_lower (trim_space (takeWhile (\<lambda>c. c \<noteq> CHR '';'') v))"

text \<open>\<open>http.DetectContentType\<close> sees the first 512 bytes.\<close>

definition detectFileContentType :: "(string \<Rightarrow> string) \<Rightarrow> string \<Rightarrow> string" where
  "detectFileContentType sniff body = sniff (take 512 body)"

definition local_HeadObject :: "(string \<Rightarrow> string) \<Rightarrow> LocalFileStorage \<Rightarrow> string \<Rightarrow> (disk, ObjectMeta) on_storage" where
  "local_HeadObject sniff l key = (\<lambda>(w, d). (case resolveObjectPath l d key of
       Inl e \<Rightarrow> Inl e
     | Inr path \<Rightarrow> (case d path of
         Some (File b) \<Rightarrow> Inr \<lparr> obm_Key = key, obm_Size = int (length b), obm_ContentType = detectFileContentType sniff b \<rparr>
       | _ \<Rightarrow> Inl ErrObjectNotFound), (w, d)))"

definition local_DeleteObject :: "LocalFileStorage \<Rightarrow> string \<Rightarrow> (disk, unit) on_storage" where
  "local_DeleteObject l key = (\<lambda>(w, d). case resolveObjectPath l d key of
       Inl e \<Rightarrow> (Inl e, (w, d))
     | Inr path \<Rightarrow> (case d path of
         None \<Rightarrow> (Inr (), (w, d))
       | Some (File b) \<Rightarrow> (Inr (), (w, d(path := None)))
       | Some _ \<Rightarrow> (Inl ErrInvalidObjectKey, (w, d))))"

text \<open>\<open>OpenObject\<close>: the bytes and the meta data of a stored object.\<close>

definition OpenObject :: "(string \<Rightarrow> string) \<Rightarrow> LocalFileStorage \<Rightarrow> string \<Rightarrow> (disk, string \<times> ObjectMeta) on_storage" where
  "OpenObject sniff l key = call (local_HeadObject sniff l key) fail (\<lambda>meta (w, d).
     (case resolveObjectPath l d key of
        Inl e \<Rightarrow> Inl e
      | Inr path \<Rightarrow> (case d path of Some (File b) \<Rightarrow> Inr (b, meta) | _ \<Rightarrow> Inl ErrObjectNotFound), (w, d)))"

section \<open>Signed uploads\<close>

definition maxLocalUploadBytes :: int where
  "maxLocalUploadBytes = 500 * 1024 * 1024"

definition maxLocalPresignTTL :: int where
  "maxLocalPresignTTL = 60 * 60"

text \<open>HMAC with SHA-256 for keys of at most 64 bytes.\<close>

definition xor_pad :: "nat \<Rightarrow> string \<Rightarrow> string" where
  "xor_pad p key = map (\<lambda>c. char_of (unat ((of_nat (byte_of c) :: 8 word) XOR of_nat p)))
     (key @ replicate (64 - length key) CHR 0x00)"

definition hmac_sha256 :: "string \<Rightarrow> string \<Rightarrow> string" where
  "hmac_sha256 key msg = sha256 (xor_pad 0x5C key @ sha256 (xor_pad 0x36 key @ msg))"

definition signed_text :: "string \<Rightarrow> string \<Rightarrow> int \<Rightarrow> int \<Rightarrow> string" where
  "signed_text key ct maxBytes expires =
     key @ [CHR 0x0A] @ ct @ [CHR 0x0A] @ show_int maxBytes @ [CHR 0x0A] @ show_int expires"

definition signatureBytes :: "LocalFileStorage \<Rightarrow> string \<Rightarrow> string \<Rightarrow> int \<Rightarrow> int \<Rightarrow> string" where
  "signatureBytes l key ct maxBytes expires = hmac_sha256 (lfs_signingKey l) (signed_text key ct maxBytes expires)"

definition signUpload :: "LocalFileStorage \<Rightarrow> string \<Rightarrow> string \<Rightarrow> int \<Rightarrow> int \<Rightarrow> string" where
  "signUpload l key ct maxBytes expires = base64_raw_url (signatureBytes l key ct maxBytes expires)"

text \<open>\<open>base64.RawURLEncoding.DecodeString\<close>: line ends are skipped, the last group has two to four characters, and
  bits that belong to no byte are ignored.\<close>

definition b64_value :: "char \<Rightarrow> nat option" where
  "b64_value c = (let n = byte_of c in
     if is_upper c then Some (n - 65) else if is_lower c then Some (n - 71)
     else if is_digit c then Some (n + 4) else if c = CHR ''-'' then Some 62
     else if c = CHR ''_'' then Some 63 else None)"

fun b64_decode :: "nat list \<Rightarrow> string option" where
  "b64_decode [] = Some []"
| "b64_decode [a] = None"
| "b64_decode [a, b] = Some [char_of (a * 4 + b div 16)]"
| "b64_decode [a, b, c] = Some [char_of (a * 4 + b div 16), char_of (b mod 16 * 16 + c div 4)]"
| "b64_decode (a # b # c # e # s) = map_option
     (\<lambda>r. char_of (a * 4 + b div 16) # char_of (b mod 16 * 16 + c div 4) # char_of (c mod 4 * 64 + e) # r)
     (b64_decode s)"

definition base64_raw_url_decode :: "string \<Rightarrow> string option" where
  "base64_raw_url_decode s = (let t = filter (\<lambda>c. c \<noteq> CHR 0x0A \<and> c \<noteq> CHR 0x0D) s in
     if list_all (\<lambda>c. b64_value c \<noteq> None) t then b64_decode (map (\<lambda>c. the (b64_value c)) t) else None)"

definition hex_upper :: "nat \<Rightarrow> char" where
  "hex_upper n = (if n < 10 then char_of (48 + n) else char_of (55 + n))"

text \<open>\<open>url.Values.Encode\<close>: the parameters in the order of their names, escaped.\<close>

definition query_escape :: "string \<Rightarrow> string" where
  "query_escape s = concat (map (\<lambda>c.
     if is_lower c \<or> is_upper c \<or> is_digit c \<or> c \<in> set ''-_.~'' then [c]
     else if c = CHR '' '' then ''+''
     else [CHR ''%'', hex_upper (byte_of c div 16), hex_upper (byte_of c mod 16)]) s)"

definition encode_query :: "(string \<times> string) list \<Rightarrow> string" where
  "encode_query ps = join_with ''&'' (map (\<lambda>(k, v). query_escape k @ ''='' @ query_escape v) ps)"

definition presign_query :: "LocalFileStorage \<Rightarrow> string \<Rightarrow> string \<Rightarrow> int \<Rightarrow> int \<Rightarrow> (string \<times> string) list" where
  "presign_query l key ct maxBytes expires =
     [(''contentType'', ct), (''expires'', show_int expires), (''maxBytes'', show_int maxBytes),
      (''signature'', signUpload l key ct maxBytes expires)]"

definition local_PresignUpload :: "LocalFileStorage \<Rightarrow> string \<Rightarrow> string \<Rightarrow> int \<Rightarrow> int \<Rightarrow> (disk, PresignResult) on_storage" where
  "local_PresignUpload l key ct maxBytes expiresIn = (\<lambda>(w, d). case resolveObjectPath l d key of
       Inl e \<Rightarrow> (Inl e, (w, d))
     | Inr _ \<Rightarrow>
         (if maxBytes \<le> 0 \<or> maxLocalUploadBytes < maxBytes \<or> expiresIn \<le> 0 \<or> maxLocalPresignTTL < expiresIn
          then (Inl (Plain ''uploads: invalid local presign limits''), (w, d))
          else bind (on_world go_now) (\<lambda>now.
            let ct = NormalizeContentType ct; expires = (now + expiresIn * 1000) div 1000
            in ret \<lparr> psr_UploadURL = lfs_UploadBaseURL l @ ''/'' @ key @ ''?'' @ encode_query (presign_query l key ct maxBytes expires),
                     psr_PublicURL = lfs_PublicBase l @ ''/'' @ key, psr_Key = key, psr_ExpiresIn = expiresIn \<rparr>) (w, d)))"

definition safeDetectedContentType :: "string \<Rightarrow> string \<Rightarrow> bool" where
  "safeDetectedContentType declared detected =
     (if str_contains detected ''html'' \<or> str_contains detected ''xml'' \<or> str_contains detected ''javascript'' then False
      else if has_prefix declared ''image/'' then declared = detected
      else if declared = ''application/pdf'' then detected = declared
      else if declared = ''text/plain'' \<or> declared = ''text/markdown'' then detected = ''text/plain''
      else True)"

definition MkdirAll :: "string list \<Rightarrow> disk \<Rightarrow> disk" where
  "MkdirAll p d = (\<lambda>q. if q \<noteq> [] \<and> prefix q p \<and> d q = None then Some Dir else d q)"

text \<open>The upload is written to a temporary file, which is removed at the end, and published by a hard link, which
  never replaces a file.  \<open>others\<close> is what other requests do to the disk between the look at the destination
  and the link.\<close>

definition PutPresigned :: "(string \<Rightarrow> string) \<Rightarrow> (disk \<Rightarrow> disk) \<Rightarrow> LocalFileStorage \<Rightarrow> string \<Rightarrow> string \<Rightarrow> int \<Rightarrow> int \<Rightarrow>
    string \<Rightarrow> string \<Rightarrow> (disk, unit) on_storage" where
  "PutPresigned sniff others l key ct maxBytes expires signature body =
     (let ct = NormalizeContentType ct in bind (on_world go_now) (\<lambda>t (w, d).
      let now = t div 1000 in
      if expires < now then (Inl ErrUploadExpired, (w, d))
      else if maxBytes \<le> 0 \<or> maxLocalUploadBytes < maxBytes \<or> now + maxLocalPresignTTL < expires
      then (Inl ErrInvalidUploadSignature, (w, d))
      else if base64_raw_url_decode signature \<noteq> Some (signatureBytes l key ct maxBytes expires)
      then (Inl ErrInvalidUploadSignature, (w, d))
      else case resolveObjectPath l d key of
        Inl e \<Rightarrow> (Inl e, (w, d))
      | Inr path \<Rightarrow>
          let d = MkdirAll (butlast path) d in
          (case resolveObjectPath l d key of
             Inl e \<Rightarrow> (Inl e, (w, d))
           | Inr path \<Rightarrow>
               if d path \<noteq> None then (Inl ErrObjectAlreadyExists, (w, d))
               else if maxBytes < int (length body) then (Inl ErrUploadTooLarge, (w, d))
               else if \<not> safeDetectedContentType ct (NormalizeContentType (detectFileContentType sniff body))
               then (Inl (Annot ErrContentTypeMismatch (''declared '' @ ct @ '', detected '' @ detectFileContentType sniff body)),
                     (w, d))
               else let d = others d in
                 if d path \<noteq> None then (Inl ErrObjectAlreadyExists, (w, d))
                 else (Inr (), (w, d(path := Some (File body)))))))"

definition LocalStorage :: "(string \<Rightarrow> string) \<Rightarrow> LocalFileStorage \<Rightarrow> disk storage" where
  "LocalStorage sniff l = \<lparr> stg_PresignUpload = local_PresignUpload l, stg_HeadObject = local_HeadObject sniff l,
     stg_DeleteObject = local_DeleteObject l, stg_PublicUrlBase = lfs_PublicBase l \<rparr>"

end
