(* ===== verification/Uploads.thy ===== *)
theory Uploads
  imports ObjectStorage HackathonStore
begin

text \<open>
  \<open>internal/uploads/scopes.go\<close> and \<open>uploads.go\<close>, \<open>internal/repo/db/uploads.sql.go\<close> and the endpoints of
  \<open>internal/handler/uploads.go\<close>: what may be uploaded by whom, signing an upload, and completing it, which
  writes the address of the object to the row it belongs to.
\<close>

section \<open>Scopes\<close>

record ScopeConfig =
  scf_KeyPrefix :: string
  scf_AllowedRoles :: "string list"
  scf_MaxSizeMB :: int
  scf_AllowedMime :: "string list"
  scf_PresignTTLSec :: int
  scf_PublicRead :: bool
  scf_Description :: string

definition image_types :: "string list" where
  "image_types = [''image/jpeg'', ''image/png'', ''image/webp'']"

definition UPLOAD_SCOPES :: "(string \<times> ScopeConfig) list" where
  "UPLOAD_SCOPES =
    [(''lesson-video'',
      \<lparr> scf_KeyPrefix = ''lessons/videos'', scf_AllowedRoles = [''admin''], scf_MaxSizeMB = 500,
        scf_AllowedMime = [''video/mp4'', ''video/webm'', ''video/quicktime'', ''video/x-matroska''],
        scf_PresignTTLSec = 15 * 60, scf_PublicRead = True, scf_Description = msg_scope_lesson_video \<rparr>),
     (''resource'',
      \<lparr> scf_KeyPrefix = ''lessons/resources'', scf_AllowedRoles = [''admin''], scf_MaxSizeMB = 100,
        scf_AllowedMime = [''application/pdf'', ''application/zip'', ''application/x-tar'', ''application/gzip'',
          ''video/mp4'', ''audio/mpeg'', ''audio/wav'', ''text/plain'', ''text/markdown''],
        scf_PresignTTLSec = 15 * 60, scf_PublicRead = True, scf_Description = msg_scope_resource \<rparr>),
     (''course-thumbnail'',
      \<lparr> scf_KeyPrefix = ''courses/thumbnails'', scf_AllowedRoles = [''admin''], scf_MaxSizeMB = 5,
        scf_AllowedMime = image_types, scf_PresignTTLSec = 10 * 60, scf_PublicRead = True,
        scf_Description = msg_scope_course \<rparr>),
     (''degree-thumbnail'',
      \<lparr> scf_KeyPrefix = ''degrees/thumbnails'', scf_AllowedRoles = [''admin''], scf_MaxSizeMB = 5,
        scf_AllowedMime = image_types, scf_PresignTTLSec = 10 * 60, scf_PublicRead = True,
        scf_Description = msg_scope_degree \<rparr>),
     (''hackathon-banner'',
      \<lparr> scf_KeyPrefix = ''hackathons/banners'', scf_AllowedRoles = [''admin''], scf_MaxSizeMB = 8,
        scf_AllowedMime = image_types, scf_PresignTTLSec = 10 * 60, scf_PublicRead = True,
        scf_Description = msg_scope_banner \<rparr>),
     (''hackathon-judge-avatar'',
      \<lparr> scf_KeyPrefix = ''hackathons/judges/avatars'', scf_AllowedRoles = [''admin''], scf_MaxSizeMB = 3,
        scf_AllowedMime = image_types, scf_PresignTTLSec = 10 * 60, scf_PublicRead = True,
        scf_Description = msg_scope_judge \<rparr>),
     (''hackathon-sponsor-logo'',
      \<lparr> scf_KeyPrefix = ''hackathons/sponsors/logos'', scf_AllowedRoles = [''admin''], scf_MaxSizeMB = 3,
        scf_AllowedMime = image_types, scf_PresignTTLSec = 10 * 60, scf_PublicRead = True,
        scf_Description = msg_scope_sponsor \<rparr>),
     (''submission-video'',
      \<lparr> scf_KeyPrefix = ''hackathons/submissions/videos'', scf_AllowedRoles = [''student'', ''admin'', ''instructor''],
        scf_MaxSizeMB = 200, scf_AllowedMime = [''video/mp4'', ''video/webm'', ''video/quicktime''],
        scf_PresignTTLSec = 15 * 60, scf_PublicRead = True, scf_Description = msg_scope_submission \<rparr>),
     (''user-avatar'',
      \<lparr> scf_KeyPrefix = ''users/avatars'', scf_AllowedRoles = [''student'', ''admin'', ''instructor''],
        scf_MaxSizeMB = 2, scf_AllowedMime = image_types, scf_PresignTTLSec = 10 * 60, scf_PublicRead = True,
        scf_Description = msg_scope_avatar \<rparr>)]"

text \<open>\<open>IsValid\<close> lists the keys of the table.\<close>

definition scope_IsValid :: "string \<Rightarrow> bool" where
  "scope_IsValid s \<longleftrightarrow> s \<in> set [''lesson-video'', ''resource'', ''course-thumbnail'', ''degree-thumbnail'',
     ''hackathon-banner'', ''hackathon-judge-avatar'', ''hackathon-sponsor-logo'', ''submission-video'', ''user-avatar'']"

definition GetScope :: "string \<Rightarrow> ScopeConfig option" where
  "GetScope s = map_of UPLOAD_SCOPES s"

section \<open>Statements\<close>

definition upload_set :: "(database \<Rightarrow> 'r list) \<Rightarrow> ('r list \<Rightarrow> database \<Rightarrow> database) \<Rightarrow> ('r \<Rightarrow> bool) \<Rightarrow> ('r \<Rightarrow> 'r) \<Rightarrow>
    string \<Rightarrow> nat stmt" where
  "upload_set get put P f url = (\<lambda>d.
     if list_ex P (get d) \<and> \<not> fits_191 (Some url) then Inl ErrTooLong
     else Inr (changed P f (get d), put (upd P f (get d)) d))"

definition q_UploadSetLessonVideo :: "string \<Rightarrow> string \<Rightarrow> nat io" where
  "q_UploadSetLessonVideo url i = exec (upload_set t_lessons (\<lambda>rs d. d\<lparr>t_lessons := rs\<rparr>)
     (\<lambda>r. lsn_ID r = i \<and> lsn_DeletedAt r = None) (\<lambda>r. r\<lparr>lsn_VideoUrl := Some url\<rparr>) url)"

definition q_UploadSetResourceUrl :: "string \<Rightarrow> string \<Rightarrow> nat io" where
  "q_UploadSetResourceUrl url i = exec (upload_set t_resources (\<lambda>rs d. d\<lparr>t_resources := rs\<rparr>)
     (\<lambda>r. res_ID r = i \<and> res_DeletedAt r = None) (\<lambda>r. r\<lparr>res_Url := url\<rparr>) url)"

definition q_UploadSetCourseThumbnail :: "string \<Rightarrow> string \<Rightarrow> nat io" where
  "q_UploadSetCourseThumbnail url i = exec (upload_set t_courses (\<lambda>rs d. d\<lparr>t_courses := rs\<rparr>)
     (\<lambda>r. crs_ID r = i) (\<lambda>r. r\<lparr>crs_Thumbnail := url\<rparr>) url)"

definition q_UploadSetDegreeThumbnail :: "string \<Rightarrow> string \<Rightarrow> nat io" where
  "q_UploadSetDegreeThumbnail url i = exec (upload_set t_nano_degrees (\<lambda>rs d. d\<lparr>t_nano_degrees := rs\<rparr>)
     (\<lambda>r. deg_ID r = i) (\<lambda>r. r\<lparr>deg_Thumbnail := Some url\<rparr>) url)"

definition q_UploadSetHackathonBanner :: "string \<Rightarrow> string \<Rightarrow> nat io" where
  "q_UploadSetHackathonBanner url i = exec (upload_set t_hackathons (\<lambda>rs d. d\<lparr>t_hackathons := rs\<rparr>)
     (\<lambda>r. hck_ID r = i) (\<lambda>r. r\<lparr>hck_BannerUrl := Some url\<rparr>) url)"

definition q_UploadSetJudgeAvatar :: "string \<Rightarrow> string \<Rightarrow> nat io" where
  "q_UploadSetJudgeAvatar url i = exec (upload_set t_judges (\<lambda>rs d. d\<lparr>t_judges := rs\<rparr>)
     (\<lambda>r. jdg_ID r = i) (\<lambda>r. r\<lparr>jdg_AvatarUrl := Some url\<rparr>) url)"

definition q_UploadSetSponsorLogo :: "string \<Rightarrow> string \<Rightarrow> nat io" where
  "q_UploadSetSponsorLogo url i = exec (upload_set t_sponsors (\<lambda>rs d. d\<lparr>t_sponsors := rs\<rparr>)
     (\<lambda>r. spn_ID r = i) (\<lambda>r. r\<lparr>spn_LogoUrl := Some url\<rparr>) url)"

definition q_UploadSetSubmissionVideo :: "string \<Rightarrow> string \<Rightarrow> nat io" where
  "q_UploadSetSubmissionVideo url i = exec (upload_set t_submissions (\<lambda>rs d. d\<lparr>t_submissions := rs\<rparr>)
     (\<lambda>r. sub_ID r = i \<and> sub_DeletedAt r = None) (\<lambda>r. r\<lparr>sub_VideoUrl := Some url\<rparr>) url)"

definition q_UploadSetUserAvatar :: "string \<Rightarrow> string \<Rightarrow> nat io" where
  "q_UploadSetUserAvatar url i = exec (upload_set t_users (\<lambda>rs d. d\<lparr>t_users := rs\<rparr>)
     (\<lambda>r. usr_ID r = i \<and> usr_DeletedAt r = None) (\<lambda>r. r\<lparr>usr_AvatarUrl := Some url\<rparr>) url)"

section \<open>Targets\<close>

definition target_exists :: "string \<Rightarrow> string \<Rightarrow> (database \<Rightarrow> int) \<Rightarrow> string \<Rightarrow> unit io" where
  "target_exists check label count i = call (query count) (\<lambda>e. fail (Internal check e))
     (\<lambda>n. if n = 0 then fail (NotFound (label @ '' '' @ i @ msg_up_missing)) else ret ())"

definition lessonExists :: "string \<Rightarrow> unit io" where
  "lessonExists i = target_exists ''check lesson'' ''Lesson''
     (\<lambda>d. count_rows (\<lambda>r. lsn_ID r = i \<and> lsn_DeletedAt r = None) (t_lessons d)) i"

definition courseExists :: "string \<Rightarrow> unit io" where
  "courseExists i = target_exists ''check course'' ''Course'' (\<lambda>d. count_rows (\<lambda>r. crs_ID r = i) (t_courses d)) i"

definition degreeExists :: "string \<Rightarrow> unit io" where
  "degreeExists i = target_exists ''check degree'' ''Degree'' (\<lambda>d. count_rows (\<lambda>r. deg_ID r = i) (t_nano_degrees d)) i"

definition hackathonExists :: "string \<Rightarrow> unit io" where
  "hackathonExists i = target_exists ''check hackathon'' ''Hackathon''
     (\<lambda>d. count_rows (\<lambda>r. hck_ID r = i) (t_hackathons d)) i"

definition judgeExists :: "string \<Rightarrow> unit io" where
  "judgeExists i = target_exists ''check judge'' ''Judge'' (\<lambda>d. count_rows (\<lambda>r. jdg_ID r = i) (t_judges d)) i"

definition sponsorExists :: "string \<Rightarrow> unit io" where
  "sponsorExists i = target_exists ''check sponsor'' ''Sponsor'' (\<lambda>d. count_rows (\<lambda>r. spn_ID r = i) (t_sponsors d)) i"

definition userExists :: "string \<Rightarrow> unit io" where
  "userExists i = target_exists ''check user'' ''User''
     (\<lambda>d. count_rows (\<lambda>r. usr_ID r = i \<and> usr_DeletedAt r = None) (t_users d)) i"

definition submissionOwnedBy :: "string \<Rightarrow> string \<Rightarrow> bool \<Rightarrow> unit io" where
  "submissionOwnedBy i u isAdmin = target_exists ''check submission'' ''Submission''
     (\<lambda>d. count_rows (\<lambda>r. live_submission i r \<and> (isAdmin \<or> own_submission u d r)) (t_submissions d)) i"

definition admin_upload :: "bool \<Rightarrow> string \<Rightarrow> unit io \<Rightarrow> unit io" where
  "admin_upload isAdmin what k = (if isAdmin then k else fail (Forbidden (msg_up_admin @ what)))"

definition validateRefIDForSign :: "string \<Rightarrow> string \<Rightarrow> string \<Rightarrow> string \<Rightarrow> unit io" where
  "validateRefIDForSign scope refID u role =
     (let isAdmin = (role = ''admin'') in
      if scope = ''lesson-video'' then admin_upload isAdmin msg_up_lesson (lessonExists refID)
      else if scope = ''resource'' then admin_upload isAdmin ''resource'' (lessonExists refID)
      else if scope = ''course-thumbnail'' then admin_upload isAdmin msg_up_course (courseExists refID)
      else if scope = ''degree-thumbnail'' then admin_upload isAdmin msg_up_degree (degreeExists refID)
      else if scope = ''hackathon-banner'' then admin_upload isAdmin ''hackathon banner'' (hackathonExists refID)
      else if scope = ''hackathon-judge-avatar'' then admin_upload isAdmin ''judge avatar'' (judgeExists refID)
      else if scope = ''hackathon-sponsor-logo'' then admin_upload isAdmin ''sponsor logo'' (sponsorExists refID)
      else if scope = ''submission-video'' then submissionOwnedBy refID u isAdmin
      else if scope = ''user-avatar'' then
        (if \<not> isAdmin \<and> refID \<noteq> u then fail (Forbidden msg_up_own_avatar) else userExists refID)
      else fail (BadRequest (''Unknown scope: '' @ scope)))"

text \<open>A failed statement is logged and reported as a missing target.\<close>

definition written_back :: "nat io \<Rightarrow> bool io" where
  "written_back q = call q (\<lambda>_. ret False) (\<lambda>n. ret (0 < n))"

definition routeWriteback :: "string \<Rightarrow> string \<Rightarrow> string \<Rightarrow> string \<Rightarrow> string \<Rightarrow> bool io" where
  "routeWriteback scope refID url u role =
     (let isAdmin = (role = ''admin'');
          admins = (\<lambda>q. if isAdmin then written_back q else ret False)
      in if scope = ''lesson-video'' then admins (q_UploadSetLessonVideo url refID)
      else if scope = ''resource'' then admins (q_UploadSetResourceUrl url refID)
      else if scope = ''course-thumbnail'' then admins (q_UploadSetCourseThumbnail url refID)
      else if scope = ''degree-thumbnail'' then admins (q_UploadSetDegreeThumbnail url refID)
      else if scope = ''hackathon-banner'' then admins (q_UploadSetHackathonBanner url refID)
      else if scope = ''hackathon-judge-avatar'' then admins (q_UploadSetJudgeAvatar url refID)
      else if scope = ''hackathon-sponsor-logo'' then admins (q_UploadSetSponsorLogo url refID)
      else if scope = ''submission-video'' then
        call (submissionOwnedBy refID u isAdmin) fail (\<lambda>_. written_back (q_UploadSetSubmissionVideo url refID))
      else if scope = ''user-avatar'' then
        (if \<not> isAdmin \<and> refID \<noteq> u then ret False else written_back (q_UploadSetUserAvatar url refID))
      else ret False)"

section \<open>Keys\<close>

definition roleAllowed :: "string list \<Rightarrow> string \<Rightarrow> bool" where
  "roleAllowed allowed role \<longleftrightarrow> role \<in> set allowed"

definition mimeAllowed :: "string list \<Rightarrow> string \<Rightarrow> bool" where
  "mimeAllowed allowed mime \<longleftrightarrow> mime \<in> set allowed"

text \<open>\<open>filepath.Ext\<close>: from the last dot of the last component on.\<close>

definition path_ext :: "string \<Rightarrow> string" where
  "path_ext name = (let r = takeWhile (\<lambda>c. c \<noteq> CHR ''/'') (rev name) in
     if CHR ''.'' \<in> set r then CHR ''.'' # rev (takeWhile (\<lambda>c. c \<noteq> CHR ''.'') r) else [])"

definition safeExt :: "string \<Rightarrow> bool" where
  "safeExt ext \<longleftrightarrow> ext = [] \<or> hd ext = CHR ''.'' \<and> list_all (\<lambda>c. is_lower c \<or> is_digit c) (tl ext)"

definition uploads_randomHex :: "nat \<Rightarrow> string io" where
  "uploads_randomHex n = bind (rand_read n) (\<lambda>b. ret (case b of None \<Rightarrow> ''fallback'' | Some x \<Rightarrow> hex_encode x))"

definition generateKey :: "string \<Rightarrow> string \<Rightarrow> string \<Rightarrow> string io" where
  "generateKey pre u filename =
     (let ext = take 8 (to_lower (path_ext filename));
          ext = (if safeExt ext then ext else [])
      in bind go_now (\<lambda>ts. bind (uploads_randomHex 6) (\<lambda>r.
         ret (pre @ ''/'' @ u @ ''/'' @ show_int ts @ ''-'' @ r @ ext))))"

section \<open>Service\<close>

record SignInput =
  sgn_Scope :: string
  sgn_Filename :: string
  sgn_MimeType :: string
  sgn_Size :: int
  sgn_RefID :: string

record SignOutput =
  sgo_UploadURL :: string
  sgo_PublicURL :: string
  sgo_Key :: string
  sgo_ExpiresIn :: int
  sgo_Scope :: string

text \<open>\<open>%v\<close> of a slice of strings.\<close>

definition show_slice :: "string list \<Rightarrow> string" where
  "show_slice xs = ''['' @ join_with '' '' xs @ '']''"

definition role_error :: "string \<Rightarrow> string \<Rightarrow> string \<Rightarrow> ScopeConfig \<Rightarrow> go_error" where
  "role_error mid scope role cfg = Forbidden (''Role '' @ role @ mid @ scope @ msg_up_need @
     show_slice (scf_AllowedRoles cfg) @ '')'')"

definition max_bytes :: "ScopeConfig \<Rightarrow> int" where
  "max_bytes cfg = scf_MaxSizeMB cfg * 1024 * 1024"

definition known_scope :: "string \<Rightarrow> (ScopeConfig \<Rightarrow> ('s, 'a) on_storage) \<Rightarrow> ('s, 'a) on_storage" where
  "known_scope scope k =
     (if \<not> scope_IsValid scope then fail (BadRequest (''Unknown upload scope: '' @ scope))
      else case GetScope scope of Some cfg \<Rightarrow> k cfg | None \<Rightarrow> fail (BadRequest (''Unknown upload scope: '' @ scope)))"

definition uploads_Sign :: "'s storage \<Rightarrow> string \<Rightarrow> string \<Rightarrow> SignInput \<Rightarrow> ('s, SignOutput) on_storage" where
  "uploads_Sign st u role a = known_scope (sgn_Scope a) (\<lambda>cfg.
     if \<not> roleAllowed (scf_AllowedRoles cfg) role then fail (role_error msg_up_role (sgn_Scope a) role cfg)
     else if \<not> mimeAllowed (scf_AllowedMime cfg) (sgn_MimeType a)
     then fail (BadRequest (sgn_Scope a @ msg_up_mime @ sgn_MimeType a @ msg_up_mime_allowed @
            show_slice (scf_AllowedMime cfg) @ '')''))
     else if max_bytes cfg < sgn_Size a
     then fail (BadRequest (sgn_Scope a @ msg_up_file @ show_int (sgn_Size a) @ msg_up_over @
            show_int (scf_MaxSizeMB cfg) @ ''MB''))
     else call (if sgn_RefID a \<noteq> [] then on_world (validateRefIDForSign (sgn_Scope a) (sgn_RefID a) u role) else ret ())
       fail (\<lambda>_.
       call (on_world (generateKey (scf_KeyPrefix cfg) u (sgn_Filename a))) fail (\<lambda>key.
       call (stg_PresignUpload st key (sgn_MimeType a) (sgn_Size a) (scf_PresignTTLSec cfg))
         (\<lambda>e. fail (Internal ''presign upload'' e)) (\<lambda>p.
       ret \<lparr> sgo_UploadURL = psr_UploadURL p, sgo_PublicURL = psr_PublicURL p, sgo_Key = key,
             sgo_ExpiresIn = psr_ExpiresIn p, sgo_Scope = sgn_Scope a \<rparr>))))"

record CompleteInput =
  cmi_Scope :: string
  cmi_Key :: string
  cmi_RefID :: string

record CompleteOutput =
  cmo_URL :: string
  cmo_PublicURL :: string
  cmo_Key :: string
  cmo_WrittenBack :: bool

text \<open>An object that does not fit its scope is deleted; whether that works is not looked at.\<close>

definition discard :: "'s storage \<Rightarrow> string \<Rightarrow> go_error \<Rightarrow> ('s, 'a) on_storage" where
  "discard st key e = ignoring (stg_DeleteObject st key) (fail e)"

definition checked_object :: "'s storage \<Rightarrow> ScopeConfig \<Rightarrow> CompleteInput \<Rightarrow> ('s, 'a) on_storage \<Rightarrow> ('s, 'a) on_storage" where
  "checked_object st cfg a k = call (stg_HeadObject st (cmi_Key a))
     (\<lambda>e. if errors_is e ErrObjectNotFound then fail (NotFound (msg_up_no_object @ cmi_Key a @ msg_up_no_put))
          else fail (Internal ''head object'' e)) (\<lambda>meta.
     if obm_Size meta \<le> 0 then discard st (cmi_Key a) (BadRequest msg_up_empty)
     else if max_bytes cfg < obm_Size meta
     then discard st (cmi_Key a) (BadRequest (cmi_Scope a @ msg_up_actual @ show_int (obm_Size meta) @ msg_up_over @
            show_int (scf_MaxSizeMB cfg) @ ''MB''))
     else if \<not> mimeAllowed (scf_AllowedMime cfg) (to_lower (takeWhile (\<lambda>c. c \<noteq> CHR '';'') (obm_ContentType meta)))
     then discard st (cmi_Key a) (BadRequest (cmi_Scope a @ msg_up_actual_type @ obm_ContentType meta @ msg_up_type_refused))
     else k)"

definition uploads_Complete :: "'s storage \<Rightarrow> string \<Rightarrow> string \<Rightarrow> CompleteInput \<Rightarrow> ('s, CompleteOutput) on_storage" where
  "uploads_Complete st u role a = known_scope (cmi_Scope a) (\<lambda>cfg.
     if \<not> has_prefix (cmi_Key a) (scf_KeyPrefix cfg @ ''/'' @ u @ ''/'') then fail (Forbidden msg_up_not_own)
     else if \<not> roleAllowed (scf_AllowedRoles cfg) role then fail (role_error msg_up_role_done (cmi_Scope a) role cfg)
     else checked_object st cfg a (
       let url = stg_PublicUrlBase st @ ''/'' @ cmi_Key a;
           done = (\<lambda>back. ret \<lparr> cmo_URL = url, cmo_PublicURL = url, cmo_Key = cmi_Key a, cmo_WrittenBack = back \<rparr>)
       in if cmi_RefID a = [] then done False
          else call (on_world (routeWriteback (cmi_Scope a) (cmi_RefID a) url u role)) fail (\<lambda>ok.
            if \<not> ok then fail (NotFound (cmi_Scope a @ msg_up_target @ cmi_RefID a @ msg_up_target_missing))
            else done True)))"

section \<open>Endpoints\<close>

definition storage_claims :: "Claims option \<Rightarrow> (Claims \<Rightarrow> ('s, 'a) on_storage) \<Rightarrow> ('s, 'a) on_storage" where
  "storage_claims claims k =
     (case claims of None \<Rightarrow> fail (Unauthorized ''missing auth claims'') | Some c \<Rightarrow> k c)"

definition storage_body :: "'b option \<Rightarrow> ('b \<Rightarrow> ('s, 'a) on_storage) \<Rightarrow> ('s, 'a) on_storage" where
  "storage_body body k = (case body of None \<Rightarrow> fail (BadRequest ''invalid request body'') | Some b \<Rightarrow> k b)"

definition h_uploads_sign :: "'s storage \<Rightarrow> Claims option \<Rightarrow> SignInput option \<Rightarrow> ('s, SignOutput) on_storage" where
  "h_uploads_sign st claims body = storage_claims claims (\<lambda>c. storage_body body (\<lambda>a.
     if sgn_Scope a = [] \<or> sgn_Filename a = [] \<or> sgn_MimeType a = [] \<or> sgn_Size a \<le> 0
     then fail (BadRequest ''scope, filename, mimeType, size required'')
     else uploads_Sign st (clm_UserID c) (clm_Role c) a))"

definition h_uploads_complete :: "'s storage \<Rightarrow> Claims option \<Rightarrow> CompleteInput option \<Rightarrow> ('s, CompleteOutput) on_storage" where
  "h_uploads_complete st claims body = storage_claims claims (\<lambda>c. storage_body body (\<lambda>a.
     if cmi_Scope a = [] \<or> cmi_Key a = [] then fail (BadRequest ''scope, key required'')
     else uploads_Complete st (clm_UserID c) (clm_Role c) a))"

text \<open>The two routes of the local storage.  The query of the \<open>PUT\<close> enters as its values.\<close>

record put_query =
  puq_contentType :: string
  puq_maxBytes :: string
  puq_expires :: string
  puq_signature :: string

definition put_error :: "go_error \<Rightarrow> go_error" where
  "put_error e =
     (if errors_is e ErrInvalidUploadSignature \<or> errors_is e ErrUploadExpired
      then Forbidden ''invalid or expired local upload URL''
      else if errors_is e ErrUploadTooLarge then FiberError 413 ''upload exceeds signed size''
      else if errors_is e ErrContentTypeMismatch then BadRequest ''uploaded content does not match Content-Type''
      else if errors_is e ErrObjectAlreadyExists then Conflict ''upload key already exists''
      else if errors_is e ErrInvalidObjectKey then BadRequest ''invalid upload key''
      else Internal ''write local upload'' e)"

text \<open>\<open>strconv.ParseInt(s, 10, 64)\<close>: an optional sign and digits, within 64 bits.\<close>

definition h_uploads_put :: "(string \<Rightarrow> string) \<Rightarrow> (disk \<Rightarrow> disk) \<Rightarrow> LocalFileStorage \<Rightarrow> string \<Rightarrow> string \<Rightarrow> put_query \<Rightarrow>
    string \<Rightarrow> (disk, unit) on_storage" where
  "h_uploads_put sniff others l star contentType q body =
     (let key = trim_prefix star ''/''; ct = NormalizeContentType contentType in
      if ct = [] \<or> ct \<noteq> NormalizeContentType (puq_contentType q)
      then fail (BadRequest ''Content-Type does not match signed upload'')
      else case atoi (puq_maxBytes q) of
        None \<Rightarrow> fail (BadRequest ''invalid signed maxBytes'')
      | Some maxBytes \<Rightarrow> (case atoi (puq_expires q) of
          None \<Rightarrow> fail (BadRequest ''invalid signed expiry'')
        | Some expires \<Rightarrow>
            call (PutPresigned sniff others l key ct maxBytes expires (puq_signature q) body)
              (\<lambda>e. fail (put_error e)) ret))"

record file_answer =
  fan_ContentType :: string
  fan_Attachment :: bool
  fan_Body :: string

definition h_uploads_file :: "(string \<Rightarrow> string) \<Rightarrow> LocalFileStorage \<Rightarrow> string \<Rightarrow> (disk, file_answer) on_storage" where
  "h_uploads_file sniff l star = call (OpenObject sniff l (trim_prefix star ''/''))
     (\<lambda>e. if errors_is e ErrObjectNotFound \<or> errors_is e ErrInvalidObjectKey then fail (NotFound ''upload object not found'')
          else fail (Internal ''read local upload'' e))
     (\<lambda>(bytes, meta).
       let n = NormalizeContentType (obm_ContentType meta)
       in ret \<lparr> fan_ContentType = obm_ContentType meta,
                fan_Attachment = (\<not> has_prefix n ''image/'' \<and> \<not> has_prefix n ''video/'' \<and> \<not> has_prefix n ''audio/''),
                fan_Body = bytes \<rparr>)"

end
