(* ===== verification/UploadFacts.thy ===== *)
theory UploadFacts
  imports Uploads Demo
begin

text \<open>
  What the uploads promise: a signed upload is accepted and completed, an upload never replaces an object, a
  member writes back to own rows only; and how a key with \<open>..\<close> deletes the object of somebody else.
\<close>

section \<open>Paths\<close>

lemma split_on_append: "sep \<notin> set a \<Longrightarrow> split_on sep (a @ sep # s) = a # split_on sep s"
  by (induction a) (auto split: list.splits)

lemma split_on_none: "sep \<notin> set a \<Longrightarrow> split_on sep a = [a]"
  by (induction a) auto

definition plain_component :: "string \<Rightarrow> bool" where
  "plain_component c \<longleftrightarrow> c \<notin> set [[], ''.'', ''..''] \<and> CHR ''/'' \<notin> set c \<and> list_all key_char c"

lemma clean_step_plain: "plain_component c \<Longrightarrow> clean_step out c = out @ [c]"
  by (auto simp: plain_component_def clean_step_def)

lemma clean_steps_plain: "list_all plain_component cs \<Longrightarrow> foldl clean_step out cs = out @ cs"
  by (induction cs arbitrary: out) (simp_all add: clean_step_plain)

lemma join_Cons: "xs \<noteq> [] \<Longrightarrow> join_with sep (x # xs) = x @ sep @ join_with sep xs"
  by (cases xs) simp_all

lemma split_join: "cs \<noteq> [] \<Longrightarrow> list_all plain_component cs \<Longrightarrow> split_on CHR ''/'' (join_with ''/'' cs) = cs"
proof (induction cs)
  case (Cons c cs)
  then show ?case
    by (cases "cs = []") (simp_all add: join_Cons plain_component_def split_on_append split_on_none)
qed simp

lemma join_key_chars: "list_all plain_component cs \<Longrightarrow> list_all key_char (join_with ''/'' cs)"
proof (induction cs)
  case (Cons c cs)
  moreover have "key_char CHR ''/''" by (simp add: key_char_def)
  ultimately show ?case by (cases "cs = []") (simp_all add: join_Cons plain_component_def)
qed simp

lemma clean_join: "cs \<noteq> [] \<Longrightarrow> list_all plain_component cs \<Longrightarrow> clean_path (join_with ''/'' cs) = cs"
  by (simp add: clean_path_def split_join clean_steps_plain)

text \<open>A key of plain components below directories, or below nothing yet, is its own path.\<close>

definition below_dirs :: "disk \<Rightarrow> string list \<Rightarrow> bool" where
  "below_dirs d p \<longleftrightarrow> (\<forall>i \<in> {1..<length p}. d (take i p) \<in> {Some Dir, None})"

lemma inspect_below:
  "(\<And>i. i < length cs \<Longrightarrow> i \<noteq> 0 \<Longrightarrow> d (done @ take i cs) \<in> {Some Dir, None}) \<Longrightarrow> d (done @ cs) \<noteq> Some Link \<Longrightarrow>
   inspect d done cs = None"
proof (induction cs arbitrary: "done")
  case (Cons c cs)
  have "inspect d (done @ [c]) cs = None" if "cs \<noteq> []"
  proof (rule Cons.IH)
    show "d ((done @ [c]) @ take i cs) \<in> {Some Dir, None}" if "i < length cs" "i \<noteq> 0" for i
      using Cons.prems(1) [of "Suc i"] that by simp
    show "d ((done @ [c]) @ cs) \<noteq> Some Link" using Cons.prems(2) by simp
  qed
  moreover have "d (done @ [c]) \<in> {Some Dir, None}" if "cs \<noteq> []" using Cons.prems(1) [of 1] that by simp
  ultimately show ?case using Cons.prems(2) by (cases "cs = []") (auto split: option.split node.split)
qed simp

lemma key_char_facts: "\<not> key_char CHR 0x00" "\<not> key_char CHR 0x5C"
  by (simp_all add: key_char_def is_lower_def is_upper_def is_digit_def in_range_def byte_of_def)

lemma resolve_clean:
  assumes "trim_space (lfs_RootDir l) \<noteq> []" "key \<noteq> []" "\<not> has_prefix key ''/''" "list_all key_char key"
    "clean_path key = p" "p \<noteq> []" "list_all plain_component p" "below_dirs d p" "d p \<noteq> Some Link"
  shows "resolveObjectPath l d key = Inr p"
proof -
  have "hd p \<noteq> ''..''" using assms(6,7) by (cases p) (auto simp: plain_component_def)
  moreover have "inspect d [] p = None"
    using inspect_below [of p d "[]"] assms(8,9) by (simp add: below_dirs_def)
  moreover have "CHR 0x00 \<notin> set key" "CHR 0x5C \<notin> set key"
    using assms(4) key_char_facts by (auto simp: list_all_iff)
  ultimately show ?thesis using assms(1-6) by (simp add: resolveObjectPath_def)
qed

section \<open>The object of somebody else\<close>

text \<open>The prefix of a scope, the user, and as many steps back up.\<close>

definition climbing_key :: "string \<Rightarrow> string list \<Rightarrow> string" where
  "climbing_key u p = ''users/avatars/'' @ u @ ''/../../../'' @ join_with ''/'' p"

lemma climbing_clean:
  assumes "plain_component u" "p \<noteq> []" "list_all plain_component p"
  shows "clean_path (climbing_key u p) = p"
proof -
  have "split_on CHR ''/'' (climbing_key u p) = [''users'', ''avatars'', u, ''..'', ''..'', ''..''] @ p"
    using assms split_on_append [of "CHR ''/''" "''users''"] split_on_append [of "CHR ''/''" "''avatars''"]
      split_on_append [of "CHR ''/''" u] split_on_append [of "CHR ''/''" "''..''"]
    by (simp add: climbing_key_def plain_component_def split_join)
  moreover have "foldl clean_step [] [''users'', ''avatars'', u, ''..'', ''..'', ''..''] = []"
    using assms(1) by (simp add: clean_step_def plain_component_def)
  ultimately show ?thesis using assms(3) by (simp add: clean_path_def clean_steps_plain)
qed

lemma avatar_scope:
  "GetScope ''user-avatar'' = Some \<lparr> scf_KeyPrefix = ''users/avatars'',
     scf_AllowedRoles = [''student'', ''admin'', ''instructor''], scf_MaxSizeMB = 2, scf_AllowedMime = image_types,
     scf_PresignTTLSec = 10 * 60, scf_PublicRead = True, scf_Description = msg_scope_avatar \<rparr>"
  by (simp add: GetScope_def UPLOAD_SCOPES_def)

text \<open>C39: whoever is signed in can delete any stored object that is not an image of at most 2 MB: completing an
  avatar with a key that begins with the own directory and climbs out of it by steps of two dots passes the
  check of the owner, the object found there does not fit the scope, and so it is removed.\<close>

theorem foreign_object_deleted:
  assumes root: "trim_space (lfs_RootDir l) \<noteq> []"
    and user: "plain_component (clm_UserID c)" "clm_Role c \<in> set [''student'', ''instructor'', ''admin'']"
    and p: "p \<noteq> []" "list_all plain_component p" "below_dirs d p" "d p = Some (File b)"
    and unfit: "length b = 0 \<or> 2 * 1024 * 1024 < length b \<or>
      to_lower (takeWhile (\<lambda>x. x \<noteq> CHR '';'') (detectFileContentType sniff b)) \<notin> set image_types"
  shows "\<exists>e. h_uploads_complete (LocalStorage sniff l) (Some c)
      (Some \<lparr> cmi_Scope = ''user-avatar'', cmi_Key = climbing_key (clm_UserID c) p, cmi_RefID = [] \<rparr>) (w, d) =
    (Inl (BadRequest e), (w, d(p := None)))"
proof -
  let ?k = "climbing_key (clm_UserID c) p"
  have "list_all key_char ''users/avatars/''" "list_all key_char ''/../../../''"
    by (simp_all add: key_char_def is_lower_def in_range_def byte_of_def)
  then have "list_all key_char ?k"
    using user(1) join_key_chars [OF p(2)] by (simp add: climbing_key_def plain_component_def)
  then have res: "resolveObjectPath l d ?k = Inr p"
    using p by (intro resolve_clean root climbing_clean user(1)) (simp_all add: climbing_key_def has_prefix_def)
  have own: "has_prefix ?k (''users/avatars/'' @ clm_UserID c @ ''/'')"
    by (simp add: climbing_key_def has_prefix_def)
  have head: "local_HeadObject sniff l ?k (w, d) = (Inr \<lparr> obm_Key = ?k, obm_Size = int (length b),
      obm_ContentType = detectFileContentType sniff b \<rparr>, (w, d))"
    by (simp add: local_HeadObject_def res p(4))
  have del: "local_DeleteObject l ?k (w, d) = (Inr (), (w, d(p := None)))"
    by (simp add: local_DeleteObject_def res p(4))
  have role: "clm_Role c \<in> {''student'', ''admin'', ''instructor''}" using user(2) by auto
  have "?k \<noteq> []" by (simp add: climbing_key_def)
  then show ?thesis
    using own head del role unfit
    by (auto simp: h_uploads_complete_def storage_claims_def storage_body_def uploads_Complete_def known_scope_def
        scope_IsValid_def avatar_scope roleAllowed_def checked_object_def LocalStorage_def call_run discard_def
        ignoring_run fail_run max_bytes_def mimeAllowed_def)
qed

section \<open>Publishing\<close>

definition keeps_files :: "disk \<Rightarrow> disk \<Rightarrow> bool" where
  "keeps_files d e \<longleftrightarrow> (\<forall>p. d p \<noteq> None \<longrightarrow> e p = d p)"

lemma mkdir_keeps: "keeps_files d (MkdirAll p d)"
  by (simp add: keeps_files_def MkdirAll_def)

lemma keeps_trans: "keeps_files d e \<Longrightarrow> keeps_files e f \<Longrightarrow> keeps_files d f"
  by (auto simp: keeps_files_def)

lemma keeps_refl: "keeps_files d d"
  by (simp add: keeps_files_def)

lemma keeps_add: "keeps_files d f \<Longrightarrow> f q = None \<Longrightarrow> keeps_files d (f(q := Some n))"
  by (auto simp: keeps_files_def)

lemma resolved_path: "resolveObjectPath l x key = Inr q \<Longrightarrow> q = clean_path key"
  by (auto simp: resolveObjectPath_def Let_def split: if_splits option.splits)

definition published :: "(string \<Rightarrow> string) \<Rightarrow> LocalFileStorage \<Rightarrow> string \<Rightarrow> string \<Rightarrow> int \<Rightarrow> int \<Rightarrow> string \<Rightarrow> string \<Rightarrow>
    int \<Rightarrow> disk \<Rightarrow> bool" where
  "published sniff l key ct maxBytes expires signature body now e \<longleftrightarrow> e (clean_path key) = Some (File body) \<and>
     base64_raw_url_decode signature = Some (signatureBytes l key ct maxBytes expires) \<and>
     int (length body) \<le> maxBytes \<and> now div 1000 \<le> expires \<and>
     safeDetectedContentType ct (NormalizeContentType (detectFileContentType sniff body))"

lemma put_result:
  assumes "\<And>d. keeps_files d (others d)"
  shows "case PutPresigned sniff others l key ct maxBytes expires signature body (w, d) of (r, (v, e)) \<Rightarrow>
    keeps_files d e \<and>
    (r \<noteq> Inr () \<or> published sniff l key (NormalizeContentType ct) maxBytes expires signature body (clock w) e)"
proof (cases "resolveObjectPath l d key")
  case (Inl e)
  then show ?thesis
    by (simp add: PutPresigned_def Let_def bind_run on_world_def go_now_run keeps_refl)
next
  case (Inr q)
  then have q: "q = clean_path key" by (rule resolved_path)
  define m where "m = MkdirAll (butlast (clean_path key)) d"
  have k: "keeps_files d m" "keeps_files d (others m)"
    unfolding m_def using mkdir_keeps keeps_trans assms by blast+
  have again: "resolveObjectPath l m key = Inr x \<Longrightarrow> x = q" for x using resolved_path q by blast
  show ?thesis
  proof (cases "resolveObjectPath l m key")
    case (Inl e)
    then show ?thesis using \<open>resolveObjectPath l d key = Inr q\<close> k q
      by (simp add: PutPresigned_def Let_def bind_run on_world_def go_now_run keeps_refl flip: m_def)
  next
    case (Inr x)
    with again have "resolveObjectPath l m key = Inr q" by blast
    then show ?thesis using \<open>resolveObjectPath l d key = Inr q\<close> k q keeps_add [OF k(2), of q]
      by (simp add: PutPresigned_def Let_def bind_run on_world_def go_now_run keeps_refl published_def flip: m_def)
  qed
qed

text \<open>C37: a PUT to the local storage never changes or removes anything that is stored, also when other uploads
  publish at the same time; and when it is accepted its body is stored under the key, it carried the signature of
  key, type, size and expiry, came before the expiry, has at most the signed size and no active content.\<close>

theorem put_publishes_once:
  assumes "h_uploads_put sniff others l star header q body (w, d) = (r, (v, e))" "\<And>d. keeps_files d (others d)"
  shows "keeps_files d e \<and> (r \<noteq> Inr () \<or> (\<exists>maxBytes expires. atoi (puq_maxBytes q) = Some maxBytes \<and>
    atoi (puq_expires q) = Some expires \<and>
    published sniff l (trim_prefix star ''/'') (NormalizeContentType (NormalizeContentType header)) maxBytes expires
      (puq_signature q) body (clock w) e))"
proof (cases "NormalizeContentType header = [] \<or> NormalizeContentType header \<noteq> NormalizeContentType (puq_contentType q) \<or>
    atoi (puq_maxBytes q) = None \<or> atoi (puq_expires q) = None")
  case True
  then show ?thesis using assms(1) keeps_refl by (auto simp: h_uploads_put_def Let_def fail_run split: if_splits option.splits)
next
  case False
  then obtain m x where mx: "atoi (puq_maxBytes q) = Some m" "atoi (puq_expires q) = Some x" by auto
  let ?p = "PutPresigned sniff others l (trim_prefix star ''/'') (NormalizeContentType header) m x (puq_signature q) body (w, d)"
  have "r \<noteq> Inr () \<or> fst ?p = Inr ()" "snd ?p = (v, e)"
    using assms(1) False mx
    by (auto simp: h_uploads_put_def Let_def call_run fail_run ret_run split: prod.splits sum.splits)
  then show ?thesis using put_result [OF assms(2), where sniff = sniff and l = l and key = "trim_prefix star ''/''" and
      ct = "NormalizeContentType header" and maxBytes = m and expires = x and signature = "puq_signature q" and
      body = body and w = w and d = d] mx by (auto simp: case_prod_unfold)
qed

section \<open>Writing back\<close>

lemma on_world_run: "on_world m (w, s) = (fst (m w), (snd (m w), s))"
  by (simp add: on_world_def case_prod_unfold Let_def)

lemma count_rows_pos: "count_rows P rs \<noteq> 0 \<longleftrightarrow> list_ex P rs"
  by (induction rs) (auto simp: count_rows_def)

definition own_upload :: "string \<Rightarrow> database \<Rightarrow> database \<Rightarrow> bool" where
  "own_upload u d e \<longleftrightarrow> e = d \<or>
     (\<exists>url. e = d\<lparr>t_users := upd (\<lambda>r. usr_ID r = u \<and> usr_DeletedAt r = None) (\<lambda>r. r\<lparr>usr_AvatarUrl := Some url\<rparr>) (t_users d)\<rparr>) \<or>
     (\<exists>i url. list_ex (\<lambda>r. live_submission i r \<and> own_submission u d r) (t_submissions d) \<and>
        e = d\<lparr>t_submissions := upd (live_submission i) (\<lambda>r. r\<lparr>sub_VideoUrl := Some url\<rparr>) (t_submissions d)\<rparr>)"

lemma writeback_submission:
  assumes "script w = []"
  shows "own_upload u (db w) (db (snd (call (submissionOwnedBy i u False) fail
    (\<lambda>_. written_back (q_UploadSetSubmissionVideo url i)) w)))"
proof -
  have live: "(\<lambda>r. sub_ID r = i \<and> sub_DeletedAt r = None) = live_submission i"
    by (auto simp: live_submission_def)
  let ?P = "\<lambda>r. live_submission i r \<and> own_submission u (db w) r"
  show ?thesis
  proof (cases "list_ex ?P (t_submissions (db w))")
    case True
    then have "count_rows ?P (t_submissions (db w)) \<noteq> 0" by (simp only: count_rows_pos)
    with True assms show ?thesis
      unfolding own_upload_def
      by (simp add: submissionOwnedBy_def target_exists_def written_back_def q_UploadSetSubmissionVideo_def live
          upload_set_def go_simps) blast
  next
    case False
    then have "count_rows ?P (t_submissions (db w)) = 0" using count_rows_pos by blast
    with assms show ?thesis
      by (simp add: own_upload_def submissionOwnedBy_def target_exists_def go_simps)
  qed
qed

lemma writeback_avatar:
  "script w = [] \<Longrightarrow> own_upload u (db w) (db (snd (written_back (q_UploadSetUserAvatar url u) w)))"
  unfolding own_upload_def
  by (simp add: written_back_def q_UploadSetUserAvatar_def upload_set_def go_simps) blast

lemma writeback_member:
  assumes "script w = []" "role \<noteq> ''admin''"
  shows "own_upload u (db w) (db (snd (routeWriteback scope i url u role w)))"
proof -
  have none: "own_upload u (db w) (db (snd ((ret False :: bool io) w)))" by (simp add: own_upload_def ret_run)
  show ?thesis
    using none assms(2) writeback_submission [OF assms(1)] writeback_avatar [OF assms(1)]
    by (simp add: routeWriteback_def Let_def)
qed

text \<open>A storage whose looking up and deleting leave the world alone.\<close>

locale storage_frame =
  fixes st :: "'s storage"
  assumes head_world: "fst (snd (stg_HeadObject st k x)) = fst x"
    and delete_world: "fst (snd (stg_DeleteObject st k x)) = fst x"
begin

lemma checked_world:
  assumes "R (db w)" "\<And>s'. R (db (fst (snd (k (w, s')))))"
  shows "R (db (fst (snd (checked_object st cfg a k (w, s)))))"
proof -
  obtain r s' where head: "stg_HeadObject st (cmi_Key a) (w, s) = (r, (w, s'))"
    using head_world [of "cmi_Key a" "(w, s)"] by (cases "stg_HeadObject st (cmi_Key a) (w, s)") auto
  have del: "fst (snd (stg_DeleteObject st (cmi_Key a) (w, s'))) = w" by (simp add: delete_world)
  show ?thesis
    using assms del by (simp add: checked_object_def call_run head discard_def ignoring_run fail_run split: sum.split)
qed

lemma member_complete:
  assumes "script w = []" "clm_Role c \<noteq> ''admin''"
  shows "own_upload (clm_UserID c) (db w) (db (fst (snd (h_uploads_complete st (Some c) body (w, s)))))"
proof -
  have refl: "own_upload (clm_UserID c) (db w) (db w)" by (simp add: own_upload_def)
  have wrote: "own_upload (clm_UserID c) (db w) (db (fst (snd (call (on_world (routeWriteback scope i url (clm_UserID c)
      (clm_Role c))) fail (\<lambda>ok. if \<not> ok then fail e else ret x) (w, s')))))" for scope i url x e s'
    using writeback_member [OF assms] by (simp add: call_run on_world_run fail_run ret_run split: sum.split)
  show ?thesis
    unfolding h_uploads_complete_def storage_claims_def storage_body_def uploads_Complete_def known_scope_def
    using wrote refl
    by (auto simp: fail_run ret_run Let_def intro!: checked_world [of "own_upload (clm_UserID c) (db w)"]
        split: option.split)
qed

end

interpretation on_disk: storage_frame "LocalStorage sniff l"
  by unfold_locales (auto simp: LocalStorage_def local_HeadObject_def local_DeleteObject_def case_prod_unfold
      split: sum.split option.split node.split)

interpretation in_memory: storage_frame "InMemoryStorage base"
  by unfold_locales (auto simp: InMemoryStorage_def memory_HeadObject_def memory_DeleteObject_def case_prod_unfold)


section \<open>Completing twice\<close>

lemma upd_twice:
  assumes "\<And>r. P (f r) = P r" "\<And>r. f (f r) = f r"
  shows "upd P f (upd P f rs) = upd P f rs" "changed P f (upd P f rs) = 0"
  using assms by (induction rs) auto

lemma written_once:
  assumes "script w = []" "written_back (exec (upload_set get put P f url)) w = (Inr True, v)"
    "\<And>d rs. get (put rs d) = rs" "\<And>d. put (get d) d = d" "\<And>r. P (f r) = P r" "\<And>r. f (f r) = f r"
  shows "script v = [] \<and> db v = put (upd P f (get (db w))) (db w) \<and>
    written_back (exec (upload_set get put P f url)) v = (Inr False, v)"
proof -
  let ?d = "put (upd P f (get (db w))) (db w)"
  have fits: "\<not> (list_ex P (get (db w)) \<and> \<not> fits_191 (Some url))"
    and v: "v = w\<lparr>db := ?d\<rparr>"
    using assms(1,2) by (auto simp: written_back_def upload_set_def go_simps split: if_splits)
  have rows: "get ?d = upd P f (get (db w))" by (rule assms(3))
  have "put (upd P f (get (db w))) ?d = ?d" using assms(4) [of ?d] rows by simp
  moreover have "list_ex P (get ?d) = list_ex P (get (db w))"
    unfolding rows using assms(5) by (auto simp: upd_def list_ex_iff)
  ultimately show ?thesis
    using assms(1) fits v rows upd_twice [of P f, OF assms(5,6)]
    by (auto simp: written_back_def upload_set_def go_simps)
qed

definition writes_once :: "bool io \<Rightarrow> bool" where
  "writes_once m \<longleftrightarrow> (\<forall>w v. script w = [] \<longrightarrow> m w = (Inr True, v) \<longrightarrow> script v = [] \<and> m v = (Inr False, v))"

lemma writes_once_no: "writes_once (ret False)"
  by (simp add: writes_once_def ret_run)

lemma writes_once_if: "writes_once m \<Longrightarrow> writes_once n \<Longrightarrow> writes_once (if b then m else n)"
  by simp

lemma writes_once_set:
  assumes "\<And>d rs. get (put rs d) = rs" "\<And>d. put (get d) d = d" "\<And>r. P (f r) = P r" "\<And>r. f (f r) = f r"
  shows "writes_once (written_back (exec (upload_set get put P f url)))"
  unfolding writes_once_def using written_once [of _ get put P f url, OF _ _ assms] by blast

lemma sets_once:
  "writes_once (written_back (q_UploadSetLessonVideo url i))" "writes_once (written_back (q_UploadSetResourceUrl url i))"
  "writes_once (written_back (q_UploadSetCourseThumbnail url i))" "writes_once (written_back (q_UploadSetDegreeThumbnail url i))"
  "writes_once (written_back (q_UploadSetHackathonBanner url i))" "writes_once (written_back (q_UploadSetJudgeAvatar url i))"
  "writes_once (written_back (q_UploadSetSponsorLogo url i))" "writes_once (written_back (q_UploadSetUserAvatar url i))"
  unfolding q_UploadSetLessonVideo_def q_UploadSetResourceUrl_def q_UploadSetCourseThumbnail_def
    q_UploadSetDegreeThumbnail_def q_UploadSetHackathonBanner_def q_UploadSetJudgeAvatar_def q_UploadSetSponsorLogo_def
    q_UploadSetUserAvatar_def
  by (rule writes_once_set; simp)+

lemma submission_again:
  assumes "script w = []"
    "call (submissionOwnedBy i u b) fail (\<lambda>_. written_back (q_UploadSetSubmissionVideo url i)) w = (Inr True, v)"
  shows "script v = [] \<and>
    call (submissionOwnedBy i u b) fail (\<lambda>_. written_back (q_UploadSetSubmissionVideo url i)) v = (Inr False, v)"
proof -
  let ?f = "\<lambda>r :: Submission. r\<lparr>sub_VideoUrl := Some url\<rparr>" and ?xs = "t_submissions (db w)"
  let ?Q = "\<lambda>d r. live_submission i r \<and> (b \<or> own_submission u d r)"
  have own: "list_ex (?Q (db w)) ?xs" and wrote: "written_back (q_UploadSetSubmissionVideo url i) w = (Inr True, v)"
    using assms count_rows_pos [of "?Q (db w)" ?xs]
    by (auto simp: submissionOwnedBy_def target_exists_def go_simps split: if_splits)
  have live: "(\<lambda>r. sub_ID r = i \<and> sub_DeletedAt r = None) = live_submission i"
    by (auto simp: live_submission_def)
  have once: "script v = [] \<and> db v = (db w)\<lparr>t_submissions := upd (live_submission i) ?f ?xs\<rparr> \<and>
      written_back (q_UploadSetSubmissionVideo url i) v = (Inr False, v)"
    using assms(1) wrote unfolding q_UploadSetSubmissionVideo_def live
    by (rule written_once) (simp_all add: live_submission_def)
  moreover have "list_ex (?Q (db v)) (t_submissions (db v))"
  proof -
    obtain r where r: "r \<in> set ?xs" "?Q (db w) r" using own by (auto simp: list_ex_iff)
    then have "?f r \<in> set (t_submissions (db v))" using once by (force simp: upd_def)
    moreover have "?Q (db v) (?f r)" using r(2) once by (simp add: live_submission_def own_submission_def)
    ultimately show ?thesis unfolding list_ex_iff by (rule bexI [rotated])
  qed
  then have "count_rows (?Q (db v)) (t_submissions (db v)) \<noteq> 0" by (simp only: count_rows_pos)
  ultimately show ?thesis by (simp add: submissionOwnedBy_def target_exists_def go_simps)
qed

lemma submission_once:
  "writes_once (call (submissionOwnedBy i u b) fail (\<lambda>_. written_back (q_UploadSetSubmissionVideo url i)))"
  unfolding writes_once_def using submission_again by blast

lemma writeback_once: "writes_once (routeWriteback scope i url u role)"
  unfolding routeWriteback_def Let_def by (intro writes_once_if writes_once_no sets_once submission_once)

text \<open>An upload that was completed and written back cannot be completed again: MySQL counts the rows that an
  update changes, the second request changes none, and is told with 404 that its target does not exist.\<close>

theorem complete_twice_fails:
  assumes "script w = []" "cmi_RefID a \<noteq> []"
    "h_uploads_complete (LocalStorage sniff l) (Some c) (Some a) (w, d) = (Inr out, x)"
  shows "\<exists>msg. h_uploads_complete (LocalStorage sniff l) (Some c) (Some a) x = (Inl (NotFound msg), x)"
proof -
  obtain cfg where cfg: "GetScope (cmi_Scope a) = Some cfg" "scope_IsValid (cmi_Scope a)"
    using assms(3) by (auto simp: h_uploads_complete_def storage_claims_def storage_body_def uploads_Complete_def
        known_scope_def fail_run split: if_splits option.splits)
  let ?url = "lfs_PublicBase l @ ''/'' @ cmi_Key a"
  let ?k = "call (on_world (routeWriteback (cmi_Scope a) (cmi_RefID a) ?url (clm_UserID c) (clm_Role c))) fail
    (\<lambda>ok. if \<not> ok then fail (NotFound (cmi_Scope a @ msg_up_target @ cmi_RefID a @ msg_up_target_missing))
      else ret \<lparr> cmo_URL = ?url, cmo_PublicURL = ?url, cmo_Key = cmi_Key a, cmo_WrittenBack = True \<rparr>)"
  have run: "h_uploads_complete (LocalStorage sniff l) (Some c) (Some a) y =
      checked_object (LocalStorage sniff l) cfg a ?k y" for y
    using assms(2,3) cfg
    by (simp add: h_uploads_complete_def storage_claims_def storage_body_def uploads_Complete_def known_scope_def
        Let_def LocalStorage_def fail_run split: if_splits del: append.simps)
  have head: "local_HeadObject sniff l (cmi_Key a) (y, d) = (fst (local_HeadObject sniff l (cmi_Key a) (w, d)), (y, d))" for y
    by (simp add: local_HeadObject_def)
  have good: "checked_object (LocalStorage sniff l) cfg a ?k (y, d) = ?k (y, d)" for y
    using assms(3) head [of y] unfolding run
    by (auto simp: checked_object_def LocalStorage_def call_run discard_def ignoring_run fail_run
        split: if_splits sum.splits prod.splits)
  obtain v where v: "routeWriteback (cmi_Scope a) (cmi_RefID a) ?url (clm_UserID c) (clm_Role c) w = (Inr True, v)" "x = (v, d)"
    using assms(3) unfolding run good
    by (auto simp: call_run on_world_run fail_run ret_run split: sum.splits if_splits)
      (metis prod.collapse)
  then show ?thesis
    using writeback_once [unfolded writes_once_def, rule_format, OF assms(1) v(1)] unfolding run v(2) good
    by (auto simp: call_run on_world_run fail_run)
qed

end
