(* ===== verification/UploadRuns.thy ===== *)
theory UploadRuns
  imports UploadFacts
begin

text \<open>
  The way of an upload from the signature over the \<open>PUT\<close> to its completion.
\<close>

section \<open>Base64\<close>

lemma b64_back: "n < 64 \<Longrightarrow> b64_value (b64_char n) = Some n \<and> b64_char n \<noteq> CHR 0x0A \<and> b64_char n \<noteq> CHR 0x0D"
proof -
  assume n: "n < 64"
  have "byte_of (b64_char n) \<noteq> 10" "byte_of (b64_char n) \<noteq> 13"
    using b64_char_byte [OF n] by (auto simp: b64_bytes_def)
  moreover have "b64_value (b64_char n) = Some n"
    using n by (auto simp: b64_value_def b64_char_def byte_of_def is_upper_def is_lower_def is_digit_def in_range_def Let_def)
  ultimately show ?thesis by (auto simp: byte_of_def)
qed

fun sextets :: "string \<Rightarrow> nat list" where
  "sextets [] = []"
| "sextets [x] = [byte_of x div 4, byte_of x mod 4 * 16]"
| "sextets [x, y] = [byte_of x div 4, byte_of x mod 4 * 16 + byte_of y div 16, byte_of y mod 16 * 4]"
| "sextets (x # y # z # s) = byte_of x div 4 # (byte_of x mod 4 * 16 + byte_of y div 16) #
     (byte_of y mod 16 * 4 + byte_of z div 64) # byte_of z mod 64 # sextets s"

lemma base64_sextets: "base64_raw_url s = map b64_char (sextets s)"
  by (induction s rule: sextets.induct) (simp_all add: Let_def)

lemma sextets_small: "list_all (\<lambda>n. n < 64) (sextets s)"
  by (induction s rule: sextets.induct) (simp_all add: b64_indices del: One_nat_def)

lemma char_of_byte: "char_of (byte_of c) = c"
  by (simp add: byte_of_def)

lemma byte_joins:
  "byte_of x div 4 * 4 + (byte_of x mod 4 * 16 + byte_of y div 16) div 16 = byte_of x"
  "(byte_of x mod 4 * 16 + byte_of y div 16) mod 16 * 16 + (byte_of y mod 16 * 4 + byte_of z div 64) div 4 = byte_of y"
  "(byte_of y mod 16 * 4 + byte_of z div 64) mod 4 * 64 + byte_of z mod 64 = byte_of z"
proof -
  have q: "byte_of c div 16 < 16" "byte_of c div 64 < 4" for c
    using byte_of_less [of c] by (simp_all add: less_mult_imp_div_less)
  show "byte_of x div 4 * 4 + (byte_of x mod 4 * 16 + byte_of y div 16) div 16 = byte_of x"
    "(byte_of x mod 4 * 16 + byte_of y div 16) mod 16 * 16 + (byte_of y mod 16 * 4 + byte_of z div 64) div 4 = byte_of y"
    "(byte_of y mod 16 * 4 + byte_of z div 64) mod 4 * 64 + byte_of z mod 64 = byte_of z"
    using q [of y] q [of z] by simp_all
qed

lemma byte_ends:
  "byte_of x div 4 * 4 + byte_of x mod 4 * 16 div 16 = byte_of x"
  "(byte_of x mod 4 * 16 + byte_of y div 16) mod 16 * 16 + byte_of y mod 16 * 4 div 4 = byte_of y"
proof -
  have "byte_of y div 16 < 16" using byte_of_less [of y] by (simp add: less_mult_imp_div_less)
  then show "(byte_of x mod 4 * 16 + byte_of y div 16) mod 16 * 16 + byte_of y mod 16 * 4 div 4 = byte_of y" by simp
qed simp

lemma decode_sextets: "b64_decode (sextets s) = Some s"
  by (induction s rule: sextets.induct)
    (simp_all only: sextets.simps b64_decode.simps byte_joins byte_ends char_of_byte option.map)

lemma base64_back: "base64_raw_url_decode (base64_raw_url s) = Some s"
proof -
  have m: "map (\<lambda>c. the (b64_value c)) (map b64_char ns) = ns" "filter (\<lambda>c. c \<noteq> CHR 0x0A \<and> c \<noteq> CHR 0x0D) (map b64_char ns) = map b64_char ns"
    "list_all (\<lambda>c. b64_value c \<noteq> None) (map b64_char ns)" if "list_all (\<lambda>n. n < 64) ns" for ns
    using that by (induction ns) (use b64_back in auto)
  show ?thesis
    unfolding base64_raw_url_decode_def base64_sextets
    by (simp only: m [OF sextets_small] Let_def if_True decode_sextets)
qed

section \<open>Scopes and keys\<close>

definition scope_fine :: "string \<times> ScopeConfig \<Rightarrow> bool" where
  "scope_fine = (\<lambda>(s, cfg). s \<noteq> [] \<and> scope_IsValid s \<and> list_all plain_component (split_on CHR ''/'' (scf_KeyPrefix cfg)) \<and>
     list_all (\<lambda>m. m \<noteq> [] \<and> NormalizeContentType m = m) (scf_AllowedMime cfg) \<and>
     max_bytes cfg \<le> maxLocalUploadBytes \<and> 0 < scf_PresignTTLSec cfg \<and> scf_PresignTTLSec cfg \<le> maxLocalPresignTTL)"

lemma scopes_fine: "list_all scope_fine UPLOAD_SCOPES"
  by code_simp

lemma scope_fine_of: "GetScope s = Some cfg \<Longrightarrow> scope_fine (s, cfg)"
  using scopes_fine map_of_SomeD [of UPLOAD_SCOPES s cfg] by (auto simp: GetScope_def list_all_iff)

definition file_char :: "char \<Rightarrow> bool" where
  "file_char c \<longleftrightarrow> key_char c \<and> c \<noteq> CHR ''/''"

lemma digit_file: "is_digit c \<Longrightarrow> file_char c"
  by (auto simp: file_char_def key_char_def is_digit_def in_range_def byte_of_def)

lemma lower_file: "is_lower c \<Longrightarrow> file_char c"
  by (auto simp: file_char_def key_char_def is_lower_def in_range_def byte_of_def)

lemma hex_digit_file: "n < 16 \<Longrightarrow> file_char (hex_digit n)"
proof -
  assume "n < 16"
  then have "is_digit (hex_digit n) \<or> is_lower (hex_digit n)"
    by (auto simp: hex_digit_def is_digit_def is_lower_def in_range_def byte_of_def)
  then show ?thesis using digit_file lower_file by blast
qed

lemma hex_encode_file: "list_all file_char (hex_encode s)"
proof -
  have "byte_of c div 16 < 16" for c using byte_of_less [of c] by (simp add: less_mult_imp_div_less)
  then show ?thesis by (induction s) (simp_all add: hex_encode_def hex_digit_file)
qed

lemma show_nat_file: "list_all file_char (show_nat n)"
  using show_nat_digits [of n] digit_file by (auto simp: list_all_iff)

lemma show_int_file: "list_all file_char (show_int i)"
  by (simp add: show_int_def show_nat_file file_char_def key_char_def)

lemma safe_ext_file: "safeExt e \<Longrightarrow> list_all file_char e"
  using digit_file lower_file
  by (cases e) (auto simp: safeExt_def list_all_iff file_char_def [of "CHR ''.''"] key_char_def)

lemma generated_name:
  assumes "fst (generateKey pre u name w) = Inr key"
  obtains f where "key = pre @ ''/'' @ u @ ''/'' @ f" "plain_component f"
proof -
  let ?ext = "take 8 (to_lower (path_ext name))"
  let ?e = "if safeExt ?ext then ?ext else []"
  obtain r where r: "key = pre @ ''/'' @ u @ ''/'' @ show_int (clock w) @ ''-'' @ r @ ?e" "list_all file_char r"
  proof (rule that)
    let ?r = "case rnd_src (tick w) (rnd_ix (tick w)) 6 of None \<Rightarrow> ''fallback'' | Some x \<Rightarrow> hex_encode x"
    show "key = pre @ ''/'' @ u @ ''/'' @ show_int (clock w) @ ''-'' @ ?r @ ?e"
      using assms by (simp add: generateKey_def uploads_randomHex_def Let_def go_simps)
    have "list_all file_char ''fallback''" by code_simp
    then show "list_all file_char ?r" by (simp add: hex_encode_file split: option.split)
  qed
  let ?f = "show_int (clock w) @ ''-'' @ r @ ?e"
  have "list_all file_char ?f"
    using r(2) safe_ext_file [of ?ext] by (simp add: show_int_file file_char_def [of "CHR ''-''"] key_char_def)
  moreover have "?f \<notin> set [[], ''.'', ''..'']"
  proof -
    have "CHR ''-'' \<notin> set x" if "x \<in> set [[], ''.'', ''..'']" for x using that by auto
    moreover have "CHR ''-'' \<in> set ?f" by simp
    ultimately show ?thesis by blast
  qed
  ultimately have "plain_component ?f" by (auto simp: plain_component_def list_all_iff file_char_def)
  then show ?thesis using that [of ?f] r(1) by simp
qed

lemma split_on_not_Nil: "split_on sep s \<noteq> []"
  by (cases s) (auto split: list.split)

lemma join_head: "join_with sep ((c # p) # ps) = c # join_with sep (p # ps)"
  by (cases ps) simp_all

lemma split_join_back: "join_with [sep] (split_on sep s) = s"
proof (induction s)
  case (Cons c s)
  then show ?case using split_on_not_Nil [of sep s]
    by (cases "split_on sep s") (simp_all add: join_Cons join_head)
qed simp

lemma join_append: "xs \<noteq> [] \<Longrightarrow> ys \<noteq> [] \<Longrightarrow> join_with sep (xs @ ys) = join_with sep xs @ sep @ join_with sep ys"
proof (induction xs)
  case (Cons x xs)
  then show ?case by (cases "xs = []") (simp_all add: join_Cons)
qed simp

text \<open>A generated key is its own path: the prefix of the scope, the user and the name of the file.\<close>

lemma generated_path:
  assumes "GetScope scope = Some cfg" "plain_component u" "fst (generateKey (scf_KeyPrefix cfg) u name w) = Inr key"
  shows "clean_path key \<noteq> []" "list_all plain_component (clean_path key)" "list_all key_char key" "key \<noteq> []"
    "\<not> has_prefix key ''/''" "has_prefix key (scf_KeyPrefix cfg @ ''/'' @ u @ ''/'')"
proof -
  obtain f where f: "key = scf_KeyPrefix cfg @ ''/'' @ u @ ''/'' @ f" "plain_component f"
    using generated_name [OF assms(3)] by blast
  let ?ps = "split_on CHR ''/'' (scf_KeyPrefix cfg)" and ?cs = "split_on CHR ''/'' (scf_KeyPrefix cfg) @ [u, f]"
  have ps: "?ps \<noteq> []" "list_all plain_component ?ps"
    using scope_fine_of [OF assms(1)] split_on_not_Nil by (auto simp: scope_fine_def)
  have cs: "?cs \<noteq> []" "list_all plain_component ?cs" using ps assms(2) f(2) by simp_all
  have key: "key = join_with ''/'' ?cs"
    using ps(1) f(1) by (simp add: join_append split_join_back)
  obtain x xs where x: "?ps = x # xs" "plain_component x" using ps by (cases ?ps) auto
  then have "x \<noteq> []" "hd x \<noteq> CHR ''/''" by (cases x; auto simp: plain_component_def)+
  then have hd: "key \<noteq> []" "hd key \<noteq> CHR ''/''"
    using key x(1) by (cases x; cases xs; simp add: join_Cons)+
  show "clean_path key \<noteq> []" "list_all plain_component (clean_path key)" "list_all key_char key"
    unfolding key using clean_join [OF cs] join_key_chars [OF cs(2)] cs by simp_all
  show "key \<noteq> []" by (fact hd(1))
  show "\<not> has_prefix key ''/''" using hd by (cases key) (auto simp: has_prefix_def)
  show "has_prefix key (scf_KeyPrefix cfg @ ''/'' @ u @ ''/'')" by (simp add: f(1) has_prefix_def)
qed

lemma atoi_show_int: "0 \<le> n \<Longrightarrow> n < 2 ^ 63 \<Longrightarrow> atoi (show_int n) = Some n"
  using atoi_pad_show [of "nat n" 0] by (simp add: pad_left_def show_int_def nat_less_iff)

section \<open>From the signature to the completion\<close>

lemma generate_world: "snd (generateKey pre u name w) = (tick w)\<lparr>rnd_ix := Suc (rnd_ix w)\<rparr>"
  by (simp add: generateKey_def uploads_randomHex_def Let_def go_simps)

definition signed_query :: "LocalFileStorage \<Rightarrow> string \<Rightarrow> string \<Rightarrow> int \<Rightarrow> int \<Rightarrow> put_query" where
  "signed_query l key ct bytes expires = \<lparr> puq_contentType = ct, puq_maxBytes = show_int bytes,
     puq_expires = show_int expires, puq_signature = signUpload l key ct bytes expires \<rparr>"

lemma sign_quiet:
  assumes "GetScope (sgn_Scope a) = Some cfg" "clm_Role c \<in> set (scf_AllowedRoles cfg)"
    "sgn_MimeType a \<in> set (scf_AllowedMime cfg)" "0 < sgn_Size a" "sgn_Size a \<le> max_bytes cfg" "sgn_Filename a \<noteq> []"
    "sgn_RefID a = []" "fst (generateKey (scf_KeyPrefix cfg) (clm_UserID c) (sgn_Filename a) w) = Inr key"
    "resolveObjectPath l d key = Inr path"
  shows "h_uploads_sign (LocalStorage sniff l) (Some c) (Some a) (w, d) =
    (Inr \<lparr> sgo_UploadURL = lfs_UploadBaseURL l @ ''/'' @ key @ ''?'' @ encode_query (presign_query l key (sgn_MimeType a)
             (sgn_Size a) ((clock (tick w) + scf_PresignTTLSec cfg * 1000) div 1000)),
           sgo_PublicURL = lfs_PublicBase l @ ''/'' @ key, sgo_Key = key, sgo_ExpiresIn = scf_PresignTTLSec cfg,
           sgo_Scope = sgn_Scope a \<rparr>, (tick ((tick w)\<lparr>rnd_ix := Suc (rnd_ix w)\<rparr>), d))"
proof -
  have fine: "sgn_Scope a \<noteq> []" "scope_IsValid (sgn_Scope a)" "sgn_MimeType a \<noteq> []"
    "NormalizeContentType (sgn_MimeType a) = sgn_MimeType a" "max_bytes cfg \<le> maxLocalUploadBytes"
    "0 < scf_PresignTTLSec cfg" "scf_PresignTTLSec cfg \<le> maxLocalPresignTTL"
    using scope_fine_of [OF assms(1)] assms(3) by (auto simp: scope_fine_def list_all_iff)
  have gen: "on_world (generateKey (scf_KeyPrefix cfg) (clm_UserID c) (sgn_Filename a)) (w, d) =
      (Inr key, ((tick w)\<lparr>rnd_ix := Suc (rnd_ix w)\<rparr>, d))"
    using assms(8) by (simp add: on_world_run generate_world)
  have pre: "local_PresignUpload l key (sgn_MimeType a) (sgn_Size a) (scf_PresignTTLSec cfg) (v, d) =
     (Inr \<lparr> psr_UploadURL = lfs_UploadBaseURL l @ ''/'' @ key @ ''?'' @ encode_query (presign_query l key (sgn_MimeType a)
             (sgn_Size a) ((clock v + scf_PresignTTLSec cfg * 1000) div 1000)),
           psr_PublicURL = lfs_PublicBase l @ ''/'' @ key, psr_Key = key, psr_ExpiresIn = scf_PresignTTLSec cfg \<rparr>,
      (tick v, d))" for v
    using assms(4,5,9) fine
    by (simp add: local_PresignUpload_def bind_run on_world_run go_now_run ret_run Let_def)
  show ?thesis
    using assms(1-7) fine gen pre
    by (simp add: h_uploads_sign_def storage_claims_def storage_body_def uploads_Sign_def known_scope_def roleAllowed_def
        mimeAllowed_def call_run ret_run LocalStorage_def)
qed

lemma below_mkdir: "below_dirs d p \<Longrightarrow> below_dirs (MkdirAll (butlast p) d) p"
  by (auto simp: below_dirs_def MkdirAll_def)

lemma put_quiet:
  assumes root: "trim_space (lfs_RootDir l) \<noteq> []"
    and key: "clean_path key \<noteq> []" "list_all plain_component (clean_path key)" "list_all key_char key" "key \<noteq> []"
      "\<not> has_prefix key ''/''"
    and free: "below_dirs d (clean_path key)" "d (clean_path key) = None"
    and ct: "ct \<noteq> []" "NormalizeContentType ct = ct" "safeDetectedContentType ct (NormalizeContentType (detectFileContentType sniff body))"
    and bytes: "0 < bytes" "bytes \<le> maxLocalUploadBytes" "int (length body) \<le> bytes"
    and time: "clock v div 1000 \<le> expires" "expires \<le> clock v div 1000 + maxLocalPresignTTL" "0 \<le> expires" "expires < 2 ^ 63"
  shows "h_uploads_put sniff id l key ct (signed_query l key ct bytes expires) body (v, d) =
    (Inr (), (tick v, (MkdirAll (butlast (clean_path key)) d)(clean_path key := Some (File body))))"
proof -
  let ?p = "clean_path key" and ?m = "MkdirAll (butlast (clean_path key)) d"
  have m: "?m ?p = None"
  proof -
    have "\<not> prefix ?p (butlast ?p)" using prefix_length_le [of ?p "butlast ?p"] key(1) by (cases ?p) auto
    then show ?thesis using free(2) by (simp add: MkdirAll_def)
  qed
  have res: "resolveObjectPath l d key = Inr ?p" "resolveObjectPath l ?m key = Inr ?p"
    using root key free m below_mkdir [OF free(1)] by (intro resolve_clean; simp)+
  have "bytes < 2 ^ 63" using bytes(2) by (simp add: maxLocalUploadBytes_def)
  then have at: "atoi (show_int bytes) = Some bytes" "atoi (show_int expires) = Some expires"
    using bytes(1) time(3,4) by (simp_all add: atoi_show_int)
  have trim: "trim_prefix key ''/'' = key" using key(5) by (simp add: trim_prefix_def)
  have put: "PutPresigned sniff id l key ct bytes expires (signUpload l key ct bytes expires) body (v, d) =
      (Inr (), (tick v, ?m(?p := Some (File body))))"
    using res m ct bytes time base64_back
    by (simp add: PutPresigned_def Let_def bind_run on_world_run go_now_run signUpload_def)
  show ?thesis
    using at ct put by (simp add: h_uploads_put_def signed_query_def trim Let_def call_run ret_run)
qed

lemma upload_complete_quiet:
  assumes root: "trim_space (lfs_RootDir l) \<noteq> []"
    and key: "clean_path key \<noteq> []" "list_all plain_component (clean_path key)" "list_all key_char key" "key \<noteq> []"
      "\<not> has_prefix key ''/''"
    and disk: "below_dirs d (clean_path key)" "d (clean_path key) = Some (File body)"
    and scope: "GetScope scope = Some cfg" "has_prefix key (scf_KeyPrefix cfg @ ''/'' @ clm_UserID c @ ''/'')"
      "clm_Role c \<in> set (scf_AllowedRoles cfg)"
    and body: "body \<noteq> []" "int (length body) \<le> max_bytes cfg"
      "to_lower (takeWhile (\<lambda>x. x \<noteq> CHR '';'') (detectFileContentType sniff body)) \<in> set (scf_AllowedMime cfg)"
  shows "h_uploads_complete (LocalStorage sniff l) (Some c) (Some \<lparr> cmi_Scope = scope, cmi_Key = key, cmi_RefID = [] \<rparr>) (v, d) =
    (Inr \<lparr> cmo_URL = lfs_PublicBase l @ ''/'' @ key, cmo_PublicURL = lfs_PublicBase l @ ''/'' @ key, cmo_Key = key,
          cmo_WrittenBack = False \<rparr>, (v, d))"
proof -
  have "resolveObjectPath l d key = Inr (clean_path key)"
    using root key disk by (intro resolve_clean) simp_all
  then have "local_HeadObject sniff l key (v, d) = (Inr \<lparr> obm_Key = key, obm_Size = int (length body),
      obm_ContentType = detectFileContentType sniff body \<rparr>, (v, d))"
    by (simp add: local_HeadObject_def disk(2))
  moreover have "scope \<noteq> []" "scope_IsValid scope" using scope_fine_of [OF scope(1)] by (simp_all add: scope_fine_def)
  ultimately show ?thesis
    using key(4) scope body
    by (simp add: h_uploads_complete_def storage_claims_def storage_body_def uploads_Complete_def known_scope_def
        roleAllowed_def checked_object_def LocalStorage_def call_run mimeAllowed_def ret_run Let_def)
qed

text \<open>C36: an upload goes through: a signed request of an allowed role, type and size yields an address whose query
  carries the type, the size, the expiry and a signature; a PUT with that query and a fitting body before the
  expiry publishes the body at the key; and completing it there answers with the address announced when it was
  signed.\<close>

theorem signed_upload_completes:
  assumes "GetScope (sgn_Scope a) = Some cfg" "clm_Role c \<in> set (scf_AllowedRoles cfg)" "plain_component (clm_UserID c)"
    "sgn_MimeType a \<in> set (scf_AllowedMime cfg)" "0 < sgn_Size a" "sgn_Size a \<le> max_bytes cfg" "sgn_Filename a \<noteq> []"
    "sgn_RefID a = []" "fst (generateKey (scf_KeyPrefix cfg) (clm_UserID c) (sgn_Filename a) w) = Inr key"
    and disk: "trim_space (lfs_RootDir l) \<noteq> []" "below_dirs d (clean_path key)" "d (clean_path key) = None"
    and time: "0 \<le> clock (tick w)" "clock (tick w) \<le> clock v" "clock v \<le> clock (tick w) + scf_PresignTTLSec cfg * 1000"
      "clock v < 2 ^ 62"
    and body: "body \<noteq> []" "int (length body) \<le> sgn_Size a"
      "safeDetectedContentType (sgn_MimeType a) (NormalizeContentType (detectFileContentType sniff body))"
      "to_lower (takeWhile (\<lambda>x. x \<noteq> CHR '';'') (detectFileContentType sniff body)) \<in> set (scf_AllowedMime cfg)"
  shows "\<exists>out q w' v' e cout. h_uploads_sign (LocalStorage sniff l) (Some c) (Some a) (w, d) = (Inr out, (w', d)) \<and>
    sgo_Key out = key \<and> sgo_UploadURL out = lfs_UploadBaseURL l @ ''/'' @ key @ ''?'' @ encode_query
      [(''contentType'', puq_contentType q), (''expires'', puq_expires q), (''maxBytes'', puq_maxBytes q),
       (''signature'', puq_signature q)] \<and>
    h_uploads_put sniff id l key (sgn_MimeType a) q body (v, d) = (Inr (), (v', e)) \<and>
    e (clean_path key) = Some (File body) \<and>
    h_uploads_complete (LocalStorage sniff l) (Some c)
      (Some \<lparr> cmi_Scope = sgn_Scope a, cmi_Key = key, cmi_RefID = [] \<rparr>) (v', e) = (Inr cout, (v', e)) \<and>
    cmo_URL cout = sgo_PublicURL out"
proof -
  note path = generated_path [OF assms(1,3,9)]
  have fine: "sgn_MimeType a \<noteq> []" "NormalizeContentType (sgn_MimeType a) = sgn_MimeType a"
    "max_bytes cfg \<le> maxLocalUploadBytes" "scf_PresignTTLSec cfg \<le> maxLocalPresignTTL" "0 < scf_PresignTTLSec cfg"
    using scope_fine_of [OF assms(1)] assms(4) by (auto simp: scope_fine_def list_all_iff)
  let ?x = "(clock (tick w) + scf_PresignTTLSec cfg * 1000) div 1000"
  have x: "?x = clock (tick w) div 1000 + scf_PresignTTLSec cfg" by simp
  have t: "clock v div 1000 \<le> ?x" using time(3) by (rule zdiv_mono1) simp
  have t': "clock (tick w) div 1000 \<le> clock v div 1000" using time(2) by (rule zdiv_mono1) simp
  then have "?x \<le> clock v div 1000 + maxLocalPresignTTL" "0 \<le> ?x" using x fine(4,5) time(1) by simp_all
  moreover have "?x < 2 ^ 63"
  proof -
    have "clock v div 1000 \<le> clock v" using zdiv_mono2 [of "clock v" 1 1000] time(1,2) by simp
    then show ?thesis using x t' fine(4) time(4) by (simp add: maxLocalPresignTTL_def)
  qed
  ultimately have put: "h_uploads_put sniff id l key (sgn_MimeType a) (signed_query l key (sgn_MimeType a) (sgn_Size a) ?x) body (v, d) =
      (Inr (), (tick v, (MkdirAll (butlast (clean_path key)) d)(clean_path key := Some (File body))))"
    using assms(5,6) fine t disk body path by (intro put_quiet) simp_all
  let ?e = "(MkdirAll (butlast (clean_path key)) d)(clean_path key := Some (File body))"
  have below: "below_dirs ?e (clean_path key)"
    using below_mkdir [OF disk(2)] by (auto simp: below_dirs_def)
  have "int (length body) \<le> max_bytes cfg" using body(2) assms(6) by simp
  note complete = upload_complete_quiet [OF disk(1) path(1-5) below _ assms(1) path(6) assms(2) body(1) this body(4), of "tick v"]
  have sign: "resolveObjectPath l d key = Inr (clean_path key)"
    using disk path by (intro resolve_clean) simp_all
  let ?q = "signed_query l key (sgn_MimeType a) (sgn_Size a) ?x"
  have query: "presign_query l key (sgn_MimeType a) (sgn_Size a) ?x =
      [(''contentType'', puq_contentType ?q), (''expires'', puq_expires ?q), (''maxBytes'', puq_maxBytes ?q),
       (''signature'', puq_signature ?q)]"
    by (simp add: signed_query_def presign_query_def)
  show ?thesis
    by (rule exI, rule exI [of _ ?q], rule exI, rule exI [of _ "tick v"], rule exI [of _ ?e], rule exI, intro conjI,
        rule sign_quiet [OF assms(1,2,4-9) sign], simp, simp only: query SignOutput.simps, rule put, simp,
        rule complete, simp, simp only: SignOutput.simps CompleteOutput.simps)
qed

section \<open>Instances\<close>

definition demo_storage :: LocalFileStorage where
  "demo_storage = \<lparr> lfs_RootDir = ''/data'', lfs_PublicBase = ''http://x/files'', lfs_UploadBaseURL = ''http://x/up'',
     lfs_signingKey = replicate 32 CHR ''k'' \<rparr>"

definition video_path :: "string list" where
  "video_path = [''lessons'', ''videos'', ''boss'', ''1.mp4'']"

text \<open>A lesson video of the administrator and an avatar of \<open>u1\<close>.\<close>

definition demo_disk :: disk where
  "demo_disk = (\<lambda>p. if p = video_path then Some (File ''film'')
     else if p = [''users'', ''avatars'', ''u1'', ''a.png''] then Some (File ''face'')
     else if p \<noteq> [] \<and> (prefix p video_path \<or> prefix p [''users'', ''avatars'', ''u1'']) then Some Dir else None)"

definition demo_sniff :: "string \<Rightarrow> string" where
  "demo_sniff b = (if b = ''film'' then ''video/mp4'' else ''image/png'')"

lemma demo_root: "trim_space (lfs_RootDir demo_storage) \<noteq> []"
  by (simp add: demo_storage_def) code_simp

lemma demo_components: "list_all plain_component [''users'', ''avatars'', ''u1'', ''a.png'', ''lessons'', ''videos'', ''boss'', ''1.mp4'']"
  by code_simp

lemma below_demo: "below_dirs demo_disk video_path" "below_dirs demo_disk [''users'', ''avatars'', ''u1'', ''a.png'']"
proof -
  have i: "{1..<length video_path} = {1, 2, 3}" "{1..<length [''users'', ''avatars'', ''u1'', ''a.png'']} = {1, 2, 3}"
    by (auto simp: video_path_def)
  show "below_dirs demo_disk video_path" "below_dirs demo_disk [''users'', ''avatars'', ''u1'', ''a.png'']"
    unfolding below_dirs_def i by (simp_all add: video_path_def demo_disk_def numeral_eq_Suc)
qed

theorem foreign_object_deleted_witness:
  "\<exists>e. h_uploads_complete (LocalStorage demo_sniff demo_storage) (Some (demo_claims ''u1'' ''student''))
      (Some \<lparr> cmi_Scope = ''user-avatar'',
              cmi_Key = climbing_key (clm_UserID (demo_claims ''u1'' ''student'')) video_path, cmi_RefID = [] \<rparr>)
      (demo_world empty_database, demo_disk) =
    (Inl (BadRequest e), (demo_world empty_database, demo_disk(video_path := None)))"
proof (rule foreign_object_deleted [OF demo_root, where b = "''film''"])
  show "plain_component (clm_UserID (demo_claims ''u1'' ''student''))" "list_all plain_component video_path"
    using demo_components by (simp_all add: demo_claims_def video_path_def)
  show "clm_Role (demo_claims ''u1'' ''student'') \<in> set [''student'', ''instructor'', ''admin'']" by (simp add: demo_claims_def)
  show "video_path \<noteq> []" by (simp add: video_path_def)
  show "below_dirs demo_disk video_path" by (rule below_demo)
  show "demo_disk video_path = Some (File ''film'')" by (simp add: demo_disk_def)
  have "to_lower (takeWhile (\<lambda>x. x \<noteq> CHR '';'') ''video/mp4'') = ''video/mp4''" by code_simp
  then show "length ''film'' = 0 \<or> 2 * 1024 * 1024 < length ''film'' \<or>
      to_lower (takeWhile (\<lambda>x. x \<noteq> CHR '';'') (detectFileContentType demo_sniff ''film'')) \<notin> set image_types"
    by (simp add: detectFileContentType_def demo_sniff_def image_types_def)
qed

theorem put_publishes_once_witness:
  "keeps_files demo_disk (snd (snd (h_uploads_put demo_sniff id demo_storage ''k'' ''image/png''
     (signed_query demo_storage ''k'' ''image/png'' 4 9) ''face'' (demo_world empty_database, demo_disk))))"
proof -
  let ?p = "h_uploads_put demo_sniff id demo_storage ''k'' ''image/png''
     (signed_query demo_storage ''k'' ''image/png'' 4 9) ''face'' (demo_world empty_database, demo_disk)"
  have "?p = (fst ?p, (fst (snd ?p), snd (snd ?p)))" by simp
  from put_publishes_once [OF this] show ?thesis by (simp add: keeps_refl)
qed


lemma avatar_of:
  "list_all (\<lambda>m. m \<in> set (scf_AllowedMime cfg)) image_types \<and> clm_Role (demo_claims u ''student'') \<in> set (scf_AllowedRoles cfg) \<and>
   max_bytes cfg = 2097152 \<and> scf_KeyPrefix cfg = ''users/avatars'' \<and> scf_PresignTTLSec cfg = 600"
  if "GetScope ''user-avatar'' = Some cfg"
  using that by (auto simp: avatar_scope image_types_def demo_claims_def max_bytes_def)

definition avatar_input :: SignInput where
  "avatar_input = \<lparr> sgn_Scope = ''user-avatar'', sgn_Filename = ''me.png'', sgn_MimeType = ''image/png'', sgn_Size = 9,
     sgn_RefID = [] \<rparr>"

lemma image_facts:
  "safeDetectedContentType ''image/png'' (NormalizeContentType ''image/png'')"
  "to_lower (takeWhile (\<lambda>x. x \<noteq> CHR '';'') ''image/png'') = ''image/png''"
  by code_simp+

theorem signed_upload_completes_witness:
  "\<exists>out w' v' e cout key. h_uploads_sign (LocalStorage demo_sniff demo_storage) (Some (demo_claims ''u1'' ''student''))
      (Some avatar_input) (demo_world empty_database, (\<lambda>_. None)) = (Inr out, (w', (\<lambda>_. None))) \<and> sgo_Key out = key \<and>
    e (clean_path key) = Some (File ''face'') \<and>
    h_uploads_complete (LocalStorage demo_sniff demo_storage) (Some (demo_claims ''u1'' ''student''))
      (Some \<lparr> cmi_Scope = ''user-avatar'', cmi_Key = key, cmi_RefID = [] \<rparr>) (v', e) = (Inr cout, (v', e))"
proof -
  let ?w = "demo_world empty_database" and ?c = "demo_claims ''u1'' ''student''"
  obtain cfg where cfg: "GetScope ''user-avatar'' = Some cfg" using avatar_scope by blast
  note of = avatar_of [OF cfg, of "''u1''"]
  obtain key where key: "fst (generateKey (scf_KeyPrefix cfg) (clm_UserID ?c) (sgn_Filename avatar_input) ?w) = Inr key"
    by (simp add: generateKey_def uploads_randomHex_def Let_def go_simps)
  have body: "safeDetectedContentType (sgn_MimeType avatar_input) (NormalizeContentType (detectFileContentType demo_sniff ''face''))"
    "to_lower (takeWhile (\<lambda>x. x \<noteq> CHR '';'') (detectFileContentType demo_sniff ''face'')) \<in> set (scf_AllowedMime cfg)"
    using image_facts of by (simp_all add: avatar_input_def detectFileContentType_def demo_sniff_def image_types_def)
  have sc: "GetScope (sgn_Scope avatar_input) = Some cfg" using cfg by (simp add: avatar_input_def)
  have a: "clm_Role ?c \<in> set (scf_AllowedRoles cfg)" "plain_component (clm_UserID ?c)"
    "sgn_MimeType avatar_input \<in> set (scf_AllowedMime cfg)" "0 < sgn_Size avatar_input" "sgn_Size avatar_input \<le> max_bytes cfg"
    "sgn_Filename avatar_input \<noteq> []" "sgn_RefID avatar_input = []"
    using of demo_components by (simp_all add: avatar_input_def image_types_def demo_claims_def)
  have d: "below_dirs (\<lambda>_. None) (clean_path key)" by (simp add: below_dirs_def)
  have t: "0 \<le> clock (tick ?w)" "clock (tick ?w) \<le> clock (tick ?w)"
    "clock (tick ?w) \<le> clock (tick ?w) + scf_PresignTTLSec cfg * 1000" "clock (tick ?w) < 2 ^ 62"
    using of by (simp_all add: tick_eq demo_world_def)
  have b: "''face'' \<noteq> []" "int (length ''face'') \<le> sgn_Size avatar_input" by (simp_all add: avatar_input_def)
  show ?thesis
    using signed_upload_completes [OF sc a key demo_root d refl t b body] by (force simp: avatar_input_def)
qed

definition avatar_complete :: CompleteInput where
  "avatar_complete = \<lparr> cmi_Scope = ''user-avatar'', cmi_Key = ''users/avatars/u1/a.png'', cmi_RefID = ''u1'' \<rparr>"

definition avatar_world :: world where
  "avatar_world = demo_world (empty_database\<lparr>t_users := [demo_user ''u1'']\<rparr>)"

theorem complete_twice_fails_witness:
  "\<exists>msg x. snd (h_uploads_complete (LocalStorage demo_sniff demo_storage) (Some (demo_claims ''u1'' ''student''))
      (Some avatar_complete) (avatar_world, demo_disk)) = x \<and>
    h_uploads_complete (LocalStorage demo_sniff demo_storage) (Some (demo_claims ''u1'' ''student'')) (Some avatar_complete) x =
      (Inl (NotFound msg), x)"
proof -
  let ?c = "demo_claims ''u1'' ''student''" and ?key = "''users/avatars/u1/a.png''"
  let ?path = "[''users'', ''avatars'', ''u1'', ''a.png'']"
  let ?url = "lfs_PublicBase demo_storage @ ''/'' @ ?key"
  obtain cfg where cfg: "GetScope ''user-avatar'' = Some cfg" using avatar_scope by blast
  note of = avatar_of [OF cfg, of "''u1''"]
  have key: "clean_path ?key = ?path" "list_all key_char ?key" "\<not> has_prefix ?key ''/''"
    "has_prefix ?key (''users/avatars'' @ ''/'' @ ''u1'' @ ''/'')" "fits_191 (Some ?url)" "scope_IsValid ''user-avatar''"
    by code_simp+
  have res: "resolveObjectPath demo_storage demo_disk ?key = Inr ?path"
    using key demo_root below_demo(2) demo_components by (intro resolve_clean) (simp_all add: demo_disk_def video_path_def)
  have head: "local_HeadObject demo_sniff demo_storage ?key (w, demo_disk) = (Inr \<lparr> obm_Key = ?key, obm_Size = 4,
      obm_ContentType = ''image/png'' \<rparr>, (w, demo_disk))" for w
    unfolding local_HeadObject_def using res
    by (simp add: demo_disk_def video_path_def detectFileContentType_def demo_sniff_def)
  have wrote: "\<exists>v. routeWriteback ''user-avatar'' ''u1'' ?url ''u1'' ''student'' avatar_world = (Inr True, v)"
    using key(5) by (simp add: routeWriteback_def Let_def written_back_def q_UploadSetUserAvatar_def upload_set_def
        go_simps avatar_world_def demo_world_def demo_user_def)
  then obtain v where v: "routeWriteback ''user-avatar'' ''u1'' ?url ''u1'' ''student'' avatar_world = (Inr True, v)" ..
  have "''image/png'' \<in> set (scf_AllowedMime cfg)" using of by (simp add: image_types_def)
  then have run: "\<exists>out. h_uploads_complete (LocalStorage demo_sniff demo_storage) (Some ?c) (Some avatar_complete) (avatar_world, demo_disk) =
      (Inr out, (v, demo_disk))"
    using cfg of key head v image_facts
    by (simp add: h_uploads_complete_def storage_claims_def storage_body_def uploads_Complete_def known_scope_def
        avatar_complete_def demo_claims_def roleAllowed_def checked_object_def LocalStorage_def call_run mimeAllowed_def
        on_world_run ret_run Let_def)
  then obtain out where out: "h_uploads_complete (LocalStorage demo_sniff demo_storage) (Some ?c) (Some avatar_complete) (avatar_world, demo_disk) =
      (Inr out, (v, demo_disk))" ..
  have "script avatar_world = []" "cmi_RefID avatar_complete \<noteq> []"
    by (simp_all add: avatar_world_def demo_world_def avatar_complete_def)
  from complete_twice_fails [OF this out] show ?thesis by (simp add: out)
qed

end
