(* ===== verification/OrderHandlers.thy ===== *)
theory OrderHandlers
  imports Wiring ProgressFacts Points Http
begin

text \<open>
  The endpoints of the order side: \<open>internal/handler/orders.go\<close>, \<open>enrollments.go\<close>, \<open>certificates.go\<close>,
  \<open>badges.go\<close>, \<open>notifications.go\<close>, \<open>progress.go\<close> and \<open>points.go\<close>.
\<close>

section \<open>Orders and enrollments\<close>

text \<open>\<open>env\<close> is the environment of the configuration: payments and refunds are simulated, and closed in
  production.\<close>

definition h_orders_prodBlock :: "string \<Rightarrow> 'a io \<Rightarrow> 'a io" where
  "h_orders_prodBlock env k = (if env = ''production'' then fail (FiberError 503 msg_pay_closed) else k)"

definition h_orders_list :: "Claims option \<Rightarrow> OrderWithRefs list io" where
  "h_orders_list claims = with_claims claims (\<lambda>c. orders_ListByUser (clm_UserID c))"

definition h_orders_get :: "Claims option \<Rightarrow> string \<Rightarrow> OrderWithRefs io" where
  "h_orders_get claims i = with_claims claims (\<lambda>c. orders_GetByID (clm_UserID c) i)"

definition h_orders_create :: "order_hooks \<Rightarrow> Claims option \<Rightarrow> APIInput option \<Rightarrow> CreateResult io" where
  "h_orders_create h claims body = with_claims claims (\<lambda>c. with_body body (\<lambda>i.
     orders_Create h (clm_UserID c) i))"

text \<open>The body of a payment is optional: one that does not parse counts as empty.\<close>

definition h_orders_pay :: "order_hooks \<Rightarrow> string \<Rightarrow> Claims option \<Rightarrow> string \<Rightarrow> string option \<Rightarrow> OrderWithRefs io" where
  "h_orders_pay h env claims i body = h_orders_prodBlock env (with_claims claims (\<lambda>c.
     orders_MockPay h (clm_UserID c) i (case body of Some m \<Rightarrow> m | None \<Rightarrow> [])))"

definition h_orders_cancel :: "Claims option \<Rightarrow> string \<Rightarrow> bool io" where
  "h_orders_cancel claims i = with_claims claims (\<lambda>c.
     call (orders_Cancel (clm_UserID c) i) fail (\<lambda>_. ret True))"

definition h_orders_refund :: "order_hooks \<Rightarrow> string \<Rightarrow> Claims option \<Rightarrow> string \<Rightarrow> RefundResult io" where
  "h_orders_refund h env claims i = h_orders_prodBlock env (with_claims claims (\<lambda>c.
     RefundOrder h (clm_UserID c) i))"

definition h_enrollments_list :: "Claims option \<Rightarrow> EnrollWithRefs list io" where
  "h_enrollments_list claims = with_claims claims (\<lambda>c. enrollments_FindByUser (clm_UserID c))"

definition h_enrollments_enrollFree :: "Claims option \<Rightarrow> string \<Rightarrow> EnrollWithRefs io" where
  "h_enrollments_enrollFree claims i = with_claims claims (\<lambda>c.
     enrollments_EnrollFreeCourse (clm_UserID c) i)"

section \<open>Certificates and badges\<close>

definition h_certificates_list :: "Claims option \<Rightarrow> string \<Rightarrow> CertDTO list io" where
  "h_certificates_list claims typ = with_claims claims (\<lambda>c. FindMyCertificates (clm_UserID c) typ)"

definition h_certificates_verify :: "string \<Rightarrow> VerifyResult io" where
  "h_certificates_verify serial = VerifyCertificate serial"

definition h_certificates_get :: "string \<Rightarrow> CertDTO io" where
  "h_certificates_get i = FindCertificateByID i"

definition h_certificates_revoke :: "Claims option \<Rightarrow> string \<Rightarrow> CertDTO io" where
  "h_certificates_revoke claims i = admin_only claims (with_claims claims (\<lambda>c.
     RevokeCertificate i (clm_UserID c)))"

definition h_badges_listActive :: "BadgeDTO list io" where
  "h_badges_listActive = badges_ListActive"

definition h_badges_me :: "Claims option \<Rightarrow> UserBadgeWithStatus list io" where
  "h_badges_me claims = with_claims claims (\<lambda>c. GetMyBadges (clm_UserID c))"

definition h_badges_create :: "Claims option \<Rightarrow> BadgeInput option \<Rightarrow> BadgeDTO io" where
  "h_badges_create claims body = admin_only claims (with_body body badges_Create)"

definition h_badges_update :: "Claims option \<Rightarrow> string \<Rightarrow> BadgeInput option \<Rightarrow> BadgeDTO io" where
  "h_badges_update claims i body = admin_only claims (with_body body (badges_Update i))"

definition h_badges_delete :: "Claims option \<Rightarrow> string \<Rightarrow> bool io" where
  "h_badges_delete claims i = admin_only claims (call (badges_Delete i) fail (\<lambda>_. ret True))"

definition h_badges_adminStats :: "Claims option \<Rightarrow> AdminStats io" where
  "h_badges_adminStats claims = admin_only claims GetAdminStats"

section \<open>Notifications\<close>

definition h_notifications_list :: "Claims option \<Rightarrow> NotificationList io" where
  "h_notifications_list claims = with_claims claims (\<lambda>c. notifications_List (clm_UserID c))"

definition h_notifications_unreadCount :: "Claims option \<Rightarrow> int io" where
  "h_notifications_unreadCount claims = with_claims claims (\<lambda>c. notifications_UnreadCount (clm_UserID c))"

definition h_notifications_markRead :: "Claims option \<Rightarrow> string \<Rightarrow> bool io" where
  "h_notifications_markRead claims i = with_claims claims (\<lambda>c.
     call (notifications_MarkRead (clm_UserID c) i) fail (\<lambda>_. ret True))"

definition h_notifications_markAllRead :: "Claims option \<Rightarrow> bool io" where
  "h_notifications_markAllRead claims = with_claims claims (\<lambda>c.
     call (notifications_MarkAllRead (clm_UserID c)) fail (\<lambda>_. ret True))"

definition h_notifications_delete :: "Claims option \<Rightarrow> string \<Rightarrow> bool io" where
  "h_notifications_delete claims i = with_claims claims (\<lambda>c.
     call (notifications_Delete (clm_UserID c) i) fail (\<lambda>_. ret True))"

definition h_notifications_clearRead :: "Claims option \<Rightarrow> bool io" where
  "h_notifications_clearRead claims = with_claims claims (\<lambda>c.
     call (notifications_ClearRead (clm_UserID c)) fail (\<lambda>_. ret True))"

section \<open>Progress and points\<close>

definition h_progress_myProgress :: "Claims option \<Rightarrow> ProgressDTO list io" where
  "h_progress_myProgress claims = with_claims claims (\<lambda>c. GetMyProgress (clm_UserID c))"

definition h_progress_myStats :: "Claims option \<Rightarrow> LearningStats io" where
  "h_progress_myStats claims = with_claims claims (\<lambda>c. GetLearningStats (clm_UserID c))"

definition h_progress_courseProgress :: "Claims option \<Rightarrow> string \<Rightarrow> ProgressDTO list io" where
  "h_progress_courseProgress claims i = with_claims claims (\<lambda>c. GetCourseProgress (clm_UserID c) i)"

definition h_progress_completeLesson :: "Claims option \<Rightarrow> string \<Rightarrow> ProgressDTO io" where
  "h_progress_completeLesson claims i = with_claims claims (\<lambda>c. CompleteLesson (clm_UserID c) i)"

definition h_points_getMyPoints :: "(dbl \<Rightarrow> int) \<Rightarrow> Claims option \<Rightarrow> PointsDTO io" where
  "h_points_getMyPoints out_of_range claims = with_claims claims (\<lambda>c.
     points_GetUserPoints out_of_range (clm_UserID c))"

end
