(* ===== verification/OrderScope.thy ===== *)
theory OrderScope
  imports OrderHandlers
begin

text \<open>
  Whose orders and enrollments the endpoints of the order side change: those of the caller only, also when
  several requests of the caller run at the same time.  Statements that address a row by its id need that the
  row was looked up for the caller: the proof carries this fact from the check to the statement.
\<close>

section \<open>The rows of the others\<close>

definition others_rows :: "string \<Rightarrow> database \<Rightarrow> Order list \<times> Enrollment list" where
  "others_rows u d = (filter (\<lambda>r. ord_UserID r \<noteq> u) (t_orders d), filter (\<lambda>e. enr_UserID e \<noteq> u) (t_enrollments d))"

definition row_ids :: "database \<Rightarrow> bool" where
  "row_ids d \<longleftrightarrow> distinct (map ord_ID (t_orders d)) \<and> distinct (map enr_ID (t_enrollments d))"

definition own_orders :: "string \<Rightarrow> database \<Rightarrow> database \<Rightarrow> bool" where
  "own_orders u d d' \<longleftrightarrow> others_rows u d' = others_rows u d \<and> (row_ids d \<longrightarrow> row_ids d')"

interpretation own_orders: db_frame "own_orders u" for u
  by unfold_locales (auto simp: own_orders_def)

text \<open>No row of somebody else has the id.\<close>

definition own_order_id :: "string \<Rightarrow> string \<Rightarrow> database \<Rightarrow> bool" where
  "own_order_id u i d \<longleftrightarrow> row_ids d \<and> i \<notin> ord_ID ` set (fst (others_rows u d))"

definition own_enrollment_id :: "string \<Rightarrow> string \<Rightarrow> database \<Rightarrow> bool" where
  "own_enrollment_id u i d \<longleftrightarrow> row_ids d \<and> i \<notin> enr_ID ` set (snd (others_rows u d))"

lemma stable_ids:
  "stable (own_orders u) row_ids" "stable (own_orders u) (own_order_id u i)"
  "stable (own_orders u) (own_enrollment_id u i)"
  by (auto simp: stable_def own_orders_def own_order_id_def own_enrollment_id_def)

lemma found_own:
  assumes "row_ids d"
  shows "r \<in> set (t_orders d) \<Longrightarrow> ord_UserID r = u \<Longrightarrow> own_order_id u (ord_ID r) d"
    and "e \<in> set (t_enrollments d) \<Longrightarrow> enr_UserID e = u \<Longrightarrow> own_enrollment_id u (enr_ID e) d"
  using assms
  by (auto simp: own_order_id_def own_enrollment_id_def others_rows_def row_ids_def dest: distinct_key_unique)

section \<open>Statements\<close>

lemma filter_upd:
  "(\<And>r. r \<in> set rs \<Longrightarrow> P r \<Longrightarrow> \<not> F r \<and> \<not> F (f r)) \<Longrightarrow> filter F (upd P f rs) = filter F rs"
  by (induction rs) auto

lemma own_inserts:
  "ord_UserID r = u \<Longrightarrow> stmt_ok (own_orders u) (insert_order r)"
  "enr_UserID e = u \<Longrightarrow> stmt_ok (own_orders u) (insert_enrollment e)"
  "stmt_ok (own_orders u) (insert_audit_log a)"
  by (auto simp: stmt_ok_def own_orders_def others_rows_def row_ids_def insert_order_def insert_enrollment_def
      insert_audit_log_def ord_conflict_def enr_conflict_def list_ex_iff split: if_splits)

lemma own_revoke: "(\<And>d e. P d e \<Longrightarrow> enr_UserID e = u) \<Longrightarrow> stmt_ok (own_orders u) (revoke_where P t)"
  by (auto simp: stmt_ok_def own_orders_def others_rows_def row_ids_def revoke_where_def revoked_row_def
      map_upd_frame intro!: filter_upd)

lemma own_order_stmts:
  assumes "own_order_id u i d"
  shows "sql_mark_paid i txn pm now d = Inr (x, d') \<Longrightarrow> own_orders u d d'"
    and "sql_cancel_order i now d = Inr (x, d') \<Longrightarrow> own_orders u d d'"
    and "sql_mark_refunded i now d = Inr (y, d') \<Longrightarrow> own_orders u d d'"
  using assms
  by (auto simp: sql_mark_paid_def sql_cancel_order_def sql_mark_refunded_def payable_def paid_row_def Let_def
      own_orders_def own_order_id_def others_rows_def row_ids_def map_upd_frame intro!: filter_upd)

lemma own_revive: "own_enrollment_id u i d \<Longrightarrow> sql_enr_revive x now src i d = Inr (y, d') \<Longrightarrow> own_orders u d d'"
  by (auto simp: sql_enr_revive_def own_orders_def own_enrollment_id_def others_rows_def row_ids_def map_upd_frame
      intro!: filter_upd)

section \<open>Requests that start in good order\<close>

text \<open>From a state where \<open>P\<close> holds, and while only the caller's own requests interfere, the program moves
  along \<open>own_orders\<close>.\<close>

definition own_from :: "string \<Rightarrow> (database \<Rightarrow> bool) \<Rightarrow> world \<Rightarrow> world \<Rightarrow> bool" where
  "own_from u P w v \<longleftrightarrow> (rely_ok (own_orders u) w \<longrightarrow> P (db w) \<longrightarrow> db_step (own_orders u) w v)"

lemma own_from_frame:
  assumes "stable (own_orders u) P"
  shows "step_frame (own_from u P)"
proof
  show "own_from u P w w" for w by (simp add: own_from_def own_orders.steps.frame_refl)
  show "own_from u P w x" if "own_from u P w v" "own_from u P v x" for w v x
    using that assms db_step_rely own_orders.steps.frame_trans unfolding own_from_def stable_def by meson
qed

interpretation with_ids: step_frame "own_from u row_ids" for u
  by (rule own_from_frame [OF stable_ids(1)])

interpretation with_order: step_frame "own_from u (own_order_id u i)" for u i
  by (rule own_from_frame [OF stable_ids(2)])

interpretation with_enrollment: step_frame "own_from u (own_enrollment_id u i)" for u i
  by (rule own_from_frame [OF stable_ids(3)])

lemma own_from_within: "within (db_step (own_orders u)) m \<Longrightarrow> within (own_from u P) m"
  by (simp add: within_def own_from_def)

lemma own_from_rg: "within (own_from u P) m \<longleftrightarrow> rg (own_orders u) P m (\<lambda>_ _. True)"
  by (auto simp: within_def own_from_def rg_def)

lemma own_from_strict:
  "within (own_from u row_ids) m \<Longrightarrow> within (own_from u (own_order_id u i)) m"
  by (auto simp: within_def own_from_def own_order_id_def)

lemma own_from_exec:
  assumes "stable (own_orders u) P" "\<And>d x d'. P d \<Longrightarrow> f d = Inr (x, d') \<Longrightarrow> own_orders u d d'"
  shows "within (own_from u P) (exec f)"
  unfolding own_from_rg by (rule own_orders.rg_exec [OF assms(1)]) (use assms(2) in auto)

text \<open>What a query found is known to the rest of the program.\<close>

lemma own_from_found:
  fixes k :: "'x \<Rightarrow> 'b io"
  assumes found: "\<And>d x. row_ids d \<Longrightarrow> f d = Some x \<Longrightarrow> P x d"
    and h: "\<And>e. within (own_from u row_ids) (h e)" and k: "\<And>x. within (own_from u (P x)) (k x)"
  shows "within (own_from u row_ids) (call (query_one f) h k)"
  unfolding own_from_rg
proof (rule own_orders.rg_call)
  let ?Q = "\<lambda>r d. row_ids d \<and> (\<forall>x. r = Inr x \<longrightarrow> P x d)"
  show "rg (own_orders u) row_ids (query_one f) ?Q"
    unfolding query_one_def
    by (rule own_orders.rg_exec [OF stable_ids(1)]) (auto simp: own_orders.db_refl found split: option.splits)
  show "rg (own_orders u) (?Q (Inl e)) (h e) (\<lambda>_ _. True)" for e
    by (rule rg_conseq [OF h [unfolded own_from_rg]]) simp_all
  show "rg (own_orders u) (?Q (Inr x)) (k x) (\<lambda>_ _. True)" for x
    by (rule rg_conseq [OF k [unfolded own_from_rg]]) simp_all
qed

lemma own_from_order:
  fixes k :: "Order \<Rightarrow> 'b io"
  assumes "\<And>e. within (own_from u row_ids) (h e)" "\<And>r. within (own_from u (\<lambda>d. row_ids d \<and>
      (ord_UserID r = u \<longrightarrow> own_order_id u i d))) (k r)"
  shows "within (own_from u row_ids) (call (orders_repo_GetByID i) h k)"
proof -
  have "call (orders_repo_GetByID i) h k = call (q_GetOrderByID i)
      (\<lambda>e. h (if errors_is e ErrNoRows then orders_ErrNotFound else Wrap ''orders.repo: get'' e)) k"
    by (auto simp: fun_eq_iff orders_repo_GetByID_def call_def ret_def fail_def split: sum.splits prod.splits if_splits)
  moreover have "within (own_from u row_ids) (call (q_GetOrderByID i)
      (\<lambda>e. h (if errors_is e ErrNoRows then orders_ErrNotFound else Wrap ''orders.repo: get'' e)) k)"
    unfolding q_GetOrderByID_def
    by (rule own_from_found [where P = "\<lambda>r d. row_ids d \<and> (ord_UserID r = u \<longrightarrow> own_order_id u i d)"])
      (use assms found_own(1) in \<open>auto simp: order_by_id_def dest!: first_row_Some\<close>)
  ultimately show ?thesis by (simp only:)
qed

text \<open>The check of the owner: behind it the id is the caller's.\<close>

lemma own_from_owner:
  fixes k :: "Order \<Rightarrow> 'b io"
  assumes "\<And>e. within (own_from u row_ids) (h e)" "\<And>r. within (own_from u (own_order_id u i)) (k r)"
  shows "within (own_from u row_ids)
    (call (orders_repo_GetByID i) h (\<lambda>r. if ord_UserID r \<noteq> u then fail e else k r))"
proof (rule own_from_order [OF assms(1)])
  fix r
  show "within (own_from u (\<lambda>d. row_ids d \<and> (ord_UserID r = u \<longrightarrow> own_order_id u i d)))
      (if ord_UserID r \<noteq> u then fail e else k r)"
    using assms(2) [of r] by (cases "ord_UserID r = u") (auto simp: own_from_rg own_orders.rg_fail elim: rg_conseq)
qed

section \<open>The operations\<close>

text \<open>The reads of the services obey any relation: their lemmas hold for the one that forbids every write.\<close>

lemma own_reads:
  "within (db_step (own_orders u)) (orders_repo_GetByID i)"
  "within (db_step (own_orders u)) (orders_repo_GetCourseForOrder c)"
  "within (db_step (own_orders u)) (orders_repo_GetDegreeForOrder g)"
  "within (db_step (own_orders u)) (orders_repo_HasActiveEnrollment v c g)"
  "within (db_step (own_orders u)) (q_GetActiveEnrollmentByCourse v oc)"
  "within (db_step (own_orders u)) (q_GetActiveEnrollmentByDegree v og)"
  "within (db_step (own_orders u)) (orders_repo_GetDegreeCourses g)"
  unfolding orders_repo_GetByID_def orders_repo_GetCourseForOrder_def orders_repo_GetDegreeForOrder_def
    orders_repo_HasActiveEnrollment_def orders_repo_GetDegreeCourses_def q_GetOrderByID_def
    q_GetCourseForOrder_def q_GetDegreeForOrder_def q_GetActiveEnrollmentByCourse_def
    q_GetActiveEnrollmentByDegree_def q_GetDegreeCourses_def
  by (intro own_orders.within_intros)+

lemma own_more_reads:
  "within (db_step (own_orders u)) (toOrderWithRefs r)"
  "within (db_step (own_orders u)) (enrollments_repo_FindByUser v)"
  "within (db_step (own_orders u)) (enrollments_courseCostType c)"
  unfolding toOrderWithRefs_def enrollments_repo_FindByUser_def enrollments_courseCostType_def
    enrollments_repo_GetCourseCostType_def
  by (intro own_orders.within_intros own_reads)+

lemma own_check: "within (db_step (own_orders u)) (checkRefund r)"
  unfolding checkRefund_def Let_def q_RefundCountCompletedLessonsForCourse_def
    q_RefundCountTotalLessonsForCourse_def q_RefundCountStartedDegreeCourses_def
  by (cases "ord_Type r") (simp_all, (intro own_orders.within_intros)+)

lemma own_writes:
  "within (db_step (own_orders u)) (orders_writeAudit a i v)"
  "within (db_step (own_orders u)) (randomHex n)"
  "oci_UserID q = u \<Longrightarrow> within (db_step (own_orders u)) (orders_repo_Create q)"
  "within (db_step (own_orders u)) (revoke_enrollments r u t)"
proof -
  show "within (db_step (own_orders u)) (revoke_enrollments r u t)"
    unfolding revoke_enrollments_def sql_revoke_course_def sql_revoke_degree_def sql_revoke_degree_courses_def
    by (cases "ord_Type r")
      (simp_all, (intro own_orders.within_intros own_orders.within_exec own_revoke; simp)+)
qed (unfold orders_writeAudit_def randomHex_def orders_repo_Create_def q_CreateOrder_def,
    (intro own_orders.within_intros own_orders.within_exec own_inserts; simp add: new_order_def)+)

text \<open>An enrollment that is found for the caller is written by its id.\<close>

lemma own_from_enrollment:
  fixes k :: "string \<Rightarrow> 'b io"
  assumes "f = enr_of_course u c \<or> f = enr_of_degree u c" "\<And>e. within (own_from u row_ids) (h e)"
    "\<And>x. within (own_from u (own_enrollment_id u x)) (k x)"
  shows "within (own_from u row_ids) (call (query_one f) h k)"
  using assms(1)
  by (intro own_from_found [OF _ assms(2,3)])
    (auto simp: enr_of_course_def enr_of_degree_def dest!: first_row_Some dest: found_own(2))

lemma own_enrollment_writes:
  "within (own_from u (own_enrollment_id u i)) (exec (sql_enr_revive x now src i))"
  "enr_UserID e = u \<Longrightarrow> within (own_from u row_ids) (exec (insert_enrollment e))"
  by (rule own_from_exec [OF stable_ids(3)], rule own_revive, assumption+)
    (rule own_from_within, rule own_orders.within_exec, rule own_inserts)

lemma own_clock: "within (own_from u P) go_now" "within (own_from u P) new_uuid" "within (own_from u P) (go_spawn t)"
  by (rule own_from_within, rule own_orders.within_pure)+

lemma own_upsert: "within (own_from u row_ids) (orders_repo_UpsertEnrollment u c g src)"
  unfolding orders_repo_UpsertEnrollment_def
  by (intro with_ids.within_rules own_clock own_from_enrollment [where c = "if c \<noteq> [] then c else g"]
      with_enrollment.within_rules own_enrollment_writes) (simp_all add: upserted_row_def)

lemma own_enroll_free:
  assumes "ein_UserID q = u"
  shows "within (own_from u row_ids) (enrollments_repo_EnrollFreeCourse q)"
proof -
  have "within (own_from u P) (enrollments_repo_getByID i)" for P i
    unfolding enrollments_repo_getByID_def q_GetEnrollmentByID_def
    by (rule own_from_within) (intro own_orders.within_intros)
  then show ?thesis
    unfolding enrollments_repo_EnrollFreeCourse_def assms Let_def
    by (intro with_ids.within_rules own_clock own_from_enrollment [where c = "ein_CourseID q"]
        with_enrollment.within_rules own_enrollment_writes) simp_all
qed

lemma own_enroll_all: "within (own_from u row_ids) (enrollAllDegreeCourses u g)"
  unfolding enrollAllDegreeCourses_def enroll_courses_def
  by (intro with_ids.within_rules own_from_within [OF own_reads(7)] own_upsert)

lemmas own_leaves = own_clock own_upsert own_enroll_all own_reads [THEN own_from_within]
  own_more_reads [THEN own_from_within] own_writes(1,2,4) [THEN own_from_within]
  own_check [THEN own_from_within]

section \<open>The endpoints\<close>

lemma own_create:
  assumes "hooks_ok (own_orders u) h"
  shows "within (own_from u row_ids) (orders_Create h u i)"
proof -
  have hooks: "within (own_from u row_ids) (IssueCertificateOnPaid h v t x)"
    "within (own_from u row_ids) (NotifyOrderCreated h v q a)" for v t x q a
    using assms by (auto simp: hooks_ok_def intro: own_from_within)
  have new: "within (own_from u row_ids) (orders_repo_Create q)" if "oci_UserID q = u" for q
    by (rule own_from_within) (rule own_writes(3) [OF that])
  show ?thesis
    unfolding orders_Create_def createCourseOrder_def createDegreeOrder_def
    by (intro with_ids.within_rules own_leaves hooks new) simp_all
qed

text \<open>The order a request was checked for, and the rows of the caller behind it.\<close>

lemmas own_order_leaves = own_leaves(1,2) own_upsert [THEN own_from_strict] own_enroll_all [THEN own_from_strict]
  own_reads [THEN own_from_within] own_more_reads [THEN own_from_within]
  own_writes(1,2,4) [THEN own_from_within] own_check [THEN own_from_within]

lemma own_order_writes:
  "within (own_from u (own_order_id u i)) (orders_repo_MarkPaid i txn pm)"
  "within (own_from u (own_order_id u i)) (orders_repo_Cancel i)"
  "within (own_from u (own_order_id u i)) (orders_repo_MarkRefunded i)"
  unfolding orders_repo_MarkPaid_def orders_repo_Cancel_def orders_repo_MarkRefunded_def
  by (intro with_order.within_rules own_clock own_from_exec [OF stable_ids(2)]; erule own_order_stmts; assumption)+

lemma own_pay:
  assumes "hooks_ok (own_orders u) h"
  shows "within (own_from u row_ids) (orders_MockPay h u i pm)"
proof -
  have hooks: "within (own_from u P) (IssueCertificateOnPaid h v t x)" for P v t x
    using assms by (auto simp: hooks_ok_def intro: own_from_within)
  have "within (own_from u (own_order_id u i)) (finish_payment h u i r)" for r
    unfolding finish_payment_def Let_def by (intro with_order.within_rules own_order_leaves hooks)
  then show ?thesis
    unfolding orders_MockPay_def
    by (intro own_from_owner with_ids.within_rules with_order.within_rules own_order_leaves own_order_writes)
qed

lemma own_cancel: "within (own_from u row_ids) (orders_Cancel u i)"
  unfolding orders_Cancel_def
  by (intro own_from_owner with_ids.within_rules with_order.within_rules own_order_leaves own_order_writes)

lemma own_refund:
  assumes "hooks_ok (own_orders u) h"
  shows "within (own_from u row_ids) (RefundOrder h u i)"
proof -
  have hooks: "within (own_from u P) (refundNotifier h v q a)" for P v q a
    using assms by (auto simp: hooks_ok_def intro: own_from_within)
  have "within (own_from u (own_order_id u i)) (settle_refund h u i r fee)" for r fee
    unfolding settle_refund_def Let_def
    by (intro with_order.within_rules own_order_leaves own_order_writes hooks)
  then show ?thesis
    unfolding RefundOrder_def case_prod_unfold
    by (intro own_from_owner with_ids.within_rules with_order.within_rules own_order_leaves)
qed

lemma own_free: "within (own_from u row_ids) (enrollments_EnrollFreeCourse u c)"
  unfolding enrollments_EnrollFreeCourse_def Let_def
  by (intro with_ids.within_rules own_leaves own_enroll_free) simp_all

text \<open>The hooks the server installs write certificates and notifications only.\<close>

lemma side_is_own: "untouched (\<lambda>d. (t_orders d, t_enrollments d)) d d' \<Longrightarrow> own_orders u d d'"
  by (simp add: untouched_def own_orders_def others_rows_def row_ids_def)

interpretation own_certificates: certificate_writes "own_orders u" for u
  by unfold_locales (rule stmt_ok_mono [OF side_statements(1) side_is_own]
      stmt_ok_mono [OF side_statements(2) side_is_own] stmt_ok_mono [OF side_statements(3) side_is_own],
      assumption)+

interpretation own_notifications: notification_writes "own_orders u" for u
  by unfold_locales (rule stmt_ok_mono [OF side_statements(4) side_is_own], assumption)

lemma wired_hooks_own: "hooks_ok (own_orders u) wired_hooks"
  by (rule wired_hooks_within) unfold_locales

lemma own_from_others:
  assumes "within (own_from u row_ids) m" "rely_ok (own_orders u) w" "row_ids (db w)"
  shows "others_rows u (db (snd (m w))) = others_rows u (db w)"
  using assms db_step_rely unfolding within_def own_from_def own_orders_def by blast

lemma own_call: "within (own_from u row_ids) m \<Longrightarrow> within (own_from u row_ids) (call m fail (\<lambda>_. ret x))"
  by (intro with_ids.within_rules)

text \<open>C3: the five endpoints that write orders and enrollments, with the hooks of the server, leave every
  order and every enrollment of other users as it is, whatever id, body and environment they are called with,
  whatever else the caller does at the same time and wherever the connection breaks.\<close>

theorem order_owner_only:
  assumes "rely_ok (own_orders (clm_UserID c)) w" and "row_ids (db w)"
  shows "others_rows (clm_UserID c) (db (snd (h_orders_create wired_hooks (Some c) body w))) =
      others_rows (clm_UserID c) (db w) \<and>
    others_rows (clm_UserID c) (db (snd (h_orders_pay wired_hooks env (Some c) i pm w))) =
      others_rows (clm_UserID c) (db w) \<and>
    others_rows (clm_UserID c) (db (snd (h_orders_cancel (Some c) i w))) = others_rows (clm_UserID c) (db w) \<and>
    others_rows (clm_UserID c) (db (snd (h_orders_refund wired_hooks env (Some c) i w))) =
      others_rows (clm_UserID c) (db w) \<and>
    others_rows (clm_UserID c) (db (snd (h_enrollments_enrollFree (Some c) i w))) = others_rows (clm_UserID c) (db w)"
  unfolding h_orders_create_def h_orders_pay_def h_orders_cancel_def h_orders_refund_def
    h_enrollments_enrollFree_def h_orders_prodBlock_def with_claims_def with_body_def option.case
  by (intro conjI own_from_others [OF _ assms] with_ids.within_rules own_call own_create own_pay own_cancel
      own_refund own_free wired_hooks_own)

text \<open>A stranger pays somebody's order while an own enrollment is being revoked.\<close>

definition stranger_world :: world where
  "stranger_world = (demo_world (demo_database [demo_order ''o1'' OrdersStatusPending] []))
    \<lparr>script := [(Fine, \<lambda>d. d\<lparr>t_enrollments := filter (\<lambda>e. enr_UserID e \<noteq> ''u2'') (t_enrollments d)\<rparr>)]\<rparr>"

theorem order_owner_only_witness:
  "others_rows ''u2'' (db (snd (h_orders_pay wired_hooks ''development'' (Some (demo_claims ''u2'' ''student''))
     ''o1'' None stranger_world))) = others_rows ''u2'' (db stranger_world)"
proof -
  have "rely_ok (own_orders ''u2'') stranger_world" "row_ids (db stranger_world)"
    by (auto simp: stranger_world_def rely_ok_def own_orders_def others_rows_def row_ids_def demo_world_def
        demo_database_def distinct_map_filter)
  then show ?thesis
    using order_owner_only [of "demo_claims ''u2'' ''student''" stranger_world] by (simp add: demo_claims_def)
qed

end
