(* ===== verification/AuditList.thy ===== *)
theory AuditList
  imports Http Users Demo
begin

text \<open>
  \<open>internal/audit/audit.go\<close> and \<open>internal/handler/audit.go\<close>: the administrators' pages of the audit log, and
  that the pages together show every matching row once.  \<open>unmarshal\<close> stands for \<open>json.Unmarshal\<close>.
\<close>

section \<open>Pages of the log\<close>

record audit_ListParams =
  alp_UserID :: string
  alp_Entity :: string
  alp_Action :: string
  alp_RelatedUserID :: string
  alp_Page :: int
  alp_Limit :: int

record AuditLogView =
  alv_ID :: string
  alv_UserID :: "string option"
  alv_Action :: string
  alv_Entity :: string
  alv_EntityID :: "string option"
  alv_Details :: "json option"
  alv_IPAddress :: "string option"
  alv_UserAgent :: "string option"
  alv_CreatedAt :: int

record audit_ListResult =
  alr_Data :: "AuditLogView list"
  alr_Total :: int
  alr_Page :: int
  alr_Limit :: int

text \<open>The conditions of the \<open>WHERE\<close> clause; a column that is \<open>NULL\<close> equals nothing.\<close>

definition audit_matches :: "audit_ListParams \<Rightarrow> AuditLog \<Rightarrow> bool" where
  "audit_matches p r \<longleftrightarrow>
     (alp_UserID p \<noteq> [] \<longrightarrow> aud_UserID r = Some (alp_UserID p)) \<and>
     (alp_Entity p \<noteq> [] \<longrightarrow> aud_Entity r = alp_Entity p) \<and>
     (alp_Action p \<noteq> [] \<longrightarrow> aud_Action r = alp_Action p) \<and>
     (alp_RelatedUserID p \<noteq> [] \<longrightarrow> aud_UserID r = Some (alp_RelatedUserID p) \<or>
        aud_Entity r = ''user'' \<and> aud_EntityID r = Some (alp_RelatedUserID p))"

text \<open>Details that are no JSON are shown as the text they are.\<close>

definition audit_details :: "(string \<Rightarrow> json option) \<Rightarrow> string option \<Rightarrow> json option" where
  "audit_details unmarshal s =
     (case s of
        None \<Rightarrow> None
      | Some t \<Rightarrow> if t = [] then None
                  else (case unmarshal t of Some j \<Rightarrow> Some j | None \<Rightarrow> Some (JStr t)))"

definition audit_view :: "(string \<Rightarrow> json option) \<Rightarrow> AuditLog \<Rightarrow> AuditLogView" where
  "audit_view unmarshal r =
     \<lparr> alv_ID = aud_ID r, alv_UserID = aud_UserID r, alv_Action = aud_Action r, alv_Entity = aud_Entity r,
       alv_EntityID = aud_EntityID r, alv_Details = audit_details unmarshal (aud_Details r),
       alv_IPAddress = aud_IpAddress r, alv_UserAgent = aud_UserAgent r, alv_CreatedAt = aud_CreatedAt r \<rparr>"

definition audit_page :: "int \<Rightarrow> int" where
  "audit_page n = (if n < 1 then 1 else n)"

definition audit_limit :: "int \<Rightarrow> int" where
  "audit_limit n = (if n < 1 then 20 else if 100 < n then 100 else n)"

text \<open>The offset is a 64-bit product; the server refuses a negative one.\<close>

definition audit_rows :: "audit_ListParams \<Rightarrow> int \<Rightarrow> int \<Rightarrow> AuditLog list io" where
  "audit_rows p limit offset =
     (if offset < 0 then exec (\<lambda>_. Inl (Plain ''Error 1064: You have an error in your SQL syntax''))
      else query (\<lambda>d. take (nat limit) (drop (nat offset)
             (sort_desc aud_CreatedAt (filter (audit_matches p) (t_audit_logs d))))))"

definition audit_List :: "(string \<Rightarrow> json option) \<Rightarrow> audit_ListParams \<Rightarrow> audit_ListResult io" where
  "audit_List unmarshal p =
     (let page = audit_page (alp_Page p);
          limit = audit_limit (alp_Limit p);
          offset = wrap64 ((page - 1) * limit)
      in call (query (\<lambda>d. count_rows (audit_matches p) (t_audit_logs d)))
           (\<lambda>e. fail (Internal ''count audit logs'' e)) (\<lambda>total.
         call (audit_rows p limit offset) (\<lambda>e. fail (Internal ''list audit logs'' e)) (\<lambda>rows.
         ret \<lparr> alr_Data = map (audit_view unmarshal) rows, alr_Total = total, alr_Page = page, alr_Limit = limit \<rparr>)))"

section \<open>Writing\<close>

text \<open>\<open>awp_Details\<close> is what \<open>json.Marshal\<close> makes of the details, \<open>None\<close> for none.\<close>

record audit_WriteParams =
  awp_ID :: string
  awp_UserID :: string
  awp_Action :: string
  awp_Entity :: string
  awp_EntityID :: string
  awp_Details :: "(go_error + string) option"
  awp_IPAddress :: string
  awp_UserAgent :: string
  awp_CreatedAt :: "int option"

definition audit_Write :: "audit_WriteParams \<Rightarrow> unit io" where
  "audit_Write p =
     (if awp_ID p = [] \<or> awp_Action p = [] \<or> awp_Entity p = []
      then fail (Plain ''audit.Write: id, action, entity are required'')
      else case awp_Details p of
        Some (Inl e) \<Rightarrow> fail (Wrap ''audit.Write: marshal details'' e)
      | _ \<Rightarrow> bind go_now (\<lambda>now. q_WriteAuditLog
          \<lparr> aud_ID = awp_ID p, aud_UserID = non_empty (awp_UserID p), aud_Action = awp_Action p,
            aud_Entity = awp_Entity p, aud_EntityID = non_empty (awp_EntityID p),
            aud_Details = (case awp_Details p of Some (Inr s) \<Rightarrow> Some s | _ \<Rightarrow> None),
            aud_IpAddress = non_empty (awp_IPAddress p), aud_UserAgent = non_empty (awp_UserAgent p),
            aud_CreatedAt = (case awp_CreatedAt p of Some t \<Rightarrow> t | None \<Rightarrow> now) \<rparr>))"

text \<open>\<open>q k d\<close> is \<open>c.Query(k, d)\<close>.\<close>

definition h_audit_list :: "(string \<Rightarrow> json option) \<Rightarrow> Claims option \<Rightarrow> (string \<Rightarrow> string \<Rightarrow> string) \<Rightarrow>
    audit_ListResult io" where
  "h_audit_list unmarshal claims q = admin_only claims (audit_List unmarshal
     \<lparr> alp_UserID = q ''userId'' [], alp_Entity = q ''entity'' [], alp_Action = q ''action'' [],
       alp_RelatedUserID = q ''relatedUserId'' [], alp_Page = atoi_value (q ''page'' ''1''),
       alp_Limit = atoi_value (q ''limit'' ''20'') \<rparr>)"

section \<open>The pages together\<close>

definition audit_page_ids :: "audit_ListParams \<Rightarrow> nat \<Rightarrow> world \<Rightarrow> string list" where
  "audit_page_ids p n w =
     (case fst (audit_List (\<lambda>_. None) (p\<lparr>alp_Page := int n\<rparr>) w) of Inr r \<Rightarrow> map alv_ID (alr_Data r) | Inl _ \<Rightarrow> [])"

lemma audit_page_quiet:
  assumes "script w = []" "1 \<le> alp_Limit p" "alp_Limit p \<le> 100" "int n * 100 < 2 ^ 63"
  shows "audit_page_ids p (Suc n) w = map aud_ID (take (nat (alp_Limit p)) (drop (n * nat (alp_Limit p))
    (sort_desc aud_CreatedAt (filter (audit_matches p) (t_audit_logs (db w))))))"
proof -
  have le: "int n * alp_Limit p \<le> int n * 100" using assms(3) by (intro mult_left_mono) auto
  have nonneg: "0 \<le> int n * alp_Limit p" using assms(2) by simp
  have off: "wrap64 (int n * alp_Limit p) = int n * alp_Limit p" "nat (int n * alp_Limit p) = n * nat (alp_Limit p)"
    using le nonneg assms by (simp_all add: wrap64_def nat_mult_distrib)
  have same: "audit_matches (p\<lparr>alp_Page := x\<rparr>) = audit_matches p" for x
    by (simp add: audit_matches_def fun_eq_iff)
  show ?thesis
    using assms(1-3) off nonneg
    by (simp add: audit_page_ids_def audit_List_def audit_page_def audit_limit_def audit_rows_def same go_simps
        audit_view_def comp_def Let_def) (use nonneg in auto)
qed

text \<open>The first \<open>m\<close> pages, read undisturbed, are the newest matching rows in order, none left out and none
  twice.\<close>

theorem audit_pages_cover:
  assumes "script w = []" "1 \<le> alp_Limit p" "alp_Limit p \<le> 100" "int m * 100 < 2 ^ 63"
  shows "concat (map (\<lambda>n. audit_page_ids p (Suc n) w) [0..<m]) = map aud_ID (take (m * nat (alp_Limit p))
    (sort_desc aud_CreatedAt (filter (audit_matches p) (t_audit_logs (db w)))))"
proof -
  have "audit_page_ids p (Suc n) w = map aud_ID (take (nat (alp_Limit p)) (drop (n * nat (alp_Limit p))
      (sort_desc aud_CreatedAt (filter (audit_matches p) (t_audit_logs (db w))))))" if "n < m" for n
    using audit_page_quiet [OF assms(1-3), of n] that assms(4) by simp
  then have "concat (map (\<lambda>n. audit_page_ids p (Suc n) w) [0..<m]) = concat (map (\<lambda>n. map aud_ID
      (take (nat (alp_Limit p)) (drop (n * nat (alp_Limit p))
        (sort_desc aud_CreatedAt (filter (audit_matches p) (t_audit_logs (db w))))))) [0..<m])"
    by (intro arg_cong [of _ _ concat] map_cong) simp_all
  also have "\<dots> = map aud_ID (concat (map (\<lambda>n. take (nat (alp_Limit p)) (drop (n * nat (alp_Limit p))
        (sort_desc aud_CreatedAt (filter (audit_matches p) (t_audit_logs (db w)))))) [0..<m]))"
    by (simp add: map_concat comp_def)
  finally show ?thesis by (simp only: concat_chunks)
qed

end
