(* ===== verification/Enterprise.thy ===== *)
theory Enterprise
  imports ServerAudit Users Demo
begin

text \<open>
  \<open>internal/enterprise/enterprise.go\<close>, \<open>internal/repo/db/enterprise.sql.go\<close> and
  \<open>internal/handler/enterprise.go\<close>: inquiries of companies, which anybody may send and administrators answer.
  The mail hook is an argument, and so is \<open>mail.ParseAddress\<close> (\<open>addr\<close>).
\<close>

abbreviation enterprise_ErrNotFound :: go_error where
  "enterprise_ErrNotFound \<equiv> Sentinel ''enterprise: inquiry not found''"

definition enterprise_validStatus :: "string \<Rightarrow> bool" where
  "enterprise_validStatus s \<longleftrightarrow> s \<in> set [''pending'', ''contacted'', ''qualified'', ''closed'', ''archived'']"

definition validTeamSize :: "string \<Rightarrow> bool" where
  "validTeamSize s \<longleftrightarrow> s \<in> set [''1-10'', ''11-50'', ''51-200'', ''201-1000'', ''1000+'']"

section \<open>Statements\<close>

text \<open>The columns are \<open>VARCHAR(191)\<close>, the description a \<open>TEXT\<close>.\<close>

definition enq_fits :: "EnterpriseInquiry \<Rightarrow> bool" where
  "enq_fits r \<longleftrightarrow> fits_191 (Some (enq_Name r)) \<and> fits_191 (Some (enq_Email r)) \<and> fits_191 (Some (enq_Company r)) \<and>
     fits_191 (enq_Phone r) \<and> fits_191 (Some (enq_Topic r)) \<and>
     (\<forall>s \<in> set_option (enq_Description r). length s \<le> 65535)"

definition insert_inquiry :: "EnterpriseInquiry \<Rightarrow> unit stmt" where
  "insert_inquiry r = (\<lambda>d.
     if \<not> enterprise_validStatus (enq_Status r) then Inl ErrTruncated
     else if \<not> enq_fits r then Inl ErrTooLong
     else if list_ex (\<lambda>x. enq_ID x = enq_ID r) (t_enterprise_inquiries d) then Inl ErrDuplicate
     else Inr ((), d\<lparr>t_enterprise_inquiries := t_enterprise_inquiries d @ [r]\<rparr>))"

definition sql_update_inquiry :: "string \<Rightarrow> int \<Rightarrow> string \<Rightarrow> unit stmt" where
  "sql_update_inquiry status now i = (\<lambda>d.
     if list_ex (\<lambda>r. enq_ID r = i) (t_enterprise_inquiries d) \<and> \<not> enterprise_validStatus status then Inl ErrTruncated
     else Inr ((), d\<lparr>t_enterprise_inquiries := upd (\<lambda>r. enq_ID r = i)
            (\<lambda>r. r\<lparr>enq_Status := status, enq_UpdatedAt := now\<rparr>) (t_enterprise_inquiries d)\<rparr>))"

definition sql_delete_inquiry :: "string \<Rightarrow> unit stmt" where
  "sql_delete_inquiry i = (\<lambda>d. Inr ((), d\<lparr>t_enterprise_inquiries :=
     deleted (\<lambda>r. enq_ID r = i) (t_enterprise_inquiries d)\<rparr>))"

definition q_CreateEnterpriseInquiry :: "EnterpriseInquiry \<Rightarrow> unit io" where
  "q_CreateEnterpriseInquiry r = exec (insert_inquiry r)"

definition q_DeleteEnterpriseInquiry :: "string \<Rightarrow> unit io" where
  "q_DeleteEnterpriseInquiry i = exec (sql_delete_inquiry i)"

definition q_GetEnterpriseInquiryByID :: "string \<Rightarrow> EnterpriseInquiry io" where
  "q_GetEnterpriseInquiryByID i = query_one (\<lambda>d. first_row (\<lambda>r. enq_ID r = i) (t_enterprise_inquiries d))"

definition q_ListEnterpriseInquiries :: "EnterpriseInquiry list io" where
  "q_ListEnterpriseInquiries = query (\<lambda>d. sort_desc enq_CreatedAt
     (filter (\<lambda>r. enq_DeletedAt r = None) (t_enterprise_inquiries d)))"

definition q_UpdateEnterpriseInquiryStatus :: "string \<Rightarrow> int \<Rightarrow> string \<Rightarrow> unit io" where
  "q_UpdateEnterpriseInquiryStatus status now i = exec (sql_update_inquiry status now i)"

section \<open>Repo and service\<close>

definition enterprise_repo_GetByID :: "string \<Rightarrow> EnterpriseInquiry io" where
  "enterprise_repo_GetByID i =
     call (q_GetEnterpriseInquiryByID i)
       (\<lambda>e. if errors_is e ErrNoRows then fail enterprise_ErrNotFound
            else fail (Wrap ''enterprise.repo: get'' e)) ret"

definition enterprise_repo_List :: "EnterpriseInquiry list io" where
  "enterprise_repo_List = call q_ListEnterpriseInquiries (\<lambda>e. fail (Wrap ''enterprise.repo: list'' e)) ret"

record InquiryDTO =
  iqd_ID :: string
  iqd_Name :: string
  iqd_Email :: string
  iqd_Company :: string
  iqd_TeamSize :: string
  iqd_Phone :: "string option"
  iqd_Topic :: string
  iqd_Description :: "string option"
  iqd_Status :: string
  iqd_CreatedAt :: string
  iqd_UpdatedAt :: string

definition toInquiryDTO :: "EnterpriseInquiry \<Rightarrow> InquiryDTO" where
  "toInquiryDTO r =
     \<lparr> iqd_ID = enq_ID r, iqd_Name = enq_Name r, iqd_Email = enq_Email r, iqd_Company = enq_Company r,
       iqd_TeamSize = enq_TeamSize r, iqd_Phone = enq_Phone r, iqd_Topic = enq_Topic r,
       iqd_Description = enq_Description r, iqd_Status = enq_Status r,
       iqd_CreatedAt = fmt_iso (enq_CreatedAt r), iqd_UpdatedAt = fmt_iso (enq_UpdatedAt r) \<rparr>"

record enterprise_CreateInput =
  eci_Name :: string
  eci_Email :: string
  eci_Company :: string
  eci_TeamSize :: string
  eci_Phone :: string
  eci_Topic :: string
  eci_Description :: string

text \<open>A failing audit row is logged and dropped.\<close>

definition enterprise_writeAudit :: "string \<Rightarrow> string \<Rightarrow> (string \<times> string) list \<Rightarrow> unit io" where
  "enterprise_writeAudit action i details =
     bind new_uuid (\<lambda>aid. bind go_now (\<lambda>now. ignoring (q_WriteAuditLog
       \<lparr> aud_ID = aid, aud_UserID = None, aud_Action = action, aud_Entity = ''enterprise_inquiry'',
         aud_EntityID = Some i, aud_Details = Some (json_object details), aud_IpAddress = None,
         aud_UserAgent = None, aud_CreatedAt = now \<rparr>) (ret ())))"

definition new_inquiry :: "string \<Rightarrow> enterprise_CreateInput \<Rightarrow> int \<Rightarrow> EnterpriseInquiry" where
  "new_inquiry i a now =
     \<lparr> enq_ID = i, enq_Name = eci_Name a, enq_Email = eci_Email a, enq_Company = eci_Company a,
       enq_TeamSize = eci_TeamSize a, enq_Phone = non_empty (eci_Phone a), enq_Topic = eci_Topic a,
       enq_Description = non_empty (eci_Description a), enq_Status = ''pending'', enq_DeletedAt = None,
       enq_CreatedAt = now, enq_UpdatedAt = now \<rparr>"

definition enterprise_Create :: "enterprise_CreateInput \<Rightarrow> InquiryDTO io" where
  "enterprise_Create a =
     (if eci_Name a = [] \<or> eci_Email a = [] \<or> eci_Company a = [] \<or> eci_Topic a = []
      then fail (BadRequest ''name, email, company, topic are required'')
      else if \<not> validTeamSize (eci_TeamSize a)
      then fail (BadRequest ''teamSize must be one of 1-10, 11-50, 51-200, 201-1000, 1000+'')
      else bind go_now (\<lambda>now. bind new_uuid (\<lambda>i.
        call (q_CreateEnterpriseInquiry (new_inquiry i a now)) (\<lambda>e. fail (Internal ''create inquiry'' e)) (\<lambda>_.
        call (enterprise_repo_GetByID i) (\<lambda>e. fail (Internal ''reload inquiry'' e)) (\<lambda>r.
        bind (enterprise_writeAudit ''enterprise_inquiry_created'' (enq_ID r)
          [(''company'', json_string (enq_Company r)),
           (''description'', case enq_Description r of None \<Rightarrow> ''null'' | Some s \<Rightarrow> json_string s),
           (''email'', json_string (enq_Email r)), (''name'', json_string (enq_Name r)),
           (''teamSize'', json_string (enq_TeamSize r)), (''topic'', json_string (enq_Topic r))]) (\<lambda>_.
        ret (toInquiryDTO r)))))))"

definition enterprise_List :: "InquiryDTO list io" where
  "enterprise_List =
     call enterprise_repo_List (\<lambda>e. fail (Internal ''list inquiries'' e)) (\<lambda>rows. ret (map toInquiryDTO rows))"

definition shouldNotifyOnStatus :: "string \<Rightarrow> string \<Rightarrow> bool" where
  "shouldNotifyOnStatus old new \<longleftrightarrow>
     (if new = ''contacted'' then old = ''pending''
      else if new = ''qualified'' then old = ''pending'' \<or> old = ''contacted'' else False)"

definition inquiry_mail :: "EnterpriseInquiry \<Rightarrow> string" where
  "inquiry_mail r = ''Hello '' @ enq_Name r @ '','' @ [CHR 0x0A, CHR 0x0A] @ ''Your enterprise inquiry (topic: '' @
     enq_Topic r @ '') has been moved to status '' @ [CHR 0x27] @ enq_Status r @ [CHR 0x27] @
     ''. We'' @ [CHR 0x27] @ ''ll be in touch shortly.'' @ [CHR 0x0A, CHR 0x0A] @ msg_enq_team"

text \<open>\<open>notify\<close> is the installed \<open>ResendNotifier\<close>: id, recipient, subject and text.\<close>

definition lookup_inquiry :: "string \<Rightarrow> (EnterpriseInquiry \<Rightarrow> 'a io) \<Rightarrow> 'a io" where
  "lookup_inquiry i k =
     call (enterprise_repo_GetByID i)
       (\<lambda>e. if e = enterprise_ErrNotFound then fail (NotFound ''Inquiry not found'')
            else fail (Internal ''get inquiry'' e)) k"

definition enterprise_UpdateStatus :: "(string \<Rightarrow> string \<Rightarrow> string \<Rightarrow> string \<Rightarrow> unit io) \<Rightarrow> string \<Rightarrow> string \<Rightarrow> InquiryDTO io" where
  "enterprise_UpdateStatus notify i status =
     (if \<not> enterprise_validStatus status
      then fail (BadRequest ''status must be pending, contacted, qualified, closed, or archived'')
      else lookup_inquiry i (\<lambda>existing. bind go_now (\<lambda>now.
        call (q_UpdateEnterpriseInquiryStatus status now i) (\<lambda>e. fail (Internal ''update status'' e)) (\<lambda>_.
        call (enterprise_repo_GetByID i) (\<lambda>e. fail (Internal ''reload inquiry'' e)) (\<lambda>r.
        bind (enterprise_writeAudit ''enterprise_inquiry_status_update'' i
          [(''email'', json_string (enq_Email r)), (''from'', json_string (enq_Status existing)),
           (''to'', json_string (enq_Status r))]) (\<lambda>_.
        bind (if shouldNotifyOnStatus (enq_Status existing) (enq_Status r)
              then notify i (enq_Email r) ''Your inquiry has been updated'' (inquiry_mail r) else ret ()) (\<lambda>_.
        ret (toInquiryDTO r))))))))"

definition enterprise_Delete :: "string \<Rightarrow> unit io" where
  "enterprise_Delete i = lookup_inquiry i (\<lambda>existing.
     call (q_DeleteEnterpriseInquiry i) (\<lambda>e. fail (Internal ''delete inquiry'' e)) (\<lambda>_.
     enterprise_writeAudit ''enterprise_inquiry_deleted'' i
       [(''company'', json_string (enq_Company existing)), (''email'', json_string (enq_Email existing))]))"

section \<open>Endpoints\<close>

definition trimmed_inquiry :: "enterprise_CreateInput \<Rightarrow> enterprise_CreateInput" where
  "trimmed_inquiry b =
     \<lparr> eci_Name = trim_space (eci_Name b), eci_Email = trim_space (eci_Email b),
       eci_Company = trim_space (eci_Company b), eci_TeamSize = eci_TeamSize b,
       eci_Phone = trim_space (eci_Phone b), eci_Topic = trim_space (eci_Topic b),
       eci_Description = trim_space (eci_Description b) \<rparr>"

definition h_enterprise_create :: "(string \<Rightarrow> bool) \<Rightarrow> enterprise_CreateInput option \<Rightarrow> InquiryDTO io" where
  "h_enterprise_create addr body = with_body body (\<lambda>b.
     if \<not> addr (trim_space (eci_Email b)) then fail (BadRequest ''email is invalid'')
     else enterprise_Create (trimmed_inquiry b))"

definition h_enterprise_list :: "Claims option \<Rightarrow> InquiryDTO list io" where
  "h_enterprise_list claims = admin_only claims enterprise_List"

definition h_enterprise_updateStatus :: "(string \<Rightarrow> string \<Rightarrow> string \<Rightarrow> string \<Rightarrow> unit io) \<Rightarrow> Claims option \<Rightarrow> string \<Rightarrow>
    string option \<Rightarrow> InquiryDTO io" where
  "h_enterprise_updateStatus notify claims i body = admin_only claims (with_body body (enterprise_UpdateStatus notify i))"

definition h_enterprise_delete :: "Claims option \<Rightarrow> string \<Rightarrow> bool io" where
  "h_enterprise_delete claims i = admin_only claims (call (enterprise_Delete i) fail (\<lambda>_. ret True))"

section \<open>What the endpoints may do to the database\<close>

text \<open>The service stores inquiries in order only, and only known statuses.\<close>

definition enq_ok :: "EnterpriseInquiry \<Rightarrow> bool" where
  "enq_ok r \<longleftrightarrow> enterprise_validStatus (enq_Status r) \<and> validTeamSize (enq_TeamSize r) \<and> enq_fits r \<and>
     enq_Name r \<noteq> [] \<and> enq_Email r \<noteq> [] \<and> enq_Company r \<noteq> [] \<and> enq_Topic r \<noteq> []"

locale inquiry_writes = db_frame +
  fixes notify :: "string \<Rightarrow> string \<Rightarrow> string \<Rightarrow> string \<Rightarrow> unit io"
  assumes ok_insert_inquiry: "(enq_fits r \<Longrightarrow> enq_ok r) \<Longrightarrow> stmt_ok R (insert_inquiry r)"
    and ok_update_inquiry: "enterprise_validStatus s \<Longrightarrow> stmt_ok R (sql_update_inquiry s now i)"
    and ok_delete_inquiry: "stmt_ok R (sql_delete_inquiry i)"
    and ok_inquiry_audit: "stmt_ok R (insert_audit_log a)"
    and ok_inquiry_mail: "within (db_step R) (notify i e s t)"
begin

lemma within_inquiry_reads:
  "within (db_step R) (enterprise_repo_GetByID i)" "within (db_step R) (enterprise_writeAudit a i x)"
  "within (db_step R) (q_DeleteEnterpriseInquiry i)"
  unfolding enterprise_repo_GetByID_def q_GetEnterpriseInquiryByID_def enterprise_writeAudit_def q_WriteAuditLog_def
    q_DeleteEnterpriseInquiry_def
  by (intro within_intros within_exec ok_inquiry_audit ok_delete_inquiry)+

lemma within_inquiry_create: "within (db_step R) (enterprise_Create a)"
  unfolding enterprise_Create_def q_CreateEnterpriseInquiry_def
  by (intro within_intros within_inquiry_reads within_exec ok_insert_inquiry)
    (auto simp: enq_ok_def new_inquiry_def enterprise_validStatus_def)

lemma within_inquiry_update: "within (db_step R) (enterprise_UpdateStatus notify i s)"
  unfolding enterprise_UpdateStatus_def lookup_inquiry_def q_UpdateEnterpriseInquiryStatus_def
  by (intro within_intros within_inquiry_reads within_exec ok_update_inquiry ok_inquiry_mail) simp

lemma within_inquiry_endpoints:
  "within (db_step R) (h_enterprise_create addr b)"
  "within (db_step R) (h_enterprise_updateStatus notify cl i s)"
  "within (db_step R) (h_enterprise_delete cl i)"
  unfolding h_enterprise_create_def h_enterprise_updateStatus_def h_enterprise_delete_def enterprise_Delete_def
    lookup_inquiry_def
  by (intro http_intros within_inquiry_create within_inquiry_update within_inquiry_reads)+

end

section \<open>What an inquiry goes through\<close>

definition inquiry_table :: "database \<Rightarrow> bool" where
  "inquiry_table d \<longleftrightarrow> distinct (map enq_ID (t_enterprise_inquiries d)) \<and> list_all enq_ok (t_enterprise_inquiries d)"

lemma inquiry_table_stmts:
  "(enq_fits r \<Longrightarrow> enq_ok r) \<Longrightarrow> stmt_ok (preserves inquiry_table) (insert_inquiry r)"
  "enterprise_validStatus s \<Longrightarrow> stmt_ok (preserves inquiry_table) (sql_update_inquiry s now i)"
  "stmt_ok (preserves inquiry_table) (sql_delete_inquiry i)"
  "stmt_ok (preserves inquiry_table) (insert_audit_log a)"
proof -
  show "stmt_ok (preserves inquiry_table) (insert_inquiry r)" if "enq_fits r \<Longrightarrow> enq_ok r"
    using that by (auto simp: stmt_ok_def preserves_def insert_inquiry_def inquiry_table_def list_ex_iff split: if_splits)
  show "stmt_ok (preserves inquiry_table) (sql_update_inquiry s now i)" if "enterprise_validStatus s"
    using that by (fastforce simp: stmt_ok_def preserves_def sql_update_inquiry_def inquiry_table_def map_upd_frame
        list_all_iff set_upd enq_ok_def enq_fits_def split: if_splits)
  show "stmt_ok (preserves inquiry_table) (sql_delete_inquiry i)"
    by (auto simp: stmt_ok_def preserves_def sql_delete_inquiry_def inquiry_table_def deleted_def list_all_iff
        distinct_map_filter)
  show "stmt_ok (preserves inquiry_table) (insert_audit_log a)"
    by (auto simp: stmt_ok_def preserves_def insert_audit_log_def inquiry_table_def split: if_splits)
qed

text \<open>The hook of the server writes a line to the log.\<close>

definition logged_mail :: "string \<Rightarrow> string \<Rightarrow> string \<Rightarrow> string \<Rightarrow> unit io" where
  "logged_mail i email subject body = ret ()"

interpretation inquiry_keep: inquiry_writes "preserves inquiry_table" logged_mail
  by unfold_locales (simp_all add: inquiry_table_stmts logged_mail_def inv_db.steps.within_ret)

text \<open>Under failures and well-behaved interference the inquiries stay well formed: distinct ids, a known
  status and team size, the required fields filled and every field within its column.\<close>

theorem inquiries_well_typed:
  assumes "rely_ok (preserves inquiry_table) w" "inquiry_table (db w)"
  shows "inquiry_table (db (snd (h_enterprise_create addr b w))) \<and>
    inquiry_table (db (snd (h_enterprise_updateStatus logged_mail cl i s w))) \<and>
    inquiry_table (db (snd (h_enterprise_delete cl i w)))"
  by (intro conjI keeps_run [OF _ assms] inquiry_keep.within_inquiry_endpoints)

text \<open>An undisturbed change of the status writes the status and the time of the change only, and sends the
  mail exactly when the inquiry moves forward to \<open>contacted\<close> or \<open>qualified\<close>.\<close>

lemma inquiry_audit_quiet:
  assumes "script w = []"
  shows "\<exists>v. enterprise_writeAudit a i x w = (Inr (), v) \<and> t_enterprise_inquiries (db v) = t_enterprise_inquiries (db w)"
  using assms by (auto simp: enterprise_writeAudit_def q_WriteAuditLog_def go_simps insert_audit_log_def
      split: sum.splits)

theorem status_mail_exact:
  assumes "script w = []" "enterprise_validStatus s"
    and r: "first_row (\<lambda>r. enq_ID r = i) (t_enterprise_inquiries (db w)) = Some r"
  shows "\<exists>v t. t_enterprise_inquiries (db v) = upd (\<lambda>x. enq_ID x = i)
      (\<lambda>x. x\<lparr>enq_Status := s, enq_UpdatedAt := t\<rparr>) (t_enterprise_inquiries (db w)) \<and>
    enterprise_UpdateStatus notify i s w =
      (if shouldNotifyOnStatus (enq_Status r) s
       then bind (notify i (enq_Email r) ''Your inquiry has been updated''
              (inquiry_mail (r\<lparr>enq_Status := s, enq_UpdatedAt := t\<rparr>)))
            (\<lambda>_. ret (toInquiryDTO (r\<lparr>enq_Status := s, enq_UpdatedAt := t\<rparr>))) v
       else (Inr (toInquiryDTO (r\<lparr>enq_Status := s, enq_UpdatedAt := t\<rparr>)), v))"
proof -
  define t where "t = clock w"
  define f where "f = (\<lambda>x :: EnterpriseInquiry. x\<lparr>enq_Status := s, enq_UpdatedAt := t\<rparr>)"
  define w0 where "w0 = snd ((go_now :: int io) w)"
  define w1 where "w1 = w0\<lparr>db := (db w)\<lparr>t_enterprise_inquiries :=
    upd (\<lambda>x. enq_ID x = i) f (t_enterprise_inquiries (db w))\<rparr>\<rparr>"
  have w0: "(go_now :: int io) w = (Inr t, w0)" "script w0 = []" "db w0 = db w"
    using assms(1) by (simp_all add: w0_def t_def go_simps Let_def)
  have new: "first_row (\<lambda>x. enq_ID x = i) (t_enterprise_inquiries (db w1)) = Some (f r)"
    using r first_row_Some [OF r] by (simp add: w1_def first_row_upd f_def)
  have w1: "script w1 = []" "t_enterprise_inquiries (db w1) = upd (\<lambda>x. enq_ID x = i) f (t_enterprise_inquiries (db w))"
    using w0 by (simp_all add: w1_def)
  obtain v where v: "enterprise_writeAudit ''enterprise_inquiry_status_update'' i
      [(''email'', json_string (enq_Email (f r))), (''from'', json_string (enq_Status r)),
       (''to'', json_string (enq_Status (f r)))] w1 = (Inr (), v)"
    "t_enterprise_inquiries (db v) = t_enterprise_inquiries (db w1)"
    using inquiry_audit_quiet [OF w1(1)] by blast
  have "enterprise_UpdateStatus notify i s w =
      (if shouldNotifyOnStatus (enq_Status r) s
       then bind (notify i (enq_Email r) ''Your inquiry has been updated'' (inquiry_mail (f r)))
            (\<lambda>_. ret (toInquiryDTO (f r))) v
       else (Inr (toInquiryDTO (f r)), v))"
  proof -
    have upd: "q_UpdateEnterpriseInquiryStatus s t i w0 = (Inr (), w1)"
      using w0 assms(2) by (simp add: q_UpdateEnterpriseInquiryStatus_def sql_update_inquiry_def w1_def f_def go_simps)
    have get: "enterprise_repo_GetByID i w = (Inr r, w)" "enterprise_repo_GetByID i w1 = (Inr (f r), w1)"
      using assms(1) w1(1) r new
      by (simp_all add: enterprise_repo_GetByID_def q_GetEnterpriseInquiryByID_def go_simps)
    have "enterprise_UpdateStatus notify i s w =
        bind (if shouldNotifyOnStatus (enq_Status r) (enq_Status (f r))
              then notify i (enq_Email (f r)) ''Your inquiry has been updated'' (inquiry_mail (f r)) else ret ())
          (\<lambda>_. ret (toInquiryDTO (f r))) v"
      using assms(2) w0(1) upd get v(1)
      by (simp add: enterprise_UpdateStatus_def lookup_inquiry_def bind_def call_def)
    then show ?thesis by (simp add: f_def bind_def call_def ret_def)
  qed
  then show ?thesis
    using v(2) w1(2) unfolding f_def by (intro exI [of _ v] exI [of _ t] conjI) simp_all
qed

end
