(* ===== verification/Spec2Isabelle.thy ===== *)
theory Spec2Isabelle
  imports Wiring ProgressFacts Points TokenFacts ResetFacts FlowFacts UserScope PracticeFacts Reviews Notes
    ContentFacts LearningEvents CourseFacts Degrees Itoa Routes HackathonRuns UploadRuns
    OrderScope AuditList Enterprise
begin

text \<open>
  A model of the Go API of a learning platform (\<open>src/apps/api-go\<close>) with the theorems that make it correct.
  The program is a Fiber server over a MySQL database.  \<open>cmd/server/main.go\<close> wires the parts: each package
  under \<open>internal\<close> has a repo (SQL statements generated by sqlc into \<open>internal/repo/db\<close>), a service (the
  rules) and an endpoint file in \<open>internal/handler\<close>; packages call each other only through the hooks that
  \<open>main.go\<close> installs.  The model follows that structure: one statement of the database is one atomic step,
  repos and services are programs of such steps, and endpoints are programs on claims and parsed bodies.

  \<^bold>\<open>The machine.\<close>
  \<^item> \<open>Prelude\<close>: Go's string functions, decimal printing and parsing, the program type \<open>('s, 'e, 'a) prog\<close> (a Go
    function that returns a value or an error and changes a state) with \<open>ret\<close>, \<open>fail\<close>, \<open>call m h k\<close> (the idiom
    \<open>x, err := m; if err != nil { h }; k\<close>), \<open>bind\<close>, \<open>ignoring\<close> and \<open>for_each\<close>, and the effect of SQL statements
    on lists of rows.  The collections \<open>go_simps\<close> and \<open>row_simps\<close> evaluate them.
  \<^item> \<open>TimeFmt\<close>, \<open>GoText\<close>, \<open>Float64\<close>, \<open>Digest\<close>, \<open>Messages\<close>: calendar time and its formats, JSON text and \<open>LIKE\<close>,
    \<open>float64\<close> as integers with one correct rounding, SHA-256 and base64, and the Chinese literals as bytes.
  \<^item> \<open>Errs\<close> (\<open>internal/errs\<close>): error values as a datatype, \<open>errors.Is\<close>, the status of the answer.
  \<^item> \<open>Rows\<close> and \<open>Tables\<close>: the row types of \<open>internal/repo/db/models.go\<close> as records, the tables of
    \<open>db/migrations/0001_init.sql\<close> as a record of lists, and the constraints an \<open>INSERT\<close> can hit.
  \<^item> \<open>Store\<close>: the \<open>world\<close> (database, clock, random sources, started goroutines) and its \<open>script\<close>: before every
    statement other requests may commit anything, and the connection may break before or after the statement
    took effect.  \<open>within (db_step R) m\<close> says that every statement of \<open>m\<close> obeys the relation \<open>R\<close>; the locale
    \<open>db_frame\<close> has its rules (\<open>within_intros\<close>), \<open>rg\<close> is a rely/guarantee logic for facts that survive
    interference.  \<open>States\<close> is the in-memory store of OAuth states with the locale \<open>state_store\<close>.

  \<^bold>\<open>The parts.\<close>
  \<^item> Orders: \<open>Enrollments\<close>, \<open>Orders\<close>, \<open>Refund\<close> (\<open>internal/enrollments\<close>, \<open>internal/orders\<close>); \<open>OrderLife\<close> has the
    abstract state machine of an order, \<open>OrderResults\<close> that the operations refine it, that a payment succeeds
    at most once and what each operation returns; \<open>Refund\<close> that the floating-point rules are the integer ones.
  \<^item> Achievements: \<open>Certificates\<close>, \<open>CertFacts\<close>, \<open>Badges\<close>, \<open>BadgeFacts\<close>, \<open>Notifications\<close>, \<open>Progress\<close>,
    \<open>ProgressFacts\<close>, \<open>Points\<close>; \<open>Wiring\<close> runs the orders with the hooks \<open>main.go\<close> installs.
    \<open>OrderHandlers\<close> has the endpoints of all of these, \<open>OrderScope\<close> that they leave the rows of others alone.
  \<^item> Sign-in (\<open>internal/auth\<close>): \<open>AuthStore\<close>, \<open>Tokens\<close>, \<open>Credentials\<close>, \<open>PasswordReset\<close>, \<open>Providers\<close>, \<open>External\<close>,
    \<open>AuthService\<close>, \<open>AuthHandlers\<close>; \<open>TokenFacts\<close>, \<open>ResetFacts\<close>, \<open>AuthFacts\<close> and \<open>FlowFacts\<close> hold that tokens,
    reset links and states are used at most once, that issued ones are accepted and by whom, and that accounts
    keep their keys.
  \<^item> Accounts: \<open>Users\<close>, \<open>UserDetail\<close>, \<open>UserService\<close>, \<open>UserHandlers\<close>; \<open>UserFacts\<close> and \<open>UserScope\<close> hold who reaches
    which account and how the last administrator is guarded.
  \<^item> Content: \<open>Courses\<close>, \<open>CourseService\<close>, \<open>Degrees\<close>, \<open>Chapters\<close>, \<open>Lessons\<close>, \<open>Resources\<close>, \<open>Practices\<close>,
    \<open>PracticeService\<close>, \<open>Reviews\<close>, \<open>Notes\<close>, \<open>LearningEvents\<close>, with \<open>ServerAudit\<close> and \<open>Http\<close> for what they share;
    \<open>CourseFacts\<close>, \<open>ContentFacts\<close>, \<open>PracticeFacts\<close> and the component theories hold the invariants of their
    tables and what reordering, deleting and completing do.  \<open>Itoa\<close> has the two hand-written number printers.
  \<^item> Hackathons (\<open>internal/hackathons\<close>): \<open>HackathonStore\<close>, \<open>HackathonRepo\<close>, \<open>Hackathons\<close>, \<open>HackathonTeams\<close>;
    \<open>HackathonFacts\<close> keeps the eight tables well formed, \<open>HackathonRuns\<close> has the runs that go wrong.
  \<^item> Uploads (\<open>internal/uploads\<close>): \<open>ObjectStorage\<close> has the interface \<open>Storage\<close> with its local and in-memory forms
    (locale \<open>storage_frame\<close>, interpreted on both), \<open>Uploads\<close> the scopes, the service and the endpoints, whose
    state is the world and the storage; \<open>UploadFacts\<close> holds what a \<open>PUT\<close> and the completion may write,
    \<open>UploadRuns\<close> the way of an upload from its signature to its completion.
  \<^item> \<open>AuditList\<close> (\<open>internal/audit\<close>): the pages of the audit log, which show every row once; \<open>Enterprise\<close>
    (\<open>internal/enterprise\<close>): inquiries of companies, kept well formed, and when a mail goes out.
  \<^item> \<open>Routes\<close>: the \<open>Mount\<close> methods as lists of entries in the order they are registered and the guards of
    \<open>internal/middleware/auth.go\<close>; the access table is proved against them.

  \<^bold>\<open>How the theorems read.\<close>  Invariants and safety properties hold for every script whose interference obeys the
  same relation (\<open>rely_ok\<close>); they come from the locales of the form \<open>..._writes\<close>, which prove once that a
  group of endpoints consists of statements obeying any \<open>R\<close>, and their interpretations on the relation at hand
  (\<open>preserves I\<close> for an invariant \<open>I\<close>, or a relation on two states of a table).  Functional properties are for an
  undisturbed run (\<open>script w = []\<close>), error properties exhibit the run.  \<open>Demo\<close> has the data of the instances.

  \<^bold>\<open>Bounds and fuel.\<close>  No definition has a fuel argument: loops of the code run over finite lists and are
  structural recursions, except the printers of \<open>Itoa\<close>, which are partial functions and proved to end.
  \<open>int32\<close> and \<open>int\<close> arithmetic that can wrap goes through \<open>wrap32\<close> and \<open>wrap64\<close>, SHA-256 through 32-bit words.
  A double is an integer multiple of \<open>2^-120\<close>, enough for every value the code computes (see \<open>Float64\<close>).

  \<^bold>\<open>Parameters.\<close>  What is not under \<open>src\<close> is an argument: bcrypt, the JWT, OAuth2 and SAML libraries, HTTP
  clients, mail delivery, \<open>mail.ParseAddress\<close>, \<open>url.ParseRequestURI\<close> (\<open>uri\<close>), the server's reading of a text as
  \<open>DECIMAL\<close> (\<open>dec\<close>) or as JSON (\<open>null_ok\<close>), the order of Go's map iteration (\<open>pick\<close>), conversions of a double
  outside the range of an integer, \<open>http.DetectContentType\<close> (\<open>sniff\<close>), \<open>json.Unmarshal\<close> of stored audit
  details, what other requests do to the disk before a \<open>PUT\<close> links its file (\<open>others\<close>), and Fiber's matching of paths (hypothesis \<open>fiber_router\<close>).

  \<^bold>\<open>Simplifications.\<close>  Text is a list of bytes; MySQL compares it byte by byte (no collation), \<open>LIKE\<close> folds
  ASCII case only, \<open>strings.ToLower\<close> and \<open>TrimSpace\<close> act on ASCII.  Instants are milliseconds in UTC, also for
  the calendar year of serial numbers.  A transaction is one step, its begin and commit failing like any statement.  The
  width of a column is checked where the code lets longer values through.  Log calls, \<open>rows.Err\<close> and tracing
  have no effect; bodies enter parsed (keys of JSON objects that differ in case only are not told apart by Go,
  and are one field here); \<open>HEAD\<close> routes follow their \<open>GET\<close> routes.

  \<^bold>\<open>Not modelled.\<close>
  The Redis state store, the construction of the SAML provider from files, the Resend request, opening
  connections, configuration, logging, metrics and shutdown (glue around libraries).  The AI configuration and
  import of pages (\<open>internal/ai\<close>, \<open>internal/urlimport\<close>, \<open>internal/chat\<close>): their behaviour is that of remote services.
  \<open>internal/cms\<close>, \<open>internal/site\<close> and \<open>internal/admin\<close>: settings tables without rules and counts for dashboards.
  Instructors are modelled with their routes only.
  The generated OpenAPI code under \<open>api/gen\<close> serves the liveness route only; the web and mobile clients are
  TypeScript.
\<close>

end
